(* ===== verification/Prelude.thy ===== *)
theory Prelude
  imports Main
begin

text \<open>
  Shared vocabulary of the development: ECMAScript strings and the string operations
  the site uses, finite lists addressed by index, reachability of event-driven
  components and the interfaces (locales) that several components implement.

  A JavaScript string is a finite sequence of UTF-16 code units. It is modelled by
  \<open>jstr\<close>, a list of natural numbers, one per code unit, so that \<open>length\<close>, indexing and
  slicing count what \<open>String.prototype.length\<close> and \<open>slice\<close> count. ASCII literals of the
  source are written \<open>js ''...''\<close>; other code units are written as numbers.
\<close>

section \<open>Strings of code units\<close>

type_synonym jstr = "nat list"

abbreviation cu :: "char \<Rightarrow> nat" where
  "cu \<equiv> of_char"

definition js :: "string \<Rightarrow> jstr" where
  "js s = map of_char s"

lemma js_eq_iff [simp]: "js a = js b \<longleftrightarrow> a = b"
  by (simp add: js_def inj_map_eq_map inj_of_char)

lemma js_simps [simp]:
  "js [] = []" "js (c # s) = cu c # js s" "js (s @ t) = js s @ js t"
  "length (js s) = length s"
  by (simp_all add: js_def)

declare js_simps(2) [simp del]

named_theorems js_eval \<open>rules that turn literals into code units\<close>

lemmas [js_eval] = js_def

text \<open>The code units that \<open>\s\<close>, \<open>trim\<close> and \<open>trimEnd\<close> treat as white space.\<close>

definition is_ws :: "nat \<Rightarrow> bool" where
  "is_ws c \<longleftrightarrow>
     9 \<le> c \<and> c \<le> 13 \<or> c = 32 \<or> c = 160 \<or> c = 5760 \<or> 8192 \<le> c \<and> c \<le> 8202 \<or>
     c = 8232 \<or> c = 8233 \<or> c = 8239 \<or> c = 8287 \<or> c = 12288 \<or> c = 65279"

definition is_digit :: "nat \<Rightarrow> bool" where
  "is_digit c \<longleftrightarrow> 48 \<le> c \<and> c \<le> 57"

definition is_alpha :: "nat \<Rightarrow> bool" where
  "is_alpha c \<longleftrightarrow> 65 \<le> c \<and> c \<le> 90 \<or> 97 \<le> c \<and> c \<le> 122"

text \<open>The \<open>WordCharacters\<close> set that \<open>\b\<close> looks at: \<open>[A-Za-z0-9_]\<close>.\<close>

definition is_word :: "nat \<Rightarrow> bool" where
  "is_word c \<longleftrightarrow> is_alpha c \<or> is_digit c \<or> c = 95"

text \<open>Line terminators, which \<open>.\<close> does not match.\<close>

definition is_line_end :: "nat \<Rightarrow> bool" where
  "is_line_end c \<longleftrightarrow> c = 10 \<or> c = 13 \<or> c = 8232 \<or> c = 8233"

lemmas char_class_defs = is_ws_def is_digit_def is_alpha_def is_word_def is_line_end_def

definition trimEnd :: "jstr \<Rightarrow> jstr" where
  "trimEnd s = rev (dropWhile is_ws (rev s))"

definition trim :: "jstr \<Rightarrow> jstr" where
  "trim s = trimEnd (dropWhile is_ws s)"

text \<open>\<open>s.slice(i, j)\<close> and \<open>s.slice(i)\<close> for indices that are not negative.\<close>

definition slice :: "'a list \<Rightarrow> nat \<Rightarrow> nat \<Rightarrow> 'a list" where
  "slice s i j = take (j - i) (drop i s)"

fun startsWith :: "jstr \<Rightarrow> jstr \<Rightarrow> bool" where
  "startsWith s [] = True"
| "startsWith [] (p # ps) = False"
| "startsWith (c # s) (p # ps) = (c = p \<and> startsWith s ps)"

lemma startsWith_iff: "startsWith s p \<longleftrightarrow> (\<exists>t. s = p @ t)"
  by (induction s p rule: startsWith.induct) auto

lemma startsWith_append [simp]: "startsWith (p @ t) p"
  by (auto simp: startsWith_iff)

text \<open>\<open>s.split(sep)\<close> for a separator of one code unit, and \<open>xs.join(sep)\<close>.\<close>

fun split_at :: "nat \<Rightarrow> jstr \<Rightarrow> jstr list" where
  "split_at sep [] = [[]]"
| "split_at sep (c # s) =
     (if c = sep then [] # split_at sep s
      else (case split_at sep s of [] \<Rightarrow> [[c]] | l # ls \<Rightarrow> (c # l) # ls))"

fun join :: "jstr \<Rightarrow> jstr list \<Rightarrow> jstr" where
  "join sep [] = []"
| "join sep [x] = x"
| "join sep (x # y # xs) = x @ sep @ join sep (y # xs)"

lemma split_at_nonempty [simp]: "split_at sep s \<noteq> []"
  by (induction s) (auto split: list.splits)

lemma join_Cons: "xs \<noteq> [] \<Longrightarrow> join sep (x # xs) = x @ sep @ join sep xs"
  by (cases xs) auto

lemma join_split_at [simp]: "join [sep] (split_at sep s) = s"
proof (induction s)
  case Nil
  then show ?case by simp
next
  case (Cons c s)
  obtain l ls where ls: "split_at sep s = l # ls"
    using split_at_nonempty by (metis list.exhaust)
  with Cons.IH have "join [sep] (l # ls) = s" by simp
  then show ?case using ls by (cases ls) auto
qed

lemma split_at_no_sep: "l \<in> set (split_at sep s) \<Longrightarrow> sep \<notin> set l"
proof (induction s arbitrary: l)
  case Nil
  then show ?case by simp
next
  case (Cons c s)
  then show ?case by (auto split: list.splits if_splits)
qed

lemma split_at_length: "length (split_at sep s) = Suc (count_list s sep)"
proof (induction s)
  case Nil
  then show ?case by simp
next
  case (Cons c s)
  then show ?case by (auto split: list.splits)
qed

lemma split_at_append_sep: "split_at sep (x @ sep # y) = split_at sep x @ split_at sep y"
proof (induction x)
  case Nil
  then show ?case by simp
next
  case (Cons c x)
  then show ?case by (auto split: list.splits)
qed

lemma split_at_join: "xs \<noteq> [] \<Longrightarrow> split_at sep (join [sep] xs) = concat (map (split_at sep) xs)"
proof (induction xs)
  case Nil
  then show ?case by simp
next
  case (Cons x xs)
  then show ?case by (cases "xs = []") (simp_all add: join_Cons split_at_append_sep)
qed

lemma split_at_single [simp]: "sep \<notin> set x \<Longrightarrow> split_at sep x = [x]"
  by (induction x) auto

lemma split_at_join_lines:
  assumes "ls \<noteq> []" and "\<And>l. l \<in> set ls \<Longrightarrow> sep \<notin> set l"
  shows "split_at sep (join [sep] ls) = ls"
proof -
  have "map (split_at sep) ls = map (\<lambda>l. [l]) ls" using assms(2) by simp
  moreover have "concat (map (\<lambda>l. [l]) ls) = ls" by (induction ls) auto
  ultimately show ?thesis using split_at_join [OF assms(1), of sep] by metis
qed

lemma filter_dropWhile_neg [simp]: "filter (\<lambda>c. \<not> P c) (dropWhile P s) = filter (\<lambda>c. \<not> P c) s"
  by (induction s) auto

lemma filter_trimEnd: "filter (\<lambda>c. \<not> is_ws c) (trimEnd s) = filter (\<lambda>c. \<not> is_ws c) s"
  by (simp add: trimEnd_def flip: rev_filter)

lemma filter_takeWhile_neg [simp]: "filter (\<lambda>c. \<not> P c) (takeWhile P s) = []"
  by (induction s) auto

lemma trim_eq_Nil_iff: "trim s = [] \<longleftrightarrow> (\<forall>c\<in>set s. is_ws c)"
proof -
  have "dropWhile is_ws (rev (dropWhile is_ws s)) = [] \<longleftrightarrow> (\<forall>c\<in>set (dropWhile is_ws s). is_ws c)"
    by (simp add: dropWhile_eq_Nil_conv)
  also have "\<dots> \<longleftrightarrow> (\<forall>c\<in>set s. is_ws c)"
    by (induction s) auto
  finally show ?thesis by (simp add: trim_def trimEnd_def)
qed

section \<open>Event-driven components\<close>

text \<open>
  A client component is a state, the states it can start in, and a step relation: one
  rendered effect, timer callback or browser event per step. \<open>reach\<close> is the set of
  states the event loop can produce.
\<close>

inductive reach :: "('s \<Rightarrow> bool) \<Rightarrow> ('s \<Rightarrow> 's \<Rightarrow> bool) \<Rightarrow> 's \<Rightarrow> bool"
  for init :: "'s \<Rightarrow> bool" and step :: "'s \<Rightarrow> 's \<Rightarrow> bool" where
  reach_init: "init s \<Longrightarrow> reach init step s"
| reach_step: "reach init step s \<Longrightarrow> step s t \<Longrightarrow> reach init step t"

text \<open>
  What every such component promises: an invariant that holds at the start and that no
  event breaks. A component provides the interface by an interpretation; its clients use
  \<open>always\<close>.
\<close>

locale component =
  fixes init :: "'s \<Rightarrow> bool"
    and step :: "'s \<Rightarrow> 's \<Rightarrow> bool"
    and inv :: "'s \<Rightarrow> bool"
  assumes inv_init: "init s \<Longrightarrow> inv s"
    and inv_step: "inv s \<Longrightarrow> step s t \<Longrightarrow> inv t"
begin

lemma always: "reach init step s \<Longrightarrow> inv s"
  by (induction rule: reach.induct) (auto intro: inv_init inv_step)

lemma always_chain: "step\<^sup>*\<^sup>* s t \<Longrightarrow> inv s \<Longrightarrow> inv t"
  by (induction rule: rtranclp_induct) (auto intro: inv_step)

end

lemma reach_rtranclp: "step\<^sup>*\<^sup>* s t \<Longrightarrow> reach init step s \<Longrightarrow> reach init step t"
  by (induction rule: rtranclp_induct) (auto intro: reach_step)

end
