(* ===== verification/Vdom.thy ===== *)
theory Vdom
  imports Prelude
begin

text \<open>
  React elements as the components return them: a host tag or a component name, its
  properties and its children. Class names are combined by \<open>cn\<close> of \<open>website/lib/utils.ts\<close>,
  which only calls \<open>clsx\<close> and \<open>tailwind-merge\<close>; those packages are not part of the
  repository, so \<open>cn\<close> is a parameter of every definition that uses it. An argument that
  is \<open>undefined\<close> or \<open>false\<close> is \<open>None\<close>.

  \<open>textContent\<close> is the text a reader sees, \<open>links\<close> the targets a reader can follow.
\<close>

type_synonym class_fn = "jstr option list \<Rightarrow> jstr"

datatype node =
    El (tag: string) (attrs: "(string \<times> jstr) list") (kids: "node list")
  | Txt jstr

abbreviation cls :: "string \<Rightarrow> string \<times> jstr" where
  "cls s \<equiv> (''className'', js s)"

abbreviation att :: "string \<Rightarrow> string \<Rightarrow> string \<times> jstr" where
  "att k v \<equiv> (k, js v)"

definition bool_attr :: "bool \<Rightarrow> jstr" where
  "bool_attr b = (if b then js ''true'' else js ''false'')"

fun textContent :: "node \<Rightarrow> jstr" where
  "textContent (Txt s) = s"
| "textContent (El t as ns) = concat (map textContent ns)"

fun links :: "node \<Rightarrow> jstr list" where
  "links (Txt s) = []"
| "links (El t as ns) =
     (case map_of as ''href'' of None \<Rightarrow> [] | Some h \<Rightarrow> [h]) @ concat (map links ns)"

text \<open>Elements of a given type, in document order.\<close>

fun find_all :: "string \<Rightarrow> node \<Rightarrow> node list" where
  "find_all t (Txt s) = []"
| "find_all t (El u as ns) = (if u = t then [El u as ns] else []) @ concat (map (find_all t) ns)"

text \<open>\<open>target="_blank"\<close> without \<open>rel="noreferrer"\<close> hands the opener to the other site.\<close>

fun safe_targets :: "node \<Rightarrow> bool" where
  "safe_targets (Txt s) = True"
| "safe_targets (El t as ns) =
     ((map_of as ''target'' = Some (js ''_blank'') \<longrightarrow> map_of as ''rel'' = Some (js ''noreferrer'')) \<and>
      list_all safe_targets ns)"

text \<open>The \<open>key\<close> properties of a list of children, which React needs to be distinct.\<close>

definition child_keys :: "node list \<Rightarrow> jstr list" where
  "child_keys ns = concat (map (\<lambda>n. case n of Txt _ \<Rightarrow> [] | El t as _ \<Rightarrow>
     (case map_of as ''key'' of None \<Rightarrow> [] | Some k \<Rightarrow> [k])) ns)"

section \<open>Numbers as text\<close>

fun digits :: "nat \<Rightarrow> jstr" where
  "digits n = (if n < 10 then [48 + n] else digits (n div 10) @ [48 + n mod 10])"

declare digits.simps [simp del]

lemma digits_nonempty [simp]: "digits n \<noteq> []"
  by (subst digits.simps) simp

lemma digits_are_digits: "c \<in> set (digits n) \<Longrightarrow> is_digit c"
proof (induction n rule: digits.induct)
  case (1 n)
  show ?case
  proof (cases "n < 10")
    case True
    with "1.prems" show ?thesis by (subst (asm) digits.simps) (simp add: is_digit_def)
  next
    case False
    with "1.prems" have "c \<in> set (digits (n div 10)) \<or> c = 48 + n mod 10"
      by (subst (asm) digits.simps) auto
    with "1.IH" [OF False] show ?thesis by (auto simp: is_digit_def)
  qed
qed

fun of_digits :: "jstr \<Rightarrow> nat" where
  "of_digits s = foldl (\<lambda>n c. 10 * n + (c - 48)) 0 s"

lemma of_digits_digits: "of_digits (digits n) = n"
proof (induction n rule: digits.induct)
  case (1 n)
  show ?case
  proof (cases "n < 10")
    case True
    then show ?thesis by (subst digits.simps) simp
  next
    case False
    with "1.IH" show ?thesis by (subst digits.simps) simp
  qed
qed

lemma digits_inj [simp]: "digits m = digits n \<longleftrightarrow> m = n"
  by (metis of_digits_digits)

end
