(* ===== verification/Js_Regex.thy ===== *)
theory Js_Regex
  imports Prelude
begin

text \<open>
  The part of ECMAScript regular expressions that the site uses: ordered alternation,
  greedy and lazy repetition, character classes, the assertions \<open>^\<close>, \<open>$\<close> (of the whole input or,
  with the flag \<open>m\<close>, of a line), \<open>\b\<close> and positive lookahead, and the \<open>while ((m = re.exec(s)) !== null)\<close> loop over a global pattern.

  \<open>rem r p s\<close> lists, in the order in which the backtracking matcher tries them, the ways
  in which \<open>r\<close> matches a prefix of \<open>s\<close>; \<open>p\<close> is the code unit before \<open>s\<close> (\<open>None\<close> at the
  start of the input). The first entry is the match that \<open>exec\<close> reports.
\<close>

section \<open>Expressions and the matcher\<close>

datatype re =
    Eps
  | Cls "nat \<Rightarrow> bool"
  | Seq re re
  | Alt re re
  | Star re
  | Bol
  | Eol
  | WordB
  | Look re
  | Lazy re
  | BolM
  | EolM

abbreviation Plus :: "re \<Rightarrow> re" where "Plus r \<equiv> Seq r (Star r)"
abbreviation Opt :: "re \<Rightarrow> re" where "Opt r \<equiv> Alt r Eps"
abbreviation Chr :: "char \<Rightarrow> re" where "Chr c \<equiv> Cls (\<lambda>d. d = cu c)"

fun Lit :: "string \<Rightarrow> re" where
  "Lit [] = Eps"
| "Lit (c # s) = Seq (Chr c) (Lit s)"

fun Alts :: "re list \<Rightarrow> re" where
  "Alts [] = Cls (\<lambda>_. False)"
| "Alts [r] = r"
| "Alts (r # q # rs) = Alt r (Alts (q # rs))"

fun Seqs :: "re list \<Rightarrow> re" where
  "Seqs [] = Eps"
| "Seqs [r] = r"
| "Seqs (r # q # rs) = Seq r (Seqs (q # rs))"

text \<open>The code unit before the input left after \<open>w\<close> has been consumed.\<close>

definition prev :: "nat option \<Rightarrow> jstr \<Rightarrow> nat option" where
  "prev p w = (if w = [] then p else Some (last w))"

lemma prev_Nil [simp]: "prev p [] = p"
  by (simp add: prev_def)

definition word_opt :: "nat option \<Rightarrow> bool" where
  "word_opt p = (case p of None \<Rightarrow> False | Some c \<Rightarrow> is_word c)"

definition at_head :: "jstr \<Rightarrow> nat option" where
  "at_head s = (case s of [] \<Rightarrow> None | c # _ \<Rightarrow> Some c)"

text \<open>
  An iteration of \<open>r*\<close> that consumes nothing is refused, as the specification's
  empty check does.
\<close>

function rem :: "re \<Rightarrow> nat option \<Rightarrow> jstr \<Rightarrow> (jstr \<times> jstr) list" where
  "rem Eps p s = [([], s)]"
| "rem (Cls P) p s = (case s of [] \<Rightarrow> [] | c # t \<Rightarrow> if P c then [([c], t)] else [])"
| "rem (Seq a b) p s =
     concat (map (\<lambda>(w, t). map (\<lambda>(v, u). (w @ v, u)) (rem b (prev p w) t)) (rem a p s))"
| "rem (Alt a b) p s = rem a p s @ rem b p s"
| "rem (Star a) p s =
     concat (map (\<lambda>(w, t).
        if length t < length s
        then map (\<lambda>(v, u). (w @ v, u)) (rem (Star a) (prev p w) t)
        else []) (rem a p s)) @ [([], s)]"
| "rem Bol p s = (if p = None then [([], s)] else [])"
| "rem Eol p s = (if s = [] then [([], s)] else [])"
| "rem WordB p s = (if word_opt p \<noteq> word_opt (at_head s) then [([], s)] else [])"
| "rem (Look a) p s = (if rem a p s = [] then [] else [([], s)])"
| "rem (Lazy a) p s =
     ([], s) # concat (map (\<lambda>(w, t).
        if length t < length s
        then map (\<lambda>(v, u). (w @ v, u)) (rem (Lazy a) (prev p w) t)
        else []) (rem a p s))"
| "rem BolM p s = (if (case p of None \<Rightarrow> True | Some c \<Rightarrow> is_line_end c) then [([], s)] else [])"
| "rem EolM p s = (if (case s of [] \<Rightarrow> True | c # _ \<Rightarrow> is_line_end c) then [([], s)] else [])"
  by pat_completeness auto
termination
  by (relation "measures [\<lambda>(r, p, s). size r, \<lambda>(r, p, s). length s]") auto

declare rem.simps(5,10) [simp del]

text \<open>
  Equations for evaluation: they look at the input before they unfold an expression, so
  that evaluation follows the input and never unfolds an iteration under a binder.
\<close>

lemma rem_Star_Nil: "rem (Star a) p [] = [([], [])]"
  by (simp add: rem.simps(5) concat_eq_Nil_conv split_beta)

lemma rem_Lazy_Nil: "rem (Lazy a) p [] = [([], [])]"
  by (simp add: rem.simps(10) concat_eq_Nil_conv split_beta)

lemma rem_Seq_split:
  "rem (Seq a b) p [] =
     concat (map (\<lambda>(w, t). map (\<lambda>(v, u). (w @ v, u)) (rem b (prev p w) t)) (rem a p []))"
  "rem (Seq a b) p (c # s) =
     concat (map (\<lambda>(w, t). map (\<lambda>(v, u). (w @ v, u)) (rem b (prev p w) t)) (rem a p (c # s)))"
  by simp_all

lemma rem_Alt_split:
  "rem (Alt a b) p [] = rem a p [] @ rem b p []"
  "rem (Alt a b) p (c # s) = rem a p (c # s) @ rem b p (c # s)"
  by simp_all

lemma rem_Look_split:
  "rem (Look a) p [] = (if rem a p [] = [] then [] else [([], [])])"
  "rem (Look a) p (c # s) = (if rem a p (c # s) = [] then [] else [([], c # s)])"
  by simp_all

lemmas rem_code [code] =
  rem.simps(1,2) rem_Seq_split rem_Alt_split rem_Star_Nil rem.simps(5) [of _ _ "c # s" for c s]
  rem.simps(6,7,8) rem_Look_split rem_Lazy_Nil rem.simps(10) [of _ _ "c # s" for c s] rem.simps(11,12)

text \<open>Unfolding an iteration once, as a membership fact that does not loop.\<close>

lemma rem_Star_iff:
  "(x, u) \<in> set (rem (Star a) p s) \<longleftrightarrow>
     x = [] \<and> u = s \<or>
     (\<exists>w t v. (w, t) \<in> set (rem a p s) \<and> length t < length s \<and>
        (v, u) \<in> set (rem (Star a) (prev p w) t) \<and> x = w @ v)"
  by (subst rem.simps(5)) (force split: if_splits)

lemma rem_Lazy_iff:
  "(x, u) \<in> set (rem (Lazy a) p s) \<longleftrightarrow>
     x = [] \<and> u = s \<or>
     (\<exists>w t v. (w, t) \<in> set (rem a p s) \<and> length t < length s \<and>
        (v, u) \<in> set (rem (Lazy a) (prev p w) t) \<and> x = w @ v)"
  by (subst rem.simps(10)) (force split: if_splits)

lemma rem_sound: "(w, t) \<in> set (rem r p s) \<Longrightarrow> s = w @ t"
proof (induction r p s arbitrary: w t rule: rem.induct)
  case (5 a p s)
  show ?case
  proof (cases "w = [] \<and> t = s")
    case False
    with "5.prems" obtain w1 t1 v where *: "(w1, t1) \<in> set (rem a p s)" "length t1 < length s"
        "(v, t) \<in> set (rem (Star a) (prev p w1) t1)" "w = w1 @ v"
      by (subst (asm) rem_Star_iff) blast
    then show ?thesis using "5.IH"(1) [OF *(1)] "5.IH"(2) [OF *(1) refl *(2,3)] by simp
  qed simp
next
  case (10 a p s)
  show ?case
  proof (cases "w = [] \<and> t = s")
    case False
    with "10.prems" obtain w1 t1 v where *: "(w1, t1) \<in> set (rem a p s)" "length t1 < length s"
        "(v, t) \<in> set (rem (Lazy a) (prev p w1) t1)" "w = w1 @ v"
      by (subst (asm) rem_Lazy_iff) blast
    then show ?thesis using "10.IH"(1) [OF *(1)] "10.IH"(2) [OF *(1) refl *(2,3)] by simp
  qed simp
qed (force split: list.splits if_splits)+

text \<open>Expressions that can match without consuming anything (an over-approximation).\<close>

fun nullable :: "re \<Rightarrow> bool" where
  "nullable (Cls P) = False"
| "nullable (Seq a b) = (nullable a \<and> nullable b)"
| "nullable (Alt a b) = (nullable a \<or> nullable b)"
| "nullable r = True"

lemma rem_nonempty: "\<not> nullable r \<Longrightarrow> (w, t) \<in> set (rem r p s) \<Longrightarrow> w \<noteq> []"
proof (induction r arbitrary: p s w t)
  case (Seq a b)
  then show ?case by fastforce
next
  case (Alt a b)
  then show ?case by fastforce
qed (auto split: list.splits if_splits)

section \<open>Searching\<close>

text \<open>
  \<open>re.exec\<close> from the current position: the leftmost position at which the expression
  matches, given as the skipped text, the match and what is left.
\<close>

fun search :: "re \<Rightarrow> nat option \<Rightarrow> jstr \<Rightarrow> (jstr \<times> jstr \<times> jstr) option" where
  "search r p [] = (case rem r p [] of [] \<Rightarrow> None | (w, t) # _ \<Rightarrow> Some ([], w, t))"
| "search r p (c # s) =
     (case rem r p (c # s) of
        (w, t) # _ \<Rightarrow> Some ([], w, t)
      | [] \<Rightarrow> (case search r (Some c) s of
                None \<Rightarrow> None
              | Some (g, w, t) \<Rightarrow> Some (c # g, w, t)))"

definition test :: "re \<Rightarrow> jstr \<Rightarrow> bool" where
  "test r s \<longleftrightarrow> search r None s \<noteq> None"

lemma search_sound: "search r p s = Some (g, w, t) \<Longrightarrow> s = g @ w @ t"
proof (induction r p s arbitrary: g rule: search.induct)
  case (1 r p)
  then have "(w, t) \<in> set (rem r p [])" and "g = []" by (auto split: list.splits)
  then show ?case using rem_sound by fastforce
next
  case (2 r p c s)
  have "rem r p (c # s) = (v, u) # xs \<Longrightarrow> c # s = v @ u" for v u xs
    using rem_sound [of v u r p "c # s"] by simp
  then show ?case using 2
    by (auto split: list.splits option.splits)
qed

lemma search_match:
  "search r p s = Some (g, w, t) \<Longrightarrow> (w, t) \<in> set (rem r (prev p g) (w @ t))"
proof (induction r p s arbitrary: g rule: search.induct)
  case (1 r p)
  then have "(w, t) \<in> set (rem r p [])" and "g = []"
    by (auto split: list.splits)
  moreover from this(1) have "w @ t = []" using rem_sound by fastforce
  ultimately show ?case by (simp add: prev_def)
next
  case (2 r p c s)
  show ?case
  proof (cases "rem r p (c # s)")
    case Nil
    with "2.prems" obtain g' where g': "search r (Some c) s = Some (g', w, t)" "g = c # g'"
      by (auto split: option.splits)
    moreover have "prev (Some c) g' = prev p (c # g')" by (simp add: prev_def)
    ultimately show ?thesis using "2.IH" [OF Nil g'(1)] by simp
  next
    case (Cons x xs)
    with "2.prems" have "(w, t) \<in> set (rem r p (c # s))" and "g = []" by (auto split: prod.splits)
    moreover from this(1) have "w @ t = c # s" using rem_sound by fastforce
    ultimately show ?thesis by (simp add: prev_def)
  qed
qed

lemma search_None_iff:
  "search r p s = None \<longleftrightarrow> (\<forall>g u. s = g @ u \<longrightarrow> rem r (prev p g) u = [])"
proof (induction r p s rule: search.induct)
  case (1 r p)
  then show ?case by (auto simp: prev_def split: list.splits)
next
  case (2 r p c s)
  show ?case
  proof (cases "rem r p (c # s)")
    case Nil
    then have "search r p (c # s) = None \<longleftrightarrow> (\<forall>g u. s = g @ u \<longrightarrow> rem r (prev (Some c) g) u = [])"
      using "2.IH" by (auto split: option.splits)
    also have "\<dots> \<longleftrightarrow> (\<forall>g u. s = g @ u \<longrightarrow> rem r (prev p (c # g)) u = [])"
      by (simp add: prev_def)
    also have "\<dots> \<longleftrightarrow> (\<forall>g u. c # s = g @ u \<longrightarrow> rem r (prev p g) u = [])"
      using Nil by (auto simp: Cons_eq_append_conv)
    finally show ?thesis .
  next
    case (Cons x xs)
    then have "\<not> (\<forall>g u. c # s = g @ u \<longrightarrow> rem r (prev p g) u = [])"
      by (auto simp: prev_def intro: exI [of _ "[]"])
    with Cons show ?thesis by (auto split: prod.splits)
  qed
qed

text \<open>
  \<open>s.match(/^(r1)(r2).../)\<close>: an expression anchored at the start whose top level is a
  sequence of capture groups. The result is the list of captured texts and the rest.
\<close>

fun groups :: "re list \<Rightarrow> nat option \<Rightarrow> jstr \<Rightarrow> (jstr list \<times> jstr) list" where
  "groups [] p s = [([], s)]"
| "groups (r # rs) p s =
     concat (map (\<lambda>(w, t). map (\<lambda>(ws, u). (w # ws, u)) (groups rs (prev p w) t)) (rem r p s))"

definition match_start :: "re list \<Rightarrow> jstr \<Rightarrow> (jstr list \<times> jstr) option" where
  "match_start rs s = (case groups rs None s of [] \<Rightarrow> None | m # _ \<Rightarrow> Some m)"

lemma groups_sound:
  "(ws, t) \<in> set (groups rs p s) \<Longrightarrow> s = concat ws @ t \<and> length ws = length rs"
  by (induction rs p s arbitrary: ws t rule: groups.induct) (fastforce dest: rem_sound)+

lemma groups_match:
  "(ws, t) \<in> set (groups rs p s) \<Longrightarrow> i < length rs \<Longrightarrow>
   \<exists>q u. (ws ! i, u) \<in> set (rem (rs ! i) q (ws ! i @ u))"
proof (induction rs p s arbitrary: ws t i rule: groups.induct)
  case (1 p s)
  then show ?case by simp
next
  case (2 r rs p s)
  then obtain w v ws' where *: "ws = w # ws'" "(w, v) \<in> set (rem r p s)"
      "(ws', t) \<in> set (groups rs (prev p w) v)"
    by auto
  show ?case
  proof (cases i)
    case 0
    then show ?thesis using * rem_sound [OF *(2)] by auto
  next
    case (Suc j)
    then show ?thesis using "2.IH" [OF *(2) refl *(3), of j] "2.prems"(2) * by auto
  qed
qed

lemma match_start_sound:
  "match_start rs s = Some (ws, t) \<Longrightarrow> s = concat ws @ t \<and> length ws = length rs"
  by (auto simp: match_start_def split: list.splits intro!: groups_sound [of ws t rs None s])

section \<open>The global-exec loop\<close>

text \<open>
  \<open>while ((match = pattern.exec(code)) !== null) { ...; lastIndex = match.index + length }\<close>.
  The body is given the text between the previous match and this one and the match
  itself; the loop returns the final local state and \<open>code.slice(lastIndex)\<close>. A pattern
  that matches the empty string would never advance \<open>lastIndex\<close>, so the loop is a partial
  function; \<open>None\<close> means that it does not return.
\<close>

partial_function (option) exec_loop ::
  "re \<Rightarrow> ('s \<Rightarrow> jstr \<Rightarrow> jstr \<Rightarrow> 's) \<Rightarrow> nat option \<Rightarrow> jstr \<Rightarrow> 's \<Rightarrow> ('s \<times> jstr) option" where
  "exec_loop r body p s st =
     (case search r p s of
        None \<Rightarrow> Some (st, s)
      | Some (g, w, t) \<Rightarrow> exec_loop r body (prev p (g @ w)) t (body st g w))"

declare exec_loop.simps [code]

text \<open>
  The interface of a global pattern: it never matches the empty string. Every loop over
  such a pattern returns, and an invariant of the body relates the final state to the
  input.
\<close>

locale global_pattern =
  fixes r :: re
  assumes not_nullable: "\<not> nullable r"
begin

lemma search_progress: "search r p s = Some (g, w, t) \<Longrightarrow> length t < length s \<and> w \<noteq> []"
  using search_sound [of r p s g w t] search_match [of r p s g w t]
    rem_nonempty [OF not_nullable, of w t "prev p g" "w @ t"]
  by auto

lemma loop_returns: "\<exists>st' u. exec_loop r body p s st = Some (st', u)"
proof (induction s arbitrary: p st rule: length_induct)
  case (1 s)
  show ?case
  proof (cases "search r p s")
    case None
    then show ?thesis by (simp add: exec_loop.simps)
  next
    case (Some m)
    obtain g w t where m: "m = (g, w, t)" by (cases m)
    with Some have "length t < length s" using search_progress by blast
    then show ?thesis using 1 Some m by (subst exec_loop.simps) simp
  qed
qed

lemma loop_invariant:
  assumes "exec_loop r body p s st = Some (st', u)"
    and "I st s"
    and "\<And>st p s g w t. I st s \<Longrightarrow> search r p s = Some (g, w, t) \<Longrightarrow> I (body st g w) t"
  shows "I st' u"
  using assms(1,2)
proof (induction s arbitrary: p st rule: length_induct)
  case (1 s)
  show ?case
  proof (cases "search r p s")
    case None
    with 1 show ?thesis by (simp add: exec_loop.simps)
  next
    case (Some m)
    obtain g w t where m: "m = (g, w, t)" by (cases m)
    with Some have s: "search r p s = Some (g, w, t)" by simp
    then have "length t < length s" using search_progress by blast
    moreover have "exec_loop r body (prev p (g @ w)) t (body st g w) = Some (st', u)"
      using "1.prems"(1) s by (simp add: exec_loop.simps [of r body p s st])
    moreover have "I (body st g w) t" using assms(3) "1.prems"(2) s by blast
    ultimately show ?thesis using "1.IH" by blast
  qed
qed

end

end
