(* ===== verification/Json.thy ===== *)
theory Json
  imports Js_Regex
begin

text \<open>
  JSON values with \<open>JSON.stringify(value, null, 2)\<close>, which \<open>website/scripts/generate-seo.ts\<close>
  uses to write the web manifest, and \<open>JSON.parse\<close>, which \<open>.opencode/plugins/auto-commit.js\<close>
  uses to read a reply. Both are operations of the language; they are written out here after
  its specification.

  A number is kept as its text. Objects are lists of members in the order in which they
  are enumerated; \<open>JSON.parse\<close> keeps repeated names, and \<open>member\<close> finds the last one, which
  is the one that counts.
\<close>

datatype json =
    JNull
  | JBool bool
  | JNum jstr
  | JStr jstr
  | JArr "json list"
  | JObj "(jstr \<times> json) list"

definition member :: "jstr \<Rightarrow> (jstr \<times> json) list \<Rightarrow> json option" where
  "member k ms = map_of (rev ms) k"

section \<open>Writing\<close>

definition hex_digit :: "nat \<Rightarrow> nat" where
  "hex_digit n = (if n < 10 then 48 + n else 87 + n)"

definition u_escape :: "nat \<Rightarrow> jstr" where
  "u_escape c = [92, 117, hex_digit (c div 4096 mod 16), hex_digit (c div 256 mod 16),
     hex_digit (c div 16 mod 16), hex_digit (c mod 16)]"

fun json_escape :: "nat \<Rightarrow> jstr" where
  "json_escape c =
     (if c = 8 then [92, 98] else if c = 9 then [92, 116] else if c = 10 then [92, 110]
      else if c = 12 then [92, 102] else if c = 13 then [92, 114]
      else if c = 34 then [92, 34] else if c = 92 then [92, 92]
      else if c < 32 then u_escape c else [c])"

definition is_high :: "nat \<Rightarrow> bool" where
  "is_high c \<longleftrightarrow> 55296 \<le> c \<and> c \<le> 56319"

definition is_low :: "nat \<Rightarrow> bool" where
  "is_low c \<longleftrightarrow> 56320 \<le> c \<and> c \<le> 57343"

text \<open>Surrogates that are not part of a pair are written as escapes, pairs as they are.\<close>

fun json_chars :: "jstr \<Rightarrow> jstr" where
  "json_chars [] = []"
| "json_chars [c] = (if is_high c \<or> is_low c then u_escape c else json_escape c)"
| "json_chars (c # d # s) =
     (if is_high c \<and> is_low d then c # d # json_chars s
      else (if is_high c \<or> is_low c then u_escape c else json_escape c) @ json_chars (d # s))"

definition json_quote :: "jstr \<Rightarrow> jstr" where
  "json_quote s = [34] @ json_chars s @ [34]"

fun stringify :: "jstr \<Rightarrow> json \<Rightarrow> jstr" where
  "stringify indent JNull = js ''null''"
| "stringify indent (JBool b) = (if b then js ''true'' else js ''false'')"
| "stringify indent (JNum n) = n"
| "stringify indent (JStr s) = json_quote s"
| "stringify indent (JArr []) = js ''[]''"
| "stringify indent (JArr (v # vs)) =
     js ''['' @ [10] @ join (js '','' @ [10]) (map (\<lambda>x. indent @ js ''  '' @ stringify (indent @ js ''  '') x) (v # vs)) @
     [10] @ indent @ js '']''"
| "stringify indent (JObj []) = js ''{}''"
| "stringify indent (JObj (m # ms)) =
     js ''{'' @ [10] @ join (js '','' @ [10])
       (map (\<lambda>(k, x). indent @ js ''  '' @ json_quote k @ js '': '' @ stringify (indent @ js ''  '') x) (m # ms)) @
     [10] @ indent @ js ''}''"

section \<open>Reading\<close>

definition json_ws :: "nat \<Rightarrow> bool" where
  "json_ws c \<longleftrightarrow> c = 32 \<or> c = 9 \<or> c = 10 \<or> c = 13"

abbreviation skip :: "jstr \<Rightarrow> jstr" where
  "skip s \<equiv> dropWhile json_ws s"

definition hex_val :: "nat \<Rightarrow> nat option" where
  "hex_val c =
     (if 48 \<le> c \<and> c \<le> 57 then Some (c - 48)
      else if 97 \<le> c \<and> c \<le> 102 then Some (c - 87)
      else if 65 \<le> c \<and> c \<le> 70 then Some (c - 55) else None)"

definition hex4 :: "nat \<Rightarrow> nat \<Rightarrow> nat \<Rightarrow> nat \<Rightarrow> nat option" where
  "hex4 a b c d =
     (case (hex_val a, hex_val b, hex_val c, hex_val d) of
        (Some p, Some q, Some r, Some t) \<Rightarrow> Some (4096 * p + 256 * q + 16 * r + t)
      | _ \<Rightarrow> None)"

definition simple_escape :: "nat \<Rightarrow> nat option" where
  "simple_escape c =
     (if c = 34 \<or> c = 92 \<or> c = 47 then Some c
      else if c = 98 then Some 8 else if c = 102 then Some 12 else if c = 110 then Some 10
      else if c = 114 then Some 13 else if c = 116 then Some 9 else None)"

definition add_char :: "nat \<Rightarrow> (jstr \<times> jstr) option \<Rightarrow> (jstr \<times> jstr) option" where
  "add_char c r = map_option (\<lambda>(s, t). (c # s, t)) r"

text \<open>The rest of a string after the opening quote, and the input after the closing one.\<close>

fun parse_chars :: "jstr \<Rightarrow> (jstr \<times> jstr) option" where
  "parse_chars [] = None"
| "parse_chars (c # s) =
     (if c = 34 then Some ([], s)
      else if c = 92 then
        (case s of
           [] \<Rightarrow> None
         | e # s1 \<Rightarrow>
             if e = 117 then
               (case s1 of
                  h1 # h2 # h3 # h4 # s2 \<Rightarrow>
                    (case hex4 h1 h2 h3 h4 of Some u \<Rightarrow> add_char u (parse_chars s2) | None \<Rightarrow> None)
                | _ \<Rightarrow> None)
             else (case simple_escape e of Some u \<Rightarrow> add_char u (parse_chars s1) | None \<Rightarrow> None))
      else if c < 32 then None
      else add_char c (parse_chars s))"

declare parse_chars.simps(2) [simp del]

abbreviation Digits :: re where "Digits \<equiv> Plus (Cls is_digit)"

definition number_re :: re where
  "number_re = Seqs
     [Opt (Chr CHR ''-''),
      Alt (Chr CHR ''0'') (Seq (Cls (\<lambda>c. is_digit c \<and> c \<noteq> 48)) (Star (Cls is_digit))),
      Opt (Seq (Chr CHR ''.'') Digits),
      Opt (Seqs [Cls (\<lambda>c. c = 101 \<or> c = 69), Opt (Cls (\<lambda>c. c = 43 \<or> c = 45)), Digits])]"

definition parse_number :: "jstr \<Rightarrow> (json \<times> jstr) option" where
  "parse_number s = (case rem number_re None s of [] \<Rightarrow> None | (w, t) # _ \<Rightarrow> Some (JNum w, t))"

definition json_word :: "string \<Rightarrow> json \<Rightarrow> jstr \<Rightarrow> (json \<times> jstr) option" where
  "json_word w v s = (if startsWith s (js w) then Some (v, drop (length w) s) else None)"

text \<open>
  A value, the elements of an array and the members of an object, after white space has been
  skipped. The tests on lengths always succeed; they show that the functions end.
\<close>

function (sequential)
  parse_value :: "jstr \<Rightarrow> (json \<times> jstr) option" and
  parse_elems :: "jstr \<Rightarrow> (json list \<times> jstr) option" and
  parse_members :: "jstr \<Rightarrow> ((jstr \<times> json) list \<times> jstr) option" where
  "parse_value [] = None"
| "parse_value (c # s) =
     (if c = 34 then map_option (\<lambda>(x, t). (JStr x, t)) (parse_chars s)
      else if c = 91 then
        (if skip s \<noteq> [] \<and> hd (skip s) = 93 then Some (JArr [], tl (skip s))
         else map_option (\<lambda>(vs, t). (JArr vs, t)) (parse_elems (skip s)))
      else if c = 123 then
        (if skip s \<noteq> [] \<and> hd (skip s) = 125 then Some (JObj [], tl (skip s))
         else map_option (\<lambda>(ms, t). (JObj ms, t)) (parse_members (skip s)))
      else if c = 110 then json_word ''null'' JNull (c # s)
      else if c = 116 then json_word ''true'' (JBool True) (c # s)
      else if c = 102 then json_word ''false'' (JBool False) (c # s)
      else parse_number (c # s))"
| "parse_elems s =
     (case parse_value s of
        None \<Rightarrow> None
      | Some (v, t) \<Rightarrow>
          (case skip t of
             [] \<Rightarrow> None
           | d # u \<Rightarrow>
               if d = 93 then Some ([v], u)
               else if d = 44 \<and> length (skip u) < length s
               then map_option (\<lambda>(vs, r). (v # vs, r)) (parse_elems (skip u))
               else None))"
| "parse_members s =
     (if s = [] \<or> hd s \<noteq> 34 then None
      else case parse_chars (tl s) of
        None \<Rightarrow> None
      | Some (k, t) \<Rightarrow>
          (case skip t of
             [] \<Rightarrow> None
           | d # u \<Rightarrow>
               if d \<noteq> 58 \<or> length (skip u) \<ge> length s then None
               else case parse_value (skip u) of
                 None \<Rightarrow> None
               | Some (v, t') \<Rightarrow>
                   (case skip t' of
                      [] \<Rightarrow> None
                    | d' # u' \<Rightarrow>
                        if d' = 125 then Some ([(k, v)], u')
                        else if d' = 44 \<and> length (skip u') < length s
                        then map_option (\<lambda>(ms, r). ((k, v) # ms, r)) (parse_members (skip u'))
                        else None)))"
  by pat_completeness auto
termination
  by (relation "measures [\<lambda>x. case x of Inl s \<Rightarrow> length s | Inr (Inl s) \<Rightarrow> length s | Inr (Inr s) \<Rightarrow> length s,
        \<lambda>x. case x of Inl s \<Rightarrow> 0 | Inr (Inl s) \<Rightarrow> Suc 0 | Inr (Inr s) \<Rightarrow> Suc 0]")
    (auto simp: le_imp_less_Suc length_dropWhile_le)

declare parse_value.simps [simp del] parse_elems.simps [simp del] parse_members.simps [simp del]

definition JSON_parse :: "jstr \<Rightarrow> json option" where
  "JSON_parse s =
     (case parse_value (skip s) of
        Some (v, t) \<Rightarrow> if skip t = [] then Some v else None
      | None \<Rightarrow> None)"

section \<open>Reading what was written\<close>

lemma hex_val_digit [simp]: "n < 16 \<Longrightarrow> hex_val (hex_digit n) = Some n"
  by (auto simp: hex_val_def hex_digit_def)

lemma hex_sum: "c = 16 * a + p \<Longrightarrow> a = 16 * b + q \<Longrightarrow> b = 16 * d + r \<Longrightarrow> 4096 * d + 256 * r + 16 * q + p = (c::nat)"
  by simp

lemma hex4_digits:
  assumes "c < 65536"
  shows "hex4 (hex_digit (c div 4096 mod 16)) (hex_digit (c div 256 mod 16)) (hex_digit (c div 16 mod 16))
    (hex_digit (c mod 16)) = Some c"
proof -
  have "c div 256 = c div 16 div 16" "c div 4096 = c div 16 div 16 div 16"
    by (simp_all add: div_mult2_eq [of c 16 16, simplified] div_mult2_eq [of c 256 16, simplified])
  moreover have "c div 16 div 16 div 16 mod 16 = c div 16 div 16 div 16" using assms by simp
  ultimately have "4096 * (c div 4096 mod 16) + 256 * (c div 256 mod 16) + 16 * (c div 16 mod 16) + c mod 16 = c"
    by (simp only:, intro hex_sum [of c "c div 16" _ "c div 16 div 16"] mult_div_mod_eq [symmetric])
  moreover have "c div 4096 < 16" using assms by simp
  ultimately show ?thesis by (simp add: hex4_def)
qed

lemma parse_u_escape: "c < 65536 \<Longrightarrow> parse_chars (u_escape c @ s) = add_char c (parse_chars s)"
  using hex4_digits [of c] by (simp add: u_escape_def parse_chars.simps(2) [of 92])

lemma parse_json_escape: "parse_chars (json_escape c @ s) = add_char c (parse_chars s)"
  using parse_u_escape [of c s] by (auto simp: parse_chars.simps(2) simple_escape_def simp del: append_assoc)

lemma parse_json_chars: "parse_chars (json_chars x @ 34 # t) = Some (x, t)"
proof (induction x rule: json_chars.induct)
  case 1
  then show ?case by (simp add: parse_chars.simps)
next
  case (2 c)
  have "parse_chars (json_chars [c] @ 34 # t) = add_char c (parse_chars (34 # t))"
    by (simp add: parse_u_escape parse_json_escape is_high_def is_low_def del: json_escape.simps)
  then show ?case by (simp add: parse_chars.simps add_char_def)
next
  case (3 c d s)
  have "parse_chars (c # x) = add_char c (parse_chars x)" if "is_high c \<or> is_low c" for c x
    using that by (subst parse_chars.simps(2)) (auto simp: is_high_def is_low_def)
  then have "parse_chars (json_chars (c # d # s) @ 34 # t) =
      add_char c (if is_high c \<and> is_low d then add_char d (parse_chars (json_chars s @ 34 # t))
        else parse_chars (json_chars (d # s) @ 34 # t))"
    by (simp add: parse_u_escape parse_json_escape is_high_def is_low_def del: json_escape.simps)
  with 3 show ?case by (simp add: add_char_def)
qed

text \<open>Values without numbers.\<close>

fun number_free :: "json \<Rightarrow> bool" where
  "number_free (JNum n) = False"
| "number_free (JArr vs) = list_all number_free vs"
| "number_free (JObj ms) = list_all (\<lambda>(k, v). number_free v) ms"
| "number_free v = True"

lemma stringify_head:
  assumes "number_free v"
  obtains c s where "stringify ind v = c # s" "\<not> json_ws c" "c \<noteq> 93" "c \<noteq> 125"
  using assms
  by (cases "(ind, v)" rule: stringify.cases; cases "v = JBool True")
    (auto simp: json_quote_def json_ws_def js_def)

lemma skip_stringify:
  assumes "number_free v"
  shows "skip (stringify ind v @ t) = stringify ind v @ t" "stringify ind v \<noteq> []"
    "hd (stringify ind v @ t) \<noteq> 93"
  by (rule stringify_head [OF assms, of ind]; simp)+

lemma json_ws_simps [simp]:
  "json_ws 32" "json_ws 10" "\<not> json_ws 34" "\<not> json_ws 44" "\<not> json_ws 58" "\<not> json_ws 91"
  "\<not> json_ws 93" "\<not> json_ws 123" "\<not> json_ws 125"
  by (simp_all add: json_ws_def)

lemma json_punctuation [simp]:
  "js '','' = [44]" "js '': '' = [58, 32]" "js ''  '' = [32, 32]" "js ''['' = [91]" "js '']'' = [93]"
  "js ''{'' = [123]" "js ''}'' = [125]" "js ''[]'' = [91, 93]" "js ''{}'' = [123, 125]"
  by (simp_all add: js_def)

lemma skip_ws: "\<forall>c\<in>set w. json_ws c \<Longrightarrow> skip (w @ s) = skip s"
  by (induction w) auto

definition elems_text :: "jstr \<Rightarrow> json list \<Rightarrow> jstr" where
  "elems_text ind vs = join (js '','' @ [10]) (map (\<lambda>x. ind @ stringify ind x) vs)"

definition members_text :: "jstr \<Rightarrow> (jstr \<times> json) list \<Rightarrow> jstr" where
  "members_text ind ms = join (js '','' @ [10]) (map (\<lambda>(k, x). ind @ json_quote k @ js '': '' @ stringify ind x) ms)"

lemma parse_elems_text:
  assumes "vs \<noteq> []" and ws: "\<forall>c\<in>set ind. json_ws c" and "\<forall>c\<in>set w. json_ws c"
    and "\<And>v t. v \<in> set vs \<Longrightarrow> parse_value (stringify ind v @ t) = Some (v, t)"
    and "\<And>v. v \<in> set vs \<Longrightarrow> number_free v"
  shows "parse_elems (skip (elems_text ind vs @ w @ 93 # t)) = Some (vs, t)"
  using assms(1,4,5)
proof (induction vs rule: list_nonempty_induct)
  case (single v)
  then show ?case
    by (simp add: elems_text_def skip_ws [OF ws] skip_ws [OF assms(3)] skip_stringify parse_elems.simps)
next
  case (cons v vs)
  let ?rest = "elems_text ind vs @ w @ 93 # t"
  have shape: "skip (elems_text ind (v # vs) @ w @ 93 # t) = stringify ind v @ 44 # 10 # ?rest"
    using cons by (simp add: elems_text_def join_Cons skip_ws [OF ws] skip_stringify)
  have "length (skip ?rest) < length (stringify ind v @ 44 # 10 # ?rest)"
    using length_dropWhile_le [of json_ws ?rest] by simp
  then show ?case
    using cons unfolding shape by (subst parse_elems.simps) simp
qed

lemma parse_members_text:
  assumes "ms \<noteq> []" and ws: "\<forall>c\<in>set ind. json_ws c" and "\<forall>c\<in>set w. json_ws c"
    and "\<And>k v t. (k, v) \<in> set ms \<Longrightarrow> parse_value (stringify ind v @ t) = Some (v, t)"
    and "\<And>k v. (k, v) \<in> set ms \<Longrightarrow> number_free v"
  shows "parse_members (skip (members_text ind ms @ w @ 125 # t)) = Some (ms, t)"
  using assms(1,4,5)
proof (induction ms rule: list_nonempty_induct)
  case (single m)
  obtain k v where m: "m = (k, v)" by (cases m)
  have "length (stringify ind v @ w @ 125 # t) < length (json_quote k @ js '': '' @ stringify ind v @ w @ 125 # t)"
    by (simp add: json_quote_def)
  then show ?case
    using single unfolding m
    by (subst parse_members.simps)
      (simp add: members_text_def skip_ws [OF ws] skip_ws [OF assms(3)] skip_stringify json_quote_def
        parse_json_chars)
next
  case (cons m ms)
  obtain k v where m: "m = (k, v)" by (cases m)
  let ?rest = "members_text ind ms @ w @ 125 # t"
  have shape: "skip (members_text ind (m # ms) @ w @ 125 # t) =
      34 # json_chars k @ 34 # 58 # 32 # stringify ind v @ 44 # 10 # ?rest"
    using cons(1) by (simp add: m members_text_def join_Cons skip_ws [OF ws] json_quote_def)
  have nf: "number_free v" "parse_value (stringify ind v @ u) = Some (v, u)" for u
    using cons(3,4) [of k v] m by simp_all
  have rest: "parse_members (skip ?rest) = Some (ms, t)"
    by (rule cons(2)) (rule cons(3,4), erule list.set_intros(2))+
  have "length (skip ?rest) \<le> length ?rest" by (rule length_dropWhile_le)
  then show ?case
    using nf(2) rest unfolding shape unfolding m
    by (subst parse_members.simps) (simp add: parse_json_chars skip_stringify [OF nf(1)])
qed

lemma parse_value_stringify:
  "number_free v \<Longrightarrow> \<forall>c\<in>set ind. json_ws c \<Longrightarrow> parse_value (stringify ind v @ t) = Some (v, t)"
proof (induction ind v arbitrary: t rule: stringify.induct)
  case (6 ind v vs)
  let ?ind = "ind @ js ''  ''"
  have ws: "\<forall>c\<in>set ?ind. json_ws c" "\<forall>c\<in>set (10 # ind). json_ws c" using 6 by auto
  have "parse_elems (skip (elems_text ?ind (v # vs) @ (10 # ind) @ 93 # t)) = Some (v # vs, t)"
    using 6 ws by (intro parse_elems_text) (auto simp: list_all_iff)
  moreover have "skip (elems_text ?ind (v # vs) @ (10 # ind) @ 93 # t) \<noteq> [] \<and>
      hd (skip (elems_text ?ind (v # vs) @ (10 # ind) @ 93 # t)) \<noteq> 93"
    using skip_stringify [of v ?ind] 6 ws
    by (cases vs) (auto simp: elems_text_def skip_ws)
  ultimately show ?case
    by (simp add: elems_text_def parse_value.simps)
next
  case (8 ind m ms)
  let ?ind = "ind @ js ''  ''"
  have ws: "\<forall>c\<in>set ?ind. json_ws c" "\<forall>c\<in>set (10 # ind). json_ws c" using 8 by auto
  have "parse_members (skip (members_text ?ind (m # ms) @ (10 # ind) @ 125 # t)) = Some (m # ms, t)"
    using 8 ws by (intro parse_members_text) (fastforce simp: list_all_iff)+
  moreover have "hd (skip (members_text ?ind (m # ms) @ (10 # ind) @ 125 # t)) = 34"
    using ws by (cases ms; cases m) (auto simp: members_text_def skip_ws json_quote_def)
  ultimately show ?case
    by (simp add: members_text_def parse_value.simps)
qed (auto simp: parse_value.simps json_quote_def parse_json_chars json_word_def startsWith_iff js_def)

lemma JSON_parse_stringify:
  assumes "number_free v" and "\<forall>c\<in>set ind. json_ws c" and "\<forall>c\<in>set w. json_ws c"
  shows "JSON_parse (stringify ind v @ w) = Some v"
  using assms by (simp add: JSON_parse_def skip_stringify parse_value_stringify)

end
