(* ===== verification/Site.thy ===== *)
theory Site
  imports Vdom Json Complex_Main
begin

text \<open>
  The site map of the documentation site: \<open>website/lib/docs-nav.ts\<close> and
  \<open>website/lib/site.ts\<close>, the navigation components that read them (\<open>site-header.tsx\<close>,
  \<open>site-footer.tsx\<close>, \<open>docs/docs-sidebar.tsx\<close>, \<open>docs/docs-pager.tsx\<close> under
  \<open>website/components\<close>), \<open>website/lib/metadata.ts\<close> and the generator of the sitemap, the
  robots file and the manifest, \<open>website/scripts/generate-seo.ts\<close>.

  Parameters: \<open>env\<close> is \<open>process.env.NEXT_PUBLIC_SITE_URL\<close>, \<open>URL path base\<close> is
  \<open>new URL(path, base).toString()\<close> of the platform, \<open>cn\<close> is the class-name combiner.
\<close>

section \<open>lib/docs-nav.ts\<close>

record DocLink =
  doc_title :: jstr
  doc_href :: jstr
  doc_description :: "jstr option"

record DocNavGroup =
  grp_label :: jstr
  grp_items :: "DocLink list"

abbreviation doc :: "jstr \<Rightarrow> jstr \<Rightarrow> jstr \<Rightarrow> DocLink" where
  "doc t h d \<equiv> \<lparr>doc_title = t, doc_href = h, doc_description = Some d\<rparr>"

definition docsNav :: "DocNavGroup list" where
  "docsNav =
     [
      \<lparr>grp_label = js ''Introduction'', grp_items =
        [doc (js ''Overview'') (js ''/docs/'')
           (js ''What KubeCell is, who it is for, and how the pieces fit together.''),
         doc (js ''Core concepts'') (js ''/docs/concepts/'')
           (js ''The four KubeCell resources, quota tiers, and how a cluster maps to a host.'')]\<rparr>,
      \<lparr>grp_label = js ''Getting started'', grp_items =
        [doc (js ''Installation'') (js ''/docs/installation/'')
           (js ''Install the management cluster, connect a host, and prepare it for tenants.''),
         doc (js ''First VirtualCluster'') (js ''/docs/first-virtualcluster/'')
           (js ''Preflight a request, create your first cluster, and get the kubeconfig.''),
         doc (js ''Host onboarding'') (js ''/docs/host-onboarding/'')
           (js ''The four-command flow that adds a physical host to KubeCell.'')]\<rparr>,
      \<lparr>grp_label = js ''Guides'', grp_items =
        [doc (js ''Day-2 operations'') (js ''/docs/operations/'')
           (js ''Inventory checks, credentials, quota changes, ingress, upgrades, deletion.''),
         doc (js ''API reference'') (js ''/docs/api-reference/'')
           (js ''Every CRD field, immutability rule, and status condition.''),
         doc (js ''Security & isolation'') (js ''/docs/security/'')
           (js ''Namespace, quota, policy, and admission controls per child cluster.''),
         doc (js ''Troubleshooting'') (js ''/docs/troubleshooting/'')
           (js ''Symptom-first diagnostics across Cell, Work, child API, and storage.''),
         doc (js ''FAQ'') (js ''/docs/faq/'')
           (js ''Short answers about scope, limits, and design trade-offs.'')]\<rparr>]"

definition docsFlat :: "DocLink list" where
  "docsFlat = concat (map grp_items docsNav)"

text \<open>\<open>xs.findIndex(p)\<close>: the first index that satisfies the predicate, or \<open>-1\<close>.\<close>

fun findIndex :: "('a \<Rightarrow> bool) \<Rightarrow> 'a list \<Rightarrow> int" where
  "findIndex p [] = -1"
| "findIndex p (x # xs) =
     (if p x then 0 else (let i = findIndex p xs in if i = -1 then -1 else i + 1))"

record neighbors =
  previous :: "DocLink option"
  next_doc :: "DocLink option"

definition docNeighbors :: "jstr \<Rightarrow> neighbors" where
  "docNeighbors pathname =
     (let index = findIndex (\<lambda>item. doc_href item = pathname) docsFlat in
      \<lparr>previous = (if index > 0 then Some (docsFlat ! nat (index - 1)) else None),
       next_doc = (if index \<ge> 0 \<and> index < int (length docsFlat) - 1
                   then Some (docsFlat ! nat (index + 1)) else None)\<rparr>)"

section \<open>lib/site.ts\<close>

record site_docs =
  design :: jstr
  onboarding :: jstr
  ciPlan :: jstr

record site_config =
  site_name :: jstr
  tagline :: jstr
  site_title :: jstr
  site_description :: jstr
  shortDescription :: jstr
  site_url :: jstr
  github :: jstr
  githubIssues :: jstr
  site_docs :: site_docs
  site_keywords :: "jstr list"

definition siteConfig :: "jstr option \<Rightarrow> site_config" where
  "siteConfig env = \<lparr>
     site_name = js ''KubeCell'',
     tagline = js ''Give every developer their own Kubernetes cluster, on hardware you already own'',
     site_title = js ''KubeCell '' @ [8212] @ js '' A Kubernetes cluster for every developer on shared bare metal'',
     site_description = js ''KubeCell gives every developer their own isolated Kubernetes cluster on the servers you already run. Standard kubectl, hard CPU/memory/GPU quotas, persistent storage, and a kubeconfig in minutes.'',
     shortDescription = js ''Give every developer their own isolated Kubernetes cluster on shared hardware '' @ [8212] @ js '' real kubectl, hard quotas, ready in minutes.'',
     site_url = (case env of Some u \<Rightarrow> u | None \<Rightarrow> js ''https://kubecell.pages.dev''),
     github = js ''https://github.com/taosher/KubeCell'',
     githubIssues = js ''https://github.com/taosher/KubeCell/issues'',
     site_docs = \<lparr>
       design = js ''https://github.com/taosher/KubeCell/blob/main/technical-design.md'',
       onboarding = js ''https://github.com/taosher/KubeCell/blob/main/docs/operations/host-onboarding.md'',
       ciPlan = js ''https://github.com/taosher/KubeCell/blob/main/docs/testing/ci-plan.md''\<rparr>,
     site_keywords = map js
       [''KubeCell'', ''Kubernetes operator'', ''virtual cluster'', ''K3s'', ''K3k'', ''multi-tenancy'',
        ''bare metal Kubernetes'', ''resource quota isolation'', ''virtual node'', ''TopoLVM'', ''OCM'',
        ''accelerator sharing'', ''Ascend 910B'', ''GPU sharing Kubernetes'', ''platform engineering'',
        ''developer sandbox'']\<rparr>"

text \<open>
  \<open>new URL(path, base).toString()\<close>, a parameter. The configured address is taken to be a valid one; with any
  other value of \<open>NEXT_PUBLIC_SITE_URL\<close> the constructor raises a \<open>TypeError\<close> and the build ends.
\<close>

type_synonym url_fn = "jstr \<Rightarrow> jstr \<Rightarrow> jstr"

definition absoluteUrl :: "url_fn \<Rightarrow> jstr option \<Rightarrow> jstr option \<Rightarrow> jstr" where
  "absoluteUrl URL env path = URL (case path of Some p \<Rightarrow> p | None \<Rightarrow> js ''/'') (site_url (siteConfig env))"

record NavItem =
  nav_title :: jstr
  nav_href :: jstr

abbreviation nav :: "string \<Rightarrow> string \<Rightarrow> NavItem" where
  "nav t h \<equiv> \<lparr>nav_title = js t, nav_href = js h\<rparr>"

definition primaryNav :: "NavItem list" where
  "primaryNav =
     [nav ''Quickstart'' ''/quickstart/'',
      nav ''Use cases'' ''/use-cases/'',
      nav ''Architecture'' ''/architecture/'',
      nav ''Docs'' ''/docs/'']"

section \<open>lib/metadata.ts\<close>

datatype og_type = Website | Article

record open_graph =
  og_type :: og_type
  og_title :: jstr
  og_description :: jstr
  og_url :: jstr
  og_siteName :: jstr

record twitter_card =
  tw_card :: jstr
  tw_title :: jstr
  tw_description :: jstr

record Metadata =
  md_title :: jstr
  md_description :: jstr
  md_keywords :: "jstr list option"
  canonical :: jstr
  openGraph :: open_graph
  twitter :: twitter_card

definition buildMetadata ::
  "jstr \<Rightarrow> jstr \<Rightarrow> jstr \<Rightarrow> jstr list option \<Rightarrow> og_type option \<Rightarrow> Metadata" where
  "buildMetadata title description path keywords ty = \<lparr>
     md_title = title, md_description = description, md_keywords = keywords, canonical = path,
     openGraph = \<lparr>og_type = (case ty of Some t \<Rightarrow> t | None \<Rightarrow> Website), og_title = title,
       og_description = description, og_url = path, og_siteName = js ''KubeCell''\<rparr>,
     twitter = \<lparr>tw_card = js ''summary_large_image'', tw_title = title, tw_description = description\<rparr>\<rparr>"

section \<open>components/site-header.tsx\<close>

text \<open>\<open>href.replace(/\/$/, "")\<close>.\<close>

definition strip_slash :: "jstr \<Rightarrow> jstr" where
  "strip_slash h = (if h \<noteq> [] \<and> last h = cu CHR ''/'' then butlast h else h)"

definition isActive :: "jstr \<Rightarrow> jstr \<Rightarrow> bool" where
  "isActive pathname href =
     (if href = js ''/'' then pathname = js ''/''
      else if href = js ''/docs/'' then startsWith pathname (js ''/docs'')
      else startsWith pathname (strip_slash href))"

definition header_nav :: "class_fn \<Rightarrow> jstr \<Rightarrow> node" where
  "header_nav cn pathname =
     El ''nav'' [cls ''hidden items-center gap-1 md:flex'', att ''aria-label'' ''Primary'']
       (map (\<lambda>item. El ''Link''
          [(''key'', nav_href item), (''href'', nav_href item),
           (''className'', cn [Some (js ''rounded-md px-3 py-2 text-sm text-muted-foreground transition-colors hover:bg-white/5 hover:text-foreground''),
              if isActive pathname (nav_href item) then Some (js ''text-foreground'') else None])]
          [Txt (nav_title item)]) primaryNav)"

definition header_sheet :: "class_fn \<Rightarrow> jstr option \<Rightarrow> jstr \<Rightarrow> bool \<Rightarrow> node" where
  "header_sheet cn env pathname opened =
     El ''Sheet'' [(''open'', bool_attr opened), att ''onOpenChange'' ''setOpen'']
       [El ''SheetTrigger'' [att ''asChild'' ''true'']
          [El ''Button'' [att ''variant'' ''ghost'', att ''size'' ''icon'', cls ''md:hidden'', att ''aria-label'' ''Open menu'']
             [El ''Menu'' [cls ''h-5 w-5''] []]],
        El ''SheetContent'' [att ''side'' ''right'', cls ''w-80 border-white/10 bg-[#070c17]'']
          [El ''SheetHeader'' [] [El ''SheetTitle'' [cls ''text-left''] [El ''Logo'' [] []]],
           El ''nav'' [cls ''mt-6 flex flex-col gap-1'', att ''aria-label'' ''Mobile'']
             (map (\<lambda>item. El ''Link''
                [(''key'', nav_href item), (''href'', nav_href item), att ''onClick'' ''setOpen(false)'',
                 (''className'', cn [Some (js ''rounded-lg px-3 py-2.5 text-sm text-muted-foreground transition-colors hover:bg-white/5 hover:text-foreground''),
                    if isActive pathname (nav_href item) then Some (js ''bg-white/5 text-foreground'') else None])]
                [Txt (nav_title item)]) primaryNav @
              [El ''a'' [(''href'', github (siteConfig env)), att ''target'' ''_blank'', att ''rel'' ''noreferrer'',
                 cls ''mt-2 flex items-center gap-2 rounded-lg px-3 py-2.5 text-sm text-muted-foreground transition-colors hover:bg-white/5 hover:text-foreground'']
                 [El ''Github'' [cls ''h-4 w-4''] [], Txt (js ''GitHub'')]]),
           El ''div'' [cls ''mt-6'']
             [El ''Button'' [att ''asChild'' ''true'', cls ''w-full'']
                [El ''Link'' [att ''href'' ''/quickstart/'', att ''onClick'' ''setOpen(false)''] [Txt (js ''Get started'')]]]]]"

definition siteHeader :: "class_fn \<Rightarrow> jstr option \<Rightarrow> jstr \<Rightarrow> bool \<Rightarrow> node" where
  "siteHeader cn env pathname opened =
     El ''header'' [cls ''sticky top-0 z-50 w-full border-b border-white/5 bg-background/70 backdrop-blur-xl'']
       [El ''div'' [cls ''container-page flex h-16 items-center justify-between gap-4'']
          [El ''Link'' [att ''href'' ''/'', cls ''shrink-0'', att ''aria-label'' ''KubeCell home''] [El ''Logo'' [] []],
           header_nav cn pathname,
           El ''div'' [cls ''flex items-center gap-2'']
             [El ''Button'' [att ''variant'' ''ghost'', att ''size'' ''sm'', att ''asChild'' ''true'', cls ''hidden sm:inline-flex'']
                [El ''a'' [(''href'', github (siteConfig env)), att ''target'' ''_blank'', att ''rel'' ''noreferrer'']
                   [El ''Github'' [cls ''h-4 w-4''] [], El ''span'' [cls ''ml-1.5''] [Txt (js ''GitHub'')]]],
              El ''Button'' [att ''size'' ''sm'', att ''asChild'' ''true'', cls ''hidden sm:inline-flex'']
                [El ''Link'' [att ''href'' ''/quickstart/''] [Txt (js ''Get started'')]],
              header_sheet cn env pathname opened]]]"

section \<open>components/site-footer.tsx\<close>

definition projectLinks :: "jstr option \<Rightarrow> NavItem list" where
  "projectLinks env =
     [\<lparr>nav_title = js ''GitHub repository'', nav_href = github (siteConfig env)\<rparr>,
      \<lparr>nav_title = js ''Technical design'', nav_href = design (site_docs (siteConfig env))\<rparr>,
      \<lparr>nav_title = js ''Host onboarding guide'', nav_href = onboarding (site_docs (siteConfig env))\<rparr>,
      \<lparr>nav_title = js ''CI plan'', nav_href = ciPlan (site_docs (siteConfig env))\<rparr>,
      \<lparr>nav_title = js ''Issues'', nav_href = githubIssues (siteConfig env)\<rparr>]"

abbreviation footer_link :: "jstr \<Rightarrow> jstr \<Rightarrow> node" where
  "footer_link h t \<equiv> El ''Link'' [(''href'', h), cls ''text-muted-foreground transition-colors hover:text-foreground''] [Txt t]"

text \<open>The four columns of the footer.\<close>

definition footer_columns :: "jstr option \<Rightarrow> node list" where
  "footer_columns env =
     [El ''div'' [cls ''max-w-sm'']
        [El ''Logo'' [] [],
         El ''p'' [cls ''mt-4 text-sm leading-6 text-muted-foreground'']
           [Txt (js ''Give every developer their own isolated Kubernetes cluster on the hardware you already own '' @ [8212] @
                 js '' with hard CPU, memory, and GPU quotas, persistent storage, and standard kubectl.'')],
         El ''p'' [cls ''mt-4 text-xs leading-5 text-amber-300/80'']
           [Txt (js ''KubeCell is in active development and not yet stable. Do not use it for production workloads.'')]],
      El ''div'' []
        [El ''h3'' [cls ''text-sm font-semibold text-foreground''] [Txt (js ''Product'')],
         El ''ul'' [cls ''mt-4 space-y-2.5 text-sm'']
           (map (\<lambda>item. El ''li'' [(''key'', nav_href item)] [footer_link (nav_href item) (nav_title item)]) primaryNav @
            [El ''li'' [] [footer_link (js ''/docs/faq/'') (js ''FAQ'')]])],
      El ''div'' []
        [El ''h3'' [cls ''text-sm font-semibold text-foreground''] [Txt (js ''Documentation'')],
         El ''ul'' [cls ''mt-4 space-y-2.5 text-sm'']
           (map (\<lambda>item. El ''li'' [(''key'', doc_href item)] [footer_link (doc_href item) (doc_title item)])
             (slice docsFlat 0 6))],
      El ''div'' []
        [El ''h3'' [cls ''text-sm font-semibold text-foreground''] [Txt (js ''Project'')],
         El ''ul'' [cls ''mt-4 space-y-2.5 text-sm'']
           (map (\<lambda>item. El ''li'' [(''key'', nav_href item)]
              [El ''a'' [(''href'', nav_href item), att ''target'' ''_blank'', att ''rel'' ''noreferrer'',
                 cls ''inline-flex items-center gap-1.5 text-muted-foreground transition-colors hover:text-foreground'']
                 [Txt (nav_title item), El ''Github'' [cls ''h-3.5 w-3.5 opacity-60''] []]]) (projectLinks env))]]"

definition siteFooter :: "jstr option \<Rightarrow> nat \<Rightarrow> node" where
  "siteFooter env year =
     El ''footer'' [cls ''border-t border-white/5 bg-[#04060d]'']
       [El ''div'' [cls ''container-page py-14'']
          [El ''div'' [cls ''grid gap-10 lg:grid-cols-[1.4fr_1fr_1fr_1fr]''] (footer_columns env),
           El ''div'' [cls ''mt-12 flex flex-col gap-3 border-t border-white/5 pt-6 text-xs text-muted-foreground sm:flex-row sm:items-center sm:justify-between'']
             [El ''p'' [] [Txt ([169, 32]), Txt (digits year), Txt (js '' KubeCell contributors. Built in the open on GitHub.'')],
              El ''p'' [cls ''font-mono''] [Txt (js ''Open source '' @ [183] @ js '' pre-release '' @ [183] @ js '' built on Kubernetes'')]]]]"

section \<open>components/docs/docs-sidebar.tsx and docs-pager.tsx\<close>

definition sidebar_item :: "class_fn \<Rightarrow> jstr \<Rightarrow> DocLink \<Rightarrow> node" where
  "sidebar_item cn pathname item =
     (let active = (pathname = doc_href item) in
      El ''li'' [(''key'', doc_href item)]
        [El ''Link'' [(''href'', doc_href item),
           (''className'', cn [Some (js ''-ml-px block border-l border-transparent py-1.5 pl-4 text-sm transition-colors''),
              Some (if active then js ''border-sky-400 font-medium text-foreground''
                    else js ''text-muted-foreground hover:border-white/20 hover:text-foreground'')])]
           [Txt (doc_title item)]])"

definition docsSidebar :: "class_fn \<Rightarrow> jstr \<Rightarrow> node" where
  "docsSidebar cn pathname =
     El ''nav'' [att ''aria-label'' ''Documentation'', cls ''space-y-8'']
       (map (\<lambda>group. El ''div'' [(''key'', grp_label group)]
          [El ''p'' [cls ''mb-3 font-mono text-[11px] font-medium uppercase tracking-[0.18em] text-muted-foreground'']
             [Txt (grp_label group)],
           El ''ul'' [cls ''space-y-1 border-l border-white/10''] (map (sidebar_item cn pathname) (grp_items group))])
        docsNav)"

definition mobile_item :: "class_fn \<Rightarrow> jstr \<Rightarrow> DocLink \<Rightarrow> node" where
  "mobile_item cn pathname item =
     El ''li'' [(''key'', doc_href item)]
       [El ''Link'' [(''href'', doc_href item),
          (''className'', cn [Some (js ''block rounded-md px-2 py-1.5 text-sm''),
             Some (if pathname = doc_href item then js ''bg-white/5 font-medium text-foreground''
                   else js ''text-muted-foreground'')])]
          [Txt (doc_title item)]]"

definition docsMobileNav :: "class_fn \<Rightarrow> jstr \<Rightarrow> node" where
  "docsMobileNav cn pathname =
     (let current = List.find (\<lambda>item. doc_href item = pathname) (concat (map grp_items docsNav)) in
      El ''details'' [cls ''group rounded-xl border border-white/10 bg-white/[0.02] lg:hidden'']
        [El ''summary'' [cls ''flex cursor-pointer items-center justify-between px-4 py-3 text-sm font-medium text-foreground'']
           [El ''span'' [] (Txt (js ''Docs menu'') #
              (case current of
                 Some c \<Rightarrow> [El ''span'' [cls ''text-muted-foreground''] [Txt (js '' '' @ [183] @ js '' ''), Txt (doc_title c)]]
               | None \<Rightarrow> [])),
            El ''span'' [cls ''text-muted-foreground transition-transform group-open:rotate-45''] [Txt (js ''+'')]],
         El ''div'' [cls ''border-t border-white/5 px-4 py-4'']
           (map (\<lambda>group. El ''div'' [(''key'', grp_label group), cls ''mb-4 last:mb-0'']
              [El ''p'' [cls ''mb-2 font-mono text-[10px] uppercase tracking-[0.18em] text-muted-foreground'']
                 [Txt (grp_label group)],
               El ''ul'' [cls ''space-y-1''] (map (mobile_item cn pathname) (grp_items group))])
            docsNav)])"

definition docsPager :: "jstr \<Rightarrow> node option" where
  "docsPager pathname =
     (let n = docNeighbors pathname in
      if previous n = None \<and> next_doc n = None then None
      else Some (El ''div'' [cls ''mt-16 grid gap-4 border-t border-white/5 pt-8 sm:grid-cols-2'']
        ((case previous n of
            Some p \<Rightarrow> El ''Link'' [(''href'', doc_href p),
               cls ''group rounded-xl border border-white/10 bg-white/[0.02] p-4 transition-colors hover:border-sky-400/30'']
              [El ''span'' [cls ''inline-flex items-center gap-1.5 text-xs text-muted-foreground'']
                 [El ''ArrowLeft'' [cls ''h-3.5 w-3.5 transition-transform group-hover:-translate-x-0.5''] [], Txt (js ''Previous'')],
               El ''p'' [cls ''mt-1.5 text-sm font-medium text-foreground''] [Txt (doc_title p)]]
          | None \<Rightarrow> El ''div'' [] []) #
         (case next_doc n of
            Some q \<Rightarrow> [El ''Link'' [(''href'', doc_href q),
               cls ''group rounded-xl border border-white/10 bg-white/[0.02] p-4 text-right transition-colors hover:border-sky-400/30 sm:col-start-2'']
              [El ''span'' [cls ''inline-flex items-center gap-1.5 text-xs text-muted-foreground'']
                 [Txt (js ''Next''), El ''ArrowRight'' [cls ''h-3.5 w-3.5 transition-transform group-hover:translate-x-0.5''] []],
               El ''p'' [cls ''mt-1.5 text-sm font-medium text-foreground''] [Txt (doc_title q)]]]
          | None \<Rightarrow> []))))"

section \<open>scripts/generate-seo.ts\<close>

datatype change_frequency = Weekly | Monthly

fun frequency_name :: "change_frequency \<Rightarrow> jstr" where
  "frequency_name Weekly = js ''weekly''"
| "frequency_name Monthly = js ''monthly''"

record Route =
  path :: jstr
  priority :: rat
  changeFrequency :: change_frequency

abbreviation route :: "string \<Rightarrow> rat \<Rightarrow> change_frequency \<Rightarrow> Route" where
  "route p r f \<equiv> \<lparr>path = js p, priority = r, changeFrequency = f\<rparr>"

definition staticRoutes :: "Route list" where
  "staticRoutes =
     [route ''/'' 1 Weekly,
      route ''/quickstart/'' (9/10) Monthly,
      route ''/use-cases/'' (8/10) Monthly,
      route ''/architecture/'' (8/10) Monthly]"

definition docRoutes :: "Route list" where
  "docRoutes = map (\<lambda>(index, d).
     \<lparr>path = doc_href d, priority = (if index = 0 then 9/10 else 7/10), changeFrequency = Monthly\<rparr>)
     (enumerate 0 docsFlat)"

definition routes :: "Route list" where
  "routes = staticRoutes @ docRoutes"

text \<open>\<open>x.toFixed(1)\<close> of a number that is not negative: the larger of two nearest tenths.\<close>

definition toFixed1 :: "rat \<Rightarrow> jstr" where
  "toFixed1 x = (let n = nat \<lfloor>10 * x + 1/2\<rfloor> in digits (n div 10) @ js ''.'' @ digits (n mod 10))"

definition url_lines :: "url_fn \<Rightarrow> jstr option \<Rightarrow> jstr \<Rightarrow> Route \<Rightarrow> jstr list" where
  "url_lines URL env lastmod r =
     [js ''  <url>'',
      js ''    <loc>'' @ URL (path r) (site_url (siteConfig env)) @ js ''</loc>'',
      js ''    <lastmod>'' @ lastmod @ js ''</lastmod>'',
      js ''    <changefreq>'' @ frequency_name (changeFrequency r) @ js ''</changefreq>'',
      js ''    <priority>'' @ toFixed1 (priority r) @ js ''</priority>'',
      js ''  </url>'']"

abbreviation quote_mark :: string where
  "quote_mark \<equiv> [CHR 0x22]"

definition sitemap :: "url_fn \<Rightarrow> jstr option \<Rightarrow> jstr \<Rightarrow> jstr" where
  "sitemap URL env lastmod = join [10]
     ([js (''<?xml version='' @ quote_mark @ ''1.0'' @ quote_mark @ '' encoding='' @ quote_mark @ ''UTF-8'' @ quote_mark @ ''?>''),
       js (''<urlset xmlns='' @ quote_mark @ ''http://www.sitemaps.org/schemas/sitemap/0.9'' @ quote_mark @ ''>'')] @
      map (\<lambda>r. join [10] (url_lines URL env lastmod r)) routes @
      [js ''</urlset>'', []])"

definition robots :: "url_fn \<Rightarrow> jstr option \<Rightarrow> jstr" where
  "robots URL env = join [10]
     [js ''# https://www.robotstxt.org/robotstxt.html'',
      js ''User-agent: *'',
      js ''Allow: /'',
      [],
      js ''Sitemap: '' @ URL (js ''/sitemap.xml'') (site_url (siteConfig env)),
      js ''Host: '' @ site_url (siteConfig env),
      []]"

abbreviation jfield :: "string \<Rightarrow> jstr \<Rightarrow> jstr \<times> json" where
  "jfield k v \<equiv> (js k, JStr v)"

definition manifest :: "jstr option \<Rightarrow> json" where
  "manifest env = JObj
     [jfield ''name'' (site_title (siteConfig env)),
      jfield ''short_name'' (site_name (siteConfig env)),
      jfield ''description'' (shortDescription (siteConfig env)),
      jfield ''start_url'' (js ''/''),
      jfield ''display'' (js ''standalone''),
      jfield ''background_color'' (js ''#04060d''),
      jfield ''theme_color'' (js ''#04060d''),
      (js ''icons'', JArr
        [JObj [jfield ''src'' (js ''/kubecell-logo.svg''), jfield ''sizes'' (js ''any''),
               jfield ''type'' (js ''image/svg+xml''), jfield ''purpose'' (js ''any'')],
         JObj [jfield ''src'' (js ''/apple-icon.png''), jfield ''sizes'' (js ''180x180''),
               jfield ''type'' (js ''image/png'')]])]"

definition seo_outputs :: "url_fn \<Rightarrow> jstr option \<Rightarrow> jstr \<Rightarrow> (jstr \<times> jstr) list" where
  "seo_outputs URL env lastmod =
     [(js ''app/sitemap.xml'', sitemap URL env lastmod),
      (js ''app/robots.txt'', robots URL env),
      (js ''app/manifest.webmanifest'', stringify [] (manifest env) @ [10])]"

text \<open>
  The writing loop: a file system maps relative paths to contents, and each output is
  written and logged; the last line of the log counts the sitemap entries.
\<close>

definition write_outputs ::
  "url_fn \<Rightarrow> jstr option \<Rightarrow> jstr \<Rightarrow> (jstr \<rightharpoonup> jstr) \<Rightarrow> (jstr \<rightharpoonup> jstr) \<times> jstr list" where
  "write_outputs URL env lastmod fs =
     (foldl (\<lambda>fs (relativePath, content). fs(relativePath \<mapsto> content)) fs (seo_outputs URL env lastmod),
      map (\<lambda>(relativePath, content). js ''[seo] wrote '' @ relativePath) (seo_outputs URL env lastmod) @
      [js ''[seo] '' @ digits (length routes) @ js '' sitemap entries for '' @ site_url (siteConfig env)])"

section \<open>Sequences of pages\<close>

lemma findIndex_range: "findIndex p xs = -1 \<or> 0 \<le> findIndex p xs \<and> findIndex p xs < int (length xs)"
  by (induction xs) (auto simp: Let_def)

lemma findIndex_none: "findIndex p xs = -1 \<longleftrightarrow> (\<forall>x\<in>set xs. \<not> p x)"
proof (induction xs)
  case Nil
  then show ?case by simp
next
  case (Cons x xs)
  then show ?case using findIndex_range [of p xs] by (auto simp: Let_def)
qed

lemma findIndex_first:
  "i < length xs \<Longrightarrow> p (xs ! i) \<Longrightarrow> \<forall>j<i. \<not> p (xs ! j) \<Longrightarrow> findIndex p xs = int i"
proof (induction xs arbitrary: i)
  case Nil
  then show ?case by simp
next
  case (Cons x xs)
  show ?case
  proof (cases i)
    case 0
    with Cons.prems show ?thesis by simp
  next
    case (Suc k)
    have "findIndex p xs = int k"
      using Cons.prems Suc by (intro Cons.IH) auto
    moreover have "\<not> p x" using Cons.prems(3) Suc by auto
    ultimately show ?thesis using Suc by simp
  qed
qed

text \<open>
  What the pager relies on: pages in reading order, no two of them at the same address.
\<close>

locale page_sequence =
  fixes pages :: "'a list" and addr :: "'a \<Rightarrow> jstr"
  assumes addr_distinct: "distinct (map addr pages)"
begin

lemma index_of: "i < length pages \<Longrightarrow> findIndex (\<lambda>x. addr x = addr (pages ! i)) pages = int i"
  using addr_distinct
  by (intro findIndex_first) (auto simp: distinct_conv_nth)

lemma index_unknown: "a \<notin> addr ` set pages \<Longrightarrow> findIndex (\<lambda>x. addr x = a) pages = -1"
  by (auto simp: findIndex_none)

lemma find_page: "i < length pages \<Longrightarrow> List.find (\<lambda>x. addr x = addr (pages ! i)) pages = Some (pages ! i)"
  using addr_distinct by (auto simp: find_Some_iff distinct_conv_nth)

end

lemmas docs_eval = docsFlat_def docsNav_def

interpretation docs: page_sequence docsFlat doc_href
  by unfold_locales (simp add: docs_eval)

lemma docsFlat_length [simp]: "length docsFlat = 10"
  by (simp add: docs_eval)

lemma docNeighbors_nth:
  assumes "i < length docsFlat"
  shows "docNeighbors (doc_href (docsFlat ! i)) =
    \<lparr>previous = (if 0 < i then Some (docsFlat ! (i - 1)) else None),
     next_doc = (if i + 1 < length docsFlat then Some (docsFlat ! (i + 1)) else None)\<rparr>"
  using docs.index_of [OF assms]
  by (auto simp: docNeighbors_def Let_def nat_diff_distrib nat_add_distrib of_nat_diff)

lemma docNeighbors_unknown:
  "a \<notin> doc_href ` set docsFlat \<Longrightarrow> docNeighbors a = \<lparr>previous = None, next_doc = None\<rparr>"
  using docs.index_unknown by (simp add: docNeighbors_def)

lemma doc_cases:
  obtains (page) i where "i < length docsFlat" and "a = doc_href (docsFlat ! i)"
  | (other) "a \<notin> doc_href ` set docsFlat"
  by (metis image_iff in_set_conv_nth)

section \<open>Addresses of the site\<close>

text \<open>The addresses of the pages the sitemap announces and the external addresses of the configuration.\<close>

definition site_paths :: "jstr set" where
  "site_paths = path ` set routes"

definition external_urls :: "jstr option \<Rightarrow> jstr set" where
  "external_urls env = nav_href ` set (projectLinks env)"

lemma docRoutes_paths: "map path docRoutes = map doc_href docsFlat"
  by (rule nth_equalityI) (simp_all add: docRoutes_def nth_enumerate_eq)

lemma site_paths_eq:
  "site_paths = {js ''/'', js ''/quickstart/'', js ''/use-cases/'', js ''/architecture/''} \<union> doc_href ` set docsFlat"
proof -
  have "path ` set docRoutes = doc_href ` set docsFlat"
    by (metis docRoutes_paths list.set_map)
  then show ?thesis by (auto simp: site_paths_def routes_def staticRoutes_def)
qed

lemma routes_distinct: "distinct (map path routes)"
  by (simp add: routes_def docRoutes_paths staticRoutes_def) (simp add: docs_eval)

text \<open>Following the pager \<open>n\<close> times, forwards and backwards.\<close>

primrec follow :: "(neighbors \<Rightarrow> DocLink option) \<Rightarrow> nat \<Rightarrow> jstr \<Rightarrow> jstr option" where
  "follow dir 0 a = Some a"
| "follow dir (Suc n) a =
     (case dir (docNeighbors a) of None \<Rightarrow> None | Some d \<Rightarrow> follow dir n (doc_href d))"

lemma follow_next:
  "i < length docsFlat \<Longrightarrow> follow next_doc n (doc_href (docsFlat ! i)) =
     (if i + n < length docsFlat then Some (doc_href (docsFlat ! (i + n))) else None)"
  by (induction n arbitrary: i) (auto simp: docNeighbors_nth simp del: docsFlat_length)

lemma follow_previous:
  "i < length docsFlat \<Longrightarrow> follow previous n (doc_href (docsFlat ! i)) =
     (if n \<le> i then Some (doc_href (docsFlat ! (i - n))) else None)"
  by (induction n arbitrary: i) (auto simp: docNeighbors_nth Suc_diff_Suc simp del: docsFlat_length)

lemma startsWith_two_prefixes:
  "startsWith s p \<Longrightarrow> startsWith s q \<Longrightarrow> startsWith p q \<or> startsWith q p"
  by (auto simp: startsWith_iff) (metis append_eq_append_conv2)

text \<open>The addresses the primary navigation compares with: none is a prefix of another.\<close>

lemma isActive_primary:
  "map (\<lambda>i. isActive a (nav_href i)) primaryNav =
     map (\<lambda>p. startsWith a (js p)) [''/quickstart'', ''/use-cases'', ''/architecture'', ''/docs'']"
  by (simp add: primaryNav_def isActive_def strip_slash_def js_def)

lemma startsWith_antichain:
  assumes "\<forall>i<length ps. \<forall>j<length ps. i \<noteq> j \<longrightarrow> \<not> startsWith (ps ! i) (ps ! j)"
  shows "length (filter (startsWith a) ps) \<le> 1"
proof -
  let ?A = "{i. i < length ps \<and> startsWith a (ps ! i)}"
  have "\<forall>i\<in>?A. \<forall>j\<in>?A. i = j" using assms startsWith_two_prefixes by blast
  then have "card ?A \<le> Suc 0" by (subst card_le_Suc0_iff_eq) auto
  then show ?thesis by (simp add: length_filter_conv_card)
qed

lemma filter_length_map: "length (filter P xs) = length (filter id (map P xs))"
  by (induction xs) auto

lemma active_count:
  "length (filter (\<lambda>i. isActive a (nav_href i)) primaryNav) =
     length (filter (startsWith a) (map js [''/quickstart'', ''/use-cases'', ''/architecture'', ''/docs'']))"
proof -
  have "map (startsWith a) (map js ps) = map (\<lambda>p. startsWith a (js p)) ps" for ps by simp
  then show ?thesis by (metis filter_length_map isActive_primary)
qed

lemma antichain_primary: "length (filter (\<lambda>i. isActive a (nav_href i)) primaryNav) \<le> 1"
  unfolding active_count
  by (rule startsWith_antichain) (simp add: All_less_Suc numeral_eq_Suc js_def)

section \<open>Links of the navigation\<close>

lemma docs_nav_links: "concat (map (\<lambda>g. map doc_href (grp_items g)) gs) = map doc_href (concat (map grp_items gs))"
  by (simp add: map_concat comp_def)

lemma sidebar_links: "links (docsSidebar cn a) = map doc_href docsFlat"
  by (simp add: docsSidebar_def sidebar_item_def Let_def comp_def docsFlat_def docs_nav_links)

lemma mobile_links: "links (docsMobileNav cn a) = map doc_href docsFlat"
  by (cases "List.find (\<lambda>item. doc_href item = a) (concat (map grp_items docsNav))")
    (simp_all add: docsMobileNav_def mobile_item_def Let_def comp_def docsFlat_def docs_nav_links)

lemma header_links:
  "set (links (siteHeader cn env a b)) \<subseteq> {js ''/'', js ''/quickstart/'', github (siteConfig env)} \<union> nav_href ` set primaryNav"
  by (auto simp: siteHeader_def header_nav_def header_sheet_def)

lemma footer_links:
  "set (links (siteFooter env y)) \<subseteq>
     insert (js ''/docs/faq/'') (nav_href ` set primaryNav \<union> doc_href ` set docsFlat \<union> nav_href ` set (projectLinks env))"
  by (auto simp: siteFooter_def footer_columns_def slice_def dest: in_set_takeD)

lemma pager_links:
  "docsPager a = Some n \<Longrightarrow> links n =
     (case previous (docNeighbors a) of Some p \<Rightarrow> [doc_href p] | None \<Rightarrow> []) @
     (case next_doc (docNeighbors a) of Some q \<Rightarrow> [doc_href q] | None \<Rightarrow> [])"
  by (auto simp: docsPager_def Let_def split: if_splits option.splits)

lemma docNeighbors_in:
  "previous (docNeighbors a) = Some p \<or> next_doc (docNeighbors a) = Some p \<Longrightarrow> p \<in> set docsFlat"
proof (cases rule: doc_cases [of a])
  case (page i)
  moreover assume "previous (docNeighbors a) = Some p \<or> next_doc (docNeighbors a) = Some p"
  ultimately show ?thesis by (auto simp: docNeighbors_nth split: if_splits simp del: docsFlat_length)
next
  case other
  moreover assume "previous (docNeighbors a) = Some p \<or> next_doc (docNeighbors a) = Some p"
  ultimately show ?thesis by (simp add: docNeighbors_unknown)
qed

lemma primary_paths: "nav_href ` set primaryNav \<subseteq> site_paths"
  by (auto simp: primaryNav_def site_paths_eq docs_eval)

lemma github_external: "github (siteConfig env) \<in> external_urls env"
  by (simp add: external_urls_def projectLinks_def)

lemma faq_path: "js ''/docs/faq/'' \<in> site_paths"
  by (simp add: site_paths_eq docs_eval)

lemma root_paths: "js ''/'' \<in> site_paths" "js ''/quickstart/'' \<in> site_paths" "doc_href ` set docsFlat \<subseteq> site_paths"
  by (auto simp: site_paths_eq)

text \<open>A page of the site or one of the addresses of the configuration.\<close>

definition resolves :: "jstr option \<Rightarrow> node \<Rightarrow> bool" where
  "resolves env n \<longleftrightarrow> set (links n) \<subseteq> site_paths \<union> external_urls env \<and> safe_targets n"

lemma header_resolves: "resolves env (siteHeader cn env a b)"
proof -
  have "safe_targets (siteHeader cn env a b)"
    by (auto simp: siteHeader_def header_nav_def header_sheet_def list_all_iff)
  then show ?thesis
    using header_links [of cn env a b] primary_paths root_paths github_external [of env]
    by (auto simp: resolves_def)
qed

lemma footer_resolves: "resolves env (siteFooter env y)"
proof -
  have "safe_targets (siteFooter env y)"
    by (simp add: siteFooter_def footer_columns_def comp_def list.pred_map list.pred_True)
  moreover have "set (links (siteFooter env y)) \<subseteq> site_paths \<union> external_urls env"
  proof
    fix l
    assume "l \<in> set (links (siteFooter env y))"
    then have "l = js ''/docs/faq/'' \<or> (l \<in> nav_href ` set primaryNav \<or> l \<in> doc_href ` set docsFlat) \<or> l \<in> external_urls env"
      using subsetD [OF footer_links [of env y], of l] by (simp only: Un_iff insert_iff external_urls_def simp_thms)
    then show "l \<in> site_paths \<union> external_urls env"
      using subsetD [OF primary_paths, of l] subsetD [OF root_paths(3), of l] faq_path
      by (elim disjE) (simp_all only: Un_iff simp_thms)
  qed
  ultimately show ?thesis by (simp add: resolves_def)
qed

lemma docs_resolve: "resolves env (docsSidebar cn a)" "resolves env (docsMobileNav cn a)"
proof -
  have "safe_targets (docsSidebar cn a)" "safe_targets (docsMobileNav cn a)"
    by (auto simp: docsSidebar_def sidebar_item_def docsMobileNav_def mobile_item_def Let_def list_all_iff
        split: option.splits)
  then show "resolves env (docsSidebar cn a)" "resolves env (docsMobileNav cn a)"
    using root_paths(3) by (auto simp: resolves_def sidebar_links mobile_links)
qed

lemma pager_resolves: "pred_option (resolves env) (docsPager a)"
proof (cases "docsPager a")
  case None
  then show ?thesis by simp
next
  case (Some n)
  have "safe_targets n"
    using Some by (auto simp: docsPager_def Let_def split: if_splits option.splits)
  moreover have "set (links n) \<subseteq> doc_href ` set docsFlat"
    using docNeighbors_in [of a] by (auto simp: pager_links [OF Some] split: option.splits)
  ultimately show ?thesis using Some root_paths(3) by (auto simp: resolves_def)
qed

section \<open>The sitemap\<close>

definition loc_line :: "jstr \<Rightarrow> jstr" where
  "loc_line u = js ''    <loc>'' @ u @ js ''</loc>''"

lemma split_url_lines:
  assumes "10 \<notin> set (URL (path r) (site_url (siteConfig env)))" and "10 \<notin> set lastmod"
  shows "split_at 10 (join [10] (url_lines URL env lastmod r)) = url_lines URL env lastmod r"
proof -
  have "10 \<notin> set (digits n)" for n using digits_are_digits [of 10 n] by (auto simp: is_digit_def)
  moreover have "10 \<notin> set (frequency_name f)" for f by (cases f) (simp_all add: js_def)
  ultimately have "10 \<notin> set l" if "l \<in> set (url_lines URL env lastmod r)" for l
    using that assms by (auto simp: url_lines_def toFixed1_def Let_def js_def)
  then show ?thesis by (intro split_at_join_lines) (simp_all add: url_lines_def)
qed

lemma loc_of_url_lines:
  "filter (\<lambda>l. startsWith l (js ''    <loc>'')) (url_lines URL env lastmod r) =
     [loc_line (URL (path r) (site_url (siteConfig env)))]"
  by (simp add: url_lines_def loc_line_def js_def)

lemma sitemap_loc_lines:
  assumes "\<And>p b. 10 \<notin> set (URL p b)" and "10 \<notin> set lastmod"
  shows "filter (\<lambda>l. startsWith l (js ''    <loc>'')) (split_at 10 (sitemap URL env lastmod)) =
    map (\<lambda>r. loc_line (URL (path r) (site_url (siteConfig env)))) routes"
proof -
  let ?loc = "\<lambda>l. startsWith l (js ''    <loc>'')"
  have "filter ?loc (concat (map (\<lambda>r. split_at 10 (join [10] (url_lines URL env lastmod r))) rs)) =
      map (\<lambda>r. loc_line (URL (path r) (site_url (siteConfig env)))) rs" for rs
    by (induction rs) (simp_all add: split_url_lines assms loc_of_url_lines)
  then show ?thesis
    unfolding sitemap_def by (subst split_at_join) (auto simp: comp_def js_def)
qed

lemma loc_line_inj [simp]: "loc_line u = loc_line v \<longleftrightarrow> u = v"
  by (simp add: loc_line_def)

section \<open>Properties of the site map and its navigation\<close>

text \<open>
  C12. The pager leads through the whole documentation: following \<open>Next\<close> from the overview
  visits every page of \<open>docsNav\<close> once, in order, and then stops; following \<open>Previous\<close> from
  the last page goes the same way back.
\<close>

theorem docs_walk:
  "follow next_doc n (js ''/docs/'') = (if n < length docsFlat then Some (doc_href (docsFlat ! n)) else None) \<and>
   follow previous n (js ''/docs/faq/'') =
     (if n < length docsFlat then Some (doc_href (docsFlat ! (length docsFlat - 1 - n))) else None) \<and>
   distinct (map doc_href docsFlat)"
proof -
  have ends: "doc_href (docsFlat ! 0) = js ''/docs/''" "doc_href (docsFlat ! 9) = js ''/docs/faq/''"
    by (simp_all add: docs_eval)
  show ?thesis
    using follow_next [of 0 n] follow_previous [of 9 n] ends docs.addr_distinct by auto
qed

text \<open>
  \<open>Next\<close> and \<open>Previous\<close> are inverse to each other on the documentation pages, and a
  path that is no documentation page has neither.
\<close>

theorem docNeighbors_inverse:
  "(p \<in> set docsFlat \<and> next_doc (docNeighbors (doc_href p)) = Some q \<longleftrightarrow>
    q \<in> set docsFlat \<and> previous (docNeighbors (doc_href q)) = Some p) \<and>
   (docsPager a = None \<longleftrightarrow> a \<notin> doc_href ` set docsFlat)"
proof -
  have forth: "q = docsFlat ! (i + 1) \<and> i + 1 < length docsFlat"
    if "i < length docsFlat" "next_doc (docNeighbors (doc_href (docsFlat ! i))) = Some q" for i q
    using that by (simp add: docNeighbors_nth split: if_splits)
  have prev: "p = docsFlat ! (j - 1) \<and> 0 < j"
    if "j < length docsFlat" "previous (docNeighbors (doc_href (docsFlat ! j))) = Some p" for j p
    using that by (simp add: docNeighbors_nth split: if_splits)
  have "p \<in> set docsFlat \<and> next_doc (docNeighbors (doc_href p)) = Some q \<longleftrightarrow>
      q \<in> set docsFlat \<and> previous (docNeighbors (doc_href q)) = Some p" (is "?l \<longleftrightarrow> ?r")
  proof
    assume ?l
    then obtain i where "i < length docsFlat" "p = docsFlat ! i" by (metis in_set_conv_nth)
    with forth [of i q] \<open>?l\<close> show ?r by (auto simp: docNeighbors_nth simp del: docsFlat_length)
  next
    assume ?r
    then obtain j where "j < length docsFlat" "q = docsFlat ! j" by (metis in_set_conv_nth)
    with prev [of j p] \<open>?r\<close> show ?l by (auto simp: docNeighbors_nth simp del: docsFlat_length)
  qed
  moreover have "docsPager a = None \<longleftrightarrow> a \<notin> doc_href ` set docsFlat"
    by (cases rule: doc_cases [of a]) (auto simp: docsPager_def docNeighbors_nth docNeighbors_unknown)
  ultimately show ?thesis by blast
qed

text \<open>
  C13. Whatever the path, at most one entry of the primary navigation is marked as the
  current one; on the pages of the site none is marked on the home page and exactly one on
  every other page.
\<close>

theorem primaryNav_one_active:
  "length (filter (\<lambda>i. isActive a (nav_href i)) primaryNav) \<le> 1 \<and>
   map (\<lambda>r. length (filter (\<lambda>i. isActive (path r) (nav_href i)) primaryNav)) routes =
     0 # replicate (length routes - 1) 1"
proof -
  have "map (\<lambda>r. length (filter (\<lambda>i. isActive (path r) (nav_href i)) primaryNav)) routes =
      0 # replicate (length routes - 1) 1"
    by (simp add: active_count routes_def staticRoutes_def docRoutes_def docs_eval js_def)
  then show ?thesis using antichain_primary by simp
qed

text \<open>
  No dead link in the navigation: on every path, in every state of the menu, each link
  of the header, the footer, the sidebar, the mobile documentation menu and the pager
  leads to a page that the sitemap announces or to an address of \<open>siteConfig\<close>, and every
  link that opens a new tab withholds the referrer.
\<close>

theorem navigation_resolves:
  "resolves env (siteHeader cn env a opened) \<and> resolves env (siteFooter env year) \<and>
   resolves env (docsSidebar cn a) \<and> resolves env (docsMobileNav cn a) \<and>
   pred_option (resolves env) (docsPager a)"
  using header_resolves footer_resolves docs_resolve pager_resolves by simp

text \<open>
  C14. The sitemap announces the routes and nothing else: if serialised addresses and the
  date contain no line feed, the \<open>loc\<close> lines of the generated file are the absolute
  addresses of the routes, one each and in order, and no route occurs twice.
\<close>

theorem sitemap_lists_routes:
  assumes "\<And>p b. 10 \<notin> set (URL p b)" and "10 \<notin> set lastmod"
  shows "filter (\<lambda>l. startsWith l (js ''    <loc>'')) (split_at 10 (sitemap URL env lastmod)) =
      map (\<lambda>r. loc_line (absoluteUrl URL env (Some (path r)))) routes \<and>
    distinct (map path routes) \<and> path ` set routes =
      {js ''/''} \<union> nav_href ` set primaryNav \<union> doc_href ` set docsFlat"
proof -
  have "path ` set routes = {js ''/''} \<union> nav_href ` set primaryNav \<union> doc_href ` set docsFlat"
    using site_paths_eq by (auto simp: site_paths_def primaryNav_def docs_eval)
  then show ?thesis
    using sitemap_loc_lines [OF assms, where env = env] routes_distinct by (simp add: absoluteUrl_def)
qed

theorem sitemap_lists_routes_witness:
  "length (filter (\<lambda>l. startsWith l (js ''    <loc>''))
     (split_at 10 (sitemap (\<lambda>p b. filter (\<lambda>c. c \<noteq> 10) (b @ p)) None (js ''2025-01-31'')))) = 14"
  using sitemap_lists_routes [of "\<lambda>p b. filter (\<lambda>c. c \<noteq> 10) (b @ p)" "js ''2025-01-31''" None]
  by (simp add: js_def [of "''2025-01-31''"] routes_def staticRoutes_def docRoutes_def)

text \<open>
  On a documentation page the sidebar highlights exactly the entry of that page, and
  on any other path none, provided \<open>cn\<close> tells the two class lists apart.
\<close>

theorem docsSidebar_current:
  assumes "\<And>b. cn [Some b, Some (js ''border-sky-400 font-medium text-foreground'')] \<noteq>
    cn [Some b, Some (js ''text-muted-foreground hover:border-white/20 hover:text-foreground'')]"
  shows "map (\<lambda>l. map_of (attrs l) ''href'')
      (filter (\<lambda>l. map_of (attrs l) ''className'' =
         Some (cn [Some (js ''-ml-px block border-l border-transparent py-1.5 pl-4 text-sm transition-colors''),
           Some (js ''border-sky-400 font-medium text-foreground'')]))
        (find_all ''Link'' (docsSidebar cn a))) =
    (if a \<in> doc_href ` set docsFlat then [Some a] else [])"
proof -
  let ?on = "\<lambda>l. map_of (attrs l) ''className'' =
     Some (cn [Some (js ''-ml-px block border-l border-transparent py-1.5 pl-4 text-sm transition-colors''),
       Some (js ''border-sky-400 font-medium text-foreground'')])"
  let ?one = "\<lambda>d. map (\<lambda>l. map_of (attrs l) ''href'') (filter ?on (find_all ''Link'' (sidebar_item cn a d)))"
  have one: "?one d = (if doc_href d = a then [Some a] else [])" for d
    using assms [symmetric] by (auto simp: sidebar_item_def Let_def)
  have "find_all ''Link'' (docsSidebar cn a) = concat (map (\<lambda>d. find_all ''Link'' (sidebar_item cn a d)) docsFlat)"
  proof -
    have "concat (map (\<lambda>g. concat (map f (grp_items g))) gs) = concat (map f (concat (map grp_items gs)))"
      for f :: "DocLink \<Rightarrow> node list" and gs
      by (induction gs) auto
    then show ?thesis by (simp add: docsSidebar_def docsFlat_def comp_def)
  qed
  then have "map (\<lambda>l. map_of (attrs l) ''href'') (filter ?on (find_all ''Link'' (docsSidebar cn a))) =
      concat (map ?one docsFlat)"
    by (simp add: filter_concat map_concat comp_def)
  also have "\<dots> = map (\<lambda>d. Some (doc_href d)) (filter (\<lambda>d. doc_href d = a) docsFlat)"
  proof -
    have "concat (map (\<lambda>d. if doc_href d = a then [Some a] else []) ds) =
        map (\<lambda>d. Some (doc_href d)) (filter (\<lambda>d. doc_href d = a) ds)" for ds :: "DocLink list"
      by (induction ds) auto
    then show ?thesis unfolding one .
  qed
  also have "\<dots> = (if a \<in> doc_href ` set docsFlat then [Some a] else [])"
    by (simp add: docs_eval)
  finally show ?thesis .
qed

theorem docsSidebar_current_witness:
  "map (\<lambda>l. map_of (attrs l) ''href'')
      (filter (\<lambda>l. map_of (attrs l) ''className'' = Some (js ''border-sky-400 font-medium text-foreground''))
        (find_all ''Link'' (docsSidebar (\<lambda>cs. case last cs of Some c \<Rightarrow> c | None \<Rightarrow> []) (js ''/docs/concepts/'')))) =
    [Some (js ''/docs/concepts/'')]"
  using docsSidebar_current [of "\<lambda>cs. case last cs of Some c \<Rightarrow> c | None \<Rightarrow> []" "js ''/docs/concepts/''"]
  by (simp add: docs_eval)

text \<open>
  The generated web manifest can be read back: it is accepted by \<open>JSON.parse\<close> and gives the
  manifest object again, whatever the configuration.
\<close>

lemma manifest_parses: "JSON_parse (stringify [] (manifest env) @ [10]) = Some (manifest env)"
  by (rule JSON_parse_stringify) (simp_all add: manifest_def)

lemma robots_lines:
  assumes "\<And>p b. 10 \<notin> set (URL p b)" and "10 \<notin> set (site_url (siteConfig env))"
  shows "filter (\<lambda>l. startsWith l (js ''Sitemap: '')) (split_at 10 (robots URL env)) =
    [js ''Sitemap: '' @ absoluteUrl URL env (Some (js ''/sitemap.xml''))]"
proof -
  have "split_at 10 (robots URL env) =
      [js ''# https://www.robotstxt.org/robotstxt.html'', js ''User-agent: *'', js ''Allow: /'', [],
       js ''Sitemap: '' @ URL (js ''/sitemap.xml'') (site_url (siteConfig env)), js ''Host: '' @ site_url (siteConfig env), []]"
    unfolding robots_def by (rule split_at_join_lines) (use assms in \<open>auto simp: js_def\<close>)
  then show ?thesis by (simp add: absoluteUrl_def js_def)
qed

fun json_get :: "string \<Rightarrow> json \<Rightarrow> json option" where
  "json_get k (JObj ms) = map_of ms (js k)"
| "json_get k v = None"

text \<open>
  C20. The files of the generator agree with each other. It writes the sitemap, the robots file and the
  manifest and touches no other file; the number it prints is that of the addresses in the sitemap it
  wrote; the robots file names one sitemap, the one at \<open>/sitemap.xml\<close>, which is where the written file is
  served; and the written manifest parses, carries the title and the name of the site, and starts at
  a page whose address the written sitemap announces. Serialised addresses, the date and the configured
  address contain no line feed.
\<close>

theorem seo_files_agree:
  assumes "\<And>p b. 10 \<notin> set (URL p b)" and "10 \<notin> set lastmod" and "10 \<notin> set (site_url (siteConfig env))"
  shows "\<exists>sm rb mf m start.
    fst (write_outputs URL env lastmod fs) =
      fs(js ''app/sitemap.xml'' \<mapsto> sm, js ''app/robots.txt'' \<mapsto> rb, js ''app/manifest.webmanifest'' \<mapsto> mf) \<and>
    last (snd (write_outputs URL env lastmod fs)) =
      js ''[seo] '' @ digits (length (filter (\<lambda>l. startsWith l (js ''    <loc>'')) (split_at 10 sm))) @
      js '' sitemap entries for '' @ site_url (siteConfig env) \<and>
    filter (\<lambda>l. startsWith l (js ''Sitemap: '')) (split_at 10 rb) =
      [js ''Sitemap: '' @ absoluteUrl URL env (Some (js ''/sitemap.xml''))] \<and>
    JSON_parse mf = Some m \<and>
    json_get ''name'' m = Some (JStr (site_title (siteConfig env))) \<and>
    json_get ''short_name'' m = Some (JStr (site_name (siteConfig env))) \<and>
    json_get ''start_url'' m = Some (JStr start) \<and>
    loc_line (absoluteUrl URL env (Some start)) \<in> set (split_at 10 sm)"
proof -
  let ?loc = "filter (\<lambda>l. startsWith l (js ''    <loc>'')) (split_at 10 (sitemap URL env lastmod))"
  have loc: "?loc = map (\<lambda>r. loc_line (absoluteUrl URL env (Some (path r)))) routes"
    using sitemap_loc_lines [OF assms(1,2), where env = env] by (simp add: absoluteUrl_def)
  have "loc_line (absoluteUrl URL env (Some (js ''/''))) \<in> set ?loc" unfolding loc by (simp add: routes_def staticRoutes_def)
  then have "loc_line (absoluteUrl URL env (Some (js ''/''))) \<in> set (split_at 10 (sitemap URL env lastmod))" by simp
  moreover have "json_get ''name'' (manifest env) = Some (JStr (site_title (siteConfig env)))"
      "json_get ''short_name'' (manifest env) = Some (JStr (site_name (siteConfig env)))"
      "json_get ''start_url'' (manifest env) = Some (JStr (js ''/''))"
    by (simp_all add: manifest_def)
  moreover have "length ?loc = length routes" unfolding loc by simp
  ultimately show ?thesis
    using manifest_parses [of env] robots_lines [where URL = URL, OF assms(1,3)]
    by (intro exI [of _ "sitemap URL env lastmod"] exI [of _ "robots URL env"] exI [of _ "stringify [] (manifest env) @ [10]"]
        exI [of _ "manifest env"] exI [of _ "js ''/''"])
      (simp add: write_outputs_def seo_outputs_def)
qed

theorem seo_files_agree_witness:
  "\<exists>mf m. fst (write_outputs (\<lambda>p b. filter (\<lambda>c. c \<noteq> 10) (b @ p)) None (js ''2025-01-31'') Map.empty) (js ''app/manifest.webmanifest'') = Some mf \<and>
     JSON_parse mf = Some m \<and> json_get ''short_name'' m = Some (JStr (js ''KubeCell''))"
proof -
  let ?URL = "\<lambda>p b. filter (\<lambda>c. c \<noteq> (10 :: nat)) (b @ p)"
  have "\<And>p b. 10 \<notin> set (?URL p b)" "10 \<notin> set (js ''2025-01-31'')" "10 \<notin> set (site_url (siteConfig None))"
    by (simp_all add: siteConfig_def js_def)
  from seo_files_agree [where URL = ?URL and fs = Map.empty, OF this] show ?thesis by (fastforce simp: siteConfig_def)
qed

end
