(* ===== verification/Page_Frame.thy ===== *)
theory Page_Frame
  imports Site
begin

text \<open>
  The frame of the pages and their structured data: \<open>app/layout.tsx\<close>, \<open>app/docs/layout.tsx\<close>,
  \<open>components/json-ld.tsx\<close>, \<open>components/section.tsx\<close>, \<open>components/docs/callout.tsx\<close>,
  \<open>magicui/scroll-progress.tsx\<close>, the questions of \<open>lib/faq.ts\<close> with the page
  \<open>app/docs/faq/page.tsx\<close> and the preview \<open>components/home/faq-preview.tsx\<close>, and the structured
  data of the home page, \<open>app/page.tsx\<close>.

  The structured data is put into a \<open>script\<close> element as it is written by \<open>JSON.stringify\<close>,
  without escapes for HTML. A script ends, and a comment in it starts, with a less-than sign,
  so a text without one cannot leave the element.
\<close>

section \<open>JSON.stringify without indentation\<close>

fun stringify0 :: "json \<Rightarrow> jstr" where
  "stringify0 JNull = js ''null''"
| "stringify0 (JBool b) = (if b then js ''true'' else js ''false'')"
| "stringify0 (JNum n) = n"
| "stringify0 (JStr s) = json_quote s"
| "stringify0 (JArr vs) = js ''['' @ join (js '','') (map stringify0 vs) @ js '']''"
| "stringify0 (JObj ms) = js ''{'' @ join (js '','') (map (\<lambda>(k, x). json_quote k @ js '':'' @ stringify0 x) ms) @ js ''}''"

definition jsonLd :: "json \<Rightarrow> node" where
  "jsonLd data = El ''script'' [att ''type'' ''application/ld+json'', (''dangerouslySetInnerHTML.__html'', stringify0 data)] []"

section \<open>lib/faq.ts\<close>

record FaqItem =
  question :: jstr
  answer :: jstr

definition faqItems :: "FaqItem list" where
  "faqItems =
     [
      \<lparr>question = js ''What exactly do I get when I create a cluster?'',
       answer = js ''A real Kubernetes cluster with its own API server, control plane, and persistent data volume '' @ [8212] @ js '' not a namespace with extra labels. You receive an admin kubeconfig, and normal kubectl, Helm, and CI tools work exactly as they do on any other cluster.''\<rparr>,
      \<lparr>question = js ''Do I need GPUs or accelerators to use KubeCell?'',
       answer = js ''No. Accelerators are optional. A host that only offers CPU and memory works fine; you simply publish a quota tier without device requests. The same quota, storage, and isolation model applies either way.''\<rparr>,
      \<lparr>question = js ''Can one developer's workloads starve another's?'',
       answer = js ''No. Each cluster has a hard quota for CPU, memory, and accelerators, enforced by Kubernetes on the host. Requests and limits are both capped, so one busy cluster cannot consume another's share.''\<rparr>,
      \<lparr>question = js ''Why does my cluster show only one node?'',
       answer = js ''The node is how your cluster sees its quota; the physical machines belong to the host and are managed for you. Need more capacity? Move the cluster to a larger quota tier rather than adding nodes.''\<rparr>,
      \<lparr>question = js ''What happens when I delete a cluster?'',
       answer = js ''KubeCell removes the cluster, its credentials, and everything it created on the host. Persistent volumes follow the storage reclaim policy you configured: under Retain they are kept for recovery, so data is never deleted silently.''\<rparr>,
      \<lparr>question = js ''Can two clusters share one GPU?'',
       answer = js ''No. Accelerators are allocated as whole cards: a cluster either owns a card or it does not. That keeps performance predictable and makes capacity accounting honest for everyone.''\<rparr>,
      \<lparr>question = js ''Do I need to change my manifests or tooling?'',
       answer = js ''No. Workloads inside a cluster are ordinary Pods, Services, Ingresses, and PVCs. There is no sidecar to install and no custom client: your existing kubectl, Helm charts, and CI pipelines work unchanged.''\<rparr>,
      \<lparr>question = js ''How do I expose an app to the internet?'',
       answer = js ''Create a normal Ingress in your cluster and choose a name. KubeCell publishes it on the host's shared ingress at a predictable hostname, and TLS is handled at the host level. Ask your platform team for the domain suffix they configured.''\<rparr>,
      \<lparr>question = js ''How long does it take for a cluster to be ready?'',
       answer = js ''The first cluster on a host usually takes 10 to 20 minutes because the container images have to be pulled onto the machine. Later clusters start much faster since the layers are already cached.''\<rparr>,
      \<lparr>question = js ''Is KubeCell production ready?'',
       answer = js ''Not yet. KubeCell is under active development and the APIs are still v1alpha1. Use it for development, evaluation, and lab environments while the remaining hardening work completes.''\<rparr>]"

section \<open>Structured data\<close>

abbreviation str :: "string \<Rightarrow> json" where
  "str s \<equiv> JStr (js s)"

definition organizationLd :: "url_fn \<Rightarrow> jstr option \<Rightarrow> json" where
  "organizationLd URL env = JObj
     [(js ''@context'', str ''https://schema.org''), (js ''@type'', str ''Organization''), (js ''name'', str ''KubeCell''),
      (js ''url'', JStr (site_url (siteConfig env))),
      (js ''logo'', JStr (absoluteUrl URL env (Some (js ''/kubecell-logo.svg'')))),
      (js ''sameAs'', JArr [JStr (github (siteConfig env))]),
      (js ''description'', JStr (site_description (siteConfig env)))]"

definition websiteLd :: "jstr option \<Rightarrow> json" where
  "websiteLd env = JObj
     [(js ''@context'', str ''https://schema.org''), (js ''@type'', str ''WebSite''), (js ''name'', str ''KubeCell''),
      (js ''url'', JStr (site_url (siteConfig env))), (js ''description'', JStr (site_description (siteConfig env))),
      (js ''publisher'', JObj [(js ''@type'', str ''Organization''), (js ''name'', str ''KubeCell'')])]"

definition softwareLd :: "url_fn \<Rightarrow> jstr option \<Rightarrow> json" where
  "softwareLd URL env = JObj
     [(js ''@context'', str ''https://schema.org''), (js ''@type'', str ''SoftwareSourceCode''), (js ''name'', str ''KubeCell''),
      (js ''description'', JStr (site_description (siteConfig env))), (js ''codeRepository'', JStr (github (siteConfig env))),
      (js ''programmingLanguage'', str ''Go''), (js ''runtimePlatform'', str ''Kubernetes''),
      (js ''applicationCategory'', str ''DeveloperApplication''),
      (js ''license'', JStr (github (siteConfig env) @ js ''/blob/main/LICENSE'')),
      (js ''author'', JObj [(js ''@type'', str ''Organization''), (js ''name'', str ''KubeCell'')]),
      (js ''url'', JStr (absoluteUrl URL env (Some (js ''/''))))]"

definition question_ld :: "FaqItem \<Rightarrow> json" where
  "question_ld item = JObj
     [(js ''@type'', str ''Question''), (js ''name'', JStr (question item)),
      (js ''acceptedAnswer'', JObj [(js ''@type'', str ''Answer''), (js ''text'', JStr (answer item))])]"

definition faqLd :: "url_fn \<Rightarrow> jstr option \<Rightarrow> json" where
  "faqLd URL env = JObj
     [(js ''@context'', str ''https://schema.org''), (js ''@type'', str ''FAQPage''),
      (js ''mainEntity'', JArr (map question_ld faqItems)),
      (js ''url'', JStr (absoluteUrl URL env (Some (js ''/docs/faq/''))))]"

section \<open>components/section.tsx, components/docs/callout.tsx\<close>

definition section_node :: "class_fn \<Rightarrow> jstr option \<Rightarrow> jstr option \<Rightarrow> node list \<Rightarrow> node" where
  "section_node cn ident className children = El ''section''
     ((case ident of Some i \<Rightarrow> [(''id'', i)] | None \<Rightarrow> []) @ [(''className'', cn [Some (js ''relative py-20 sm:py-24''), className])])
     [El ''div'' [cls ''container-page''] children]"

datatype alignment = Center | LeftAligned

text \<open>An absent or empty part is not rendered.\<close>

definition sectionHeading :: "class_fn \<Rightarrow> jstr option \<Rightarrow> node list \<Rightarrow> node list \<Rightarrow> alignment \<Rightarrow> jstr option \<Rightarrow> node" where
  "sectionHeading cn eyebrow title description align className = El ''div''
     [(''className'', cn [Some (js ''max-w-3xl''),
        Some (if align = Center then js ''mx-auto text-center'' else js ''text-left''), className])]
     ((case eyebrow of
         None \<Rightarrow> []
       | Some e \<Rightarrow> if e = [] then []
           else [El ''p'' [cls ''mb-3 font-mono text-xs font-medium uppercase tracking-[0.2em] text-sky-400''] [Txt e]]) @
      [El ''h2'' [cls ''text-balance text-3xl font-semibold tracking-tight text-foreground sm:text-4xl''] title] @
      (if description = [] then []
       else [El ''p'' [cls ''mt-4 text-pretty text-base leading-7 text-muted-foreground sm:text-lg''] description]))"

definition pageHero :: "jstr \<Rightarrow> node list \<Rightarrow> node list \<Rightarrow> node list \<Rightarrow> node" where
  "pageHero eyebrow title description children = El ''div'' [cls ''relative overflow-hidden border-b border-white/5'']
     [El ''div'' [cls ''pointer-events-none absolute inset-0 bg-grid-faint opacity-60''] [],
      El ''div'' [cls ''pointer-events-none absolute -top-40 left-1/2 h-80 w-[46rem] -translate-x-1/2 rounded-full bg-sky-500/10 blur-3xl''] [],
      El ''div'' [cls ''container-page relative py-20 sm:py-24'']
        ([El ''p'' [cls ''mb-3 font-mono text-xs font-medium uppercase tracking-[0.2em] text-sky-400''] [Txt eyebrow],
          El ''h1'' [cls ''max-w-3xl text-balance text-4xl font-semibold tracking-tight text-foreground sm:text-5xl''] title,
          El ''div'' [cls ''mt-5 max-w-2xl text-pretty text-base leading-7 text-muted-foreground sm:text-lg''] description] @
         (if children = [] then [] else [El ''div'' [cls ''mt-8 flex flex-wrap items-center gap-3''] children]))]"

datatype callout_variant = InfoNote | WarningNote | TipNote

definition callout_styles :: "callout_variant \<Rightarrow> jstr \<times> jstr \<times> string" where
  "callout_styles v = (case v of
     InfoNote \<Rightarrow> (js ''border-sky-400/20 bg-sky-500/[0.06]'', js ''text-sky-300'', ''Info'')
   | WarningNote \<Rightarrow> (js ''border-amber-400/20 bg-amber-500/[0.06]'', js ''text-amber-300'', ''AlertTriangle'')
   | TipNote \<Rightarrow> (js ''border-emerald-400/20 bg-emerald-500/[0.06]'', js ''text-emerald-300'', ''Lightbulb''))"

definition callout :: "class_fn \<Rightarrow> callout_variant \<Rightarrow> jstr option \<Rightarrow> jstr option \<Rightarrow> node list \<Rightarrow> node" where
  "callout cn v title className children =
     (let (wrapper, icon, Icon) = callout_styles v in
      El ''div'' [(''className'', cn [Some (js ''my-6 flex gap-3 rounded-xl border p-4''), Some wrapper, className])]
        [El Icon [(''className'', cn [Some (js ''mt-0.5 h-4 w-4 shrink-0''), Some icon])] [],
         El ''div'' [cls ''text-sm leading-6 text-foreground/85'']
           ((case title of
               None \<Rightarrow> []
             | Some t \<Rightarrow> if t = [] then [] else [El ''p'' [cls ''mb-1 font-semibold text-foreground''] [Txt t]]) @ children)])"

definition prose :: "class_fn \<Rightarrow> jstr option \<Rightarrow> node list \<Rightarrow> node" where
  "prose cn className children = El ''div'' [(''className'', cn [Some (js ''prose-kubecell''), className])] children"

section \<open>Layouts\<close>

definition scrollProgress :: "class_fn \<Rightarrow> jstr \<Rightarrow> jstr option \<Rightarrow> node" where
  "scrollProgress cn scrollYProgress className = El ''motion.div''
     [(''className'', cn [Some (js ''fixed inset-x-0 top-0 z-50 h-px origin-left bg-linear-to-r from-[#A97CF8] via-[#F38CB8] to-[#FDCC92]''),
        className]), (''style.scaleX'', scrollYProgress)] []"

record frame_input =
  pathname :: jstr
  menu_open :: bool
  this_year :: nat
  scrolled :: jstr

definition rootLayout :: "class_fn \<Rightarrow> url_fn \<Rightarrow> jstr option \<Rightarrow> frame_input \<Rightarrow> node list \<Rightarrow> node" where
  "rootLayout cn URL env i children = El ''html'' [att ''lang'' ''en'', cls ''dark'']
     [El ''body'' [cls ''min-h-screen antialiased'']
        [jsonLd (JArr [organizationLd URL env, websiteLd env]),
         scrollProgress cn (scrolled i) (Some (js ''h-0.5 bg-gradient-to-r from-sky-400 via-violet-400 to-sky-400'')),
         El ''a'' [att ''href'' ''#main'',
           cls ''sr-only focus:not-sr-only focus:absolute focus:left-4 focus:top-4 focus:z-[100] focus:rounded-md focus:bg-primary focus:px-4 focus:py-2 focus:text-primary-foreground'']
           [Txt (js ''Skip to content'')],
         siteHeader cn env (pathname i) (menu_open i),
         El ''main'' [att ''id'' ''main''] children,
         siteFooter env (this_year i)]]"

definition docsLayout :: "class_fn \<Rightarrow> jstr \<Rightarrow> node list \<Rightarrow> node" where
  "docsLayout cn here children = El ''div'' [cls ''relative'']
     [El ''div'' [cls ''pointer-events-none absolute inset-x-0 top-0 h-72 bg-grid-faint opacity-40''] [],
      El ''div'' [cls ''container-page relative'']
        [El ''div'' [cls ''grid gap-10 py-12 lg:grid-cols-[16rem_minmax(0,1fr)] lg:gap-14 lg:py-16'']
           [El ''aside'' [cls ''lg:sticky lg:top-24 lg:h-[calc(100vh-8rem)] lg:overflow-y-auto lg:pr-2'']
              [docsMobileNav cn here, El ''div'' [cls ''hidden lg:block''] [docsSidebar cn here]],
            El ''div'' [cls ''min-w-0 max-w-3xl'']
              (children @ (case docsPager here of Some n \<Rightarrow> [n] | None \<Rightarrow> []))]]]"

section \<open>The questions as a page and as a preview\<close>

definition accordion_item :: "jstr \<Rightarrow> FaqItem \<Rightarrow> node" where
  "accordion_item value item = El ''AccordionItem'' [(''key'', question item), (''value'', value)]
     [El ''AccordionTrigger'' [cls ''text-left text-[15px] font-medium hover:text-sky-300''] [Txt (question item)],
      El ''AccordionContent'' [cls ''text-sm leading-6 text-muted-foreground''] [Txt (answer item)]]"

definition accordion :: "node list \<Rightarrow> node" where
  "accordion items = El ''Accordion'' [att ''type'' ''single'', att ''collapsible'' ''true'', cls ''w-full''] items"

definition faqPage :: "class_fn \<Rightarrow> url_fn \<Rightarrow> jstr option \<Rightarrow> node list" where
  "faqPage cn URL env =
     [jsonLd (faqLd URL env),
      prose cn None
        [El ''p'' [cls ''font-mono text-xs uppercase tracking-[0.2em] text-sky-400''] [Txt (js ''Guides'')],
         El ''h1'' [cls ''mt-3 text-3xl font-semibold tracking-tight text-foreground sm:text-4xl''] [Txt (js ''Frequently asked questions'')],
         El ''p'' [cls ''mt-5 text-base leading-7 text-muted-foreground'']
           [Txt (js ''Short answers to the questions that come up in every design review.'')],
         El ''div'' [cls ''not-prose mt-8'']
           [accordion (map (\<lambda>(index, item). accordion_item (js ''item-'' @ digits index) item) (enumerate 0 faqItems))],
         El ''p'' [cls ''mt-10'']
           [Txt (js ''Still stuck? The ''), El ''Link'' [att ''href'' ''/docs/troubleshooting/''] [Txt (js ''troubleshooting guide'')],
            Txt (js '' covers symptom-first diagnosis, and the ''),
            El ''a'' [att ''href'' ''https://github.com/taosher/KubeCell/blob/main/technical-design.md''] [Txt (js ''technical design'')],
            Txt (js '' is the authoritative answer for anything not listed here.'')]]]"

definition faqPreview :: "class_fn \<Rightarrow> node" where
  "faqPreview cn = El ''section'' [cls ''relative py-20 sm:py-24'']
     [El ''div'' [cls ''container-page'']
        [El ''div'' [cls ''grid gap-10 lg:grid-cols-[0.9fr_1.1fr] lg:gap-16'']
           [sectionHeading cn (Some (js ''FAQ'')) [Txt (js ''Questions engineers ask first'')]
              [Txt (js ''Design trade-offs worth knowing before you install anything.'')] LeftAligned None,
            El ''div'' []
              [accordion (map (\<lambda>item. accordion_item (question item) item) (slice faqItems 0 5)),
               El ''p'' [cls ''mt-6 text-sm text-muted-foreground'']
                 [Txt (js ''More questions answered in the ''),
                  El ''Link'' [att ''href'' ''/docs/faq/'', cls ''font-medium text-sky-400 hover:text-sky-300''] [Txt (js ''full FAQ'')],
                  Txt (js ''.'')]]]]]"

section \<open>Reading the short form\<close>

lemma compact_head:
  assumes "number_free v"
  obtains c s where "stringify0 v = c # s" "\<not> json_ws c" "c \<noteq> 93" "c \<noteq> 125"
  using assms by (cases v; cases "v = JBool True") (auto simp: json_quote_def json_ws_def js_def)

lemma skip_compact:
  assumes "number_free v"
  shows "skip (stringify0 v @ t) = stringify0 v @ t" "stringify0 v \<noteq> []" "hd (stringify0 v @ t) \<noteq> 93"
  by (rule compact_head [OF assms]; simp)+

definition member_text :: "jstr \<times> json \<Rightarrow> jstr" where
  "member_text m = json_quote (fst m) @ js '':'' @ stringify0 (snd m)"

lemma js_colon [simp]: "js '':'' = [58]"
  by (simp add: js_def)

lemma parse_elems_compact:
  assumes "vs \<noteq> []" and "\<And>v t. v \<in> set vs \<Longrightarrow> parse_value (stringify0 v @ t) = Some (v, t)"
    and "\<And>v. v \<in> set vs \<Longrightarrow> number_free v"
  shows "parse_elems (join [44] (map stringify0 vs) @ 93 # t) = Some (vs, t)"
  using assms
proof (induction vs rule: list_nonempty_induct)
  case (single v)
  then show ?case by (subst parse_elems.simps) simp
next
  case (cons v vs)
  let ?rest = "join [44] (map stringify0 vs) @ 93 # t"
  obtain w ws where vs: "vs = w # ws" using cons(1) by (cases vs) auto
  have "number_free w" using cons(4) vs by simp
  then have "skip ?rest = ?rest" using skip_compact(1) by (cases ws) (simp_all add: vs join_Cons)
  then show ?case
    using cons by (subst parse_elems.simps) (simp add: join_Cons)
qed

lemma parse_members_compact:
  assumes "ms \<noteq> []" and "\<And>m t. m \<in> set ms \<Longrightarrow> parse_value (stringify0 (snd m) @ t) = Some (snd m, t)"
    and "\<And>m. m \<in> set ms \<Longrightarrow> number_free (snd m)"
  shows "parse_members (join [44] (map member_text ms) @ 125 # t) = Some (ms, t)"
  using assms
proof (induction ms rule: list_nonempty_induct)
  case (single m)
  then show ?case
    by (subst parse_members.simps) (simp add: member_text_def json_quote_def parse_json_chars skip_compact)
next
  case (cons m ms)
  let ?rest = "join [44] (map member_text ms) @ 125 # t"
  obtain w ws where ms: "ms = w # ws" using cons(1) by (cases ms) auto
  have "skip ?rest = ?rest" by (cases ws) (simp_all add: ms join_Cons member_text_def json_quote_def)
  moreover have "parse_members ?rest = Some (ms, t)" using cons(2) cons(3,4) by simp
  moreover have "join [44] (map member_text (m # ms)) @ 125 # t =
      34 # json_chars (fst m) @ 34 # 58 # stringify0 (snd m) @ 44 # ?rest"
    using cons(1) by (simp add: join_Cons member_text_def [of m] json_quote_def)
  ultimately show ?case
    using cons(3,4) [of m] by (subst parse_members.simps) (simp add: parse_json_chars skip_compact)
qed

lemma members_text_compact: "map (\<lambda>(k, x). json_quote k @ 58 # stringify0 x) ms = map member_text ms"
  by (simp add: member_text_def split_beta)

lemma parse_value_compact: "number_free v \<Longrightarrow> parse_value (stringify0 v @ t) = Some (v, t)"
proof (induction v arbitrary: t rule: stringify0.induct)
  case (5 vs)
  show ?case
  proof (cases vs)
    case Nil
    then show ?thesis by (simp add: parse_value.simps)
  next
    case (Cons v ws)
    have nf: "number_free v" using 5 Cons by simp
    have "parse_elems (join [44] (map stringify0 vs) @ 93 # t) = Some (vs, t)"
      using 5 Cons by (intro parse_elems_compact) (auto simp: list_all_iff)
    moreover have "skip (join [44] (map stringify0 vs) @ 93 # t) = join [44] (map stringify0 vs) @ 93 # t"
        "hd (join [44] (map stringify0 vs) @ 93 # t) \<noteq> 93"
      using skip_compact [OF nf] by (cases ws; simp add: Cons join_Cons)+
    ultimately show ?thesis by (simp add: parse_value.simps)
  qed
next
  case (6 ms)
  show ?case
  proof (cases ms)
    case Nil
    then show ?thesis by (simp add: parse_value.simps)
  next
    case (Cons m ws)
    have "parse_members (join [44] (map member_text ms) @ 125 # t) = Some (ms, t)"
      using 6 Cons by (intro parse_members_compact) (fastforce simp: list_all_iff)+
    moreover have "skip (join [44] (map member_text ms) @ 125 # t) = join [44] (map member_text ms) @ 125 # t"
        "hd (join [44] (map member_text ms) @ 125 # t) \<noteq> 125"
      by (cases ws; simp add: Cons join_Cons member_text_def json_quote_def)+
    ultimately show ?thesis by (simp add: parse_value.simps members_text_compact)
  qed
qed (auto simp: parse_value.simps json_quote_def parse_json_chars json_word_def startsWith_iff js_def)

lemma JSON_parse_compact: "number_free v \<Longrightarrow> JSON_parse (stringify0 v) = Some v"
  using parse_value_compact [of v "[]"] skip_compact(1) [of v "[]"] by (simp add: JSON_parse_def)

section \<open>Less-than signs\<close>

fun strings :: "json \<Rightarrow> jstr list" where
  "strings (JStr s) = [s]"
| "strings (JArr vs) = concat (map strings vs)"
| "strings (JObj ms) = concat (map (\<lambda>(k, v). k # strings v) ms)"
| "strings v = []"

lemma lt_hex: "hex_digit n \<noteq> 60"
  by (simp add: hex_digit_def)

lemma lt_u_escape: "60 \<notin> set (u_escape c)"
  using lt_hex [symmetric] by (simp add: u_escape_def)

lemma lt_json_escape: "60 \<in> set (json_escape c) \<longleftrightarrow> c = 60"
  using lt_u_escape by (auto simp: json_escape.simps)

lemma lt_json_chars: "60 \<in> set (json_chars s) \<longleftrightarrow> 60 \<in> set s"
proof (induction s rule: json_chars.induct)
  case (2 c)
  then show ?case by (auto simp: lt_json_escape lt_u_escape is_high_def is_low_def simp del: json_escape.simps)
next
  case (3 c d s)
  have "60 \<in> set (if is_high c \<or> is_low c then u_escape c else json_escape c) \<longleftrightarrow> c = 60"
    by (auto simp: lt_json_escape lt_u_escape is_high_def is_low_def simp del: json_escape.simps)
  with 3 show ?case by (auto simp: is_high_def is_low_def simp del: json_escape.simps)
qed simp

lemma set_join: "x \<notin> set sep \<Longrightarrow> x \<in> set (join sep ls) \<longleftrightarrow> (\<exists>l\<in>set ls. x \<in> set l)"
proof (induction ls)
  case (Cons l ls)
  then show ?case by (cases "ls = []") (auto simp: join_Cons)
qed simp

text \<open>The text has a less-than sign exactly if one of the strings or names does: nothing is escaped.\<close>

lemma lt_stringify0: "number_free v \<Longrightarrow> 60 \<in> set (stringify0 v) \<longleftrightarrow> (\<exists>s\<in>set (strings v). 60 \<in> set s)"
proof (induction v rule: stringify0.induct)
  case (5 vs)
  then show ?case by (auto simp: set_join list_all_iff)
next
  case (6 ms)
  have "60 \<in> set (member_text m) \<longleftrightarrow> 60 \<in> set (fst m) \<or> (\<exists>s\<in>set (strings (snd m)). 60 \<in> set s)" if "m \<in> set ms" for m
  proof -
    obtain k v where m: "m = (k, v)" by (cases m)
    with 6 that have "60 \<in> set (stringify0 v) \<longleftrightarrow> (\<exists>s\<in>set (strings v). 60 \<in> set s)" by (fastforce simp: list_all_iff)
    then show ?thesis by (simp add: m member_text_def json_quote_def lt_json_chars)
  qed
  then have "(\<exists>m\<in>set ms. 60 \<in> set (member_text m)) \<longleftrightarrow>
      (\<exists>m\<in>set ms. 60 \<in> set (fst m) \<or> (\<exists>s\<in>set (strings (snd m)). 60 \<in> set s))" by (rule bex_cong [OF refl])
  then show ?case by (simp add: set_join members_text_compact split_beta)
qed (auto simp: json_quote_def lt_json_chars js_def)

lemma faq_number_free: "number_free (faqLd URL env)"
  by (simp add: faqLd_def question_ld_def list.pred_map list.pred_True comp_def)

lemma ld_number_free: "number_free (organizationLd URL env)" "number_free (websiteLd env)" "number_free (softwareLd URL env)"
  by (simp_all add: organizationLd_def websiteLd_def softwareLd_def)

lemma lt_js: "60 \<in> set (js s) \<longleftrightarrow> CHR ''<'' \<in> set s"
proof -
  have "(60 :: nat) = cu CHR ''<''" by simp
  then have "60 \<in> set (js s) \<longleftrightarrow> cu CHR ''<'' \<in> cu ` set s" by (simp only: js_def set_map)
  also have "\<dots> \<longleftrightarrow> CHR ''<'' \<in> set s" by (rule inj_image_mem_iff) (rule inj_of_char)
  finally show ?thesis .
qed

lemma faqItems_plain: "list_all (\<lambda>i. 60 \<notin> set (question i) \<and> 60 \<notin> set (answer i)) faqItems"
  by (simp add: faqItems_def lt_js)

lemma siteConfig_plain: "60 \<notin> set (site_description (siteConfig env))" "60 \<notin> set (github (siteConfig env))"
  by (simp_all add: siteConfig_def lt_js)

text \<open>
  C21. The structured data stays in its \<open>script\<close> element. If serialised addresses have no less-than
  sign, as the standard for addresses demands, the data of the home page and of the questions
  has none, and the data of the layout has one exactly if the configured address of the site
  does, which is the only text that is neither literal nor serialised. What a crawler reads
  from each of the elements is the object the page was built with.
\<close>

theorem structured_data_safe:
  assumes "\<And>path. 60 \<notin> set (absoluteUrl URL env (Some path))"
  shows "(60 \<in> set (stringify0 (JArr [organizationLd URL env, websiteLd env])) \<longleftrightarrow> 60 \<in> set (site_url (siteConfig env))) \<and>
    60 \<notin> set (stringify0 (softwareLd URL env)) \<and> 60 \<notin> set (stringify0 (faqLd URL env)) \<and>
    JSON_parse (stringify0 (JArr [organizationLd URL env, websiteLd env])) = Some (JArr [organizationLd URL env, websiteLd env]) \<and>
    JSON_parse (stringify0 (softwareLd URL env)) = Some (softwareLd URL env) \<and>
    JSON_parse (stringify0 (faqLd URL env)) = Some (faqLd URL env)"
proof -
  have "60 \<notin> set s" if "s \<in> set (strings (question_ld i))" "i \<in> set faqItems" for s i
    using that faqItems_plain by (auto simp: question_ld_def list_all_iff lt_js)
  then have "60 \<notin> set (stringify0 (faqLd URL env))"
    unfolding lt_stringify0 [OF faq_number_free] using assms [of "js ''/docs/faq/''"] by (auto simp: faqLd_def lt_js)
  moreover have "60 \<notin> set (stringify0 (softwareLd URL env))"
    unfolding lt_stringify0 [OF ld_number_free(3)] using assms [of "js ''/''"] siteConfig_plain
    by (auto simp: softwareLd_def lt_js)
  moreover have nf: "number_free (JArr [organizationLd URL env, websiteLd env])" by (simp add: ld_number_free)
  have "60 \<in> set (stringify0 (JArr [organizationLd URL env, websiteLd env])) \<longleftrightarrow> 60 \<in> set (site_url (siteConfig env))"
    unfolding lt_stringify0 [OF nf] using assms [of "js ''/kubecell-logo.svg''"] siteConfig_plain
    by (auto simp: organizationLd_def websiteLd_def lt_js)
  ultimately show ?thesis by (simp only: JSON_parse_compact nf ld_number_free faq_number_free simp_thms)
qed

theorem structured_data_safe_witness:
  "60 \<notin> set (stringify0 (JArr [organizationLd (\<lambda>p base. base @ filter (\<lambda>c. c \<noteq> 60) p) None, websiteLd None]))"
proof -
  have "60 \<notin> set (site_url (siteConfig None))" by (simp add: siteConfig_def lt_js)
  moreover from this have "60 \<notin> set (absoluteUrl (\<lambda>p base. base @ filter (\<lambda>c. c \<noteq> 60) p) None (Some path))" for path
    by (simp add: absoluteUrl_def)
  ultimately show ?thesis using structured_data_safe [of "\<lambda>p base. base @ filter (\<lambda>c. c \<noteq> 60) p" None] by blast
qed

section \<open>The links of a page in its frame\<close>

lemma frame_links:
  "links (rootLayout cn URL env i ns) =
     js ''#main'' # links (siteHeader cn env (pathname i) (menu_open i)) @ concat (map links ns) @ links (siteFooter env (this_year i))"
  by (simp add: rootLayout_def jsonLd_def scrollProgress_def)

lemma frame_safe_targets:
  "safe_targets (rootLayout cn URL env i ns) \<longleftrightarrow> list_all safe_targets ns"
  using header_resolves [of env cn "pathname i" "menu_open i"] footer_resolves [of env "this_year i"]
  by (simp add: rootLayout_def jsonLd_def scrollProgress_def resolves_def)

lemma header_no_main: "find_all ''main'' (siteHeader cn env a b) = []"
  by (simp add: siteHeader_def header_nav_def header_sheet_def comp_def)

lemma footer_no_main: "find_all ''main'' (siteFooter env y) = []"
  by (simp add: siteFooter_def footer_columns_def comp_def)

lemma docs_frame_resolves:
  assumes "list_all (resolves env) ns"
  shows "resolves env (docsLayout cn here ns)"
  using assms docs_resolve [of env cn here] pager_resolves [of env here]
  by (cases "docsPager here") (auto simp: docsLayout_def resolves_def list_all_iff)

lemma design_external: "js ''https://github.com/taosher/KubeCell/blob/main/technical-design.md'' \<in> external_urls env"
  by (simp add: external_urls_def projectLinks_def siteConfig_def)

lemma troubleshooting_path: "js ''/docs/troubleshooting/'' \<in> site_paths"
  by (simp add: site_paths_eq docs_eval)

lemma accordion_no_links: "links (accordion_item v q) = []" "safe_targets (accordion_item v q)"
  by (simp_all add: accordion_item_def)

lemma faqPage_resolves: "list_all (resolves env) (faqPage cn URL env)"
  using design_external [of env] troubleshooting_path
  by (auto simp: faqPage_def resolves_def jsonLd_def prose_def accordion_def accordion_no_links list_all_iff)

lemma frame_main: "length (find_all ''main'' (rootLayout cn URL env i [])) = 1"
  by (simp add: rootLayout_def jsonLd_def scrollProgress_def header_no_main footer_no_main)

text \<open>
  No page in the frame of the documentation has a dead link if its own content has none: every
  link of the whole document leads to a page of the sitemap, to an address of the configuration
  or to the element \<open>main\<close>, and links that open a new tab withhold the referrer. The page of the
  questions is such a page.
\<close>

theorem documentation_frame:
  assumes "list_all (resolves env) ns"
  shows "set (links (rootLayout cn URL env i [docsLayout cn (pathname i) ns])) \<subseteq>
      {js ''#main''} \<union> site_paths \<union> external_urls env \<and>
    safe_targets (rootLayout cn URL env i [docsLayout cn (pathname i) ns]) \<and>
    length (find_all ''main'' (rootLayout cn URL env i [])) = 1"
  using docs_frame_resolves [OF assms, of cn "pathname i"] header_resolves [of env cn "pathname i" "menu_open i"]
    footer_resolves [of env "this_year i"] frame_main [of cn URL env i]
  by (auto simp: frame_links frame_safe_targets resolves_def)

theorem documentation_frame_witness:
  "safe_targets (rootLayout (\<lambda>_. []) (\<lambda>p base. base @ p) None
     \<lparr>pathname = js ''/docs/faq/'', menu_open = False, this_year = 2026, scrolled = js ''0''\<rparr>
     [docsLayout (\<lambda>_. []) (js ''/docs/faq/'') (faqPage (\<lambda>_. []) (\<lambda>p base. base @ p) None)])"
proof -
  let ?i = "\<lparr>pathname = js ''/docs/faq/'', menu_open = False, this_year = 2026, scrolled = js ''0''\<rparr>"
  have "list_all (resolves None) (faqPage (\<lambda>_. []) (\<lambda>p base. base @ p) None)" by (rule faqPage_resolves)
  from documentation_frame [OF this, of "\<lambda>_. []" "\<lambda>p base. base @ p" ?i] show ?thesis by simp
qed

text \<open>The page of the questions asks every question once, in the order of the table.\<close>

lemma faqPage_questions:
  "concat (map (find_all ''AccordionTrigger'') (faqPage cn URL env)) =
     map (\<lambda>q. El ''AccordionTrigger'' [cls ''text-left text-[15px] font-medium hover:text-sky-300''] [Txt (question q)]) faqItems"
proof -
  have "find_all ''AccordionTrigger'' (accordion_item v q) =
      [El ''AccordionTrigger'' [cls ''text-left text-[15px] font-medium hover:text-sky-300''] [Txt (question q)]]" for v q
    by (simp add: accordion_item_def)
  then have "concat (map (\<lambda>x. find_all ''AccordionTrigger'' (accordion_item (f (fst x)) (snd x))) (enumerate n qs)) =
      map (\<lambda>q. El ''AccordionTrigger'' [cls ''text-left text-[15px] font-medium hover:text-sky-300''] [Txt (question q)]) qs"
    for f n qs by (induction qs arbitrary: n) simp_all
  then show ?thesis by (simp add: faqPage_def jsonLd_def prose_def accordion_def comp_def split_beta)
qed

end
