(* ===== verification/Highlight.thy ===== *)
theory Highlight
  imports Js_Regex
begin

text \<open>
  The syntax highlighter of the documentation pages, \<open>website/lib/highlight.ts\<close>: the
  comment scanners, the four tokenizers, \<open>highlightLine\<close> and the class table. Each
  regular expression of the source is one \<open>re\<close> term; each \<open>while (pattern.exec)\<close> loop is
  an \<open>exec_loop\<close> with the loop's body. A result \<open>None\<close> would be a loop that never
  returns; the theorems below show that there is none.
\<close>

section \<open>Tokens\<close>

datatype TokenType =
    TkPlain | TkComment | TkKey | TkString | TkNumber | TkFlag | TkCommand | TkKeyword | TkPunct

record Token =
  tok_text :: jstr
  tok_type :: TokenType

abbreviation tok :: "jstr \<Rightarrow> TokenType \<Rightarrow> Token" where
  "tok s t \<equiv> \<lparr>tok_text = s, tok_type = t\<rparr>"

datatype Language = Yaml | Bash | Shell | Go | Json | LText

definition texts :: "Token list \<Rightarrow> jstr" where
  "texts ts = concat (map tok_text ts)"

lemma texts_simps [simp]:
  "texts [] = []" "texts (t # ts) = tok_text t @ texts ts" "texts (xs @ ys) = texts xs @ texts ys"
  by (simp_all add: texts_def)

section \<open>Comment scanners\<close>

text \<open>
  The loop of \<open>findCommentStart\<close> from index \<open>i\<close>: \<open>prv\<close> is \<open>line[i - 1]\<close>, absent at the
  start of the line.
\<close>

fun comment_scan :: "bool \<Rightarrow> bool \<Rightarrow> nat option \<Rightarrow> nat \<Rightarrow> jstr \<Rightarrow> int" where
  "comment_scan inSingle inDouble prv i [] = -1"
| "comment_scan inSingle inDouble prv i (ch # rest) =
     (if ch = cu CHR 0x27 \<and> \<not> inDouble then comment_scan (\<not> inSingle) inDouble (Some ch) (Suc i) rest
      else if ch = cu CHR 0x22 \<and> \<not> inSingle then comment_scan inSingle (\<not> inDouble) (Some ch) (Suc i) rest
      else if ch = cu CHR ''#'' \<and> \<not> inSingle \<and> \<not> inDouble \<and>
              (case prv of None \<Rightarrow> True | Some q \<Rightarrow> is_ws q)
      then int i
      else comment_scan inSingle inDouble (Some ch) (Suc i) rest)"

definition findCommentStart :: "jstr \<Rightarrow> int" where
  "findCommentStart line = comment_scan False False None 0 line"

fun go_comment_scan :: "bool \<Rightarrow> bool \<Rightarrow> nat \<Rightarrow> jstr \<Rightarrow> int" where
  "go_comment_scan inDouble inBacktick i [] = -1"
| "go_comment_scan inDouble inBacktick i (ch # rest) =
     (if ch = cu CHR 0x22 \<and> \<not> inBacktick then go_comment_scan (\<not> inDouble) inBacktick (Suc i) rest
      else if ch = cu CHR 0x60 then go_comment_scan inDouble (\<not> inBacktick) (Suc i) rest
      else if ch = cu CHR ''/'' \<and> at_head rest = Some (cu CHR ''/'') \<and> \<not> inDouble \<and> \<not> inBacktick
      then int i
      else go_comment_scan inDouble inBacktick (Suc i) rest)"

definition findGoCommentStart :: "jstr \<Rightarrow> int" where
  "findGoCommentStart line = go_comment_scan False False 0 line"

section \<open>Patterns\<close>

abbreviation Ws :: re where "Ws \<equiv> Cls is_ws"
abbreviation Digit :: re where "Digit \<equiv> Cls is_digit"
abbreviation Alpha :: re where "Alpha \<equiv> Cls is_alpha"
abbreviation NotChr :: "char \<Rightarrow> re" where "NotChr c \<equiv> Cls (\<lambda>d. d \<noteq> cu c)"

text \<open>An opening delimiter, any text without the closing one, the closing delimiter.\<close>

definition delimited :: "re \<Rightarrow> char \<Rightarrow> re" where
  "delimited opening c = Seq opening (Seq (Star (NotChr c)) (Chr c))"

definition word :: "string \<Rightarrow> re" where
  "word s = Seqs [WordB, Lit s, WordB]"

definition yaml_key_groups :: "re list" where
  "yaml_key_groups =
     [Star Ws,
      Plus (Cls (\<lambda>c. is_alpha c \<or> is_digit c \<or> c = cu CHR ''_'' \<or> c = cu CHR ''.'' \<or>
                     c = cu CHR ''-'' \<or> c = cu CHR ''/'')),
      Chr CHR '':'',
      Star Ws]"

definition yaml_list_groups :: "re list" where
  "yaml_list_groups = [Star Ws, Chr CHR ''-'', Plus Ws]"

definition yaml_pattern :: re where
  "yaml_pattern = Alts
     [delimited (Chr CHR 0x22) CHR 0x22,
      delimited (Chr CHR 0x27) CHR 0x27,
      delimited (Chr CHR ''{'') CHR ''}'',
      delimited (Chr CHR ''['') CHR '']'',
      word ''true'', word ''false'', word ''null'',
      Seqs [WordB, Plus Digit, Opt (Seq (Chr CHR ''.'') (Plus Digit)), Opt (Plus Alpha), WordB]]"

definition yaml_string_start :: re where
  "yaml_string_start = Seq Bol (Cls (\<lambda>c. c = cu CHR 0x22 \<or> c = cu CHR 0x27 \<or> c = cu CHR ''{'' \<or>
     c = cu CHR ''['' \<or> c = cu CHR '' ''))"

definition literal_word :: re where
  "literal_word = Seqs [Bol, Alts [Lit ''true'', Lit ''false'', Lit ''null''], Eol]"

definition bash_pattern :: re where
  "bash_pattern = Alts
     [delimited (Chr CHR 0x22) CHR 0x22,
      delimited (Chr CHR 0x27) CHR 0x27,
      delimited (Lit ''${'') CHR ''}'',
      Seqs [Chr CHR ''$'', Cls (\<lambda>c. is_alpha c \<or> c = cu CHR ''_''), Star (Cls is_word)],
      Seqs [Chr CHR ''-'', Opt (Chr CHR ''-''), Alpha,
            Star (Cls (\<lambda>c. is_alpha c \<or> is_digit c \<or> c = cu CHR ''-''))],
      Lit ''||'', Lit ''&&'', Chr CHR ''|'', Chr CHR ''>'', Chr CHR ''<'',
      Seqs [WordB, Plus Digit, WordB]]"

definition bash_punct :: re where
  "bash_punct =
     Seqs [Bol, Alts [Lit ''||'', Lit ''&&'', Chr CHR ''|'', Chr CHR ''>'', Chr CHR ''<''], Eol]"

definition all_digits :: re where
  "all_digits = Seqs [Bol, Plus Digit, Eol]"

definition GO_KEYWORDS :: re where
  "GO_KEYWORDS = Seqs [WordB, Alts (map Lit
     [''package'', ''import'', ''func'', ''return'', ''if'', ''else'', ''for'', ''range'', ''var'',
      ''const'', ''type'', ''struct'', ''interface'', ''map'', ''chan'', ''go'', ''defer'',
      ''select'', ''case'', ''switch'', ''break'', ''continue'', ''nil'', ''true'', ''false'']),
     WordB]"

definition go_pattern :: re where
  "go_pattern = Alts
     [delimited (Chr CHR 0x22) CHR 0x22, delimited (Chr CHR 0x60) CHR 0x60,
      delimited (Chr CHR 0x27) CHR 0x27]"

definition json_string :: re where
  "json_string = Seqs
     [Chr CHR 0x22,
      Star (Alt (Cls (\<lambda>c. c \<noteq> cu CHR 0x22 \<and> c \<noteq> cu CHR 0x5C))
                (Seq (Chr CHR 0x5C) (Cls (\<lambda>c. \<not> is_line_end c)))),
      Chr CHR 0x22]"

definition json_key :: re where
  "json_key = Seq json_string (Look (Seq (Star Ws) (Chr CHR '':'')))"

definition json_pattern :: re where
  "json_pattern = Alts
     [json_key, json_string, word ''true'', word ''false'', word ''null'',
      Seqs [Opt (Chr CHR ''-''), WordB, Plus Digit, Opt (Seq (Chr CHR ''.'') (Plus Digit)), WordB],
      Cls (\<lambda>c. c \<in> set (js ''{}[],:''))]"

definition json_number_start :: re where
  "json_number_start = Seqs [Bol, Opt (Chr CHR ''-''), Digit]"

section \<open>Tokenizers\<close>

text \<open>\<open>if (match.index > lastIndex) tokens.push(...)\<close>: the text before a match, when there is any.\<close>

definition gap :: "jstr \<Rightarrow> Token list" where
  "gap g = (if g = [] then [] else [tok g TkPlain])"

definition yaml_type :: "jstr \<Rightarrow> TokenType" where
  "yaml_type v =
     (if test yaml_string_start v \<or> startsWith v (js ''{'') \<or> startsWith v (js ''['') then TkString
      else if test literal_word v then TkKeyword else TkNumber)"

definition yaml_prefix :: "jstr \<Rightarrow> Token list \<times> jstr" where
  "yaml_prefix code =
     (case match_start yaml_key_groups code of
        Some ([indent, key, colon, space], rest) \<Rightarrow>
          (gap indent @ [tok key TkKey, tok colon TkPunct] @ gap space, rest)
      | _ \<Rightarrow>
          (case match_start yaml_list_groups code of
             Some ([indent, dash, space], rest) \<Rightarrow>
               (gap indent @ [tok dash TkPunct, tok space TkPlain], rest)
           | _ \<Rightarrow> ([], code)))"

definition tokenizeYaml :: "jstr \<Rightarrow> Token list option" where
  "tokenizeYaml code =
     (let (tokens, rest) = yaml_prefix code in
      case exec_loop yaml_pattern (\<lambda>ts g w. ts @ gap g @ [tok w (yaml_type w)]) None rest tokens of
        None \<Rightarrow> None
      | Some (ts, left) \<Rightarrow> Some (ts @ gap left))"

text \<open>The local state of \<open>tokenizeBash\<close>: the tokens so far and the flag \<open>first\<close>.\<close>

definition pushPlain :: "Token list \<times> bool \<Rightarrow> jstr \<Rightarrow> Token list \<times> bool" where
  "pushPlain = (\<lambda>(ts, first) s.
     if s = [] then (ts, first)
     else if first \<and> trim s \<noteq> [] then
       (let leading = takeWhile is_ws s; w = trimEnd s
        in (ts @ gap leading @ [tok w TkCommand], False))
     else (ts @ [tok s TkPlain], first))"

definition bash_type :: "jstr \<Rightarrow> TokenType" where
  "bash_type v =
     (if test (Seq Bol (Cls (\<lambda>c. c = cu CHR 0x22 \<or> c = cu CHR 0x27))) v then TkString
      else if startsWith v (js ''$'') then TkString
      else if startsWith v (js ''-'') then TkFlag
      else if test bash_punct v then TkPunct
      else if test all_digits v then TkNumber
      else TkPlain)"

definition bash_body :: "Token list \<times> bool \<Rightarrow> jstr \<Rightarrow> jstr \<Rightarrow> Token list \<times> bool" where
  "bash_body st g w =
     (let (ts, _) = (if g = [] then st else pushPlain st g) in (ts @ [tok w (bash_type w)], False))"

definition tokenizeBash :: "jstr \<Rightarrow> Token list option" where
  "tokenizeBash code =
     (case exec_loop bash_pattern bash_body None code ([], True) of
        None \<Rightarrow> None
      | Some (st, left) \<Rightarrow> Some (fst (pushPlain st left)))"

text \<open>\<open>pushCode\<close>: an inner global loop, so it may fail to return too.\<close>

definition pushCode :: "Token list \<Rightarrow> jstr \<Rightarrow> Token list option" where
  "pushCode ts s =
     (if s = [] then Some ts
      else case exec_loop GO_KEYWORDS (\<lambda>ts g w. ts @ gap g @ [tok w TkKeyword]) None s ts of
             None \<Rightarrow> None
           | Some (ts', left) \<Rightarrow> Some (ts' @ gap left))"

definition go_body :: "Token list option \<Rightarrow> jstr \<Rightarrow> jstr \<Rightarrow> Token list option" where
  "go_body st g w =
     (case st of None \<Rightarrow> None
      | Some ts \<Rightarrow>
          (case (if g = [] then Some ts else pushCode ts g) of
             None \<Rightarrow> None
           | Some ts' \<Rightarrow> Some (ts' @ [tok w TkString])))"

definition tokenizeGo :: "jstr \<Rightarrow> Token list option" where
  "tokenizeGo code =
     (case exec_loop go_pattern go_body None code (Some []) of
        None \<Rightarrow> None
      | Some (None, left) \<Rightarrow> None
      | Some (Some ts, left) \<Rightarrow> if left = [] then Some ts else pushCode ts left)"

definition json_type :: "jstr \<Rightarrow> TokenType" where
  "json_type v =
     (if startsWith v [cu CHR 0x22] then (if test json_key v then TkKey else TkString)
      else if test literal_word v then TkKeyword
      else if test json_number_start v then TkNumber
      else TkPunct)"

definition tokenizeJson :: "jstr \<Rightarrow> Token list option" where
  "tokenizeJson code =
     (case exec_loop json_pattern (\<lambda>ts g w. ts @ gap g @ [tok w (json_type w)]) None code [] of
        None \<Rightarrow> None
      | Some (ts, left) \<Rightarrow> Some (ts @ gap left))"

section \<open>Lines\<close>

definition tokenizer :: "Language \<Rightarrow> jstr \<Rightarrow> Token list option" where
  "tokenizer language =
     (case language of Yaml \<Rightarrow> tokenizeYaml | Json \<Rightarrow> tokenizeJson | _ \<Rightarrow> tokenizeBash)"

definition highlightLine :: "jstr \<Rightarrow> Language \<Rightarrow> Token list option" where
  "highlightLine line language =
     (if language = LText then Some [tok line TkPlain]
      else if language = Go then
        (let comment = findGoCommentStart line in
         if comment \<ge> 0 then
           (case tokenizeGo (take (nat comment) line) of
              None \<Rightarrow> None
            | Some ts \<Rightarrow> Some (ts @ [tok (drop (nat comment) line) TkComment]))
         else tokenizeGo line)
      else
        (let comment = findCommentStart line;
             code = (if comment \<ge> 0 then take (nat comment) line else line)
         in case tokenizer language code of
              None \<Rightarrow> None
            | Some ts \<Rightarrow>
                Some (if comment \<ge> 0 then ts @ [tok (drop (nat comment) line) TkComment] else ts)))"

fun tokenClassName :: "TokenType \<Rightarrow> jstr" where
  "tokenClassName TkPlain = js ''''"
| "tokenClassName TkComment = js ''text-slate-500 italic''"
| "tokenClassName TkKey = js ''text-sky-300''"
| "tokenClassName TkString = js ''text-emerald-300/90''"
| "tokenClassName TkNumber = js ''text-amber-300/90''"
| "tokenClassName TkFlag = js ''text-violet-300/90''"
| "tokenClassName TkCommand = js ''text-sky-200 font-medium''"
| "tokenClassName TkKeyword = js ''text-fuchsia-300/90''"
| "tokenClassName TkPunct = js ''text-slate-400''"

section \<open>The patterns are global patterns\<close>

lemma nullable_Lit [simp]: "nullable (Lit s) \<longleftrightarrow> s = []"
  by (cases s) auto

lemma nullable_word [simp]: "s \<noteq> [] \<Longrightarrow> \<not> nullable (word s)"
  by (simp add: word_def)

interpretation yaml: global_pattern yaml_pattern
  by unfold_locales (simp add: yaml_pattern_def delimited_def)

interpretation bash: global_pattern bash_pattern
  by unfold_locales (simp add: bash_pattern_def delimited_def)

interpretation go_words: global_pattern GO_KEYWORDS
  by unfold_locales (simp add: GO_KEYWORDS_def)

interpretation go_strings: global_pattern go_pattern
  by unfold_locales (simp add: go_pattern_def delimited_def)

interpretation json: global_pattern json_pattern
  by unfold_locales (simp add: json_pattern_def json_key_def json_string_def)

section \<open>What a tokenizer promises\<close>

text \<open>
  \<open>visible\<close> is what a reader sees of a line once white space is ignored. Every tokenizer
  returns, yields no empty token and keeps the visible text; an exact one also keeps the
  white space.
\<close>

definition visible :: "jstr \<Rightarrow> jstr" where
  "visible s = filter (\<lambda>c. \<not> is_ws c) s"

lemma visible_simps [simp]:
  "visible [] = []" "visible (s @ t) = visible s @ visible t"
  by (simp_all add: visible_def)

definition no_empty :: "Token list \<Rightarrow> bool" where
  "no_empty ts \<longleftrightarrow> (\<forall>t\<in>set ts. tok_text t \<noteq> [])"

lemma no_empty_simps [simp]:
  "no_empty []" "no_empty (t # ts) \<longleftrightarrow> tok_text t \<noteq> [] \<and> no_empty ts"
  "no_empty (xs @ ys) \<longleftrightarrow> no_empty xs \<and> no_empty ys"
  by (auto simp: no_empty_def)

lemma gap_facts [simp]: "texts (gap g) = g" "no_empty (gap g)" "gap [] = []"
  by (simp_all add: gap_def)

locale total_lexer =
  fixes lex :: "jstr \<Rightarrow> Token list option"
  assumes returns: "\<exists>ts. lex code = Some ts"
    and keeps_visible: "lex code = Some ts \<Longrightarrow> visible (texts ts) = visible code"
    and tokens_nonempty: "lex code = Some ts \<Longrightarrow> no_empty ts"
begin

text \<open>What \<open>highlightLine\<close> builds from a tokenizer and a comment that starts at \<open>i\<close>.\<close>

lemma commented:
  assumes "lex (take i line) = Some ts" and "i < length line"
  shows "visible (texts (ts @ [tok (drop i line) TkComment])) = visible line"
    and "no_empty (ts @ [tok (drop i line) TkComment])"
proof -
  have "visible (take i line) @ visible (drop i line) = visible line"
    by (metis append_take_drop_id visible_simps(2))
  then show "visible (texts (ts @ [tok (drop i line) TkComment])) = visible line"
    using keeps_visible [OF assms(1)] by simp
  show "no_empty (ts @ [tok (drop i line) TkComment])"
    using tokens_nonempty [OF assms(1)] assms(2) by simp
qed

end

locale exact_lexer = total_lexer +
  assumes keeps: "lex code = Some ts \<Longrightarrow> texts ts = code"
begin

lemma commented_exact:
  "lex (take i line) = Some ts \<Longrightarrow> texts (ts @ [tok (drop i line) TkComment]) = line"
  by (drule keeps) simp

end

text \<open>A loop whose body appends the gap and one token for the match.\<close>

context global_pattern
begin

lemma gap_loop:
  assumes "exec_loop r (\<lambda>ts g w. ts @ gap g @ [tok w (ty w)]) p s ts0 = Some (ts, left)"
    and "no_empty ts0"
  shows "texts ts @ left = texts ts0 @ s \<and> no_empty ts"
proof (rule loop_invariant [OF assms(1),
      where I = "\<lambda>ts u. texts ts @ u = texts ts0 @ s \<and> no_empty ts"])
  show "texts ts0 @ s = texts ts0 @ s \<and> no_empty ts0" using assms(2) by simp
next
  fix st p s' g w t
  assume "texts st @ s' = texts ts0 @ s \<and> no_empty st" and "search r p s' = Some (g, w, t)"
  then show "texts (st @ gap g @ [tok w (ty w)]) @ t = texts ts0 @ s \<and>
      no_empty (st @ gap g @ [tok w (ty w)])"
    using search_progress [of p s' g w t] search_sound [of r p s' g w t] by simp
qed

end

section \<open>The tokenizers keep the promise\<close>

lemma yaml_key_match_shape:
  assumes "match_start yaml_key_groups code = Some (ws, rest)"
  shows "\<exists>indent key colon space. ws = [indent, key, colon, space] \<and> key \<noteq> [] \<and> colon \<noteq> []"
proof -
  from assms have g: "(ws, rest) \<in> set (groups yaml_key_groups None code)"
    by (auto simp: match_start_def split: list.splits)
  then have "length ws = 4" using groups_sound [OF g] by (simp add: yaml_key_groups_def)
  then obtain a b c d where ws: "ws = [a, b, c, d]"
    by (auto simp: numeral_eq_Suc length_Suc_conv)
  have "b \<noteq> []" using groups_match [OF g, of 1] rem_nonempty
    by (fastforce simp: ws yaml_key_groups_def)
  moreover have "c \<noteq> []" using groups_match [OF g, of 2] rem_nonempty
    by (fastforce simp: ws yaml_key_groups_def)
  ultimately show ?thesis using ws by blast
qed

lemma yaml_list_match_shape:
  assumes "match_start yaml_list_groups code = Some (ws, rest)"
  shows "\<exists>indent dash space. ws = [indent, dash, space] \<and> dash \<noteq> [] \<and> space \<noteq> []"
proof -
  from assms have g: "(ws, rest) \<in> set (groups yaml_list_groups None code)"
    by (auto simp: match_start_def split: list.splits)
  then have "length ws = 3" using groups_sound [OF g] by (simp add: yaml_list_groups_def)
  then obtain a b c where ws: "ws = [a, b, c]"
    by (auto simp: numeral_eq_Suc length_Suc_conv)
  have "b \<noteq> []" using groups_match [OF g, of 1] rem_nonempty
    by (fastforce simp: ws yaml_list_groups_def)
  moreover have "c \<noteq> []" using groups_match [OF g, of 2] rem_nonempty
    by (fastforce simp: ws yaml_list_groups_def)
  ultimately show ?thesis using ws by blast
qed

lemma yaml_prefix_facts:
  assumes "yaml_prefix code = (ts, rest)"
  shows "texts ts @ rest = code" and "no_empty ts"
proof -
  have "texts ts @ rest = code \<and> no_empty ts"
  proof (cases "match_start yaml_key_groups code")
    case (Some m)
    obtain ws t where m: "match_start yaml_key_groups code = Some (ws, t)" using Some by (cases m) auto
    then obtain i k c sp where "ws = [i, k, c, sp]" "k \<noteq> []" "c \<noteq> []"
      using yaml_key_match_shape by blast
    then show ?thesis using m match_start_sound [OF m] assms by (auto simp: yaml_prefix_def)
  next
    case key: None
    show ?thesis
    proof (cases "match_start yaml_list_groups code")
      case (Some m)
      obtain ws t where m: "match_start yaml_list_groups code = Some (ws, t)" using Some by (cases m) auto
      then obtain i d sp where "ws = [i, d, sp]" "d \<noteq> []" "sp \<noteq> []"
        using yaml_list_match_shape by blast
      then show ?thesis using key m match_start_sound [OF m] assms by (auto simp: yaml_prefix_def)
    next
      case None
      with key assms show ?thesis by (simp add: yaml_prefix_def)
    qed
  qed
  then show "texts ts @ rest = code" and "no_empty ts" by simp_all
qed

lemma tokenizeYaml_Some: "tokenizeYaml code = Some ts \<Longrightarrow> texts ts = code \<and> no_empty ts"
proof -
  assume a: "tokenizeYaml code = Some ts"
  obtain ts0 rest where p: "yaml_prefix code = (ts0, rest)" by (cases "yaml_prefix code")
  with a obtain ts1 left where
    l: "exec_loop yaml_pattern (\<lambda>ts g w. ts @ gap g @ [tok w (yaml_type w)]) None rest ts0 = Some (ts1, left)"
    and ts: "ts = ts1 @ gap left"
    by (auto simp: tokenizeYaml_def split: option.splits)
  show ?thesis using yaml.gap_loop [OF l yaml_prefix_facts(2) [OF p]] yaml_prefix_facts(1) [OF p] ts
    by simp
qed

lemma tokenizeJson_Some: "tokenizeJson code = Some ts \<Longrightarrow> texts ts = code \<and> no_empty ts"
proof -
  assume a: "tokenizeJson code = Some ts"
  then obtain ts1 left where
    l: "exec_loop json_pattern (\<lambda>ts g w. ts @ gap g @ [tok w (json_type w)]) None code [] = Some (ts1, left)"
    and ts: "ts = ts1 @ gap left"
    by (auto simp: tokenizeJson_def split: option.splits)
  show ?thesis using json.gap_loop [OF l] ts by simp
qed

lemma pushCode_returns: "\<exists>ts'. pushCode ts s = Some ts'"
  using go_words.loop_returns [of "\<lambda>ts g w. ts @ gap g @ [tok w TkKeyword]" None s ts]
  by (auto simp: pushCode_def)

lemma pushCode_Some:
  "pushCode ts s = Some ts' \<Longrightarrow> no_empty ts \<Longrightarrow> texts ts' = texts ts @ s \<and> no_empty ts'"
  by (auto simp: pushCode_def split: if_splits option.splits
      dest!: go_words.gap_loop [where ty = "\<lambda>_. TkKeyword"])

lemma go_loop:
  assumes "exec_loop go_pattern go_body None code (Some []) = Some (st, left)"
  shows "\<exists>ts. st = Some ts \<and> texts ts @ left = code \<and> no_empty ts"
proof (rule go_strings.loop_invariant [OF assms,
      where I = "\<lambda>st u. \<exists>ts. st = Some ts \<and> texts ts @ u = code \<and> no_empty ts"])
  show "\<exists>ts. Some [] = Some ts \<and> texts ts @ code = code \<and> no_empty ts" by simp
next
  fix st p s g w t
  assume I: "\<exists>ts. st = Some ts \<and> texts ts @ s = code \<and> no_empty ts"
    and m: "search go_pattern p s = Some (g, w, t)"
  then obtain ts where ts: "st = Some ts" "texts ts @ s = code" "no_empty ts" by blast
  have w: "w \<noteq> []" "s = g @ w @ t"
    using go_strings.search_progress [OF m] search_sound [OF m] by auto
  obtain ts' where "(if g = [] then Some ts else pushCode ts g) = Some ts'"
      "texts ts' = texts ts @ g" "no_empty ts'"
    using pushCode_returns [of ts g] pushCode_Some [OF _ ts(3), of g] ts(3) by (cases "g = []") auto
  then show "\<exists>ts. go_body st g w = Some ts \<and> texts ts @ t = code \<and> no_empty ts"
    using ts w by (simp add: go_body_def)
qed

lemma tokenizeGo_facts: "\<exists>ts. tokenizeGo code = Some ts \<and> texts ts = code \<and> no_empty ts"
proof -
  obtain st left where l: "exec_loop go_pattern go_body None code (Some []) = Some (st, left)"
    using go_strings.loop_returns [of go_body None code "Some []"] by blast
  then obtain ts where ts: "st = Some ts" "texts ts @ left = code" "no_empty ts"
    using go_loop by blast
  show ?thesis
  proof (cases "left = []")
    case True
    with l ts show ?thesis by (simp add: tokenizeGo_def)
  next
    case False
    obtain ts' where "pushCode ts left = Some ts'" using pushCode_returns by blast
    with l ts False pushCode_Some [of ts left ts'] show ?thesis by (simp add: tokenizeGo_def)
  qed
qed

lemma pushPlain_facts:
  assumes "pushPlain (ts, f) s = (ts', f')" and "no_empty ts"
  shows "visible (texts ts') = visible (texts ts) @ visible s" and "no_empty ts'"
proof -
  have *: "trimEnd s \<noteq> []" if "trim s \<noteq> []"
  proof -
    have "filter (\<lambda>c. \<not> is_ws c) s \<noteq> []"
      using that by (auto simp: trim_eq_Nil_iff filter_empty_conv)
    then show ?thesis using filter_trimEnd [of s] by auto
  qed
  have "visible (takeWhile is_ws s) = []" "visible (trimEnd s) = visible s"
    by (simp_all add: visible_def filter_trimEnd)
  then show "visible (texts ts') = visible (texts ts) @ visible s" and "no_empty ts'"
    using assms * by (auto simp: pushPlain_def Let_def split: if_splits)
qed

lemma bash_loop:
  assumes "exec_loop bash_pattern bash_body None code ([], True) = Some ((ts, f), left)"
  shows "visible (texts ts) @ visible left = visible code \<and> no_empty ts"
proof -
  have "visible (texts (fst (ts, f))) @ visible left = visible code \<and> no_empty (fst (ts, f))"
  proof (rule bash.loop_invariant [OF assms,
      where I = "\<lambda>st u. visible (texts (fst st)) @ visible u = visible code \<and> no_empty (fst st)"])
    show "visible (texts (fst ([], True))) @ visible code = visible code \<and> no_empty (fst ([], True))"
      by simp
  next
    fix st :: "Token list \<times> bool" and p s g w t
    assume I: "visible (texts (fst st)) @ visible s = visible code \<and> no_empty (fst st)"
      and m: "search bash_pattern p s = Some (g, w, t)"
    obtain ts f where st: "st = (ts, f)" by (cases st)
    obtain ts' f' where pp: "pushPlain (ts, f) g = (ts', f')" by (cases "pushPlain (ts, f) g")
    have w: "w \<noteq> []" "s = g @ w @ t"
      using bash.search_progress [OF m] search_sound [OF m] by auto
    show "visible (texts (fst (bash_body st g w))) @ visible t = visible code \<and>
        no_empty (fst (bash_body st g w))"
      using I w pushPlain_facts [OF pp] st pp by (cases "g = []") (auto simp: bash_body_def)
  qed
  then show ?thesis by simp
qed

lemma tokenizeBash_Some: "tokenizeBash code = Some ts \<Longrightarrow> visible (texts ts) = visible code \<and> no_empty ts"
proof -
  assume a: "tokenizeBash code = Some ts"
  then obtain ts1 f left where
    l: "exec_loop bash_pattern bash_body None code ([], True) = Some ((ts1, f), left)"
    and ts: "ts = fst (pushPlain (ts1, f) left)"
    by (auto simp: tokenizeBash_def split: option.splits)
  obtain ts' f' where pp: "pushPlain (ts1, f) left = (ts', f')" by (cases "pushPlain (ts1, f) left")
  show ?thesis using bash_loop [OF l] pushPlain_facts [OF pp] pp ts by simp
qed

interpretation bash_lexer: total_lexer tokenizeBash
proof unfold_locales
  fix code
  show "\<exists>ts. tokenizeBash code = Some ts"
    using bash.loop_returns [of bash_body None code "([], True)"] by (auto simp: tokenizeBash_def)
qed (auto dest: tokenizeBash_Some)

interpretation yaml_lexer: exact_lexer tokenizeYaml
proof unfold_locales
  fix code
  show "\<exists>ts. tokenizeYaml code = Some ts"
    using yaml.loop_returns [of "\<lambda>ts g w. ts @ gap g @ [tok w (yaml_type w)]" None
        "snd (yaml_prefix code)" "fst (yaml_prefix code)"]
    by (auto simp: tokenizeYaml_def split_beta)
qed (auto dest: tokenizeYaml_Some)

interpretation json_lexer: exact_lexer tokenizeJson
proof unfold_locales
  fix code
  show "\<exists>ts. tokenizeJson code = Some ts"
    using json.loop_returns [of "\<lambda>ts g w. ts @ gap g @ [tok w (json_type w)]" None code "[]"]
    by (auto simp: tokenizeJson_def)
qed (auto dest: tokenizeJson_Some)

interpretation go_lexer: exact_lexer tokenizeGo
proof unfold_locales
  fix code
  show "\<exists>ts. tokenizeGo code = Some ts" using tokenizeGo_facts by blast
next
  fix code ts
  assume "tokenizeGo code = Some ts"
  then show "texts ts = code" "visible (texts ts) = visible code" "no_empty ts"
    using tokenizeGo_facts [of code] by auto
qed

section \<open>Where comments start\<close>

text \<open>The quote flags after a prefix of a line, as a specification apart from the scanner.\<close>

definition quote_step :: "bool \<times> bool \<Rightarrow> nat \<Rightarrow> bool \<times> bool" where
  "quote_step q c = (case q of (single, double) \<Rightarrow>
     if c = cu CHR 0x27 \<and> \<not> double then (\<not> single, double)
     else if c = cu CHR 0x22 \<and> \<not> single then (single, \<not> double)
     else (single, double))"

definition quotes :: "jstr \<Rightarrow> bool \<times> bool" where
  "quotes s = foldl quote_step (False, False) s"

text \<open>A comment starts at \<open>i\<close>: a hash outside quotes, first in the line or after white space.\<close>

definition comment_at :: "jstr \<Rightarrow> nat \<Rightarrow> bool" where
  "comment_at line i \<longleftrightarrow>
     i < length line \<and> line ! i = cu CHR ''#'' \<and> quotes (take i line) = (False, False) \<and>
     (i = 0 \<or> is_ws (line ! (i - 1)))"

lemma quotes_snoc: "quotes (s @ [c]) = quote_step (quotes s) c"
  by (simp add: quotes_def)

lemma comment_at_append:
  "comment_at (pre @ c # rest) (length pre) \<longleftrightarrow>
     c = cu CHR ''#'' \<and> quotes pre = (False, False) \<and>
     (case prev None pre of None \<Rightarrow> True | Some q \<Rightarrow> is_ws q)"
  by (cases pre rule: rev_cases) (auto simp: comment_at_def prev_def nth_append)

lemma comment_scan_next:
  assumes "line = pre @ c # rest" and "quotes pre = (inS, inD)"
  shows "comment_scan inS inD (prev None pre) (length pre) (c # rest) =
    (if comment_at line (length pre) then int (length pre)
     else comment_scan (fst (quotes (pre @ [c]))) (snd (quotes (pre @ [c])))
            (prev None (pre @ [c])) (length (pre @ [c])) rest)"
  using assms
  by (auto simp: comment_at_append quotes_snoc quote_step_def prev_def split: option.splits)

lemma comment_scan_spec:
  assumes "line = pre @ rest" and "quotes pre = (inS, inD)"
    and "comment_scan inS inD (prev None pre) (length pre) rest = r"
  shows "r = -1 \<and> (\<forall>j\<ge>length pre. \<not> comment_at line j) \<or>
    (\<exists>j\<ge>length pre. r = int j \<and> comment_at line j \<and> (\<forall>k. length pre \<le> k \<and> k < j \<longrightarrow> \<not> comment_at line k))"
  using assms
proof (induction rest arbitrary: pre inS inD)
  case Nil
  then show ?case by (auto simp: comment_at_def)
next
  case (Cons c rest)
  obtain s d where q: "quotes (pre @ [c]) = (s, d)" by (cases "quotes (pre @ [c])")
  have line: "line = (pre @ [c]) @ rest" using Cons.prems(1) by simp
  show ?case
  proof (cases "comment_at line (length pre)")
    case True
    then show ?thesis using comment_scan_next [OF Cons.prems(1,2)] Cons.prems(3) by auto
  next
    case False
    then have "comment_scan s d (prev None (pre @ [c])) (length (pre @ [c])) rest = r"
      using comment_scan_next [OF Cons.prems(1,2)] Cons.prems(3) q by simp
    from Cons.IH [OF line q this]
    consider "r = -1" "\<And>j. length pre < j \<Longrightarrow> \<not> comment_at line j"
      | j where "length pre < j" "r = int j" "comment_at line j"
          "\<And>k. length pre < k \<Longrightarrow> k < j \<Longrightarrow> \<not> comment_at line k"
      by (auto simp: Suc_le_eq)
    then show ?thesis
    proof cases
      case 1
      then show ?thesis using False by (metis le_neq_implies_less)
    next
      case (2 j)
      then show ?thesis using False by (metis le_neq_implies_less less_imp_le)
    qed
  qed
qed

lemma findCommentStart_cases:
  "findCommentStart line = -1 \<and> (\<forall>j. \<not> comment_at line j) \<or>
   (\<exists>j. findCommentStart line = int j \<and> comment_at line j \<and> (\<forall>k<j. \<not> comment_at line k))"
  using comment_scan_spec [of line "[]" line False False "findCommentStart line"]
  by (auto simp: findCommentStart_def quotes_def)

lemma findCommentStart_bound: "0 \<le> findCommentStart line \<Longrightarrow> nat (findCommentStart line) < length line"
  using findCommentStart_cases [of line] by (auto simp: comment_at_def)

lemma go_comment_scan_bound:
  "0 \<le> go_comment_scan d b i rest \<Longrightarrow> nat (go_comment_scan d b i rest) < i + length rest"
  by (induction d b i rest rule: go_comment_scan.induct) (auto split: if_splits)

lemma findGoCommentStart_bound:
  "0 \<le> findGoCommentStart line \<Longrightarrow> nat (findGoCommentStart line) < length line"
  using go_comment_scan_bound [of False False 0 line] by (simp add: findGoCommentStart_def)

section \<open>JSON keys\<close>

text \<open>
  The scan for the quote that closes a JSON string, as a specification: what is left
  after the first quote that is not escaped.
\<close>

fun json_close :: "jstr \<Rightarrow> jstr option" where
  "json_close [] = None"
| "json_close [c] = (if c = 34 then Some [] else None)"
| "json_close (c # e # s) =
     (if c = 34 then Some (e # s)
      else if c = 92 then (if is_line_end e then None else json_close s)
      else json_close (e # s))"

lemma json_close_Cons:
  "c \<noteq> 34 \<Longrightarrow> c \<noteq> 92 \<Longrightarrow> json_close (c # s) = json_close s"
  by (cases s) auto

lemma json_close_quote [simp]: "json_close (34 # s) = Some s"
  by (cases s) auto

lemma json_close_split: "json_close s = Some t \<Longrightarrow> \<exists>x. s = x @ t \<and> json_close x = Some []"
proof (induction s rule: json_close.induct)
  case (3 c e s)
  consider "c = 34" | "c = 92" | "c \<noteq> 34" "c \<noteq> 92" by blast
  then show ?case
  proof cases
    case 1
    with 3 show ?thesis by (intro exI [of _ "[34]"]) auto
  next
    case 2
    with 3 obtain x where "s = x @ t" "json_close x = Some []" by (auto split: if_splits)
    with 2 3 show ?thesis by (intro exI [of _ "c # e # x"]) (auto split: if_splits)
  next
    case other: 3
    with 3 obtain x where "e # s = x @ t" "json_close x = Some []" by (auto split: if_splits)
    with other show ?thesis by (intro exI [of _ "c # x"]) (auto simp: json_close_Cons)
  qed
qed (auto split: if_splits)

lemma json_close_inner:
  "json_close x = Some [] \<Longrightarrow> x = y @ 34 # d \<Longrightarrow> json_close d = None \<or> json_close d = Some []"
proof (induction x arbitrary: y rule: json_close.induct)
  case (3 c e s)
  consider "c = 34" | "c = 92" | "c \<noteq> 34" "c \<noteq> 92" by blast
  then show ?case
  proof cases
    case 2
    then have s: "json_close s = Some []" using 3 by (auto split: if_splits)
    from "3.prems"(2) 2 consider "s = d" | z where "s = z @ 34 # d"
      by (auto simp: Cons_eq_append_conv)
    then show ?thesis using 2 s "3.IH" "3.prems"(1) by cases (auto split: if_splits)
  next
    case other: 3
    then obtain y' where "e # s = y' @ 34 # d" using "3.prems"(2) by (cases y) auto
    moreover have "json_close (e # s) = Some []" using other "3.prems"(1) by simp
    ultimately show ?thesis using "3.IH"(2) other by blast
  qed (use 3 in auto)
qed (auto simp: Cons_eq_append_conv split: if_splits)

abbreviation json_unit :: re where
  "json_unit \<equiv> Alt (Cls (\<lambda>c. c \<noteq> cu CHR 0x22 \<and> c \<noteq> cu CHR 0x5C))
                   (Seq (Chr CHR 0x5C) (Cls (\<lambda>c. \<not> is_line_end c)))"

lemma json_body_close: "(x, 34 # t) \<in> set (rem (Star json_unit) p s) \<Longrightarrow> json_close s = Some t"
proof (induction s arbitrary: x p rule: length_induct)
  case (1 s)
  show ?case
  proof (cases "s = 34 # t")
    case False
    with "1.prems" obtain w u v where *: "(w, u) \<in> set (rem json_unit p s)" "length u < length s"
        "(v, 34 # t) \<in> set (rem (Star json_unit) (prev p w) u)"
      by (subst (asm) rem_Star_iff) blast
    then have "json_close u = Some t" using "1.IH" by blast
    then show ?thesis using *(1)
      by (auto simp: json_close_Cons split: list.splits if_splits)
  qed simp
qed

lemma json_string_close:
  "(w, t) \<in> set (rem json_string p s) \<Longrightarrow> \<exists>cs. s = 34 # cs \<and> json_close cs = Some t"
  by (auto simp: json_string_def split: list.splits if_splits dest!: json_body_close [simplified])

lemma json_key_string: "(w, t) \<in> set (rem json_key p s) \<Longrightarrow> (w, t) \<in> set (rem json_string p s) \<and> t \<noteq> []"
  by (auto simp: json_key_def rem_Star_Nil split: if_splits)

text \<open>
  A matched string ends at its first closing quote, so no colon can follow inside it: the
  second look that \<open>tokenizeJson\<close> takes at the match never finds a key.
\<close>

lemma json_string_not_key:
  assumes "(v, t) \<in> set (rem json_string p s)"
  shows "\<not> test json_key v"
proof -
  obtain cs where cs: "s = 34 # cs" "json_close cs = Some t"
    using json_string_close [OF assms] by blast
  obtain x where x: "cs = x @ t" "json_close x = Some []" using json_close_split [OF cs(2)] by blast
  have v: "v = 34 # x" using rem_sound [OF assms] cs(1) x(1) by simp
  have "rem json_key (prev None g) u = []" if u: "v = g @ u" for g u
  proof (rule ccontr)
    assume "rem json_key (prev None g) u \<noteq> []"
    then obtain w t' where m: "(w, t') \<in> set (rem json_key (prev None g) u)"
      by (metis list.set_intros(1) neq_Nil_conv surj_pair)
    then obtain d where d: "u = 34 # d" "json_close d = Some t'" "t' \<noteq> []"
      using json_key_string json_string_close by blast
    show False
    proof (cases g)
      case Nil
      with u v d x show False by simp
    next
      case (Cons c g')
      with u v d have "x = g' @ 34 # d" by simp
      then show False using json_close_inner [OF x(2)] d by fastforce
    qed
  qed
  then show ?thesis by (simp add: test_def search_None_iff)
qed

lemma rem_Lit: "(w, t) \<in> set (rem (Lit l) p s) \<Longrightarrow> w = js l"
  by (induction l arbitrary: p s w) (auto simp: js_def split: list.splits if_splits)

lemma rem_word: "(w, t) \<in> set (rem (word l) p s) \<Longrightarrow> w = js l"
  by (auto simp: word_def split: if_splits dest: rem_Lit)

lemma json_number_head:
  "(c # w, t) \<in> set (rem (Seqs [Opt (Chr CHR ''-''), WordB, Plus Digit, q, WordB]) p s) \<Longrightarrow>
   c = 45 \<or> is_digit c"
  by (auto split: list.splits if_splits)

lemma json_quote_match:
  assumes "(34 # w, t) \<in> set (rem json_pattern p s)"
  shows "(34 # w, t) \<in> set (rem json_string p s)"
proof -
  have "(34 # w, t) \<notin> set (rem (word l) p s)" if "l = ''true'' \<or> l = ''false'' \<or> l = ''null''" for l
    using that by (auto simp: js_def dest!: rem_word)
  moreover have "(34 # w, t) \<notin> set (rem (Seqs [Opt (Chr CHR ''-''), WordB, Plus Digit, q, WordB]) p s)" for q
    using json_number_head [of 34 w t q p s] by (auto simp: is_digit_def)
  moreover have "(34 # w, t) \<notin> set (rem (Cls (\<lambda>c. c \<in> set (js ''{}[],:''))) p s)"
    by (auto simp: js_def split: list.splits)
  moreover have "(34 # w, t) \<in> set (rem json_key p s) \<Longrightarrow> ?thesis"
    using json_key_string by blast
  ultimately show ?thesis using assms
    unfolding json_pattern_def Alts.simps rem.simps(4) set_append by blast
qed

lemma json_type_not_key:
  assumes "search json_pattern p s = Some (g, w, t)"
  shows "json_type w \<noteq> TkKey"
proof (cases "startsWith w [34]")
  case True
  then obtain w' where w: "w = 34 # w'" by (auto simp: startsWith_iff)
  show ?thesis
    using json_string_not_key [OF json_quote_match] search_match [OF assms]
    unfolding w json_type_def by fastforce
qed (simp add: json_type_def)

lemma tokenizeJson_no_key:
  assumes "tokenizeJson code = Some ts"
  shows "TkKey \<notin> tok_type ` set ts"
proof -
  obtain ts1 left where
    l: "exec_loop json_pattern (\<lambda>ts g w. ts @ gap g @ [tok w (json_type w)]) None code [] = Some (ts1, left)"
    and ts: "ts = ts1 @ gap left"
    using assms by (auto simp: tokenizeJson_def split: option.splits)
  have "TkKey \<notin> tok_type ` set ts1"
    by (rule json.loop_invariant [OF l, where I = "\<lambda>ts u. TkKey \<notin> tok_type ` set ts"])
      (auto simp: gap_def dest: json_type_not_key)
  then show ?thesis using ts by (simp add: gap_def)
qed

section \<open>Properties of the highlighter\<close>

lemma tokenizer_total: "total_lexer (tokenizer lang)"
  by (cases lang)
    (auto simp: tokenizer_def intro: bash_lexer.total_lexer_axioms yaml_lexer.total_lexer_axioms
      json_lexer.total_lexer_axioms)

lemma tokenizer_exact: "lang \<in> {Yaml, Json} \<Longrightarrow> exact_lexer (tokenizer lang)"
  by (auto simp: tokenizer_def intro: yaml_lexer.exact_lexer_axioms json_lexer.exact_lexer_axioms)

lemma highlight_cases:
  "\<exists>ts. highlightLine line lang = Some ts \<and> visible (texts ts) = visible line \<and>
        (lang \<noteq> LText \<longrightarrow> no_empty ts) \<and> (lang \<notin> {Bash, Shell} \<longrightarrow> texts ts = line)"
proof -
  let ?c = "findCommentStart line" and ?g = "findGoCommentStart line"
  consider "lang = LText" | "lang = Go" | "lang \<notin> {LText, Go}" by blast
  then show ?thesis
  proof cases
    case 1
    then show ?thesis by (simp add: highlightLine_def)
  next
    case 2
    obtain ts ts' where ts: "tokenizeGo (take (nat ?g) line) = Some ts" "tokenizeGo line = Some ts'"
      using go_lexer.returns by blast
    then show ?thesis
      using 2 go_lexer.commented [OF ts(1)] go_lexer.commented_exact [OF ts(1)] findGoCommentStart_bound [of line]
        go_lexer.keeps [OF ts(2)] go_lexer.tokens_nonempty [OF ts(2)]
      by (cases "?g \<ge> 0") (simp_all add: highlightLine_def)
  next
    case 3
    note total = tokenizer_total [of lang]
    obtain ts ts' where ts: "tokenizer lang (take (nat ?c) line) = Some ts" "tokenizer lang line = Some ts'"
      using total_lexer.returns [OF total] by blast
    have h: "highlightLine line lang =
        Some (if ?c \<ge> 0 then ts @ [tok (drop (nat ?c) line) TkComment] else ts')"
      using 3 ts by (simp add: highlightLine_def)
    have exact: "texts ts = take (nat ?c) line \<and> texts ts' = line" if "lang \<notin> {Bash, Shell}"
    proof -
      from that 3 have "lang \<in> {Yaml, Json}" by (cases lang) auto
      from exact_lexer.keeps [OF tokenizer_exact [OF this]] ts show ?thesis by blast
    qed
    show ?thesis
      using h exact total_lexer.commented [OF total ts(1)] findCommentStart_bound [of line]
        total_lexer.keeps_visible [OF total ts(2)] total_lexer.tokens_nonempty [OF total ts(2)]
      by auto
  qed
qed

text \<open>Rules that evaluate the highlighter on a concrete line.\<close>

lemmas highlight_eval =
  js_def char_class_defs highlightLine_def findCommentStart_def findGoCommentStart_def
  tokenizer_def tokenizeYaml_def tokenizeBash_def tokenizeGo_def tokenizeJson_def
  yaml_prefix_def yaml_key_groups_def yaml_list_groups_def match_start_def
  yaml_pattern_def bash_pattern_def go_pattern_def GO_KEYWORDS_def json_pattern_def
  json_key_def json_string_def delimited_def word_def bash_body_def go_body_def pushPlain_def
  pushCode_def gap_def yaml_type_def bash_type_def json_type_def yaml_string_start_def
  literal_word_def bash_punct_def all_digits_def json_number_start_def trim_def trimEnd_def
  rem_code exec_loop.simps test_def prev_def word_opt_def at_head_def

text \<open>
  C1. \<open>highlightLine\<close> always returns: for every line and every language, none of the
  \<open>while (pattern.exec(...))\<close> loops runs forever.
\<close>

theorem highlightLine_returns: "\<exists>ts. highlightLine line lang = Some ts"
  using highlight_cases [of line lang] by blast

text \<open>
  C2. For YAML, Go, JSON and plain text, the texts of the tokens put together are exactly
  the line: what the page shows is what the author wrote.
\<close>

theorem highlightLine_lossless:
  assumes "lang \<notin> {Bash, Shell}" and "highlightLine line lang = Some ts"
  shows "texts ts = line"
  using highlight_cases [of line lang] assms by auto

theorem highlightLine_lossless_witness:
  "\<exists>ts. highlightLine (js ''kind: Cell # host'') Yaml = Some ts \<and>
     length ts = 5 \<and> texts ts = js ''kind: Cell # host''"
proof -
  have h: "highlightLine (js ''kind: Cell # host'') Yaml = Some
      [tok (js ''kind'') TkKey, tok (js '':'') TkPunct, tok (js '' '') TkPlain,
       tok (js ''Cell '') TkPlain, tok (js ''# host'') TkComment]"
    by (simp add: highlight_eval cong: option.case_cong_weak list.case_cong_weak)
  show ?thesis using h highlightLine_lossless [OF _ h] by simp
qed

text \<open>
  C3. In every language, shell included, the tokens keep every character of the line that
  is not white space, in order.
\<close>

theorem highlightLine_keeps_visible:
  assumes "highlightLine line lang = Some ts"
  shows "visible (texts ts) = visible line"
  using highlight_cases [of line lang] assms by auto

theorem highlightLine_keeps_visible_witness:
  "\<exists>ts. highlightLine (js ''kubectl get -n x'') Bash = Some ts \<and>
     visible (texts ts) = visible (js ''kubectl get -n x'')"
proof -
  obtain ts where h: "highlightLine (js ''kubectl get -n x'') Bash = Some ts"
    using highlight_cases by blast
  then show ?thesis using highlightLine_keeps_visible [OF h] by blast
qed

text \<open>
  A shell line does lose white space: the blanks between the command and its first
  flag are dropped, so \<open>kubectl apply -f x\<close> is shown as \<open>kubectl apply-f x\<close>; and the
  indentation of an indented command is shown twice.
\<close>

theorem highlightLine_bash_drops_blank:
  "map_option texts (highlightLine (js ''kubectl apply -f x'') Bash) = Some (js ''kubectl apply-f x'') \<and>
   map_option texts (highlightLine (js ''  ls'') Shell) = Some (js ''    ls'')"
  by (simp add: highlight_eval cong: option.case_cong_weak list.case_cong_weak)

text \<open>
  Except in plain text, no token is empty: the loops push only text they consumed.
\<close>

theorem highlightLine_no_empty:
  assumes "lang \<noteq> LText" and "highlightLine line lang = Some ts"
  shows "no_empty ts"
  using highlight_cases [of line lang] assms by auto

theorem highlightLine_no_empty_witness:
  "\<exists>ts. highlightLine (js ''go build ./... && ls'') Go = Some ts \<and> no_empty ts"
proof -
  obtain ts where h: "highlightLine (js ''go build ./... && ls'') Go = Some ts"
    using highlight_cases by blast
  then show ?thesis using highlightLine_no_empty [OF _ h] by blast
qed

text \<open>
  \<open>findCommentStart\<close> returns the first index at which a comment starts (a hash outside
  quotes, at the start of the line or after white space), and -1 exactly when there is
  none.
\<close>

theorem findCommentStart_first:
  "findCommentStart line =
     (if \<exists>i. comment_at line i then int (LEAST i. comment_at line i) else -1)"
proof -
  have "(LEAST i. comment_at line i) = j" if "comment_at line j" "\<forall>k<j. \<not> comment_at line k" for j
    using that by (intro Least_equality) (auto simp: not_less [symmetric])
  then show ?thesis using findCommentStart_cases [of line] by auto
qed

text \<open>
  C4. JSON property names are never highlighted as keys: the test that should tell a key
  from a string looks for the colon inside the matched text, where there is none.
\<close>

theorem tokenizeJson_never_key:
  assumes "highlightLine line Json = Some ts"
  shows "TkKey \<notin> tok_type ` set ts"
  using assms
  by (auto simp: highlightLine_def tokenizer_def Let_def split: option.splits if_splits
      dest!: tokenizeJson_no_key)

theorem tokenizeJson_never_key_witness:
  "highlightLine (js ''{'' @ [34, 97, 34] @ js '': 1}'') Json =
     Some [tok (js ''{'') TkPunct, tok [34, 97, 34] TkString, tok (js '':'') TkPunct,
           tok (js '' '') TkPlain, tok (js ''1'') TkNumber, tok (js ''}'') TkPunct] \<and>
   TkKey \<notin> tok_type ` set [tok (js ''{'') TkPunct, tok [34, 97, 34] TkString, tok (js '':'') TkPunct,
           tok (js '' '') TkPlain, tok (js ''1'') TkNumber, tok (js ''}'') TkPunct]"
proof -
  have h: "highlightLine (js ''{'' @ [34, 97, 34] @ js '': 1}'') Json =
     Some [tok (js ''{'') TkPunct, tok [34, 97, 34] TkString, tok (js '':'') TkPunct,
           tok (js '' '') TkPlain, tok (js ''1'') TkNumber, tok (js ''}'') TkPunct]"
    by (simp add: highlight_eval cong: option.case_cong_weak list.case_cong_weak)
  then show ?thesis using tokenizeJson_never_key [OF h] by blast
qed

end
