(* ===== verification/Code_Block.thy ===== *)
theory Code_Block
  imports Highlight Vdom
begin

text \<open>
  The code listing of the documentation, \<open>website/components/code-block.tsx\<close>, and its copy
  button, \<open>website/components/copy-button.tsx\<close>. The listing is a function from the
  properties to React elements; the button is a state machine driven by the clipboard and
  by the timers it starts.
\<close>

section \<open>The listing\<close>

record CodeBlockProps =
  cb_code :: jstr
  cb_language :: Language
  cb_filename :: "jstr option"
  cb_className :: "jstr option"
  cb_showLineNumbers :: bool
  cb_maxHeight :: "jstr option"

text \<open>The defaults of the destructured properties.\<close>

definition code_props :: "jstr \<Rightarrow> CodeBlockProps" where
  "code_props code = \<lparr>cb_code = code, cb_language = Yaml, cb_filename = None,
     cb_className = None, cb_showLineNumbers = False, cb_maxHeight = None\<rparr>"

fun language_name :: "Language \<Rightarrow> jstr" where
  "language_name Yaml = js ''yaml''"
| "language_name Bash = js ''bash''"
| "language_name Shell = js ''shell''"
| "language_name Go = js ''go''"
| "language_name Json = js ''json''"
| "language_name LText = js ''text''"

text \<open>\<open>code.replace(/\n$/, "")\<close>: one line feed at the very end is removed.\<close>

definition strip_final_newline :: "jstr \<Rightarrow> jstr" where
  "strip_final_newline code = (if code \<noteq> [] \<and> last code = 10 then butlast code else code)"

definition code_lines :: "jstr \<Rightarrow> jstr list" where
  "code_lines code = split_at 10 (strip_final_newline code)"

definition code_raw :: "jstr \<Rightarrow> jstr" where
  "code_raw code = join [10] (code_lines code)"

definition token_span :: "nat \<Rightarrow> Token \<Rightarrow> node" where
  "token_span tokenIndex t =
     El ''span'' [(''key'', digits tokenIndex), (''className'', tokenClassName (tok_type t))] [Txt (tok_text t)]"

definition line_cell :: "Token list \<Rightarrow> node" where
  "line_cell ts = El ''span'' [(''className'', js ''whitespace-pre text-slate-200'')]
     (map (\<lambda>(i, t). token_span i t) (enumerate 0 ts))"

definition code_row :: "bool \<Rightarrow> nat \<Rightarrow> Token list \<Rightarrow> node" where
  "code_row showLineNumbers index ts =
     El ''span'' [(''key'', digits index), (''className'', js ''grid grid-cols-[auto_1fr] gap-4'')]
       [if showLineNumbers
        then El ''span'' [(''className'', js ''select-none text-right text-slate-600'')] [Txt (digits (index + 1))]
        else El ''span'' [(''className'', js ''hidden'')] [],
        line_cell ts]"

definition code_rows :: "CodeBlockProps \<Rightarrow> node list option" where
  "code_rows p =
     those (map (\<lambda>(i, line). map_option (code_row (cb_showLineNumbers p) i) (highlightLine line (cb_language p)))
       (enumerate 0 (code_lines (cb_code p))))"

definition traffic_lights :: node where
  "traffic_lights = El ''span'' [(''className'', js ''flex gap-1.5'')]
     (map (\<lambda>c. El ''span'' [(''className'', js ''h-2.5 w-2.5 rounded-full '' @ js c)] [])
       [''bg-red-500/70'', ''bg-amber-400/70'', ''bg-emerald-500/70''])"

definition code_caption :: "CodeBlockProps \<Rightarrow> node" where
  "code_caption p =
     (case cb_filename p of
        Some f \<Rightarrow>
          if f = [] then El ''span'' [(''className'', js ''ml-2 font-mono text-xs uppercase tracking-wider text-slate-500'')]
                      [Txt (language_name (cb_language p))]
          else El ''span'' [(''className'', js ''ml-2 font-mono text-xs text-slate-400'')] [Txt f]
      | None \<Rightarrow> El ''span'' [(''className'', js ''ml-2 font-mono text-xs uppercase tracking-wider text-slate-500'')]
                  [Txt (language_name (cb_language p))])"

definition max_height_style :: "CodeBlockProps \<Rightarrow> (string \<times> jstr) list" where
  "max_height_style p =
     (case cb_maxHeight p of Some h \<Rightarrow> if h = [] then [] else [(''style.maxHeight'', h)] | None \<Rightarrow> [])"

definition codeBlock :: "class_fn \<Rightarrow> CodeBlockProps \<Rightarrow> node option" where
  "codeBlock cn p =
     (case code_rows p of
        None \<Rightarrow> None
      | Some rows \<Rightarrow> Some
         (El ''div'' [(''className'', cn [Some (js ''group relative overflow-hidden rounded-xl border border-white/10 bg-[#070b14] shadow-[0_20px_60px_-30px_rgba(15,40,90,0.9)]''), cb_className p])]
           [El ''div'' [(''className'', js ''flex items-center justify-between border-b border-white/5 bg-white/[0.02] px-3 py-2'')]
              [El ''div'' [(''className'', js ''flex items-center gap-2'')] [traffic_lights, code_caption p],
               El ''CopyButton'' [(''value'', code_raw (cb_code p))] []],
            El ''div'' ((''className'', js ''overflow-auto'') # max_height_style p)
              [El ''pre'' [(''className'', js ''p-4 text-[13px] leading-6'')]
                 [El ''code'' [(''className'', js ''font-mono'')] rows]]]))"

lemma code_raw_eq: "code_raw code = strip_final_newline code"
  by (simp add: code_raw_def code_lines_def)

lemma line_cell_text: "textContent (line_cell ts) = texts ts"
proof -
  have "concat (map (textContent \<circ> (\<lambda>(i, t). token_span i t)) (enumerate k ts)) = texts ts" for k
    by (induction ts arbitrary: k) (auto simp: token_span_def)
  then show ?thesis by (simp add: line_cell_def)
qed

lemma those_map_Some:
  "(\<And>x. x \<in> set xs \<Longrightarrow> f x = Some (g x)) \<Longrightarrow> those (map f xs) = Some (map g xs)"
  by (induction xs) auto

lemma code_rows_eq:
  "code_rows p = Some (map (\<lambda>(i, line). code_row (cb_showLineNumbers p) i (the (highlightLine line (cb_language p))))
     (enumerate 0 (code_lines (cb_code p))))"
  unfolding code_rows_def
proof (rule those_map_Some)
  fix x
  assume "x \<in> set (enumerate 0 (code_lines (cb_code p)))"
  obtain ts where "highlightLine (snd x) (cb_language p) = Some ts"
    using highlight_cases by blast
  then show "(case x of (i, line) \<Rightarrow> map_option (code_row (cb_showLineNumbers p) i) (highlightLine line (cb_language p))) =
      Some (case x of (i, line) \<Rightarrow> code_row (cb_showLineNumbers p) i (the (highlightLine line (cb_language p))))"
    by (simp add: split_beta)
qed

text \<open>The cell of a row that shows the code.\<close>

definition row_code :: "node \<Rightarrow> jstr" where
  "row_code n = textContent (last (kids n))"

lemma row_code_row [simp]: "row_code (code_row b i ts) = texts ts"
  by (simp add: row_code_def code_row_def line_cell_text)

text \<open>The cell in front of it.\<close>

definition row_number :: "node \<Rightarrow> jstr" where
  "row_number n = textContent (hd (kids n))"

lemma row_number_row [simp]: "row_number (code_row b i ts) = (if b then digits (i + 1) else [])"
  by (simp add: row_number_def code_row_def)

lemma code_rows_visible:
  assumes "code_rows p = Some rows"
  shows "map (visible \<circ> row_code) rows = map visible (code_lines (cb_code p))"
proof -
  have "visible (texts (the (highlightLine line (cb_language p)))) = visible line" for line
    using highlight_cases [of line "cb_language p"] by auto
  then have "map (visible \<circ> row_code \<circ> (\<lambda>(i, line). code_row b i (the (highlightLine line (cb_language p))))) (enumerate k ls) = map visible ls"
    for b k ls
    by (induction ls arbitrary: k) auto
  then show ?thesis using assms(1) by (auto simp: code_rows_eq comp_assoc)
qed

lemma code_rows_number:
  assumes "code_rows p = Some rows"
  shows "map row_number rows = map (\<lambda>i. if cb_showLineNumbers p then digits (i + 1) else []) [0..<length rows]"
proof -
  have "map (row_number \<circ> (\<lambda>(i, line). code_row b i (f line))) (enumerate k ls) =
      map (\<lambda>i. if b then digits (i + 1) else []) [k..<k + length ls]" for b k ls and f :: "jstr \<Rightarrow> Token list"
    by (induction ls arbitrary: k) (auto simp: upt_rec)
  then show ?thesis using assms(1) by (auto simp: code_rows_eq)
qed

lemma code_row_plain: "t \<notin> {''span''} \<Longrightarrow> find_all t (code_row b i ts) = []"
  by (auto simp: code_row_def line_cell_def token_span_def concat_eq_Nil_conv)

lemma code_rows_plain:
  assumes "code_rows p = Some rows" and "t \<notin> {''span''}"
  shows "concat (map (find_all t) rows) = []"
  using assms code_row_plain by (auto simp: code_rows_eq concat_eq_Nil_conv)

lemma code_rows_text:
  assumes "code_rows p = Some rows" and "cb_language p \<notin> {Bash, Shell}"
  shows "map row_code rows = code_lines (cb_code p)"
proof -
  have "texts (the (highlightLine line (cb_language p))) = line" for line
    using highlight_cases [of line "cb_language p"] assms(2) by auto
  then have "map (row_code \<circ> (\<lambda>(i, line). code_row b i (the (highlightLine line (cb_language p))))) (enumerate k ls) = ls"
    for b k ls
    by (induction ls arbitrary: k) auto
  then show ?thesis using assms(1) by (auto simp: code_rows_eq)
qed

section \<open>The copy button\<close>

text \<open>
  The button's state: the flag \<open>copied\<close>, the present time in milliseconds and the times at
  which the \<open>setTimeout(() => setCopied(false), 1600)\<close> callbacks still to run are due. The
  browser's clipboard decides whether \<open>writeText\<close> is fulfilled (\<open>copy_ok\<close>) or rejected
  (\<open>copy_err\<close>); time passes up to the earliest timer and timers fire when they are due.
\<close>

record copy_state =
  copied :: bool
  now :: nat
  timers :: "nat list"

definition copy_init :: "copy_state \<Rightarrow> bool" where
  "copy_init s \<longleftrightarrow> \<not> copied s \<and> timers s = []"

definition copy_ok :: "copy_state \<Rightarrow> copy_state" where
  "copy_ok s = s\<lparr>copied := True, timers := timers s @ [now s + 1600]\<rparr>"

definition copy_err :: "copy_state \<Rightarrow> copy_state" where
  "copy_err s = s\<lparr>copied := False\<rparr>"

definition copy_fire :: "copy_state \<Rightarrow> copy_state" where
  "copy_fire s = s\<lparr>copied := False, timers := tl (timers s)\<rparr>"

definition copy_label :: "copy_state \<Rightarrow> jstr" where
  "copy_label s = (if copied s then js ''Copied'' else js ''Copy code'')"

definition copyButton :: "class_fn \<Rightarrow> jstr option \<Rightarrow> copy_state \<Rightarrow> node" where
  "copyButton cn className s =
     El ''button'' [att ''type'' ''button'', att ''onClick'' ''copy'', (''aria-label'', copy_label s),
       (''className'', cn [Some (js ''inline-flex h-8 w-8 items-center justify-center rounded-md border border-white/10 bg-white/5 text-slate-400 transition-colors hover:bg-white/10 hover:text-slate-100''), className])]
       [if copied s then El ''Check'' [cls ''h-3.5 w-3.5 text-emerald-400''] [] else El ''Copy'' [cls ''h-3.5 w-3.5''] []]"

inductive copy_step :: "copy_state \<Rightarrow> copy_state \<Rightarrow> bool" where
  copy_fulfilled: "copy_step s (copy_ok s)"
| copy_rejected: "copy_step s (copy_err s)"
| copy_wait: "now s \<le> t \<Longrightarrow> \<forall>d\<in>set (timers s). t \<le> d \<Longrightarrow> copy_step s (s\<lparr>now := t\<rparr>)"
| copy_timer: "timers s = d # ds \<Longrightarrow> d \<le> now s \<Longrightarrow> copy_step s (copy_fire s)"

text \<open>
  Timers are due in the order they were started, none later than 1600 ms from now, and
  the confirmation is shown only while one of them is still to run.
\<close>

definition copy_inv :: "copy_state \<Rightarrow> bool" where
  "copy_inv s \<longleftrightarrow> (copied s \<longrightarrow> timers s \<noteq> []) \<and> sorted (timers s) \<and> (\<forall>d\<in>set (timers s). now s \<le> d \<and> d \<le> now s + 1600)"

lemma copy_inv_step: "copy_step s t \<Longrightarrow> copy_inv s \<Longrightarrow> copy_inv t"
  by (induction rule: copy_step.induct)
    (auto simp: copy_inv_def copy_ok_def copy_err_def copy_fire_def sorted_append intro: le_trans)

interpretation copy_button: component copy_init copy_step copy_inv
  by unfold_locales (auto simp: copy_init_def copy_inv_def [of s for s] dest: copy_inv_step)

section \<open>Properties of the listing and its button\<close>

text \<open>
  What a listing with the properties \<open>p\<close> is: the rows are the children of its one \<open>code\<close> element, there
  is a row for each line of the source and every row shows the characters of its line that are
  not white space; outside the shell languages the rows spell the source exactly. The cells in
  front number the lines from one or are blank, and the one copy button is given the source.
\<close>

definition listing_shown :: "CodeBlockProps \<Rightarrow> node list \<Rightarrow> node \<Rightarrow> bool" where
  "listing_shown p rows n \<longleftrightarrow>
     map kids (find_all ''code'' n) = [rows] \<and>
     length rows = Suc (count_list (strip_final_newline (cb_code p)) 10) \<and>
     map (visible \<circ> row_code) rows = map visible (split_at 10 (strip_final_newline (cb_code p))) \<and>
     (cb_language p \<notin> {Bash, Shell} \<longrightarrow>
        join [10] (map row_code rows) = strip_final_newline (cb_code p)) \<and>
     map row_number rows = map (\<lambda>i. if cb_showLineNumbers p then digits (i + 1) else []) [0..<length rows] \<and>
     map (\<lambda>b. map_of (attrs b) ''value'') (find_all ''CopyButton'' n) =
       [Some (strip_final_newline (cb_code p))]"

lemma codeBlock_parts:
  assumes "code_rows p = Some rows"
  shows "\<exists>n. codeBlock cn p = Some n \<and> map kids (find_all ''code'' n) = [rows] \<and>
    map (\<lambda>b. map_of (attrs b) ''value'') (find_all ''CopyButton'' n) = [Some (strip_final_newline (cb_code p))]"
  using assms code_rows_plain [OF assms, of "''code''"] code_rows_plain [OF assms, of "''CopyButton''"]
  by (simp add: codeBlock_def traffic_lights_def code_caption_def code_raw_eq split: option.splits)

lemma listing_of_rows:
  assumes rows: "code_rows p = Some rows"
  shows "\<exists>n. codeBlock cn p = Some n \<and> listing_shown p rows n"
proof -
  have len: "length rows = Suc (count_list (strip_final_newline (cb_code p)) 10)"
    using rows by (auto simp: code_rows_eq code_lines_def split_at_length)
  have join: "join [10] (map row_code rows) = strip_final_newline (cb_code p)"
    if "cb_language p \<notin> {Bash, Shell}"
    using code_rows_text [OF rows that] code_raw_eq by (simp add: code_raw_def)
  show ?thesis
    using codeBlock_parts [OF rows, of cn] code_rows_visible [OF rows] code_rows_number [OF rows] len join
    by (auto simp: listing_shown_def code_lines_def)
qed

lemma listing_exists: "\<exists>rows n. codeBlock cn p = Some n \<and> listing_shown p rows n"
  using code_rows_eq listing_of_rows by blast

lemma listing_first_row:
  assumes "code_lines (cb_code p) = line # ls" and "highlightLine line (cb_language p) = Some ts"
  shows "\<exists>rows n. codeBlock cn p = Some n \<and> listing_shown p rows n \<and> row_code (hd rows) = texts ts"
proof -
  obtain rows where rows: "code_rows p = Some rows" using code_rows_eq by blast
  moreover have "row_code (hd rows) = texts ts" using rows assms by (auto simp: code_rows_eq)
  ultimately show ?thesis using listing_of_rows by blast
qed

text \<open>
  C5. The listing always renders, and its \<open>code\<close> element holds a row for each line of the
  source without one final line feed. In YAML, Go, JSON and plain text the code cells of the
  rows spell that source; in the shell languages each spells its line up to white space. The
  cells in front of them number the lines when that is asked for. In every language the one
  copy button is given exactly the source text.
\<close>

theorem codeBlock_shows_source:
  "\<exists>rows n. codeBlock cn p = Some n \<and>
     map kids (find_all ''code'' n) = [rows] \<and>
     length rows = Suc (count_list (strip_final_newline (cb_code p)) 10) \<and>
     map (visible \<circ> row_code) rows = map visible (split_at 10 (strip_final_newline (cb_code p))) \<and>
     (cb_language p \<notin> {Bash, Shell} \<longrightarrow>
        join [10] (map row_code rows) = strip_final_newline (cb_code p)) \<and>
     map row_number rows = map (\<lambda>i. if cb_showLineNumbers p then digits (i + 1) else []) [0..<length rows] \<and>
     map (\<lambda>b. map_of (attrs b) ''value'') (find_all ''CopyButton'' n) =
       [Some (strip_final_newline (cb_code p))]"
  using listing_exists [of cn p] by (simp add: listing_shown_def)

theorem codeBlock_shows_source_witness:
  "\<exists>rows n. codeBlock (\<lambda>cs. concat (map (case_option [] id) cs)) (code_props (js ''a: 1'' @ [10])) = Some n \<and>
     map kids (find_all ''code'' n) = [rows] \<and> length rows = 1 \<and> map row_code rows = [js ''a: 1'']"
proof -
  obtain rows n where r: "codeBlock (\<lambda>cs. concat (map (case_option [] id) cs)) (code_props (js ''a: 1'' @ [10])) = Some n"
      "map kids (find_all ''code'' n) = [rows]" "length rows = 1" "join [10] (map row_code rows) = js ''a: 1''"
    using codeBlock_shows_source [of "\<lambda>cs. concat (map (case_option [] id) cs)" "code_props (js ''a: 1'' @ [10])"]
    by (auto simp: code_props_def strip_final_newline_def js_def)
  from r(3) obtain x where "rows = [x]" by (auto simp: length_Suc_conv)
  with r show ?thesis by auto
qed

text \<open>
  C6. The confirmation \<open>Copied\<close> is never stuck: in every reachable state in which it is
  shown, a timer that resets it is pending and is due within 1600 ms.
\<close>

theorem copy_confirmation_bounded:
  assumes "reach copy_init copy_step s" and "copy_label s = js ''Copied''"
  shows "\<exists>d ds. timers s = d # ds \<and> now s \<le> d \<and> d \<le> now s + 1600 \<and>
    copy_step\<^sup>*\<^sup>* s (copy_fire (s\<lparr>now := d\<rparr>)) \<and> copy_label (copy_fire (s\<lparr>now := d\<rparr>)) = js ''Copy code''"
proof -
  have inv: "copy_inv s" using assms(1) by (rule copy_button.always)
  have "copied s" using assms(2) by (auto simp: copy_label_def split: if_splits)
  with inv obtain d ds where t: "timers s = d # ds" by (auto simp: copy_inv_def neq_Nil_conv)
  with inv have d: "now s \<le> d" "d \<le> now s + 1600" "\<forall>e\<in>set (timers s). d \<le> e"
    by (auto simp: copy_inv_def)
  have "copy_step s (s\<lparr>now := d\<rparr>)" using d(1,3) by (rule copy_wait)
  moreover have "copy_step (s\<lparr>now := d\<rparr>) (copy_fire (s\<lparr>now := d\<rparr>))"
    by (rule copy_timer [of _ d ds]) (simp_all add: t)
  ultimately have "copy_step\<^sup>*\<^sup>* s (copy_fire (s\<lparr>now := d\<rparr>))" by auto
  then show ?thesis using t d by (simp add: copy_label_def copy_fire_def)
qed

theorem copy_confirmation_bounded_witness:
  "\<exists>d ds. timers (copy_ok \<lparr>copied = False, now = 5, timers = []\<rparr>) = d # ds \<and> 5 \<le> d \<and> d \<le> 1605"
proof -
  let ?s = "\<lparr>copied = False, now = 5, timers = []\<rparr>"
  have r: "reach copy_init copy_step (copy_ok ?s)"
    by (rule reach_step [where s = ?s]) (auto simp: copy_init_def intro: reach_init copy_fulfilled)
  have l: "copy_label (copy_ok ?s) = js ''Copied''" by (simp add: copy_label_def copy_ok_def)
  show ?thesis using copy_confirmation_bounded [OF r l] by (auto simp: copy_ok_def)
qed

end
