(* ===== verification/Page_Model.thy ===== *)
theory Page_Model
  imports Page_Frame Code_Block
begin

text \<open>
  What the pages of \<open>website/app\<close> have in common: which elements an element may contain, the
  outline of the headings, anchors, keys of repeated children, listings and the addresses a page
  links to. A page is the list of elements its component returns; the frame of \<open>Page_Frame\<close>
  puts it into a document.

  Components of the site that hold no text of their own stay elements of the tree
  (\<open>Link\<close>, \<open>Badge\<close>, \<open>BlurFade\<close>, \<open>CodeBlock\<close>, icons). \<open>host\<close> names the HTML element at the
  root of what each of them renders.
\<close>

section \<open>Rewriting over literal text\<close>

text \<open>
  Congruence rules that keep the simplifier out of texts and class names: the facts below only
  depend on the structure of a page, and a page has some ten thousand characters.
\<close>

lemma Txt_opaque: "Txt s = Txt s"
  by (rule refl)

lemma js_opaque: "js s = js s"
  by (rule refl)

lemmas opaque = Txt_opaque js_opaque

section \<open>Strings\<close>

text \<open>\<open>s.endsWith(p)\<close> and \<open>s.padStart(n, p)\<close> for a filler of one code unit.\<close>

definition endsWith :: "jstr \<Rightarrow> jstr \<Rightarrow> bool" where
  "endsWith s p \<longleftrightarrow> startsWith (rev s) (rev p)"

definition padStart :: "nat \<Rightarrow> jstr \<Rightarrow> jstr \<Rightarrow> jstr" where
  "padStart n p s = concat (replicate (n - length s) p) @ s"

lemma endsWith_iff: "endsWith s p \<longleftrightarrow> (\<exists>t. s = t @ p)"
  by (auto simp: endsWith_def startsWith_iff) (metis rev_append rev_rev_ident)

lemma endsWith_js [simp]: "endsWith (js s) (js t) \<longleftrightarrow> take (length t) (rev s) = rev t"
proof -
  have "endsWith (js s) (js t) \<longleftrightarrow> (\<exists>u. rev s = rev t @ u)"
    by (auto simp: endsWith_def startsWith_iff js_def rev_map map_eq_append_conv inj_map_eq_map inj_of_char)
  also have "\<dots> \<longleftrightarrow> take (length t) (rev s) = rev t"
    by (auto simp: append_eq_conv_conj) (metis append_take_drop_id length_rev)
  finally show ?thesis .
qed

lemma js_eq_append:
  "js s = js t @ u \<longleftrightarrow> take (length t) s = t \<and> js (drop (length t) s) = u"
  "js t @ u = js s \<longleftrightarrow> take (length t) s = t \<and> js (drop (length t) s) = u"
proof -
  show *: "js s = js t @ u \<longleftrightarrow> take (length t) s = t \<and> js (drop (length t) s) = u" for s t u
    by (auto simp: js_def map_eq_append_conv inj_map_eq_map inj_of_char) (metis append_take_drop_id)
  show "js t @ u = js s \<longleftrightarrow> take (length t) s = t \<and> js (drop (length t) s) = u"
    using * [of s t u] by metis
qed

lemma length_padStart: "length p = 1 \<Longrightarrow> length (padStart n p s) = max n (length s)"
  by (simp add: padStart_def length_concat sum_list_replicate)

text \<open>A child that is \<open>undefined\<close> renders nothing.\<close>

definition opt_text :: "jstr option \<Rightarrow> node list" where
  "opt_text s = (case s of Some t \<Rightarrow> [Txt t] | None \<Rightarrow> [])"

lemma opt_text_simps [simp]: "opt_text None = []" "opt_text (Some t) = [Txt t]"
  by (simp_all add: opt_text_def)

section \<open>Elements and their content\<close>

definition component_roots :: "(string \<times> string) list" where
  "component_roots =
     [(''Link'', ''a''), (''ShimmerLink'', ''a''), (''motion.div'', ''div''), (''motion.h1'', ''h1''), (''motion.span'', ''span''), (''BlurFade'', ''div''),
      (''Badge'', ''div''), (''CodeBlock'', ''div''), (''RepoTree'', ''div''), (''Highlighter'', ''span''),
      (''AnimatedShinyText'', ''span''), (''AnimatedGradientText'', ''span''), (''NumberTicker'', ''span''), (''WordRotate'', ''div''),
      (''Accordion'', ''div''), (''AccordionItem'', ''div''), (''AccordionTrigger'', ''button''), (''AccordionContent'', ''div''),
      (''Tabs'', ''div''), (''TabsList'', ''div''), (''TabsTrigger'', ''button''), (''TabsContent'', ''div''),
      (''Card'', ''div''), (''CardHeader'', ''div''), (''CardTitle'', ''div''), (''CardContent'', ''div''),
      (''BorderBeam'', ''div''), (''MagicCard'', ''div''), (''GlareHover'', ''div''), (''Marquee'', ''div''), (''Backlight'', ''div''),
      (''Meteors'', ''span''), (''OrbitingCircles'', ''div''), (''Terminal'', ''div''), (''AnimatedSpan'', ''div''), (''TypingAnimation'', ''span''),
      (''FlickeringGrid'', ''div''), (''RetroGrid'', ''div'')]"

definition html_tags :: "string list" where
  "html_tags = [''a'', ''article'', ''br'', ''button'', ''code'', ''dd'', ''div'', ''dl'', ''dt'', ''em'', ''h1'', ''h2'', ''h3'', ''li'',
     ''ol'', ''p'', ''pre'', ''script'', ''section'', ''span'', ''strong'', ''svg'', ''table'', ''tbody'', ''td'', ''th'', ''thead'', ''tr'', ''ul'']"

text \<open>A component that is not listed is an icon or a pattern, which renders an \<open>svg\<close> element.\<close>

definition host :: "string \<Rightarrow> string" where
  "host t = (if t \<in> set html_tags then t else case map_of component_roots t of Some h \<Rightarrow> h | None \<Rightarrow> ''svg'')"

text \<open>The places content can stand in, by what is allowed there.\<close>

datatype place = Flow | Phrasing | Items | Parts | Rows | Cells | Terms | Group

definition phrasing_tags :: "string list" where
  "phrasing_tags = [''a'', ''br'', ''button'', ''code'', ''em'', ''script'', ''span'', ''strong'', ''svg'']"

definition block_tags :: "string list" where
  "block_tags = [''article'', ''div'', ''dl'', ''h1'', ''h2'', ''h3'', ''ol'', ''p'', ''pre'', ''section'', ''table'', ''ul'']"

fun allowed :: "place \<Rightarrow> string \<Rightarrow> bool" where
  "allowed Flow t = (t \<in> set phrasing_tags \<or> t \<in> set block_tags)"
| "allowed Phrasing t = (t \<in> set phrasing_tags)"
| "allowed Items t = (t = ''li'')"
| "allowed Parts t = (t \<in> {''thead'', ''tbody''})"
| "allowed Rows t = (t = ''tr'')"
| "allowed Cells t = (t \<in> {''td'', ''th''})"
| "allowed Terms t = (t \<in> {''dt'', ''dd'', ''div''})"
| "allowed Group t = (t \<in> {''dt'', ''dd''})"

text \<open>The place an element opens for its children. A link is transparent: it opens the place it stands in.\<close>

definition inside :: "place \<Rightarrow> string \<Rightarrow> place" where
  "inside c t =
     (if t = ''a'' then c
      else if t \<in> {''p'', ''h1'', ''h2'', ''h3'', ''pre''} \<or> t \<in> set phrasing_tags then Phrasing
      else if t \<in> {''ul'', ''ol''} then Items
      else if t = ''table'' then Parts
      else if t \<in> {''thead'', ''tbody''} then Rows
      else if t = ''tr'' then Cells
      else if t = ''dl'' then Terms
      else if t = ''div'' \<and> c = Terms then Group
      else Flow)"

text \<open>A button rendered \<open>asChild\<close> is its child; \<open>AnimatePresence\<close> and the context providers are their children.\<close>

definition fragments :: "string list" where
  "fragments = [''AnimatePresence'', ''SequenceContext.Provider'', ''ItemIndexContext.Provider'']"

definition as_child :: "string \<Rightarrow> (string \<times> jstr) list \<Rightarrow> bool" where
  "as_child t as \<longleftrightarrow> t \<in> set fragments \<or> t = ''Button'' \<and> map_of as ''asChild'' \<noteq> None"

text \<open>
  The typing judgement: \<open>fits c i n\<close> says that \<open>n\<close> may stand at a place \<open>c\<close>, where \<open>i\<close> says
  whether links and buttons may occur. The trigger of an accordion stands in a header of its own,
  a heading of the third level (\<open>accordion.tsx\<close>), which must be allowed there too.
\<close>

fun fits :: "place \<Rightarrow> bool \<Rightarrow> node \<Rightarrow> bool" where
  "fits c i (Txt s) = (c = Flow \<or> c = Phrasing)"
| "fits c i (El t as ns) =
     (if as_child t as then list_all (fits c i) ns
      else let h = (if t = ''Button'' then ''button'' else host t) in
        allowed c h \<and> (t = ''AccordionTrigger'' \<longrightarrow> allowed c ''h3'') \<and> (h \<in> {''a'', ''button''} \<longrightarrow> i) \<and>
        list_all (fits (inside c h) (i \<and> h \<notin> {''a'', ''button''})) ns)"

text \<open>The tables as rewrite rules, so that a page is checked without looking anything up.\<close>

lemma host_simps [simp]:
  "host ''a'' = ''a''" "host ''article'' = ''article''" "host ''br'' = ''br''" "host ''button'' = ''button''"
  "host ''code'' = ''code''" "host ''dd'' = ''dd''" "host ''div'' = ''div''" "host ''dl'' = ''dl''" "host ''dt'' = ''dt''"
  "host ''em'' = ''em''" "host ''h1'' = ''h1''" "host ''h2'' = ''h2''" "host ''h3'' = ''h3''" "host ''li'' = ''li''"
  "host ''ol'' = ''ol''" "host ''p'' = ''p''" "host ''pre'' = ''pre''" "host ''script'' = ''script''"
  "host ''section'' = ''section''" "host ''span'' = ''span''" "host ''strong'' = ''strong''" "host ''svg'' = ''svg''"
  "host ''table'' = ''table''" "host ''tbody'' = ''tbody''" "host ''td'' = ''td''" "host ''th'' = ''th''"
  "host ''thead'' = ''thead''" "host ''tr'' = ''tr''" "host ''ul'' = ''ul''" "host ''Link'' = ''a''"
  "host ''ShimmerLink'' = ''a''" "host ''motion.div'' = ''div''" "host ''motion.h1'' = ''h1''" "host ''motion.span'' = ''span''" "host ''BlurFade'' = ''div''"
  "host ''Badge'' = ''div''" "host ''CodeBlock'' = ''div''" "host ''RepoTree'' = ''div''" "host ''Highlighter'' = ''span''"
  "host ''AnimatedShinyText'' = ''span''" "host ''AnimatedGradientText'' = ''span''" "host ''NumberTicker'' = ''span''"
  "host ''WordRotate'' = ''div''" "host ''Accordion'' = ''div''" "host ''AccordionItem'' = ''div''"
  "host ''AccordionTrigger'' = ''button''" "host ''AccordionContent'' = ''div''" "host ''Tabs'' = ''div''"
  "host ''TabsList'' = ''div''" "host ''TabsTrigger'' = ''button''" "host ''TabsContent'' = ''div''" "host ''Card'' = ''div''"
  "host ''CardHeader'' = ''div''" "host ''CardTitle'' = ''div''" "host ''CardContent'' = ''div''"
  "host ''BorderBeam'' = ''div''" "host ''MagicCard'' = ''div''" "host ''GlareHover'' = ''div''" "host ''Marquee'' = ''div''"
  "host ''Backlight'' = ''div''" "host ''Meteors'' = ''span''" "host ''OrbitingCircles'' = ''div''"
  "host ''Terminal'' = ''div''" "host ''AnimatedSpan'' = ''div''" "host ''TypingAnimation'' = ''span''"
  "host ''FlickeringGrid'' = ''div''" "host ''RetroGrid'' = ''div''"
  by (simp_all add: host_def html_tags_def component_roots_def)

lemma icon_simps [simp]:
  "host ''AlertTriangle'' = ''svg''" "host ''AnimatedBeam'' = ''svg''" "host ''AnimatedGridPattern'' = ''svg''"
  "host ''ArrowRight'' = ''svg''" "host ''ArrowRightIcon'' = ''svg''" "host ''Boxes'' = ''svg''"
  "host ''BoxesIcon'' = ''svg''" "host ''BrainCircuit'' = ''svg''" "host ''Check'' = ''svg''"
  "host ''CheckCircle2'' = ''svg''" "host ''ClipboardCheck'' = ''svg''" "host ''Clock'' = ''svg''"
  "host ''CloudCog'' = ''svg''" "host ''Cpu'' = ''svg''" "host ''Database'' = ''svg''" "host ''DotPattern'' = ''svg''"
  "host ''DownloadCloud'' = ''svg''" "host ''FileCode2'' = ''svg''" "host ''FileWarning'' = ''svg''"
  "host ''Gauge'' = ''svg''" "host ''Github'' = ''svg''" "host ''GraduationCap'' = ''svg''" "host ''HardDrive'' = ''svg''"
  "host ''HexagonPattern'' = ''svg''" "host ''Info'' = ''svg''" "host ''Layers'' = ''svg''" "host ''Layers3'' = ''svg''"
  "host ''LayoutGrid'' = ''svg''" "host ''Lightbulb'' = ''svg''" "host ''Lock'' = ''svg''" "host ''Network'' = ''svg''"
  "host ''Pin'' = ''svg''" "host ''Rocket'' = ''svg''" "host ''Route'' = ''svg''" "host ''ScanSearch'' = ''svg''"
  "host ''Server'' = ''svg''" "host ''ServerCrash'' = ''svg''" "host ''ShieldAlert'' = ''svg''"
  "host ''ShieldCheck'' = ''svg''" "host ''ShipWheel'' = ''svg''" "host ''SlidersHorizontal'' = ''svg''"
  "host ''TerminalIcon'' = ''svg''" "host ''TestTube2'' = ''svg''" "host ''UserCheck'' = ''svg''"
  "host ''Waypoints'' = ''svg''" "host ''Workflow'' = ''svg''" "host ''Wrench'' = ''svg''" "host ''X'' = ''svg''"
  by (simp_all add: host_def html_tags_def component_roots_def)

lemma inside_simps [simp]:
  "inside c ''a'' = c" "inside c ''article'' = Flow" "inside c ''br'' = Phrasing" "inside c ''button'' = Phrasing"
  "inside c ''code'' = Phrasing" "inside c ''dd'' = Flow" "inside c ''dl'' = Terms" "inside c ''dt'' = Flow"
  "inside c ''em'' = Phrasing" "inside c ''h1'' = Phrasing" "inside c ''h2'' = Phrasing" "inside c ''h3'' = Phrasing"
  "inside c ''li'' = Flow" "inside c ''ol'' = Items" "inside c ''p'' = Phrasing" "inside c ''pre'' = Phrasing"
  "inside c ''script'' = Phrasing" "inside c ''section'' = Flow" "inside c ''span'' = Phrasing"
  "inside c ''strong'' = Phrasing" "inside c ''svg'' = Phrasing" "inside c ''table'' = Parts" "inside c ''tbody'' = Rows"
  "inside c ''td'' = Flow" "inside c ''th'' = Flow" "inside c ''thead'' = Rows" "inside c ''tr'' = Cells"
  "inside c ''ul'' = Items" "inside c ''div'' = (if c = Terms then Group else Flow)"
  by (simp_all add: inside_def phrasing_tags_def)

lemma allowed_simps [simp]:
  "allowed Flow ''a''" "allowed Flow ''br''" "allowed Flow ''button''" "allowed Flow ''code''" "allowed Flow ''em''"
  "allowed Flow ''script''" "allowed Flow ''span''" "allowed Flow ''strong''" "allowed Flow ''svg''"
  "allowed Flow ''article''" "allowed Flow ''div''" "allowed Flow ''dl''" "allowed Flow ''h1''" "allowed Flow ''h2''"
  "allowed Flow ''h3''" "allowed Flow ''ol''" "allowed Flow ''p''" "allowed Flow ''pre''" "allowed Flow ''section''"
  "allowed Flow ''table''" "allowed Flow ''ul''" "allowed Phrasing ''a''" "allowed Phrasing ''br''"
  "allowed Phrasing ''button''" "allowed Phrasing ''code''" "allowed Phrasing ''em''" "allowed Phrasing ''script''"
  "allowed Phrasing ''span''" "allowed Phrasing ''strong''" "allowed Phrasing ''svg''"
  by (simp_all add: phrasing_tags_def block_tags_def)

declare allowed.simps(1,2) [simp del]

section \<open>What the judgement guarantees\<close>

text \<open>\<open>occurs B n\<close>: an element of \<open>B\<close> occurs in \<open>n\<close>; \<open>nested A B n\<close>: one occurs inside an element of \<open>A\<close>.\<close>

fun root_tag :: "string \<Rightarrow> (string \<times> jstr) list \<Rightarrow> string option" where
  "root_tag t as = (if as_child t as then None else Some (if t = ''Button'' then ''button'' else host t))"

fun occurs :: "string set \<Rightarrow> node \<Rightarrow> bool" where
  "occurs B (Txt s) = False"
| "occurs B (El t as ns) = ((case root_tag t as of Some h \<Rightarrow> h \<in> B | None \<Rightarrow> False) \<or> list_ex (occurs B) ns)"

fun nested :: "string set \<Rightarrow> string set \<Rightarrow> node \<Rightarrow> bool" where
  "nested A B (Txt s) = False"
| "nested A B (El t as ns) =
     ((case root_tag t as of Some h \<Rightarrow> h \<in> A \<and> list_ex (occurs B) ns | None \<Rightarrow> False) \<or> list_ex (nested A B) ns)"

lemma phrasing_inside: "h \<in> set phrasing_tags \<Longrightarrow> inside Phrasing h = Phrasing"
  by (auto simp: inside_def)

lemma phrasing_no_blocks: "fits Phrasing i n \<Longrightarrow> \<not> occurs (set block_tags) n"
proof (induction n arbitrary: i)
  case (El t as ns)
  show ?case
  proof (cases "as_child t as")
    case True
    with El show ?thesis by (auto simp: list_all_iff list_ex_iff)
  next
    case False
    define h where "h = (if t = ''Button'' then ''button'' else host t)"
    from El.prems False have h: "h \<in> set phrasing_tags" and
        ns: "list_all (fits (inside Phrasing h) (i \<and> h \<notin> {''a'', ''button''})) ns"
      by (simp_all add: h_def Let_def allowed.simps)
    have "h \<notin> set block_tags" using h by (auto simp: phrasing_tags_def block_tags_def)
    moreover have "\<not> list_ex (occurs (set block_tags)) ns"
      using ns El.IH unfolding phrasing_inside [OF h] by (auto simp: list_all_iff list_ex_iff)
    ultimately show ?thesis using False by (simp add: h_def)
  qed
qed simp

lemma quiet_no_links: "fits c False n \<Longrightarrow> \<not> occurs {''a'', ''button''} n"
proof (induction n arbitrary: c)
  case (El t as ns)
  then show ?case by (auto simp: list_all_iff list_ex_iff Let_def split: if_splits)
qed simp

text \<open>Soundness: no block inside a paragraph or heading, no link or button inside another.\<close>

lemma fits_nested:
  assumes "fits c i n"
  shows "\<not> nested {''p'', ''h1'', ''h2'', ''h3'', ''pre''} (set block_tags) n \<and> \<not> nested {''a'', ''button''} {''a'', ''button''} n"
  using assms
proof (induction n arbitrary: c i)
  case (El t as ns)
  define h where "h = (if t = ''Button'' then ''button'' else host t)"
  have child: "fits (if as_child t as then c else inside c h) (if as_child t as then i else i \<and> h \<notin> {''a'', ''button''}) m"
    if "m \<in> set ns" for m
    using El.prems that by (auto simp: h_def Let_def list_all_iff split: if_splits)
  have para: "\<not> occurs (set block_tags) m" if "m \<in> set ns" "\<not> as_child t as" "h \<in> {''p'', ''h1'', ''h2'', ''h3'', ''pre''}" for m
  proof -
    have "inside c h = Phrasing" using that(3) by (auto simp: inside_def)
    then show ?thesis using child [OF that(1)] that(2) phrasing_no_blocks by simp
  qed
  have link: "\<not> occurs {''a'', ''button''} m" if "m \<in> set ns" "\<not> as_child t as" "h \<in> {''a'', ''button''}" for m
    using child [OF that(1)] that(2,3) quiet_no_links by auto
  have "\<not> nested {''p'', ''h1'', ''h2'', ''h3'', ''pre''} (set block_tags) m \<and> \<not> nested {''a'', ''button''} {''a'', ''button''} m"
    if "m \<in> set ns" for m
    using El.IH [OF that] child [OF that] by blast
  then show ?case using para link by (auto simp: list_ex_iff h_def)
qed simp

section \<open>Headings, anchors and keys\<close>

text \<open>The headings a page writes itself; those inside the primitives of the component library are not counted.\<close>

definition heading_level :: "string \<Rightarrow> nat option" where
  "heading_level t = map_of [(''h1'', 1), (''h2'', 2), (''h3'', 3)] (host t)"

lemma heading_level_simps [simp]:
  "heading_level ''a'' = None" "heading_level ''article'' = None" "heading_level ''br'' = None"
  "heading_level ''button'' = None" "heading_level ''code'' = None" "heading_level ''dd'' = None"
  "heading_level ''div'' = None" "heading_level ''dl'' = None" "heading_level ''dt'' = None" "heading_level ''em'' = None"
  "heading_level ''h1'' = Some 1" "heading_level ''h2'' = Some 2" "heading_level ''h3'' = Some 3"
  "heading_level ''li'' = None" "heading_level ''ol'' = None" "heading_level ''p'' = None" "heading_level ''pre'' = None"
  "heading_level ''script'' = None" "heading_level ''section'' = None" "heading_level ''span'' = None"
  "heading_level ''strong'' = None" "heading_level ''svg'' = None" "heading_level ''table'' = None"
  "heading_level ''tbody'' = None" "heading_level ''td'' = None" "heading_level ''th'' = None"
  "heading_level ''thead'' = None" "heading_level ''tr'' = None" "heading_level ''ul'' = None" "heading_level ''Link'' = None"
  "heading_level ''ShimmerLink'' = None" "heading_level ''motion.div'' = None" "heading_level ''motion.h1'' = Some 1" "heading_level ''motion.span'' = None"
  "heading_level ''BlurFade'' = None" "heading_level ''Badge'' = None" "heading_level ''CodeBlock'' = None"
  "heading_level ''RepoTree'' = None" "heading_level ''Highlighter'' = None" "heading_level ''AnimatedShinyText'' = None"
  "heading_level ''AnimatedGradientText'' = None" "heading_level ''NumberTicker'' = None"
  "heading_level ''WordRotate'' = None" "heading_level ''Accordion'' = None" "heading_level ''AccordionItem'' = None"
  "heading_level ''AccordionTrigger'' = None" "heading_level ''AccordionContent'' = None" "heading_level ''Tabs'' = None"
  "heading_level ''TabsList'' = None" "heading_level ''TabsTrigger'' = None" "heading_level ''TabsContent'' = None"
  "heading_level ''Card'' = None" "heading_level ''CardHeader'' = None" "heading_level ''CardTitle'' = None"
  "heading_level ''CardContent'' = None" "heading_level ''BorderBeam'' = None" "heading_level ''MagicCard'' = None"
  "heading_level ''GlareHover'' = None" "heading_level ''Marquee'' = None" "heading_level ''Backlight'' = None"
  "heading_level ''Meteors'' = None" "heading_level ''OrbitingCircles'' = None" "heading_level ''Terminal'' = None"
  "heading_level ''AnimatedSpan'' = None" "heading_level ''TypingAnimation'' = None" "heading_level ''FlickeringGrid'' = None"
  "heading_level ''RetroGrid'' = None"
  by (simp_all add: heading_level_def)

lemma icon_level_simps [simp]:
  "heading_level ''ItemIndexContext.Provider'' = None"
  "heading_level ''SequenceContext.Provider'' = None"
  "heading_level ''AnimatePresence'' = None"
  "heading_level ''Button'' = None"
  "heading_level ''AlertTriangle'' = None" "heading_level ''AnimatedBeam'' = None"
  "heading_level ''AnimatedGridPattern'' = None" "heading_level ''ArrowRight'' = None"
  "heading_level ''ArrowRightIcon'' = None" "heading_level ''Boxes'' = None" "heading_level ''BoxesIcon'' = None"
  "heading_level ''BrainCircuit'' = None" "heading_level ''Check'' = None" "heading_level ''CheckCircle2'' = None"
  "heading_level ''ClipboardCheck'' = None" "heading_level ''Clock'' = None" "heading_level ''CloudCog'' = None"
  "heading_level ''Cpu'' = None" "heading_level ''Database'' = None" "heading_level ''DotPattern'' = None"
  "heading_level ''DownloadCloud'' = None" "heading_level ''FileCode2'' = None" "heading_level ''FileWarning'' = None"
  "heading_level ''Gauge'' = None" "heading_level ''Github'' = None" "heading_level ''GraduationCap'' = None"
  "heading_level ''HardDrive'' = None" "heading_level ''HexagonPattern'' = None" "heading_level ''Info'' = None"
  "heading_level ''Layers'' = None" "heading_level ''Layers3'' = None" "heading_level ''LayoutGrid'' = None"
  "heading_level ''Lightbulb'' = None" "heading_level ''Lock'' = None" "heading_level ''Network'' = None"
  "heading_level ''Pin'' = None" "heading_level ''Rocket'' = None" "heading_level ''Route'' = None"
  "heading_level ''ScanSearch'' = None" "heading_level ''Server'' = None" "heading_level ''ServerCrash'' = None"
  "heading_level ''ShieldAlert'' = None" "heading_level ''ShieldCheck'' = None" "heading_level ''ShipWheel'' = None"
  "heading_level ''SlidersHorizontal'' = None" "heading_level ''TerminalIcon'' = None" "heading_level ''TestTube2'' = None"
  "heading_level ''UserCheck'' = None" "heading_level ''Waypoints'' = None" "heading_level ''Workflow'' = None"
  "heading_level ''Wrench'' = None" "heading_level ''X'' = None"
  by (simp_all add: heading_level_def host_def html_tags_def component_roots_def)

fun headings :: "node \<Rightarrow> nat list" where
  "headings (Txt s) = []"
| "headings (El t as ns) = (case heading_level t of Some l \<Rightarrow> [l] | None \<Rightarrow> []) @ concat (map headings ns)"

abbreviation page_headings :: "node list \<Rightarrow> nat list" where
  "page_headings ns \<equiv> concat (map headings ns)"

fun no_skip :: "nat list \<Rightarrow> bool" where
  "no_skip (a # b # ls) = (b \<le> Suc a \<and> no_skip (b # ls))"
| "no_skip ls = True"

text \<open>The page opens with its only top-level heading, and no level is skipped on the way down.\<close>

definition outline_ok :: "nat list \<Rightarrow> bool" where
  "outline_ok ls \<longleftrightarrow> ls \<noteq> [] \<and> hd ls = 1 \<and> 1 \<notin> set (tl ls) \<and> no_skip ls"

fun ids :: "node \<Rightarrow> jstr list" where
  "ids (Txt s) = []"
| "ids (El t as ns) = (case map_of as ''id'' of None \<Rightarrow> [] | Some i \<Rightarrow> [i]) @ concat (map ids ns)"

abbreviation page_ids :: "node list \<Rightarrow> jstr list" where
  "page_ids ns \<equiv> concat (map ids ns)"

abbreviation page_links :: "node list \<Rightarrow> jstr list" where
  "page_links ns \<equiv> concat (map links ns)"

fun keys_ok :: "node \<Rightarrow> bool" where
  "keys_ok (Txt s) = True"
| "keys_ok (El t as ns) = (distinct (child_keys ns) \<and> list_all keys_ok ns)"

lemma child_keys_simps [simp]:
  "child_keys [] = []" "child_keys (Txt s # ns) = child_keys ns"
  "child_keys (El t as ms # ns) = (case map_of as ''key'' of None \<Rightarrow> [] | Some k \<Rightarrow> [k]) @ child_keys ns"
  "child_keys (ms @ ns) = child_keys ms @ child_keys ns"
  by (simp_all add: child_keys_def)

lemma child_keys_single [simp]: "distinct (child_keys [n])"
  by (cases n) (auto split: option.splits)

lemma enumerate_keys: "map (digits \<circ> fst) (enumerate k xs) = map digits [k..<k + length xs]" "distinct (map digits [k..<l])"
proof -
  have "map (digits \<circ> fst) (enumerate k xs) = map digits (map fst (enumerate k xs))" by (rule map_map [symmetric])
  then show "map (digits \<circ> fst) (enumerate k xs) = map digits [k..<k + length xs]" by (simp only: map_fst_enumerate)
  show "distinct (map digits [k..<l])" by (simp add: distinct_map inj_on_def)
qed

section \<open>Listings\<close>

definition language_of :: "jstr \<Rightarrow> Language option" where
  "language_of s = map_of [(js ''yaml'', Yaml), (js ''bash'', Bash), (js ''shell'', Shell), (js ''go'', Go), (js ''json'', Json),
     (js ''text'', LText)] s"

text \<open>The properties a \<open>CodeBlock\<close> element is given; \<open>None\<close> if the language is none of those it declares.\<close>

definition listing_props :: "(string \<times> jstr) list \<Rightarrow> CodeBlockProps option" where
  "listing_props as =
     (case (map_of as ''code'', Option.bind (map_of as ''language'') language_of) of
        (Some code, Some l) \<Rightarrow> Some ((code_props code)\<lparr>cb_language := l, cb_filename := map_of as ''filename'',
          cb_className := map_of as ''className''\<rparr>)
      | _ \<Rightarrow> None)"

definition page_listings :: "node list \<Rightarrow> CodeBlockProps option list" where
  "page_listings ns = map (\<lambda>n. listing_props (attrs n)) (concat (map (find_all ''CodeBlock'') ns))"

definition listings_ok :: "node list \<Rightarrow> bool" where
  "listings_ok ns \<longleftrightarrow> list_all (\<lambda>p. p \<noteq> None) (page_listings ns)"

section \<open>A page of the site\<close>

text \<open>
  The addresses of the repository that the pages mention: those of the configuration, and the list
  of tasks, whose address the overview of the documentation writes out (\<open>app/docs/page.tsx\<close>).
\<close>

definition repository_urls :: "jstr option \<Rightarrow> jstr set" where
  "repository_urls env = external_urls env \<union> {js ''https://github.com/taosher/KubeCell/blob/main/TODOS.md''}"

text \<open>What it takes to evaluate the contract below on a page.\<close>

lemmas page_eval = js_eq_append outline_ok_def as_child_def fragments_def listings_ok_def page_listings_def listing_props_def language_of_def site_paths_eq docs_eval
  repository_urls_def external_urls_def projectLinks_def siteConfig_def prose_def callout_def callout_styles_def section_node_def
  sectionHeading_def pageHero_def jsonLd_def

text \<open>
  The contract of a page: where it says it is, what its elements are and what it links to.
  \<open>anchors\<close> are the addresses with a fragment it relies on.
\<close>

locale page_core =
  fixes env :: "jstr option" and here :: jstr and anchors :: "jstr set" and content :: "node list"
  assumes route: "here \<in> site_paths"
    and anchored: "distinct (page_ids content)"
    and keyed: "list_all keys_ok content"
    and linked: "set (page_links content) \<subseteq> site_paths \<union> anchors \<union> repository_urls env"
    and new_tabs: "list_all safe_targets content"
    and listed: "listings_ok content"
begin

lemma listings_render:
  assumes "p \<in> set (page_listings content)"
  shows "\<exists>q rows n. p = Some q \<and> codeBlock cn q = Some n \<and> listing_shown q rows n"
proof -
  obtain q where "p = Some q" using assms listed by (auto simp: listings_ok_def list_all_iff)
  then show ?thesis using listing_exists by blast
qed

end

text \<open>A page whose elements are also nested as the content model demands, under a single title.\<close>

locale site_page = page_core +
  assumes nesting: "list_all (fits Flow True) content"
    and outline: "outline_ok (page_headings content)"
    and main_free: "js ''main'' \<notin> set (page_ids content)"
begin

lemma sound:
  assumes "n \<in> set content"
  shows "\<not> nested {''p'', ''h1'', ''h2'', ''h3'', ''pre''} (set block_tags) n" "\<not> nested {''a'', ''button''} {''a'', ''button''} n"
  using nesting assms fits_nested by (auto simp: list_all_iff)

lemma one_title: "count_list (page_headings content) 1 = 1"
proof -
  obtain ls where "page_headings content = 1 # ls" "1 \<notin> set ls"
    using outline by (cases "page_headings content") (auto simp: outline_ok_def)
  then show ?thesis by (simp add: count_list_0_iff)
qed

end

end
