(* ===== verification/Particles.thy ===== *)
theory Particles
  imports Vdom Complex_Main
begin

text \<open>
  The particle background, \<open>website/components/magicui/particles.tsx\<close>. Numbers are real
  numbers; \<open>staticity\<close> and \<open>ease\<close> are divisors and meant to be different from zero. The
  results of \<open>Math.random()\<close> are a parameter, the sequence \<open>rnd\<close> of numbers of which the
  state counts how many are used. The calls on the drawing context are recorded in \<open>ops\<close>.
\<close>

section \<open>Colours\<close>

definition hex_value :: "nat \<Rightarrow> nat option" where
  "hex_value c =
     (if 48 \<le> c \<and> c \<le> 57 then Some (c - 48)
      else if 97 \<le> c \<and> c \<le> 102 then Some (c - 87)
      else if 65 \<le> c \<and> c \<le> 70 then Some (c - 55) else None)"

fun hex_digits :: "nat \<Rightarrow> jstr \<Rightarrow> nat" where
  "hex_digits n [] = n"
| "hex_digits n (c # s) = (case hex_value c of Some d \<Rightarrow> hex_digits (16 * n + d) s | None \<Rightarrow> n)"

text \<open>\<open>parseInt(s, 16)\<close>: white space, a sign and a prefix \<open>0x\<close> are skipped; \<open>None\<close> is \<open>NaN\<close>.\<close>

definition parseInt16 :: "jstr \<Rightarrow> int option" where
  "parseInt16 s =
     (let t = dropWhile is_ws s;
          neg = (t \<noteq> [] \<and> hd t = 45);
          u = (if t \<noteq> [] \<and> (hd t = 45 \<or> hd t = 43) then tl t else t);
          v = (if length u \<ge> 2 \<and> u ! 0 = 48 \<and> (u ! 1 = 120 \<or> u ! 1 = 88) then drop 2 u else u) in
      if v \<noteq> [] \<and> hex_value (hd v) \<noteq> None
      then Some (if neg then - int (hex_digits 0 v) else int (hex_digits 0 v)) else None)"

text \<open>\<open>s.replace("#", "")\<close> removes the first mark.\<close>

definition drop_hash :: "jstr \<Rightarrow> jstr" where
  "drop_hash = remove1 35"

text \<open>\<open>(n >> k) & 255\<close> with the conversion of \<open>NaN\<close> to zero; byte \<open>k\<close> of the two's complement.\<close>

definition byte_at :: "nat \<Rightarrow> int option \<Rightarrow> int" where
  "byte_at k n = (case n of Some i \<Rightarrow> (i div 2 ^ k) mod 256 | None \<Rightarrow> 0)"

definition hexToRgb :: "jstr \<Rightarrow> int list" where
  "hexToRgb hex0 =
     (let h = drop_hash hex0;
          hex = (if length h = 3 then concat (map (\<lambda>c. [c, c]) h) else h);
          hexInt = parseInt16 hex in
      [byte_at 16 hexInt, byte_at 8 hexInt, byte_at 0 hexInt])"

section \<open>State\<close>

record circle =
  c_x :: real
  c_y :: real
  translateX :: real
  translateY :: real
  c_size :: real
  alpha :: real
  targetAlpha :: real
  c_dx :: real
  c_dy :: real
  magnetism :: real

record particles_props =
  pp_className :: jstr
  quantity :: nat
  staticity :: real
  ease :: real
  p_size :: real
  p_color :: jstr
  p_vx :: real
  p_vy :: real

definition particles_default :: particles_props where
  "particles_default = \<lparr>pp_className = [], quantity = 100, staticity = 50, ease = 50, p_size = 4/10,
     p_color = js ''#ffffff'', p_vx = 0, p_vy = 0\<rparr>"

datatype canvas_op = Translate real real | BeginPath | Arc real real real | FillStyle "int list" real | Fill
  | SetTransform real | Scale real | ClearRect real real | SetSize real real

record particles_state =
  has_context :: bool
  circles :: "circle list"
  canvasSize :: "real \<times> real"
  mouse :: "real \<times> real"
  dpr :: real
  used :: nat
  ops :: "canvas_op list"
  raf :: bool
  resizeTimer :: bool

section \<open>Operations\<close>

text \<open>\<open>parseFloat(x.toFixed(k))\<close> of a number that is not negative.\<close>

definition round_to :: "nat \<Rightarrow> real \<Rightarrow> real" where
  "round_to k x = of_int \<lfloor>x * 10 ^ k + 1/2\<rfloor> / 10 ^ k"

text \<open>\<open>circleParams\<close> draws seven random numbers, in the order of the source.\<close>

definition circleParams :: "(nat \<Rightarrow> real) \<Rightarrow> particles_props \<Rightarrow> particles_state \<Rightarrow> circle \<times> particles_state" where
  "circleParams rnd p s =
     (let n = used s in
      (\<lparr>c_x = of_int \<lfloor>rnd n * fst (canvasSize s)\<rfloor>, c_y = of_int \<lfloor>rnd (n + 1) * snd (canvasSize s)\<rfloor>,
        translateX = 0, translateY = 0, c_size = of_int \<lfloor>rnd (n + 2) * 2\<rfloor> + p_size p, alpha = 0,
        targetAlpha = round_to 1 (rnd (n + 3) * (6/10) + 1/10),
        c_dx = (rnd (n + 4) - 1/2) * (1/10), c_dy = (rnd (n + 5) - 1/2) * (1/10),
        magnetism = 1/10 + rnd (n + 6) * 4\<rparr>,
       s\<lparr>used := n + 7\<rparr>))"

definition drawCircle :: "particles_props \<Rightarrow> circle \<Rightarrow> bool \<Rightarrow> particles_state \<Rightarrow> particles_state" where
  "drawCircle p c update s =
     (if has_context s
      then s\<lparr>ops := ops s @ [Translate (translateX c) (translateY c), BeginPath, Arc (c_x c) (c_y c) (c_size c),
               FillStyle (hexToRgb (p_color p)) (alpha c), Fill, SetTransform (dpr s)],
             circles := (if update then circles s else circles s @ [c])\<rparr>
      else s)"

definition new_circle :: "(nat \<Rightarrow> real) \<Rightarrow> particles_props \<Rightarrow> particles_state \<Rightarrow> particles_state" where
  "new_circle rnd p s = (let (c, s') = circleParams rnd p s in drawCircle p c False s')"

definition clearContext :: "particles_state \<Rightarrow> particles_state" where
  "clearContext s =
     (if has_context s then s\<lparr>ops := ops s @ [ClearRect (fst (canvasSize s)) (snd (canvasSize s))]\<rparr> else s)"

text \<open>The argument \<open>dims\<close> is the present size of the container.\<close>

definition resizeCanvas ::
  "(nat \<Rightarrow> real) \<Rightarrow> particles_props \<Rightarrow> real \<times> real \<Rightarrow> particles_state \<Rightarrow> particles_state" where
  "resizeCanvas rnd p dims s =
     (if has_context s
      then (new_circle rnd p ^^ quantity p)
             (s\<lparr>canvasSize := dims, ops := ops s @ [SetSize (fst dims * dpr s) (snd dims * dpr s), Scale (dpr s)], circles := []\<rparr>)
      else s)"

definition drawParticles :: "(nat \<Rightarrow> real) \<Rightarrow> particles_props \<Rightarrow> particles_state \<Rightarrow> particles_state" where
  "drawParticles rnd p s = (new_circle rnd p ^^ quantity p) (clearContext s)"

definition initCanvas ::
  "(nat \<Rightarrow> real) \<Rightarrow> particles_props \<Rightarrow> real \<times> real \<Rightarrow> particles_state \<Rightarrow> particles_state" where
  "initCanvas rnd p dims s = drawParticles rnd p (resizeCanvas rnd p dims s)"

definition onMouseMove :: "real \<times> real \<Rightarrow> real \<times> real \<Rightarrow> particles_state \<Rightarrow> particles_state" where
  "onMouseMove mousePosition rect s =
     (let (w, h) = canvasSize s;
          x = fst mousePosition - fst rect - w / 2;
          y = snd mousePosition - snd rect - h / 2;
          inside = (x < w / 2 \<and> x > - w / 2 \<and> y < h / 2 \<and> y > - h / 2) in
      if inside then s\<lparr>mouse := (x, y)\<rparr> else s)"

definition remapValue :: "real \<Rightarrow> real \<Rightarrow> real \<Rightarrow> real \<Rightarrow> real \<Rightarrow> real" where
  "remapValue value start1 end1 start2 end2 =
     (let remapped = ((value - start1) * (end2 - start2)) / (end1 - start1) + start2 in
      if remapped > 0 then remapped else 0)"

definition closestEdge :: "real \<times> real \<Rightarrow> circle \<Rightarrow> real" where
  "closestEdge dims c =
     min (min (min (c_x c + translateX c - c_size c) (fst dims - c_x c - translateX c - c_size c))
       (c_y c + translateY c - c_size c)) (snd dims - c_y c - translateY c - c_size c)"

definition next_alpha :: "real \<times> real \<Rightarrow> circle \<Rightarrow> real" where
  "next_alpha dims c =
     (let remapClosestEdge = round_to 2 (remapValue (closestEdge dims c) 0 20 0 1) in
      if remapClosestEdge > 1
      then (if alpha c + 2/100 > targetAlpha c then targetAlpha c else alpha c + 2/100)
      else targetAlpha c * remapClosestEdge)"

definition move_circle :: "particles_props \<Rightarrow> particles_state \<Rightarrow> circle \<Rightarrow> circle" where
  "move_circle p s c =
     c\<lparr>alpha := next_alpha (canvasSize s) c,
       c_x := c_x c + (c_dx c + p_vx p),
       c_y := c_y c + (c_dy c + p_vy p),
       translateX := translateX c + (fst (mouse s) / (staticity p / magnetism c) - translateX c) / ease p,
       translateY := translateY c + (snd (mouse s) / (staticity p / magnetism c) - translateY c) / ease p\<rparr>"

definition outside :: "real \<times> real \<Rightarrow> circle \<Rightarrow> bool" where
  "outside dims c \<longleftrightarrow>
     c_x c < - c_size c \<or> c_x c > fst dims + c_size c \<or> c_y c < - c_size c \<or> c_y c > snd dims + c_size c"

text \<open>
  The callback of \<open>circles.current.forEach\<close> at index \<open>i\<close> of the array as it is then; the
  indices range over the length the array had at the start of the loop.
\<close>

definition animate_index :: "(nat \<Rightarrow> real) \<Rightarrow> particles_props \<Rightarrow> particles_state \<Rightarrow> nat \<Rightarrow> particles_state" where
  "animate_index rnd p s i =
     (if i < length (circles s)
      then (let c = move_circle p s (circles s ! i);
                s1 = drawCircle p c True (s\<lparr>circles := (circles s)[i := c]\<rparr>) in
            if outside (canvasSize s) c
            then new_circle rnd p (s1\<lparr>circles := take i (circles s1) @ drop (i + 1) (circles s1)\<rparr>)
            else s1)
      else s)"

definition animate :: "(nat \<Rightarrow> real) \<Rightarrow> particles_props \<Rightarrow> particles_state \<Rightarrow> particles_state" where
  "animate rnd p s =
     (let s1 = clearContext s in
      (foldl (animate_index rnd p) s1 [0..<length (circles s1)])\<lparr>raf := True\<rparr>)"

text \<open>The first render: the three effects run in the order of the source.\<close>

definition particles_mount ::
  "(nat \<Rightarrow> real) \<Rightarrow> particles_props \<Rightarrow> bool \<Rightarrow> real \<Rightarrow> real \<times> real \<Rightarrow> real \<times> real \<Rightarrow> particles_state" where
  "particles_mount rnd p ctx ratio dims rect =
     initCanvas rnd p dims (onMouseMove (0, 0) rect (animate rnd p (initCanvas rnd p dims
       \<lparr>has_context = ctx, circles = [], canvasSize = (0, 0), mouse = (0, 0), dpr = ratio, used = 0, ops = [],
        raf = False, resizeTimer = False\<rparr>)))"

definition particles_unmount :: "particles_state \<Rightarrow> particles_state" where
  "particles_unmount s = s\<lparr>raf := False, resizeTimer := False\<rparr>"

definition particles_init :: "(nat \<Rightarrow> real) \<Rightarrow> particles_props \<Rightarrow> particles_state \<Rightarrow> bool" where
  "particles_init rnd p s \<longleftrightarrow> (\<exists>ctx ratio dims rect. s = particles_mount rnd p ctx ratio dims rect)"

inductive particles_step :: "(nat \<Rightarrow> real) \<Rightarrow> particles_props \<Rightarrow> particles_state \<Rightarrow> particles_state \<Rightarrow> bool"
  for rnd p where
  particles_frame: "raf s \<Longrightarrow> particles_step rnd p s (animate rnd p (s\<lparr>raf := False\<rparr>))"
| particles_resize: "particles_step rnd p s (s\<lparr>resizeTimer := True\<rparr>)"
| particles_timer: "resizeTimer s \<Longrightarrow> particles_step rnd p s (initCanvas rnd p dims (s\<lparr>resizeTimer := False\<rparr>))"
| particles_refresh: "particles_step rnd p s (initCanvas rnd p dims s)"
| particles_mouse: "particles_step rnd p s (onMouseMove pos rect s)"
| particles_leave: "particles_step rnd p s (particles_unmount s)"

definition particles :: "class_fn \<Rightarrow> particles_props \<Rightarrow> node" where
  "particles cn p = El ''div''
     [(''className'', cn [Some (js ''pointer-events-none''), Some (pp_className p)]), att ''aria-hidden'' ''true'']
     [El ''canvas'' [cls ''size-full''] []]"

section \<open>Invariant\<close>

definition random_ok :: "(nat \<Rightarrow> real) \<Rightarrow> bool" where
  "random_ok rnd \<longleftrightarrow> (\<forall>n. 0 \<le> rnd n \<and> rnd n < 1)"

definition circle_ok :: "circle \<Rightarrow> bool" where
  "circle_ok c \<longleftrightarrow> 0 \<le> alpha c \<and> alpha c \<le> targetAlpha c \<and> 1/10 \<le> targetAlpha c \<and> targetAlpha c \<le> 7/10"

text \<open>
  A context has exactly \<open>2 * quantity\<close> circles, no context none, and every circle is at
  most as opaque as its target.
\<close>

definition particles_inv :: "(nat \<Rightarrow> real) \<Rightarrow> particles_props \<Rightarrow> particles_state \<Rightarrow> bool" where
  "particles_inv rnd p s \<longleftrightarrow>
     length (circles s) = (if has_context s then 2 * quantity p else 0) \<and>
     (random_ok rnd \<longrightarrow> (\<forall>c\<in>set (circles s). circle_ok c))"

lemma round_to_bounds:
  assumes "of_int a / 10 ^ k \<le> x" and "x \<le> of_int b / 10 ^ k"
  shows "of_int a / 10 ^ k \<le> round_to k x" "round_to k x \<le> of_int b / 10 ^ k"
proof -
  have "of_int a \<le> x * 10 ^ k" "x * 10 ^ k \<le> of_int b" using assms by (simp_all add: field_simps)
  then have "a \<le> \<lfloor>x * 10 ^ k + 1/2\<rfloor>" "\<lfloor>x * 10 ^ k + 1/2\<rfloor> \<le> b" by linarith+
  then show "of_int a / 10 ^ k \<le> round_to k x" "round_to k x \<le> of_int b / 10 ^ k"
    unfolding round_to_def by (simp_all add: divide_right_mono)
qed

lemma new_target:
  assumes "random_ok rnd"
  shows "1/10 \<le> round_to 1 (rnd n * (6/10) + 1/10)" "round_to 1 (rnd n * (6/10) + 1/10) \<le> 7/10"
proof -
  have "0 \<le> rnd n" "rnd n < 1" using assms by (simp_all add: random_ok_def)
  then show "1/10 \<le> round_to 1 (rnd n * (6/10) + 1/10)" "round_to 1 (rnd n * (6/10) + 1/10) \<le> 7/10"
    using round_to_bounds [of 1 1 "rnd n * (6/10) + 1/10" 7] by simp_all
qed

lemma remap_nonneg: "0 \<le> round_to 2 (remapValue v 0 20 0 1)"
  by (simp add: round_to_def remapValue_def Let_def)

lemma move_circle_ok: "circle_ok c \<Longrightarrow> circle_ok (move_circle p s c)"
  using remap_nonneg [of "closestEdge (canvasSize s) c"]
  by (auto simp: circle_ok_def move_circle_def next_alpha_def Let_def mult_left_le)

lemma drawCircle_simps [simp]:
  "has_context (drawCircle p c u s) = has_context s"
  "circles (drawCircle p c u s) = (if has_context s \<and> \<not> u then circles s @ [c] else circles s)"
  by (simp_all add: drawCircle_def)

lemma new_circle_context [simp]: "has_context (new_circle rnd p s) = has_context s"
  by (simp add: new_circle_def circleParams_def Let_def)

lemma circleParams_ok: "random_ok rnd \<Longrightarrow> circle_ok (fst (circleParams rnd p s))"
  using new_target [of rnd "used s + 3"] order_trans [of 0 "1/10"]
  unfolding circleParams_def Let_def circle_ok_def by (simp only: fst_conv circle.simps) auto

lemma new_circle_circles:
  "\<exists>c. (random_ok rnd \<longrightarrow> circle_ok c) \<and>
     circles (new_circle rnd p s) = (if has_context s then circles s @ [c] else circles s)"
  by (rule exI [of _ "fst (circleParams rnd p s)"])
    (simp add: circleParams_ok, simp add: new_circle_def circleParams_def Let_def)

lemma clearContext_simps [simp]:
  "has_context (clearContext s) = has_context s" "circles (clearContext s) = circles s"
  by (simp_all add: clearContext_def)

text \<open>Adding \<open>n\<close> circles.\<close>

lemma new_circles:
  "has_context ((new_circle rnd p ^^ n) s) = has_context s \<and>
   (\<exists>cs. length cs = n \<and> (random_ok rnd \<longrightarrow> (\<forall>c\<in>set cs. circle_ok c)) \<and>
      circles ((new_circle rnd p ^^ n) s) = (if has_context s then circles s @ cs else circles s))"
proof (induction n)
  case 0
  then show ?case by simp
next
  case (Suc n)
  then obtain cs where cs: "length cs = n" "random_ok rnd \<longrightarrow> (\<forall>c\<in>set cs. circle_ok c)"
    "circles ((new_circle rnd p ^^ n) s) = (if has_context s then circles s @ cs else circles s)" by auto
  obtain c where c: "random_ok rnd \<longrightarrow> circle_ok c"
    "circles (new_circle rnd p ((new_circle rnd p ^^ n) s)) =
      (if has_context s then circles ((new_circle rnd p ^^ n) s) @ [c] else circles ((new_circle rnd p ^^ n) s))"
    using new_circle_circles [of rnd p "(new_circle rnd p ^^ n) s"] Suc by auto
  show ?case using Suc cs c by (intro conjI exI [of _ "cs @ [c]"]) auto
qed

lemma initCanvas_context [simp]: "has_context (initCanvas rnd p dims s) = has_context s"
  using new_circles [where rnd = rnd and p = p and n = "quantity p"] by (simp add: initCanvas_def drawParticles_def resizeCanvas_def)

lemma initCanvas_inv: "has_context s \<or> circles s = [] \<Longrightarrow> particles_inv rnd p (initCanvas rnd p dims s)"
proof (cases "has_context s")
  case True
  let ?s = "s\<lparr>canvasSize := dims, ops := ops s @ [SetSize (fst dims * dpr s) (snd dims * dpr s), Scale (dpr s)], circles := []\<rparr>"
  let ?r = "(new_circle rnd p ^^ quantity p) ?s"
  obtain cs where cs: "has_context ?r" "length cs = quantity p" "random_ok rnd \<longrightarrow> (\<forall>c\<in>set cs. circle_ok c)" "circles ?r = cs"
    using new_circles [where rnd = rnd and p = p and n = "quantity p" and s = ?s] True by auto
  obtain ds where "length ds = quantity p" "random_ok rnd \<longrightarrow> (\<forall>c\<in>set ds. circle_ok c)"
    "circles ((new_circle rnd p ^^ quantity p) (clearContext ?r)) = cs @ ds"
    using new_circles [where rnd = rnd and p = p and n = "quantity p" and s = "clearContext ?r"] cs by auto
  then have "length (circles (initCanvas rnd p dims s)) = 2 * quantity p"
    "random_ok rnd \<longrightarrow> (\<forall>c\<in>set (circles (initCanvas rnd p dims s)). circle_ok c)"
    using True cs by (auto simp: initCanvas_def drawParticles_def resizeCanvas_def)
  then show ?thesis using True by (simp add: particles_inv_def)
next
  case False
  moreover assume "has_context s \<or> circles s = []"
  ultimately show ?thesis
    using new_circles [where rnd = rnd and p = p and n = "quantity p" and s = "clearContext s"]
    by (auto simp: particles_inv_def initCanvas_def drawParticles_def resizeCanvas_def)
qed

lemma particles_inv_cong: "circles t = circles s \<Longrightarrow> has_context t = has_context s \<Longrightarrow> particles_inv rnd p s \<Longrightarrow> particles_inv rnd p t"
  by (simp add: particles_inv_def)

lemma animate_index_inv:
  assumes "particles_inv rnd p s" shows "particles_inv rnd p (animate_index rnd p s i)"
proof (cases "i < length (circles s)")
  case False
  then show ?thesis using assms by (simp add: animate_index_def)
next
  case True
  let ?c = "move_circle p s (circles s ! i)"
  let ?s1 = "drawCircle p ?c True (s\<lparr>circles := (circles s)[i := ?c]\<rparr>)"
  have ctx: "has_context s" using True assms by (auto simp: particles_inv_def split: if_splits)
  have ok: "random_ok rnd \<longrightarrow> (\<forall>c\<in>set ((circles s)[i := ?c]). circle_ok c)"
    using assms True by (auto simp: particles_inv_def move_circle_ok dest!: set_update_subset_insert [THEN subsetD])
  show ?thesis
  proof (cases "outside (canvasSize s) ?c")
    case False
    then show ?thesis using True assms ok by (simp add: animate_index_def particles_inv_def Let_def)
  next
    case out: True
    let ?s2 = "?s1\<lparr>circles := take i (circles ?s1) @ drop (i + 1) (circles ?s1)\<rparr>"
    obtain c where c: "random_ok rnd \<longrightarrow> circle_ok c" "circles (new_circle rnd p ?s2) = circles ?s2 @ [c]"
      using new_circle_circles [of rnd p ?s2] ctx by auto
    have "set (take i cs @ drop (i + 1) cs) \<subseteq> set cs" for cs :: "circle list"
      by (auto dest: in_set_takeD in_set_dropD)
    from this [of "(circles s)[i := ?c]"] have "set (circles ?s2) \<subseteq> set ((circles s)[i := ?c])"
      by simp
    then have "random_ok rnd \<longrightarrow> (\<forall>c\<in>set (circles (new_circle rnd p ?s2)). circle_ok c)"
      using ok c by (auto simp del: take_update_swap)
    moreover have "length (circles (new_circle rnd p ?s2)) = length (circles s)" using c True by simp
    moreover have "animate_index rnd p s i = new_circle rnd p ?s2" using True out by (simp add: animate_index_def Let_def)
    ultimately show ?thesis using assms ctx by (simp add: particles_inv_def)
  qed
qed

lemma animate_inv: "particles_inv rnd p s \<Longrightarrow> particles_inv rnd p (animate rnd p s)"
proof -
  assume "particles_inv rnd p s"
  then have "particles_inv rnd p (clearContext s)" by (simp add: particles_inv_def)
  then have "particles_inv rnd p (foldl (animate_index rnd p) (clearContext s) is)" for "is"
    by (induction "is" rule: rev_induct) (simp_all add: animate_index_inv)
  then show ?thesis by (simp add: animate_def Let_def) (simp add: particles_inv_def)
qed

lemma onMouseMove_simps [simp]:
  "circles (onMouseMove pos rect s) = circles s" "has_context (onMouseMove pos rect s) = has_context s"
  by (simp_all add: onMouseMove_def Let_def split_beta)

lemma particles_inv_start: "particles_inv rnd p s \<Longrightarrow> has_context s \<or> circles s = []"
  by (auto simp: particles_inv_def split: if_splits)

interpretation particles: component "particles_init rnd p" "particles_step rnd p" "particles_inv rnd p" for rnd p
proof
  show "particles_inv rnd p s" if start: "particles_init rnd p s" for s
  proof -
    obtain ctx ratio dims rect where "s = particles_mount rnd p ctx ratio dims rect"
      using start unfolding particles_init_def by blast
    moreover have "particles_inv rnd p (animate rnd p (initCanvas rnd p dims
        \<lparr>has_context = ctx, circles = [], canvasSize = (0, 0), mouse = (0, 0), dpr = ratio, used = 0, ops = [],
         raf = False, resizeTimer = False\<rparr>))"
      by (intro animate_inv initCanvas_inv) simp
    ultimately show ?thesis unfolding particles_mount_def
      by (auto intro!: initCanvas_inv dest: particles_inv_start)
  qed
  show "particles_inv rnd p t" if "particles_inv rnd p s" "particles_step rnd p s t" for s t
    using that(2,1)
  proof (induction rule: particles_step.induct)
    case (particles_frame s)
    then show ?case by (intro animate_inv) (simp add: particles_inv_def)
  next
    case (particles_timer s dims)
    then show ?case by (intro initCanvas_inv) (auto dest: particles_inv_start)
  next
    case (particles_refresh s dims)
    then show ?case by (intro initCanvas_inv) (auto dest: particles_inv_start)
  qed (auto simp: particles_inv_def particles_unmount_def)
qed

section \<open>Colours and their digits\<close>

definition hex_char :: "nat \<Rightarrow> nat" where
  "hex_char n = (if n < 10 then 48 + n else 87 + n)"

definition hex_byte :: "nat \<Rightarrow> jstr" where
  "hex_byte b = [hex_char (b div 16), hex_char (b mod 16)]"

lemma hex_value_char [simp]: "n < 16 \<Longrightarrow> hex_value (hex_char n) = Some n"
  by (auto simp: hex_value_def hex_char_def)

lemma hex_char_special: "n < 16 \<Longrightarrow> hex_char n \<notin> {35, 43, 45, 88, 120} \<and> \<not> is_ws (hex_char n)"
  by (auto simp: hex_char_def is_ws_def)

lemma parse_six:
  assumes "list_all (\<lambda>n. n < 16) [a, b, c, d, e, f]"
  shows "parseInt16 (map hex_char [a, b, c, d, e, f]) =
    Some (int (16 * (16 * (16 * (16 * (16 * a + b) + c) + d) + e) + f))"
  using assms hex_char_special [of a] hex_char_special [of b] by (simp add: parseInt16_def Let_def)

lemma drop_hash_six:
  assumes "list_all (\<lambda>n. n < 16) ns"
  shows "drop_hash (35 # map hex_char ns) = map hex_char ns"
  by (simp add: drop_hash_def)

lemma byte_at_six:
  assumes "list_all (\<lambda>n. n < 16) [a, b, c, d, e, f]"
  defines "n \<equiv> Some (int (16 * (16 * (16 * (16 * (16 * a + b) + c) + d) + e) + f))"
  shows "byte_at 16 n = int (16 * a + b)" "byte_at 8 n = int (16 * c + d)" "byte_at 0 n = int (16 * e + f)"
proof -
  define x y z where "x = int (16 * a + b)" and "y = int (16 * c + d)" and "z = int (16 * e + f)"
  have lt: "0 \<le> x" "x < 256" "0 \<le> y" "y < 256" "0 \<le> z" "z < 256"
    using assms(1) by (auto simp: x_def y_def z_def)
  have n: "n = Some ((x * 256 + y) * 256 + z)" by (simp add: n_def x_def y_def z_def)
  have "((x * 256 + y) * 256 + z) div 65536 = x"
    by (rule int_div_pos_eq [where r = "y * 256 + z"]) (use lt in auto)
  moreover have "((x * 256 + y) * 256 + z) div 256 = x * 256 + y"
    by (rule int_div_pos_eq [where r = z]) (use lt in auto)
  moreover have "((x * 256 + y) * 256 + z) mod 256 = z"
    by (rule int_mod_pos_eq [where q = "x * 256 + y"]) (use lt in auto)
  ultimately show "byte_at 16 n = int (16 * a + b)" "byte_at 8 n = int (16 * c + d)" "byte_at 0 n = int (16 * e + f)"
    unfolding n byte_at_def x_def [symmetric] y_def [symmetric] z_def [symmetric] using lt by simp_all
qed

section \<open>Properties of the particles\<close>

text \<open>
  In every reachable state a canvas with a drawing context holds exactly twice the
  requested number of circles, since \<open>resizeCanvas\<close> and \<open>drawParticles\<close> both create them, and
  animation frames keep that number; if random numbers lie in \<open>[0, 1)\<close>, no circle is ever
  more opaque than its target, which is at most \<open>0.7\<close>.
\<close>

theorem particles_count_and_opacity:
  assumes "reach (particles_init rnd p) (particles_step rnd p) s" and "\<And>n. 0 \<le> rnd n \<and> rnd n < 1"
  shows "length (circles s) = (if has_context s then 2 * quantity p else 0) \<and>
    list_all (\<lambda>c. 0 \<le> alpha c \<and> alpha c \<le> targetAlpha c \<and> targetAlpha c \<le> 7/10) (circles s)"
proof -
  have "particles_inv rnd p s" using assms(1) by (rule particles.always)
  moreover have "random_ok rnd" using assms(2) by (simp add: random_ok_def)
  ultimately show ?thesis by (auto simp: particles_inv_def circle_ok_def list_all_iff)
qed

theorem particles_count_and_opacity_witness:
  "length (circles (particles_mount (\<lambda>_. 1/2) particles_default True 2 (800, 600) (0, 0))) = 200"
proof -
  let ?s = "particles_mount (\<lambda>_. 1/2) particles_default True 2 (800, 600) (0, 0)"
  have r: "reach (particles_init (\<lambda>_. 1/2) particles_default) (particles_step (\<lambda>_. 1/2) particles_default) ?s"
    unfolding particles_init_def by (rule reach_init) blast
  have "has_context ((foldl (animate_index rnd p) s is)) = has_context s" for rnd p s "is"
    by (induction "is" rule: rev_induct) (simp_all add: animate_index_def Let_def)
  then have "has_context ?s" by (simp add: particles_mount_def animate_def Let_def)
  then show ?thesis using particles_count_and_opacity [OF r] by (simp add: particles_default_def)
qed

text \<open>
  Colours are read exactly: \<open>hexToRgb\<close> turns \<open>#rrggbb\<close> into its three bytes and \<open>#rgb\<close>
  into the bytes with repeated digits, and its results are bytes for every string.
\<close>

theorem hexToRgb_roundtrip:
  assumes "r < 256" and "g < 256" and "b < 256" and "x < 16" and "y < 16" and "z < 16"
  shows "hexToRgb (35 # hex_byte r @ hex_byte g @ hex_byte b) = [int r, int g, int b] \<and>
    hexToRgb (35 # map hex_char [x, y, z]) = [17 * int x, 17 * int y, 17 * int z] \<and>
    list_all (\<lambda>v. 0 \<le> v \<and> v < 256) (hexToRgb s)"
proof -
  let ?ns = "[r div 16, r mod 16, g div 16, g mod 16, b div 16, b mod 16]"
  have long: "list_all (\<lambda>n. n < 16) ?ns" using assms by auto
  have "35 # hex_byte r @ hex_byte g @ hex_byte b = 35 # map hex_char ?ns" by (simp add: hex_byte_def)
  then have "hexToRgb (35 # hex_byte r @ hex_byte g @ hex_byte b) = [int r, int g, int b]"
    using drop_hash_six [OF long] parse_six [OF long] byte_at_six [OF long] by (simp add: hexToRgb_def Let_def)
  moreover have short: "list_all (\<lambda>n. n < 16) [x, x, y, y, z, z]" using assms by simp
  have "hexToRgb (35 # map hex_char [x, y, z]) = [17 * int x, 17 * int y, 17 * int z]"
    using drop_hash_six [of "[x, y, z]"] parse_six [OF short] byte_at_six [OF short] assms
    by (simp add: hexToRgb_def Let_def)
  moreover have "list_all (\<lambda>v. 0 \<le> v \<and> v < 256) (hexToRgb s)"
    by (auto simp: hexToRgb_def byte_at_def Let_def split: option.splits)
  ultimately show ?thesis by blast
qed

theorem hexToRgb_roundtrip_witness:
  "hexToRgb (35 # hex_byte 56 @ hex_byte 189 @ hex_byte 248) = [56, 189, 248]"
  using hexToRgb_roundtrip [of 56 189 248 1 2 3] by simp

end
