(* ===== verification/Pointer_Effects.thy ===== *)
theory Pointer_Effects
  imports Particles
begin

text \<open>
  The widgets of \<open>components/magicui\<close> that follow the pointer, the page layout or the view:
  \<open>magic-card.tsx\<close>, \<open>glare-hover.tsx\<close>, \<open>animated-beam.tsx\<close> and \<open>highlighter.tsx\<close>. Numbers are
  real numbers and \<open>num\<close> is their text. Springs and motion values of the animation library are
  represented by the values they are set to.
\<close>

section \<open>magic-card.tsx\<close>

datatype card_mode = GradientMode | OrbMode

datatype ResetReason = Enter | Leave | Global | Init

record card_props =
  k_children :: "node list"
  k_className :: "jstr option"
  gradientSize :: real
  gradientFrom :: jstr
  gradientTo :: jstr
  card_mode :: card_mode
  gradientColor :: jstr
  gradientOpacity :: real
  p_glowFrom :: "jstr option"
  p_glowTo :: "jstr option"
  p_glowAngle :: "real option"
  p_glowSize :: "real option"
  p_glowBlur :: "real option"
  p_glowOpacity :: "real option"

definition card_default :: card_props where
  "card_default = \<lparr>k_children = [], k_className = None, gradientSize = 200, gradientFrom = js ''#9E7AFF'',
     gradientTo = js ''#FE8BBB'', card_mode = GradientMode, gradientColor = js ''#262626'', gradientOpacity = 8/10,
     p_glowFrom = None, p_glowTo = None, p_glowAngle = None, p_glowSize = None, p_glowBlur = None, p_glowOpacity = None\<rparr>"

definition isOrbMode :: "card_props \<Rightarrow> bool" where
  "isOrbMode p \<longleftrightarrow> card_mode p = OrbMode"

definition orb_value :: "card_props \<Rightarrow> 'a option \<Rightarrow> 'a \<Rightarrow> 'a" where
  "orb_value p v d = (if isOrbMode p then (case v of Some x \<Rightarrow> x | None \<Rightarrow> d) else d)"

definition glowOpacity :: "card_props \<Rightarrow> real" where
  "glowOpacity p = orb_value p (p_glowOpacity p) (9/10)"

text \<open>The themes are those \<open>next-themes\<close> reports; before mounting the dark one is assumed.\<close>

definition isDarkTheme :: "bool \<Rightarrow> jstr option \<Rightarrow> jstr option \<Rightarrow> bool" where
  "isDarkTheme mounted theme systemTheme \<longleftrightarrow>
     \<not> mounted \<or> (if theme = Some (js ''system'') then systemTheme else theme) = Some (js ''dark'')"

record card_state =
  k_props :: card_props
  k_mounted :: bool
  mouseX :: real
  mouseY :: real
  orbVisible :: real
  modeRef :: card_mode
  glowOpacityRef :: real
  gradientSizeRef :: real

definition reset :: "ResetReason \<Rightarrow> card_state \<Rightarrow> card_state" where
  "reset reason s =
     (if modeRef s = OrbMode then s\<lparr>orbVisible := (if reason = Enter then glowOpacityRef s else 0)\<rparr>
      else s\<lparr>mouseX := - gradientSizeRef s, mouseY := - gradientSizeRef s\<rparr>)"

text \<open>A pointer at \<open>(x, y)\<close> over a card whose left upper corner is at \<open>(left, top)\<close>.\<close>

definition handlePointerMove :: "real \<times> real \<Rightarrow> real \<times> real \<Rightarrow> card_state \<Rightarrow> card_state" where
  "handlePointerMove pointer corner s = s\<lparr>mouseX := fst pointer - fst corner, mouseY := snd pointer - snd corner\<rparr>"

definition handleGlobalPointerOut :: "bool \<Rightarrow> card_state \<Rightarrow> card_state" where
  "handleGlobalPointerOut relatedTarget s = (if \<not> relatedTarget then reset Global s else s)"

definition handleVisibility :: "bool \<Rightarrow> card_state \<Rightarrow> card_state" where
  "handleVisibility visible s = (if \<not> visible then reset Global s else s)"

text \<open>
  The three effects that keep the references up to date. They run with the rendering that changes the
  properties, in one step.
\<close>

definition sync_refs :: "card_state \<Rightarrow> card_state" where
  "sync_refs s = s\<lparr>modeRef := card_mode (k_props s), glowOpacityRef := glowOpacity (k_props s),
     gradientSizeRef := gradientSize (k_props s)\<rparr>"

text \<open>
  The hooks a rendering calls, in their order. React compares the calls of two renderings and
  throws when their numbers differ; the second \<open>useMotionTemplate\<close> is only called in gradient
  mode.
\<close>

definition card_hooks :: "card_props \<Rightarrow> string list" where
  "card_hooks p =
     [''useTheme'', ''useState'', ''useEffect'', ''useMemo'', ''useMotionValue'', ''useMotionValue'', ''useSpring'',
      ''useSpring'', ''useSpring'', ''useRef'', ''useRef'', ''useRef'', ''useEffect'', ''useEffect'', ''useEffect'',
      ''useCallback'', ''useCallback'', ''useEffect'', ''useEffect'', ''useMotionTemplate''] @
     (if card_mode p = GradientMode then [''useMotionTemplate''] else [])"

definition card_rerender :: "card_props \<Rightarrow> card_state \<Rightarrow> card_state option" where
  "card_rerender p s =
     (if card_hooks p = card_hooks (k_props s) then Some (sync_refs (s\<lparr>k_props := p\<rparr>)) else None)"

definition card_mount :: "card_props \<Rightarrow> card_state" where
  "card_mount p = reset Init (sync_refs
     \<lparr>k_props = p, k_mounted = True, mouseX = - gradientSize p, mouseY = - gradientSize p, orbVisible = 0,
      modeRef = card_mode p, glowOpacityRef = glowOpacity p, gradientSizeRef = gradientSize p\<rparr>)"

inductive card_step :: "card_state \<Rightarrow> card_state \<Rightarrow> bool" where
  card_move: "card_step s (handlePointerMove pointer corner s)"
| card_leave: "card_step s (reset Leave s)"
| card_enter: "card_step s (reset Enter s)"
| card_out: "card_step s (handleGlobalPointerOut relatedTarget s)"
| card_blur: "card_step s (reset Global s)"
| card_visibility: "card_step s (handleVisibility visible s)"
| card_render: "card_rerender p s = Some t \<Longrightarrow> card_step s t"

definition card_init :: "card_state \<Rightarrow> bool" where
  "card_init s \<longleftrightarrow> (\<exists>p. s = card_mount p)"

definition magicCard :: "class_fn \<Rightarrow> (real \<Rightarrow> jstr) \<Rightarrow> jstr option \<Rightarrow> jstr option \<Rightarrow> card_state \<Rightarrow> node" where
  "magicCard cn num theme systemTheme s =
     (let p = k_props s;
          circle = js ''radial-gradient('' @ num (gradientSize p) @ js ''px circle at '' @ num (mouseX s) @ js ''px '' @
            num (mouseY s) @ js ''px, '' in
      El ''motion.div''
        [(''className'', cn [Some (js ''group relative isolate overflow-hidden rounded-[inherit] border border-transparent''),
            k_className p]),
         (''style.background'', js ''linear-gradient(var(--color-background) 0 0) padding-box, '' @ circle @
            gradientFrom p @ js '', '' @ gradientTo p @ js '', var(--color-border) 100%) border-box'')]
        ([El ''div'' [cls ''bg-background absolute inset-px z-20 rounded-[inherit]''] []] @
         (if card_mode p = GradientMode
          then [El ''motion.div''
             [cls ''pointer-events-none absolute inset-px z-30 rounded-[inherit] opacity-0 transition-opacity duration-300 group-hover:opacity-100'',
              (''style.background'', circle @ gradientColor p @ js '', transparent 100%)''),
              (''style.opacity'', num (gradientOpacity p))] []]
          else []) @
         (if card_mode p = OrbMode
          then [El ''motion.div''
             [att ''aria-hidden'' ''true'', cls ''pointer-events-none absolute z-30'',
              (''style.width'', num (orb_value p (p_glowSize p) 420)), (''style.height'', num (orb_value p (p_glowSize p) 420)),
              (''style.x'', num (mouseX s)), (''style.y'', num (mouseY s)),
              att ''style.translateX'' ''-50%'', att ''style.translateY'' ''-50%'', att ''style.borderRadius'' ''9999'',
              (''style.filter'', js ''blur('' @ num (orb_value p (p_glowBlur p) 60) @ js ''px)''),
              (''style.opacity'', num (orbVisible s)),
              (''style.background'', js ''linear-gradient('' @ num (orb_value p (p_glowAngle p) 90) @ js ''deg, '' @
                 orb_value p (p_glowFrom p) (js ''#ee4f27'') @ js '', '' @ orb_value p (p_glowTo p) (js ''#6b21ef'') @ js '')''),
              (''style.mixBlendMode'', if isDarkTheme (k_mounted s) theme systemTheme then js ''screen'' else js ''multiply''),
              att ''style.willChange'' ''transform, opacity''] []]
          else []) @
         [El ''div'' [cls ''relative z-40''] (k_children p)]))"

section \<open>glare-hover.tsx\<close>

text \<open>The test \<open>/^[0-9A-Fa-f]{n}$/\<close>.\<close>

definition hex_of_length :: "nat \<Rightarrow> jstr \<Rightarrow> bool" where
  "hex_of_length n s \<longleftrightarrow> length s = n \<and> list_all (\<lambda>c. hex_value c \<noteq> None) s"

definition parse_part :: "jstr \<Rightarrow> jstr" where
  "parse_part h = (case parseInt16 h of Some n \<Rightarrow> (if n < 0 then js ''-'' else []) @ digits (nat \<bar>n\<bar>) | None \<Rightarrow> js ''NaN'')"

definition rgba :: "jstr \<Rightarrow> jstr \<Rightarrow> jstr \<Rightarrow> jstr \<Rightarrow> jstr" where
  "rgba r g b a = js ''rgba('' @ r @ js '','' @ g @ js '','' @ b @ js '','' @ a @ js '')''"

definition parseHEX :: "(real \<Rightarrow> jstr) \<Rightarrow> jstr \<Rightarrow> real \<Rightarrow> jstr" where
  "parseHEX num color opacity =
     (let hex = drop_hash color in
      if hex_of_length 6 hex
      then rgba (parse_part (slice hex 0 2)) (parse_part (slice hex 2 4)) (parse_part (slice hex 4 6)) (num opacity)
      else if hex_of_length 3 hex
      then rgba (parse_part [hex ! 0, hex ! 0]) (parse_part [hex ! 1, hex ! 1]) (parse_part [hex ! 2, hex ! 2]) (num opacity)
      else color)"

record glare_props =
  gl_width :: "jstr option"
  gl_height :: "jstr option"
  gl_background :: jstr
  gl_color :: jstr
  gl_opacity :: real
  gl_angle :: real
  gl_size :: real
  gl_duration :: real
  playOnce :: bool
  gl_className :: "jstr option"
  gl_style :: "(string \<times> jstr) list"
  gl_children :: "node list"

definition glare_default :: "node list \<Rightarrow> glare_props" where
  "glare_default ns = \<lparr>gl_width = None, gl_height = None, gl_background = js ''#000'', gl_color = js ''#ffffff'',
     gl_opacity = 1/2, gl_angle = -45, gl_size = 250, gl_duration = 650, playOnce = False, gl_className = None,
     gl_style = [], gl_children = ns\<rparr>"

text \<open>Spreading into an object: later entries replace earlier ones of the same name.\<close>

definition spread :: "(string \<times> 'a) list \<Rightarrow> (string \<times> 'a) list \<Rightarrow> (string \<times> 'a) list" where
  "spread a b = filter (\<lambda>(k, v). k \<notin> fst ` set b) a @ b"

definition cssVars :: "(real \<Rightarrow> jstr) \<Rightarrow> glare_props \<Rightarrow> (string \<times> jstr) list" where
  "cssVars num p = fold (\<lambda>b a. spread a b)
     [gl_style p, (case gl_width p of Some w \<Rightarrow> [(''width'', w)] | None \<Rightarrow> []),
      (case gl_height p of Some h \<Rightarrow> [(''height'', h)] | None \<Rightarrow> [])]
     [(''--gh-angle'', num (gl_angle p) @ js ''deg''), (''--gh-duration'', num (gl_duration p) @ js ''ms''),
      (''--gh-size'', num (gl_size p) @ js ''%''), (''--gh-rgba'', parseHEX num (gl_color p) (gl_opacity p)),
      (''background'', gl_background p)]"

definition glareHover :: "class_fn \<Rightarrow> (real \<Rightarrow> jstr) \<Rightarrow> glare_props \<Rightarrow> node" where
  "glareHover cn num p = El ''div''
     ((''className'', cn
         [Some (js ''relative grid size-fit cursor-pointer place-items-center overflow-hidden bg-transparent''),
          Some (js ''before:pointer-events-none before:absolute before:inset-0 before:z-10 before:bg-no-repeat before:content-['' @ [39, 39] @ js '']''),
          Some (js ''before:[background-image:linear-gradient(var(--gh-angle),transparent_60%,var(--gh-rgba)_70%,transparent,transparent_100%)]''),
          Some (js ''before:[background-size:var(--gh-size)_var(--gh-size),100%_100%]''),
          Some (js ''before:[background-position:-100%_-100%,0_0]''),
          (if \<not> playOnce p
           then Some (js ''before:transition-[background-position] before:duration-[var(--gh-duration)] before:ease-in-out'') else None),
          (if playOnce p
           then Some (js ''before:transition-none hover:before:transition-[background-position] hover:before:duration-[var(--gh-duration)]'')
           else None),
          Some (js ''hover:before:[background-position:100%_100%,0_0]''),
          gl_className p]) #
      map (\<lambda>(k, v). (''style.'' @ k, v)) (cssVars num p)) (gl_children p)"

section \<open>animated-beam.tsx\<close>

record rect =
  left :: real
  top :: real
  rect_width :: real
  rect_height :: real

record beam_props =
  b_className :: "jstr option"
  curvature :: real
  b_reverse :: bool
  pathColor :: jstr
  pathWidth :: real
  pathOpacity :: real
  gradientStartColor :: jstr
  gradientStopColor :: jstr
  b_delay :: real
  b_duration :: real
  b_repeat :: "real option"
  b_repeatDelay :: real
  startXOffset :: real
  startYOffset :: real
  endXOffset :: real
  endYOffset :: real

text \<open>No number of repetitions is \<open>Infinity\<close>.\<close>

definition beam_default :: beam_props where
  "beam_default = \<lparr>b_className = None, curvature = 0, b_reverse = False, pathColor = js ''gray'', pathWidth = 2,
     pathOpacity = 2/10, gradientStartColor = js ''#ffaa40'', gradientStopColor = js ''#9c40ff'', b_delay = 0, b_duration = 5,
     b_repeat = None, b_repeatDelay = 0, startXOffset = 0, startYOffset = 0, endXOffset = 0, endYOffset = 0\<rparr>"

record beam_state =
  pathD :: jstr
  svgDimensions :: "real \<times> real"

definition beam_point :: "rect \<Rightarrow> rect \<Rightarrow> real \<Rightarrow> real \<Rightarrow> real \<times> real" where
  "beam_point container r dx dy =
     (left r - left container + rect_width r / 2 + dx, top r - top container + rect_height r / 2 + dy)"

definition beam_path :: "(real \<Rightarrow> jstr) \<Rightarrow> beam_props \<Rightarrow> rect \<Rightarrow> rect \<Rightarrow> rect \<Rightarrow> jstr" where
  "beam_path num p container rectA rectB =
     (let (startX, startY) = beam_point container rectA (startXOffset p) (startYOffset p);
          (endX, endY) = beam_point container rectB (endXOffset p) (endYOffset p);
          controlY = startY - curvature p in
      js ''M '' @ num startX @ js '','' @ num startY @ js '' Q '' @ num ((startX + endX) / 2) @ js '','' @ num controlY @
      js '' '' @ num endX @ js '','' @ num endY)"

text \<open>The rectangles of the three elements, as far as they exist.\<close>

definition updatePath ::
  "(real \<Rightarrow> jstr) \<Rightarrow> beam_props \<Rightarrow> rect option \<Rightarrow> rect option \<Rightarrow> rect option \<Rightarrow> beam_state \<Rightarrow> beam_state" where
  "updatePath num p container from_rect to_rect s =
     (case (container, from_rect, to_rect) of
        (Some c, Some a, Some b) \<Rightarrow> s\<lparr>svgDimensions := (rect_width c, rect_height c), pathD := beam_path num p c a b\<rparr>
      | _ \<Rightarrow> s)"

definition gradientCoordinates :: "beam_props \<Rightarrow> (string \<times> jstr) list" where
  "gradientCoordinates p =
     (if b_reverse p
      then [att ''animate.x1'' ''90%,-10%'', att ''animate.x2'' ''100%,0%'', att ''animate.y1'' ''0%,0%'', att ''animate.y2'' ''0%,0%'']
      else [att ''animate.x1'' ''10%,110%'', att ''animate.x2'' ''0%,100%'', att ''animate.y1'' ''0%,0%'', att ''animate.y2'' ''0%,0%''])"

definition animatedBeam :: "class_fn \<Rightarrow> (real \<Rightarrow> jstr) \<Rightarrow> jstr \<Rightarrow> beam_props \<Rightarrow> beam_state \<Rightarrow> node" where
  "animatedBeam cn num uid p s =
     (let (w, h) = svgDimensions s in
      El ''svg''
        [att ''fill'' ''none'', (''width'', num w), (''height'', num h), att ''xmlns'' ''http://www.w3.org/2000/svg'',
         (''className'', cn [Some (js ''pointer-events-none absolute top-0 left-0 transform-gpu stroke-2''), b_className p]),
         (''viewBox'', js ''0 0 '' @ num w @ js '' '' @ num h)]
        [El ''path'' [(''d'', pathD s), (''stroke'', pathColor p), (''strokeWidth'', num (pathWidth p)),
           (''strokeOpacity'', num (pathOpacity p)), att ''strokeLinecap'' ''round''] [],
         El ''path'' [(''d'', pathD s), (''strokeWidth'', num (pathWidth p)), (''stroke'', js ''url(#'' @ uid @ js '')''),
           att ''strokeOpacity'' ''1'', att ''strokeLinecap'' ''round''] [],
         El ''defs'' []
           [El ''motion.linearGradient''
              ([cls ''transform-gpu'', (''id'', uid), att ''gradientUnits'' ''userSpaceOnUse'',
                att ''initial.x1'' ''0%'', att ''initial.x2'' ''0%'', att ''initial.y1'' ''0%'', att ''initial.y2'' ''0%''] @
               gradientCoordinates p @
               [(''transition.delay'', num (b_delay p)), (''transition.duration'', num (b_duration p)),
                att ''transition.ease'' ''[0.16, 1, 0.3, 1]'',
                (''transition.repeat'', case b_repeat p of Some n \<Rightarrow> num n | None \<Rightarrow> js ''Infinity''),
                (''transition.repeatDelay'', num (b_repeatDelay p))])
              [El ''stop'' [(''stopColor'', gradientStartColor p), att ''stopOpacity'' ''0''] [],
               El ''stop'' [(''stopColor'', gradientStartColor p)] [],
               El ''stop'' [att ''offset'' ''32.5%'', (''stopColor'', gradientStopColor p)] [],
               El ''stop'' [att ''offset'' ''100%'', (''stopColor'', gradientStopColor p), att ''stopOpacity'' ''0''] []]]])"

section \<open>highlighter.tsx\<close>

datatype annotation_action = Highlight | Underline | Box | Circle | StrikeThrough | CrossedOff | Bracket

record annotation_config =
  an_type :: annotation_action
  an_color :: jstr
  an_strokeWidth :: real
  an_animationDuration :: real
  an_iterations :: nat
  an_padding :: real
  an_multiline :: bool

definition annotation_default :: annotation_config where
  "annotation_default = \<lparr>an_type = Highlight, an_color = js ''#ffd1dc'', an_strokeWidth = 3/2, an_animationDuration = 600,
     an_iterations = 2, an_padding = 2, an_multiline = True\<rparr>"

text \<open>The calls of the annotation library, with the number of the annotation they are about.\<close>

datatype annotation_call = Annotate nat annotation_config | Show nat | Hide nat | Remove nat

record highlighter_state =
  h_mounted :: bool
  h_config :: annotation_config
  h_isView :: bool
  h_inView :: bool
  annotation :: "nat option"
  h_observing :: bool
  h_count :: nat
  h_calls :: "annotation_call list"

definition shouldShow :: "highlighter_state \<Rightarrow> bool" where
  "shouldShow s \<longleftrightarrow> \<not> h_isView s \<or> h_inView s"

definition highlighter_effect :: "highlighter_state \<Rightarrow> highlighter_state" where
  "highlighter_effect s =
     (if shouldShow s
      then s\<lparr>annotation := Some (h_count s), h_observing := True, h_count := h_count s + 1,
        h_calls := h_calls s @ [Annotate (h_count s) (h_config s), Show (h_count s)]\<rparr>
      else s\<lparr>annotation := None, h_observing := False\<rparr>)"

definition highlighter_cleanup :: "highlighter_state \<Rightarrow> highlighter_state" where
  "highlighter_cleanup s =
     (case annotation s of
        Some a \<Rightarrow> s\<lparr>annotation := None, h_observing := False, h_calls := h_calls s @ [Remove a]\<rparr>
      | None \<Rightarrow> s\<lparr>h_observing := False\<rparr>)"

definition highlighter_resize :: "highlighter_state \<Rightarrow> highlighter_state" where
  "highlighter_resize s = (case annotation s of Some a \<Rightarrow> s\<lparr>h_calls := h_calls s @ [Hide a, Show a]\<rparr> | None \<Rightarrow> s)"

definition highlighter_init :: "highlighter_state \<Rightarrow> bool" where
  "highlighter_init s \<longleftrightarrow> (\<exists>config isView. s = highlighter_effect
     \<lparr>h_mounted = True, h_config = config, h_isView = isView, h_inView = False, annotation = None, h_observing = False,
      h_count = 0, h_calls = []\<rparr>)"

text \<open>The effect runs again when what it depends on has changed.\<close>

definition highlighter_rerender :: "highlighter_state \<Rightarrow> highlighter_state \<Rightarrow> highlighter_state" where
  "highlighter_rerender s t =
     (if shouldShow t = shouldShow s \<and> h_config t = h_config s then t else highlighter_effect (highlighter_cleanup t))"

inductive highlighter_step :: "highlighter_state \<Rightarrow> highlighter_state \<Rightarrow> bool" where
  highlighter_view: "h_mounted s \<Longrightarrow> \<not> h_inView s \<Longrightarrow> highlighter_step s (highlighter_rerender s (s\<lparr>h_inView := True\<rparr>))"
| highlighter_props: "h_mounted s \<Longrightarrow>
    highlighter_step s (highlighter_rerender s (s\<lparr>h_config := config, h_isView := isView\<rparr>))"
| highlighter_resized: "h_observing s \<Longrightarrow> highlighter_step s (highlighter_resize s)"
| highlighter_unmount: "h_mounted s \<Longrightarrow> highlighter_step s (highlighter_cleanup s\<lparr>h_mounted := False\<rparr>)"

definition highlighter :: "node list \<Rightarrow> node" where
  "highlighter children = El ''span'' [cls ''relative inline-block bg-transparent''] children"

section \<open>The card is dark when the pointer is away\<close>

definition card_inv :: "card_state \<Rightarrow> bool" where
  "card_inv s \<longleftrightarrow> modeRef s = card_mode (k_props s) \<and> glowOpacityRef s = glowOpacity (k_props s) \<and>
     gradientSizeRef s = gradientSize (k_props s)"

lemma card_inv_simps [simp]:
  "card_inv (reset r s) = card_inv s" "card_inv (sync_refs s)"
  "card_inv (handlePointerMove x c s) = card_inv s" "k_props (reset r s) = k_props s"
  by (simp_all add: card_inv_def reset_def sync_refs_def handlePointerMove_def)

interpretation card: component card_init card_step card_inv
proof
  fix s
  assume "card_init s"
  then show "card_inv s" by (auto simp: card_init_def card_mount_def)
next
  fix s t
  assume "card_inv s" and "card_step s t"
  from this(2,1) show "card_inv t"
    by cases (auto simp: handleGlobalPointerOut_def handleVisibility_def card_rerender_def split: if_splits)
qed

text \<open>A circle of radius \<open>r\<close> around \<open>(-r, -r)\<close> does not reach the quadrant of the card.\<close>

lemma circle_outside:
  fixes r x y :: real
  assumes "0 < r" "0 \<le> x" "0 \<le> y"
  shows "r\<^sup>2 < (x - - r)\<^sup>2 + (y - - r)\<^sup>2"
proof -
  have "r\<^sup>2 \<le> (x + r)\<^sup>2" "r\<^sup>2 \<le> (y + r)\<^sup>2" using assms by (auto intro: power_mono)
  moreover have "0 < r\<^sup>2" using assms by simp
  ultimately have "r\<^sup>2 < (x + r)\<^sup>2 + (y + r)\<^sup>2" by linarith
  then show ?thesis by simp
qed

text \<open>
  C38. The card is dark when the pointer is away: whatever happened before, changed properties
  included, a reset other than entering leaves the orb invisible or the circle of light outside
  the card, entering shows the orb with the current opacity, and a rendering fails in React
  exactly if it changes the mode.
\<close>

theorem magic_card_dark:
  assumes "reach card_init card_step s" and "reason \<noteq> Enter" and "0 < gradientSize (k_props s)"
  shows "(if isOrbMode (k_props s) then orbVisible (reset reason s) = 0 \<and> orbVisible (reset Enter s) = glowOpacity (k_props s)
      else (\<forall>x y. 0 \<le> x \<and> 0 \<le> y \<longrightarrow>
        (gradientSize (k_props s))\<^sup>2 < (x - mouseX (reset reason s))\<^sup>2 + (y - mouseY (reset reason s))\<^sup>2)) \<and>
    (card_rerender p s = None \<longleftrightarrow> card_mode p \<noteq> card_mode (k_props s))"
proof -
  have "card_inv s" using assms(1) by (rule card.always)
  moreover have "card_hooks p = card_hooks q \<longleftrightarrow> card_mode p = card_mode q" for p q
    by (cases "card_mode p"; cases "card_mode q") (simp_all add: card_hooks_def)
  ultimately show ?thesis
    using assms(2,3) circle_outside [OF assms(3)]
    by (auto simp: card_inv_def reset_def isOrbMode_def card_rerender_def)
qed

theorem magic_card_dark_witness:
  "orbVisible (reset Leave (card_mount (card_default\<lparr>card_mode := OrbMode\<rparr>))) = 0"
proof -
  let ?s = "card_mount (card_default\<lparr>card_mode := OrbMode\<rparr>)"
  have "reach card_init card_step ?s" by (rule reach_init) (auto simp: card_init_def)
  moreover have "k_props ?s = card_default\<lparr>card_mode := OrbMode\<rparr>" by (simp add: card_mount_def sync_refs_def)
  ultimately show ?thesis using magic_card_dark [of ?s Leave] by (simp add: card_default_def isOrbMode_def)
qed

section \<open>Colours agree\<close>

lemma hex_value_less: "hex_value c = Some n \<Longrightarrow> n < 16"
  by (auto simp: hex_value_def split: if_splits)

lemma hex_value_special: "hex_value c = Some n \<Longrightarrow> \<not> is_ws c \<and> c \<noteq> 45 \<and> c \<noteq> 43 \<and> c \<noteq> 120 \<and> c \<noteq> 88"
  by (auto simp: hex_value_def is_ws_def split: if_splits)

lemma parseInt16_hex:
  assumes "list_all (\<lambda>c. hex_value c \<noteq> None) s" and "s \<noteq> []"
  shows "parseInt16 s = Some (int (hex_digits 0 s))"
proof -
  obtain c t where s: "s = c # t" using assms(2) by (cases s) auto
  with assms(1) obtain n where c: "hex_value c = Some n" by auto
  have "\<not> (length s \<ge> 2 \<and> s ! 0 = 48 \<and> (s ! 1 = 120 \<or> s ! 1 = 88))"
  proof
    assume l: "length s \<ge> 2 \<and> s ! 0 = 48 \<and> (s ! 1 = 120 \<or> s ! 1 = 88)"
    then have "hex_value (s ! 1) \<noteq> None" using assms(1) by (auto simp: list_all_length)
    with l hex_value_special [of "s ! 1"] show False by auto
  qed
  then show ?thesis using s c hex_value_special [OF c] by (auto simp: parseInt16_def Let_def)
qed

lemma list_of_length_6: "length s = 6 \<Longrightarrow> \<exists>a b c d e f. s = [a, b, c, d, e, f]"
  by (auto simp: numeral_eq_Suc length_Suc_conv)

lemma list_of_length_3: "length s = 3 \<Longrightarrow> \<exists>a b c. s = [a, b, c]"
  by (auto simp: numeral_eq_Suc length_Suc_conv)

lemma parse_two:
  assumes "hex_value a = Some m" "hex_value b = Some n"
  shows "parse_part [a, b] = digits (16 * m + n)"
proof -
  have "parseInt16 [a, b] = Some (int (16 * m + n))"
    using parseInt16_hex [of "[a, b]"] assms by simp
  then show ?thesis unfolding parse_part_def by (simp only: option.case nat_int abs_of_nat of_nat_less_0_iff if_False append_Nil)
qed

lemma hexToRgb_six:
  assumes v: "hex_value a = Some a'" "hex_value b = Some b'" "hex_value c = Some c'" "hex_value d = Some d'"
      "hex_value e = Some e'" "hex_value f = Some f'"
  defines "h \<equiv> parseInt16 [a, b, c, d, e, f]"
  shows "[byte_at 16 h, byte_at 8 h, byte_at 0 h] = map int [16 * a' + b', 16 * c' + d', 16 * e' + f']"
proof -
  have "h = Some (int (16 * (16 * (16 * (16 * (16 * a' + b') + c') + d') + e') + f'))"
    using parseInt16_hex [of "[a, b, c, d, e, f]"] v unfolding h_def by simp
  moreover have "list_all (\<lambda>n. n < 16) [a', b', c', d', e', f']" using v by (auto dest: hex_value_less)
  ultimately show ?thesis using byte_at_six by simp
qed

text \<open>
  The two colour parsers of the site agree: for a colour of six or three hexadecimal digits,
  in either case of letters, \<open>parseHEX\<close> of the glare writes the very numbers that \<open>hexToRgb\<close> of
  the particles computes with shifts and masks; every other text it leaves as it is.
\<close>

theorem parseHEX_agrees:
  "parseHEX num color opacity =
     (if hex_of_length 6 (drop_hash color) \<or> hex_of_length 3 (drop_hash color)
      then rgba (digits (nat (hexToRgb color ! 0))) (digits (nat (hexToRgb color ! 1))) (digits (nat (hexToRgb color ! 2)))
        (num opacity)
      else color)"
proof -
  consider (six) "hex_of_length 6 (drop_hash color)" | (three) "hex_of_length 3 (drop_hash color)"
    | (other) "\<not> hex_of_length 6 (drop_hash color)" "\<not> hex_of_length 3 (drop_hash color)" by blast
  then show ?thesis
  proof cases
    case six
    then obtain a b c d e f where h: "drop_hash color = [a, b, c, d, e, f]"
      using list_of_length_6 [of "drop_hash color"] by (auto simp: hex_of_length_def)
    with six obtain a' b' c' d' e' f' where v: "hex_value a = Some a'" "hex_value b = Some b'" "hex_value c = Some c'"
        "hex_value d = Some d'" "hex_value e = Some e'" "hex_value f = Some f'"
      by (auto simp: hex_of_length_def)
    have "hexToRgb color = map int [16 * a' + b', 16 * c' + d', 16 * e' + f']"
      using hexToRgb_six [OF v] by (simp add: hexToRgb_def h Let_def)
    then show ?thesis using six v parse_two
      by (simp add: parseHEX_def h Let_def slice_def nat_add_distrib nat_mult_distrib)
  next
    case three
    then obtain a b c where h: "drop_hash color = [a, b, c]" using list_of_length_3 [of "drop_hash color"] by (auto simp: hex_of_length_def)
    with three obtain a' b' c' where v: "hex_value a = Some a'" "hex_value b = Some b'" "hex_value c = Some c'"
      by (auto simp: hex_of_length_def)
    have "hexToRgb color = map int [16 * a' + a', 16 * b' + b', 16 * c' + c']"
      using hexToRgb_six [OF v(1) v(1) v(2) v(2) v(3) v(3)] by (simp add: hexToRgb_def h Let_def)
    then show ?thesis using three v parse_two
      by (simp add: parseHEX_def h Let_def hex_of_length_def nat_add_distrib nat_mult_distrib)
  next
    case other
    then show ?thesis by (simp add: parseHEX_def Let_def)
  qed
qed

section \<open>The beam follows the layout\<close>

text \<open>
  Scrolling does not change the path: it depends on the positions relative to the container
  only. The path starts and ends at the centres of the two elements, up to the offsets.
\<close>

definition moved :: "real \<Rightarrow> real \<Rightarrow> rect \<Rightarrow> rect" where
  "moved dx dy r = r\<lparr>left := left r + dx, top := top r + dy\<rparr>"

lemma beam_scroll: "beam_path num p (moved dx dy c) (moved dx dy a) (moved dx dy b) = beam_path num p c a b"
  by (simp add: beam_path_def beam_point_def moved_def)

lemma beam_unmeasured:
  "container = None \<or> from_rect = None \<or> to_rect = None \<Longrightarrow> updatePath num p container from_rect to_rect s = s"
  by (auto simp: updatePath_def split: option.splits)

section \<open>Annotations are removed\<close>

text \<open>
  There is an annotation exactly while the text is mounted and to be shown, and every other one
  that was made has been removed.
\<close>

definition highlighter_inv :: "highlighter_state \<Rightarrow> bool" where
  "highlighter_inv s \<longleftrightarrow>
     (annotation s \<noteq> None \<longleftrightarrow> h_mounted s \<and> shouldShow s) \<and> (h_observing s \<longleftrightarrow> annotation s \<noteq> None) \<and>
     (\<forall>a. annotation s = Some a \<longrightarrow> a < h_count s) \<and>
     (\<forall>i. Remove i \<in> set (h_calls s) \<longleftrightarrow> i < h_count s \<and> annotation s \<noteq> Some i)"

lemma highlighter_inv_effect:
  assumes "h_mounted s" "annotation s = None" "\<forall>i. Remove i \<in> set (h_calls s) \<longleftrightarrow> i < h_count s"
  shows "highlighter_inv (highlighter_effect s)"
proof (cases "shouldShow s")
  case True
  then have eff: "highlighter_effect s = s\<lparr>annotation := Some (h_count s), h_observing := True, h_count := h_count s + 1,
      h_calls := h_calls s @ [Annotate (h_count s) (h_config s), Show (h_count s)]\<rparr>"
    by (simp add: highlighter_effect_def)
  have rm: "Remove i \<in> set (h_calls s) \<longleftrightarrow> i < h_count s" for i using assms(3) by blast
  have "shouldShow (highlighter_effect s)" using True by (simp add: eff shouldShow_def)
  moreover have "i < Suc n \<and> n \<noteq> i \<longleftrightarrow> i < n" for i n :: nat by linarith
  ultimately show ?thesis unfolding highlighter_inv_def eff using assms(1) by (simp add: rm)
next
  case False
  then have eff: "highlighter_effect s = s\<lparr>annotation := None, h_observing := False\<rparr>"
    by (simp add: highlighter_effect_def)
  have "Remove i \<in> set (h_calls s) \<longleftrightarrow> i < h_count s" for i using assms(3) by blast
  then show ?thesis unfolding eff highlighter_inv_def using False by (simp add: shouldShow_def)
qed

lemma highlighter_inv_rerender:
  assumes "highlighter_inv s" "h_mounted t" "annotation t = annotation s" "h_count t = h_count s" "h_calls t = h_calls s"
      "h_observing t = h_observing s" "h_mounted s"
  shows "highlighter_inv (highlighter_rerender s t)"
proof (cases "shouldShow t = shouldShow s \<and> h_config t = h_config s")
  case True
  with assms show ?thesis by (simp add: highlighter_rerender_def highlighter_inv_def)
next
  case False
  have "annotation (highlighter_cleanup t) = None \<and> h_mounted (highlighter_cleanup t) \<and>
      (\<forall>i. Remove i \<in> set (h_calls (highlighter_cleanup t)) \<longleftrightarrow> i < h_count (highlighter_cleanup t))"
    using assms by (auto simp: highlighter_inv_def highlighter_cleanup_def split: option.splits)
  then have "highlighter_inv (highlighter_effect (highlighter_cleanup t))" by (intro highlighter_inv_effect) simp_all
  moreover have "highlighter_rerender s t = highlighter_effect (highlighter_cleanup t)"
    unfolding highlighter_rerender_def using False by (rule if_not_P)
  ultimately show ?thesis by simp
qed

interpretation highlighter: component highlighter_init highlighter_step highlighter_inv
proof
  fix s
  assume "highlighter_init s"
  then show "highlighter_inv s" by (auto simp: highlighter_init_def intro: highlighter_inv_effect)
next
  fix s t
  assume inv: "highlighter_inv s" and "highlighter_step s t"
  from this(2) show "highlighter_inv t"
  proof cases
    case highlighter_view
    with inv show ?thesis by (auto intro: highlighter_inv_rerender)
  next
    case highlighter_props
    with inv show ?thesis by (auto intro: highlighter_inv_rerender)
  next
    case highlighter_resized
    with inv show ?thesis by (auto simp: highlighter_inv_def highlighter_resize_def shouldShow_def split: option.splits)
  next
    case highlighter_unmount
    with inv show ?thesis by (auto simp: highlighter_inv_def highlighter_cleanup_def shouldShow_def split: option.splits)
  qed
qed

lemma highlighter_no_leak:
  assumes "reach highlighter_init highlighter_step s" and "\<not> h_mounted s"
  shows "annotation s = None \<and> \<not> h_observing s \<and> (\<forall>i < h_count s. Remove i \<in> set (h_calls s))"
  using highlighter.always [OF assms(1)] assms(2) by (auto simp: highlighter_inv_def)

end
