(* ===== verification/Beam_Life.thy ===== *)
theory Beam_Life
  imports Pointer_Effects
begin

text \<open>
  The life of a beam of \<open>magicui/animated-beam.tsx\<close>: the effect that measures the three elements, the
  observer of the container, and the renderings that run the effect again. The elements stay
  mounted while the beam is; their rectangles change when the container is resized, which the
  observer reports, and scrolling moves them together. A layout that moves a box and leaves the size
  of the container as it is reaches no callback of the code and is not described.
\<close>

record beam_life =
  bl_props :: beam_props
  bl_rects :: "rect \<times> rect \<times> rect"
  bl_state :: beam_state
  bl_observing :: bool

definition beam_update :: "(real \<Rightarrow> jstr) \<Rightarrow> beam_life \<Rightarrow> beam_life" where
  "beam_update num s = (case bl_rects s of (c, a, b) \<Rightarrow>
     s\<lparr>bl_state := updatePath num (bl_props s) (Some c) (Some a) (Some b) (bl_state s)\<rparr>)"

definition beam_effect :: "(real \<Rightarrow> jstr) \<Rightarrow> beam_life \<Rightarrow> beam_life" where
  "beam_effect num s = beam_update num (s\<lparr>bl_observing := True\<rparr>)"

definition beam_cleanup :: "beam_life \<Rightarrow> beam_life" where
  "beam_cleanup s = s\<lparr>bl_observing := False\<rparr>"

text \<open>The properties among the dependencies of the effect.\<close>

definition beam_deps :: "beam_props \<Rightarrow> real list" where
  "beam_deps p = [curvature p, startXOffset p, startYOffset p, endXOffset p, endYOffset p]"

definition beam_rerender :: "(real \<Rightarrow> jstr) \<Rightarrow> beam_props \<Rightarrow> beam_life \<Rightarrow> beam_life" where
  "beam_rerender num p s =
     (if beam_deps p = beam_deps (bl_props s) then s\<lparr>bl_props := p\<rparr>
      else beam_effect num ((beam_cleanup s)\<lparr>bl_props := p\<rparr>))"

definition beam_resize :: "(real \<Rightarrow> jstr) \<Rightarrow> rect \<times> rect \<times> rect \<Rightarrow> beam_life \<Rightarrow> beam_life" where
  "beam_resize num rs s = (if bl_observing s then beam_update num (s\<lparr>bl_rects := rs\<rparr>) else s\<lparr>bl_rects := rs\<rparr>)"

definition beam_scrolled :: "real \<Rightarrow> real \<Rightarrow> beam_life \<Rightarrow> beam_life" where
  "beam_scrolled dx dy s = (case bl_rects s of (c, a, b) \<Rightarrow> s\<lparr>bl_rects := (moved dx dy c, moved dx dy a, moved dx dy b)\<rparr>)"

definition beam_init :: "(real \<Rightarrow> jstr) \<Rightarrow> beam_life \<Rightarrow> bool" where
  "beam_init num s \<longleftrightarrow> (\<exists>p rs. s = beam_effect num
     \<lparr>bl_props = p, bl_rects = rs, bl_state = \<lparr>pathD = [], svgDimensions = (0, 0)\<rparr>, bl_observing = False\<rparr>)"

inductive beam_step :: "(real \<Rightarrow> jstr) \<Rightarrow> beam_life \<Rightarrow> beam_life \<Rightarrow> bool" for num where
  beam_resized: "beam_step num s (beam_resize num rs s)"
| beam_scroll_page: "beam_step num s (beam_scrolled dx dy s)"
| beam_rerendered: "beam_step num s (beam_rerender num p s)"

section \<open>The path is up to date\<close>

lemma beam_path_deps: "beam_deps p = beam_deps q \<Longrightarrow> beam_path num p c a b = beam_path num q c a b"
  by (simp add: beam_deps_def beam_path_def)

definition beam_inv :: "(real \<Rightarrow> jstr) \<Rightarrow> beam_life \<Rightarrow> bool" where
  "beam_inv num s \<longleftrightarrow> bl_observing s \<and> (case bl_rects s of (c, a, b) \<Rightarrow>
     pathD (bl_state s) = beam_path num (bl_props s) c a b \<and> svgDimensions (bl_state s) = (rect_width c, rect_height c))"

lemma beam_update_inv: "bl_observing s \<Longrightarrow> beam_inv num (beam_update num s)"
  by (simp add: beam_inv_def beam_update_def updatePath_def split: prod.splits)

lemma beam_effect_inv: "beam_inv num (beam_effect num s)"
  by (simp add: beam_effect_def beam_update_inv)

lemma beam_step_inv: "beam_step num s t \<Longrightarrow> beam_inv num s \<Longrightarrow> beam_inv num t"
proof (induction rule: beam_step.induct)
  case (beam_resized s rs)
  then show ?case by (simp add: beam_resize_def beam_update_inv beam_inv_def [of num s])
next
  case (beam_scroll_page s dx dy)
  then show ?case by (cases "bl_rects s") (simp add: beam_inv_def beam_scrolled_def beam_scroll, simp add: moved_def)
next
  case (beam_rerendered s p)
  then show ?case
    by (cases "bl_rects s") (auto simp: beam_rerender_def beam_effect_inv, auto simp: beam_inv_def intro: beam_path_deps [symmetric])
qed

interpretation beam_component: component "beam_init num" "beam_step num" "beam_inv num" for num
  by unfold_locales (auto simp: beam_init_def beam_effect_inv intro: beam_step_inv)

text \<open>
  What a path between two boxes is, in the coordinates of the container: it starts at the centre of
  the first box and ends at the centre of the second, each moved by its offsets, and bends towards
  a point half way between them, above the start by the curvature.
\<close>

definition joins :: "(real \<Rightarrow> jstr) \<Rightarrow> beam_props \<Rightarrow> rect \<Rightarrow> rect \<Rightarrow> rect \<Rightarrow> jstr \<Rightarrow> bool" where
  "joins num p c a b d \<longleftrightarrow>
     (\<forall>x y u v. left c + x = left a + rect_width a / 2 + startXOffset p \<and> top c + y = top a + rect_height a / 2 + startYOffset p \<and>
        left c + u = left b + rect_width b / 2 + endXOffset p \<and> top c + v = top b + rect_height b / 2 + endYOffset p \<longrightarrow>
        d = js ''M '' @ num x @ js '','' @ num y @ js '' Q '' @ num ((x + u) / 2) @ js '','' @ num (y - curvature p) @
          js '' '' @ num u @ js '','' @ num v)"

lemma beam_path_joins: "joins num p c a b (beam_path num p c a b)"
  unfolding joins_def
proof (intro allI impI)
  fix x y u v
  assume "left c + x = left a + rect_width a / 2 + startXOffset p \<and> top c + y = top a + rect_height a / 2 + startYOffset p \<and>
    left c + u = left b + rect_width b / 2 + endXOffset p \<and> top c + v = top b + rect_height b / 2 + endYOffset p"
  then have "beam_point c a (startXOffset p) (startYOffset p) = (x, y)" "beam_point c b (endXOffset p) (endYOffset p) = (u, v)"
    by (simp_all add: beam_point_def algebra_simps)
  then show "beam_path num p c a b = js ''M '' @ num x @ js '','' @ num y @ js '' Q '' @ num ((x + u) / 2) @ js '','' @
      num (y - curvature p) @ js '' '' @ num u @ js '','' @ num v"
    by (simp add: beam_path_def)
qed

text \<open>
  However the container is resized, the page is scrolled and the beam is rendered again, the path drawn is the
  one between the present positions of the two elements, in a picture as large as the container.
\<close>

lemma beam_follows_layout:
  assumes "reach (beam_init num) (beam_step num) s" "bl_rects s = (c, a, b)"
  shows "joins num (bl_props s) c a b (pathD (bl_state s)) \<and> svgDimensions (bl_state s) = (rect_width c, rect_height c)"
  using beam_component.always [OF assms(1)] assms(2) beam_path_joins by (simp add: beam_inv_def)

end
