(* ===== verification/Layout_Effects.thy ===== *)
theory Layout_Effects
  imports Vdom Complex_Main
begin

text \<open>
  The widgets of \<open>components/magicui\<close> that compute a layout from their properties:
  \<open>progressive-blur.tsx\<close>, \<open>animated-circular-progress-bar.tsx\<close>, \<open>orbiting-circles.tsx\<close>,
  \<open>text-reveal.tsx\<close>, \<open>meteors.tsx\<close> and \<open>blur-fade.tsx\<close>. Numbers are real numbers and \<open>num\<close> is
  their text; an exception of the language is the left value of a sum.
\<close>

datatype js_error = RangeError jstr | Error jstr

section \<open>progressive-blur.tsx\<close>

datatype blur_position = Top | Bottom | Both

record blur_props =
  pb_className :: "jstr option"
  pb_height :: jstr
  pb_position :: blur_position
  blurLevels :: "real list"

definition blur_default :: blur_props where
  "blur_default = \<lparr>pb_className = None, pb_height = js ''30%'', pb_position = Bottom, blurLevels = [1/2, 1, 2, 4, 8, 16, 32, 64]\<rparr>"

definition position_class :: "blur_position \<Rightarrow> jstr" where
  "position_class q = (case q of Top \<Rightarrow> js ''top-0'' | Bottom \<Rightarrow> js ''bottom-0'' | Both \<Rightarrow> js ''inset-y-0'')"

definition BOTH_MASK :: jstr where
  "BOTH_MASK = js ''linear-gradient(rgba(0,0,0,0) 0%, rgba(0,0,0,1) 5%, rgba(0,0,0,1) 95%, rgba(0,0,0,0) 100%)''"

definition first_mask :: "blur_position \<Rightarrow> jstr" where
  "first_mask q = (case q of
     Bottom \<Rightarrow> js ''linear-gradient(to bottom, rgba(0,0,0,0) 0%, rgba(0,0,0,1) 12.5%, rgba(0,0,0,1) 25%, rgba(0,0,0,0) 37.5%)''
   | Top \<Rightarrow> js ''linear-gradient(to top, rgba(0,0,0,0) 0%, rgba(0,0,0,1) 12.5%, rgba(0,0,0,1) 25%, rgba(0,0,0,0) 37.5%)''
   | Both \<Rightarrow> BOTH_MASK)"

definition last_mask :: "blur_position \<Rightarrow> jstr" where
  "last_mask q = (case q of
     Bottom \<Rightarrow> js ''linear-gradient(to bottom, rgba(0,0,0,0) 87.5%, rgba(0,0,0,1) 100%)''
   | Top \<Rightarrow> js ''linear-gradient(to top, rgba(0,0,0,0) 87.5%, rgba(0,0,0,1) 100%)''
   | Both \<Rightarrow> BOTH_MASK)"

definition maskGradient :: "(real \<Rightarrow> jstr) \<Rightarrow> blur_position \<Rightarrow> nat \<Rightarrow> jstr" where
  "maskGradient num q blurIndex =
     (let startPercent = real blurIndex * (25/2); midPercent = real (blurIndex + 1) * (25/2);
          endPercent = real (blurIndex + 2) * (25/2);
          stops = js ''rgba(0,0,0,0) '' @ num startPercent @ js ''%, rgba(0,0,0,1) '' @ num midPercent @
            js ''%, rgba(0,0,0,1) '' @ num endPercent @ js ''%, rgba(0,0,0,0) '' @ num (endPercent + 25/2) @ js ''%)'' in
      case q of
        Bottom \<Rightarrow> js ''linear-gradient(to bottom, '' @ stops
      | Top \<Rightarrow> js ''linear-gradient(to top, '' @ stops
      | Both \<Rightarrow> BOTH_MASK)"

definition blur_layer :: "(real \<Rightarrow> jstr) \<Rightarrow> nat \<Rightarrow> real \<Rightarrow> jstr \<Rightarrow> (string \<times> jstr) list \<Rightarrow> node" where
  "blur_layer num z level msk key = El ''div''
     (key @ [cls ''absolute inset-0'', (''style.zIndex'', digits z),
       (''style.backdropFilter'', js ''blur('' @ num level @ js ''px)''),
       (''style.WebkitBackdropFilter'', js ''blur('' @ num level @ js ''px)''),
       (''style.maskImage'', msk), (''style.WebkitMaskImage'', msk)]) []"

text \<open>\<open>Array(n)\<close> throws for a negative length.\<close>

definition progressiveBlur :: "class_fn \<Rightarrow> (real \<Rightarrow> jstr) \<Rightarrow> blur_props \<Rightarrow> js_error + node" where
  "progressiveBlur cn num p =
     (let levels = blurLevels p; q = pb_position p in
      if length levels < 2 then Inl (RangeError (js ''Invalid array length''))
      else Inr (El ''div''
        [(''className'', cn [Some (js ''gradient-blur pointer-events-none absolute inset-x-0 z-10''), pb_className p,
            Some (position_class q)]),
         (''style.height'', if q = Both then js ''100%'' else pb_height p)]
        ([blur_layer num 1 (levels ! 0) (first_mask q) []] @
         map (\<lambda>index. blur_layer num (index + 2) (levels ! (index + 1)) (maskGradient num q (index + 1))
           [(''key'', js ''blur-'' @ digits index)]) [0..<length levels - 2] @
         [blur_layer num (length levels) (levels ! (length levels - 1)) (last_mask q) []])))"

section \<open>animated-circular-progress-bar.tsx\<close>

text \<open>A number after rounding: finite, or what a division by zero leaves.\<close>

datatype rounded = Finite int | NaN | PosInfinity | NegInfinity

definition rounded_text :: "rounded \<Rightarrow> jstr" where
  "rounded_text n = (case n of
     Finite i \<Rightarrow> (if i < 0 then js ''-'' else []) @ digits (nat \<bar>i\<bar>)
   | NaN \<Rightarrow> js ''NaN'' | PosInfinity \<Rightarrow> js ''Infinity'' | NegInfinity \<Rightarrow> js ''-Infinity'')"

record bar_props =
  bar_max :: real
  bar_min :: real
  bar_value :: real
  gaugePrimaryColor :: jstr
  gaugeSecondaryColor :: jstr
  bar_className :: "jstr option"

definition bar_default :: "jstr \<Rightarrow> jstr \<Rightarrow> bar_props" where
  "bar_default c d = \<lparr>bar_max = 100, bar_min = 0, bar_value = 0, gaugePrimaryColor = c, gaugeSecondaryColor = d, bar_className = None\<rparr>"

definition circumference :: real where
  "circumference = 2 * pi * 45"

definition currentPercent :: "bar_props \<Rightarrow> rounded" where
  "currentPercent p =
     (if bar_max p = bar_min p
      then (if bar_value p = bar_min p then NaN else if bar_value p > bar_min p then PosInfinity else NegInfinity)
      else Finite \<lfloor>(bar_value p - bar_min p) / (bar_max p - bar_min p) * 100 + 1/2\<rfloor>)"

definition shows_rest :: "rounded \<Rightarrow> bool" where
  "shows_rest n \<longleftrightarrow> (case n of Finite i \<Rightarrow> i \<le> 90 \<and> i \<ge> 0 | _ \<Rightarrow> False)"

definition stroke_percent :: "rounded \<Rightarrow> jstr" where
  "stroke_percent n = (case n of Finite i \<Rightarrow> rounded_text (Finite (90 - i)) | _ \<Rightarrow> [])"

definition bar_circle :: "(string \<times> jstr) list \<Rightarrow> node" where
  "bar_circle style = El ''circle''
     ([att ''cx'' ''50'', att ''cy'' ''50'', att ''r'' ''45'', att ''strokeWidth'' ''10'', att ''strokeDashoffset'' ''0'',
       att ''strokeLinecap'' ''round'', att ''strokeLinejoin'' ''round'', cls ''opacity-100''] @ style) []"

definition animatedCircularProgressBar :: "class_fn \<Rightarrow> (real \<Rightarrow> jstr) \<Rightarrow> bar_props \<Rightarrow> node" where
  "animatedCircularProgressBar cn num p =
     (let percent = currentPercent p in
      El ''div''
        [(''className'', cn [Some (js ''relative size-40 text-2xl font-semibold''), bar_className p]),
         att ''style.--circle-size'' ''100px'', (''style.--circumference'', num circumference),
         (''style.--percent-to-px'', num (circumference / 100) @ js ''px''), att ''style.--gap-percent'' ''5'',
         att ''style.--offset-factor'' ''0'', att ''style.--transition-length'' ''1s'', att ''style.--transition-step'' ''200ms'',
         att ''style.--delay'' ''0s'', att ''style.--percent-to-deg'' ''3.6deg'', att ''style.transform'' ''translateZ(0)'']
        [El ''svg'' [att ''fill'' ''none'', cls ''size-full'', att ''strokeWidth'' ''2'', att ''viewBox'' ''0 0 100 100'']
           ((if shows_rest percent
             then [bar_circle [(''style.stroke'', gaugeSecondaryColor p), (''style.--stroke-percent'', stroke_percent percent),
               att ''style.--offset-factor-secondary'' ''calc(1 - var(--offset-factor))'',
               att ''style.strokeDasharray'' ''calc(var(--stroke-percent) * var(--percent-to-px)) var(--circumference)'',
               att ''style.transform'' ''rotate(calc(1turn - 90deg - (var(--gap-percent) * var(--percent-to-deg) * var(--offset-factor-secondary)))) scaleY(-1)'',
               att ''style.transition'' ''all var(--transition-length) ease var(--delay)'',
               att ''style.transformOrigin'' ''calc(var(--circle-size) / 2) calc(var(--circle-size) / 2)'']]
             else []) @
            [bar_circle [(''style.stroke'', gaugePrimaryColor p), (''style.--stroke-percent'', rounded_text percent),
               att ''style.strokeDasharray'' ''calc(var(--stroke-percent) * var(--percent-to-px)) var(--circumference)'',
               att ''style.transition'' ''var(--transition-length) ease var(--delay),stroke var(--transition-length) ease var(--delay)'',
               att ''style.transitionProperty'' ''stroke-dasharray,transform'',
               att ''style.transform'' ''rotate(calc(-90deg + var(--gap-percent) * var(--offset-factor) * var(--percent-to-deg)))'',
               att ''style.transformOrigin'' ''calc(var(--circle-size) / 2) calc(var(--circle-size) / 2)'']]),
         El ''span''
           [(''data-current-value'', rounded_text percent),
            cls ''animate-in fade-in absolute inset-0 m-auto size-fit delay-(--delay) duration-(--transition-length) ease-linear'']
           [Txt (rounded_text percent)]])"

section \<open>orbiting-circles.tsx\<close>

record orbit_props =
  o_className :: "jstr option"
  o_children :: "node list"
  o_reverse :: bool
  o_duration :: real
  o_radius :: real
  o_path :: bool
  iconSize :: real
  o_speed :: real

definition orbit_default :: "node list \<Rightarrow> orbit_props" where
  "orbit_default ns = \<lparr>o_className = None, o_children = ns, o_reverse = False, o_duration = 20, o_radius = 160, o_path = True,
     iconSize = 30, o_speed = 1\<rparr>"

definition orbit_angle :: "nat \<Rightarrow> nat \<Rightarrow> real" where
  "orbit_angle n index = (360 / real n) * real index"

definition orbit_node :: "class_fn \<Rightarrow> (real \<Rightarrow> jstr) \<Rightarrow> orbit_props \<Rightarrow> nat \<Rightarrow> node \<Rightarrow> node" where
  "orbit_node cn num p index child = El ''div''
     [(''style.--duration'', num (o_duration p / o_speed p)), (''style.--radius'', num (o_radius p)),
      (''style.--angle'', num (orbit_angle (length (o_children p)) index)),
      (''style.--icon-size'', num (iconSize p) @ js ''px''),
      (''className'', cn
         [Some (js ''animate-orbit absolute flex size-(--icon-size) transform-gpu items-center justify-center rounded-full''),
          (if o_reverse p then Some (js ''[animation-direction:reverse]'') else None), o_className p])] [child]"

definition orbitingCircles :: "class_fn \<Rightarrow> (real \<Rightarrow> jstr) \<Rightarrow> orbit_props \<Rightarrow> node list" where
  "orbitingCircles cn num p =
     (if o_path p
      then [El ''svg'' [att ''xmlns'' ''http://www.w3.org/2000/svg'', att ''version'' ''1.1'',
              cls ''pointer-events-none absolute inset-0 size-full'']
             [El ''circle'' [cls ''stroke-black/10 stroke-1 dark:stroke-white/10'', att ''cx'' ''50%'', att ''cy'' ''50%'',
                (''r'', num (o_radius p)), att ''fill'' ''none''] []]]
      else []) @
     map (\<lambda>(index, child). orbit_node cn num p index child) (enumerate 0 (o_children p))"

section \<open>text-reveal.tsx\<close>

text \<open>\<open>children\<close> is \<open>None\<close> when it is not a string. \<open>useTransform\<close> maps a range to \<open>[0, 1]\<close> linearly and clamps.\<close>

definition word_range :: "nat \<Rightarrow> nat \<Rightarrow> real \<times> real" where
  "word_range n i = (let start = real i / real n in (start, start + 1 / real n))"

definition useTransform :: "real \<times> real \<Rightarrow> real \<Rightarrow> real" where
  "useTransform rg x = max 0 (min 1 ((x - fst rg) / (snd rg - fst rg)))"

definition word_node :: "(real \<Rightarrow> jstr) \<Rightarrow> real \<Rightarrow> nat \<Rightarrow> nat \<Rightarrow> jstr \<Rightarrow> node" where
  "word_node num scrollYProgress n i word = El ''span'' [(''key'', digits i), cls ''xl:lg-3 relative mx-1 lg:mx-1.5'']
     [El ''span'' [cls ''absolute opacity-30''] [Txt word],
      El ''motion.span'' [(''style.opacity'', num (useTransform (word_range n i) scrollYProgress)), cls ''text-black dark:text-white'']
        [Txt word]]"

definition textReveal :: "class_fn \<Rightarrow> (real \<Rightarrow> jstr) \<Rightarrow> jstr option \<Rightarrow> jstr option \<Rightarrow> real \<Rightarrow> js_error + node" where
  "textReveal cn num className children scrollYProgress =
     (case children of
        None \<Rightarrow> Inl (Error (js ''TextReveal: children must be a string''))
      | Some s \<Rightarrow>
          (let ws = split_at 32 s in
           Inr (El ''div'' [(''className'', cn [Some (js ''relative z-0 h-[200vh]''), className])]
             [El ''div'' [cls ''sticky top-0 mx-auto flex h-[50%] max-w-4xl items-center bg-transparent px-4 py-20'']
                [El ''span''
                   [cls ''flex flex-wrap p-5 text-2xl font-bold text-black/20 md:p-8 md:text-3xl lg:p-10 lg:text-4xl xl:text-5xl dark:text-white/20'']
                   (map (\<lambda>(i, word). word_node num scrollYProgress (length ws) i word) (enumerate 0 ws))]])))"

section \<open>meteors.tsx\<close>

record meteors_props =
  number :: nat
  minDelay :: real
  maxDelay :: real
  minDuration :: real
  maxDuration :: real
  m_angle :: real
  m_className :: "jstr option"

definition meteors_default :: meteors_props where
  "meteors_default = \<lparr>number = 20, minDelay = 2/10, maxDelay = 12/10, minDuration = 2, maxDuration = 10, m_angle = 215, m_className = None\<rparr>"

record meteor_style =
  ms_angle :: real
  ms_left :: int
  animationDelay :: real
  animationDuration :: int

definition meteor_style_of :: "(nat \<Rightarrow> real) \<Rightarrow> meteors_props \<Rightarrow> real \<Rightarrow> nat \<Rightarrow> meteor_style" where
  "meteor_style_of rnd p innerWidth i =
     \<lparr>ms_angle = - m_angle p, ms_left = \<lfloor>rnd (3 * i) * innerWidth\<rfloor>,
      animationDelay = rnd (3 * i + 1) * (maxDelay p - minDelay p) + minDelay p,
      animationDuration = \<lfloor>rnd (3 * i + 2) * (maxDuration p - minDuration p) + minDuration p\<rfloor>\<rparr>"

definition meteorStyles :: "(nat \<Rightarrow> real) \<Rightarrow> meteors_props \<Rightarrow> real \<Rightarrow> meteor_style list" where
  "meteorStyles rnd p innerWidth = map (meteor_style_of rnd p innerWidth) [0..<number p]"

definition meteor_node :: "class_fn \<Rightarrow> (real \<Rightarrow> jstr) \<Rightarrow> meteors_props \<Rightarrow> nat \<Rightarrow> meteor_style \<Rightarrow> node" where
  "meteor_node cn num p idx st = El ''span''
     [(''key'', digits idx), (''style.--angle'', num (ms_angle st) @ js ''deg''), att ''style.top'' ''-5%'',
      (''style.left'', js ''calc(0% + '' @ rounded_text (Finite (ms_left st)) @ js ''px)''),
      (''style.animationDelay'', num (animationDelay st) @ js ''s''),
      (''style.animationDuration'', rounded_text (Finite (animationDuration st)) @ js ''s''),
      (''className'', cn
         [Some (js ''animate-meteor pointer-events-none absolute size-0.5 rotate-(--angle) rounded-full bg-zinc-500 shadow-[0_0_0_1px_#ffffff10]''),
          m_className p])]
     [El ''div'' [cls ''pointer-events-none absolute top-1/2 -z-10 h-px w-12.5 -translate-y-1/2 bg-linear-to-r from-zinc-500 to-transparent''] []]"

definition meteors :: "class_fn \<Rightarrow> (real \<Rightarrow> jstr) \<Rightarrow> meteors_props \<Rightarrow> meteor_style list \<Rightarrow> node list" where
  "meteors cn num p styles = map (\<lambda>(idx, st). meteor_node cn num p idx st) (enumerate 0 styles)"

section \<open>blur-fade.tsx\<close>

datatype fade_direction = UpD | DownD | LeftD | RightD

text \<open>A variant: the offsets along the two axes, the opacity and the filter, as far as they are given.\<close>

record variant =
  v_x :: "real option"
  v_y :: "real option"
  v_opacity :: "real option"
  v_filter :: "jstr option"

record fade_props =
  fd_className :: "jstr option"
  fd_variant :: "(variant \<times> variant) option"
  fd_duration :: real
  fd_delay :: real
  fd_offset :: real
  fd_direction :: fade_direction
  fd_inView :: bool
  fd_blur :: jstr
  fd_children :: "node list"

definition fade_default :: "node list \<Rightarrow> fade_props" where
  "fade_default ns = \<lparr>fd_className = None, fd_variant = None, fd_duration = 4/10, fd_delay = 0, fd_offset = 6,
     fd_direction = DownD, fd_inView = False, fd_blur = js ''6px'', fd_children = ns\<rparr>"

definition axis_variant :: "fade_direction \<Rightarrow> real \<Rightarrow> real \<Rightarrow> jstr \<Rightarrow> variant" where
  "axis_variant d v opacity flt =
     (if d = LeftD \<or> d = RightD then \<lparr>v_x = Some v, v_y = None, v_opacity = Some opacity, v_filter = Some flt\<rparr>
      else \<lparr>v_x = None, v_y = Some v, v_opacity = Some opacity, v_filter = Some flt\<rparr>)"

definition combinedVariants :: "fade_props \<Rightarrow> variant \<times> variant" where
  "combinedVariants p = (case fd_variant p of Some v \<Rightarrow> v | None \<Rightarrow>
     (axis_variant (fd_direction p)
        (if fd_direction p = RightD \<or> fd_direction p = DownD then - fd_offset p else fd_offset p) 0
        (js ''blur('' @ fd_blur p @ js '')''),
      axis_variant (fd_direction p) 0 1 (js ''blur(0px)'')))"

definition shouldTransitionFilter :: "fade_props \<Rightarrow> bool" where
  "shouldTransitionFilter p =
     (let (hidden, visible) = combinedVariants p in
      v_filter hidden \<noteq> None \<and> v_filter visible \<noteq> None \<and> v_filter hidden \<noteq> v_filter visible)"

definition fade_isInView :: "fade_props \<Rightarrow> bool \<Rightarrow> bool" where
  "fade_isInView p inViewResult \<longleftrightarrow> \<not> fd_inView p \<or> inViewResult"

definition variant_atts :: "(real \<Rightarrow> jstr) \<Rightarrow> string \<Rightarrow> variant \<Rightarrow> (string \<times> jstr) list" where
  "variant_atts num name v =
     (case v_x v of Some x \<Rightarrow> [(name @ ''.x'', num x)] | None \<Rightarrow> []) @
     (case v_y v of Some y \<Rightarrow> [(name @ ''.y'', num y)] | None \<Rightarrow> []) @
     (case v_opacity v of Some a \<Rightarrow> [(name @ ''.opacity'', num a)] | None \<Rightarrow> []) @
     (case v_filter v of Some f \<Rightarrow> [(name @ ''.filter'', f)] | None \<Rightarrow> [])"

definition blurFade :: "(real \<Rightarrow> jstr) \<Rightarrow> fade_props \<Rightarrow> bool \<Rightarrow> node" where
  "blurFade num p inViewResult = El ''AnimatePresence'' []
     [El ''motion.div''
        ([att ''initial'' ''hidden'', att ''animate'' (if fade_isInView p inViewResult then ''visible'' else ''hidden''),
          att ''exit'' ''hidden''] @
         variant_atts num ''variants.hidden'' (fst (combinedVariants p)) @
         variant_atts num ''variants.visible'' (snd (combinedVariants p)) @
         [(''transition.delay'', num (4/100 + fd_delay p)), (''transition.duration'', num (fd_duration p)),
          att ''transition.ease'' ''easeOut''] @
         (if shouldTransitionFilter p then [(''transition.filter.duration'', num (fd_duration p))] else []) @
         (case fd_className p of Some c \<Rightarrow> [(''className'', c)] | None \<Rightarrow> []))
        (fd_children p)]"

section \<open>What the layouts satisfy\<close>

text \<open>
  The blur throws exactly for fewer than two levels; otherwise it has one layer per level, in
  order, stacked from one to the number of levels.
\<close>

lemma map_shift_middle:
  "2 \<le> n \<Longrightarrow> [f 0] @ map (\<lambda>i. f (i + 1)) [0..<n - 2] @ [f (n - 1)] = map f [0..<n]"
proof -
  assume "2 \<le> n"
  then obtain m where n: "n = Suc (Suc m)" by (metis add_2_eq_Suc le_Suc_ex)
  have "[0..<n] = 0 # map Suc [0..<Suc m]" unfolding n map_Suc_upt by (rule upt_conv_Cons) simp
  then show ?thesis by (simp add: n)
qed

theorem progressiveBlur_layers:
  "(case progressiveBlur cn num p of
      Inl e \<Rightarrow> length (blurLevels p) < 2
    | Inr n \<Rightarrow> 2 \<le> length (blurLevels p) \<and>
        map (\<lambda>k. (map_of (attrs k) ''style.zIndex'', map_of (attrs k) ''style.backdropFilter'')) (kids n) =
        map (\<lambda>i. (Some (digits (i + 1)), Some (js ''blur('' @ num (blurLevels p ! i) @ js ''px)''))) [0..<length (blurLevels p)])"
proof (cases "length (blurLevels p) < 2")
  case True
  then show ?thesis by (simp add: progressiveBlur_def Let_def)
next
  case False
  let ?f = "\<lambda>i. (Some (digits (i + 1)), Some (js ''blur('' @ num (blurLevels p ! i) @ js ''px)''))"
  have l: "(map_of (attrs (blur_layer num z v m k)) ''style.zIndex'', map_of (attrs (blur_layer num z v m k)) ''style.backdropFilter'') =
      (Some (digits z), Some (js ''blur('' @ num v @ js ''px)''))" if "fst ` set k \<subseteq> {''key''}" for z v m k
  proof -
    have "map_of k ''style.zIndex'' = None" "map_of k ''style.backdropFilter'' = None"
      using that by (auto simp: map_of_eq_None_iff)
    then show ?thesis by (simp add: blur_layer_def map_add_def)
  qed
  have "2 \<le> length (blurLevels p)" using False by simp
  moreover from this have "Suc (length (blurLevels p) - 1) = length (blurLevels p)" by simp
  ultimately show ?thesis
    using map_shift_middle [of "length (blurLevels p)" ?f] False by (simp add: progressiveBlur_def Let_def l comp_def)
qed

text \<open>A value within its bounds gives a percentage from 0 to 100, a greater value no smaller one.\<close>

theorem currentPercent_bounds:
  assumes "bar_min p < bar_max p" "bar_min p \<le> bar_value p" "bar_value p \<le> bar_max p"
  shows "\<exists>i. currentPercent p = Finite i \<and> 0 \<le> i \<and> i \<le> 100 \<and> (shows_rest (currentPercent p) \<longleftrightarrow> i \<le> 90)"
proof -
  define q where "q = (bar_value p - bar_min p) / (bar_max p - bar_min p)"
  have q: "0 \<le> q" "q \<le> 1" using assms by (simp_all add: q_def)
  have "0 \<le> \<lfloor>q * 100 + 1/2\<rfloor>" using q(1) by simp
  moreover have "\<lfloor>q * 100 + 1/2\<rfloor> \<le> 100" using q(2) by (simp add: floor_le_iff)
  moreover have "currentPercent p = Finite \<lfloor>q * 100 + 1/2\<rfloor>" using assms(1) by (simp add: currentPercent_def q_def)
  ultimately show ?thesis by (intro exI [of _ "\<lfloor>q * 100 + 1/2\<rfloor>"]) (simp add: shows_rest_def)
qed

text \<open>The circles are spread evenly over the whole turn.\<close>

lemma orbit_angles:
  assumes "i < n"
  shows "0 \<le> orbit_angle n i" "orbit_angle n i < 360" "orbit_angle n (i + 1) - orbit_angle n i = 360 / real n"
  using assms by (simp_all add: orbit_angle_def field_simps)

text \<open>
  Scrolling reveals the words one after the other: the share of a word that is revealed is its
  part of the way, so that together as many words are revealed as the progress says.
\<close>

lemma word_opacity: "0 < n \<Longrightarrow> useTransform (word_range n i) x = max 0 (min 1 (real n * x - real i))"
proof -
  assume "0 < n"
  then have "(x - real i / real n) / (1 / real n) = real n * x - real i" by (simp add: field_simps)
  then show ?thesis by (simp add: useTransform_def word_range_def Let_def)
qed

lemma sum_ramps: "0 \<le> y \<Longrightarrow> y \<le> real n \<Longrightarrow> (\<Sum>i<n. max 0 (min 1 (y - real i))) = y"
proof (induction n arbitrary: y)
  case 0
  then show ?case by simp
next
  case (Suc n)
  show ?case
  proof (cases "y \<le> real n")
    case True
    then have "(\<Sum>i<n. max 0 (min 1 (y - real i))) = y" using Suc by blast
    with True show ?thesis by simp
  next
    case False
    have "(\<Sum>i<n. max 0 (min 1 (y - real i))) = (\<Sum>i<n. 1)"
      using False by (intro sum.cong) (auto simp: min_def max_def)
    with False Suc.prems show ?thesis by simp
  qed
qed

theorem textReveal_progress:
  assumes "0 \<le> x" "x \<le> 1" "0 < n"
  shows "(\<Sum>i<n. useTransform (word_range n i) x) = real n * x \<and>
    (i \<le> j \<longrightarrow> useTransform (word_range n j) x \<le> useTransform (word_range n i) x)"
proof -
  have "real n * x \<le> real n" using assms by (simp add: mult_left_le)
  then show ?thesis using sum_ramps [of "real n * x" n] assms by (auto simp: word_opacity)
qed

text \<open>With random numbers in the unit interval the meteors start within the window and the requested bounds.\<close>

lemma meteor_bounds:
  assumes "\<And>k. 0 \<le> rnd k \<and> rnd k < 1" "0 < innerWidth" "minDelay p \<le> maxDelay p" "minDuration p \<le> maxDuration p"
  shows "0 \<le> ms_left (meteor_style_of rnd p innerWidth i)" "of_int (ms_left (meteor_style_of rnd p innerWidth i)) < innerWidth"
    "minDelay p \<le> animationDelay (meteor_style_of rnd p innerWidth i)"
    "animationDelay (meteor_style_of rnd p innerWidth i) \<le> maxDelay p"
    "\<lfloor>minDuration p\<rfloor> \<le> animationDuration (meteor_style_of rnd p innerWidth i)"
    "of_int (animationDuration (meteor_style_of rnd p innerWidth i)) \<le> maxDuration p"
proof -
  have scale: "0 \<le> rnd k * d \<and> rnd k * d \<le> d" if "0 \<le> d" for k d
    using assms(1) [of k] that by (simp add: mult_left_le_one_le)
  have "rnd (3 * i) * innerWidth < innerWidth" using assms(1) [of "3 * i"] assms(2) by simp
  then show "of_int (ms_left (meteor_style_of rnd p innerWidth i)) < innerWidth"
    by (simp add: meteor_style_of_def) linarith
  show "0 \<le> ms_left (meteor_style_of rnd p innerWidth i)" using scale [of innerWidth "3 * i"] assms(2)
    by (simp add: meteor_style_of_def)
  show "minDelay p \<le> animationDelay (meteor_style_of rnd p innerWidth i)"
    "animationDelay (meteor_style_of rnd p innerWidth i) \<le> maxDelay p"
    using scale [of "maxDelay p - minDelay p" "3 * i + 1"] assms(3) by (simp_all add: meteor_style_of_def)
  show "\<lfloor>minDuration p\<rfloor> \<le> animationDuration (meteor_style_of rnd p innerWidth i)"
    using scale [of "maxDuration p - minDuration p" "3 * i + 2"] assms(4) by (simp add: meteor_style_of_def floor_mono)
  show "of_int (animationDuration (meteor_style_of rnd p innerWidth i)) \<le> maxDuration p"
    using scale [of "maxDuration p - minDuration p" "3 * i + 2"] assms(4) by (simp add: meteor_style_of_def) linarith
qed

text \<open>Without a variant of its own a fade moves the filter unless nothing is blurred.\<close>

lemma fade_filter: "fd_variant p = None \<Longrightarrow> shouldTransitionFilter p \<longleftrightarrow> fd_blur p \<noteq> js ''0px''"
  by (auto simp: shouldTransitionFilter_def combinedVariants_def axis_variant_def js_def)

end
