(* ===== verification/Architecture_Beam.thy ===== *)
theory Architecture_Beam
  imports Page_Model Beam_Life Layout_Effects
begin

text \<open>
  The diagrams of the home and architecture pages: \<open>components/home/architecture-beam.tsx\<close>,
  \<open>components/architecture/failure-modes.tsx\<close> and \<open>components/architecture/orbiting-stack.tsx\<close>, and the
  tables of \<open>lib/content.ts\<close>.

  A reference of \<open>useRef\<close> is named by its variable; an element carries it as its attribute \<open>ref\<close>.
  An \<open>AnimatedBeam\<close> element is given the names of three references, and what it draws once they
  are attached is \<open>updatePath\<close> of \<open>Pointer_Effects\<close>.
\<close>

section \<open>components/home/architecture-beam.tsx\<close>

record BeamNode =
  bn_icon :: string
  bn_title :: jstr
  bn_subtitle :: jstr

datatype beam_variant = Simple | Technical

record beam_set =
  set_left :: "BeamNode list"
  set_middle :: "BeamNode list"
  set_right :: "BeamNode list"

abbreviation beam_node :: "string \<Rightarrow> jstr \<Rightarrow> jstr \<Rightarrow> BeamNode" where
  "beam_node i t s \<equiv> \<lparr>bn_icon = i, bn_title = t, bn_subtitle = s\<rparr>"

definition beam_nodes :: "beam_variant \<Rightarrow> beam_set" where
  "beam_nodes v = (case v of
     Simple \<Rightarrow> \<lparr>
       set_left = [beam_node ''FileCode2'' (js ''Your manifests'') (js ''host, quota, cluster''),
         beam_node ''CloudCog'' (js ''KubeCell'') (js ''one management cluster'')],
       set_middle = [beam_node ''Layers'' (js ''Host setup'') (js ''namespace + quota''),
         beam_node ''Workflow'' (js ''Cluster creation'') (js ''control plane + storage'')],
       set_right = [beam_node ''Server'' (js ''Your host'') (js ''runs the workloads''),
         beam_node ''Boxes'' (js ''Your cluster'') (js ''kubectl + kubeconfig'')]\<rparr>
   | Technical \<Rightarrow> \<lparr>
       set_left = [beam_node ''FileCode2'' (js ''KubeCell CRDs'') (js ''Cell '' @ [183] @ js '' Class '' @ [183] @ js '' Plan '' @ [183] @ js '' VC''),
         beam_node ''CloudCog'' (js ''OCM Hub'') (js ''desired state only'')],
       set_middle = [beam_node ''Layers'' (js ''Foundation Work'') (js ''namespace + quota''),
         beam_node ''Workflow'' (js ''Instance Work'') (js ''K3k shared-mode cluster'')],
       set_right = [beam_node ''Server'' (js ''Cell host'') (js ''work-agent applies''),
         beam_node ''Boxes'' (js ''VirtualCluster'') (js ''child K3s API + kubelet'')]\<rparr>)"

definition beam_box :: "class_fn \<Rightarrow> string \<Rightarrow> BeamNode \<Rightarrow> jstr option \<Rightarrow> node" where
  "beam_box cn nodeRef n className = El ''div''
     [(''ref'', js nodeRef), (''className'', cn
        [Some (js ''z-10 w-full max-w-56 rounded-xl border border-white/10 bg-[#080d19]/90 px-4 py-3 shadow-[0_10px_40px_-20px_rgba(47,127,224,0.8)] backdrop-blur''),
         className])]
     [El ''div'' [cls ''flex items-center gap-2.5'']
        [El ''span'' [cls ''inline-flex h-8 w-8 shrink-0 items-center justify-center rounded-lg border border-sky-400/20 bg-sky-500/10 text-sky-300'']
           [El (bn_icon n) [cls ''h-4 w-4''] []],
         El ''div'' [cls ''min-w-0'']
           [El ''p'' [cls ''truncate text-sm font-medium text-foreground''] [Txt (bn_title n)],
            El ''p'' [cls ''truncate text-xs text-muted-foreground''] [Txt (bn_subtitle n)]]]]"

definition stacked_nodes :: "beam_set \<Rightarrow> BeamNode list" where
  "stacked_nodes s =
     set_left s @ [beam_node ''Layers'' (js ''Host setup + cluster creation'') (js ''applied on the host'')] @ set_right s"

definition stacked_box :: "nat \<Rightarrow> nat \<Rightarrow> BeamNode \<Rightarrow> node" where
  "stacked_box len index n = El ''div'' [(''key'', bn_title n)]
     ([El ''div'' [cls ''rounded-xl border border-white/10 bg-[#080d19]/90 px-4 py-3'']
         [El ''div'' [cls ''flex items-center gap-2.5'']
            [El ''span'' [cls ''inline-flex h-8 w-8 shrink-0 items-center justify-center rounded-lg border border-sky-400/20 bg-sky-500/10 text-sky-300'']
               [El (bn_icon n) [cls ''h-4 w-4''] []],
             El ''div'' []
               [El ''p'' [cls ''text-sm font-medium text-foreground''] [Txt (bn_title n)],
                El ''p'' [cls ''text-xs text-muted-foreground''] [Txt (bn_subtitle n)]]]]] @
      (if index < len - 1 then [El ''div'' [cls ''mx-auto h-5 w-px bg-gradient-to-b from-sky-400/60 to-transparent''] []] else []))"

definition beam :: "string \<Rightarrow> string \<Rightarrow> (string \<times> jstr) list \<Rightarrow> node" where
  "beam a b extra = El ''AnimatedBeam''
     ([att ''containerRef'' ''containerRef'', (''fromRef'', js a), (''toRef'', js b)] @ extra @
      [att ''pathColor'' ''#2f7fe0'', att ''pathOpacity'' ''0.15'']) []"

abbreviation colours :: "string \<Rightarrow> string \<Rightarrow> (string \<times> jstr) list" where
  "colours a b \<equiv> [att ''gradientStartColor'' a, att ''gradientStopColor'' b]"

definition beams :: "node list" where
  "beams =
     [beam ''crsRef'' ''hubRef'' (att ''duration'' ''4'' # colours ''#38bdf8'' ''#2f7fe0''),
      beam ''hubRef'' ''foundationRef'' ([att ''duration'' ''5'', att ''delay'' ''0.4''] @ colours ''#2f7fe0'' ''#8b5cf6''),
      beam ''hubRef'' ''instanceRef'' ([att ''duration'' ''5'', att ''delay'' ''0.9'', att ''curvature'' ''-60''] @ colours ''#2f7fe0'' ''#8b5cf6''),
      beam ''foundationRef'' ''hostRef'' ([att ''duration'' ''4'', att ''delay'' ''0.6''] @ colours ''#38bdf8'' ''#22d3ee''),
      beam ''instanceRef'' ''childRef'' ([att ''duration'' ''4'', att ''delay'' ''1.1'', att ''curvature'' ''60''] @ colours ''#8b5cf6'' ''#38bdf8''),
      beam ''hostRef'' ''childRef'' ([att ''duration'' ''3.5'', att ''delay'' ''1.4''] @ colours ''#22d3ee'' ''#2f7fe0'')]"

text \<open>The columns index their lists at 0 and 1; each list has two entries, see \<open>beam_set_full\<close>.\<close>

definition beam_columns :: "class_fn \<Rightarrow> beam_set \<Rightarrow> node list" where
  "beam_columns cn s =
     [El ''div'' [cls ''relative z-10 flex flex-col justify-center gap-6'']
        [beam_box cn ''crsRef'' (set_left s ! 0) None, beam_box cn ''hubRef'' (set_left s ! 1) None],
      El ''div'' [cls ''relative z-10 flex flex-col justify-center gap-16'']
        [beam_box cn ''foundationRef'' (set_middle s ! 0) None, beam_box cn ''instanceRef'' (set_middle s ! 1) None],
      El ''div'' [cls ''relative z-10 flex flex-col justify-center gap-6'']
        [beam_box cn ''hostRef'' (set_right s ! 0) None, beam_box cn ''childRef'' (set_right s ! 1) None]]"

definition architectureBeam :: "class_fn \<Rightarrow> jstr option \<Rightarrow> beam_variant \<Rightarrow> node" where
  "architectureBeam cn className variant =
     (let s = beam_nodes variant; stack = stacked_nodes s in
      El ''div'' [(''className'', cn [Some (js ''w-full''), className])]
        [El ''div'' [cls ''flex flex-col gap-3 md:hidden'']
           (map (\<lambda>(index, n). stacked_box (length stack) index n) (enumerate 0 stack)),
         El ''div'' [att ''ref'' ''containerRef'',
             cls ''relative hidden w-full items-stretch justify-between gap-4 overflow-hidden rounded-2xl border border-white/5 bg-white/[0.015] px-6 py-10 sm:px-10 md:flex'']
           ([El ''div'' [cls ''pointer-events-none absolute inset-0 bg-grid-faint opacity-40''] []] @
            beam_columns cn s @ beams)])"

section \<open>lib/content.ts\<close>

record pinned_row =
  pin_component :: jstr
  pin_version :: jstr
  pin_note :: jstr

definition pinnedStack :: "pinned_row list" where
  \<open>pinnedStack =
     [\<lparr>pin_component = js ''Management cluster'',
       pin_version = js ''Single-node K3s'',
       pin_note = js ''Holds your manifests and reports state; runs no tenant workloads.''\<rparr>,
      \<lparr>pin_component = js ''Host Kubernetes'',
       pin_version = js ''K3s v1.36.3+k3s1'',
       pin_note = js ''Validated on ARM64 bare metal.''\<rparr>,
      \<lparr>pin_component = js ''K3k'',
       pin_version = js ''v1.2.0'',
       pin_note = js ''Creates and manages the per-developer control planes on each host.''\<rparr>,
      \<lparr>pin_component = js ''Cluster Kubernetes'',
       pin_version = js ''v1.34.2+k3s1'',
       pin_note = js ''The version your developers see and target with kubectl.''\<rparr>,
      \<lparr>pin_component = js ''OCM Hub'',
       pin_version = js ''v1.3.1'',
       pin_note = js ''The audited channel between the management cluster and hosts.''\<rparr>,
      \<lparr>pin_component = js ''Storage'',
       pin_version = js ''TopoLVM on hosts'',
       pin_note = js ''Persistent volumes for clusters, backed by local disks on the host.''\<rparr>]\<close>

record isolation_control =
  iso_title :: jstr
  iso_description :: jstr

definition isolationControls :: "isolation_control list" where
  \<open>isolationControls =
     [\<lparr>iso_title = js ''A dedicated namespace per cluster'',
       iso_description = js ''Your workloads run in their own namespace on the host, with quotas, defaults, and network rules attached to it.''\<rparr>,
      \<lparr>iso_title = js ''Hard CPU, memory, and GPU limits'',
       iso_description = js ''Quotas come from the tier you pick and are enforced by Kubernetes itself, not by convention or a dashboard.''\<rparr>,
      \<lparr>iso_title = js ''Private by default'',
       iso_description = js ''Clusters cannot reach each other's services unless you explicitly allow it.''\<rparr>,
      \<lparr>iso_title = js ''Unsafe workloads are blocked'',
       iso_description = js ''Privileged containers and hostPath volumes are rejected before they reach a host, with a hint about what to use instead.''\<rparr>,
      \<lparr>iso_title = js ''Nothing changes behind your back'',
       iso_description = js ''Every host-side change is a declarative manifest applied through one management plane, so you can see and review what happened.''\<rparr>,
      \<lparr>iso_title = js ''Whole GPUs, never shared'',
       iso_description = js ''Accelerators are allocated as whole cards: your cluster gets the card, or it does not. No oversubscription between tenants.''\<rparr>]\<close>

section \<open>components/architecture/failure-modes.tsx\<close>

record failure_mode =
  fm_icon :: string
  fm_title :: jstr
  fm_symptom :: jstr
  fm_action :: jstr

definition failures :: "failure_mode list" where
  \<open>failures =
     [\<lparr>fm_icon = ''Clock'',
       fm_title = js ''Host lease goes stale'',
       fm_symptom = js ''Cell reports Degraded even though OCM still says Available.'',
       fm_action = js ''Trust the lease, not the condition. Check klusterlet health and node time skew before creating new child clusters.''\<rparr>,
      \<lparr>fm_icon = ''Database'',
       fm_title = js ''Storage capacity unknown'',
       fm_symptom = js ''storageInventory.freeCapacityKnown is false, or the observation is old.'',
       fm_action = js ''No feasibility conclusion is trustworthy. Fix TopoLVM/lvmd reporting and wait for a fresh Cell observation.''\<rparr>,
      \<lparr>fm_icon = ''ServerCrash'',
       fm_title = js ''Work not Applied'',
       fm_symptom = js ''A VirtualCluster stays in Provisioning and never becomes Ready.'',
       fm_action = js ''Walk the chain: the work status in the hub, the work-agent on the host, then the target namespace quota and any admission rejections.''\<rparr>,
      \<lparr>fm_icon = ''FileWarning'',
       fm_title = js ''Child API unreachable'',
       fm_symptom = js ''The kubeconfig exists but connections time out.'',
       fm_action = js ''Compare status.endpoint with the published Secret, then check K3k server Pods, the NodePort Service, and TopoLVM PVCs on the host.''\<rparr>,
      \<lparr>fm_icon = ''AlertTriangle'',
       fm_title = js ''Capability mismatch'',
       fm_symptom = js ''A Cell declares more accelerator capacity than the host actually allocates.'',
       fm_action = js ''Observed allocatable always wins. Align the machine profile declaration with the Device Plugin registration, then re-observe.''\<rparr>,
      \<lparr>fm_icon = ''ShieldAlert'',
       fm_title = js ''Tenant workload rejected'',
       fm_symptom = js ''Admission denies a child Pod for privileged access or hostPath volumes.'',
       fm_action = js ''This is expected. Use the rejection hint to pick a supported replacement, such as a PVC on the TopoLVM storage class.''\<rparr>]\<close>

definition failureModes :: "node" where
  \<open>failureModes =
     El ''div'' [cls ''grid gap-4 md:grid-cols-2 lg:grid-cols-3'']
       (map
          (\<lambda>(index, failure).
             El ''Card''
               [(''key'', fm_title failure), cls ''relative h-full overflow-hidden border-white/10 bg-white/[0.02]'']
               ((if index = 1 then [El ''BorderBeam'' [att ''size'' ''140'', att ''duration'' ''9'', att ''colorFrom'' ''#f59e0b'', att ''colorTo'' ''#ef4444'']
                       []]
                 else []) @
                [El ''CardHeader'' []
                   [El ''span'' [cls ''inline-flex h-10 w-10 items-center justify-center rounded-xl border border-amber-400/20 bg-amber-500/10 text-amber-300'']
                      [El (fm_icon failure) [cls ''h-5 w-5''] []],
                    El ''CardTitle'' [cls ''mt-3 text-base''] [Txt (fm_title failure)]],
                 El ''CardContent'' [cls ''space-y-3 text-sm leading-6'']
                   [El ''p'' [cls ''text-muted-foreground'']
                      [El ''span'' [cls ''font-medium text-foreground/90''] [Txt (js ''Symptom: '')],
                       Txt (fm_symptom failure)],
                    El ''p'' [cls ''text-muted-foreground'']
                      [El ''span'' [cls ''font-medium text-foreground/90''] [Txt (js ''Action: '')],
                       Txt (fm_action failure)]]]))
          (enumerate 0 failures))\<close>

section \<open>components/architecture/orbiting-stack.tsx\<close>

record orbit_item =
  orb_label :: jstr
  orb_icon :: string

definition inner_orbit :: "orbit_item list" where
  \<open>inner_orbit =
     [\<lparr>orb_label = js ''K3k'', orb_icon = ''BoxesIcon''\<rparr>,
      \<lparr>orb_label = js ''TopoLVM'', orb_icon = ''HardDrive''\<rparr>,
      \<lparr>orb_label = js ''Traefik'', orb_icon = ''Route''\<rparr>,
      \<lparr>orb_label = js ''Device Plugin'', orb_icon = ''Cpu''\<rparr>]\<close>

definition outer_orbit :: "orbit_item list" where
  \<open>outer_orbit =
     [\<lparr>orb_label = js ''K3s'', orb_icon = ''Boxes''\<rparr>,
      \<lparr>orb_label = js ''OCM'', orb_icon = ''Network''\<rparr>,
      \<lparr>orb_label = js ''CNI / CoreDNS'', orb_icon = ''Network''\<rparr>,
      \<lparr>orb_label = js ''LVM'', orb_icon = ''Database''\<rparr>,
      \<lparr>orb_label = js ''RuntimeClass'', orb_icon = ''Gauge''\<rparr>]\<close>

definition pill :: "orbit_item \<Rightarrow> node" where
  \<open>pill item =
     El ''span''
       [(''key'', orb_label item),
        cls ''inline-flex items-center gap-1.5 whitespace-nowrap rounded-full border border-white/10 bg-[#080d19] px-3 py-1.5 text-xs text-foreground shadow-[0_6px_24px_-12px_rgba(47,127,224,0.9)]'']
       [El (orb_icon item) [cls ''h-3.5 w-3.5 text-sky-300''] [], Txt (orb_label item)]\<close>

definition orbitingStack :: "class_fn \<Rightarrow> (real \<Rightarrow> jstr) \<Rightarrow> node" where
  \<open>orbitingStack cn num =
     El ''div'' [cls ''relative flex h-[30rem] w-full items-center justify-center overflow-hidden rounded-2xl border border-white/5 bg-white/[0.015]'']
       ([El ''div'' [cls ''pointer-events-none absolute inset-0 bg-grid-faint opacity-30''] [],
         El ''div'' [cls ''pointer-events-none absolute h-72 w-72 rounded-full bg-sky-500/10 blur-[80px]''] [],
         El ''div'' [cls ''z-10 flex h-24 w-24 flex-col items-center justify-center gap-1 rounded-2xl border border-sky-400/30 bg-[#070c17] text-center shadow-[0_0_60px_-20px_rgba(47,127,224,0.9)]'']
           [El ''span'' [cls ''font-mono text-[10px] uppercase tracking-widest text-sky-400''] [Txt (js ''Cell host'')],
            El ''span'' [cls ''text-sm font-semibold text-foreground''] [Txt (js ''pinned baseline'')]]] @
        orbitingCircles cn num ((orbit_default (map pill inner_orbit))
          \<lparr>o_radius := 132, o_duration := 24, iconSize := 30, o_path := False\<rparr>) @
        orbitingCircles cn num ((orbit_default (map pill outer_orbit))
          \<lparr>o_radius := 208, o_duration := 38, o_reverse := True, iconSize := 30, o_path := False\<rparr>))\<close>

lemmas orbitingStack_eval = orbitingStack_def pill_def inner_orbit_def outer_orbit_def orbitingCircles_def orbit_node_def orbit_default_def

lemmas architectureBeam_eval = architectureBeam_def beam_nodes_def stacked_nodes_def stacked_box_def beam_columns_def beam_box_def beams_def
  beam_def Let_def

section \<open>The beams of the diagram\<close>

text \<open>
  The names of the references that are attached to elements of a tree, and the pairs of references
  its beams join. A reference has a rectangle once its element is mounted, so a reference that no
  element carries stays \<open>null\<close> and \<open>updatePath\<close> draws nothing for a beam that names it.
\<close>

fun refs :: "node \<Rightarrow> jstr list" where
  "refs (Txt s) = []"
| "refs (El t as ns) = (case map_of as ''ref'' of None \<Rightarrow> [] | Some r \<Rightarrow> [r]) @ concat (map refs ns)"

abbreviation ref_prop :: "string \<Rightarrow> node \<Rightarrow> jstr" where
  "ref_prop k n \<equiv> the (map_of (attrs n) k)"

definition beam_edges :: "node \<Rightarrow> (jstr \<times> jstr) list" where
  "beam_edges d = map (\<lambda>b. (ref_prop ''fromRef'' b, ref_prop ''toRef'' b)) (find_all ''AnimatedBeam'' d)"

lemma beam_set_full:
  "length (set_left (beam_nodes v)) = 2" "length (set_middle (beam_nodes v)) = 2" "length (set_right (beam_nodes v)) = 2"
  by (cases v; simp add: beam_nodes_def)+

lemma architectureBeam_refs: "refs (architectureBeam cn className v) =
    map js [''containerRef'', ''crsRef'', ''hubRef'', ''foundationRef'', ''instanceRef'', ''hostRef'', ''childRef'']"
  by (cases v) (simp_all add: architectureBeam_eval cong: opaque)

lemma architectureBeam_beams: "find_all ''AnimatedBeam'' (architectureBeam cn className v) = beams"
  by (cases v) (simp_all add: architectureBeam_eval cong: opaque)

lemma beams_attached: "list_all (\<lambda>b. list_all (\<lambda>k. ref_prop k b \<in> set (refs (architectureBeam cn className v)))
    [''containerRef'', ''fromRef'', ''toRef'']) beams"
  unfolding architectureBeam_refs by (simp add: beams_def beam_def cong: opaque)

lemma architectureBeam_edges: "beam_edges (architectureBeam cn className v) =
    [(js ''crsRef'', js ''hubRef''), (js ''hubRef'', js ''foundationRef''), (js ''hubRef'', js ''instanceRef''),
     (js ''foundationRef'', js ''hostRef''), (js ''instanceRef'', js ''childRef''), (js ''hostRef'', js ''childRef'')]"
  unfolding beam_edges_def architectureBeam_beams by (simp add: beams_def beam_def cong: opaque)

text \<open>A rank that grows along every edge excludes a cycle.\<close>

lemma acyclic_rank:
  assumes "list_all (\<lambda>(a, b). r a < (r b :: nat)) E"
  shows "acyclic (set E)"
proof -
  have "r a < r b" if "(a, b) \<in> (set E)\<^sup>+" for a b
    using that by (induction rule: trancl_induct) (use assms in \<open>fastforce simp: list.pred_set\<close>)+
  then show ?thesis by (auto simp: acyclic_def)
qed

lemma architectureBeam_acyclic: "acyclic (set (beam_edges (architectureBeam cn className v)))"
  unfolding architectureBeam_edges
  by (rule acyclic_rank [where r = "\<lambda>x. length (takeWhile (\<lambda>y. y \<noteq> x)
       (map js [''crsRef'', ''hubRef'', ''foundationRef'', ''instanceRef'', ''hostRef'', ''childRef'']))"])
    (simp cong: opaque)

lemma architectureBeam_reach:
  assumes "r \<in> set (refs (architectureBeam cn className v))" "r \<noteq> js ''containerRef''"
  shows "(js ''crsRef'', r) \<in> (set (beam_edges (architectureBeam cn className v)))\<^sup>*"
proof -
  let ?E = "set (beam_edges (architectureBeam cn className v))"
  have "(js ''crsRef'', js ''hubRef'') \<in> ?E\<^sup>*" by (rule r_into_rtrancl) (simp add: architectureBeam_edges cong: opaque)
  then have hub: "(js ''crsRef'', x) \<in> ?E\<^sup>*" if "(js ''hubRef'', x) \<in> ?E" for x using that by (rule rtrancl_into_rtrancl)
  have f: "(js ''crsRef'', js ''foundationRef'') \<in> ?E\<^sup>*" and i: "(js ''crsRef'', js ''instanceRef'') \<in> ?E\<^sup>*"
    by (rule hub; simp add: architectureBeam_edges cong: opaque)+
  have h: "(js ''crsRef'', js ''hostRef'') \<in> ?E\<^sup>*"
    by (rule rtrancl_into_rtrancl [OF f]) (simp add: architectureBeam_edges cong: opaque)
  have "(js ''crsRef'', js ''childRef'') \<in> ?E\<^sup>*"
    by (rule rtrancl_into_rtrancl [OF i]) (simp add: architectureBeam_edges cong: opaque)
  with \<open>(js ''crsRef'', js ''hubRef'') \<in> ?E\<^sup>*\<close> f i h show ?thesis
    using assms unfolding architectureBeam_refs by (auto simp del: js_simps)
qed

lemma architectureBeam_reached:
  "(set (beam_edges (architectureBeam cn className v)))\<^sup>* `` {js ''crsRef''} =
     set (refs (architectureBeam cn className v)) - {js ''containerRef''}"
proof -
  let ?d = "architectureBeam cn className v"
  have box: "x \<in> set (refs ?d) - {js ''containerRef''}" if "(y, x) \<in> set (beam_edges ?d)" for x y
    using that unfolding architectureBeam_refs architectureBeam_edges by auto
  have "x \<in> set (refs ?d) - {js ''containerRef''}" if "(js ''crsRef'', x) \<in> (set (beam_edges ?d))\<^sup>*" for x
    using that
  proof (cases rule: rtranclE)
    case base
    then show ?thesis unfolding architectureBeam_refs by (auto simp: js_simps)
  qed (use box in blast)
  then show ?thesis using architectureBeam_reach [of _ cn className v] by blast
qed

text \<open>
  C24. The diagram of the home and architecture pages, in either variant: no reference is attached
  twice, every beam names the container and two boxes that are mounted with it, and however often the
  container is resized, the page is scrolled and the beam is rendered again, its path runs from the centre of the one box
  to the centre of the other at their present places, up to the offsets, in a picture as large as the
  container. The beams form no cycle, and every box is reached from the manifests.
\<close>

theorem beams_join_the_boxes:
  "let d = architectureBeam cn className v; E = beam_edges d in
   distinct (refs d) \<and>
   list_all (\<lambda>b. let c = ref_prop ''containerRef'' b; f = ref_prop ''fromRef'' b; t = ref_prop ''toRef'' b in
       {c, f, t} \<subseteq> set (refs d) \<and> distinct [c, f, t] \<and>
       (\<forall>s. reach (beam_init num) (beam_step num) s \<and> bl_rects s = (rect_of c, rect_of f, rect_of t) \<longrightarrow>
          joins num (bl_props s) (rect_of c) (rect_of f) (rect_of t) (pathD (bl_state s)) \<and>
          svgDimensions (bl_state s) = (rect_width (rect_of c), rect_height (rect_of c))))
     (find_all ''AnimatedBeam'' d) \<and>
   acyclic (set E) \<and> (set E)\<^sup>* `` {js ''crsRef''} = set (refs d) - {js ''containerRef''}"
proof -
  let ?d = "architectureBeam cn className v"
  have "list_all (\<lambda>b. distinct [ref_prop ''containerRef'' b, ref_prop ''fromRef'' b, ref_prop ''toRef'' b]) beams"
    by (simp add: beams_def beam_def cong: opaque)
  moreover have "distinct (refs ?d)" unfolding architectureBeam_refs by (simp cong: opaque)
  moreover have life: "\<forall>s. reach (beam_init num) (beam_step num) s \<and> bl_rects s = (c, f, t) \<longrightarrow>
      joins num (bl_props s) c f t (pathD (bl_state s)) \<and> svgDimensions (bl_state s) = (rect_width c, rect_height c)" for c f t
    using beam_follows_layout by blast
  ultimately show ?thesis
    unfolding Let_def architectureBeam_beams
    using architectureBeam_reached architectureBeam_acyclic beams_attached [of cn className v]
    by (simp add: list.pred_set life)
qed

text \<open>A page on which the first box is centred at \<open>(2, 2)\<close> and the second at \<open>(6, 6)\<close>.\<close>

definition demo_rect :: "jstr \<Rightarrow> rect" where
  "demo_rect r = (if r = js ''crsRef'' then \<lparr>left = 1, top = 1, rect_width = 2, rect_height = 2\<rparr>
     else if r = js ''hubRef'' then \<lparr>left = 5, top = 5, rect_width = 2, rect_height = 2\<rparr>
     else \<lparr>left = 0, top = 0, rect_width = 9, rect_height = 9\<rparr>)"

definition demo_num :: "real \<Rightarrow> jstr" where
  "demo_num x = (if x = 2 then js ''2'' else if x = 4 then js ''4'' else js ''6'')"

definition demo_beam :: beam_life where
  "demo_beam = beam_effect demo_num \<lparr>bl_props = beam_default,
     bl_rects = (demo_rect (js ''containerRef''), demo_rect (js ''crsRef''), demo_rect (js ''hubRef'')),
     bl_state = \<lparr>pathD = [], svgDimensions = (0, 0)\<rparr>, bl_observing = False\<rparr>"

theorem beams_join_the_boxes_witness:
  "pathD (bl_state demo_beam) = js ''M 2,2 Q 4,2 6,6'' \<and> svgDimensions (bl_state demo_beam) = (9, 9)"
proof -
  have r: "reach (beam_init demo_num) (beam_step demo_num) demo_beam"
    by (rule reach_init) (auto simp: beam_init_def demo_beam_def)
  have s: "bl_rects demo_beam = (demo_rect (js ''containerRef''), demo_rect (js ''crsRef''), demo_rect (js ''hubRef''))"
      "bl_props demo_beam = beam_default"
    by (simp_all add: demo_beam_def beam_effect_def beam_update_def split: prod.splits)
  have "joins demo_num (bl_props demo_beam) (demo_rect (js ''containerRef'')) (demo_rect (js ''crsRef'')) (demo_rect (js ''hubRef''))
      (pathD (bl_state demo_beam)) \<and> svgDimensions (bl_state demo_beam) =
      (rect_width (demo_rect (js ''containerRef'')), rect_height (demo_rect (js ''containerRef'')))"
    using beams_join_the_boxes [of "\<lambda>_. []" None Simple demo_num demo_rect] r s(1)
    unfolding Let_def architectureBeam_beams beams_def beam_def by simp
  then show ?thesis
    unfolding s(2) by (simp add: joins_def demo_rect_def demo_num_def beam_default_def js_def)
qed

end
