(* ===== verification/Docs_Guide.thy ===== *)
theory Docs_Guide
  imports Architecture_Beam
begin

text \<open>
  The pages \<open>app/docs/page.tsx\<close>, \<open>concepts\<close>, \<open>installation\<close>, \<open>host-onboarding\<close> and
  \<open>first-virtualcluster\<close>: their metadata, the listings and tables they declare, and their content,
  one definition per section of a page.
\<close>

section \<open>app/docs/page.tsx\<close>

definition docs_metadata :: "Metadata" where
  \<open>docs_metadata =
     buildMetadata (js ''Documentation overview'')
       (js ''KubeCell documentation overview: what the operator is, the four CRDs, the three-layer architecture, design principles, and where to go next.'')
       (js ''/docs/'')
       (Some [js ''KubeCell documentation'', js ''VirtualCluster'', js ''KubeCell concepts''])
       None\<close>

definition docs_intro :: "class_fn \<Rightarrow> node list" where
  \<open>docs_intro cn =
     [El ''p'' [cls ''font-mono text-xs uppercase tracking-[0.2em] text-sky-400''] [Txt (js ''Documentation'')],
      El ''h1'' [cls ''mt-3 text-3xl font-semibold tracking-tight text-foreground sm:text-4xl'']
        [Txt (js ''KubeCell overview'')],
      El ''p'' [cls ''mt-5 text-base leading-7 text-muted-foreground'']
        [Txt (js ''KubeCell gives every developer an isolated Kubernetes cluster '' @ [8212] @ js '' a''),
         Txt (js '' ''),
         El ''strong'' [] [Txt (js ''VirtualCluster'')],
         Txt
           (js '' '' @ [8212] @ js '' on shared physical hosts. A single management cluster holds the desired state; each Cell host runs the workloads. Developers get a standard, kubectl-compatible K3s API with hard CPU, memory, and GPU quotas, persistent storage, and automatically published kubeconfigs.'')],
      callout cn WarningNote (Some (js ''Pre-release software'')) None
        [Txt (js ''KubeCell is under active development and the APIs are ''),
         El ''code'' [] [Txt (js ''v1alpha1'')],
         Txt (js ''. Do not use it for production workloads yet.'')]]\<close>

definition docs_what_it_is :: "node list" where
  \<open>docs_what_it_is =
     [El ''h2'' [att ''id'' ''what-it-is''] [Txt (js ''What KubeCell is'')],
      El ''ul'' []
        [El ''li'' []
           [Txt (js ''A small operator with exactly ''),
            El ''strong'' [] [Txt (js ''four CRDs'')],
            Txt (js '': ''),
            El ''code'' [] [Txt (js ''Cell'')],
            Txt (js '',''),
            Txt (js '' ''),
            El ''code'' [] [Txt (js ''VirtualNodeClass'')],
            Txt (js '', ''),
            El ''code'' [] [Txt (js ''VirtualClusterPlan'')],
            Txt (js '', and''),
            Txt (js '' ''),
            El ''code'' [] [Txt (js ''VirtualCluster'')],
            Txt (js ''.'')],
         El ''li'' []
           [Txt
              (js ''A composition layer over upstream projects '' @ [8212] @ js '' K3s, K3k, TopoLVM, Traefik, and Open Cluster Management (OCM) '' @ [8212] @ js '' integrated through public APIs only.'')],
         El ''li'' []
           [Txt (js ''A quota and isolation system: every child cluster maps to a host namespace with''),
            Txt (js '' ''),
            El ''code'' [] [Txt (js ''ResourceQuota'')],
            Txt (js '', ''),
            El ''code'' [] [Txt (js ''LimitRange'')],
            Txt (js '', ''),
            El ''code'' [] [Txt (js ''NetworkPolicy'')],
            Txt (js '', and admission rules that reject privileged workloads and ''),
            El ''code'' [] [Txt (js ''hostPath'')],
            Txt (js '' volumes.'')],
         El ''li'' []
           [Txt
              (js ''An inventory and feasibility system: Cells report live capacity, and Plans tell you whether a request can be satisfied ''),
            El ''em'' [] [Txt (js ''before'')],
            Txt (js '' anything is created.'')]]]\<close>

definition docs_what_it_is_not :: "node list" where
  \<open>docs_what_it_is_not =
     [El ''h2'' [att ''id'' ''what-it-is-not''] [Txt (js ''What KubeCell is not'')],
      El ''ul'' []
        [El ''li'' []
           [Txt
              (js ''Not a second scheduler, device allocator, kubelet, CNI, CSI, or Device Plugin. Those stay upstream.'')],
         El ''li'' []
           [Txt
              (js ''Not a namespace-with-labels product. A child cluster has its own API server, control plane, and data volume.'')],
         El ''li'' []
           [Txt
              (js ''Not a strong-adversary multi-tenancy boundary. Developer credentials are child-cluster admin kubeconfigs, which is a deliberate trusted-network trade-off.'')],
         El ''li'' []
           [Txt
              (js ''Not a horizontal autoscaler for child clusters: each child exposes exactly one logical node named ''),
            El ''code'' [] [Txt (js ''kubelet'')],
            Txt (js ''. You scale by switching quota tiers.'')]]]\<close>

definition docs_mental_model :: "node list" where
  \<open>docs_mental_model =
     [El ''h2'' [att ''id'' ''mental-model''] [Txt (js ''The mental model in four objects'')],
      El ''div'' [cls ''not-prose my-6 overflow-hidden rounded-xl border border-white/10'']
        [El ''table'' [cls ''w-full border-collapse text-left text-sm'']
           [El ''thead'' []
              [El ''tr'' [cls ''bg-white/[0.03]'']
                 [El ''th'' [cls ''px-4 py-3 font-medium text-muted-foreground''] [Txt (js ''Object'')],
                  El ''th'' [cls ''px-4 py-3 font-medium text-muted-foreground''] [Txt (js ''Scope'')],
                  El ''th'' [cls ''px-4 py-3 font-medium text-muted-foreground'']
                    [Txt (js ''You use it to'' @ [8230])]]],
            El ''tbody'' [cls ''text-muted-foreground'']
              [El ''tr'' [cls ''border-t border-white/5'']
                 [El ''td'' [cls ''px-4 py-3 font-mono text-xs text-sky-300''] [Txt (js ''Cell'')],
                  El ''td'' [cls ''px-4 py-3''] [Txt (js ''Namespaced'')],
                  El ''td'' [cls ''px-4 py-3'']
                    [Txt (js ''Bind one OCM ''),
                     El ''code'' [] [Txt (js ''ManagedCluster'')],
                     Txt (js '' to one machine profile. Generated from live discovery.'')]],
               El ''tr'' [cls ''border-t border-white/5'']
                 [El ''td'' [cls ''px-4 py-3 font-mono text-xs text-sky-300''] [Txt (js ''VirtualNodeClass'')],
                  El ''td'' [cls ''px-4 py-3''] [Txt (js ''Cluster-scoped'')],
                  El ''td'' [cls ''px-4 py-3'']
                    [Txt (js ''Publish a quota tier: hard requests/limits per child cluster plus a storage class.'')]],
               El ''tr'' [cls ''border-t border-white/5'']
                 [El ''td'' [cls ''px-4 py-3 font-mono text-xs text-sky-300''] [Txt (js ''VirtualClusterPlan'')],
                  El ''td'' [cls ''px-4 py-3''] [Txt (js ''Namespaced'')],
                  El ''td'' [cls ''px-4 py-3'']
                    [Txt (js ''Check feasibility without side effects: ''),
                     El ''code'' [] [Txt (js ''Accepted'')],
                     Txt (js '', ''),
                     El ''code'' [] [Txt (js ''Rejected'')],
                     Txt (js '', or ''),
                     El ''code'' [] [Txt (js ''Unknown'')],
                     Txt (js ''.'')]],
               El ''tr'' [cls ''border-t border-white/5'']
                 [El ''td'' [cls ''px-4 py-3 font-mono text-xs text-sky-300''] [Txt (js ''VirtualCluster'')],
                  El ''td'' [cls ''px-4 py-3''] [Txt (js ''Namespaced'')],
                  El ''td'' [cls ''px-4 py-3'']
                    [Txt (js ''Create the child cluster and receive a published admin kubeconfig in status.'')]]]]]]\<close>

definition docs_architecture :: "class_fn \<Rightarrow> node list" where
  \<open>docs_architecture cn =
     [El ''h2'' [att ''id'' ''architecture''] [Txt (js ''Architecture at a glance'')],
      El ''p'' []
        [Txt
           (js ''Three layers, one direction of control. The management plane declares intent; the host executes it; the child cluster is the product.'')],
      El ''div'' [cls ''not-prose my-8''] [architectureBeam cn None Simple],
      El ''p'' []
        [Txt
           (js ''The controller never connects to a host directly. It applies two declarative work objects per cluster through the hub and reads host state back the same way. See''),
         Txt (js '' ''),
         El ''Link'' [att ''href'' ''/architecture/''] [Txt (js ''technical principles'')],
         Txt (js '' for the full control flow.'')]]\<close>

definition docs_principles :: "node list" where
  \<open>docs_principles =
     [El ''h2'' [att ''id'' ''principles''] [Txt (js ''Design principles worth remembering'')],
      El ''ul'' []
        [El ''li'' []
           [El ''strong'' [] [Txt (js ''Intent-only specs.'')],
            Txt
              (js '' Human-authored manifests declare which Cell and which quota tier. Versions, ports, reservations, and security baselines are platform constants and never enter the CRDs.'')],
         El ''li'' []
           [El ''strong'' [] [Txt (js ''One safe value means no field.'')],
            Txt
              (js '' If a setting has exactly one safe value, exposing it would only create drift, so it stays out of the API.'')],
         El ''li'' []
           [El ''strong'' [] [Txt (js ''Observed state beats declared state.'')],
            Txt
              (js '' Allocatable capacity reported by the host is the source of truth; declarations are upper bounds and never inflate inventory.'')],
         El ''li'' []
           [El ''strong'' [] [Txt (js ''Reconciliation is idempotent.'')],
            Txt
              (js '' Failed steps are retried by re-rendering from the resolution snapshot, never by patching host state in place.'')],
         El ''li'' []
           [El ''strong'' [] [Txt (js ''Built on upstream components.'')],
            Txt
              (js '' K3s, K3k, TopoLVM, and OCM are used unmodified through their public APIs, so upstream fixes and behavior apply directly.'')]]]\<close>

definition docs_who :: "node list" where
  \<open>docs_who =
     [El ''h2'' [att ''id'' ''who''] [Txt (js ''Who should read what'')],
      El ''div'' [cls ''not-prose mt-6 grid gap-3 sm:grid-cols-2'']
        (map
           (\<lambda>item.
              El ''Link''
                [(''key'', doc_href item),
                 (''href'', doc_href item),
                 cls ''group rounded-xl border border-white/10 bg-white/[0.02] p-4 transition-colors hover:border-sky-400/30'']
                [El ''p'' [cls ''text-sm font-medium text-foreground''] [Txt (doc_title item)],
                 El ''p'' [cls ''mt-1 text-sm leading-6 text-muted-foreground''] (opt_text (doc_description item)),
                 El ''span'' [cls ''mt-2 inline-flex items-center gap-1 text-xs font-medium text-sky-400'']
                   [Txt (js ''Open''),
                    El ''ArrowRight'' [cls ''h-3 w-3 transition-transform group-hover:translate-x-0.5''] []]])
           docsFlat)]\<close>

definition docs_status :: "node list" where
  \<open>docs_status =
     [El ''h2'' [att ''id'' ''status''] [Txt (js ''Project status'')],
      El ''p'' []
        [Txt
           (js ''The API shape, controllers, installer, and the first end-to-end loop are implemented. The feature matrix (PVC, networking, hostPath rejection, interaction, cascading deletion, accelerator allocation, Ingress) and release hardening are in progress. Track the work in''),
         Txt (js '' ''),
         El ''a'' [att ''href'' ''https://github.com/taosher/KubeCell/blob/main/TODOS.md''] [Txt (js ''TODOS.md'')],
         Txt (js '' and report bugs through GitHub issues.'')],
      El ''div'' [cls ''not-prose mt-4 flex flex-wrap gap-2'']
        [El ''Badge'' [att ''variant'' ''outline'', cls ''border-emerald-400/30 text-emerald-300'']
           [Txt (js ''API shape frozen'')],
         El ''Badge'' [att ''variant'' ''outline'', cls ''border-sky-400/30 text-sky-300'']
           [Txt (js ''Controllers implemented'')],
         El ''Badge'' [att ''variant'' ''outline'', cls ''border-amber-400/30 text-amber-300'']
           [Txt (js ''Release hardening in progress'')]]]\<close>

definition docsOverviewPage :: "class_fn \<Rightarrow> node" where
  \<open>docsOverviewPage cn =
     prose cn None
       (docs_intro cn @
        docs_what_it_is @
        docs_what_it_is_not @
        docs_mental_model @
        docs_architecture cn @
        docs_principles @
        docs_who @
        docs_status)\<close>

section \<open>app/docs/concepts/page.tsx\<close>

definition concepts_metadata :: "Metadata" where
  \<open>concepts_metadata =
     buildMetadata (js ''Core concepts'')
       (js ''KubeCell core concepts explained: the four resources you work with, quota tiers, how a cluster maps to a host, and what happens when you create, resize, or delete one.'')
       (js ''/docs/concepts/'')
       (Some
          [js ''KubeCell Cell'',
           js ''VirtualNodeClass'',
           js ''VirtualClusterPlan'',
           js ''logical node kubelet'',
           js ''reflected Pod'',
           js ''resolution snapshot''])
       None\<close>

definition cellExample :: "jstr" where
  \<open>cellExample =
     join [10]
       [js ''apiVersion: kubecell.io/v1alpha1'',
        js ''kind: Cell'',
        js ''metadata:'',
        js ''  name: cell1'',
        js ''  namespace: kubecell-system'',
        js ''spec:'',
        js ''  managedClusterRef:'',
        js ''    name: cell1              # bound OCM ManagedCluster; immutable once resolved'',
        js ''  machineProfile:'',
        js ''    name: ascend-910b        # single machine profile per Cell'',
        js ''    devices:'',
        js ''    - name: ascend'',
        js ''      resourceName: huawei.com/Ascend910  # exact host extended-resource key'']\<close>

definition classExample :: "jstr" where
  \<open>classExample =
     join [10]
       [js ''apiVersion: kubecell.io/v1alpha1'',
        js ''kind: VirtualNodeClass'',
        js ''metadata:'',
        js ''  name: ascend-910b-small    # cluster-scoped; the tier name tenants reference'',
        js ''spec:'',
        js ''  entitlement:'',
        js ''    workloadHard:'',
        js ''      requests.cpu: "4"'',
        js ''      limits.cpu: "4"'',
        js ''      requests.memory: 8Gi'',
        js ''      limits.memory: 8Gi'',
        js ''      requests.huawei.com/Ascend910: "2"'',
        js ''      limits.huawei.com/Ascend910: "2"'',
        js ''  storageClassName: topolvm-provisioner'']\<close>

definition planExample :: "jstr" where
  \<open>planExample =
     join [10]
       [js ''apiVersion: kubecell.io/v1alpha1'',
        js ''kind: VirtualClusterPlan'',
        js ''metadata:'',
        js ''  name: child-dev-plan'',
        js ''  namespace: kubecell-system'',
        js ''spec:'',
        js ''  cellRef: {name: cell1}'',
        js ''  classRef: {name: ascend-910b-small}'',
        js ''status:'',
        js ''  decision: Accepted          # Accepted | Rejected | Unknown'',
        js ''  expiresAt: "2026-09-22T10:15:00Z"   # stale conclusions are void'',
        js ''  checks: []                  # per-resource findings when Rejected'']\<close>

definition concepts_intro :: "node list" where
  \<open>concepts_intro =
     [El ''p'' [cls ''font-mono text-xs uppercase tracking-[0.2em] text-sky-400''] [Txt (js ''Introduction'')],
      El ''h1'' [cls ''mt-3 text-3xl font-semibold tracking-tight text-foreground sm:text-4xl'']
        [Txt (js ''Core concepts'')],
      El ''p'' [cls ''mt-5 text-base leading-7 text-muted-foreground'']
        [Txt
           (js ''Six ideas carry the whole design. If you understand these, the CRDs and the operational behavior will feel predictable.'')]]\<close>

definition concepts_cell :: "class_fn \<Rightarrow> node list" where
  \<open>concepts_cell cn =
     [El ''h2'' [att ''id'' ''cell''] [Txt (js ''Cell'')],
      El ''p'' []
        [Txt (js ''A ''),
         El ''strong'' [] [Txt (js ''Cell'')],
         Txt (js '' is the unit of physical capacity: one OCM ''),
         El ''code'' [] [Txt (js ''ManagedCluster'')],
         Txt (js '' ''),
         Txt
           (js ''bound to one host cluster, plus a single machine profile describing what the machines offer. It is the failure and isolation boundary. The spec has exactly two groups:'')],
      El ''ul'' []
        [El ''li'' []
           [El ''code'' [] [Txt (js ''managedClusterRef.name'')],
            Txt (js '' '' @ [8212] @ js '' the bound OCM ''),
            El ''code'' [] [Txt (js ''ManagedCluster'')],
            Txt (js ''. Once any VirtualCluster has resolved this Cell, the reference is immutable.'')],
         El ''li'' []
           [El ''code'' [] [Txt (js ''machineProfile'')],
            Txt
              (js '' '' @ [8212] @ js '' a name and an inline device contract. Multiple physical machines with the same profile all count as inventory; there is no separate''),
            Txt (js '' ''),
            El ''code'' [] [Txt (js ''MachineProfile'')],
            Txt (js '' CRD.'')]],
      El ''p'' []
        [Txt (js ''Everything else lives in ''),
         El ''code'' [] [Txt (js ''status'')],
         Txt
           (js '', filled in by the controller: phase, conditions, managed cluster observations, provider readiness, per-node capacity and allocatable, aggregated inventory, storage inventory, and allocated NodePorts. Never hand-write status.'')],
      El ''CodeBlock''
        [cls ''not-prose my-6'', (''code'', cellExample), att ''language'' ''yaml'', att ''filename'' ''cell.yaml'']
        [],
      callout cn InfoNote (Some (js ''Device contract, not reservation'')) None
        [Txt
           (js ''The device list is a declarative authorization. The observed allocatable of the resource key is the source of fact. If a Cell declares eight cards but the host only allocates four, the effective capacity is four and a ''),
         El ''code'' [] [Txt (js ''CapabilityMismatch'')],
         Txt (js '' condition is reported.'')]]\<close>

definition concepts_virtualnodeclass :: "node list" where
  \<open>concepts_virtualnodeclass =
     [El ''h2'' [att ''id'' ''virtualnodeclass''] [Txt (js ''VirtualNodeClass'')],
      El ''p'' []
        [Txt (js ''A ''),
         El ''strong'' [] [Txt (js ''VirtualNodeClass'')],
         Txt
           (js '' is a cluster-scoped quota tier. One name maps to one entitlement: the hard requests and limits applied to every child cluster that uses it, plus the storage class for child volumes.'')],
      El ''ul'' []
        [El ''li'' []
           [Txt (js ''The class is applied as a Kubernetes ''),
            El ''code'' [] [Txt (js ''ResourceQuota'')],
            Txt
              (js '' in the child cluster's host namespace, so enforcement happens on the host, not in the child cluster.'')],
         El ''li'' []
           [Txt
              (js ''CPU, memory, and extended resources (accelerators) all follow the same pattern: request equals limit, integer values for devices.'')],
         El ''li'' []
           [Txt
              (js ''Classes are platform-owned. Tenants reference them but never edit them; changing a tier means changing the class, which is a platform action.'')]],
      El ''CodeBlock''
        [cls ''not-prose my-6'',
         (''code'', classExample),
         att ''language'' ''yaml'',
         att ''filename'' ''virtualnodeclass.yaml'']
        []]\<close>

definition concepts_virtualclusterplan :: "class_fn \<Rightarrow> node list" where
  \<open>concepts_virtualclusterplan cn =
     [El ''h2'' [att ''id'' ''virtualclusterplan''] [Txt (js ''VirtualClusterPlan'')],
      El ''p'' []
        [Txt (js ''A ''),
         El ''strong'' [] [Txt (js ''VirtualClusterPlan'')],
         Txt
           (js '' is a side-effect-free preflight. Its spec is isomorphic to a VirtualCluster, so you can copy a plan file into a creation request once it is accepted. The controller evaluates the request against the current Cell inventory and reports exactly one decision:'')],
      El ''div'' [cls ''not-prose my-6 overflow-hidden rounded-xl border border-white/10'']
        [El ''table'' [cls ''w-full border-collapse text-left text-sm'']
           [El ''thead'' []
              [El ''tr'' [cls ''bg-white/[0.03]'']
                 [El ''th'' [cls ''px-4 py-3 font-medium text-muted-foreground''] [Txt (js ''Decision'')],
                  El ''th'' [cls ''px-4 py-3 font-medium text-muted-foreground''] [Txt (js ''Meaning'')],
                  El ''th'' [cls ''px-4 py-3 font-medium text-muted-foreground''] [Txt (js ''What to do'')]]],
            El ''tbody'' [cls ''text-muted-foreground'']
              [El ''tr'' [cls ''border-t border-white/5'']
                 [El ''td'' [cls ''px-4 py-3 font-mono text-xs text-emerald-300''] [Txt (js ''Accepted'')],
                  El ''td'' [cls ''px-4 py-3''] [Txt (js ''Buildable under the current inventory snapshot.'')],
                  El ''td'' [cls ''px-4 py-3''] [Txt (js ''Create the VirtualCluster (rechecked at creation time).'')]],
               El ''tr'' [cls ''border-t border-white/5'']
                 [El ''td'' [cls ''px-4 py-3 font-mono text-xs text-rose-300''] [Txt (js ''Rejected'')],
                  El ''td'' [cls ''px-4 py-3'']
                    [Txt (js ''A required resource is missing: CPU, memory, devices, storage, or ports.'')],
                  El ''td'' [cls ''px-4 py-3'']
                    [Txt (js ''Read ''),
                     El ''code'' [] [Txt (js ''checks'')],
                     Txt (js '' and adjust the request or Cell.'')]],
               El ''tr'' [cls ''border-t border-white/5'']
                 [El ''td'' [cls ''px-4 py-3 font-mono text-xs text-amber-300''] [Txt (js ''Unknown'')],
                  El ''td'' [cls ''px-4 py-3''] [Txt (js ''Inventory is unavailable or stale.'')],
                  El ''td'' [cls ''px-4 py-3''] [Txt (js ''Fix freshness, then retry once observations recover.'')]]]]],
      callout cn WarningNote (Some (js ''Acceptance is not reservation'')) None
        [Txt (js ''Plans evaluate once and never refresh periodically. ''),
         El ''code'' [] [Txt (js ''expiresAt'')],
         Txt
           (js '' marks when the conclusion becomes void, and the controller re-runs feasibility at real creation time. If someone else consumed capacity in between, creation is blocked and the recheck report appears in ''),
         El ''code'' [] [Txt (js ''status.feasibilityChecks'')],
         Txt (js ''.'')],
      El ''CodeBlock''
        [cls ''not-prose my-6'', (''code'', planExample), att ''language'' ''yaml'', att ''filename'' ''plan.yaml'']
        []]\<close>

definition concepts_virtualcluster :: "node list" where
  \<open>concepts_virtualcluster =
     [El ''h2'' [att ''id'' ''virtualcluster''] [Txt (js ''VirtualCluster'')],
      El ''p'' []
        [Txt (js ''A ''),
         El ''strong'' [] [Txt (js ''VirtualCluster'')],
         Txt (js '' is the product. Eight lines of spec: which Cell, which class. The controller does the rest:'')],
      El ''ol'' []
        [El ''li'' [] [Txt (js ''Resolves the Cell and class, then writes an immutable resolution snapshot.'')],
         El ''li'' [] [Txt (js ''Re-runs feasibility and stops on a non-accepted conclusion.'')],
         El ''li'' [] [Txt (js ''Creates the Foundation Work, then the Instance Work once the first is Applied.'')],
         El ''li'' []
           [Txt (js ''Discovers the child API address from host nodes and publishes the admin kubeconfig.'')],
         El ''li'' [] [Txt (js ''Reports readiness, quota usage, and per-reflected-Pod observations in status.'')]],
      El ''p'' []
        [Txt
           (js ''Key fields are immutable: the Cell reference and class reference cannot be silently changed. To move a workload to different hardware, create a new child cluster. To change the size of a child cluster, switch to a different class.'')]]\<close>

definition concepts_logical_node :: "node list" where
  \<open>concepts_logical_node =
     [El ''h2'' [att ''id'' ''logical-node''] [Txt (js ''The logical node'')],
      El ''p'' []
        [Txt (js ''Every child cluster exposes exactly one node, always named ''),
         El ''code'' [] [Txt (js ''kubelet'')],
         Txt
           (js ''. It is an entitlement view, not a physical machine. This is why there are no horizontal fields '' @ [8212] @ js '' no node count, node pools, or replicas '' @ [8212] @ js '' and why DaemonSet-style semantics are unsupported.'')],
      El ''CodeBlock''
        [cls ''not-prose my-6'',
         att ''language'' ''bash'',
         att ''filename'' ''nodes.sh'',
         (''code'',
          join [10]
            [js ''$ kubectl --kubeconfig child-dev.yaml get nodes'',
             js ''NAME      STATUS   ROLES    AGE   VERSION'',
             js ''kubelet   Ready    <none>   42s   v1.34.2+k3s1''])]
        []]\<close>

definition concepts_reflected_pod :: "node list" where
  \<open>concepts_reflected_pod =
     [El ''h2'' [att ''id'' ''reflected-pod''] [Txt (js ''Reflected Pods and PVCs'')],
      El ''p'' []
        [Txt (js ''K3k mirrors child-cluster Pods and PVCs into the child's host namespace. A''),
         Txt (js '' ''),
         El ''strong'' [] [Txt (js ''reflected Pod'')],
         Txt
           (js '' is a real host Pod with identical resource requests, so the host scheduler places it and the namespace quota accounts for it. The same is true for storage: a child PVC becomes a host PVC backed by TopoLVM.'')],
      El ''ul'' []
        [El ''li'' []
           [Txt
              (js ''Scheduling decisions stay in Kubernetes '' @ [8212] @ js '' there is no second scheduler to keep in sync.'')],
         El ''li'' []
           [El ''code'' [] [Txt (js ''hostPath'')],
            Txt (js '' volumes are rejected at admission with a replacement hint pointing to the storage class.'')],
         El ''li'' []
           [Txt
              (js ''Accelerator requests must use the identical extended-resource key in the child and on the host.'')]]]\<close>

definition concepts_works :: "node list" where
  \<open>concepts_works =
     [El ''h2'' [att ''id'' ''works''] [Txt (js ''Foundation Work and Instance Work'')],
      El ''p'' []
        [Txt (js ''The controller renders exactly two OCM ''),
         El ''code'' [] [Txt (js ''ManifestWork'')],
         Txt (js '' objects per child cluster. The split is intentional: guardrails first, workload second.'')],
      El ''div'' [cls ''not-prose my-6 grid gap-4 sm:grid-cols-2'']
        [El ''div'' [cls ''rounded-xl border border-white/10 bg-white/[0.02] p-5'']
           [El ''p'' [cls ''text-sm font-semibold text-foreground''] [Txt (js ''Foundation Work'')],
            El ''ul'' [cls ''mt-3 space-y-2 text-sm leading-6 text-muted-foreground'']
              [El ''li'' [] [Txt (js ''Host namespace with policy labels and annotations'')],
               El ''li'' [] [El ''code'' [] [Txt (js ''ResourceQuota'')], Txt (js '' from the class entitlement'')],
               El ''li'' []
                 [El ''code'' [] [Txt (js ''LimitRange'')], Txt (js '' with 100m CPU / 256Mi memory defaults'')],
               El ''li'' []
                 [El ''code'' [] [Txt (js ''NetworkPolicy'')], Txt (js '' denying cross-namespace traffic'')],
               El ''li'' [] [Txt (js ''Port-forward RBAC for the child cluster'')]]],
         El ''div'' [cls ''rounded-xl border border-white/10 bg-white/[0.02] p-5'']
           [El ''p'' [cls ''text-sm font-semibold text-foreground''] [Txt (js ''Instance Work'')],
            El ''ul'' [cls ''mt-3 space-y-2 text-sm leading-6 text-muted-foreground'']
              [El ''li'' [] [Txt (js ''K3k ''), El ''code'' [] [Txt (js ''Cluster'')], Txt (js '' in Shared mode'')],
               El ''li'' [] [Txt (js ''K3k VirtualClusterPolicy'')],
               El ''li'' [] [Txt (js ''Server Pod, data volume, NodePort Service created by K3k'')],
               El ''li'' [] [Txt (js ''Child admin kubeconfig Secret read back through the proxy'')]]]]]\<close>

definition concepts_snapshot :: "node list" where
  \<open>concepts_snapshot =
     [El ''h2'' [att ''id'' ''snapshot''] [Txt (js ''Resolution snapshot'')],
      El ''p'' []
        [El ''code'' [] [Txt (js ''VirtualCluster.status.resolved'')],
         Txt
           (js '' is the sole basis for steady-state rendering. It records the resolved Cell, class entitlement, storage class, and the platform constants that applied at resolution time. If a class changes later, existing child clusters keep the snapshot they were built from until the operator acts '' @ [8212] @ js '' that is how KubeCell avoids surprise in-place mutations.'')]]\<close>

definition concepts_constants :: "node list" where
  \<open>concepts_constants =
     [El ''h2'' [att ''id'' ''constants''] [Txt (js ''Platform constants vs. API fields'')],
      El ''p'' []
        [Txt
           (js ''A field belongs in a CRD only if it has more than one safe value. Everything else is a platform constant owned by the release:'')],
      El ''div'' [cls ''not-prose my-6 overflow-hidden rounded-xl border border-white/10'']
        [El ''table'' [cls ''w-full border-collapse text-left text-sm'']
           [El ''thead'' []
              [El ''tr'' [cls ''bg-white/[0.03]'']
                 [El ''th'' [cls ''px-4 py-3 font-medium text-muted-foreground''] [Txt (js ''Concern'')],
                  El ''th'' [cls ''px-4 py-3 font-medium text-muted-foreground''] [Txt (js ''Where it lives'')]]],
            El ''tbody'' [cls ''text-muted-foreground'']
              [El ''tr'' [cls ''border-t border-white/5'']
                 [El ''td'' [cls ''px-4 py-3''] [Txt (js ''K3s, K3k, OCM versions'')],
                  El ''td'' [cls ''px-4 py-3''] [Txt (js ''Release bundle, verified by the installer'')]],
               El ''tr'' [cls ''border-t border-white/5'']
                 [El ''td'' [cls ''px-4 py-3''] [Txt (js ''API exposure method and port range'')],
                  El ''td'' [cls ''px-4 py-3''] [Txt (js ''Platform constant; endpoint is discovered into status'')]],
               El ''tr'' [cls ''border-t border-white/5'']
                 [El ''td'' [cls ''px-4 py-3''] [Txt (js ''Ingress apps suffix'')],
                  El ''td'' [cls ''px-4 py-3''] [Txt (js ''Platform-global fixed suffix'')]],
               El ''tr'' [cls ''border-t border-white/5'']
                 [El ''td'' [cls ''px-4 py-3''] [Txt (js ''Default container requests'')],
                  El ''td'' [cls ''px-4 py-3''] [Txt (js ''LimitRange injected by the Foundation Work'')]],
               El ''tr'' [cls ''border-t border-white/5'']
                 [El ''td'' [cls ''px-4 py-3''] [Txt (js ''Quota tier'')],
                  El ''td'' [cls ''px-4 py-3''] [Txt (js ''VirtualNodeClass (the one thing tenants choose)'')]]]]]]\<close>

definition concepts_glossary :: "node list" where
  \<open>concepts_glossary =
     [El ''h2'' [att ''id'' ''glossary''] [Txt (js ''Glossary'')],
      El ''div'' [cls ''not-prose my-6 overflow-hidden rounded-xl border border-white/10'']
        [El ''table'' [cls ''w-full border-collapse text-left text-sm'']
           [El ''tbody'' [cls ''text-muted-foreground'']
              (map
                 (\<lambda>(term, meaning).
                    El ''tr'' [(''key'', term), cls ''border-t border-white/5'']
                      [El ''td'' [cls ''w-52 px-4 py-3 font-medium text-foreground''] [Txt term],
                       El ''td'' [cls ''px-4 py-3''] [Txt meaning]])
                 [(js ''Management cluster'',
                   js ''Single-node K3s carrying the OCM Hub and the KubeCell controller; runs no tenant workloads.''),
                  (js ''ManagedCluster'', js ''OCM registration object representing one Cell host one-to-one.''),
                  (js ''Cell'',
                   js ''One ManagedCluster plus its host K3s cluster; the failure and isolation boundary.''),
                  (js ''VirtualNodeClass'', js ''Cluster-scoped quota tier: hard-limit numbers plus storage class.''),
                  (js ''VirtualCluster'', js ''The child cluster instance; key fields immutable, rich status.''),
                  (js ''VirtualClusterPlan'',
                   js ''Side-effect-free preflight; one-shot evaluation, acceptance is not reservation.''),
                  (js ''Logical child node'',
                   js ''The single node in the child API, always named kubelet; a view, not a machine.''),
                  (js ''Reflected Pod'',
                   js ''Host Pod created by K3k mirroring a child Pod, with identical requests.''),
                  (js ''Cluster proxy / MSA'',
                   js ''OCM mechanisms; the only path by which the controller reads host APIs.''),
                  (js ''appsSuffix'',
                   js ''Platform-global external domain suffix; hostnames derive as <ingress>.<vc>.<suffix>.'')])]],
      El ''p'' []
        [Txt (js ''Next: ''),
         El ''Link'' [att ''href'' ''/docs/installation/'']
           [Txt (js ''install the management plane and onboard a host'')],
         Txt (js '', or jump straight to the''),
         Txt (js '' ''),
         El ''Link'' [att ''href'' ''/docs/api-reference/''] [Txt (js ''API reference'')],
         Txt (js '' for every field.'')]]\<close>

definition conceptsPage :: "class_fn \<Rightarrow> node" where
  \<open>conceptsPage cn =
     prose cn None
       (concepts_intro @
        concepts_cell cn @
        concepts_virtualnodeclass @
        concepts_virtualclusterplan cn @
        concepts_virtualcluster @
        concepts_logical_node @
        concepts_reflected_pod @
        concepts_works @
        concepts_snapshot @
        concepts_constants @
        concepts_glossary)\<close>

section \<open>app/docs/installation/page.tsx\<close>

definition installation_metadata :: "Metadata" where
  \<open>installation_metadata =
     buildMetadata (js ''Installation'')
       (js ''Install KubeCell: pinned versions, prerequisites, the management plane, OCM Hub, host onboarding, and baseline verification in the documented order.'')
       (js ''/docs/installation/'')
       (Some
          [js ''install KubeCell'',
           js ''KubeCell installer'',
           js ''OCM Hub installation'',
           js ''K3s host onboarding'',
           js ''kubecell-management chart''])
       None\<close>

definition prereq :: "jstr" where
  \<open>prereq =
     join [10]
       [js ''# Pinned combination (do not replace silently)'',
        js ''#   host K3s      v1.36.3+k3s1'',
        js ''#   K3k           v1.2.0'',
        js ''#   child K3s     v1.34.2+k3s1'',
        js ''#   OCM Hub       v1.3.1'',
        [],
        js ''# Host nodes carry the profile label and TopoLVM topology labels'',
        js ''kubectl label node <node> hardware.kubecell.io/profile=<profile>'',
        js ''kubectl label node <node> topology.topolvm.io/node=<node>'',
        js ''kubectl label node <node> topology.kubernetes.io/zone=<node>'',
        [],
        js ''# Both clusters must be able to pull the controller image.'',
        js ''# Configure K3s registries.yaml mirrors first and verify with a small image.'']\<close>

definition management_install :: "jstr" where
  \<open>management_install =
     join [10]
       [js ''# 1. CRDs'',
        js ''kubectl apply -f kubecell-release/manifests/crds'',
        [],
        js ''# 2. OCM Hub (pinned version from the bundle)'',
        js ''go run ./cmd/kubecell-installer management '' @ [92],
        js ''  --bundle ./kubecell-release --apply --confirm'',
        [],
        js ''# 3. Verify the management plane'',
        js ''kubectl -n open-cluster-management get pods'',
        js ''kubectl -n kubecell-system get deploy'']\<close>

definition hostJoin :: "jstr" where
  \<open>hostJoin =
     join [10]
       [js ''# Run against the host cluster'',
        js ''export KUBECONFIG=<host-kubeconfig>'',
        [],
        js ''KUBECONFIG=$KUBECONFIG clusteradm join '' @ [92],
        js ''  --hub-token "$(clusteradm get token)" '' @ [92],
        js ''  --hub-apiserver https://hub.example.com:6443 '' @ [92],
        js ''  --cluster-name <cell-name> --wait'']\<close>

definition hostAccept :: "jstr" where
  \<open>hostAccept =
     join [10]
       [js ''# Run against the management cluster'',
        js ''export KUBECONFIG=<hub-kubeconfig>'',
        [],
        js ''KUBECONFIG=$KUBECONFIG clusteradm accept --clusters <cell-name> --wait'']\<close>

definition hostChart :: "jstr" where
  \<open>hostChart =
     join [10]
       [js ''kubectl create ns kubecell-system   # namespaceCreate is false, create it first'',
        [],
        js ''helm install kubecell-host ./charts/kubecell-host '' @ [92],
        js ''  --namespace kubecell-system '' @ [92],
        js ''  --set image.repository=<controller-repo> '' @ [92],
        js ''  --set image.tag=<tag> --set image.pullPolicy=IfNotPresent'']\<close>

definition verify_install :: "jstr" where
  \<open>verify_install =
     join [10]
       [js ''kubectl -n kubecell-system get cell,vnclass,vcp,vc'',
        [],
        js ''# Cell readiness: joined, fresh lease, fresh inventory'',
        js ''kubectl -n kubecell-system get cell cell1 '' @ [92],
        js ''  -o jsonpath='{.status.phase}{"'' @ [92] @ js ''t"}{.status.managedCluster.leaseFresh}{"'' @ [92] @ js ''n"}'' @ [39]]\<close>

record install_step =
  is_title :: jstr
  is_body :: jstr

definition install_order :: "install_step list" where
  \<open>install_order =
     [\<lparr>is_title = js ''Apply CRDs'',
       is_body = js ''Install the four KubeCell CRDs from the release bundle. This is the only step that must happen before anything else.''\<rparr>,
      \<lparr>is_title = js ''Install the OCM Hub'',
       is_body = js ''The management controller writes ManifestWork objects into the hub, so the hub must exist and be pinned to the bundle version.''\<rparr>,
      \<lparr>is_title = js ''Install the management chart'',
       is_body = js ''Deploys the controller, webhook, RBAC, and the optional Kite dashboard. Requires both --apply and --confirm.''\<rparr>,
      \<lparr>is_title = js ''Join the host'',
       is_body = js ''Run the locked clusteradm join command on the host. The ManagedCluster name must equal the future Cell name.''\<rparr>,
      \<lparr>is_title = js ''Approve the ManagedCluster'',
       is_body = js ''clusteradm accept is a mandatory manual safety gate. KubeCell never auto-approves a host.''\<rparr>,
      \<lparr>is_title = js ''Install the host chart and baseline'',
       is_body = js ''The host chart installs the webhook; the installer installs the pinned baseline: K3k, TopoLVM, Traefik, Device Plugin.''\<rparr>,
      \<lparr>is_title = js ''Generate the Cell and verify'',
       is_body = js ''host --step=cell produces the Cell from live discovery. Apply it, then confirm joined, fresh lease, and fresh inventory.''\<rparr>,
      \<lparr>is_title = js ''Create class, plan, and child'',
       is_body = js ''Draft a quota tier with suggest-class, then follow the first VirtualCluster guide.''\<rparr>]\<close>

definition installation_intro :: "class_fn \<Rightarrow> node list" where
  \<open>installation_intro cn =
     [El ''p'' [cls ''font-mono text-xs uppercase tracking-[0.2em] text-sky-400''] [Txt (js ''Getting started'')],
      El ''h1'' [cls ''mt-3 text-3xl font-semibold tracking-tight text-foreground sm:text-4xl'']
        [Txt (js ''Installation'')],
      El ''p'' [cls ''mt-5 text-base leading-7 text-muted-foreground'']
        [Txt
           (js ''KubeCell installs in a fixed order. Deviating from it is the most common cause of confusing failures, so treat this page as a checklist rather than a menu.'')],
      callout cn WarningNote (Some (js ''Pre-release'')) None
        [Txt
           (js ''KubeCell is not production ready. Install it in a lab with disposable hosts until the hardening milestones complete.'')]]\<close>

definition installation_prerequisites :: "node list" where
  \<open>installation_prerequisites =
     [El ''h2'' [att ''id'' ''prerequisites''] [Txt (js ''Prerequisites'')],
      El ''p'' []
        [Txt
           (js ''Both clusters must be reachable from your workstation, able to pull the controller image, and running the pinned versions. Host nodes need profile and TopoLVM topology labels '' @ [8212] @ js '' labels do not survive a node rebuild, so re-apply them after any reinstall.'')],
      El ''CodeBlock''
        [cls ''not-prose my-6'', (''code'', prereq), att ''language'' ''bash'', att ''filename'' ''prerequisites.sh'']
        []]\<close>

definition installation_order :: "node list" where
  \<open>installation_order =
     [El ''h2'' [att ''id'' ''order''] [Txt (js ''Installation order'')],
      El ''ol'' []
        (map
           (\<lambda>step.
              El ''li'' [(''key'', is_title step)]
                [El ''strong'' [] [Txt (is_title step), Txt (js ''.'')], Txt (js '' ''), Txt (is_body step)])
           install_order)]\<close>

definition installation_management :: "class_fn \<Rightarrow> node list" where
  \<open>installation_management cn =
     [El ''h2'' [att ''id'' ''management''] [Txt (js ''Management plane'')],
      El ''p'' []
        [Txt
           (js ''The management cluster is a single-node K3s that holds desired state and observations only. It runs no tenant workloads. Its K3s version may differ from the hosts.'')],
      El ''CodeBlock''
        [cls ''not-prose my-6'',
         (''code'', management_install),
         att ''language'' ''bash'',
         att ''filename'' ''management.sh'']
        [],
      callout cn InfoNote (Some (js ''Dry-run by default'')) None
        [Txt (js ''The installer is read-only unless you pass both ''),
         El ''code'' [] [Txt (js ''--apply'')],
         Txt (js '' and''),
         Txt (js '' ''),
         El ''code'' [] [Txt (js ''--confirm'')],
         Txt (js ''. ''),
         El ''code'' [] [Txt (js ''doctor'')],
         Txt (js '' never mutates anything.'')]]\<close>

definition installation_host :: "node list" where
  \<open>installation_host =
     [El ''h2'' [att ''id'' ''host''] [Txt (js ''Host onboarding'')],
      El ''p'' []
        [Txt
           (js ''Joining is a two-step operation with a manual approval in between. The approval exists so a compromised or misconfigured host cannot register itself into your fleet unnoticed.'')],
      El ''CodeBlock''
        [cls ''not-prose my-6'', (''code'', hostJoin), att ''language'' ''bash'', att ''filename'' ''join.sh'']
        [],
      El ''CodeBlock''
        [cls ''not-prose my-6'', (''code'', hostAccept), att ''language'' ''bash'', att ''filename'' ''accept.sh'']
        [],
      El ''CodeBlock''
        [cls ''not-prose my-6'', (''code'', hostChart), att ''language'' ''bash'', att ''filename'' ''host-chart.sh'']
        [],
      El ''p'' []
        [Txt
           (js ''The installer then installs the host baseline at pinned versions, idempotently: K3k, TopoLVM, Traefik, the vendor Device Plugin, and profile labels. The controller never installs these itself.'')]]\<close>

definition installation_cell :: "node list" where
  \<open>installation_cell =
     [El ''h2'' [att ''id'' ''cell''] [Txt (js ''Generate the Cell'')],
      El ''p'' []
        [Txt
           (js ''Do not hand-write a Cell from memory. Generate it from live host discovery so the machine profile matches reality, then apply it.'')],
      El ''CodeBlock''
        [cls ''not-prose my-6'',
         att ''language'' ''bash'',
         att ''filename'' ''cell.sh'',
         (''code'',
          join [10]
            [js ''go run ./cmd/kubecell-installer host --step=cell --cell <cell-name> '' @ [92],
             js ''  --kubeconfig <host-kubeconfig> | grep -v '^#' > cell.yaml'',
             [],
             js ''kubectl apply -n kubecell-system -f cell.yaml''])]
        [],
      El ''CodeBlock''
        [cls ''not-prose my-6'',
         (''code'', verify_install),
         att ''language'' ''bash'',
         att ''filename'' ''verify.sh'']
        []]\<close>

definition installation_dashboard :: "node list" where
  \<open>installation_dashboard =
     [El ''h2'' [att ''id'' ''dashboard''] [Txt (js ''Optional: Kite dashboard'')],
      El ''p'' []
        [Txt (js ''The ''),
         El ''code'' [] [Txt (js ''kubecell-management'')],
         Txt (js '' chart bundles the kite-org dashboard as a conditional dependency (''),
         El ''code'' [] [Txt (js ''kite.enabled'')],
         Txt
           (js '', on by default). It runs single-node with sqlite, exposes a NodePort Service, and uses a dedicated ServiceAccount. Pass the initial superuser password at install time; never commit it.'')]]\<close>

definition installation_uninstall :: "node list" where
  \<open>installation_uninstall =
     [El ''h2'' [att ''id'' ''uninstall''] [Txt (js ''Uninstall and boundaries'')],
      El ''ul'' []
        [El ''li'' []
           [Txt (js ''The installer only touches the selected KubeCell release. OCM Hub,''),
            Txt (js '' ''),
            El ''code'' [] [Txt (js ''ManagedCluster'')],
            Txt (js '', and klusterlet follow the OCM lifecycle and are out of Helm uninstall scope.'')],
         El ''li'' []
           [Txt
              (js ''Uninstalling a Helm release is not the same as uninstalling OCM. Remove registrations deliberately.'')],
         El ''li'' []
           [Txt
              (js ''Deleting a VirtualCluster is safe and finalizer-scoped; deleting the management plane while child clusters exist is not a supported cleanup path.'')]],
      El ''p'' []
        [Txt (js ''Next: ''),
         El ''Link'' [att ''href'' ''/docs/host-onboarding/''] [Txt (js ''host onboarding in four commands'')],
         Txt (js '' or''),
         Txt (js '' ''),
         El ''Link'' [att ''href'' ''/docs/first-virtualcluster/''] [Txt (js ''create your first VirtualCluster'')],
         Txt (js ''.'')]]\<close>

definition installationPage :: "class_fn \<Rightarrow> node" where
  \<open>installationPage cn =
     prose cn None
       (installation_intro cn @
        installation_prerequisites @
        installation_order @
        installation_management cn @
        installation_host @
        installation_cell @
        installation_dashboard @
        installation_uninstall)\<close>

section \<open>app/docs/host-onboarding/page.tsx\<close>

definition onboarding_metadata :: "Metadata" where
  \<open>onboarding_metadata =
     buildMetadata (js ''Host onboarding'')
       (js ''Onboard physical hosts as KubeCell Cells with four commands: doctor, join, accept, chart. Includes Cell generation, class drafting, appending workers, and a troubleshooting table.'')
       (js ''/docs/host-onboarding/'')
       (Some
          [js ''KubeCell host onboarding'',
           js ''clusteradm join'',
           js ''ManagedCluster accept'',
           js ''kubecell-host chart'',
           js ''suggest-class''])
       None\<close>

definition doctor :: "jstr" where
  \<open>doctor =
     join [10]
       [js ''go run ./cmd/kubecell-installer doctor management --bundle <release-dir>'',
        js ''go run ./cmd/kubecell-installer doctor host --bundle <release-dir> '' @ [92],
        js ''  --device huawei.com/Ascend910'']\<close>

definition four_commands :: "jstr" where
  \<open>four_commands =
     join [10]
       [js ''# 1. join '' @ [8212] @ js '' host context'',
        js ''KUBECONFIG=<host-kubeconfig> clusteradm join '' @ [92],
        js ''  --hub-token "$(clusteradm get token)" '' @ [92],
        js ''  --hub-apiserver https://hub.example.com:6443 '' @ [92],
        js ''  --cluster-name <cell-name> --wait'',
        [],
        js ''# 2. accept '' @ [8212] @ js '' management context (mandatory manual gate)'',
        js ''KUBECONFIG=<hub-kubeconfig> clusteradm accept --clusters <cell-name> --wait'',
        [],
        js ''# 3. chart '' @ [8212] @ js '' install the host chart'',
        js ''kubectl create ns kubecell-system'',
        js ''helm install kubecell-host ./charts/kubecell-host '' @ [92],
        js ''  --namespace kubecell-system '' @ [92],
        js ''  --set image.repository=<controller-repo> '' @ [92],
        js ''  --set image.tag=<tag> --set image.pullPolicy=IfNotPresent'',
        [],
        js ''# 4. cell '' @ [8212] @ js '' generate from live discovery, then apply'',
        js ''go run ./cmd/kubecell-installer host --step=cell --cell <cell-name> '' @ [92],
        js ''  --kubeconfig <host-kubeconfig> | grep -v '^#' > cell.yaml'',
        js ''kubectl apply -n kubecell-system -f cell.yaml'']\<close>

definition suggest_class :: "jstr" where
  \<open>suggest_class =
     join [10]
       [js ''go run ./cmd/kubecell-installer suggest-class '' @ [92],
        js ''  --cell-file cell.yaml --name <class-name>'',
        [],
        js ''# The draft reflects observed allocatable capacity.'',
        js ''# Adjust the numbers down to the tenant envelope you are comfortable with,'',
        js ''# then apply the VirtualNodeClass.'']\<close>

definition append_workers :: "jstr" where
  \<open>append_workers =
     join [10]
       [js ''# Case B: append same-profile workers to an existing Cell'',
        js ''# 1. Join the existing host cluster as a K3s agent with an independent data directory.'',
        js ''#    This deletes no data on that machine and runs no OCM onboarding.'',
        js ''# 2. Re-apply profile and topology labels, wait for node Ready and platform DaemonSets.'',
        js ''# 3. Confirm the new node appears in inventory:'',
        js ''kubectl -n kubecell-system get cell <cell-name> '' @ [92],
        js ''  -o jsonpath='{range .status.nodes[*]}{.name}{"'' @ [92] @ js ''t"}{.ready}{"'' @ [92] @ js ''n"}{end}'' @ [39]]\<close>

definition symptoms :: "(jstr \<times> jstr \<times> jstr) list" where
  \<open>symptoms =
     [(js ''clusteradm init reports success but installs nothing'',
       js ''Wrong kubeconfig context'',
       js ''Re-run with an explicit KUBECONFIG= prefix''),
      (js ''OCM components stuck in ImagePullBackOff'',
       js ''Image not available from the configured mirror'',
       js ''Fix the component PullSpec to a reachable registry''),
      (js ''Preloaded image not recognized by kubelet'',
       js ''Short tag or incomplete layers'',
       js ''Re-tag with the fully qualified name and verify with crictl inspecti''),
      (js ''Child CoreDNS Pending'',
       js ''Third-party Pod without resources blocked by LimitRange'',
       js ''Covered by the kubecell-defaults baseline in the Foundation Work''),
      (js ''Child PVC reports no free storage'',
       js ''Missing TopoLVM topology labels'',
       js ''Re-apply topology.topolvm.io/node and topology.kubernetes.io/zone labels''),
      (js ''TopoLVM CSINode has no driver'',
       js ''Custom kubelet root directory not passed to the chart'',
       js ''Pass it with --set on the host chart''),
      (js ''Traefik :80 unreachable'',
       js ''Conflicting Service or stale host-port binding'',
       js ''Use hostNetwork via values, remove stale load-balancer helpers, clear stale NAT chains''),
      (js ''Child Ingress returns 503'',
       js ''Mirrored Endpoints carry a mismatched port name'',
       js ''The controller strips port names; for older clusters clear the port name to ""''),
      (js ''Volumes remain after VirtualCluster deletion'',
       js ''Orphaned logical volumes after the child API is gone'',
       js ''Remove only cluster-created volumes with lvremove; leave the volume group intact''),
      (js ''Zero accelerators reported'',
       js ''Device Plugin registration mismatch'',
       js ''Check plugin Pod logs for registration failures before changing anything'')]\<close>

definition onboarding_intro :: "class_fn \<Rightarrow> node list" where
  \<open>onboarding_intro cn =
     [El ''p'' [cls ''font-mono text-xs uppercase tracking-[0.2em] text-sky-400''] [Txt (js ''Getting started'')],
      El ''h1'' [cls ''mt-3 text-3xl font-semibold tracking-tight text-foreground sm:text-4xl'']
        [Txt (js ''Host onboarding'')],
      El ''p'' [cls ''mt-5 text-base leading-7 text-muted-foreground'']
        [Txt
           (js ''Humans run four commands. The installer owns the release bundle, the pinned versions, and the baseline. This page is the operational companion to the''),
         Txt (js '' ''),
         El ''a'' [att ''href'' ''https://github.com/taosher/KubeCell/blob/main/docs/operations/host-onboarding.md'']
           [Txt (js ''repository guide'')],
         Txt (js ''.'')],
      callout cn InfoNote (Some (js ''Conventions'')) None
        [El ''code'' [] [Txt (js ''KUBECONFIG_HUB'')],
         Txt (js '' points at the management cluster and''),
         Txt (js '' ''),
         El ''code'' [] [Txt (js ''KUBECONFIG_HOST'')],
         Txt (js '' at the host cluster. Always pass an explicit''),
         Txt (js '' ''),
         El ''code'' [] [Txt (js ''KUBECONFIG='')],
         Txt (js '' so a command cannot target the wrong cluster.'')]]\<close>

definition onboarding_prerequisites :: "node list" where
  \<open>onboarding_prerequisites =
     [El ''h2'' [att ''id'' ''prerequisites''] [Txt (js ''0. Prerequisites (platform team, one time)'')],
      El ''ul'' []
        [El ''li'' []
           [Txt (js ''Pinned versions from the release: host K3s ''),
            El ''code'' [] [Txt (js ''v1.36.3+k3s1'')],
            Txt (js '', K3k''),
            Txt (js '' ''),
            El ''code'' [] [Txt (js ''v1.2.0'')],
            Txt (js '', child K3s ''),
            El ''code'' [] [Txt (js ''v1.34.2+k3s1'')],
            Txt (js '', OCM Hub ''),
            El ''code'' [] [Txt (js ''v1.3.1'')],
            Txt (js ''.'')],
         El ''li'' [] [Txt (js ''Registry mirrors configured and verified with a small image pull.'')],
         El ''li'' []
           [Txt (js ''Profile and topology labels on every host node:''),
            Txt (js '' ''),
            El ''code'' [] [Txt (js ''hardware.kubecell.io/profile'')],
            Txt (js '', ''),
            El ''code'' [] [Txt (js ''topology.topolvm.io/node'')],
            Txt (js '',''),
            Txt (js '' ''),
            El ''code'' [] [Txt (js ''topology.kubernetes.io/zone'')],
            Txt (js ''.'')],
         El ''li'' [] [Txt (js ''Controller image available to both clusters, matching architecture.'')]]]\<close>

definition onboarding_doctor :: "node list" where
  \<open>onboarding_doctor =
     [El ''h2'' [att ''id'' ''doctor''] [Txt (js ''1. doctor '' @ [8212] @ js '' read-only preflight'')],
      El ''CodeBlock''
        [cls ''not-prose my-6'', (''code'', doctor), att ''language'' ''bash'', att ''filename'' ''doctor.sh'']
        [],
      El ''p'' []
        [Txt
           (js ''Stop at the first failure. On the host side, confirm: nodes Ready, profile labels present, TopoLVM capacity available, and accelerator resources reported by the Device Plugin.'')]]\<close>

definition onboarding_four_commands :: "class_fn \<Rightarrow> node list" where
  \<open>onboarding_four_commands cn =
     [El ''h2'' [att ''id'' ''four-commands''] [Txt (js ''2. The four commands'')],
      El ''CodeBlock''
        [cls ''not-prose my-6'',
         (''code'', four_commands),
         att ''language'' ''bash'',
         att ''filename'' ''four-commands.sh'']
        [],
      callout cn WarningNote (Some (js ''Do not reuse a stale token'')) None
        [Txt (js ''Between fetching the hub token and running ''),
         El ''code'' [] [Txt (js ''clusteradm join'')],
         Txt (js '', do not call''),
         Txt (js '' ''),
         El ''code'' [] [Txt (js ''get token'')],
         Txt
           (js '' twice '' @ [8212] @ js '' the older token may expire. The ManagedCluster name must equal the future Cell name; the generator enforces this.'')]]\<close>

definition onboarding_class :: "node list" where
  \<open>onboarding_class =
     [El ''h2'' [att ''id'' ''class''] [Txt (js ''3. Cell and class'')],
      El ''p'' []
        [Txt
           (js ''The Cell comes from live discovery, so you only apply it. The class is drafted from observed allocatable capacity and then tuned down to the tenant envelope.'')],
      El ''CodeBlock''
        [cls ''not-prose my-6'',
         (''code'', suggest_class),
         att ''language'' ''bash'',
         att ''filename'' ''suggest-class.sh'']
        []]\<close>

definition onboarding_append_workers :: "node list" where
  \<open>onboarding_append_workers =
     [El ''h2'' [att ''id'' ''append-workers''] [Txt (js ''4. Appending same-profile workers (Case B)'')],
      El ''p'' []
        [Txt
           (js ''Growing an existing Cell does not create a new Cell and does not run OCM onboarding. Join the new machine as a K3s agent of the same host cluster, label it, and confirm it shows up in inventory. Existing workloads are neither migrated nor interrupted.'')],
      El ''CodeBlock''
        [cls ''not-prose my-6'',
         (''code'', append_workers),
         att ''language'' ''bash'',
         att ''filename'' ''append-workers.sh'']
        []]\<close>

definition onboarding_troubleshooting :: "node list" where
  \<open>onboarding_troubleshooting =
     [El ''h2'' [att ''id'' ''troubleshooting''] [Txt (js ''5. Troubleshooting quick reference'')],
      El ''div'' [cls ''not-prose my-6 overflow-hidden rounded-xl border border-white/10'']
        [El ''div'' [cls ''overflow-x-auto'']
           [El ''table'' [cls ''w-full min-w-[720px] border-collapse text-left text-sm'']
              [El ''thead'' []
                 [El ''tr'' [cls ''bg-white/[0.03]'']
                    [El ''th'' [cls ''px-4 py-3 font-medium text-muted-foreground''] [Txt (js ''Symptom'')],
                     El ''th'' [cls ''px-4 py-3 font-medium text-muted-foreground''] [Txt (js ''Likely cause'')],
                     El ''th'' [cls ''px-4 py-3 font-medium text-muted-foreground''] [Txt (js ''Action'')]]],
               El ''tbody'' [cls ''text-muted-foreground'']
                 (map
                    (\<lambda>(symptom, cause, action).
                       El ''tr'' [(''key'', symptom), cls ''border-t border-white/5'']
                         [El ''td'' [cls ''px-4 py-3 text-foreground/85''] [Txt symptom],
                          El ''td'' [cls ''px-4 py-3''] [Txt cause],
                          El ''td'' [cls ''px-4 py-3''] [Txt action]])
                    symptoms)]]],
      El ''p'' []
        [Txt (js ''Next: ''),
         El ''Link'' [att ''href'' ''/docs/first-virtualcluster/''] [Txt (js ''create your first VirtualCluster'')],
         Txt (js ''.'')]]\<close>

definition hostOnboardingPage :: "class_fn \<Rightarrow> node" where
  \<open>hostOnboardingPage cn =
     prose cn None
       (onboarding_intro cn @
        onboarding_prerequisites @
        onboarding_doctor @
        onboarding_four_commands cn @
        onboarding_class @
        onboarding_append_workers @
        onboarding_troubleshooting)\<close>

section \<open>app/docs/first-virtualcluster/page.tsx\<close>

definition first_metadata :: "Metadata" where
  \<open>first_metadata =
     buildMetadata (js ''Create your first VirtualCluster'')
       (js ''Create a Cell, draft a VirtualNodeClass, preflight with a VirtualClusterPlan, create a VirtualCluster, export the admin kubeconfig, and verify workloads, storage, and ingress.'')
       (js ''/docs/first-virtualcluster/'')
       (Some
          [js ''create VirtualCluster'',
           js ''KubeCell kubeconfig'',
           js ''KubeCell Plan Accepted'',
           js ''child cluster verification''])
       None\<close>

definition planYaml :: "jstr" where
  \<open>planYaml =
     join [10]
       [js ''apiVersion: kubecell.io/v1alpha1'',
        js ''kind: VirtualClusterPlan'',
        js ''metadata:'',
        js ''  name: child-dev-plan'',
        js ''  namespace: kubecell-system'',
        js ''spec:'',
        js ''  cellRef: {name: cell1}'',
        js ''  classRef: {name: ascend-910b-small}'']\<close>

definition first_vcYaml :: "jstr" where
  \<open>first_vcYaml =
     join [10]
       [js ''apiVersion: kubecell.io/v1alpha1'',
        js ''kind: VirtualCluster'',
        js ''metadata:'',
        js ''  name: child-dev'',
        js ''  namespace: kubecell-system'',
        js ''spec:'',
        js ''  cellRef: {name: cell1}'',
        js ''  classRef: {name: ascend-910b-small}'']\<close>

definition kubeconfig :: "jstr" where
  \<open>kubeconfig =
     join [10]
       [js ''VC=child-dev'',
        [],
        js ''# The Secret name embeds the VirtualCluster UID'',
        js ''SECRET=$(kubectl -n kubecell-system get vc $VC '' @ [92],
        js ''  -o jsonpath='{.status.credential.secretName}')'',
        [],
        js ''kubectl -n kubecell-system get secret "$SECRET" '' @ [92],
        js ''  -o jsonpath='{.data.kubeconfig'' @ [92] @ js ''.yaml}' | base64 -d > $VC.yaml'',
        js ''chmod 600 $VC.yaml'',
        [],
        js ''kubectl --kubeconfig $VC.yaml get nodes'',
        js ''kubectl --kubeconfig $VC.yaml get ns'']\<close>

definition workload :: "jstr" where
  \<open>workload =
     join [10]
       [js ''cat <<'EOF' | kubectl --kubeconfig child-dev.yaml apply -f -'',
        js ''apiVersion: v1'',
        js ''kind: Pod'',
        js ''metadata:'',
        js ''  name: cpu-smoke'',
        js ''spec:'',
        js ''  containers:'',
        js ''  - name: app'',
        js ''    image: registry.k8s.io/pause:3.10'',
        js ''    resources:'',
        js ''      requests: {cpu: 100m, memory: 128Mi}'',
        js ''      limits: {cpu: 200m, memory: 256Mi}'',
        js ''EOF'',
        [],
        js ''# Confirm the reflected host Pod and quota accounting'',
        js ''kubectl -n kubecell-system get vc child-dev '' @ [92],
        js ''  -o jsonpath='{.status.host.quotaUsed}{"'' @ [92] @ js ''n"}'' @ [39]]\<close>

definition first_intro :: "node list" where
  \<open>first_intro =
     [El ''p'' [cls ''font-mono text-xs uppercase tracking-[0.2em] text-sky-400''] [Txt (js ''Getting started'')],
      El ''h1'' [cls ''mt-3 text-3xl font-semibold tracking-tight text-foreground sm:text-4xl'']
        [Txt (js ''Create your first VirtualCluster'')],
      El ''p'' [cls ''mt-5 text-base leading-7 text-muted-foreground'']
        [Txt
           (js ''This guide assumes a Ready Cell and an existing quota tier. If you have not onboarded a host yet, start with ''),
         El ''Link'' [att ''href'' ''/docs/host-onboarding/''] [Txt (js ''host onboarding'')],
         Txt (js ''.'')]]\<close>

definition first_prerequisites :: "node list" where
  \<open>first_prerequisites =
     [El ''h2'' [att ''id'' ''prerequisites''] [Txt (js ''Before you start'')],
      El ''ul'' []
        [El ''li'' []
           [Txt (js ''The target Cell is ''),
            El ''strong'' [] [Txt (js ''Ready'')],
            Txt (js '': OCM ''),
            El ''code'' [] [Txt (js ''Joined=True'')],
            Txt (js '', a fresh''),
            Txt (js '' ''),
            El ''code'' [] [Txt (js ''managed-cluster-lease'')],
            Txt (js '', and fresh inventory.'')],
         El ''li'' []
           [Txt (js ''The quota tier (''),
            El ''code'' [] [Txt (js ''VirtualNodeClass'')],
            Txt (js '') you intend to use already exists.'')],
         El ''li'' []
           [Txt (js ''You are applying into ''),
            El ''code'' [] [Txt (js ''kubecell-system'')],
            Txt (js '' on the management cluster, where the controller lives.'')]]]\<close>

definition first_inspect :: "class_fn \<Rightarrow> node list" where
  \<open>first_inspect cn =
     [El ''h2'' [att ''id'' ''inspect''] [Txt (js ''1. Inspect the Cell before requesting anything'')],
      El ''p'' []
        [Txt
           (js ''Feasibility conclusions are only as good as the inventory they read. Check freshness first, then look at headroom.'')],
      El ''CodeBlock''
        [cls ''not-prose my-6'',
         att ''language'' ''bash'',
         att ''filename'' ''inspect.sh'',
         (''code'',
          join [10]
            [js ''kubectl -n kubecell-system get cell cell1 -o yaml | less'',
             [],
             js ''# Things to look at in status:'',
             js ''#   conditions        -> InventoryFresh must be true'',
             js ''#   nodes[]           -> per-node capacity, allocatable, active/pending requests'',
             js ''#   inventory         -> aggregated available estimates per resource'',
             js ''#   storageInventory  -> freeCapacityKnown and freshness''])]
        [],
      callout cn WarningNote (Some (js ''Stop if inventory is stale'')) None
        [Txt (js ''If ''),
         El ''code'' [] [Txt (js ''InventoryFresh'')],
         Txt
           (js '' is false or key inventory is unknown, do not create anything. Contact operations; no feasibility conclusion is trustworthy at that point.'')]]\<close>

definition first_plan :: "node list" where
  \<open>first_plan =
     [El ''h2'' [att ''id'' ''plan''] [Txt (js ''2. Preflight with a Plan'')],
      El ''p'' []
        [Txt (js ''Write a VirtualClusterPlan with exactly the content you intend to create. Wait for''),
         Txt (js '' ''),
         El ''code'' [] [Txt (js ''status.decision'')],
         Txt (js '' and read ''),
         El ''code'' [] [Txt (js ''checks'')],
         Txt (js '' when it is rejected.'')],
      El ''CodeBlock''
        [cls ''not-prose my-6'', (''code'', planYaml), att ''language'' ''yaml'', att ''filename'' ''plan.yaml'']
        [],
      El ''CodeBlock''
        [cls ''not-prose my-6'',
         att ''language'' ''bash'',
         att ''filename'' ''decision.sh'',
         (''code'',
          join [10]
            [js ''kubectl apply -f plan.yaml'',
             js ''kubectl -n kubecell-system get vcp child-dev-plan '' @ [92],
             js ''  -o jsonpath='{.status.decision}{"'' @ [92] @ js ''n"}'' @ [39],
             [],
             js ''# Rejected? Read the failed items and adjust the request or the Cell.'',
             js ''kubectl -n kubecell-system get vcp child-dev-plan '' @ [92],
             js ''  -o jsonpath='{range .status.checks[*]}{.resource}{"'' @ [92] @ js ''t"}{.result}{"'' @ [92] @ js ''n"}{end}'' @ [39]])]
        [],
      El ''p'' []
        [El ''code'' [] [Txt (js ''Accepted'')],
         Txt (js '' means buildable under the current snapshot; ''),
         El ''code'' [] [Txt (js ''Rejected'')],
         Txt (js '' means a specific resource is missing; ''),
         El ''code'' [] [Txt (js ''Unknown'')],
         Txt
           (js '' means the inventory was insufficient to decide. Remember that acceptance is not reservation: the controller rechecks at creation time.'')]]\<close>

definition first_create :: "node list" where
  \<open>first_create =
     [El ''h2'' [att ''id'' ''create''] [Txt (js ''3. Create the VirtualCluster'')],
      El ''p'' []
        [Txt
           (js ''The Plan and the VirtualCluster are isomorphic '' @ [8212] @ js '' the same file with a different''),
         Txt (js '' ''),
         El ''code'' [] [Txt (js ''kind'')],
         Txt (js ''. The webhook validates that references exist and quota keys are legal.'')],
      El ''CodeBlock''
        [cls ''not-prose my-6'',
         (''code'', first_vcYaml),
         att ''language'' ''yaml'',
         att ''filename'' ''virtualcluster.yaml'']
        [],
      El ''CodeBlock''
        [cls ''not-prose my-6'',
         att ''language'' ''bash'',
         att ''filename'' ''wait.sh'',
         (''code'',
          join [10]
            [js ''kubectl apply -f virtualcluster.yaml'',
             [],
             js ''# The first Ready transition typically takes 10-20 minutes (image pulls).'',
             js ''kubectl -n kubecell-system wait --for=condition=Ready vc/child-dev --timeout=25m'',
             js ''kubectl -n kubecell-system get vc child-dev -o wide''])]
        []]\<close>

definition first_kubeconfig :: "node list" where
  \<open>first_kubeconfig =
     [El ''h2'' [att ''id'' ''kubeconfig''] [Txt (js ''4. Fetch the admin kubeconfig'')],
      El ''p'' []
        [Txt
           (js ''The controller reads the K3k-generated kubeconfig through the OCM proxy, rewrites the server address to the discovered host address and NodePort, and publishes it as a Secret in the management plane. The Secret is always published; treat it as a credential.'')],
      El ''CodeBlock''
        [cls ''not-prose my-6'',
         (''code'', kubeconfig),
         att ''language'' ''bash'',
         att ''filename'' ''kubeconfig.sh'']
        []]\<close>

definition first_verify :: "node list" where
  \<open>first_verify =
     [El ''h2'' [att ''id'' ''verify''] [Txt (js ''5. Verify workloads, storage, and ingress'')],
      El ''CodeBlock''
        [cls ''not-prose my-6'', (''code'', workload), att ''language'' ''bash'', att ''filename'' ''workload.sh'']
        [],
      El ''ul'' []
        [El ''li'' []
           [Txt (js ''The child cluster has exactly one node named ''),
            El ''code'' [] [Txt (js ''kubelet'')],
            Txt (js ''.'')],
         El ''li'' []
           [Txt
              (js ''A child PVC becomes a host PVC backed by TopoLVM; check that it binds, not just that it is created.'')],
         El ''li'' []
           [El ''code'' [] [Txt (js ''hostPath'')],
            Txt
              (js '' volumes are rejected at admission with a replacement hint '' @ [8212] @ js '' this is expected behavior, not a bug.'')],
         El ''li'' []
           [Txt (js ''Ingress: create a standard Ingress with class ''),
            El ''code'' [] [Txt (js ''kubecell'')],
            Txt (js '' in the child cluster, then reach it at ''),
            El ''code'' [] [Txt (js ''http://<ingress>.<vc>.apps.example.com'')],
            Txt (js ''.'')]]]\<close>

definition first_delete :: "node list" where
  \<open>first_delete =
     [El ''h2'' [att ''id'' ''delete''] [Txt (js ''6. Delete it cleanly'')],
      El ''CodeBlock''
        [cls ''not-prose my-6'',
         att ''language'' ''bash'',
         att ''filename'' ''delete.sh'',
         (''code'',
          join [10]
            [js ''kubectl -n kubecell-system delete vc child-dev'',
             [],
             js ''# The finalizer removes both ManifestWorks by UID, which removes the host'',
             js ''# namespace, quota, policy, and the K3k cluster. Under Retain, PVs become'',
             js ''# Released and data is preserved.''])]
        [],
      El ''p'' []
        [Txt (js ''Next: ''),
         El ''Link'' [att ''href'' ''/docs/operations/''] [Txt (js ''day-2 operations'')],
         Txt (js '', or jump to the''),
         Txt (js '' ''),
         El ''Link'' [att ''href'' ''/docs/troubleshooting/''] [Txt (js ''troubleshooting guide'')],
         Txt (js '' if something is not Ready.'')]]\<close>

definition firstVirtualClusterPage :: "class_fn \<Rightarrow> node" where
  \<open>firstVirtualClusterPage cn =
     prose cn None
       (first_intro @
        first_prerequisites @
        first_inspect cn @
        first_plan @
        first_create @
        first_kubeconfig @
        first_verify @
        first_delete)\<close>

section \<open>The contract of a page\<close>

lemmas overview_defs =
  docs_intro_def docs_what_it_is_def docs_what_it_is_not_def docs_mental_model_def docs_architecture_def
  docs_principles_def docs_who_def docs_status_def docsOverviewPage_def

interpretation overview: site_page env "js ''/docs/''" "{}" "[docsOverviewPage cn]" for env cn
  by unfold_locales (simp_all add: overview_defs architectureBeam_eval page_eval cong: opaque)

lemmas concepts_defs =
  concepts_intro_def concepts_cell_def concepts_virtualnodeclass_def concepts_virtualclusterplan_def
  concepts_virtualcluster_def concepts_logical_node_def concepts_reflected_pod_def concepts_works_def
  concepts_snapshot_def concepts_constants_def concepts_glossary_def conceptsPage_def

interpretation concepts: site_page env "js ''/docs/concepts/''" "{}" "[conceptsPage cn]" for env cn
  by unfold_locales (simp_all add: concepts_defs page_eval cong: opaque)

lemmas installation_defs =
  install_order_def installation_intro_def installation_prerequisites_def installation_order_def
  installation_management_def installation_host_def installation_cell_def installation_dashboard_def
  installation_uninstall_def installationPage_def

interpretation installation: site_page env "js ''/docs/installation/''" "{}" "[installationPage cn]" for env cn
  by unfold_locales (simp_all add: installation_defs page_eval cong: opaque)

lemmas onboarding_defs =
  symptoms_def onboarding_intro_def onboarding_prerequisites_def onboarding_doctor_def onboarding_four_commands_def
  onboarding_class_def onboarding_append_workers_def onboarding_troubleshooting_def hostOnboardingPage_def

interpretation onboarding: site_page env "js ''/docs/host-onboarding/''" "{}" "[hostOnboardingPage cn]" for env cn
  by unfold_locales (simp_all add: onboarding_defs page_eval cong: opaque)

lemmas first_defs =
  first_intro_def first_prerequisites_def first_inspect_def first_plan_def first_create_def first_kubeconfig_def
  first_verify_def first_delete_def firstVirtualClusterPage_def

interpretation first: site_page env "js ''/docs/first-virtualcluster/''" "{}" "[firstVirtualClusterPage cn]" for env cn
  by unfold_locales (simp_all add: first_defs page_eval cong: opaque)

end
