(* ===== verification/Docs_Reference.thy ===== *)
theory Docs_Reference
  imports Architecture_Beam
begin

text \<open>
  The pages \<open>app/docs/operations/page.tsx\<close>, \<open>api-reference\<close>, \<open>security\<close> and \<open>troubleshooting\<close>:
  their metadata, the listings and tables they declare, and their content, one definition per
  section of a page.
\<close>

section \<open>app/docs/operations/page.tsx\<close>

definition operations_metadata :: "Metadata" where
  \<open>operations_metadata =
     buildMetadata (js ''Day-2 operations'')
       (js ''Operate KubeCell: health checks, credential handling, quota changes, ingress and DNS, storage lifecycle, upgrades, host maintenance, and cleanup.'')
       (js ''/docs/operations/'')
       (Some
          [js ''KubeCell operations'',
           js ''VirtualCluster quota change'',
           js ''KubeCell upgrade'',
           js ''host maintenance Kubernetes'',
           js ''kubeconfig rotation''])
       None\<close>

definition health :: "jstr" where
  \<open>health =
     join [10]
       [js ''# Fleet overview: phase, OCM state, lease freshness'',
        js ''kubectl -n kubecell-system get cells '' @ [92],
        js ''  -o custom-columns=NAME:.metadata.name,PHASE:.status.phase,'' @ [92],
        js ''JOINED:.status.managedCluster.joined,AVAILABLE:.status.managedCluster.available,'' @ [92],
        js ''LEASE:.status.managedCluster.leaseFresh,NODES:.status.nodes[*].name'',
        [],
        js ''# Child clusters and their endpoints'',
        js ''kubectl -n kubecell-system get vc '' @ [92],
        js ''  -o custom-columns=NAME:.metadata.name,PHASE:.status.phase,'' @ [92],
        js ''CELL:.spec.cellRef.name,CLASS:.spec.classRef.name,ENDPOINT:.status.endpoint.address'',
        [],
        js ''# Is inventory fresh enough to make promises?'',
        js ''kubectl -n kubecell-system get cell cell1 '' @ [92],
        js ''  -o jsonpath='{range .status.conditions[*]}{.type}={.status}{"'' @ [92] @ js ''n"}{end}'' @ [39]]\<close>

definition quota :: "jstr" where
  \<open>quota =
     join [10]
       [js ''# 1. Publish a new tier (platform action)'',
        js ''kubectl apply -f virtualnodeclass-large.yaml'',
        [],
        js ''# 2. Create a new child cluster on the larger tier'',
        js ''kubectl apply -f child-dev-large.yaml'',
        [],
        js ''# 3. Move workloads at your own pace, then delete the old cluster.'',
        js ''#    Existing clusters keep the resolution snapshot they were built from;'',
        js ''#    KubeCell never mutates a running child cluster in place.'']\<close>

definition credentials :: "jstr" where
  \<open>credentials =
     join [10]
       [js ''# Find the published credential'',
        js ''kubectl -n kubecell-system get vc child-dev '' @ [92],
        js ''  -o jsonpath='{.status.credential.secretName}{"'' @ [92] @ js ''n"}'' @ [39],
        [],
        js ''# Endpoint changed? The controller republishes the kubeconfig.'',
        js ''# Re-fetch the Secret rather than editing the file by hand.'',
        js ''kubectl -n kubecell-system get secret <secret-name> '' @ [92],
        js ''  -o jsonpath='{.data.kubeconfig'' @ [92] @ js ''.yaml}' | base64 -d > child-dev.yaml'',
        js ''chmod 600 child-dev.yaml'']\<close>

definition ingress :: "jstr" where
  \<open>ingress =
     join [10]
       [js ''# In the child cluster: standard Ingress, class kubecell'',
        js ''apiVersion: networking.k8s.io/v1'',
        js ''kind: Ingress'',
        js ''metadata:'',
        js ''  name: web'',
        js ''  namespace: default'',
        js ''spec:'',
        js ''  ingressClassName: kubecell'',
        js ''  rules:'',
        js ''  - host: web.child-dev.apps.example.com   # <ingress>.<vc>.<apps-suffix>'',
        js ''    http:'',
        js ''      paths:'',
        js ''      - path: /'',
        js ''        pathType: Prefix'',
        js ''        backend:'',
        js ''          service:'',
        js ''            name: web'',
        js ''            port:'',
        js ''              number: 80'']\<close>

definition upgrade :: "jstr" where
  \<open>upgrade =
     join [10]
       [js ''# Version drift is reported, not silently fixed'',
        js ''kubectl -n kubecell-system get cell cell1 '' @ [92],
        js ''  -o jsonpath='{.status.provider.k3kVersion}{"'' @ [92] @ js ''n"}'' @ [39],
        [],
        js ''# Upgrades move through releases:'',
        js ''#   1. Build/verify a new release bundle (digests + pinned versions).'',
        js ''#   2. doctor against the current fleet.'',
        js ''#   3. Apply the new management chart, then the host baseline per Cell.'',
        js ''#   4. Watch Cell conditions and recreate child clusters only if the'',
        js ''#      release notes require it.'']\<close>

definition maintenance :: "jstr" where
  \<open>maintenance =
     join [10]
       [js ''# Planned host maintenance (v1 has no live migration)'',
        js ''# 1. Stop creating new child clusters on the Cell (tell tenants, or'',
        js ''#    temporarily remove the class from your self-service flow).'',
        js ''# 2. Delete or migrate child clusters deliberately; do not drain the host'',
        js ''#    node under running reflected Pods and expect a graceful move.'',
        js ''# 3. Perform maintenance, re-apply labels, verify the lease renews.'',
        js ''# 4. Confirm inventory freshness before reopening the Cell.'']\<close>

definition operations_intro :: "node list" where
  \<open>operations_intro =
     [El ''p'' [cls ''font-mono text-xs uppercase tracking-[0.2em] text-sky-400''] [Txt (js ''Guides'')],
      El ''h1'' [cls ''mt-3 text-3xl font-semibold tracking-tight text-foreground sm:text-4xl'']
        [Txt (js ''Day-2 operations'')],
      El ''p'' [cls ''mt-5 text-base leading-7 text-muted-foreground'']
        [Txt
           (js ''KubeCell is designed to be operated from status, not from tribal knowledge. This page covers the routines that keep a fleet healthy and the actions that are deliberately manual.'')]]\<close>

definition operations_health :: "class_fn \<Rightarrow> node list" where
  \<open>operations_health cn =
     [El ''h2'' [att ''id'' ''health''] [Txt (js ''Routine health checks'')],
      El ''p'' []
        [Txt
           (js ''Two questions matter every day: are the Cells alive, and is the inventory fresh enough to make promises? The second is easy to forget and the cause of most "the Plan lied" reports.'')],
      El ''CodeBlock''
        [cls ''not-prose my-6'', (''code'', health), att ''language'' ''bash'', att ''filename'' ''health.sh'']
        [],
      callout cn InfoNote (Some (js ''Lease freshness is the liveness signal'')) None
        [Txt (js ''OCM ''),
         El ''code'' [] [Txt (js ''Available=True'')],
         Txt (js '' has been observed to go stale without updates. Treat a fresh''),
         Txt (js '' ''),
         El ''code'' [] [Txt (js ''managed-cluster-lease'')],
         Txt (js '' as the decisive signal, and ''),
         El ''code'' [] [Txt (js ''InventoryFresh'')],
         Txt (js '' as the precondition for any capacity decision.'')]]\<close>

definition operations_quota :: "class_fn \<Rightarrow> node list" where
  \<open>operations_quota cn =
     [El ''h2'' [att ''id'' ''quota''] [Txt (js ''Changing a child cluster's size'')],
      El ''p'' []
        [Txt
           (js ''There is no in-place resize. Vertical scaling is a deliberate move to a different quota tier: publish the new class, create the new child cluster, move workloads, delete the old one.'')],
      El ''CodeBlock''
        [cls ''not-prose my-6'', (''code'', quota), att ''language'' ''bash'', att ''filename'' ''quota.sh'']
        [],
      callout cn TipNote (Some (js ''Why no in-place resize'')) None
        [Txt
           (js ''Quota changes ripple into the Foundation Work, the child control-plane size, and the resolution snapshot. Recreating keeps every step observable and reversible; patching would make partial failure states hard to reason about.'')]]\<close>

definition operations_credentials :: "class_fn \<Rightarrow> node list" where
  \<open>operations_credentials cn =
     [El ''h2'' [att ''id'' ''credentials''] [Txt (js ''Credentials and endpoint changes'')],
      El ''p'' []
        [Txt
           (js ''The child admin kubeconfig is always published. When the discovered host address changes, the controller rewrites and republishes the Secret '' @ [8212] @ js '' clients should re-fetch rather than pin an address.'')],
      El ''CodeBlock''
        [cls ''not-prose my-6'',
         (''code'', credentials),
         att ''language'' ''bash'',
         att ''filename'' ''credentials.sh'']
        [],
      callout cn WarningNote (Some (js ''Credentials are cluster-admin'')) None
        [Txt
           (js ''Child kubeconfigs grant admin on the child cluster. Distribute them through your secret manager, keep file modes at 600, and revoke by deleting the VirtualCluster.'')]]\<close>

definition operations_ingress :: "node list" where
  \<open>operations_ingress =
     [El ''h2'' [att ''id'' ''ingress''] [Txt (js ''Ingress and DNS'')],
      El ''p'' []
        [Txt
           (js ''Host Traefik owns ports 80 and 443 for the entire host. It watches only VirtualCluster namespaces carrying the KubeCell label. Developers choose the Ingress name; the rest of the hostname is derived.'')],
      El ''CodeBlock''
        [cls ''not-prose my-6'', (''code'', ingress), att ''language'' ''yaml'', att ''filename'' ''ingress.yaml'']
        [],
      El ''p'' []
        [Txt (js ''DNS automation is enabled when a second host arrives: point a wildcard record for''),
         Txt (js '' ''),
         El ''code'' [] [Txt (js ''*.<vc>.<apps-suffix>'')],
         Txt
           (js '' at the Cell's ingress address. Ingress routing is outside the locked-combination commitments, so verify it in your environment before promising it to tenants.'')]]\<close>

definition operations_storage :: "node list" where
  \<open>operations_storage =
     [El ''h2'' [att ''id'' ''storage''] [Txt (js ''Storage lifecycle'')],
      El ''ul'' []
        [El ''li'' []
           [Txt
              (js ''Child PVCs are reflected to host PVCs on TopoLVM. If a child PVC does not bind, check topology labels first, then TopoLVM health.'')],
         El ''li'' []
           [Txt (js ''Under ''),
            El ''code'' [] [Txt (js ''Retain'')],
            Txt (js '', deleting a VirtualCluster leaves PVs ''),
            El ''code'' [] [Txt (js ''Released'')],
            Txt (js '' and data intact. Reclaim deliberately with ''),
            El ''code'' [] [Txt (js ''lvremove'')],
            Txt (js '' for cluster-created volumes only; never remove the volume group.'')],
         El ''li'' []
           [Txt
              (js ''Storage free space is read from TopoLVM/lvmd. Inferring it from PV capacity is explicitly forbidden, so treat ''),
            El ''code'' [] [Txt (js ''freeCapacityKnown=false'')],
            Txt (js '' as "unknown", not "zero".'')]]]\<close>

definition operations_upgrades :: "node list" where
  \<open>operations_upgrades =
     [El ''h2'' [att ''id'' ''upgrades''] [Txt (js ''Upgrades and version pinning'')],
      El ''p'' []
        [Txt
           (js ''Versions move through releases. The controller reports observed versions; it never upgrades anything on its own.'')],
      El ''CodeBlock''
        [cls ''not-prose my-6'', (''code'', upgrade), att ''language'' ''bash'', att ''filename'' ''upgrade.sh'']
        []]\<close>

definition operations_maintenance :: "node list" where
  \<open>operations_maintenance =
     [El ''h2'' [att ''id'' ''maintenance''] [Txt (js ''Planned host maintenance'')],
      El ''p'' []
        [Txt
           (js ''The first version does not migrate running child clusters between hosts. Plan maintenance windows accordingly and communicate them to tenants.'')],
      El ''CodeBlock''
        [cls ''not-prose my-6'',
         (''code'', maintenance),
         att ''language'' ''bash'',
         att ''filename'' ''maintenance.sh'']
        []]\<close>

definition operations_cleanup :: "node list" where
  \<open>operations_cleanup =
     [El ''h2'' [att ''id'' ''cleanup''] [Txt (js ''Cleanup checklist'')],
      El ''ul'' []
        [El ''li'' [] [Txt (js ''Delete child clusters you no longer need; the finalizer cleans the host side.'')],
         El ''li'' []
           [Txt (js ''Check for ''),
            El ''code'' [] [Txt (js ''Released'')],
            Txt (js '' PVs and decide reclaim vs. retain per volume.'')],
         El ''li'' [] [Txt (js ''Remove unused VirtualNodeClasses so tenants cannot request dead tiers.'')],
         El ''li'' []
           [Txt (js ''Remove the OCM ''),
            El ''code'' [] [Txt (js ''ManagedCluster'')],
            Txt (js '' registration explicitly if a host leaves the fleet; Helm uninstall does not do it for you.'')]],
      El ''p'' []
        [Txt (js ''Next: ''),
         El ''Link'' [att ''href'' ''/docs/api-reference/''] [Txt (js ''API reference'')],
         Txt (js '' or''),
         Txt (js '' ''),
         El ''Link'' [att ''href'' ''/docs/troubleshooting/''] [Txt (js ''troubleshooting'')],
         Txt (js ''.'')]]\<close>

definition operationsPage :: "class_fn \<Rightarrow> node" where
  \<open>operationsPage cn =
     prose cn None
       (operations_intro @
        operations_health cn @
        operations_quota cn @
        operations_credentials cn @
        operations_ingress @
        operations_storage @
        operations_upgrades @
        operations_maintenance @
        operations_cleanup)\<close>

section \<open>app/docs/api-reference/page.tsx\<close>

definition api_metadata :: "Metadata" where
  \<open>api_metadata =
     buildMetadata (js ''API reference'')
       (js ''KubeCell CRD reference for kubecell.io/v1alpha1: Cell, VirtualNodeClass, VirtualClusterPlan, and VirtualCluster spec and status fields, immutability rules, and phases.'')
       (js ''/docs/api-reference/'')
       (Some
          [js ''KubeCell API reference'',
           js ''kubecell.io/v1alpha1'',
           js ''Cell CRD'',
           js ''VirtualCluster CRD fields'',
           js ''VirtualNodeClass spec''])
       None\<close>

definition fieldTable :: "(jstr \<times> jstr \<times> jstr \<times> jstr) list \<Rightarrow> node" where
  \<open>fieldTable rows =
     El ''div'' [cls ''not-prose my-6 overflow-hidden rounded-xl border border-white/10'']
       [El ''div'' [cls ''overflow-x-auto'']
          [El ''table'' [cls ''w-full min-w-[720px] border-collapse text-left text-sm'']
             [El ''thead'' []
                [El ''tr'' [cls ''bg-white/[0.03]'']
                   [El ''th'' [cls ''px-4 py-3 font-medium text-muted-foreground''] [Txt (js ''Field'')],
                    El ''th'' [cls ''px-4 py-3 font-medium text-muted-foreground''] [Txt (js ''Type'')],
                    El ''th'' [cls ''px-4 py-3 font-medium text-muted-foreground''] [Txt (js ''Required'')],
                    El ''th'' [cls ''px-4 py-3 font-medium text-muted-foreground''] [Txt (js ''Notes'')]]],
              El ''tbody'' [cls ''text-muted-foreground'']
                (map
                   (\<lambda>(field, ty, required, notes).
                      El ''tr'' [(''key'', field), cls ''border-t border-white/5'']
                        [El ''td'' [cls ''px-4 py-3 font-mono text-xs text-sky-300''] [Txt field],
                         El ''td'' [cls ''px-4 py-3 font-mono text-xs''] [Txt ty],
                         El ''td'' [cls ''px-4 py-3''] [Txt required],
                         El ''td'' [cls ''px-4 py-3''] [Txt notes]])
                   rows)]]]\<close>

definition api_intro :: "class_fn \<Rightarrow> node list" where
  \<open>api_intro cn =
     [El ''p'' [cls ''font-mono text-xs uppercase tracking-[0.2em] text-sky-400''] [Txt (js ''Guides'')],
      El ''h1'' [cls ''mt-3 text-3xl font-semibold tracking-tight text-foreground sm:text-4xl'']
        [Txt (js ''API reference'')],
      El ''p'' [cls ''mt-5 text-base leading-7 text-muted-foreground'']
        [Txt (js ''KubeCell owns exactly four CRDs under ''),
         El ''code'' [] [Txt (js ''kubecell.io/v1alpha1'')],
         Txt
           (js ''. All of them are desired-state or preflight APIs. Fields with a single safe value are platform constants and intentionally absent.'')],
      El ''div'' [cls ''not-prose my-6 overflow-hidden rounded-xl border border-white/10'']
        [El ''table'' [cls ''w-full border-collapse text-left text-sm'']
           [El ''thead'' []
              [El ''tr'' [cls ''bg-white/[0.03]'']
                 [El ''th'' [cls ''px-4 py-3 font-medium text-muted-foreground''] [Txt (js ''Kind'')],
                  El ''th'' [cls ''px-4 py-3 font-medium text-muted-foreground''] [Txt (js ''Scope'')],
                  El ''th'' [cls ''px-4 py-3 font-medium text-muted-foreground''] [Txt (js ''Short name'')],
                  El ''th'' [cls ''px-4 py-3 font-medium text-muted-foreground''] [Txt (js ''Owner'')]]],
            El ''tbody'' [cls ''text-muted-foreground'']
              [El ''tr'' [cls ''border-t border-white/5'']
                 [El ''td'' [cls ''px-4 py-3 font-mono text-xs text-sky-300''] [Txt (js ''Cell'')],
                  El ''td'' [cls ''px-4 py-3''] [Txt (js ''Namespaced'')],
                  El ''td'' [cls ''px-4 py-3 font-mono text-xs''] [Txt (js ''cell'')],
                  El ''td'' [cls ''px-4 py-3''] [Txt (js ''Platform'')]],
               El ''tr'' [cls ''border-t border-white/5'']
                 [El ''td'' [cls ''px-4 py-3 font-mono text-xs text-sky-300''] [Txt (js ''VirtualNodeClass'')],
                  El ''td'' [cls ''px-4 py-3''] [Txt (js ''Cluster-scoped'')],
                  El ''td'' [cls ''px-4 py-3 font-mono text-xs''] [Txt (js ''vnclass'')],
                  El ''td'' [cls ''px-4 py-3''] [Txt (js ''Platform'')]],
               El ''tr'' [cls ''border-t border-white/5'']
                 [El ''td'' [cls ''px-4 py-3 font-mono text-xs text-sky-300''] [Txt (js ''VirtualClusterPlan'')],
                  El ''td'' [cls ''px-4 py-3''] [Txt (js ''Namespaced'')],
                  El ''td'' [cls ''px-4 py-3 font-mono text-xs''] [Txt (js ''vcp'')],
                  El ''td'' [cls ''px-4 py-3''] [Txt (js ''Tenant / platform'')]],
               El ''tr'' [cls ''border-t border-white/5'']
                 [El ''td'' [cls ''px-4 py-3 font-mono text-xs text-sky-300''] [Txt (js ''VirtualCluster'')],
                  El ''td'' [cls ''px-4 py-3''] [Txt (js ''Namespaced'')],
                  El ''td'' [cls ''px-4 py-3 font-mono text-xs''] [Txt (js ''vc'')],
                  El ''td'' [cls ''px-4 py-3''] [Txt (js ''Tenant / platform'')]]]]],
      callout cn InfoNote (Some (js ''Namespace'')) None
        [Txt (js ''Cells must live in the same namespace as the controller, by convention''),
         Txt (js '' ''),
         El ''code'' [] [Txt (js ''kubecell-system'')],
         Txt (js ''.'')]]\<close>

definition api_cell :: "node list" where
  \<open>api_cell =
     [El ''h2'' [att ''id'' ''cell''] [Txt (js ''Cell'')],
      El ''p'' []
        [Txt (js ''The unit of physical capacity: one OCM ''),
         El ''code'' [] [Txt (js ''ManagedCluster'')],
         Txt (js '' bound to one machine profile.'')],
      El ''h3'' [] [Txt (js ''spec'')],
      fieldTable
        [(js ''managedClusterRef.name'',
          js ''string'',
          js ''Yes'',
          js ''Bound OCM ManagedCluster name. Immutable once any VirtualCluster resolves the Cell.''),
         (js ''machineProfile.name'',
          js ''string'',
          js ''Yes'',
          js ''Profile name; the placement selector. Immutable once resolved.''),
         (js ''machineProfile.devices[]'',
          js ''array'',
          js ''No'',
          js ''Inline accelerator contract. A single machine profile per Cell, not a list of profiles.''),
         (js ''machineProfile.devices[].name'',
          js ''string'',
          js ''Yes'',
          js ''Stable identifier inside KubeCell, referenced by entitlement checks.''),
         (js ''machineProfile.devices[].resourceName'',
          js ''string'',
          js ''Yes'',
          js ''Exact host extended-resource key; must match character-for-character everywhere.'')],
      El ''h3'' [] [Txt (js ''status (read-only)'')],
      fieldTable
        [(js ''observedGeneration'',
          js ''int64'',
          [8212],
          js ''Observed metadata.generation; distinguishes stale from fresh.''),
         (js ''phase'', js ''enum'', [8212], js ''Pending | Provisioning | Ready | Degraded | Deleting | Failed.''),
         (js ''conditions[]'',
          js ''[]Condition'',
          [8212],
          js ''Joined, Available, ProviderReady, InventoryFresh, CapabilityMismatch, and others.''),
         (js ''managedCluster{name,uid,joined,available,leaseFresh,leaseRenewTime}'',
          js ''object'',
          [8212],
          js ''OCM observation plus the decisive Lease freshness signal.''),
         (js ''provider{k3kVersion,namespaceReady,k3kCRDsReady,controllerReady,cniReady,topolvmReady}'',
          js ''object'',
          [8212],
          js ''Decomposition of host-baseline readiness.''),
         (js ''nodes[]{name,profile,ready,labelHash,capacity,allocatable,activeRequested,pendingRequested,readinessReasons,observedAt}'',
          js ''array'',
          [8212],
          js ''Per-node inventory and placement inputs.''),
         (js ''inventory{<resource>{capacity,allocatable,requested,pending,availableEstimate}}'',
          js ''map'',
          [8212],
          js ''Aggregated headroom per resource.''),
         (js ''storageInventory{provisioner,allocatedPV,perNode,freeCapacity,freeCapacityKnown,freeCapacitySource,fresh,observedAt}'',
          js ''object'',
          [8212],
          js ''TopoLVM free space must come from lvmd; inferring from PV capacity is forbidden.''),
         (js ''nodePorts{allocated,observedAt,fresh}'',
          js ''object'',
          [8212],
          js ''Allocated NodePorts for child APIs.'')],
      El ''CodeBlock''
        [cls ''not-prose my-6'',
         att ''language'' ''yaml'',
         att ''filename'' ''cell-full.yaml'',
         (''code'',
          join [10]
            [js ''apiVersion: kubecell.io/v1alpha1'',
             js ''kind: Cell'',
             js ''metadata:'',
             js ''  name: cell1'',
             js ''  namespace: kubecell-system'',
             js ''spec:'',
             js ''  managedClusterRef:'',
             js ''    name: cell1'',
             js ''  machineProfile:'',
             js ''    name: ascend-910b'',
             js ''    devices:'',
             js ''    - name: ascend'',
             js ''      resourceName: huawei.com/Ascend910'',
             js ''status:'',
             js ''  observedGeneration: 1'',
             js ''  phase: Ready'',
             js ''  managedCluster:'',
             js ''    name: cell1'',
             js ''    uid: "b3f1..."        # compared at UID level on deletion'',
             js ''    joined: true'',
             js ''    available: true       # not trustworthy alone'',
             js ''    leaseFresh: true      # the true liveness criterion'',
             js ''  provider:'',
             js ''    k3kVersion: v1.2.0'',
             js ''    namespaceReady: true'',
             js ''    k3kCRDsReady: true'',
             js ''    controllerReady: true'',
             js ''    cniReady: true'',
             js ''    topolvmReady: true''])]
        []]\<close>

definition api_virtualnodeclass :: "node list" where
  \<open>api_virtualnodeclass =
     [El ''h2'' [att ''id'' ''virtualnodeclass''] [Txt (js ''VirtualNodeClass'')],
      El ''p'' [] [Txt (js ''Cluster-scoped quota tier: one name, one entitlement, one storage class.'')],
      fieldTable
        [(js ''entitlement.workloadHard'',
          js ''map[string]Quantity'',
          js ''Yes'',
          js ''Hard requests/limits applied as a ResourceQuota in the host namespace.''),
         (js ''storageClassName'',
          js ''string'',
          js ''Yes'',
          js ''Storage class used for child data volumes and child PVCs (typically topolvm-provisioner).'')],
      El ''CodeBlock''
        [cls ''not-prose my-6'',
         att ''language'' ''yaml'',
         att ''filename'' ''virtualnodeclass-full.yaml'',
         (''code'',
          join [10]
            [js ''apiVersion: kubecell.io/v1alpha1'',
             js ''kind: VirtualNodeClass'',
             js ''metadata:'',
             js ''  name: ascend-910b-small'',
             js ''spec:'',
             js ''  entitlement:'',
             js ''    workloadHard:'',
             js ''      requests.cpu: "4"'',
             js ''      limits.cpu: "4"'',
             js ''      requests.memory: 8Gi'',
             js ''      limits.memory: 8Gi'',
             js ''      requests.huawei.com/Ascend910: "2"'',
             js ''      limits.huawei.com/Ascend910: "2"'',
             js ''  storageClassName: topolvm-provisioner''])]
        []]\<close>

definition api_virtualclusterplan :: "class_fn \<Rightarrow> node list" where
  \<open>api_virtualclusterplan cn =
     [El ''h2'' [att ''id'' ''virtualclusterplan''] [Txt (js ''VirtualClusterPlan'')],
      El ''p'' []
        [Txt
           (js ''Side-effect-free preflight. The spec is isomorphic to a VirtualCluster so an accepted plan can be turned into a creation request without rewriting anything.'')],
      fieldTable
        [(js ''cellRef.name'', js ''string'', js ''Yes'', js ''Target Cell.''),
         (js ''classRef.name'', js ''string'', js ''Yes'', js ''Target quota tier.''),
         (js ''status.decision'',
          js ''enum'',
          [8212],
          js ''Accepted | Rejected | Unknown. Evaluated once; never refreshed periodically.''),
         (js ''status.expiresAt'', js ''time'', [8212], js ''When the conclusion becomes void.''),
         (js ''status.checks[]'',
          js ''array'',
          [8212],
          js ''Per-resource findings, including the reason for Rejected.'')],
      callout cn WarningNote (Some (js ''Not a reservation'')) None
        [El ''Highlighter'' [att ''color'' ''#38bdf8'', att ''strokeWidth'' ''1.5'', att ''isView'' ''true'']
           [Txt (js ''Acceptance never reserves capacity.'')],
         Txt (js '' ''),
         Txt
           (js ''The controller re-runs the same evaluation at real creation time and blocks on a non-accepted conclusion, writing the report to ''),
         El ''code'' [] [Txt (js ''VirtualCluster.status.feasibilityChecks'')],
         Txt (js ''.'')]]\<close>

definition api_virtualcluster :: "node list" where
  \<open>api_virtualcluster =
     [El ''h2'' [att ''id'' ''virtualcluster''] [Txt (js ''VirtualCluster'')],
      El ''p'' [] [Txt (js ''The child cluster instance: key fields immutable, rich status.'')],
      El ''h3'' [] [Txt (js ''spec'')],
      fieldTable
        [(js ''cellRef.name'', js ''string'', js ''Yes'', js ''Target Cell; immutable after creation.''),
         (js ''classRef.name'', js ''string'', js ''Yes'', js ''Quota tier; immutable after creation.'')],
      El ''h3'' [] [Txt (js ''status (read-only)'')],
      fieldTable
        [(js ''observedGeneration'', js ''int64'', [8212], js ''Generation the status reflects.''),
         (js ''phase'', js ''enum'', [8212], js ''Pending | Provisioning | Ready | Degraded | Deleting | Failed.''),
         (js ''resolved'',
          js ''object'',
          [8212],
          js ''Immutable resolution snapshot: the sole basis for steady-state rendering.''),
         (js ''feasibilityChecks[]'', js ''array'', [8212], js ''Recheck report written at creation time.''),
         (js ''endpoint{address,port}'', js ''object'', [8212], js ''Discovered child API address and NodePort.''),
         (js ''credential.secretName'',
          js ''string'',
          [8212],
          js ''Secret containing the admin kubeconfig (kubeconfig.yaml key).''),
         (js ''host.quotaUsed'', js ''object'', [8212], js ''Quota accounting observed on the host side.''),
         (js ''conditions[]'', js ''[]Condition'', [8212], js ''Standard condition table.'')],
      El ''CodeBlock''
        [cls ''not-prose my-6'',
         att ''language'' ''yaml'',
         att ''filename'' ''virtualcluster-status.yaml'',
         (''code'',
          join [10]
            [js ''apiVersion: kubecell.io/v1alpha1'',
             js ''kind: VirtualCluster'',
             js ''metadata:'',
             js ''  name: child-dev'',
             js ''  namespace: kubecell-system'',
             js ''spec:'',
             js ''  cellRef: {name: cell1}'',
             js ''  classRef: {name: ascend-910b-small}'',
             js ''status:'',
             js ''  phase: Ready'',
             js ''  endpoint:'',
             js ''    address: 10.0.12.7'',
             js ''    port: 31234'',
             js ''  credential:'',
             js ''    secretName: kubecell-child-dev-<uid>-admin-kubeconfig'',
             js ''  host:'',
             js ''    quotaUsed:'',
             js ''      requests.cpu: "400m"'',
             js ''      requests.huawei.com/Ascend910: "2"''])]
        []]\<close>

definition api_phases :: "node list" where
  \<open>api_phases =
     [El ''h2'' [att ''id'' ''phases''] [Txt (js ''Phases and conditions'')],
      El ''div'' [cls ''not-prose my-6 overflow-hidden rounded-xl border border-white/10'']
        [El ''table'' [cls ''w-full border-collapse text-left text-sm'']
           [El ''thead'' []
              [El ''tr'' [cls ''bg-white/[0.03]'']
                 [El ''th'' [cls ''px-4 py-3 font-medium text-muted-foreground''] [Txt (js ''Phase'')],
                  El ''th'' [cls ''px-4 py-3 font-medium text-muted-foreground''] [Txt (js ''Meaning'')]]],
            El ''tbody'' [cls ''text-muted-foreground'']
              (map
                 (\<lambda>(phase, meaning).
                    El ''tr'' [(''key'', phase), cls ''border-t border-white/5'']
                      [El ''td'' [cls ''px-4 py-3 font-mono text-xs text-sky-300''] [Txt phase],
                       El ''td'' [cls ''px-4 py-3''] [Txt meaning]])
                 [(js ''Pending'', js ''Accepted, waiting for the controller to begin rendering.''),
                  (js ''Provisioning'', js ''Works are being applied on the host; child cluster not yet Ready.''),
                  (js ''Ready'', js ''Child API reachable, kubeconfig published, quota and policy in place.''),
                  (js ''Degraded'',
                   js ''The Cell lost liveness (stale lease) or a required inventory source is unavailable.''),
                  (js ''Deleting'', js ''Finalizer cleanup in progress by UID.''),
                  (js ''Failed'',
                   js ''A terminal error that requires operator action; re-applying does not bypass it.'')])]],
      El ''ul'' []
        [El ''li'' []
           [El ''strong'' [] [Txt (js ''Joined / Available'')],
            Txt (js '' '' @ [8212] @ js '' OCM conditions. Available alone is not trustworthy.'')],
         El ''li'' []
           [El ''strong'' [] [Txt (js ''ProviderReady'')],
            Txt (js '' '' @ [8212] @ js '' host baseline decomposed into K3k, CNI, and TopoLVM readiness.'')],
         El ''li'' []
           [El ''strong'' [] [Txt (js ''InventoryFresh'')],
            Txt (js '' '' @ [8212] @ js '' inventory and storage observations are recent and from a live source.'')],
         El ''li'' []
           [El ''strong'' [] [Txt (js ''CapabilityMismatch'')],
            Txt (js '' '' @ [8212] @ js '' declared device capacity exceeds observed allocatable.'')]],
      El ''p'' []
        [Txt (js ''See also: ''),
         El ''a'' [att ''href'' ''https://github.com/taosher/KubeCell/blob/main/technical-design.md'']
           [Txt (js ''technical-design.md'')],
         Txt (js '' ''),
         Txt (js ''for the authoritative field-by-field design and validation rules.'')]]\<close>

definition apiReferencePage :: "class_fn \<Rightarrow> node" where
  \<open>apiReferencePage cn =
     prose cn None
       (api_intro cn @ api_cell @ api_virtualnodeclass @ api_virtualclusterplan cn @ api_virtualcluster @ api_phases)\<close>

section \<open>app/docs/security/page.tsx\<close>

definition security_metadata :: "Metadata" where
  \<open>security_metadata =
     buildMetadata (js ''Security and isolation'')
       (js ''The KubeCell isolation model: per-child host namespaces, ResourceQuota and LimitRange enforcement, default-deny NetworkPolicy, admission rejection of privileged workloads and hostPath volumes, and the credential model.'')
       (js ''/docs/security/'')
       (Some
          [js ''KubeCell security'',
           js ''Kubernetes multi-tenancy'',
           js ''ResourceQuota isolation'',
           js ''NetworkPolicy child cluster'',
           js ''hostPath rejection''])
       None\<close>

definition rejection :: "jstr" where
  \<open>rejection =
     join [10]
       [js ''# What the host admission layer rejects in tenant workloads'',
        js ''#   - privileged containers'',
        js ''#   - host namespaces (hostNetwork, hostPID, hostIPC)'',
        js ''#   - hostPath volumes (with a replacement hint pointing at the storage class)'',
        js ''#   - host device access outside the declared extended resources'',
        js ''#'',
        js ''# What it does not do: inspect container images, enforce vendor runtimes,'',
        js ''# or act as an adversarial sandbox. See "Trust model" below.'']\<close>

definition quotaExample :: "jstr" where
  \<open>quotaExample =
     join [10]
       [js ''apiVersion: v1'',
        js ''kind: ResourceQuota'',
        js ''metadata:'',
        js ''  name: kubecell-<vc>-quota'',
        js ''  namespace: <vc>-ns'',
        js ''spec:'',
        js ''  hard:'',
        js ''    requests.cpu: "4"'',
        js ''    limits.cpu: "4"'',
        js ''    requests.memory: 8Gi'',
        js ''    limits.memory: 8Gi'',
        js ''    requests.huawei.com/Ascend910: "2"'',
        js ''    limits.huawei.com/Ascend910: "2"'']\<close>

definition security_intro :: "class_fn \<Rightarrow> node list" where
  \<open>security_intro cn =
     [El ''p'' [cls ''font-mono text-xs uppercase tracking-[0.2em] text-sky-400''] [Txt (js ''Guides'')],
      El ''h1'' [cls ''mt-3 text-3xl font-semibold tracking-tight text-foreground sm:text-4xl'']
        [Txt (js ''Security and isolation'')],
      El ''p'' [cls ''mt-5 text-base leading-7 text-muted-foreground'']
        [Txt
           (js ''KubeCell gives every child cluster a real API server without giving tenants control of the host. Isolation is enforced by Kubernetes primitives on the host, plus a small admission layer that closes the obvious escalation paths.'')],
      callout cn WarningNote (Some (js ''Trust model'')) None
        [Txt
           (js ''This is not strong-adversary multi-tenancy. Developer credentials are child-cluster admin kubeconfigs, and the network boundary assumes trusted or at least accountable tenants. Do not use KubeCell to host untrusted third-party code.'')]]\<close>

definition security_layers :: "node list" where
  \<open>security_layers =
     [El ''h2'' [att ''id'' ''layers''] [Txt (js ''The five isolation layers'')],
      El ''ol'' []
        [El ''li'' []
           [El ''strong'' [] [Txt (js ''Dedicated host namespace.'')],
            Txt
              (js '' Each child cluster maps to one host namespace with policy labels and annotations. Reflected Pods and PVCs land there, and nothing else does.'')],
         El ''li'' []
           [El ''strong'' [] [Txt (js ''ResourceQuota.'')],
            Txt
              (js '' The VirtualNodeClass entitlement becomes a hard quota on the host namespace. Requests and limits are both enforced, so a child cluster cannot overcommit the host.'')],
         El ''li'' []
           [El ''strong'' [] [Txt (js ''LimitRange.'')],
            Txt
              (js '' A default of 100m CPU and 256Mi memory applies to containers that declare nothing, which prevents platform sidecars in the child cluster from landing unschedulable.'')],
         El ''li'' []
           [El ''strong'' [] [Txt (js ''NetworkPolicy.'')],
            Txt
              (js '' Cross-namespace traffic is denied by default. Only the child API server path and required platform flows are allowed.'')],
         El ''li'' []
           [El ''strong'' [] [Txt (js ''Admission rejection.'')],
            Txt
              (js '' Privileged containers, host namespaces, and hostPath volumes are rejected in tenant workloads before the host ever schedules them.'')]],
      El ''CodeBlock''
        [cls ''not-prose my-6'', (''code'', quotaExample), att ''language'' ''yaml'', att ''filename'' ''quota.yaml'']
        [],
      El ''CodeBlock''
        [cls ''not-prose my-6'', (''code'', rejection), att ''language'' ''text'', att ''filename'' ''admission.txt'']
        []]\<close>

definition security_management :: "node list" where
  \<open>security_management =
     [El ''h2'' [att ''id'' ''management''] [Txt (js ''Management-plane boundary'')],
      El ''p'' []
        [Txt (js ''The controller is intentionally weak by design. It can write OCM ''),
         El ''code'' [] [Txt (js ''ManifestWork'')],
         Txt (js '' ''),
         Txt
           (js ''objects and read hosts through the OCM cluster proxy. It does not hold host kubeconfigs and does not open connections to host APIs.'')],
      El ''ul'' []
        [El ''li'' []
           [Txt
              (js ''Every host-side change is a declarative work object, which makes changes reviewable and retries idempotent.'')],
         El ''li'' []
           [Txt
              (js ''A compromised controller can disrupt the fleet, but it cannot silently edit host state without leaving ManifestWork artifacts.'')],
         El ''li'' []
           [Txt (js ''Host onboarding requires a manual ''),
            El ''code'' [] [Txt (js ''clusteradm accept'')],
            Txt (js ''. KubeCell never auto-approves a ManagedCluster.'')]]]\<close>

definition security_accelerators :: "node list" where
  \<open>security_accelerators =
     [El ''h2'' [att ''id'' ''accelerators''] [Txt (js ''Accelerator isolation'')],
      El ''ul'' []
        [El ''li'' []
           [Txt
              (js ''Extended resources are allocated as whole cards: request equals limit, integer values. Sharing one accelerator between child clusters is not supported.'')],
         El ''li'' []
           [Txt
              (js ''Observed allocatable is the source of truth. A Cell declaration that exceeds observed capacity produces a ''),
            El ''code'' [] [Txt (js ''CapabilityMismatch'')],
            Txt (js '' condition instead of oversubscription.'')],
         El ''li'' []
           [Txt
              (js ''KubeCell does not manage vendor runtimes, CDI, or Device Plugin health. Those remain host platform responsibilities, and diagnostics go through host Pod status and logs.'')]]]\<close>

definition security_credentials :: "node list" where
  \<open>security_credentials =
     [El ''h2'' [att ''id'' ''credentials''] [Txt (js ''Credentials'')],
      El ''ul'' []
        [El ''li'' []
           [Txt
              (js ''Each VirtualCluster always publishes an admin kubeconfig to a management-plane Secret. There is no credential-less mode.'')],
         El ''li'' []
           [Txt
              (js ''Treat the Secret as cluster-admin material for the child cluster. Store it in your secret manager and use mode 600 for files.'')],
         El ''li'' []
           [Txt
              (js ''Revocation is deletion: removing the VirtualCluster removes the child API and its credentials. Rotate by recreating the child cluster.'')]]]\<close>

definition security_storage :: "node list" where
  \<open>security_storage =
     [El ''h2'' [att ''id'' ''storage''] [Txt (js ''Storage and data'')],
      El ''ul'' []
        [El ''li'' []
           [Txt
              (js ''Child volumes live on host TopoLVM logical volumes. Deleting a child cluster does not automatically destroy data under the ''),
            El ''code'' [] [Txt (js ''Retain'')],
            Txt (js '' policy.'')],
         El ''li'' []
           [Txt (js ''Reclaim is a deliberate operator action (''),
            El ''code'' [] [Txt (js ''lvremove'')],
            Txt (js '' for cluster-created volumes only). Never remove the volume group.'')],
         El ''li'' []
           [El ''code'' [] [Txt (js ''hostPath'')],
            Txt
              (js '' is rejected because it would let a child workload read host data outside its namespace boundary.'')]]]\<close>

definition security_reporting :: "node list" where
  \<open>security_reporting =
     [El ''h2'' [att ''id'' ''reporting''] [Txt (js ''Reporting a security issue'')],
      El ''p'' []
        [Txt
           (js ''Do not open a public issue for a suspected vulnerability. Contact the maintainers through the repository's security reporting channel and include reproduction steps, the affected version, and the observed versus expected behavior.'')],
      El ''p'' []
        [Txt (js ''See also: ''),
         El ''Link'' [att ''href'' ''/architecture/''] [Txt (js ''technical principles'')],
         Txt (js '' for the control flow and''),
         Txt (js '' ''),
         El ''Link'' [att ''href'' ''/docs/operations/''] [Txt (js ''day-2 operations'')],
         Txt (js '' for credential handling routines.'')]]\<close>

definition securityPage :: "class_fn \<Rightarrow> node" where
  \<open>securityPage cn =
     prose cn None
       (security_intro cn @
        security_layers @
        security_management @
        security_accelerators @
        security_credentials @
        security_storage @
        security_reporting)\<close>

section \<open>app/docs/troubleshooting/page.tsx\<close>

definition troubleshooting_metadata :: "Metadata" where
  \<open>troubleshooting_metadata =
     buildMetadata (js ''Troubleshooting'')
       (js ''Symptom-first KubeCell troubleshooting: Cell not Ready, ManifestWork not Applied, child API unreachable, PVCs not binding, accelerators missing, and ingress failures.'')
       (js ''/docs/troubleshooting/'')
       (Some
          [js ''KubeCell troubleshooting'',
           js ''Cell not ready'',
           js ''ManifestWork not applied'',
           js ''child cluster API unreachable'',
           js ''TopoLVM PVC pending''])
       None\<close>

definition walkChain :: "jstr" where
  \<open>walkChain =
     join [10]
       [js ''# 1. Management plane: what does the controller believe?'',
        js ''kubectl -n kubecell-system get vc <vc> -o yaml'',
        js ''kubectl -n kubecell-system describe vc <vc>'',
        [],
        js ''# 2. OCM: did the work get applied?'',
        js ''kubectl get manifestwork -n <managed-cluster-namespace>'',
        js ''kubectl get manifestwork -n <managed-cluster-namespace> <work> -o yaml'',
        [],
        js ''# 3. Host: is the work-agent healthy and did it land?'',
        js ''KUBECONFIG=<host-kubeconfig> kubectl -n open-cluster-management-agent '' @ [92],
        js ''  get pods'',
        js ''KUBECONFIG=<host-kubeconfig> kubectl -n <vc>-ns get all,quota,limitrange,netpol'',
        [],
        js ''# 4. Child: is the control plane up and reachable?'',
        js ''KUBECONFIG=<host-kubeconfig> kubectl -n k3k-<vc> get pods,svc,pvc'']\<close>

definition symptom_rows :: "(jstr \<times> jstr \<times> jstr) list" where
  \<open>symptom_rows =
     [(js ''Cell not Ready'',
       js ''Check in order: OCM Joined/Available, then managed-cluster-lease freshness, then Cell conditions. Available=True alone is not trusted.'',
       js ''If the lease is stale, treat the host as offline and stop creating child clusters on it.''),
      (js ''Cell Degraded but OCM looks fine'',
       js ''Lease freshness or an inventory source failed.'',
       js ''Inspect conditions: ProviderReady and InventoryFresh. Fix the reported subsystem before anything else.''),
      (js ''Work not Applied'',
       js ''ManifestWork status, then host work-agent, then the target namespace.'',
       js ''Check namespace quota and admission rejections '' @ [8212] @ js '' a rejected manifest will retry forever.''),
      (js ''VirtualCluster stuck Provisioning'',
       js ''Foundation Work applied but Instance Work blocked, or K3k cannot schedule its server Pod.'',
       js ''Check K3k controller health, server Pod events, and TopoLVM PVC binding on the host.''),
      (js ''Child API unreachable'',
       js ''status.endpoint versus the published Secret, then host NodePort Service.'',
       js ''Re-fetch the Secret after endpoint changes; verify the NodePort is allocated and fresh.''),
      (js ''Child PVC Pending'',
       js ''Topology labels missing or TopoLVM has no free capacity.'',
       js ''Re-apply topology.topolvm.io/node and topology.kubernetes.io/zone, then check lvmd reporting.''),
      (js ''Zero accelerators visible'',
       js ''Device Plugin registration mismatch.'',
       js ''Read plugin Pod logs on the host before changing any declaration; observed allocatable wins.''),
      (js ''CapabilityMismatch condition'',
       js ''Cell declares more than the host allocates.'',
       js ''Align the machine profile with the observed resource key and capacity, then re-observe.''),
      (js ''Tenant Pod rejected'',
       js ''Privileged access or hostPath in the manifest.'',
       js ''This is intended. Use the rejection hint and switch to a PVC on the storage class.''),
      (js ''Ingress returns 503'',
       js ''Mirrored Endpoints carry a port name that does not match.'',
       js ''The controller strips port names; for older clusters clear the endpoint port name to an empty string.''),
      (js ''Image pull failures'',
       js ''Registry reachability or OCI-archive transfer problems.'',
       js ''Fix mirrors first; helpers live in hack/image/. Record digests and architectures.''),
      (js ''Volumes remain after deletion'',
       js ''Orphaned logical volumes once the child API is gone.'',
       js ''Remove only cluster-created volumes with lvremove; leave the volume group intact.'')]\<close>

definition troubleshooting_intro :: "node list" where
  \<open>troubleshooting_intro =
     [El ''p'' [cls ''font-mono text-xs uppercase tracking-[0.2em] text-sky-400''] [Txt (js ''Guides'')],
      El ''h1'' [cls ''mt-3 text-3xl font-semibold tracking-tight text-foreground sm:text-4xl'']
        [Txt (js ''Troubleshooting'')],
      El ''p'' [cls ''mt-5 text-base leading-7 text-muted-foreground'']
        [Txt
           (js ''KubeCell spans four systems '' @ [8212] @ js '' the management plane, OCM, the host cluster, and the child K3s cluster. Almost every failure is diagnosed by walking that chain in order instead of guessing.'')]]\<close>

definition troubleshooting_chain :: "class_fn \<Rightarrow> node list" where
  \<open>troubleshooting_chain cn =
     [El ''h2'' [att ''id'' ''chain''] [Txt (js ''Walk the chain'')],
      El ''CodeBlock''
        [cls ''not-prose my-6'', (''code'', walkChain), att ''language'' ''bash'', att ''filename'' ''diagnose.sh'']
        [],
      callout cn TipNote (Some (js ''One rule that saves time'')) None
        [Txt
           (js ''Never edit host state by hand to "unstick" a child cluster. Fix the input (the manifest, the class, the inventory source) and let reconciliation re-render from the snapshot. Manual edits are overwritten on the next reconcile and hide the real cause.'')]]\<close>

definition troubleshooting_symptoms :: "node list" where
  \<open>troubleshooting_symptoms =
     [El ''h2'' [att ''id'' ''symptoms''] [Txt (js ''Symptom reference'')],
      El ''div'' [cls ''not-prose my-6 overflow-hidden rounded-xl border border-white/10'']
        [El ''div'' [cls ''overflow-x-auto'']
           [El ''table'' [cls ''w-full min-w-[760px] border-collapse text-left text-sm'']
              [El ''thead'' []
                 [El ''tr'' [cls ''bg-white/[0.03]'']
                    [El ''th'' [cls ''px-4 py-3 font-medium text-muted-foreground''] [Txt (js ''Symptom'')],
                     El ''th'' [cls ''px-4 py-3 font-medium text-muted-foreground''] [Txt (js ''Where to look'')],
                     El ''th'' [cls ''px-4 py-3 font-medium text-muted-foreground''] [Txt (js ''Action'')]]],
               El ''tbody'' [cls ''text-muted-foreground'']
                 (map
                    (\<lambda>(symptom, look, action).
                       El ''tr'' [(''key'', symptom), cls ''border-t border-white/5'']
                         [El ''td'' [cls ''px-4 py-3 text-foreground/85''] [Txt symptom],
                          El ''td'' [cls ''px-4 py-3''] [Txt look],
                          El ''td'' [cls ''px-4 py-3''] [Txt action]])
                    symptom_rows)]]]]\<close>

definition troubleshooting_plan_rejected :: "node list" where
  \<open>troubleshooting_plan_rejected =
     [El ''h2'' [att ''id'' ''plan-rejected''] [Txt (js ''A Plan was rejected '' @ [8212] @ js '' now what?'')],
      El ''ol'' []
        [El ''li'' []
           [Txt (js ''Read ''),
            El ''code'' [] [Txt (js ''status.checks'')],
            Txt (js ''. Each failed item names the resource that could not be satisfied.'')],
         El ''li'' []
           [Txt (js ''Check ''),
            El ''code'' [] [Txt (js ''expiresAt'')],
            Txt (js ''. If the conclusion expired, re-apply the Plan for a fresh evaluation.'')],
         El ''li'' []
           [Txt
              (js ''If the missing resource is storage or accelerators, verify that the Cell inventory is fresh before concluding the host is full.'')],
         El ''li'' []
           [Txt
              (js ''Adjust the request or switch Cells. Do not create the VirtualCluster "to see what happens" '' @ [8212] @ js '' the controller rechecks and blocks anyway.'')]]]\<close>

definition troubleshooting_collect :: "node list" where
  \<open>troubleshooting_collect =
     [El ''h2'' [att ''id'' ''collect''] [Txt (js ''Collecting evidence for an issue'')],
      El ''ul'' []
        [El ''li'' [] [Txt (js ''Cell and VirtualCluster YAML (including status) with timestamps.'')],
         El ''li'' [] [Txt (js ''ManifestWork status for the affected child cluster.'')],
         El ''li'' [] [Txt (js ''Host events for the child namespace, plus K3k server Pod logs.'')],
         El ''li'' [] [Txt (js ''Observed versions from Cell status versus the pinned release.'')],
         El ''li'' [] [Txt (js ''Reproduction steps and expected versus actual behavior.'')]],
      El ''p'' []
        [Txt (js ''File bugs at''),
         Txt (js '' ''),
         El ''a'' [att ''href'' ''https://github.com/taosher/KubeCell/issues'']
           [Txt (js ''github.com/taosher/KubeCell/issues'')],
         Txt (js '' ''),
         Txt (js ''using the structure above. See also the''),
         Txt (js '' ''),
         El ''Link'' [att ''href'' ''/docs/host-onboarding/''] [Txt (js ''host onboarding troubleshooting table'')],
         Txt (js '' for host-side symptoms.'')]]\<close>

definition troubleshootingPage :: "class_fn \<Rightarrow> node" where
  \<open>troubleshootingPage cn =
     prose cn None
       (troubleshooting_intro @
        troubleshooting_chain cn @
        troubleshooting_symptoms @
        troubleshooting_plan_rejected @
        troubleshooting_collect)\<close>

section \<open>app/docs/faq/page.tsx\<close>

definition faq_metadata :: "Metadata" where
  \<open>faq_metadata =
     buildMetadata (js ''FAQ'')
       (js ''Frequently asked questions about KubeCell: what a VirtualCluster is, accelerator support, isolation guarantees, logical nodes, deletion semantics, and production readiness.'')
       (js ''/docs/faq/'')
       (Some [js ''KubeCell FAQ'', js ''KubeCell limitations'', js ''virtual cluster questions''])
       None\<close>

section \<open>The contract of a page\<close>

lemmas operations_defs =
  operations_intro_def operations_health_def operations_quota_def operations_credentials_def operations_ingress_def
  operations_storage_def operations_upgrades_def operations_maintenance_def operations_cleanup_def operationsPage_def

interpretation operations: site_page env "js ''/docs/operations/''" "{}" "[operationsPage cn]" for env cn
  by unfold_locales (simp_all add: operations_defs page_eval cong: opaque)

lemmas api_defs =
  fieldTable_def api_intro_def api_cell_def api_virtualnodeclass_def api_virtualclusterplan_def
  api_virtualcluster_def api_phases_def apiReferencePage_def

interpretation api: site_page env "js ''/docs/api-reference/''" "{}" "[apiReferencePage cn]" for env cn
  by unfold_locales (simp_all add: api_defs page_eval cong: opaque)

lemmas security_defs =
  security_intro_def security_layers_def security_management_def security_accelerators_def security_credentials_def
  security_storage_def security_reporting_def securityPage_def

interpretation security: site_page env "js ''/docs/security/''" "{}" "[securityPage cn]" for env cn
  by unfold_locales (simp_all add: security_defs page_eval cong: opaque)

lemmas troubleshooting_defs =
  symptom_rows_def troubleshooting_intro_def troubleshooting_chain_def troubleshooting_symptoms_def
  troubleshooting_plan_rejected_def troubleshooting_collect_def troubleshootingPage_def

interpretation troubleshooting: site_page env "js ''/docs/troubleshooting/''" "{}" "[troubleshootingPage cn]" for env cn
  by unfold_locales (simp_all add: troubleshooting_defs page_eval cong: opaque)

lemmas faq_defs = faqPage_def faqItems_def accordion_def accordion_item_def

interpretation faq: site_page env "js ''/docs/faq/''" "{}" "faqPage cn URL env" for cn URL env
  by unfold_locales (simp_all add: faq_defs page_eval cong: opaque)

end
