(* ===== verification/Main_Pages.thy ===== *)
theory Main_Pages
  imports Architecture_Beam
begin

text \<open>
  The pages \<open>app/quickstart/page.tsx\<close>, \<open>app/use-cases/page.tsx\<close>, \<open>app/architecture/page.tsx\<close>
  and \<open>app/not-found.tsx\<close>: their metadata, tables, structured data and content.
\<close>

section \<open>app/quickstart/page.tsx\<close>

definition quickstart_metadata :: "Metadata" where
  \<open>quickstart_metadata =
     buildMetadata (js ''Quickstart'')
       (js ''Go from a fresh host to a working developer cluster in a handful of commands: preflight, join, approve, prepare, then apply an eight-line manifest.'')
       (js ''/quickstart/'')
       (Some
          [js ''KubeCell quickstart'',
           js ''install KubeCell'',
           js ''VirtualCluster tutorial'',
           js ''K3k shared mode'',
           js ''host onboarding''])
       None\<close>

record quick_step =
  qs_id :: jstr
  qs_step :: jstr
  qs_title :: jstr
  qs_body :: "node list"
  qs_code :: jstr
  qs_language :: jstr
  qs_filename :: jstr

definition quickstart_steps_1 :: "quick_step" where
  \<open>quickstart_steps_1 =
     \<lparr>qs_id = js ''prerequisites'',
      qs_step = js ''00'',
      qs_title = js ''What you need before you start'',
      qs_body = [El ''p'' []
                   [Txt
                      (js ''KubeCell needs one small management cluster and at least one physical host. Both run K3s and must be able to pull the images in your release bundle.'')],
                 El ''ul'' [cls ''mt-4 space-y-2 text-sm leading-6 text-muted-foreground'']
                   [El ''li'' [cls ''flex gap-2'']
                      [El ''CheckCircle2'' [cls ''mt-1 h-4 w-4 shrink-0 text-emerald-400''] [],
                       Txt
                         (js ''A management cluster (single-node K3s) with admin access and outbound network access.'')],
                    El ''li'' [cls ''flex gap-2'']
                      [El ''CheckCircle2'' [cls ''mt-1 h-4 w-4 shrink-0 text-emerald-400''] [],
                       Txt
                         (js ''One or more host machines prepared with the platform baseline: kernel drivers, firmware, LVM volume groups, and preloaded images.'')],
                    El ''li'' [cls ''flex gap-2'']
                      [El ''CheckCircle2'' [cls ''mt-1 h-4 w-4 shrink-0 text-emerald-400''] [],
                       Txt
                         (js ''A KubeCell release bundle from the releases page: the manifests and images for one tested version, with digests included.'')],
                    El ''li'' [cls ''flex gap-2'']
                      [El ''CheckCircle2'' [cls ''mt-1 h-4 w-4 shrink-0 text-emerald-400''] [],
                       Txt (js ''A label on each host node describing what the machine offers, for example''),
                       Txt (js '' ''),
                       El ''code'' [cls ''font-mono text-xs''] [Txt (js ''hardware.kubecell.io/profile=ascend-910b'')],
                       Txt (js '', plus the storage topology labels your platform team provides.'')]],
                 El ''div'' [cls ''mt-5 flex gap-3 rounded-xl border border-amber-400/20 bg-amber-500/[0.06] p-4'']
                   [El ''AlertTriangle'' [cls ''mt-0.5 h-4 w-4 shrink-0 text-amber-300''] [],
                    El ''p'' [cls ''text-sm leading-6 text-amber-100/80'']
                      [Txt
                         (js ''KubeCell is pre-release software. Run the quickstart in a lab environment, not in production.'')]]],
      qs_code = join [10]
                  [js ''# Point at the management cluster (hub) and the host cluster'',
                   js ''export KUBECONFIG_HUB=~/.kube/hub.yaml'',
                   js ''export KUBECONFIG_HOST=~/.kube/host.yaml'',
                   [],
                   js ''# Verify the pinned versions in the bundle before anything else'',
                   js ''ls kubecell-release/manifests | head''],
      qs_language = js ''bash'',
      qs_filename = js ''prerequisites.sh''\<rparr>\<close>

definition quickstart_steps_2 :: "quick_step" where
  \<open>quickstart_steps_2 =
     \<lparr>qs_id = js ''doctor'',
      qs_step = js ''01'',
      qs_title = js ''Run the read-only preflight'',
      qs_body = [El ''p'' []
                   [El ''code'' [cls ''font-mono text-xs''] [Txt (js ''doctor'')],
                    Txt
                      (js '' is read-only by default and stops at the first failure. Fix everything it reports before you continue; the installer refuses to guess.'')]],
      qs_code = join [10]
                  [js ''go run ./cmd/kubecell-installer doctor management --bundle ./kubecell-release'',
                   js ''go run ./cmd/kubecell-installer doctor host '' @ [92],
                   js ''  --bundle ./kubecell-release '' @ [92],
                   js ''  --device huawei.com/Ascend910''],
      qs_language = js ''bash'',
      qs_filename = js ''preflight.sh''\<rparr>\<close>

definition quickstart_steps_3 :: "quick_step" where
  \<open>quickstart_steps_3 =
     \<lparr>qs_id = js ''management'',
      qs_step = js ''02'',
      qs_title = js ''Install the management plane'',
      qs_body = [El ''p'' []
                   [Txt
                      (js ''CRDs first, then the hub that connects your hosts, then the KubeCell controller. The installer stays read-only unless you pass both''),
                    Txt (js '' ''),
                    El ''code'' [cls ''font-mono text-xs''] [Txt (js ''--apply'')],
                    Txt (js '' and''),
                    Txt (js '' ''),
                    El ''code'' [cls ''font-mono text-xs''] [Txt (js ''--confirm'')],
                    Txt (js ''.'')],
                 El ''CodeBlock''
                   [cls ''mt-4'',
                    att ''language'' ''bash'',
                    att ''filename'' ''management.sh'',
                    (''code'',
                     join [10]
                       [js ''kubectl apply -f kubecell-release/manifests/crds'',
                        [],
                        js ''go run ./cmd/kubecell-installer management '' @ [92],
                        js ''  --bundle ./kubecell-release --apply --confirm''])]
                   []],
      qs_code = join [10]
                  [js ''# The management chart bundles the optional Kite dashboard'',
                   js ''# (kite.enabled, on by default) for viewing Cell and VirtualCluster CRs.'',
                   js ''helm list -n kubecell-system''],
      qs_language = js ''bash'',
      qs_filename = js ''verify-management.sh''\<rparr>\<close>

definition quickstart_steps_4 :: "quick_step" where
  \<open>quickstart_steps_4 =
     \<lparr>qs_id = js ''host'',
      qs_step = js ''03'',
      qs_title = js ''Onboard the host in four commands'',
      qs_body = [El ''p'' []
                   [Txt
                      (js ''Join, approve by hand, install the host chart, and generate the Cell from live discovery. The manual approval is a deliberate safety gate: the installer never auto-approves a ManagedCluster.'')]],
      qs_code = join [10]
                  [js ''# 1. join (run against the host cluster)'',
                   js ''KUBECONFIG=$KUBECONFIG_HOST clusteradm join '' @ [92],
                   js ''  --hub-token "$(clusteradm get token)" '' @ [92],
                   js ''  --hub-apiserver https://hub.example.com:6443 '' @ [92],
                   js ''  --cluster-name cell1 --wait'',
                   [],
                   js ''# 2. accept (run against the management cluster)'',
                   js ''KUBECONFIG=$KUBECONFIG_HUB clusteradm accept --clusters cell1 --wait'',
                   [],
                   js ''# 3. host chart'',
                   js ''kubectl create ns kubecell-system'',
                   js ''helm install kubecell-host ./charts/kubecell-host '' @ [92],
                   js ''  --namespace kubecell-system '' @ [92],
                   js ''  --set image.repository=<controller-repo> --set image.tag=<tag>'',
                   [],
                   js ''# 4. Cell, generated from live discovery'',
                   js ''go run ./cmd/kubecell-installer host --step=cell --cell cell1 '' @ [92],
                   js ''  --kubeconfig $KUBECONFIG_HOST | grep -v '^#' > cell.yaml'',
                   js ''kubectl apply -n kubecell-system -f cell.yaml''],
      qs_language = js ''bash'',
      qs_filename = js ''host-onboarding.sh''\<rparr>\<close>

definition quickstart_steps_5 :: "quick_step" where
  \<open>quickstart_steps_5 =
     \<lparr>qs_id = js ''class'',
      qs_step = js ''04'',
      qs_title = js ''Draft a quota tier'',
      qs_body = [El ''p'' []
                   [El ''code'' [cls ''font-mono text-xs''] [Txt (js ''suggest-class'')],
                    Txt
                      (js '' derives a tier from observed allocatable capacity. Adjust the numbers down to the tenant envelope you are comfortable with, then apply.'')]],
      qs_code = join [10]
                  [js ''go run ./cmd/kubecell-installer suggest-class '' @ [92],
                   js ''  --cell-file cell.yaml --name ascend-910b'',
                   [],
                   js ''kubectl apply -f virtualnodeclass.yaml'',
                   js ''kubectl -n kubecell-system get cell cell1 -o wide''],
      qs_language = js ''bash'',
      qs_filename = js ''class.sh''\<rparr>\<close>

definition quickstart_steps_6 :: "quick_step" where
  \<open>quickstart_steps_6 =
     \<lparr>qs_id = js ''virtualcluster'',
      qs_step = js ''05'',
      qs_title = js ''Plan, then create the child cluster'',
      qs_body = [El ''p'' []
                   [Txt (js ''Create a VirtualClusterPlan with identical content first. Wait for''),
                    Txt (js '' ''),
                    El ''code'' [cls ''font-mono text-xs''] [Txt (js ''status.decision=Accepted'')],
                    Txt (js '', then create the VirtualCluster. When it reaches ''),
                    El ''code'' [cls ''font-mono text-xs''] [Txt (js ''phase=Ready'')],
                    Txt (js '', fetch the admin kubeconfig Secret.'')]],
      qs_code = join [10]
                  [js ''kubectl apply -f virtualcluster-plan.yaml'',
                   js ''kubectl -n kubecell-system get vcp child-dev-plan '' @ [92],
                   js ''  -o jsonpath='{.status.decision}{"'' @ [92] @ js ''n"}'' @ [39],
                   [],
                   js ''kubectl apply -f virtualcluster.yaml'',
                   js ''kubectl -n kubecell-system wait --for=condition=Ready '' @ [92],
                   js ''  vc/child-dev --timeout=20m'',
                   [],
                   js ''# Export the admin kubeconfig (mode 600)'',
                   js ''kubectl -n kubecell-system get secret '' @ [92],
                   js ''  kubecell-child-dev-<uid>-admin-kubeconfig '' @ [92],
                   js ''  -o jsonpath='{.data.kubeconfig'' @ [92] @ js ''.yaml}' | base64 -d > child-dev.yaml'',
                   js ''chmod 600 child-dev.yaml'',
                   js ''kubectl --kubeconfig child-dev.yaml get nodes''],
      qs_language = js ''bash'',
      qs_filename = js ''virtualcluster.sh''\<rparr>\<close>

definition quickstart_steps :: "quick_step list" where
  \<open>quickstart_steps =
     [quickstart_steps_1,
      quickstart_steps_2,
      quickstart_steps_3,
      quickstart_steps_4,
      quickstart_steps_5,
      quickstart_steps_6]\<close>

definition howToLd :: "url_fn \<Rightarrow> jstr option \<Rightarrow> json" where
  \<open>howToLd URL env =
     JObj
       [(js ''@context'', JStr (js ''https://schema.org'')),
        (js ''@type'', JStr (js ''HowTo'')),
        (js ''name'', JStr (js ''Provision your first KubeCell VirtualCluster'')),
        (js ''description'',
         JStr
           (js ''Install the KubeCell management plane, onboard a physical host as a Cell, and create an isolated Kubernetes child cluster.'')),
        (js ''url'', JStr (absoluteUrl URL env (Some (js ''/quickstart/'')))),
        (js ''step'',
         JArr
           (map
              (\<lambda>(index, step).
                 JObj
                   [(js ''@type'', JStr (js ''HowToStep'')),
                    (js ''position'', JNum (digits (index + 1))),
                    (js ''name'', JStr (qs_title step)),
                    (js ''url'', JStr (absoluteUrl URL env (Some (js ''/quickstart/#'' @ qs_id step))))])
              (enumerate 0 quickstart_steps)))]\<close>

record next_step =
  ns_href :: jstr
  ns_title :: jstr
  ns_description :: jstr

definition next_steps :: "next_step list" where
  \<open>next_steps =
     [\<lparr>ns_href = js ''/docs/concepts/'',
       ns_title = js ''Understand the model'',
       ns_description = js ''How hosts, quota tiers, and clusters fit together.''\<rparr>,
      \<lparr>ns_href = js ''/docs/operations/'',
       ns_title = js ''Operate it'',
       ns_description = js ''Capacity, credentials, quota changes, deletion.''\<rparr>,
      \<lparr>ns_href = js ''/docs/security/'',
       ns_title = js ''Audit isolation'',
       ns_description = js ''Quotas, network policy, and blocked workloads.''\<rparr>,
      \<lparr>ns_href = js ''/docs/troubleshooting/'',
       ns_title = js ''Debug failures'',
       ns_description = js ''Symptom-first fixes for the common cases.''\<rparr>]\<close>

definition quickstart_hero :: "node list" where
  \<open>quickstart_hero =
     [pageHero (js ''Quickstart'') [Txt (js ''From a fresh host to your first cluster'')]
        [Txt
           (js ''Six steps, four of them commands. The first command only reads, so you can run the whole flow on a lab host without fear.'')]
        [El ''Badge'' [att ''variant'' ''outline'', cls ''border-emerald-400/30 text-emerald-300'']
           [Txt (js ''~30 minutes hands-on, including image pulls'')],
         El ''Link'' [att ''href'' ''/docs/installation/'', cls ''inline-flex items-center gap-1.5 text-sm font-medium text-sky-400 transition-colors hover:text-sky-300'']
           [Txt (js ''Full installation guide''), El ''ArrowRight'' [cls ''h-3.5 w-3.5''] []]]]\<close>

definition quickstart_sections :: "class_fn \<Rightarrow> (real \<Rightarrow> jstr) \<Rightarrow> node list" where
  \<open>quickstart_sections cn num =
     [section_node cn None None
        [El ''div'' [cls ''space-y-16'']
           (map
              (\<lambda>(index, step).
                 El ''BlurFade''
                   [(''key'', qs_id step), (''delay'', num (real index * 0.04)), att ''inView'' ''true'']
                   [El ''div'' [(''id'', qs_id step), cls ''scroll-mt-24'']
                      [El ''div'' [cls ''grid gap-8 lg:grid-cols-[0.85fr_1.15fr] lg:gap-12'']
                         [El ''div'' []
                            [El ''div'' [cls ''flex items-center gap-3'']
                               [El ''span'' [cls ''font-mono text-xs text-sky-400''] [Txt (qs_step step)],
                                El ''span'' [cls ''h-px flex-1 bg-gradient-to-r from-sky-400/40 to-transparent''] []],
                             El ''h2'' [cls ''mt-4 text-2xl font-semibold tracking-tight text-foreground'']
                               [Txt (qs_title step)],
                             El ''div'' [cls ''mt-4 text-sm leading-7 text-muted-foreground''] (qs_body step)],
                          El ''CodeBlock''
                            [(''code'', qs_code step),
                             (''language'', qs_language step),
                             (''filename'', qs_filename step)]
                            []]]])
              (enumerate 0 quickstart_steps))]]\<close>

definition quickstart_next_steps :: "class_fn \<Rightarrow> node list" where
  \<open>quickstart_next_steps cn =
     [section_node cn None (Some (js ''border-t border-white/5 bg-white/[0.015]''))
        [sectionHeading cn (Some (js ''Next steps'')) [Txt (js ''Now that a cluster exists'')]
           [Txt
              (js ''The interesting part is day two: keeping tenants honest, wiring ingress, and reclaiming storage.'')]
           Center
           None,
         El ''div'' [cls ''mt-10 grid gap-4 sm:grid-cols-2 lg:grid-cols-4'']
           (map
              (\<lambda>item.
                 El ''Link''
                   [(''key'', ns_href item),
                    (''href'', ns_href item),
                    cls ''group rounded-xl border border-white/10 bg-white/[0.02] p-5 transition-colors hover:border-sky-400/30 hover:bg-white/[0.04]'']
                   [El ''h3'' [cls ''text-sm font-semibold text-foreground''] [Txt (ns_title item)],
                    El ''p'' [cls ''mt-2 text-sm leading-6 text-muted-foreground''] [Txt (ns_description item)],
                    El ''span'' [cls ''mt-3 inline-flex items-center gap-1 text-xs font-medium text-sky-400'']
                      [Txt (js ''Open''),
                       El ''ArrowRight'' [cls ''h-3 w-3 transition-transform group-hover:translate-x-0.5''] []]])
              next_steps)]]\<close>

definition quickstartPage :: "class_fn \<Rightarrow> (real \<Rightarrow> jstr) \<Rightarrow> url_fn \<Rightarrow> jstr option \<Rightarrow> node list" where
  \<open>quickstartPage cn num URL env =
     [jsonLd (howToLd URL env)] @ quickstart_hero @ quickstart_sections cn num @ quickstart_next_steps cn\<close>

section \<open>app/use-cases/page.tsx\<close>

definition useCases_metadata :: "Metadata" where
  \<open>useCases_metadata =
     buildMetadata (js ''Use cases'')
       (js ''Five concrete ways teams use KubeCell: accelerator sandboxes, ephemeral test environments, training labs, edge field labs, and platform landlord mode on shared hardware.'')
       (js ''/use-cases/'')
       (Some
          [js ''Kubernetes accelerator sandbox'',
           js ''ephemeral Kubernetes environments'',
           js ''GPU cluster for developers'',
           js ''training lab Kubernetes'',
           js ''platform landlord mode''])
       None\<close>

record UseCase =
  uc_id :: jstr
  uc_title :: jstr
  uc_summary :: jstr
  uc_audience :: jstr
  uc_situation :: jstr
  uc_kubecell :: jstr
  uc_outcome :: "jstr list"
  uc_code :: jstr
  uc_filename :: jstr

definition useCases_1 :: "UseCase" where
  \<open>useCases_1 =
     \<lparr>uc_id = js ''accelerator-sandboxes'',
      uc_title = js ''Accelerator sandboxes for AI teams'',
      uc_summary = js ''Every researcher gets a full Kubernetes API with two dedicated 910B cards '' @ [8212] @ js '' no partitioning tricks, no shared queue.'',
      uc_audience = js ''Research and M'' @ js ''L platform teams'',
      uc_situation = js ''Your lab runs one or two powerful ARM64 hosts with eight accelerators each. Today, jobs land in a shared namespace: one runaway workload can starve everyone, and nobody can install an operator or a CRD without stepping on another team's cluster.'',
      uc_kubecell = js ''Publish a quota tier with two whole cards, then hand out clusters. Each one is a real K3s control plane, so teams install whatever operators they need inside their own API server while the host still enforces the quota.'',
      uc_outcome = [js ''Each cluster gets whole cards; two clusters never share one accelerator.'',
                    js ''Capacity shown in status is what the hardware actually reports, not what was requested.'',
                    js ''Quota usage is measured on the host, so the limits you set are the limits that apply.'',
                    js ''Works with any accelerator your cluster advertises, NVIDIA or Ascend alike.''],
      uc_code = join [10]
                  [js ''apiVersion: kubecell.io/v1alpha1'',
                   js ''kind: VirtualNodeClass'',
                   js ''metadata:'',
                   js ''  name: ascend-910b-small'',
                   js ''spec:'',
                   js ''  entitlement:'',
                   js ''    workloadHard:'',
                   js ''      requests.cpu: "4"'',
                   js ''      limits.cpu: "4"'',
                   js ''      requests.memory: 8Gi'',
                   js ''      limits.memory: 8Gi'',
                   js ''      requests.huawei.com/Ascend910: "2"'',
                   js ''      limits.huawei.com/Ascend910: "2"'',
                   js ''  storageClassName: topolvm-provisioner''],
      uc_filename = js ''class-ascend-910b-small.yaml''\<rparr>\<close>

definition useCases_2 :: "UseCase" where
  \<open>useCases_2 =
     \<lparr>uc_id = js ''ephemeral-environments'',
      uc_title = js ''Ephemeral environments per pull request'',
      uc_summary = js ''Spin a child cluster for an integration run, hand over a kubeconfig, then delete it and let the finalizer clean the host.'',
      uc_audience = js ''Teams with heavy integration tests'',
      uc_situation = js ''Integration tests need cluster-scoped objects: CRDs, webhooks, storage classes, and a control plane that can be restarted. A shared namespace cannot provide that, and provisioning a whole managed cluster per test is too slow and too expensive.'',
      uc_kubecell = js ''A cluster is created in seconds once images are warm, and deletion is complete: KubeCell removes the cluster, its credentials, and everything it created on the host. The kubeconfig is always published to one Secret, so CI can pick it up with a single command.'',
      uc_outcome = [js ''One cluster per branch: apply a manifest, wait for Ready, run tests, delete.'',
                    js ''An admin kubeconfig is published every time '' @ [8212] @ js '' no manual hand-off.'',
                    js ''Predictable cleanup, including PVCs, with Retain as the storage safety net.'',
                    js ''Dry-run checks let CI fail fast when the host is out of capacity instead of hanging.''],
      uc_code = join [10]
                  [js ''apiVersion: kubecell.io/v1alpha1'',
                   js ''kind: VirtualClusterPlan'',
                   js ''metadata:'',
                   js ''  name: pr-1842-plan'',
                   js ''  namespace: kubecell-system'',
                   js ''spec:'',
                   js ''  cellRef: {name: cell1}'',
                   js ''  classRef: {name: ci-medium}'',
                   js ''---'',
                   js ''# CI waits for status.decision, then creates the real VirtualCluster'',
                   js ''apiVersion: kubecell.io/v1alpha1'',
                   js ''kind: VirtualCluster'',
                   js ''metadata:'',
                   js ''  name: pr-1842'',
                   js ''  namespace: kubecell-system'',
                   js ''spec:'',
                   js ''  cellRef: {name: cell1}'',
                   js ''  classRef: {name: ci-medium}''],
      uc_filename = js ''ci-virtualcluster.yaml''\<rparr>\<close>

definition useCases_3 :: "UseCase" where
  \<open>useCases_3 =
     \<lparr>uc_id = js ''training-labs'',
      uc_title = js ''Workshops and training labs'',
      uc_summary = js ''Forty students, one host, forty clusters. Quota keeps the class fair and no one can break another student's control plane.'',
      uc_audience = js ''Training providers and universities'',
      uc_situation = js ''Students need admin rights to learn Kubernetes: install operators, break things, and fix them. Namespace-only classrooms cannot teach cluster-scoped concepts, and per-student VMs are expensive and slow to prepare.'',
      uc_kubecell = js ''Create one small quota tier and issue a cluster per student. Each cluster shows a single node, so every kubectl tutorial works verbatim, and the host keeps a misbehaving cluster from affecting the rest of the class.'',
      uc_outcome = [js ''Admin kubeconfigs without giving anyone access to the host.'',
                    js ''Hard CPU and memory caps per student, enforced by Kubernetes, not by convention.'',
                    js ''Students cannot break the host: privileged Pods and hostPath volumes are rejected.'',
                    js ''Teardown is one delete per student cluster.''],
      uc_code = join [10]
                  [js ''# Create the whole class from a small loop'',
                   js ''for student in $(seq 1 40); do'',
                   js ''  cat <<EOF | kubectl apply -f -'',
                   js ''apiVersion: kubecell.io/v1alpha1'',
                   js ''kind: VirtualCluster'',
                   js ''metadata:'',
                   js ''  name: student-$student'',
                   js ''  namespace: kubecell-system'',
                   js ''spec:'',
                   js ''  cellRef: {name: lab-cell}'',
                   js ''  classRef: {name: workshop-small}'',
                   js ''EOF'',
                   js ''done''],
      uc_filename = js ''classroom.sh''\<rparr>\<close>

definition useCases_4 :: "UseCase" where
  \<open>useCases_4 =
     \<lparr>uc_id = js ''field-labs'',
      uc_title = js ''Edge and field labs'',
      uc_summary = js ''Hardware lives where the hardware is. Hosts connect outbound to one management plane '' @ [8212] @ js '' no inbound tunnel per site.'',
      uc_audience = js ''Ops teams running remote sites'',
      uc_situation = js ''Your accelerators and data live at a remote site behind NAT. You still need one place to declare changes, watch capacity, and hand out developer clusters '' @ [8212] @ js '' without opening inbound management paths to every machine.'',
      uc_kubecell = js ''Hosts connect outbound to the management cluster. Every change is applied through that one channel and every observation comes back the same way, so there is no inbound tunnel to maintain and no agent to babysit.'',
      uc_outcome = [js ''One management plane for many sites, with each site isolated on its own hosts.'',
                    js ''No inbound SSH or API access to hosts required for day-to-day operation.'',
                    js ''Sites that stop reporting are visible immediately, before anyone tries to create a cluster.'',
                    js ''Endpoints are discovered and republished, so kubeconfigs keep working after address changes.''],
      uc_code = join [10]
                  [js ''kubectl -n kubecell-system get cells -o custom-columns='' @ [92],
                   js ''NAME:.metadata.name,PHASE:.status.phase,JOINED:.status.managedCluster.joined,'' @ [92],
                   js ''LEASE:.status.managedCluster.leaseFresh,NODES:.status.nodes[*].name''],
      uc_filename = js ''fleet-status.sh''\<rparr>\<close>

definition useCases_5 :: "UseCase" where
  \<open>useCases_5 =
     \<lparr>uc_id = js ''platform-landlord'',
      uc_title = js ''Landlord mode for platform teams'',
      uc_summary = js ''Declare Cells and quota tiers once; product teams self-serve child clusters inside the envelope you defined.'',
      uc_audience = js ''Internal platform teams'',
      uc_situation = js ''Requests for clusters arrive faster than your team can provision hardware. You need the platform to own capacity and guardrails while product teams self-serve inside them '' @ [8212] @ js '' without negotiating every request in chat.'',
      uc_kubecell = js ''The platform publishes hosts with their observed capacity and a small set of quota tiers. Teams check a request with a dry run, then create the cluster. Every step is visible as a Kubernetes resource with status, so capacity conversations happen against real data.'',
      uc_outcome = [js ''Dry runs before commitment: accepted, rejected with reasons, or unknown.'',
                    js ''Capacity accounting per host: requested, pending, and available estimates.'',
                    js ''Bindings are immutable, so capacity cannot silently move between hosts.'',
                    js ''The same tested versions everywhere, upgraded through releases.''],
      uc_code = join [10]
                  [js ''# Tenants can inspect headroom before asking for anything'',
                   js ''kubectl -n kubecell-system get cell cell1 '' @ [92],
                   js ''  -o jsonpath='{range .status.inventory[*]}{.resource}{"'' @ [92] @ js ''t"}{.availableEstimate}{"'' @ [92] @ js ''n"}{end}'' @ [39]],
      uc_filename = js ''capacity.sh''\<rparr>\<close>

definition useCases :: "UseCase list" where
  \<open>useCases =
     [useCases_1, useCases_2, useCases_3, useCases_4, useCases_5]\<close>

definition itemListLd :: "url_fn \<Rightarrow> jstr option \<Rightarrow> json" where
  \<open>itemListLd URL env =
     JObj
       [(js ''@context'', JStr (js ''https://schema.org'')),
        (js ''@type'', JStr (js ''ItemList'')),
        (js ''name'', JStr (js ''KubeCell use cases'')),
        (js ''itemListElement'',
         JArr
           (map
              (\<lambda>(index, useCase).
                 JObj
                   [(js ''@type'', JStr (js ''ListItem'')),
                    (js ''position'', JNum (digits (index + 1))),
                    (js ''name'', JStr (uc_title useCase)),
                    (js ''description'', JStr (uc_summary useCase)),
                    (js ''url'', JStr (absoluteUrl URL env (Some (js ''/use-cases/#'' @ uc_id useCase))))])
              (enumerate 0 useCases)))]\<close>

definition useCases_hero :: "node list" where
  \<open>useCases_hero =
     [pageHero (js ''Use cases'') [Txt (js ''Shared bare metal, private Kubernetes'')]
        [Txt
           (js ''KubeCell is for teams whose hardware is too expensive to duplicate and whose workloads are too real for namespaces alone. Here are five patterns we designed for.'')]
        []]\<close>

definition useCases_sections :: "class_fn \<Rightarrow> (real \<Rightarrow> jstr) \<Rightarrow> node list" where
  \<open>useCases_sections cn num =
     [section_node cn None None
        [El ''div'' [cls ''space-y-20'']
           (map
              (\<lambda>(index, useCase).
                 El ''BlurFade''
                   [(''key'', uc_id useCase), (''delay'', num (0.04 * real index)), att ''inView'' ''true'']
                   [El ''article'' [(''id'', uc_id useCase), cls ''scroll-mt-24'']
                      [El ''div'' [cls ''flex flex-wrap items-center gap-3'']
                         [El ''Badge'' [att ''variant'' ''outline'', cls ''border-sky-400/30 text-sky-300'']
                            [Txt (uc_audience useCase)],
                          El ''span'' [cls ''font-mono text-xs text-muted-foreground'']
                            [Txt (padStart 2 (js ''0'') (digits (index + 1)))]],
                       El ''h2'' [cls ''mt-4 text-2xl font-semibold tracking-tight text-foreground sm:text-3xl'']
                         [Txt (uc_title useCase)],
                       El ''p'' [cls ''mt-3 max-w-3xl text-pretty text-base leading-7 text-muted-foreground'']
                         [Txt (uc_summary useCase)],
                       El ''div'' [cls ''mt-8 grid gap-8 lg:grid-cols-[1.05fr_0.95fr] lg:gap-12'']
                         [El ''div'' [cls ''space-y-6'']
                            [El ''div'' []
                               [El ''h3'' [cls ''text-sm font-semibold uppercase tracking-wider text-muted-foreground'']
                                  [Txt (js ''The situation'')],
                                El ''p'' [cls ''mt-2 text-sm leading-7 text-foreground/85'']
                                  [Txt (uc_situation useCase)]],
                             El ''div'' []
                               [El ''h3'' [cls ''text-sm font-semibold uppercase tracking-wider text-muted-foreground'']
                                  [Txt (js ''With KubeCell'')],
                                El ''p'' [cls ''mt-2 text-sm leading-7 text-foreground/85'']
                                  [Txt (uc_kubecell useCase)]],
                             El ''div'' []
                               [El ''h3'' [cls ''text-sm font-semibold uppercase tracking-wider text-muted-foreground'']
                                  [Txt (js ''What you get'')],
                                El ''ul'' [cls ''mt-2 space-y-2'']
                                  (map
                                     (\<lambda>item.
                                        El ''li''
                                          [(''key'', item),
                                           cls ''flex gap-2 text-sm leading-6 text-muted-foreground'']
                                          [El ''span'' [cls ''mt-2 h-1.5 w-1.5 shrink-0 rounded-full bg-sky-400''] [],
                                           Txt item])
                                     (uc_outcome useCase))]],
                          El ''CodeBlock''
                            [(''code'', uc_code useCase),
                             (''language'',
                              if endsWith (uc_filename useCase) (js ''.sh'') then js ''bash'' else js ''yaml''),
                             (''filename'', uc_filename useCase)]
                            []]]])
              (enumerate 0 useCases)),
         El ''div'' [cls ''mt-20 rounded-2xl border border-white/10 bg-white/[0.02] p-8 text-center'']
           [El ''h2'' [cls ''text-xl font-semibold text-foreground''] [Txt (js ''Do not see your scenario?'')],
            El ''p'' [cls ''mx-auto mt-3 max-w-2xl text-sm leading-6 text-muted-foreground'']
              [Txt
                 (js ''If it needs a real Kubernetes API on hardware you already own, it is probably a fit. Read the technical design or open an issue with your constraints.'')],
            El ''div'' [cls ''mt-6 flex flex-wrap items-center justify-center gap-4 text-sm font-medium'']
              [El ''Link'' [att ''href'' ''/architecture/'', cls ''text-sky-400 hover:text-sky-300'']
                 [Txt (js ''Technical principles'')],
               El ''span'' [cls ''text-white/10''] [Txt (js ''|'')],
               El ''Link'' [att ''href'' ''/quickstart/'', cls ''text-sky-400 hover:text-sky-300'']
                 [Txt (js ''Quickstart'')],
               El ''span'' [cls ''text-white/10''] [Txt (js ''|'')],
               El ''a'' [att ''href'' ''https://github.com/taosher/KubeCell/issues'', att ''target'' ''_blank'', att ''rel'' ''noreferrer'', cls ''inline-flex items-center gap-1 text-sky-400 hover:text-sky-300'']
                 [Txt (js ''Open an issue''), El ''ArrowRight'' [cls ''h-3.5 w-3.5''] []]]]]]\<close>

definition useCasesPage :: "class_fn \<Rightarrow> (real \<Rightarrow> jstr) \<Rightarrow> url_fn \<Rightarrow> jstr option \<Rightarrow> node list" where
  \<open>useCasesPage cn num URL env =
     [jsonLd (itemListLd URL env)] @ useCases_hero @ useCases_sections cn num\<close>

section \<open>app/architecture/page.tsx\<close>

definition architecture_metadata :: "Metadata" where
  \<open>architecture_metadata =
     buildMetadata (js ''Architecture and technical principles'')
       (js ''How KubeCell works under the hood: the three layers, how a request becomes changes on a host, how state stays trustworthy, and which component versions each release validates.'')
       (js ''/architecture/'')
       (Some
          [js ''KubeCell architecture'',
           js ''OCM ManifestWork'',
           js ''K3k shared mode'',
           js ''Kubernetes operator design'',
           js ''TopoLVM reflection'',
           js ''pinned Kubernetes versions''])
       (Some Article)\<close>

record layer =
  layer_icon :: string
  layer_name :: jstr
  layer_summary :: jstr
  layer_points :: "jstr list"

definition layers :: "layer list" where
  \<open>layers =
     [\<lparr>layer_icon = ''CloudCog'',
       layer_name = js ''Management cluster'',
       layer_summary = js ''Single-node K3s. Desired state only; it runs no tenant workloads.'',
       layer_points = [js ''OCM Hub: ManagedCluster, ManifestWork, ManagedServiceAccount, cluster proxy.'',
                       js ''KubeCell management controller plus the CRD admission webhook.'',
                       js ''Four CRDs: Cell, VirtualNodeClass, VirtualClusterPlan, VirtualCluster.'',
                       js ''Installer orchestrates release bundles; charts never mutate OCM objects.'']\<rparr>,
      \<lparr>layer_icon = ''Server'',
       layer_name = js ''Cell host cluster'',
       layer_summary = js ''One Cell equals one OCM ManagedCluster equals one physical host cluster.'',
       layer_points = [js ''OCM klusterlet and work-agent apply the two works per child cluster.'',
                       js ''K3k v1.2.0 in shared mode creates and reflects child clusters.'',
                       js ''Host webhook admits platform Pods and rejects tenant host access.'',
                       js ''Pinned baseline: CNI/CoreDNS, TopoLVM, Traefik, vendor Device Plugins.'']\<rparr>,
      \<lparr>layer_icon = ''Boxes'',
       layer_name = js ''VirtualCluster (child)'',
       layer_summary = js ''A real K3s control plane with one logical node named kubelet.'',
       layer_points = [js ''Independent API server and data volume, stored on TopoLVM.'',
                       js ''Child admin kubeconfig always published to a management-plane Secret.'',
                       js ''Child Pods and PVCs are reflected to the host namespace one-to-one.'',
                       js ''Scale vertically by switching quota tiers, never horizontally.'']\<rparr>]\<close>

record control_step =
  cs_title :: jstr
  cs_body :: jstr

definition controlFlow :: "control_step list" where
  \<open>controlFlow =
     [\<lparr>cs_title = js ''Resolve and snapshot'',
       cs_body = js ''The controller resolves the Cell and VirtualNodeClass, then writes an immutable resolution snapshot to status.resolved. All steady-state rendering reads only from that snapshot.''\<rparr>,
      \<lparr>cs_title = js ''Re-run feasibility'',
       cs_body = js ''Before creating anything, the controller re-runs the same feasibility evaluation the Plan used. A non-Accepted conclusion stops the flow and the report lands in status.feasibilityChecks.''\<rparr>,
      \<lparr>cs_title = js ''Create the Foundation Work'',
       cs_body = js ''Host namespace with policy labels, ResourceQuota, LimitRange, NetworkPolicy, and port-forward RBAC. Only when the work is Applied does the next step start.''\<rparr>,
      \<lparr>cs_title = js ''Create the Instance Work'',
       cs_body = js ''A K3k Cluster in Shared mode plus the K3k VirtualClusterPolicy. The work-agent on the host executes it; K3k then creates the server Pod, data volume, and NodePort Service.''\<rparr>,
      \<lparr>cs_title = js ''Publish credentials'',
       cs_body = js ''The controller reads the K3k kubeconfig Secret through the OCM proxy, rewrites the server address to the auto-discovered host address and NodePort, then republishes it in the management plane.''\<rparr>,
      \<lparr>cs_title = js ''Converge and report'',
       cs_body = js ''Steady-state reconciliation compares observed host state with the snapshot. Drift, stale inventory, and version mismatches surface as conditions '' @ [8212] @ js '' never as silent fixes.''\<rparr>]\<close>

definition foundationWork :: "jstr" where
  \<open>foundationWork =
     join [10]
       [js ''# Foundation Work (excerpt) '' @ [8212] @ js '' host namespace and guardrails'',
        js ''apiVersion: work.open-cluster-management.io/v1'',
        js ''kind: ManifestWork'',
        js ''metadata:'',
        js ''  name: kubecell-<vc>-foundation'',
        js ''  namespace: <managed-cluster-namespace>'',
        js ''spec:'',
        js ''  workload:'',
        js ''    manifests:'',
        js ''    - apiVersion: v1'',
        js ''      kind: Namespace'',
        js ''      metadata:'',
        js ''        name: <vc>-ns'',
        js ''        labels:'',
        js ''          kubecell.io/virtualcluster: <vc>'',
        js ''          kubecell.io/managed: "true"'',
        js ''    - apiVersion: v1'',
        js ''      kind: ResourceQuota      # hard requests/limits from the class'',
        js ''    - apiVersion: v1'',
        js ''      kind: LimitRange         # default 100m / 256Mi'',
        js ''    - apiVersion: networking.k8s.io/v1'',
        js ''      kind: NetworkPolicy      # deny by default'',
        js ''# Instance Work (excerpt) '' @ [8212] @ js '' K3k shared-mode cluster'',
        js ''    - apiVersion: k3k.io/v1beta1'',
        js ''      kind: Cluster'',
        js ''      spec:'',
        js ''        mode: shared'',
        js ''        servers: 1'',
        js ''        agents: 1'',
        js ''        persistence:'',
        js ''          type: dynamic'',
        js ''          storageClassName: topolvm-provisioner'']\<close>

record freshness_check =
  fc_check :: jstr
  fc_meaning :: jstr
  fc_staleRisk :: jstr

definition freshnessChecks :: "freshness_check list" where
  \<open>freshnessChecks =
     [\<lparr>fc_check = js ''OCM Joined'',
       fc_meaning = js ''The klusterlet on the host registered successfully.'',
       fc_staleRisk = js ''Registration can be revoked or replaced.''\<rparr>,
      \<lparr>fc_check = js ''OCM Available'',
       fc_meaning = js ''The hub considers the cluster reachable.'',
       fc_staleRisk = js ''Observed to go stale without updates; not trusted alone.''\<rparr>,
      \<lparr>fc_check = js ''managed-cluster-lease fresh'',
       fc_meaning = js ''The host Lease keeps renewing.'',
       fc_staleRisk = js ''The decisive liveness signal for a Cell.''\<rparr>,
      \<lparr>fc_check = js ''InventoryFresh'',
       fc_meaning = js ''Inventory and storage observations are recent and from a live source.'',
       fc_staleRisk = js ''When false, no feasibility conclusion is trustworthy.''\<rparr>]\<close>

definition nonGoals :: "jstr list" where
  \<open>nonGoals =
     [js ''No custom scheduler, CNI, CSI, device allocator, or host agent: standard Kubernetes behavior applies.'',
      js ''No automatic cross-Cell placement, migration, or failover in the first version.'',
      js ''No strong-adversary multi-tenancy: developer credentials are child-cluster admin kubeconfigs.'',
      js ''port-forward and automatic physical data reclamation are outside the locked commitments.'']\<close>

definition articleLd :: "url_fn \<Rightarrow> jstr option \<Rightarrow> json" where
  \<open>articleLd URL env =
     JObj
       [(js ''@context'', JStr (js ''https://schema.org'')),
        (js ''@type'', JStr (js ''TechArticle'')),
        (js ''headline'', JStr (js ''KubeCell architecture and technical principles'')),
        (js ''description'',
         JStr
           (js ''Three-layer architecture, OCM ManifestWork control flow, snapshot reconciliation, endpoint discovery, and pinned upstream versions.'')),
        (js ''url'', JStr (absoluteUrl URL env (Some (js ''/architecture/'')))),
        (js ''author'', JObj [(js ''@type'', JStr (js ''Organization'')), (js ''name'', JStr (js ''KubeCell''))]),
        (js ''about'',
         JArr
           [JStr (js ''Kubernetes''), JStr (js ''K3k''), JStr (js ''Open Cluster Management''), JStr (js ''TopoLVM'')]),
        (js ''proficiencyLevel'', JStr (js ''Expert''))]\<close>

record ingress_card =
  ic_title :: jstr
  ic_body :: jstr

definition ingress_cards :: "ingress_card list" where
  \<open>ingress_cards =
     [\<lparr>ic_title = js ''You choose the Ingress name'',
       ic_body = js ''Create a standard Ingress with class kubecell in the child cluster. The hostname derives as <ingress>.<vc>.<apps-suffix>; the suffix is a platform constant.''\<rparr>,
      \<lparr>ic_title = js ''Endpoints stay in sync'',
       ic_body = js ''The controller mirrors child Endpoints into the host namespace and strips port names that would break routing.''\<rparr>,
      \<lparr>ic_title = js ''TLS is an operator decision'',
       ic_body = js ''Certificates are issued at the host ingress. The design keeps v1 to HTTP(S) rather than promising protocols it cannot keep.''\<rparr>]\<close>

definition architecture_hero :: "node list" where
  \<open>architecture_hero =
     [pageHero (js ''Technical principles'') [Txt (js ''Small control plane, honest data plane'')]
        [Txt
           (js ''KubeCell is deliberately boring: a controller that writes two OCM ManifestWorks per child cluster, reads hosts only through the OCM proxy, and treats upstream projects as the real implementation.'')]
        [El ''Badge'' [att ''variant'' ''outline'', cls ''border-sky-400/30 text-sky-300'']
           [Txt (js ''For platform engineers and reviewers'')],
         El ''Link'' [att ''href'' ''https://github.com/taosher/KubeCell/blob/main/technical-design.md'', att ''target'' ''_blank'', att ''rel'' ''noreferrer'', cls ''inline-flex items-center gap-1.5 text-sm font-medium text-sky-400 transition-colors hover:text-sky-300'']
           [Txt (js ''Read the full design document''), El ''ArrowRight'' [cls ''h-3.5 w-3.5''] []]]]\<close>

definition architecture_three_layers :: "class_fn \<Rightarrow> node list" where
  \<open>architecture_three_layers cn =
     [section_node cn None None
        [sectionHeading cn (Some (js ''Three layers''))
           [Txt (js ''One management cluster, many Cells, many child clusters'')]
           [Txt
              (js ''Each layer has a single job, and boundaries are enforced by the API surface rather than by convention.'')]
           Center
           None,
         El ''div'' [cls ''mt-12 grid gap-4 lg:grid-cols-3'']
           (map
              (\<lambda>layer.
                 El ''div''
                   [(''key'', layer_name layer), cls ''rounded-2xl border border-white/10 bg-white/[0.02] p-6'']
                   [El ''span'' [cls ''inline-flex h-11 w-11 items-center justify-center rounded-xl border border-sky-400/20 bg-sky-500/10 text-sky-300'']
                      [El (layer_icon layer) [cls ''h-5 w-5''] []],
                    El ''h3'' [cls ''mt-4 text-lg font-semibold text-foreground''] [Txt (layer_name layer)],
                    El ''p'' [cls ''mt-2 text-sm leading-6 text-muted-foreground''] [Txt (layer_summary layer)],
                    El ''ul'' [cls ''mt-4 space-y-2'']
                      (map
                         (\<lambda>point.
                            El ''li'' [(''key'', point), cls ''flex gap-2 text-sm leading-6 text-foreground/80'']
                              [El ''span'' [cls ''mt-2 h-1.5 w-1.5 shrink-0 rounded-full bg-sky-400/80''] [],
                               Txt point])
                         (layer_points layer))])
              layers),
         El ''div'' [cls ''mt-12''] [architectureBeam cn None Technical]]]\<close>

definition architecture_control_flow :: "class_fn \<Rightarrow> node list" where
  \<open>architecture_control_flow cn =
     [section_node cn None (Some (js ''border-y border-white/5 bg-white/[0.015]''))
        [sectionHeading cn (Some (js ''Control flow''))
           [Txt (js ''What happens between kubectl apply and a kubeconfig'')]
           [Txt
              (js ''Every step is idempotent and safe to retry. Failed work is retried by re-rendering from the snapshot, not by patching host state in place.'')]
           Center
           None,
         El ''div'' [cls ''mt-12 grid gap-8 lg:grid-cols-[1.1fr_0.9fr] lg:gap-14'']
           [El ''ol'' [cls ''relative space-y-8 border-l border-white/10 pl-6'']
              (map
                 (\<lambda>(index, step).
                    El ''li'' [(''key'', cs_title step), cls ''relative'']
                      [El ''span'' [cls ''absolute -left-[31px] flex h-6 w-6 items-center justify-center rounded-full border border-sky-400/30 bg-[#070c17] font-mono text-[10px] text-sky-300'']
                         [Txt (digits (index + 1))],
                       El ''h3'' [cls ''text-base font-semibold text-foreground''] [Txt (cs_title step)],
                       El ''p'' [cls ''mt-1.5 text-sm leading-6 text-muted-foreground''] [Txt (cs_body step)]])
                 (enumerate 0 controlFlow)),
            El ''CodeBlock''
              [(''code'', foundationWork), att ''language'' ''yaml'', att ''filename'' ''manifestwork-excerpt.yaml'']
              []]]]\<close>

definition architecture_truth_and_freshness :: "class_fn \<Rightarrow> node list" where
  \<open>architecture_truth_and_freshness cn =
     [section_node cn None None
        [El ''div'' [cls ''grid gap-12 lg:grid-cols-2 lg:items-start lg:gap-16'']
           [El ''div'' []
              [sectionHeading cn (Some (js ''Truth and freshness''))
                 [Txt (js ''A Cell is Ready only when its observations are alive'')]
                 [Txt
                    (js ''KubeCell separates '' @ [8220] @ js ''the object exists'' @ [8221] @ js '' from '' @ [8220] @ js ''the system is healthy'' @ [8221] @ js ''. Lease freshness and inventory freshness are first-class conditions, because stale data is the most common cause of wrong capacity decisions.'')]
                 LeftAligned
                 None,
               El ''div'' [cls ''mt-8 overflow-hidden rounded-2xl border border-white/10'']
                 [El ''table'' [cls ''w-full border-collapse text-left text-sm'']
                    [El ''thead'' []
                       [El ''tr'' [cls ''bg-white/[0.03]'']
                          [El ''th'' [cls ''px-4 py-3 font-medium text-muted-foreground''] [Txt (js ''Signal'')],
                           El ''th'' [cls ''px-4 py-3 font-medium text-muted-foreground''] [Txt (js ''Means'')],
                           El ''th'' [cls ''px-4 py-3 font-medium text-muted-foreground''] [Txt (js ''Failure mode'')]]],
                     El ''tbody'' []
                       (map
                          (\<lambda>row.
                             El ''tr'' [(''key'', fc_check row), cls ''border-t border-white/5'']
                               [El ''td'' [cls ''px-4 py-3 font-mono text-xs text-sky-300''] [Txt (fc_check row)],
                                El ''td'' [cls ''px-4 py-3 text-muted-foreground''] [Txt (fc_meaning row)],
                                El ''td'' [cls ''px-4 py-3 text-muted-foreground''] [Txt (fc_staleRisk row)]])
                          freshnessChecks)]]],
            El ''div'' [cls ''space-y-6'']
              [sectionHeading cn (Some (js ''Endpoint discovery''))
                 [Txt (js ''Addresses are observed, never configured'')]
                 [Txt
                    (js ''The API address is not part of spec. The controller reads Ready host nodes through the proxy, takes the InternalIP of the first node by name, and records it in status.'')]
                 LeftAligned
                 None,
               El ''CodeBlock''
                 [att ''language'' ''bash'',
                  att ''filename'' ''endpoint.sh'',
                  (''code'',
                   join [10]
                     [js ''$ kubectl -n kubecell-system get vc child-dev '' @ [92],
                      js ''    -o jsonpath='{.status.endpoint}'' @ [39],
                      js ''{"address":"10.0.12.7","port":31234}'',
                      [],
                      js ''# When the address changes, kubeconfigs are republished'',
                      js ''# automatically. Clients pick up the new file; no CR edit.''])]
                 [],
               El ''p'' [cls ''text-sm leading-6 text-muted-foreground'']
                 [Txt
                    (js ''Exposure method, port range, and proxy identity are platform constants. That is why they are absent from the CRDs: there is exactly one safe value, so exposing them would only create drift.'')]]]]]\<close>

definition architecture_code_layout :: "class_fn \<Rightarrow> node list" where
  \<open>architecture_code_layout cn =
     [section_node cn None None
        [El ''div'' [cls ''grid gap-12 lg:grid-cols-[1fr_1fr] lg:items-center lg:gap-16'']
           [El ''div'' []
              [sectionHeading cn (Some (js ''Code layout'')) [Txt (js ''Where to look in the repository'')]
                 [Txt
                    (js ''The design is small enough to hold in your head: four CRDs in api/, one controller in internal/, two charts, and an installer that owns the release bundle.'')]
                 LeftAligned
                 None,
               El ''p'' [cls ''mt-6 text-sm leading-7 text-muted-foreground'']
                 [Txt
                    (js ''Controllers never install host software; the installer does, at pinned versions. Charts never mutate OCM objects. Those two rules explain most of the directory structure.'')]],
            El ''RepoTree'' [] []]]]\<close>

definition architecture_built_on_upstream :: "class_fn \<Rightarrow> (real \<Rightarrow> jstr) \<Rightarrow> node list" where
  \<open>architecture_built_on_upstream cn num =
     [section_node cn None (Some (js ''border-y border-white/5 bg-white/[0.015]''))
        [El ''div'' [cls ''grid gap-12 lg:grid-cols-[0.9fr_1.1fr] lg:items-center lg:gap-16'']
           [El ''div'' []
              [sectionHeading cn (Some (js ''Built on upstream''))
                 [Txt (js ''Upstream does the work; KubeCell owns the contract'')]
                 [Txt
                    (js ''K3k, K3s, TopoLVM, Traefik, and OCM are used through their public APIs and never patched. You get upstream fixes and behavior directly, and every release can pin and verify the exact combination it was tested with.'')]
                 LeftAligned
                 None,
               El ''ul'' [cls ''mt-8 space-y-3'']
                 (map
                    (\<lambda>item.
                       El ''li'' [(''key'', item), cls ''flex gap-2.5 text-sm leading-6 text-muted-foreground'']
                         [El ''span'' [cls ''mt-2 h-1.5 w-1.5 shrink-0 rounded-full bg-violet-400/80''] [], Txt item])
                    nonGoals)],
            orbitingStack cn num],
         El ''div'' [cls ''mt-16'']
           [sectionHeading cn (Some (js ''Locked combination'')) [Txt (js ''Versions that move together'')]
              [Txt (js ''Changing any of these requires a release, not a CR edit.'')]
              LeftAligned
              None,
            El ''div'' [cls ''mt-8 overflow-hidden rounded-2xl border border-white/10'']
              [El ''div'' [cls ''overflow-x-auto'']
                 [El ''table'' [cls ''w-full min-w-[640px] border-collapse text-left text-sm'']
                    [El ''thead'' []
                       [El ''tr'' [cls ''bg-white/[0.03]'']
                          [El ''th'' [cls ''px-5 py-3.5 font-medium text-muted-foreground''] [Txt (js ''Component'')],
                           El ''th'' [cls ''px-5 py-3.5 font-medium text-muted-foreground''] [Txt (js ''Version'')],
                           El ''th'' [cls ''px-5 py-3.5 font-medium text-muted-foreground''] [Txt (js ''Notes'')]]],
                     El ''tbody'' []
                       (map
                          (\<lambda>row.
                             El ''tr'' [(''key'', pin_component row), cls ''border-t border-white/5'']
                               [El ''td'' [cls ''px-5 py-3.5 font-medium text-foreground''] [Txt (pin_component row)],
                                El ''td'' [cls ''px-5 py-3.5 font-mono text-xs text-sky-300''] [Txt (pin_version row)],
                                El ''td'' [cls ''px-5 py-3.5 text-muted-foreground''] [Txt (pin_note row)]])
                          pinnedStack)]]]]]]\<close>

definition architecture_ingress_and_north_south :: "class_fn \<Rightarrow> node list" where
  \<open>architecture_ingress_and_north_south cn =
     [section_node cn None None
        [sectionHeading cn (Some (js ''Ingress and north-south''))
           [Txt (js ''One host ingress, predictable hostnames'')]
           [Txt
              (js ''Host Traefik owns ports 80 and 443 for the whole host. It watches only VirtualCluster namespaces that carry the KubeCell label, so one noisy tenant cannot claim the edge.'')]
           Center
           None,
         El ''div'' [cls ''mt-10 grid gap-4 md:grid-cols-3'']
           (map
              (\<lambda>card.
                 El ''div'' [(''key'', ic_title card), cls ''rounded-2xl border border-white/10 bg-white/[0.02] p-6'']
                   [El ''Layers'' [cls ''h-5 w-5 text-sky-300''] [],
                    El ''h3'' [cls ''mt-3 text-base font-semibold text-foreground''] [Txt (ic_title card)],
                    El ''p'' [cls ''mt-2 text-sm leading-6 text-muted-foreground''] [Txt (ic_body card)]])
              ingress_cards),
         El ''div'' [cls ''mt-10''] [failureModes]]]\<close>

definition architecturePage :: "class_fn \<Rightarrow> (real \<Rightarrow> jstr) \<Rightarrow> url_fn \<Rightarrow> jstr option \<Rightarrow> node list" where
  \<open>architecturePage cn num URL env =
     [jsonLd (articleLd URL env)] @
     architecture_hero @
     architecture_three_layers cn @
     architecture_control_flow cn @
     architecture_truth_and_freshness cn @
     architecture_code_layout cn @
     architecture_built_on_upstream cn num @
     architecture_ingress_and_north_south cn\<close>

section \<open>app/not-found.tsx\<close>

definition notFound :: "node" where
  \<open>notFound =
     El ''div'' [cls ''relative overflow-hidden'']
       [El ''div'' [cls ''pointer-events-none absolute inset-0 bg-grid-faint opacity-50''] [],
        El ''div'' [cls ''container-page relative flex min-h-[60vh] flex-col items-center justify-center py-24 text-center'']
          [El ''p'' [cls ''font-mono text-xs uppercase tracking-[0.24em] text-sky-400''] [Txt (js ''404'')],
           El ''h1'' [cls ''mt-4 text-3xl font-semibold tracking-tight text-foreground sm:text-4xl'']
             [Txt (js ''This cluster does not exist'')],
           El ''p'' [cls ''mt-4 max-w-lg text-pretty text-base leading-7 text-muted-foreground'']
             [Txt
                (js ''The page you requested is not in the desired state and cannot be reconciled. Try the documentation index or head back home.'')],
           El ''div'' [cls ''mt-8 flex flex-wrap items-center justify-center gap-3'']
             [El ''Button'' [att ''asChild'' ''true''] [El ''Link'' [att ''href'' ''/''] [Txt (js ''Back to home'')]],
              El ''Button'' [att ''variant'' ''outline'', att ''asChild'' ''true'']
                [El ''Link'' [att ''href'' ''/docs/''] [Txt (js ''Browse docs'')]]]]]\<close>

section \<open>The contract of a page\<close>

lemmas quickstart_defs =
  quickstart_steps_1_def quickstart_steps_2_def quickstart_steps_3_def quickstart_steps_4_def quickstart_steps_5_def
  quickstart_steps_6_def quickstart_steps_def next_steps_def quickstart_hero_def quickstart_sections_def
  quickstart_next_steps_def quickstartPage_def

interpretation quickstart: site_page env "js ''/quickstart/''" "{}" "quickstartPage cn num URL env" for cn num URL env
  by unfold_locales (simp_all add: quickstart_defs page_eval cong: opaque)

lemmas use_cases_defs =
  useCases_1_def useCases_2_def useCases_3_def useCases_4_def useCases_5_def useCases_def useCases_hero_def
  useCases_sections_def useCasesPage_def

interpretation use_cases: site_page env "js ''/use-cases/''" "{}" "useCasesPage cn num URL env" for cn num URL env
  by unfold_locales (simp_all add: use_cases_defs page_eval cong: opaque)

lemmas architecture_defs =
  layers_def controlFlow_def freshnessChecks_def nonGoals_def ingress_cards_def architecture_hero_def
  architecture_three_layers_def architecture_control_flow_def architecture_truth_and_freshness_def
  architecture_code_layout_def architecture_built_on_upstream_def architecture_ingress_and_north_south_def
  architecturePage_def

interpretation architecture: site_page env "js ''/architecture/''" "{}" "architecturePage cn num URL env" for cn num URL env
  by unfold_locales (simp_all add: architecture_defs architectureBeam_eval pinnedStack_def failureModes_def failures_def orbitingStack_eval page_eval cong: opaque)

end
