(* ===== verification/Wrappers.thy ===== *)
theory Wrappers
  imports Layout_Effects
begin

text \<open>
  The decorative wrappers of \<open>components/magicui\<close> that animate by style sheet alone
  (\<open>marquee\<close>, \<open>bento-grid\<close>, \<open>border-beam\<close>, \<open>shine-border\<close>, \<open>shimmer-button\<close>, \<open>shiny-button\<close>,
  \<open>animated-gradient-text\<close>, \<open>animated-shiny-text\<close>, \<open>aurora-text\<close>, \<open>backlight\<close>) and
  \<open>components/shimmer-link.tsx\<close> and \<open>components/logo.tsx\<close>.

  Properties that a component hands on with \<open>...props\<close> are the list \<open>props\<close>; they stand before or
  after the component's own ones as in the source, and \<open>prop_of\<close> reads a property the way
  React does, the last one winning. \<open>num\<close> is the text of a number.
\<close>

definition prop_of :: "string \<Rightarrow> (string \<times> jstr) list \<Rightarrow> jstr option" where
  "prop_of k as = map_of (rev as) k"

lemma prop_of_simps [simp]:
  "prop_of k [] = None" "prop_of k (as @ bs) = (case prop_of k bs of Some v \<Rightarrow> Some v | None \<Rightarrow> prop_of k as)"
  "prop_of k ((l, v) # as) = (case prop_of k as of Some w \<Rightarrow> Some w | None \<Rightarrow> if k = l then Some v else None)"
  by (auto simp: prop_of_def map_add_def split: option.splits)

section \<open>marquee.tsx\<close>

record marquee_props =
  mq_className :: "jstr option"
  mq_reverse :: bool
  mq_pauseOnHover :: bool
  mq_children :: "node list"
  mq_vertical :: bool
  mq_repeat :: nat
  mq_props :: "(string \<times> jstr) list"

definition marquee_default :: "node list \<Rightarrow> marquee_props" where
  "marquee_default ns = \<lparr>mq_className = None, mq_reverse = False, mq_pauseOnHover = False, mq_children = ns, mq_vertical = False,
     mq_repeat = 4, mq_props = []\<rparr>"

text \<open>A key of an object argument of \<open>cn\<close> is taken if its value is true.\<close>

abbreviation on_if :: "bool \<Rightarrow> string \<Rightarrow> jstr option" where
  "on_if b c \<equiv> (if b then Some (js c) else None)"

definition marquee_copy :: "class_fn \<Rightarrow> marquee_props \<Rightarrow> nat \<Rightarrow> node" where
  "marquee_copy cn p i = El ''div''
     [(''key'', digits i), (''className'', cn
        [Some (js ''flex shrink-0 justify-around gap-(--gap)''), on_if (\<not> mq_vertical p) ''animate-marquee flex-row'',
         on_if (mq_vertical p) ''animate-marquee-vertical flex-col'',
         on_if (mq_pauseOnHover p) ''group-hover:[animation-play-state:paused]'',
         on_if (mq_reverse p) ''[animation-direction:reverse]''])]
     (mq_children p)"

definition marquee :: "class_fn \<Rightarrow> marquee_props \<Rightarrow> node" where
  "marquee cn p = El ''div''
     (mq_props p @ [(''className'', cn
        [Some (js ''group flex gap-(--gap) overflow-hidden p-2 [--duration:40s] [--gap:1rem]''),
         on_if (\<not> mq_vertical p) ''flex-row'', on_if (mq_vertical p) ''flex-col'', mq_className p])])
     (map (marquee_copy cn p) [0..<mq_repeat p])"

section \<open>bento-grid.tsx\<close>

definition bentoGrid :: "class_fn \<Rightarrow> jstr option \<Rightarrow> (string \<times> jstr) list \<Rightarrow> node list \<Rightarrow> node" where
  "bentoGrid cn className props children = El ''div''
     ((''className'', cn [Some (js ''grid w-full auto-rows-[22rem] grid-cols-3 gap-4''), className]) # props) children"

record bento_card =
  bc_name :: jstr
  bc_className :: jstr
  bc_background :: node
  bc_Icon :: string
  bc_description :: jstr
  bc_href :: jstr
  bc_cta :: jstr

definition bento_link :: "bento_card \<Rightarrow> node" where
  "bento_link c = El ''Button'' [att ''variant'' ''link'', att ''asChild'' ''true'', att ''size'' ''sm'', cls ''pointer-events-auto p-0'']
     [El ''a'' [(''href'', bc_href c)]
        [Txt (bc_cta c), El ''ArrowRightIcon'' [cls ''ms-2 h-4 w-4 rtl:rotate-180''] []]]"

definition bentoCard :: "class_fn \<Rightarrow> bento_card \<Rightarrow> (string \<times> jstr) list \<Rightarrow> node" where
  "bentoCard cn c props = El ''div''
     ([(''key'', bc_name c),
       (''className'', cn
          [Some (js ''group relative col-span-3 flex flex-col justify-between overflow-hidden rounded-xl''),
           Some (js ''bg-background transform-gpu [border:1px_solid_rgba(255,255,255,0.1)] [box-shadow:0_-20px_80px_-20px_#ffffff1f_inset]''),
           Some (bc_className c)])] @ props)
     [El ''div'' [] [bc_background c],
      El ''div'' [cls ''p-4'']
        [El ''div'' [cls ''pointer-events-none z-10 flex transform-gpu flex-col gap-1 transition-all duration-300 lg:group-hover:-translate-y-10'']
           [El (bc_Icon c) [cls ''h-10 w-10 origin-left transform-gpu text-sky-300/80 transition-all duration-300 ease-in-out group-hover:scale-75''] [],
            El ''h3'' [cls ''text-xl font-semibold text-foreground''] [Txt (bc_name c)],
            El ''p'' [cls ''max-w-lg text-muted-foreground''] [Txt (bc_description c)]],
         El ''div'' [(''className'', cn [Some (js ''pointer-events-none flex w-full translate-y-0 transform-gpu flex-row items-center transition-all duration-300 group-hover:translate-y-0 group-hover:opacity-100 lg:hidden'')])]
           [bento_link c]],
      El ''div'' [(''className'', cn [Some (js ''pointer-events-none absolute bottom-0 hidden w-full translate-y-10 transform-gpu flex-row items-center p-4 opacity-0 transition-all duration-300 group-hover:translate-y-0 group-hover:opacity-100 lg:flex'')])]
        [bento_link c],
      El ''div'' [cls ''pointer-events-none absolute inset-0 transform-gpu transition-all duration-300 group-hover:bg-black/3 group-hover:dark:bg-neutral-800/10''] []]"

section \<open>border-beam.tsx, shine-border.tsx\<close>

record border_beam_props =
  bb_className :: "jstr option"
  bb_size :: real
  bb_duration :: real
  bb_delay :: real
  bb_colorFrom :: jstr
  bb_colorTo :: jstr
  bb_transition :: "(string \<times> jstr) list"
  bb_style :: "(string \<times> jstr) list"
  bb_reverse :: bool
  bb_initialOffset :: real
  bb_borderWidth :: real

definition border_beam_default :: border_beam_props where
  "border_beam_default = \<lparr>bb_className = None, bb_size = 50, bb_duration = 6, bb_delay = 0, bb_colorFrom = js ''#ffaa40'',
     bb_colorTo = js ''#9c40ff'', bb_transition = [], bb_style = [], bb_reverse = False, bb_initialOffset = 0, bb_borderWidth = 1\<rparr>"

definition beam_offsets :: "border_beam_props \<Rightarrow> real list" where
  "beam_offsets p =
     (if bb_reverse p then [100 - bb_initialOffset p, - bb_initialOffset p] else [bb_initialOffset p, 100 + bb_initialOffset p])"

abbreviation under :: "string \<Rightarrow> (string \<times> jstr) list \<Rightarrow> (string \<times> jstr) list" where
  "under name as \<equiv> map (\<lambda>(k, v). (name @ k, v)) as"

definition borderBeam :: "class_fn \<Rightarrow> (real \<Rightarrow> jstr) \<Rightarrow> border_beam_props \<Rightarrow> node" where
  "borderBeam cn num p = El ''div''
     [cls ''pointer-events-none absolute inset-0 rounded-[inherit] border-(length:--border-beam-width) border-transparent mask-[linear-gradient(transparent,transparent),linear-gradient(#000,#000)] mask-intersect [mask-clip:padding-box,border-box]'',
      (''style.--border-beam-width'', num (bb_borderWidth p) @ js ''px'')]
     [El ''motion.div''
        ([(''className'', cn
             [Some (js ''absolute aspect-square''), Some (js ''bg-linear-to-l from-(--color-from) via-(--color-to) to-transparent''),
              bb_className p]),
          (''style.width'', num (bb_size p)),
          (''style.offsetPath'', js ''rect(0 auto auto 0 round '' @ num (bb_size p) @ js ''px)''),
          (''style.--color-from'', bb_colorFrom p), (''style.--color-to'', bb_colorTo p)] @ under ''style.'' (bb_style p) @
         [(''initial.offsetDistance'', num (bb_initialOffset p) @ js ''%''),
          (''animate.offsetDistance'', join (js '','') (map (\<lambda>x. num x @ js ''%'') (beam_offsets p))),
          att ''transition.repeat'' ''Infinity'', att ''transition.ease'' ''linear'',
          (''transition.duration'', num (bb_duration p)), (''transition.delay'', num (- bb_delay p))] @
         under ''transition.'' (bb_transition p)) []]"

text \<open>\<open>shineColor\<close> is one colour or a list of colours.\<close>

record shine_props =
  sh_borderWidth :: real
  sh_duration :: real
  sh_shineColor :: "jstr + jstr list"
  sh_className :: "jstr option"
  sh_style :: "(string \<times> jstr) list"
  sh_props :: "(string \<times> jstr) list"

definition shine_default :: shine_props where
  "shine_default = \<lparr>sh_borderWidth = 1, sh_duration = 14, sh_shineColor = Inl (js ''#000000''), sh_className = None,
     sh_style = [], sh_props = []\<rparr>"

definition shineBorder :: "class_fn \<Rightarrow> (real \<Rightarrow> jstr) \<Rightarrow> shine_props \<Rightarrow> node" where
  "shineBorder cn num p = El ''div''
     ([(''style.--border-width'', num (sh_borderWidth p) @ js ''px''), (''style.--duration'', num (sh_duration p) @ js ''s''),
       (''style.backgroundImage'', js ''radial-gradient(transparent,transparent, '' @
          (case sh_shineColor p of Inl c \<Rightarrow> c | Inr cs \<Rightarrow> join (js '','') cs) @ js '',transparent,transparent)''),
       att ''style.backgroundSize'' ''300% 300%'',
       att ''style.mask'' ''linear-gradient(#fff 0 0) content-box, linear-gradient(#fff 0 0)'',
       att ''style.WebkitMask'' ''linear-gradient(#fff 0 0) content-box, linear-gradient(#fff 0 0)'',
       att ''style.WebkitMaskComposite'' ''xor'', att ''style.maskComposite'' ''exclude'', att ''style.padding'' ''var(--border-width)''] @
      under ''style.'' (sh_style p) @
      [(''className'', cn
          [Some (js ''motion-safe:animate-shine pointer-events-none absolute inset-0 size-full rounded-[inherit] will-change-[background-position]''),
           sh_className p])] @ sh_props p) []"

section \<open>shimmer-link.tsx, shimmer-button.tsx, shiny-button.tsx\<close>

record shimmer_props =
  sm_shimmerColor :: jstr
  sm_shimmerSize :: jstr
  sm_shimmerDuration :: jstr
  sm_borderRadius :: jstr
  sm_background :: jstr
  sm_className :: "jstr option"

definition shimmer_link_default :: shimmer_props where
  "shimmer_link_default = \<lparr>sm_shimmerColor = js ''#9ad4ff'', sm_shimmerSize = js ''0.05em'', sm_shimmerDuration = js ''3s'',
     sm_borderRadius = js ''100px'', sm_background = js ''linear-gradient(110deg,#0E2C5B,45%,#2f7fe0,55%,#0E2C5B)'', sm_className = None\<rparr>"

definition shimmer_button_default :: shimmer_props where
  "shimmer_button_default = \<lparr>sm_shimmerColor = js ''#ffffff'', sm_shimmerSize = js ''0.05em'', sm_shimmerDuration = js ''3s'',
     sm_borderRadius = js ''100px'', sm_background = js ''rgba(0, 0, 0, 1)'', sm_className = None\<rparr>"

definition shimmer_style :: "shimmer_props \<Rightarrow> (string \<times> jstr) list" where
  "shimmer_style p =
     [att ''style.--spread'' ''90deg'', (''style.--shimmer-color'', sm_shimmerColor p), (''style.--radius'', sm_borderRadius p),
      (''style.--speed'', sm_shimmerDuration p), (''style.--cut'', sm_shimmerSize p), (''style.--bg'', sm_background p)]"

definition shimmer_spark :: "class_fn \<Rightarrow> string \<Rightarrow> node" where
  "shimmer_spark cn spin = El ''div'' [(''className'', cn [Some (js ''-z-30 blur-[2px]''), Some (js ''@container-[size] absolute inset-0 overflow-visible'')])]
     [El ''div'' [cls ''animate-shimmer-slide absolute inset-0 aspect-[1] h-[100cqh] rounded-none [mask:none]'']
        [El ''div'' [cls spin] []]]"

definition shimmer_highlight :: "class_fn \<Rightarrow> node" where
  "shimmer_highlight cn = El ''div'' [(''className'', cn
     [Some (js ''absolute inset-0 size-full''), Some (js ''rounded-2xl px-4 py-1.5 text-sm font-medium shadow-[inset_0_-8px_10px_#ffffff1f]''),
      Some (js ''transform-gpu transition-all duration-300 ease-in-out''),
      Some (js ''group-hover:shadow-[inset_0_-6px_10px_#ffffff3f]''), Some (js ''group-active:shadow-[inset_0_-10px_10px_#ffffff3f]'')])] []"

definition shimmerLink :: "class_fn \<Rightarrow> shimmer_props \<Rightarrow> jstr \<Rightarrow> node list \<Rightarrow> node" where
  "shimmerLink cn p href children = El ''Link''
     ((''href'', href) # shimmer_style p @ [(''className'', cn
        [Some (js ''group relative z-0 flex cursor-pointer items-center justify-center gap-2 overflow-hidden whitespace-nowrap border border-white/10 px-6 py-3 text-white [background:var(--bg)] [border-radius:var(--radius)]''),
         Some (js ''transform-gpu transition-transform duration-300 ease-in-out active:translate-y-px''), sm_className p])])
     ([shimmer_spark cn ''animate-spin-around absolute -inset-full w-auto rotate-0 [translate:0_0] [background:conic-gradient(from_calc(270deg-(var(--spread)*0.5)),transparent_0,var(--shimmer-color)_var(--spread),transparent_var(--spread))]''] @
      children @
      [shimmer_highlight cn,
       El ''div'' [(''className'', cn [Some (js ''absolute inset-(--cut) -z-20 [background:var(--bg)] [border-radius:var(--radius)]'')])] []])"

definition shimmerButton :: "class_fn \<Rightarrow> shimmer_props \<Rightarrow> (string \<times> jstr) list \<Rightarrow> node list \<Rightarrow> node" where
  "shimmerButton cn p props children = El ''button''
     (shimmer_style p @ [(''className'', cn
        [Some (js ''group relative z-0 flex cursor-pointer items-center justify-center overflow-hidden [border-radius:var(--radius)] border border-white/10 px-6 py-3 whitespace-nowrap text-white [background:var(--bg)]''),
         Some (js ''transform-gpu transition-transform duration-300 ease-in-out active:translate-y-px''), sm_className p])] @ props)
     ([shimmer_spark cn ''animate-spin-around absolute -inset-full w-auto [translate:0_0] rotate-0 [background:conic-gradient(from_calc(270deg-(var(--spread)*0.5)),transparent_0,var(--shimmer-color)_var(--spread),transparent_var(--spread))]''] @
      children @
      [shimmer_highlight cn,
       El ''div'' [(''className'', cn [Some (js ''absolute inset-(--cut) -z-20 [border-radius:var(--radius)] [background:var(--bg)]'')])] []])"

definition shiny_animation :: "(string \<times> jstr) list" where
  "shiny_animation =
     [att ''initial'' ''{--x: 100%, scale: 0.8}'', att ''animate'' ''{--x: -100%, scale: 1}'', att ''whileTap'' ''{scale: 0.95}'',
      att ''transition.repeat'' ''Infinity'', att ''transition.repeatType'' ''loop'', att ''transition.repeatDelay'' ''1'',
      att ''transition.type'' ''spring'', att ''transition.stiffness'' ''20'', att ''transition.damping'' ''15'', att ''transition.mass'' ''2'',
      att ''transition.scale.type'' ''spring'', att ''transition.scale.stiffness'' ''200'', att ''transition.scale.damping'' ''5'',
      att ''transition.scale.mass'' ''0.5'']"

definition shinyButton :: "class_fn \<Rightarrow> jstr option \<Rightarrow> (string \<times> jstr) list \<Rightarrow> node list \<Rightarrow> node" where
  "shinyButton cn className props children = El ''motion.button''
     ([(''className'', cn
          [Some (js ''relative cursor-pointer rounded-lg border px-6 py-2 font-medium backdrop-blur-xl transition-shadow duration-300 ease-in-out hover:shadow dark:bg-[radial-gradient(circle_at_50%_0%,var(--primary)/10%_0%,transparent_60%)] dark:hover:shadow-[0_0_20px_var(--primary)/10%]''),
           className])] @ shiny_animation @ props)
     [El ''span'' [cls ''relative block size-full text-sm tracking-wide text-[rgb(0,0,0,65%)] uppercase dark:font-light dark:text-[rgb(255,255,255,90%)]'',
        att ''style.maskImage'' ''linear-gradient(-75deg,var(--primary) calc(var(--x) + 20%),transparent calc(var(--x) + 30%),var(--primary) calc(var(--x) + 100%))'']
        children,
      El ''span''
        [att ''style.mask'' ''linear-gradient(rgb(0,0,0), rgb(0,0,0)) content-box exclude,linear-gradient(rgb(0,0,0), rgb(0,0,0))'',
         att ''style.WebkitMask'' ''linear-gradient(rgb(0,0,0), rgb(0,0,0)) content-box exclude,linear-gradient(rgb(0,0,0), rgb(0,0,0))'',
         att ''style.backgroundImage'' ''linear-gradient(-75deg,var(--primary)/10% calc(var(--x)+20%),var(--primary)/50% calc(var(--x)+25%),var(--primary)/10% calc(var(--x)+100%))'',
         cls ''absolute inset-0 z-10 block rounded-[inherit] p-px''] []]"

section \<open>animated-gradient-text.tsx, animated-shiny-text.tsx, aurora-text.tsx, backlight.tsx\<close>

definition animatedGradientText ::
  "class_fn \<Rightarrow> (real \<Rightarrow> jstr) \<Rightarrow> jstr option \<Rightarrow> real option \<Rightarrow> jstr option \<Rightarrow> jstr option \<Rightarrow> (string \<times> jstr) list \<Rightarrow> node list \<Rightarrow> node" where
  "animatedGradientText cn num className speed colorFrom colorTo props children = El ''span''
     ([(''style.--bg-size'', num ((case speed of Some s \<Rightarrow> s | None \<Rightarrow> 1) * 300) @ js ''%''),
       (''style.--color-from'', case colorFrom of Some c \<Rightarrow> c | None \<Rightarrow> js ''#ffaa40''),
       (''style.--color-to'', case colorTo of Some c \<Rightarrow> c | None \<Rightarrow> js ''#9c40ff''),
       (''className'', cn
          [Some (js ''animate-gradient inline bg-linear-to-r from-(--color-from) via-(--color-to) to-(--color-from) bg-size-[var(--bg-size)_100%] bg-clip-text text-transparent''),
           className])] @ props) children"

definition animatedShinyText ::
  "class_fn \<Rightarrow> (real \<Rightarrow> jstr) \<Rightarrow> jstr option \<Rightarrow> real option \<Rightarrow> (string \<times> jstr) list \<Rightarrow> node list \<Rightarrow> node" where
  "animatedShinyText cn num className shimmerWidth props children = El ''span''
     ([(''style.--shiny-width'', num (case shimmerWidth of Some w \<Rightarrow> w | None \<Rightarrow> 100) @ js ''px''),
       (''className'', cn
          [Some (js ''mx-auto max-w-md text-neutral-600/70 dark:text-neutral-400/70''),
           Some (js ''animate-shiny-text bg-size-[var(--shiny-width)_100%] bg-clip-text bg-position-[0_0] bg-no-repeat [transition:background-position_1s_cubic-bezier(.6,.6,0,1)_infinite]''),
           Some (js ''bg-linear-to-r from-transparent via-black/80 via-50% to-transparent dark:via-white/80''), className])] @ props) children"

definition aurora_colors :: "jstr list" where
  "aurora_colors = [js ''#FF0080'', js ''#7928CA'', js ''#0070F3'', js ''#38bdf8'']"

text \<open>\<open>colors[0]\<close> of an empty list is \<open>undefined\<close>, which a template prints as a word.\<close>

definition aurora_gradient :: "jstr list \<Rightarrow> jstr" where
  "aurora_gradient colors = js ''linear-gradient(135deg, '' @ join (js '', '') colors @ js '', '' @
     (case colors of [] \<Rightarrow> js ''undefined'' | c # _ \<Rightarrow> c) @ js '')''"

definition auroraText :: "(real \<Rightarrow> jstr) \<Rightarrow> jstr \<Rightarrow> jstr list \<Rightarrow> real \<Rightarrow> node list \<Rightarrow> node" where
  "auroraText num className colors speed children = El ''span'' [(''className'', js ''relative inline-block '' @ className)]
     [El ''span'' [cls ''sr-only''] children,
      El ''span'' [cls ''animate-aurora relative bg-size-[200%_auto] bg-clip-text text-transparent'',
        (''style.backgroundImage'', aurora_gradient colors), att ''style.WebkitBackgroundClip'' ''text'',
        att ''style.WebkitTextFillColor'' ''transparent'', (''style.animationDuration'', num (10 / speed) @ js ''s''),
        att ''aria-hidden'' ''true''] children]"

text \<open>\<open>uid\<close> is the identifier \<open>useId\<close> returns.\<close>

definition backlight :: "(real \<Rightarrow> jstr) \<Rightarrow> jstr \<Rightarrow> real option \<Rightarrow> jstr option \<Rightarrow> node list \<Rightarrow> node" where
  "backlight num uid blur className children = El ''div'' (case className of Some c \<Rightarrow> [(''className'', c)] | None \<Rightarrow> [])
     [El ''svg'' [att ''width'' ''0'', att ''height'' ''0'', att ''aria-hidden'' ''true'']
        [El ''filter'' [(''id'', uid), att ''y'' ''-50%'', att ''x'' ''-50%'', att ''width'' ''200%'', att ''height'' ''200%'']
           [El ''feGaussianBlur'' [att ''in'' ''SourceGraphic'', (''stdDeviation'', num (case blur of Some b \<Rightarrow> b | None \<Rightarrow> 20)),
              att ''result'' ''blurred''] [],
            El ''feColorMatrix'' [att ''type'' ''saturate'', att ''in'' ''blurred'', att ''values'' ''4''] [],
            El ''feComposite'' [att ''in'' ''SourceGraphic'', att ''operator'' ''over''] []]],
      El ''div'' [(''style.filter'', js ''url(#'' @ uid @ js '')'')] children]"

section \<open>logo.tsx\<close>

definition logo :: "class_fn \<Rightarrow> jstr option \<Rightarrow> bool option \<Rightarrow> node" where
  "logo cn className withWordmark = El ''span'' [(''className'', cn [Some (js ''inline-flex items-center gap-2.5''), className])]
     ([El ''img'' [att ''src'' ''/kubecell-logo.svg'', att ''alt'' ''KubeCell logo'', att ''width'' ''36'', att ''height'' ''39'', cls ''h-9 w-auto''] []] @
      (if (case withWordmark of Some b \<Rightarrow> b | None \<Rightarrow> True)
       then [El ''span'' [cls ''text-[17px] font-semibold tracking-tight text-foreground'']
               [Txt (js ''Kube''), El ''span'' [cls ''text-sky-400''] [Txt (js ''Cell'')]]]
       else []))"

section \<open>What the wrappers keep\<close>

text \<open>A wrapper that repeats nothing shows the text of its children and no other.\<close>

lemma wrappers_text:
  "textContent (shimmerLink cn sp href ns) = concat (map textContent ns)"
  "textContent (shimmerButton cn sp ps ns) = concat (map textContent ns)"
  "textContent (shinyButton cn c ps ns) = concat (map textContent ns)"
  "textContent (animatedGradientText cn num c a b d ps ns) = concat (map textContent ns)"
  "textContent (animatedShinyText cn num c w ps ns) = concat (map textContent ns)"
  "textContent (backlight num uid bl c ns) = concat (map textContent ns)"
  "textContent (bentoGrid cn c ps ns) = concat (map textContent ns)"
  by (simp_all add: shimmerLink_def shimmerButton_def shinyButton_def shimmer_spark_def shimmer_highlight_def animatedGradientText_def
      animatedShinyText_def backlight_def bentoGrid_def)

text \<open>The marquee shows its children once per repetition, under distinct keys.\<close>

lemma marquee_repeats:
  "textContent (marquee cn p) = concat (replicate (mq_repeat p) (concat (map textContent (mq_children p))))"
  "child_keys (kids (marquee cn p)) = map digits [0..<mq_repeat p]"
  "distinct (child_keys (kids (marquee cn p)))"
proof -
  show "textContent (marquee cn p) = concat (replicate (mq_repeat p) (concat (map textContent (mq_children p))))"
    by (simp add: marquee_def marquee_copy_def comp_def map_replicate_const)
  show keys: "child_keys (kids (marquee cn p)) = map digits [0..<mq_repeat p]"
    by (simp add: marquee_def marquee_copy_def child_keys_def comp_def)
  show "distinct (child_keys (kids (marquee cn p)))"
    unfolding keys by (simp add: distinct_map inj_on_def)
qed

text \<open>
  The accessible copy of the shimmering text comes first and is hidden from sight, the painted one
  is hidden from assistive technology: a reader meets the text once either way.
\<close>

lemma aurora_once:
  "map textContent (kids (auroraText num c cs sp ns)) = [concat (map textContent ns), concat (map textContent ns)]"
  "map (\<lambda>n. map_of (attrs n) ''aria-hidden'' = Some (js ''true'')) (kids (auroraText num c cs sp ns)) = [False, True]"
  by (simp_all add: auroraText_def)

text \<open>The beam travels once around, in the direction asked for.\<close>

lemma beam_offsets_turn:
  "beam_offsets p ! 1 - beam_offsets p ! 0 = (if bb_reverse p then - 100 else 100)"
  by (simp add: beam_offsets_def)

end
