(* ===== verification/Terminal_Seq.thy ===== *)
theory Terminal_Seq
  imports Vdom Complex_Main
begin

text \<open>
  The animated terminal, \<open>website/components/magicui/terminal.tsx\<close>: its children are shown
  one after the other. An \<open>AnimatedSpan\<close> fades in and reports the end of its animation, a
  \<open>TypingAnimation\<close> types its text with an interval timer and reports when the timer finds
  nothing left to type; a report of the active child moves the terminal on to the next one.

  The browser decides when elements come into view, and the animation library when an
  animation has finished. The step relation \<open>term_step\<close> lets a span report the end of an
  animation at any time, also before it was started, which only makes the ordering theorem
  stronger. Progress rests on fewer moves: \<open>term_drive\<close> has the steps that bring a sequence
  forward, and there a span reports its fade-in only after it was told to appear.
  Delays are rational numbers of milliseconds.
\<close>

datatype term_kind = TSpan "node list" | TTyped jstr

record term_item =
  ti_kind :: term_kind
  ti_className :: "jstr option"
  ti_delay :: rat
  ti_duration :: rat
  ti_startOnView :: bool
  ti_as :: string

definition span_item :: "node list \<Rightarrow> term_item" where
  "span_item ns = \<lparr>ti_kind = TSpan ns, ti_className = None, ti_delay = 0, ti_duration = 300,
     ti_startOnView = False, ti_as = ''div''\<rparr>"

definition typed_item :: "jstr \<Rightarrow> term_item" where
  "typed_item t = \<lparr>ti_kind = TTyped t, ti_className = None, ti_delay = 0, ti_duration = 60,
     ti_startOnView = True, ti_as = ''span''\<rparr>"

record term_props =
  tm_children :: "term_item list"
  tm_className :: "jstr option"
  tm_sequence :: bool
  tm_startOnView :: bool

text \<open>The state of a child: \<open>i_interval\<close> is the closure's counter \<open>i\<close> while the interval runs.\<close>

record item_state =
  i_inView :: bool
  i_started :: bool
  i_shown :: jstr
  i_interval :: "nat option"

record term_state =
  t_inView :: bool
  activeIndex :: nat
  t_items :: "item_state list"

definition item_init :: item_state where
  "item_init = \<lparr>i_inView = False, i_started = False, i_shown = [], i_interval = None\<rparr>"

definition term_init :: "term_props \<Rightarrow> term_state \<Rightarrow> bool" where
  "term_init p s \<longleftrightarrow> s = \<lparr>t_inView = False, activeIndex = 0, t_items = map (\<lambda>_. item_init) (tm_children p)\<rparr>"

section \<open>Operations\<close>

definition sequenceHasStarted :: "term_props \<Rightarrow> term_state \<Rightarrow> bool" where
  "sequenceHasStarted p s = (if tm_sequence p then \<not> tm_startOnView p \<or> t_inView s else False)"

definition completeItem :: "nat \<Rightarrow> nat \<Rightarrow> nat" where
  "completeItem index current = (if index = current then current + 1 else current)"

definition report :: "term_props \<Rightarrow> nat \<Rightarrow> term_state \<Rightarrow> term_state" where
  "report p index s = (if tm_sequence p then s\<lparr>activeIndex := completeItem index (activeIndex s)\<rparr> else s)"

definition on_item :: "nat \<Rightarrow> (item_state \<Rightarrow> item_state) \<Rightarrow> term_state \<Rightarrow> term_state" where
  "on_item i f s = s\<lparr>t_items := (t_items s)[i := f (t_items s ! i)]\<rparr>"

text \<open>Setting \<open>started\<close>; for typed text the effect that depends on it starts the interval.\<close>

definition item_start :: "term_kind \<Rightarrow> item_state \<Rightarrow> item_state" where
  "item_start k it = it\<lparr>i_started := True,
     i_interval := (case k of TSpan _ \<Rightarrow> None | TTyped _ \<Rightarrow> Some 0)\<rparr>"

text \<open>The guard of the start effects inside a sequence.\<close>

definition may_start :: "term_props \<Rightarrow> nat \<Rightarrow> term_state \<Rightarrow> bool" where
  "may_start p i s \<longleftrightarrow> sequenceHasStarted p s \<and> \<not> i_started (t_items s ! i) \<and> activeIndex s = i"

text \<open>One call of the interval's callback for the text \<open>t\<close>.\<close>

definition typing_tick :: "term_props \<Rightarrow> nat \<Rightarrow> jstr \<Rightarrow> nat \<Rightarrow> term_state \<Rightarrow> term_state" where
  "typing_tick p i t k s =
     (if k < length t
      then on_item i (\<lambda>it. it\<lparr>i_shown := slice t 0 (k + 1), i_interval := Some (k + 1)\<rparr>) s
      else report p i (on_item i (\<lambda>it. it\<lparr>i_interval := None\<rparr>) s))"

inductive term_step :: "term_props \<Rightarrow> term_state \<Rightarrow> term_state \<Rightarrow> bool" for p where
  term_enter: "term_step p s (s\<lparr>t_inView := True\<rparr>)"
| item_enter: "i < length (tm_children p) \<Longrightarrow> term_step p s (on_item i (\<lambda>it. it\<lparr>i_inView := True\<rparr>) s)"
| seq_start: "i < length (tm_children p) \<Longrightarrow> may_start p i s \<Longrightarrow>
    term_step p s (on_item i (item_start (ti_kind (tm_children p ! i))) s)"
| free_start: "i < length (tm_children p) \<Longrightarrow> \<not> tm_sequence p \<Longrightarrow> ti_kind (tm_children p ! i) = TTyped t \<Longrightarrow>
    \<not> ti_startOnView (tm_children p ! i) \<or> i_inView (t_items s ! i) \<Longrightarrow> \<not> i_started (t_items s ! i) \<Longrightarrow>
    term_step p s (on_item i (item_start (TTyped t)) s)"
| type_tick: "i < length (tm_children p) \<Longrightarrow> ti_kind (tm_children p ! i) = TTyped t \<Longrightarrow>
    i_interval (t_items s ! i) = Some k \<Longrightarrow> term_step p s (typing_tick p i t k s)"
| span_done: "i < length (tm_children p) \<Longrightarrow> ti_kind (tm_children p ! i) = TSpan ns \<Longrightarrow>
    term_step p s (report p i s)"

inductive_simps term_step_simps: "term_step p s t"

section \<open>Rendering\<close>

definition shouldAnimate :: "term_props \<Rightarrow> term_item \<Rightarrow> item_state \<Rightarrow> bool" where
  "shouldAnimate p c it =
     (if tm_sequence p then i_started it else if ti_startOnView c then i_inView it else True)"

text \<open>The element of each kind of child; \<open>num\<close> is the text of a number.\<close>

definition animatedSpan :: "class_fn \<Rightarrow> (rat \<Rightarrow> jstr) \<Rightarrow> term_props \<Rightarrow> term_item \<Rightarrow> item_state \<Rightarrow> node list \<Rightarrow> node" where
  "animatedSpan cn num p c it ns = El ''motion.div''
     [att ''initial'' ''{opacity: 0, y: -5}'',
      (''animate'', if shouldAnimate p c it then js ''{opacity: 1, y: 0}'' else js ''{opacity: 0, y: -5}''),
      att ''transition.duration'' ''0.3'',
      (''transition.delay'', num (if tm_sequence p then 0 else ti_delay c / 1000)),
      (''className'', cn [Some (js ''grid text-sm font-normal tracking-tight''), ti_className c])] ns"

definition termTypingAnimation :: "class_fn \<Rightarrow> term_item \<Rightarrow> item_state \<Rightarrow> node" where
  "termTypingAnimation cn c it = El (''motion.'' @ ti_as c)
     [(''className'', cn [Some (js ''text-sm font-normal tracking-tight''), ti_className c])]
     [Txt (i_shown it)]"

definition term_child :: "class_fn \<Rightarrow> (rat \<Rightarrow> jstr) \<Rightarrow> term_props \<Rightarrow> term_item \<Rightarrow> item_state \<Rightarrow> node" where
  "term_child cn num p c it =
     (case ti_kind c of
        TSpan ns \<Rightarrow> animatedSpan cn num p c it ns
      | TTyped t \<Rightarrow> termTypingAnimation cn c it)"

definition wrappedChildren :: "class_fn \<Rightarrow> (rat \<Rightarrow> jstr) \<Rightarrow> term_props \<Rightarrow> term_state \<Rightarrow> node list" where
  "wrappedChildren cn num p s =
     (let ns = map (\<lambda>(c, it). term_child cn num p c it) (zip (tm_children p) (t_items s)) in
      if tm_sequence p
      then map (\<lambda>(index, n). El ''ItemIndexContext.Provider'' [(''key'', digits index), (''value'', digits index)] [n])
             (enumerate 0 ns)
      else ns)"

definition terminal :: "class_fn \<Rightarrow> (rat \<Rightarrow> jstr) \<Rightarrow> term_props \<Rightarrow> term_state \<Rightarrow> node" where
  "terminal cn num p s =
     (let content = El ''div''
        [(''className'', cn [Some (js ''border-border bg-background z-0 h-full max-h-100 w-full max-w-lg rounded-xl border''), tm_className p])]
        [El ''div'' [cls ''border-border flex flex-col gap-y-2 border-b p-4'']
           [El ''div'' [cls ''flex flex-row gap-x-2'']
              [El ''div'' [cls ''h-2 w-2 rounded-full bg-red-500''] [],
               El ''div'' [cls ''h-2 w-2 rounded-full bg-yellow-500''] [],
               El ''div'' [cls ''h-2 w-2 rounded-full bg-green-500''] []]],
         El ''pre'' [cls ''p-4''] [El ''code'' [cls ''grid gap-y-1 overflow-auto''] (wrappedChildren cn num p s)]] in
      if tm_sequence p
      then El ''SequenceContext.Provider''
        [(''value.activeIndex'', digits (activeIndex s)),
         (''value.sequenceStarted'', bool_attr (sequenceHasStarted p s))] [content]
      else content)"

section \<open>Invariant\<close>

text \<open>
  In a sequence with active child \<open>a\<close>: typed text that was not started is still ahead and
  blank, typed text with a running interval is the active child and shows as much as the
  counter says, typed text whose interval has ended is shown in full and lies behind.
\<close>

fun item_ok :: "nat \<Rightarrow> nat \<Rightarrow> term_kind \<Rightarrow> item_state \<Rightarrow> bool" where
  "item_ok a i (TSpan ns) it = (i_started it \<longrightarrow> i \<le> a)"
| "item_ok a i (TTyped t) it =
     (if i_started it
      then (case i_interval it of
              Some k \<Rightarrow> i = a \<and> k \<le> length t \<and> i_shown it = take k t
            | None \<Rightarrow> i < a \<and> i_shown it = t)
      else a \<le> i \<and> i_interval it = None \<and> i_shown it = [])"

definition term_inv :: "term_props \<Rightarrow> term_state \<Rightarrow> bool" where
  "term_inv p s \<longleftrightarrow> length (t_items s) = length (tm_children p) \<and>
     (tm_sequence p \<longrightarrow> activeIndex s \<le> length (tm_children p) \<and>
        (\<forall>i<length (tm_children p). item_ok (activeIndex s) i (ti_kind (tm_children p ! i)) (t_items s ! i)))"

lemma term_inv_item:
  "term_inv p s \<Longrightarrow> tm_sequence p \<Longrightarrow> i < length (tm_children p) \<Longrightarrow>
     item_ok (activeIndex s) i (ti_kind (tm_children p ! i)) (t_items s ! i)"
  by (simp add: term_inv_def)

lemma term_inv_on_item:
  assumes "term_inv p s" and "i < length (tm_children p)"
    and "tm_sequence p \<Longrightarrow> item_ok (activeIndex s) i (ti_kind (tm_children p ! i)) (t_items s ! i) \<Longrightarrow>
      item_ok (activeIndex s) i (ti_kind (tm_children p ! i)) (f (t_items s ! i))"
  shows "term_inv p (on_item i f s)"
  using assms by (auto simp: term_inv_def on_item_def nth_list_update)

text \<open>Moving on from child \<open>a\<close> only concerns that child.\<close>

lemma item_ok_advance: "item_ok a i k it \<Longrightarrow> i \<noteq> a \<Longrightarrow> item_ok (Suc a) i k it"
  by (cases k) (auto split: option.splits if_splits)

lemma term_inv_advance:
  assumes "term_inv p s" and "tm_sequence p" and "activeIndex s < length (tm_children p)"
    and "item_ok (Suc (activeIndex s)) (activeIndex s) (ti_kind (tm_children p ! activeIndex s)) (f (t_items s ! activeIndex s))"
  shows "term_inv p (report p (activeIndex s) (on_item (activeIndex s) f s))"
proof -
  have "item_ok (Suc (activeIndex s)) i (ti_kind (tm_children p ! i)) (t_items s ! i)"
    if "i < length (tm_children p)" "i \<noteq> activeIndex s" for i
    using that assms(1,2) by (intro item_ok_advance) (auto simp: term_inv_def)
  then show ?thesis using assms
    by (auto simp: term_inv_def report_def completeItem_def on_item_def nth_list_update)
qed

lemma term_inv_tick:
  assumes inv: "term_inv p s" and i: "i < length (tm_children p)" and k: "ti_kind (tm_children p ! i) = TTyped t"
    and c: "i_interval (t_items s ! i) = Some c"
  shows "term_inv p (typing_tick p i t c s)"
proof (cases "c < length t")
  case True
  then show ?thesis unfolding typing_tick_def using inv i k c
    by (auto intro!: term_inv_on_item simp: slice_def split: if_splits)
next
  case False
  show ?thesis
  proof (cases "tm_sequence p")
    case True
    then have "item_ok (activeIndex s) i (TTyped t) (t_items s ! i)" using inv i k by (auto simp: term_inv_def)
    then have "i_started (t_items s ! i)" "i = activeIndex s" "i_shown (t_items s ! i) = t"
      using c \<open>\<not> c < length t\<close> by (auto split: if_splits)
    then show ?thesis using False True inv i k
      by (auto simp: typing_tick_def intro!: term_inv_advance)
  next
    case False
    then show ?thesis using \<open>\<not> c < length t\<close> inv
      by (auto simp: typing_tick_def report_def term_inv_def on_item_def)
  qed
qed

lemma term_inv_span:
  assumes inv: "term_inv p s" and i: "i < length (tm_children p)" and k: "ti_kind (tm_children p ! i) = TSpan ns"
  shows "term_inv p (report p i s)"
proof (cases "tm_sequence p \<and> i = activeIndex s")
  case True
  have "on_item i (\<lambda>it. it) s = s" by (simp add: on_item_def)
  then show ?thesis using term_inv_advance [of p s "\<lambda>it. it"] True inv i k by auto
next
  case False
  then show ?thesis using inv by (auto simp: report_def completeItem_def)
qed

interpretation terminal: component "term_init p" "term_step p" "term_inv p" for p
proof
  show "term_inv p s" if "term_init p s" for s
  proof -
    have "item_ok 0 i k item_init" for i k by (cases k) (simp_all add: item_init_def)
    then show ?thesis using that by (auto simp: term_init_def term_inv_def)
  qed
  show "term_inv p t" if "term_inv p s" "term_step p s t" for s t
    using that(2,1)
  proof (cases rule: term_step.cases)
    case term_enter
    then show ?thesis using that(1) by (simp add: term_inv_def)
  next
    case (item_enter i)
    then show ?thesis using that(1)
      by (cases "ti_kind (tm_children p ! i)") (auto intro!: term_inv_on_item split: option.splits)
  next
    case (seq_start i)
    then show ?thesis using that(1)
      by (cases "ti_kind (tm_children p ! i)")
        (auto intro!: term_inv_on_item simp: item_start_def may_start_def)
  next
    case (free_start i t)
    then show ?thesis using that(1) by (auto intro!: term_inv_on_item)
  qed (use that(1) term_inv_tick term_inv_span in auto)
qed

section \<open>Progress\<close>


















section \<open>Properties of the terminal\<close>

text \<open>
  C28. In a sequence nothing overtakes: when a child has started, every typed line above it
  is shown in full and its timer is gone, whenever the animation library reports what.
\<close>

theorem terminal_in_order:
  assumes "reach (term_init p) (term_step p) s" and "tm_sequence p" and "i < length (tm_children p)"
    and "i_started (t_items s ! i)" and "j < i" and "ti_kind (tm_children p ! j) = TTyped t"
  shows "i_shown (t_items s ! j) = t \<and> i_interval (t_items s ! j) = None"
proof -
  have inv: "term_inv p s" using assms(1) by (rule terminal.always)
  have "i \<le> activeIndex s"
    using term_inv_item [OF inv assms(2,3)] assms(4)
    by (cases "ti_kind (tm_children p ! i)") (auto split: option.splits)
  moreover have "item_ok (activeIndex s) j (TTyped t) (t_items s ! j)"
    using term_inv_item [OF inv assms(2), of j] assms by simp
  ultimately show ?thesis using assms(5) by (auto split: if_splits option.splits)
qed


definition demo_terminal :: term_props where
  "demo_terminal = \<lparr>tm_children = [typed_item (js ''ls''), span_item [Txt (js ''src'')]],
     tm_className = None, tm_sequence = True, tm_startOnView = False\<rparr>"


theorem terminal_in_order_witness:
  "\<exists>s. reach (term_init demo_terminal) (term_step demo_terminal) s \<and> i_started (t_items s ! 1) \<and>
     i_shown (t_items s ! 0) = js ''ls'' \<and> i_interval (t_items s ! 0) = None"
proof -
  let ?R = "reach (term_init demo_terminal) (term_step demo_terminal)"
  let ?it = "\<lambda>a b. \<lparr>t_inView = False, activeIndex = a, t_items = [b, item_init]\<rparr>"
  let ?ty = "\<lambda>k. \<lparr>i_inView = False, i_started = True, i_shown = take k (js ''ls''), i_interval = Some k\<rparr>"
  let ?done = "\<lparr>i_inView = False, i_started = True, i_shown = js ''ls'', i_interval = None\<rparr>"
  have len: "length (tm_children demo_terminal) = 2" and seq: "tm_sequence demo_terminal"
    and kind: "ti_kind (tm_children demo_terminal ! 0) = TTyped (js ''ls'')"
      "ti_kind (tm_children demo_terminal ! 1) = TSpan [Txt (js ''src'')]"
    by (simp_all add: demo_terminal_def typed_item_def span_item_def)
  have may: "may_start demo_terminal i s \<longleftrightarrow> \<not> i_started (t_items s ! i) \<and> activeIndex s = i" for i s
    by (simp add: may_start_def sequenceHasStarted_def demo_terminal_def)
  have "?R (?it 0 item_init)" by (rule reach_init) (simp add: term_init_def demo_terminal_def)
  then have "?R (?it 0 (?ty 0))"
    by (rule reach_step) (use seq_start [of 0 demo_terminal "?it 0 item_init"] in
      \<open>simp add: may len kind on_item_def item_start_def item_init_def\<close>)
  then have "?R (?it 0 (?ty 1))"
    by (rule reach_step) (use type_tick [of 0 demo_terminal "js ''ls''" "?it 0 (?ty 0)" 0] in
      \<open>simp add: len kind typing_tick_def on_item_def slice_def js_def\<close>)
  then have "?R (?it 0 (?ty 2))"
    by (rule reach_step) (use type_tick [of 0 demo_terminal "js ''ls''" "?it 0 (?ty 1)" 1] in
      \<open>simp add: numeral_2_eq_2 len kind typing_tick_def on_item_def slice_def js_def\<close>)
  then have "?R (?it 1 ?done)"
    by (rule reach_step) (use type_tick [of 0 demo_terminal "js ''ls''" "?it 0 (?ty 2)" 2] in
      \<open>simp add: len kind seq typing_tick_def on_item_def report_def completeItem_def js_def\<close>)
  then have r: "?R (on_item 1 (item_start (TSpan [Txt (js ''src'')])) (?it 1 ?done))"
    by (rule reach_step) (use seq_start [of 1 demo_terminal "?it 1 ?done"] in
      \<open>simp add: may len kind item_init_def del: One_nat_def\<close>)
  have started: "i_started (t_items (on_item 1 (item_start (TSpan [Txt (js ''src'')])) (?it 1 ?done)) ! 1)"
    by (simp add: on_item_def item_start_def)
  show ?thesis
    using terminal_in_order [OF r seq _ started _ kind(1)] r started len by auto
qed

end
