(* ===== verification/Text_Effects.thy ===== *)
theory Text_Effects
  imports Vdom Complex_Main
begin

text \<open>
  The animated texts of \<open>components/magicui\<close>: \<open>dia-text-reveal.tsx\<close>, \<open>word-rotate.tsx\<close>,
  \<open>animated-list.tsx\<close>, \<open>number-ticker.tsx\<close> and \<open>sparkles-text.tsx\<close>. Each is a record of the
  hooks' states with one definition per effect or callback and a step relation in which timers,
  observers and the frames of the animation library come in any order. Of that library the
  model uses what it documents: an animation moves a value along its easing function until it
  completes or is stopped, \<open>useInView\<close> with \<open>once\<close> does not go back, and a spring reports the
  values it takes. Properties of the components do not change while they are mounted.
\<close>

section \<open>dia-text-reveal.tsx\<close>

definition DEFAULT_COLORS :: "jstr list" where
  "DEFAULT_COLORS = [js ''#c679c4'', js ''#fa3d1d'', js ''#ffb005'', js ''#e1e1fe'', js ''#0358f7'']"

definition BAND_HALF :: real where
  "BAND_HALF = 17"

definition SWEEP_START :: real where
  "SWEEP_START = - BAND_HALF"

definition SWEEP_END :: real where
  "SWEEP_END = 100 + BAND_HALF"

lemmas sweep_defs = BAND_HALF_def SWEEP_START_def SWEEP_END_def

definition sweepEase :: "real \<Rightarrow> real" where
  "sweepEase t = (if t < 1/2 then 4 * t ^ 3 else 1 - (- 2 * t + 2) ^ 3 / 2)"

text \<open>\<open>x.toFixed(2)\<close>: the nearest hundredth, the larger one of two, by magnitude.\<close>

definition toFixed2 :: "real \<Rightarrow> jstr" where
  "toFixed2 x =
     (let n = nat \<lfloor>\<bar>x\<bar> * 100 + 1/2\<rfloor> in
      (if x < 0 then js ''-'' else []) @ digits (n div 100) @ js ''.'' @
      replicate (2 - length (digits (n mod 100))) 48 @ digits (n mod 100))"

text \<open>The stops of the gradient: colour, position, and the position as it is written.\<close>

definition band_pct :: "real \<Rightarrow> nat \<Rightarrow> nat \<Rightarrow> real" where
  "band_pct pos n i = (if n = 1 then pos else pos - BAND_HALF + (real i / (real n - 1)) * BAND_HALF * 2)"

definition band_stops :: "real \<Rightarrow> jstr list \<Rightarrow> (jstr \<times> real \<times> jstr) list" where
  "band_stops pos colors =
     map (\<lambda>(i, c). let pct = band_pct pos (length colors) i in (c, pct, toFixed2 pct)) (enumerate 0 colors)"

definition gradient_stops :: "real \<Rightarrow> jstr list \<Rightarrow> jstr \<Rightarrow> (jstr \<times> real \<times> jstr) list" where
  "gradient_stops pos colors textColor =
     (let bandStart = pos - BAND_HALF; bandEnd = pos + BAND_HALF in
      (if bandStart > 0 then [(textColor, 0, js ''0''), (textColor, bandStart, toFixed2 bandStart)] else []) @
      band_stops pos colors @
      (if bandEnd < 100 then [(js ''transparent'', bandEnd, toFixed2 bandEnd), (js ''transparent'', 100, js ''100'')]
       else []))"

definition buildGradient :: "real \<Rightarrow> jstr list \<Rightarrow> jstr \<Rightarrow> jstr" where
  "buildGradient pos colors textColor =
     (if pos - BAND_HALF \<ge> 100
      then js ''linear-gradient(90deg, '' @ textColor @ js '', '' @ textColor @ js '')''
      else js ''linear-gradient(90deg, '' @
        join (js '', '') (map (\<lambda>(c, _, l). c @ js '' '' @ l @ js ''%'') (gradient_stops pos colors textColor)) @ js '')'')"

text \<open>\<open>width\<close> is the width the browser measures for a text in a hidden copy of the element.\<close>

definition measureWidths :: "(jstr \<Rightarrow> real) \<Rightarrow> jstr list \<Rightarrow> real list" where
  "measureWidths width texts = map width texts"

record reveal_props =
  r_texts :: "jstr list"
  r_colors :: "jstr list"
  r_textColor :: jstr
  r_duration :: real
  r_delay :: real
  r_repeat :: bool
  r_repeatDelay :: real
  r_startOnView :: bool
  r_once :: bool
  r_className :: "jstr option"
  r_fixedWidth :: bool

definition reveal_default :: "jstr list \<Rightarrow> reveal_props" where
  "reveal_default texts = \<lparr>r_texts = texts, r_colors = DEFAULT_COLORS, r_textColor = js ''var(--foreground)'',
     r_duration = 3/2, r_delay = 0, r_repeat = False, r_repeatDelay = 1/2, r_startOnView = True, r_once = True,
     r_className = None, r_fixedWidth = False\<rparr>"

text \<open>
  An index into an array that is moved on by \<open>(i + 1) % n\<close>; \<open>None\<close> is \<open>NaN\<close>, the remainder by
  zero.
\<close>

definition next_index :: "nat \<Rightarrow> nat option \<Rightarrow> nat option" where
  "next_index n i = (case i of None \<Rightarrow> None | Some k \<Rightarrow> if n = 0 then None else Some ((k + 1) mod n))"

definition element_at :: "'a list \<Rightarrow> nat option \<Rightarrow> 'a option" where
  "element_at xs i = (case i of None \<Rightarrow> None | Some k \<Rightarrow> if k < length xs then Some (xs ! k) else None)"

text \<open>
  \<open>r_playing\<close>: the animation started by \<open>animate\<close> is under way, and has come to \<open>r_progress\<close>;
  \<open>r_timer\<close>: the timeout in \<open>timerRef\<close> is pending; \<open>r_cleanup\<close>: the last run of the effect
  returned its clean-up function.
\<close>

record reveal_state =
  r_mounted :: bool
  r_reduced :: bool
  r_inView :: bool
  sweepPos :: real
  r_playing :: bool
  r_progress :: real
  r_timer :: bool
  indexRef :: "nat option"
  activeIndex :: "nat option"
  hasPlayedRef :: bool
  r_cleanup :: bool
  measuredWidths :: "real list"

definition isMulti :: "reveal_props \<Rightarrow> bool" where
  "isMulti p \<longleftrightarrow> length (r_texts p) > 1"

definition play :: "reveal_state \<Rightarrow> reveal_state" where
  "play s = s\<lparr>sweepPos := SWEEP_START, r_playing := True, r_progress := 0\<rparr>"

text \<open>A frame of the animation, and its end with \<open>onComplete\<close>.\<close>

definition sweep_frame :: "real \<Rightarrow> reveal_state \<Rightarrow> reveal_state" where
  "sweep_frame t s = s\<lparr>r_progress := t, sweepPos := SWEEP_START + sweepEase t * (SWEEP_END - SWEEP_START)\<rparr>"

definition onComplete :: "reveal_props \<Rightarrow> reveal_state \<Rightarrow> reveal_state" where
  "onComplete p s = s\<lparr>sweepPos := SWEEP_END, r_progress := 1, r_playing := False, r_timer := r_repeat p \<or> r_timer s\<rparr>"

definition repeat_timer :: "reveal_props \<Rightarrow> reveal_state \<Rightarrow> reveal_state" where
  "repeat_timer p s =
     (let nxt = next_index (length (r_texts p)) (indexRef s) in
      play (s\<lparr>r_timer := False, indexRef := nxt, activeIndex := nxt\<rparr>))"

definition reveal_effect :: "reveal_props \<Rightarrow> reveal_state \<Rightarrow> reveal_state" where
  "reveal_effect p s =
     (if r_reduced s then s\<lparr>sweepPos := SWEEP_END, r_cleanup := False\<rparr>
      else if r_startOnView p \<and> \<not> r_inView s then s\<lparr>r_cleanup := False\<rparr>
      else if r_once p \<and> hasPlayedRef s then s\<lparr>r_cleanup := False\<rparr>
      else play (s\<lparr>hasPlayedRef := True, r_cleanup := True\<rparr>))"

definition reveal_cleanup :: "reveal_state \<Rightarrow> reveal_state" where
  "reveal_cleanup s = (if r_cleanup s then s\<lparr>r_playing := False, r_timer := False\<rparr> else s)"

definition reveal_mount :: "(jstr \<Rightarrow> real) \<Rightarrow> reveal_props \<Rightarrow> bool \<Rightarrow> reveal_state" where
  "reveal_mount width p reduced = reveal_effect p
     \<lparr>r_mounted = True, r_reduced = reduced, r_inView = False, sweepPos = SWEEP_START, r_playing = False, r_progress = 0,
      r_timer = False, indexRef = Some 0, activeIndex = Some 0, hasPlayedRef = False, r_cleanup = False,
      measuredWidths = (if isMulti p then measureWidths width (r_texts p) else [])\<rparr>"

definition reveal_init :: "(jstr \<Rightarrow> real) \<Rightarrow> reveal_props \<Rightarrow> reveal_state \<Rightarrow> bool" where
  "reveal_init width p s \<longleftrightarrow> (\<exists>reduced. s = reveal_mount width p reduced)"

inductive reveal_step :: "reveal_props \<Rightarrow> reveal_state \<Rightarrow> reveal_state \<Rightarrow> bool" for p where
  reveal_frame: "r_playing s \<Longrightarrow> r_progress s \<le> t \<Longrightarrow> t \<le> 1 \<Longrightarrow> reveal_step p s (sweep_frame t s)"
| reveal_complete: "r_playing s \<Longrightarrow> reveal_step p s (onComplete p s)"
| reveal_repeat: "r_timer s \<Longrightarrow> reveal_step p s (repeat_timer p s)"
| reveal_view: "r_mounted s \<Longrightarrow> \<not> (r_once p \<and> r_inView s) \<Longrightarrow>
    reveal_step p s (reveal_effect p (reveal_cleanup s\<lparr>r_inView := \<not> r_inView s\<rparr>))"
| reveal_motion: "r_mounted s \<Longrightarrow> reveal_step p s (reveal_effect p (reveal_cleanup s\<lparr>r_reduced := \<not> r_reduced s\<rparr>))"
| reveal_unmount: "r_mounted s \<Longrightarrow> reveal_step p s (reveal_cleanup s\<lparr>r_mounted := False\<rparr>)"

definition fixedW :: "reveal_props \<Rightarrow> reveal_state \<Rightarrow> real option" where
  "fixedW p s = (if isMulti p \<and> r_fixedWidth p \<and> length (measuredWidths s) > 0 then Some (Max (set (measuredWidths s))) else None)"

definition animatedW :: "reveal_props \<Rightarrow> reveal_state \<Rightarrow> real option" where
  "animatedW p s = (if isMulti p \<and> \<not> r_fixedWidth p then element_at (measuredWidths s) (activeIndex s) else None)"

definition diaTextReveal :: "class_fn \<Rightarrow> (real \<Rightarrow> jstr) \<Rightarrow> reveal_props \<Rightarrow> reveal_state \<Rightarrow> node" where
  "diaTextReveal cn num p s = El ''motion.span''
     ([(''className'', cn [Some (js ''align-bottom leading-[100%] text-inherit''), r_className p]),
       att ''style.transform'' ''translateY(-2px)'', att ''style.color'' ''transparent'',
       att ''style.backgroundClip'' ''text'', att ''style.WebkitBackgroundClip'' ''text'',
       att ''style.backgroundSize'' ''100% 100%'',
       (''style.backgroundImage'', buildGradient (sweepPos s) (r_colors p) (r_textColor p))] @
      (if isMulti p
       then [att ''style.display'' ''inline-block'', att ''style.overflow'' ''hidden'', att ''style.whiteSpace'' ''nowrap'',
             att ''style.verticalAlign'' ''text-center''] @
         (case fixedW p s of Some w \<Rightarrow> [(''style.width'', num w)] | None \<Rightarrow> [])
       else []) @
      (case animatedW p s of Some w \<Rightarrow> [(''animate.width'', num w)] | None \<Rightarrow> []) @
      [att ''transition'' ''{duration: 0.4, ease: [0.4, 0, 0.2, 1]}''])
     (case element_at (r_texts p) (activeIndex s) of Some t \<Rightarrow> [Txt t] | None \<Rightarrow> [])"

section \<open>word-rotate.tsx\<close>

record rotate_props =
  words :: "jstr list"
  w_duration :: nat
  w_motionProps :: "(string \<times> jstr) list"
  w_className :: "jstr option"

definition rotate_default :: "jstr list \<Rightarrow> rotate_props" where
  "rotate_default ws = \<lparr>words = ws, w_duration = 2500,
     w_motionProps = [att ''initial'' ''{opacity: 0, y: -50}'', att ''animate'' ''{opacity: 1, y: 0}'',
       att ''exit'' ''{opacity: 0, y: 50}'', att ''transition'' ''{duration: 0.25, ease: easeOut}''],
     w_className = None\<rparr>"

text \<open>One call of the interval's callback.\<close>

definition rotate_tick :: "rotate_props \<Rightarrow> nat option \<Rightarrow> nat option" where
  "rotate_tick p index = next_index (length (words p)) index"

definition wordRotate :: "class_fn \<Rightarrow> rotate_props \<Rightarrow> nat option \<Rightarrow> node" where
  "wordRotate cn p index = El ''div'' [cls ''overflow-hidden py-2'']
     [El ''AnimatePresence'' [att ''mode'' ''wait'']
        [El ''motion.h1''
           ((case element_at (words p) index of Some w \<Rightarrow> [(''key'', w)] | None \<Rightarrow> []) @
            [(''className'', cn [w_className p])] @ w_motionProps p)
           (case element_at (words p) index of Some w \<Rightarrow> [Txt w] | None \<Rightarrow> [])]]"

section \<open>animated-list.tsx\<close>

definition animatedListItem :: "jstr \<Rightarrow> node \<Rightarrow> node" where
  "animatedListItem key child = El ''motion.div''
     [(''key'', key), att ''initial'' ''{scale: 0, opacity: 0}'', att ''animate'' ''{scale: 1, opacity: 1, originY: 0}'',
      att ''exit'' ''{scale: 0, opacity: 0}'', att ''transition'' ''{type: spring, stiffness: 350, damping: 40}'',
      att ''layout'' ''true'', cls ''mx-auto w-full''] [child]"

text \<open>
  The children with the keys \<open>React.Children.toArray\<close> gives them; \<open>l_timeout\<close>: the timeout of
  the effect is pending.
\<close>

record list_props =
  l_children :: "(jstr \<times> node) list"
  l_className :: "jstr option"
  l_delay :: nat

record list_state =
  l_index :: "nat option"
  l_timeout :: bool

definition list_effect :: "list_props \<Rightarrow> list_state \<Rightarrow> list_state" where
  "list_effect p s = s\<lparr>l_timeout := (case l_index s of None \<Rightarrow> False | Some k \<Rightarrow> int k < int (length (l_children p)) - 1)\<rparr>"

definition list_timeout :: "list_props \<Rightarrow> list_state \<Rightarrow> list_state" where
  "list_timeout p s = list_effect p (s\<lparr>l_index := next_index (length (l_children p)) (l_index s)\<rparr>)"

definition list_init :: "list_props \<Rightarrow> list_state \<Rightarrow> bool" where
  "list_init p s \<longleftrightarrow> s = list_effect p \<lparr>l_index = Some 0, l_timeout = False\<rparr>"

inductive list_step :: "list_props \<Rightarrow> list_state \<Rightarrow> list_state \<Rightarrow> bool" for p where
  list_fires: "l_timeout s \<Longrightarrow> list_step p s (list_timeout p s)"
| list_unmount: "list_step p s (s\<lparr>l_timeout := False\<rparr>)"

definition itemsToShow :: "list_props \<Rightarrow> list_state \<Rightarrow> (jstr \<times> node) list" where
  "itemsToShow p s = (case l_index s of None \<Rightarrow> [] | Some k \<Rightarrow> rev (slice (l_children p) 0 (k + 1)))"

definition animatedList :: "class_fn \<Rightarrow> list_props \<Rightarrow> list_state \<Rightarrow> node" where
  "animatedList cn p s = El ''div'' [(''className'', cn [Some (js ''flex flex-col items-center gap-4''), l_className p])]
     [El ''AnimatePresence'' [] (map (\<lambda>(key, item). animatedListItem key item) (itemsToShow p s))]"

section \<open>number-ticker.tsx\<close>

datatype tick_direction = Up | Down

record ticker_props =
  t_value :: real
  t_startValue :: real
  t_direction :: tick_direction
  t_delay :: real
  t_className :: "jstr option"
  t_decimalPlaces :: nat

definition ticker_default :: "real \<Rightarrow> ticker_props" where
  "ticker_default v = \<lparr>t_value = v, t_startValue = 0, t_direction = Up, t_delay = 0, t_className = None, t_decimalPlaces = 0\<rparr>"

text \<open>
  \<open>motionValue\<close> is what the spring moves to, \<open>springValue\<close> where it is; \<open>t_text\<close> is the text of
  the element.
\<close>

record ticker_state =
  t_mounted :: bool
  motionValue :: real
  springValue :: real
  t_inView :: bool
  t_timer :: bool
  t_text :: jstr

definition ticker_init :: "(real \<Rightarrow> jstr) \<Rightarrow> ticker_props \<Rightarrow> ticker_state \<Rightarrow> bool" where
  "ticker_init num p s \<longleftrightarrow> s =
     (let start = (if t_direction p = Down then t_value p else t_startValue p) in
      \<lparr>t_mounted = True, motionValue = start, springValue = start, t_inView = False, t_timer = False,
       t_text = num (t_startValue p)\<rparr>)"

definition ticker_target :: "ticker_props \<Rightarrow> real" where
  "ticker_target p = (if t_direction p = Down then t_startValue p else t_value p)"

definition ticker_timeout :: "ticker_props \<Rightarrow> ticker_state \<Rightarrow> ticker_state" where
  "ticker_timeout p s = s\<lparr>t_timer := False, motionValue := ticker_target p\<rparr>"

text \<open>
  The listener for changes of the spring; \<open>fmt\<close> formats a number with so many decimal places
  after \<open>toFixed\<close>, as \<open>Intl.NumberFormat\<close> does.
\<close>

definition spring_change :: "(nat \<Rightarrow> real \<Rightarrow> jstr) \<Rightarrow> ticker_props \<Rightarrow> real \<Rightarrow> ticker_state \<Rightarrow> ticker_state" where
  "spring_change fmt p latest s = s\<lparr>springValue := latest, t_text := fmt (t_decimalPlaces p) latest\<rparr>"

inductive ticker_step :: "(nat \<Rightarrow> real \<Rightarrow> jstr) \<Rightarrow> ticker_props \<Rightarrow> ticker_state \<Rightarrow> ticker_state \<Rightarrow> bool" for fmt p where
  ticker_view: "t_mounted s \<Longrightarrow> \<not> t_inView s \<Longrightarrow> ticker_step fmt p s (s\<lparr>t_inView := True, t_timer := True\<rparr>)"
| ticker_timer: "t_timer s \<Longrightarrow> ticker_step fmt p s (ticker_timeout p s)"
| ticker_spring: "t_mounted s \<Longrightarrow> latest \<noteq> springValue s \<Longrightarrow> springValue s \<noteq> motionValue s \<Longrightarrow>
    ticker_step fmt p s (spring_change fmt p latest s)"
| ticker_unmount: "t_mounted s \<Longrightarrow> ticker_step fmt p s (s\<lparr>t_mounted := False, t_timer := False\<rparr>)"

definition numberTicker :: "class_fn \<Rightarrow> ticker_props \<Rightarrow> ticker_state \<Rightarrow> node" where
  "numberTicker cn p s = El ''span''
     [(''className'', cn [Some (js ''inline-block tracking-wider text-black tabular-nums dark:text-white''), t_className p])]
     [Txt (t_text s)]"

section \<open>sparkles-text.tsx\<close>

record sparkle =
  s_id :: jstr
  s_x :: jstr
  s_y :: jstr
  s_color :: jstr
  s_delay :: real
  s_scale :: real
  lifespan :: real

record sparkles_props =
  s_className :: "jstr option"
  s_children :: "node list"
  sparklesCount :: nat
  s_first :: jstr
  s_second :: jstr

definition sparkles_default :: "node list \<Rightarrow> sparkles_props" where
  "sparkles_default ns = \<lparr>s_className = None, s_children = ns, sparklesCount = 10, s_first = js ''#9E7AFF'', s_second = js ''#FE8BBB''\<rparr>"

text \<open>
  The random numbers are a stream of which \<open>s_used\<close> have been taken; \<open>now\<close> is the text of
  \<open>Date.now()\<close> and \<open>num\<close> the text of a number.
\<close>

record sparkles_state =
  sparkles :: "sparkle list"
  s_used :: nat

definition generateStar :: "(real \<Rightarrow> jstr) \<Rightarrow> jstr \<Rightarrow> (nat \<Rightarrow> real) \<Rightarrow> sparkles_props \<Rightarrow> nat \<Rightarrow> sparkle" where
  "generateStar num now rnd p i =
     (let starX = num (rnd i * 100) @ js ''%''; starY = num (rnd (i + 1) * 100) @ js ''%'' in
      \<lparr>s_id = starX @ js ''-'' @ starY @ js ''-'' @ now, s_x = starX, s_y = starY,
       s_color = (if rnd (i + 2) > 1/2 then s_first p else s_second p),
       s_delay = rnd (i + 3) * 2, s_scale = rnd (i + 4) * 1 + 3/10, lifespan = rnd (i + 5) * 10 + 5\<rparr>)"

definition initializeStars :: "(real \<Rightarrow> jstr) \<Rightarrow> jstr \<Rightarrow> (nat \<Rightarrow> real) \<Rightarrow> sparkles_props \<Rightarrow> nat \<Rightarrow> sparkles_state" where
  "initializeStars num now rnd p i =
     \<lparr>sparkles = map (\<lambda>k. generateStar num now rnd p (i + 6 * k)) [0..<sparklesCount p], s_used = i + 6 * sparklesCount p\<rparr>"

fun update_stars :: "(real \<Rightarrow> jstr) \<Rightarrow> jstr \<Rightarrow> (nat \<Rightarrow> real) \<Rightarrow> sparkles_props \<Rightarrow> nat \<Rightarrow> sparkle list \<Rightarrow> sparkle list \<times> nat" where
  "update_stars num now rnd p i [] = ([], i)"
| "update_stars num now rnd p i (star # stars) =
     (if lifespan star \<le> 0
      then (let (ss, j) = update_stars num now rnd p (i + 6) stars in (generateStar num now rnd p i # ss, j))
      else (let (ss, j) = update_stars num now rnd p i stars in (star\<lparr>lifespan := lifespan star - 1/10\<rparr> # ss, j)))"

definition updateStars :: "(real \<Rightarrow> jstr) \<Rightarrow> jstr \<Rightarrow> (nat \<Rightarrow> real) \<Rightarrow> sparkles_props \<Rightarrow> sparkles_state \<Rightarrow> sparkles_state" where
  "updateStars num now rnd p s =
     (let (ss, j) = update_stars num now rnd p (s_used s) (sparkles s) in \<lparr>sparkles = ss, s_used = j\<rparr>)"

definition sparkles_init :: "(real \<Rightarrow> jstr) \<Rightarrow> (nat \<Rightarrow> real) \<Rightarrow> sparkles_props \<Rightarrow> sparkles_state \<Rightarrow> bool" where
  "sparkles_init num rnd p s \<longleftrightarrow> (\<exists>now. s = initializeStars num now rnd p 0)"

inductive sparkles_step ::
  "(real \<Rightarrow> jstr) \<Rightarrow> (nat \<Rightarrow> real) \<Rightarrow> sparkles_props \<Rightarrow> sparkles_state \<Rightarrow> sparkles_state \<Rightarrow> bool" for num rnd p where
  sparkles_tick: "sparkles_step num rnd p s (updateStars num now rnd p s)"

definition sparkle_node :: "(real \<Rightarrow> jstr) \<Rightarrow> sparkle \<Rightarrow> node" where
  "sparkle_node num k = El ''motion.svg''
     [(''key'', s_id k), cls ''pointer-events-none absolute z-20'',
      att ''initial.opacity'' ''0'', (''initial.left'', s_x k), (''initial.top'', s_y k),
      att ''animate.opacity'' ''[0, 1, 0]'', (''animate.scale'', js ''[0, '' @ num (s_scale k) @ js '', 0]''),
      att ''animate.rotate'' ''[75, 120, 150]'', att ''transition.duration'' ''0.8'', att ''transition.repeat'' ''Infinity'',
      (''transition.delay'', num (s_delay k)), att ''width'' ''21'', att ''height'' ''21'', att ''viewBox'' ''0 0 21 21'']
     [El ''path'' [att ''d'' ''M9.82531 0.843845C10.0553 0.215178 10.9446 0.215178 11.1746 0.843845L11.8618 2.72026C12.4006 4.19229 12.3916 6.39157 13.5 7.5C14.6084 8.60843 16.8077 8.59935 18.2797 9.13822L20.1561 9.82534C20.7858 10.0553 20.7858 10.9447 20.1561 11.1747L18.2797 11.8618C16.8077 12.4007 14.6084 12.3916 13.5 13.5C12.3916 14.6084 12.4006 16.8077 11.8618 18.2798L11.1746 20.1562C10.9446 20.7858 10.0553 20.7858 9.82531 20.1562L9.13819 18.2798C8.59932 16.8077 8.60843 14.6084 7.5 13.5C6.39157 12.3916 4.19225 12.4007 2.72023 11.8618L0.843814 11.1747C0.215148 10.9447 0.215148 10.0553 0.843814 9.82534L2.72023 9.13822C4.19225 8.59935 6.39157 8.60843 7.5 7.5C8.60843 6.39157 8.59932 4.19229 9.13819 2.72026L9.82531 0.843845Z'', (''fill'', s_color k)] []]"

definition sparklesText :: "class_fn \<Rightarrow> (real \<Rightarrow> jstr) \<Rightarrow> sparkles_props \<Rightarrow> sparkles_state \<Rightarrow> node" where
  "sparklesText cn num p s = El ''div''
     [(''className'', cn [Some (js ''text-6xl font-bold''), s_className p]),
      (''style.--sparkles-first-color'', s_first p), (''style.--sparkles-second-color'', s_second p)]
     [El ''span'' [cls ''relative inline-block'']
        (map (sparkle_node num) (sparkles s) @ [El ''strong'' [] (s_children p)])]"

section \<open>The sweep\<close>

text \<open>
  Where a gradient has one plain colour: before its first and after its last stop, and between
  two stops of the same colour.
\<close>

fun painted :: "(jstr \<times> real \<times> jstr) list \<Rightarrow> real \<Rightarrow> jstr option" where
  "painted [] x = None"
| "painted [(c, a, l)] x = Some c"
| "painted ((c, a, l) # (d, b, m) # ss) x =
     (if x \<le> a then Some c else if x < b then (if c = d then Some c else None) else painted ((d, b, m) # ss) x)"

lemma painted_last:
  "(\<And>c a l. (c, a, l) \<in> set ss \<Longrightarrow> a \<le> b) \<Longrightarrow> b < x \<Longrightarrow> painted (ss @ [(c, b, l), (c, e, m)]) x = Some c"
proof (induction ss)
  case Nil
  then show ?case by simp
next
  case (Cons q ss)
  obtain d a k where q: "q = (d, a, k)" by (cases q)
  have a: "a \<le> b" using Cons.prems(1) [of d a k] q by simp
  have *: "painted (ss @ [(c, b, l), (c, e, m)]) x = Some c"
    by (rule Cons.IH) (use Cons.prems in auto)
  show ?case
  proof (cases ss)
    case Nil
    with * a Cons.prems(2) q show ?thesis by simp
  next
    case (Cons r rs)
    obtain d' a' k' where r: "r = (d', a', k')" by (cases r)
    have "a' \<le> b" using Cons.prems(1) [of d' a' k'] r Cons by simp
    with * a \<open>b < x\<close> q r Cons show ?thesis by simp
  qed
qed

lemma band_fraction: "i < n \<Longrightarrow> n \<noteq> 1 \<Longrightarrow> 0 \<le> real i / (real n - 1) \<and> real i / (real n - 1) \<le> 1"
  by (auto simp: divide_simps)

lemma band_pct_within: "i < n \<Longrightarrow> pos - BAND_HALF \<le> band_pct pos n i \<and> band_pct pos n i \<le> pos + BAND_HALF"
proof (cases "n = 1")
  case True
  then show ?thesis by (simp add: band_pct_def BAND_HALF_def)
next
  case False
  assume "i < n"
  define q where "q = real i / (real n - 1)"
  have "0 \<le> q" "q \<le> 1" using band_fraction [OF \<open>i < n\<close> False] by (simp_all add: q_def)
  with False show ?thesis by (simp add: band_pct_def BAND_HALF_def flip: q_def)
qed

lemma band_pct_mono: "i \<le> j \<Longrightarrow> 1 \<le> n \<Longrightarrow> band_pct pos n i \<le> band_pct pos n j"
  by (auto simp: band_pct_def BAND_HALF_def divide_right_mono)

lemma band_stops_nth: "i < length colors \<Longrightarrow>
    band_stops pos colors ! i = (colors ! i, band_pct pos (length colors) i, toFixed2 (band_pct pos (length colors) i))"
  by (simp add: band_stops_def Let_def nth_enumerate_eq)

lemma length_band_stops [simp]: "length (band_stops pos colors) = length colors"
  by (simp add: band_stops_def)

lemma band_within: "q \<in> set (band_stops pos colors) \<Longrightarrow> pos - BAND_HALF \<le> fst (snd q) \<and> fst (snd q) \<le> pos + BAND_HALF"
  using band_pct_within by (auto simp: in_set_conv_nth band_stops_nth)

lemma band_sorted: "sorted (map (\<lambda>q. fst (snd q)) (band_stops pos colors))"
  by (auto simp: sorted_iff_nth_mono band_stops_nth intro: band_pct_mono)

lemma gradient_sorted: "sorted (map (\<lambda>q. fst (snd q)) (gradient_stops pos colors textColor))"
  using band_sorted [of pos colors] band_within [of _ pos colors]
  by (force simp: gradient_stops_def Let_def sorted_append BAND_HALF_def)

lemma gradient_left:
  "0 \<le> x \<Longrightarrow> x < pos - BAND_HALF \<Longrightarrow> painted (gradient_stops pos colors textColor) x = Some textColor"
  by (simp add: gradient_stops_def Let_def)

lemma gradient_right:
  "pos + BAND_HALF < x \<Longrightarrow> x \<le> 100 \<Longrightarrow> painted (gradient_stops pos colors textColor) x = Some (js ''transparent'')"
proof -
  assume x: "pos + BAND_HALF < x" "x \<le> 100"
  let ?A = "(if pos - BAND_HALF > 0 then [(textColor, 0, js ''0''), (textColor, pos - BAND_HALF, toFixed2 (pos - BAND_HALF))]
    else []) @ band_stops pos colors"
  have "gradient_stops pos colors textColor =
      ?A @ [(js ''transparent'', pos + BAND_HALF, toFixed2 (pos + BAND_HALF)), (js ''transparent'', 100, js ''100'')]"
    using x by (simp add: gradient_stops_def Let_def)
  moreover have "a \<le> pos + BAND_HALF" if "(c, a, l) \<in> set ?A" for c a l
    using that band_within [of "(c, a, l)" pos colors] by (auto simp: BAND_HALF_def split: if_splits)
  ultimately show ?thesis using painted_last [of ?A "pos + BAND_HALF" x] x(1) by metis
qed

lemma sweepEase_range: "0 \<le> t \<Longrightarrow> t \<le> 1 \<Longrightarrow> 0 \<le> sweepEase t \<and> sweepEase t \<le> 1"
proof (cases "t < 1/2")
  case True
  assume "0 \<le> t"
  then have "t ^ 3 \<le> (1/2) ^ 3" using True by (intro power_mono) auto
  with True \<open>0 \<le> t\<close> show ?thesis by (simp add: sweepEase_def power_divide)
next
  case False
  assume "t \<le> 1"
  then have "0 \<le> (- 2 * t + 2) ^ 3" "(- 2 * t + 2) ^ 3 \<le> 1"
    using False by (auto intro!: zero_le_power power_le_one)
  with False show ?thesis by (simp add: sweepEase_def)
qed

lemma sweepEase_mono: "0 \<le> t \<Longrightarrow> t \<le> u \<Longrightarrow> u \<le> 1 \<Longrightarrow> sweepEase t \<le> sweepEase u"
proof -
  assume t: "0 \<le> t" "t \<le> u" "u \<le> 1"
  have low: "4 * v ^ 3 \<le> 1/2" if "0 \<le> v" "v < 1/2" for v :: real
    using power_mono [of v "1/2" 3] that by (simp add: power_divide)
  have high: "1/2 \<le> 1 - (- 2 * v + 2) ^ 3 / 2" if "1/2 \<le> v" "v \<le> 1" for v :: real
    using power_le_one [of "- 2 * v + 2" 3] that by simp
  consider "u < 1/2" | "t < 1/2" "1/2 \<le> u" | "1/2 \<le> t" by linarith
  then show ?thesis
  proof cases
    case 1
    with t show ?thesis by (simp add: sweepEase_def power_mono)
  next
    case 2
    with t low [of t] high [of u] show ?thesis by (simp add: sweepEase_def)
  next
    case 3
    with t have "(- 2 * u + 2) ^ 3 \<le> (- 2 * t + 2) ^ 3" by (intro power_mono) auto
    with 3 t show ?thesis by (simp add: sweepEase_def)
  qed
qed

definition sweep_at :: "real \<Rightarrow> real" where
  "sweep_at t = SWEEP_START + sweepEase t * (SWEEP_END - SWEEP_START)"

lemma sweep_at_0 [simp]: "sweep_at 0 = SWEEP_START"
  by (simp add: sweep_at_def sweepEase_def)

lemma sweep_at_mono: "0 \<le> t \<Longrightarrow> t \<le> u \<Longrightarrow> u \<le> 1 \<Longrightarrow> sweep_at t \<le> sweep_at u"
  using sweepEase_mono [of t u] by (simp add: sweep_at_def sweep_defs)

lemma sweep_at_range: "0 \<le> t \<Longrightarrow> t \<le> 1 \<Longrightarrow> SWEEP_START \<le> sweep_at t \<and> sweep_at t \<le> SWEEP_END"
  using sweepEase_range [of t] by (simp add: sweep_at_def sweep_defs)

text \<open>
  The invariant of the reveal: where the band is, that the animation and the timer belong to
  the last run of the effect and exclude each other, and which text is shown.
\<close>

definition reveal_inv :: "reveal_props \<Rightarrow> reveal_state \<Rightarrow> bool" where
  "reveal_inv p s \<longleftrightarrow>
     SWEEP_START \<le> sweepPos s \<and> sweepPos s \<le> SWEEP_END \<and>
     (r_playing s \<longrightarrow> 0 \<le> r_progress s \<and> r_progress s \<le> 1 \<and> sweepPos s = sweep_at (r_progress s) \<and>
        r_cleanup s \<and> r_mounted s \<and> \<not> r_timer s) \<and>
     (r_timer s \<longrightarrow> r_cleanup s \<and> r_mounted s \<and> sweepPos s = SWEEP_END) \<and>
     (r_cleanup s \<longrightarrow> \<not> r_reduced s \<and> hasPlayedRef s) \<and>
     (r_mounted s \<and> r_reduced s \<longrightarrow> sweepPos s = SWEEP_END) \<and>
     (r_startOnView p \<and> r_once p \<and> hasPlayedRef s \<longrightarrow> r_inView s) \<and>
     indexRef s = activeIndex s \<and> (r_texts p \<noteq> [] \<longrightarrow> (\<exists>k < length (r_texts p). activeIndex s = Some k))"

lemma reveal_inv_stopped:
  "reveal_inv p s \<Longrightarrow> r_mounted s \<Longrightarrow> reveal_inv p (reveal_cleanup s) \<and> \<not> r_playing (reveal_cleanup s) \<and> \<not> r_timer (reveal_cleanup s)"
  by (auto simp: reveal_inv_def reveal_cleanup_def)

lemma sweep_bounds: "SWEEP_START \<le> SWEEP_START" "SWEEP_START \<le> SWEEP_END" "SWEEP_END \<le> SWEEP_END" "SWEEP_START \<noteq> SWEEP_END"
  by (simp_all add: sweep_defs)

text \<open>A run of the effect, when nothing is playing and either input has just changed.\<close>

lemma reveal_inv_effect:
  assumes "SWEEP_START \<le> sweepPos s" "sweepPos s \<le> SWEEP_END" "\<not> r_playing s" "\<not> r_timer s" "r_mounted s"
    and "r_startOnView p \<and> r_once p \<and> hasPlayedRef s \<longrightarrow> r_inView s"
    and "indexRef s = activeIndex s" "r_texts p \<noteq> [] \<longrightarrow> (\<exists>k < length (r_texts p). activeIndex s = Some k)"
  shows "reveal_inv p (reveal_effect p s)"
  using assms sweep_bounds by (auto simp: reveal_inv_def reveal_effect_def play_def)

lemma reveal_inv_rerun:
  assumes "reveal_inv p s" "r_mounted s" "r_once p \<longrightarrow> r_inView s \<longrightarrow> v"
  shows "reveal_inv p (reveal_effect p (reveal_cleanup s\<lparr>r_inView := v, r_reduced := b\<rparr>))"
proof -
  let ?c = "reveal_cleanup s"
  have "reveal_inv p ?c" "\<not> r_playing ?c" "\<not> r_timer ?c" using reveal_inv_stopped [OF assms(1,2)] by simp_all
  moreover have "r_mounted ?c" "r_inView ?c = r_inView s" using assms(2) by (simp_all add: reveal_cleanup_def)
  ultimately show ?thesis using assms(3) by (intro reveal_inv_effect) (auto simp: reveal_inv_def)
qed

lemma next_index_less: "k < n \<Longrightarrow> \<exists>j < n. next_index n (Some k) = Some j"
  by (simp add: next_index_def)

lemma reveal_inv_repeat: "reveal_inv p s \<Longrightarrow> r_timer s \<Longrightarrow> reveal_inv p (repeat_timer p s)"
  using next_index_less [of _ "length (r_texts p)"] sweep_bounds
  by (auto simp: reveal_inv_def repeat_timer_def play_def Let_def)

lemma reveal_inv_frame: "reveal_inv p s \<Longrightarrow> r_playing s \<Longrightarrow> r_progress s \<le> t \<Longrightarrow> t \<le> 1 \<Longrightarrow> reveal_inv p (sweep_frame t s)"
  using sweep_at_range [of t] by (auto simp: reveal_inv_def sweep_frame_def sweep_at_def)

lemma reveal_inv_complete: "reveal_inv p s \<Longrightarrow> r_playing s \<Longrightarrow> reveal_inv p (onComplete p s)"
  using sweep_bounds by (auto simp: reveal_inv_def onComplete_def)

interpretation reveal: component "reveal_init width p" "reveal_step p" "reveal_inv p" for width p
proof
  fix s
  assume "reveal_init width p s"
  then obtain b where s: "s = reveal_mount width p b" by (auto simp: reveal_init_def)
  show "reveal_inv p s"
    unfolding s reveal_mount_def by (rule reveal_inv_effect) (auto simp: sweep_bounds)
next
  fix s t
  assume inv: "reveal_inv p s" and "reveal_step p s t"
  from this(2) show "reveal_inv p t"
  proof cases
    case reveal_view
    have "reveal_cleanup s\<lparr>r_inView := \<not> r_inView s\<rparr> = reveal_cleanup s\<lparr>r_inView := \<not> r_inView s, r_reduced := r_reduced s\<rparr>"
      by (simp add: reveal_cleanup_def)
    with inv reveal_view reveal_inv_rerun [of p s "\<not> r_inView s" "r_reduced s"] show ?thesis by auto
  next
    case reveal_motion
    have "reveal_cleanup s\<lparr>r_reduced := \<not> r_reduced s\<rparr> = reveal_cleanup s\<lparr>r_inView := r_inView s, r_reduced := \<not> r_reduced s\<rparr>"
      by (simp add: reveal_cleanup_def)
    with inv reveal_motion reveal_inv_rerun [of p s "r_inView s" "\<not> r_reduced s"] show ?thesis by auto
  next
    case reveal_unmount
    then have "reveal_inv p (reveal_cleanup s)" "\<not> r_playing (reveal_cleanup s)" "\<not> r_timer (reveal_cleanup s)"
      using reveal_inv_stopped [OF inv] by simp_all
    then show ?thesis unfolding reveal_unmount(1) by (auto simp: reveal_inv_def)
  qed (use inv in \<open>auto intro: reveal_inv_frame reveal_inv_complete reveal_inv_repeat\<close>)
qed

text \<open>The text is being revealed or is revealed whenever it may be.\<close>

definition revealing :: "reveal_props \<Rightarrow> reveal_state \<Rightarrow> bool" where
  "revealing p s \<longleftrightarrow> (r_mounted s \<and> (r_inView s \<or> \<not> r_startOnView p) \<longrightarrow> r_playing s \<or> sweepPos s = SWEEP_END)"

lemma revealing_effect:
  assumes "r_once p \<and> hasPlayedRef s \<longrightarrow> sweepPos s = SWEEP_END"
  shows "revealing p (reveal_effect p s)"
  using assms by (auto simp: revealing_def reveal_effect_def play_def)

lemma revealing_step:
  assumes ok: "r_startOnView p \<or> \<not> r_once p" and inv: "reveal_inv p s" and r: "revealing p s" and st: "reveal_step p s t"
  shows "revealing p t"
  using st
proof cases
  case reveal_view
  show ?thesis unfolding reveal_view(1)
    by (rule revealing_effect) (use reveal_view ok inv in \<open>auto simp: reveal_cleanup_def reveal_inv_def\<close>)
next
  case reveal_motion
  show ?thesis
  proof (cases "r_reduced s")
    case True
    with inv reveal_motion have "sweepPos s = SWEEP_END" by (simp add: reveal_inv_def)
    then show ?thesis unfolding reveal_motion(1) by (intro revealing_effect) (simp add: reveal_cleanup_def)
  next
    case False
    then show ?thesis unfolding reveal_motion(1) by (simp add: revealing_def reveal_effect_def)
  qed
qed (use r in \<open>auto simp: revealing_def sweep_frame_def onComplete_def repeat_timer_def play_def Let_def\<close>)

lemma revealing_always:
  assumes "r_startOnView p \<or> \<not> r_once p" and "reach (reveal_init width p) (reveal_step p) s"
  shows "revealing p s"
  using assms(2)
proof (induction rule: reach.induct)
  case (reach_init s)
  then obtain b where "s = reveal_mount width p b" by (auto simp: reveal_init_def)
  then show ?case unfolding reveal_mount_def by (simp add: revealing_effect)
next
  case (reach_step s t)
  then show ?case using revealing_step [OF assms(1) reveal.always] by blast
qed

text \<open>A reveal that has played and is at rest, with the band at \<open>x\<close> or at the end.\<close>

definition at_rest :: "real \<Rightarrow> reveal_state \<Rightarrow> bool" where
  "at_rest x s \<longleftrightarrow> hasPlayedRef s \<and> \<not> r_playing s \<and> \<not> r_timer s \<and> \<not> r_cleanup s \<and> sweepPos s \<in> {x, SWEEP_END}"

lemma at_rest_step:
  assumes "r_once p" and "at_rest x s" and "reveal_step p s t"
  shows "at_rest x t"
  using assms(3,1,2) by cases (auto simp: at_rest_def reveal_effect_def reveal_cleanup_def)

lemma at_rest_always: "(reveal_step p)\<^sup>*\<^sup>* s t \<Longrightarrow> r_once p \<Longrightarrow> at_rest x s \<Longrightarrow> at_rest x t"
  by (induction rule: rtranclp_induct) (auto intro: at_rest_step)

lemma view_rests:
  assumes "reveal_inv p s" and "r_once p" and "hasPlayedRef s"
  shows "at_rest (sweepPos s) (reveal_effect p (reveal_cleanup s\<lparr>r_inView := True\<rparr>))"
  using assms by (auto simp: at_rest_def reveal_effect_def reveal_cleanup_def reveal_inv_def)

text \<open>
  C37. The reveal always shows its text, unless it starts without waiting for the view and is
  to play once. In all other cases, in every reachable state in which the text may be shown,
  the sweep is running or has come to its end. In that case coming into view after the sweep
  was started stops it for good: from then on nothing is playing, no timer is pending, and the
  band stands where it was, or at its end, where a change to reduced motion puts it.
\<close>

theorem reveal_shows_text:
  "((\<forall>s. reach (reveal_init width p) (reveal_step p) s \<longrightarrow> r_mounted s \<and> (r_inView s \<or> \<not> r_startOnView p) \<longrightarrow>
      r_playing s \<or> sweepPos s = SWEEP_END) \<longleftrightarrow> r_startOnView p \<or> \<not> r_once p) \<and>
   (\<forall>s u. reach (reveal_init width p) (reveal_step p) s \<and> r_once p \<and> hasPlayedRef s \<and> r_mounted s \<and> \<not> r_inView s \<and>
      (reveal_step p)\<^sup>*\<^sup>* (reveal_effect p (reveal_cleanup s\<lparr>r_inView := True\<rparr>)) u \<longrightarrow>
      \<not> r_playing u \<and> \<not> r_timer u \<and> sweepPos u \<in> {sweepPos s, SWEEP_END})"
proof (intro conjI iffI allI impI)
  fix s
  assume "r_startOnView p \<or> \<not> r_once p" "reach (reveal_init width p) (reveal_step p) s"
    "r_mounted s \<and> (r_inView s \<or> \<not> r_startOnView p)"
  then show "r_playing s \<or> sweepPos s = SWEEP_END" using revealing_always by (auto simp: revealing_def)
next
  assume all: "\<forall>s. reach (reveal_init width p) (reveal_step p) s \<longrightarrow> r_mounted s \<and> (r_inView s \<or> \<not> r_startOnView p) \<longrightarrow>
      r_playing s \<or> sweepPos s = SWEEP_END"
  show "r_startOnView p \<or> \<not> r_once p"
  proof (rule ccontr)
    assume "\<not> (r_startOnView p \<or> \<not> r_once p)"
    then have p: "\<not> r_startOnView p" "r_once p" by simp_all
    let ?s = "reveal_mount width p False"
    let ?t = "reveal_effect p (reveal_cleanup ?s\<lparr>r_inView := \<not> r_inView ?s\<rparr>)"
    have "reach (reveal_init width p) (reveal_step p) ?s" by (rule reach_init) (auto simp: reveal_init_def)
    moreover have "reveal_step p ?s ?t"
      by (rule reveal_view) (use p in \<open>simp_all add: reveal_mount_def reveal_effect_def play_def\<close>)
    ultimately have "reach (reveal_init width p) (reveal_step p) ?t" by (rule reach_step)
    moreover have "r_mounted ?t \<and> \<not> r_playing ?t \<and> sweepPos ?t = SWEEP_START"
      using p by (simp add: reveal_mount_def reveal_effect_def play_def reveal_cleanup_def)
    ultimately show False using all p sweep_bounds(4) by auto
  qed
next
  fix s u
  assume *: "reach (reveal_init width p) (reveal_step p) s \<and> r_once p \<and> hasPlayedRef s \<and> r_mounted s \<and> \<not> r_inView s \<and>
      (reveal_step p)\<^sup>*\<^sup>* (reveal_effect p (reveal_cleanup s\<lparr>r_inView := True\<rparr>)) u"
  then have "at_rest (sweepPos s) u" using at_rest_always view_rests reveal.always by blast
  then show "\<not> r_playing u" "\<not> r_timer u" "sweepPos u \<in> {sweepPos s, SWEEP_END}" by (simp_all add: at_rest_def)
qed

theorem reveal_shows_text_witness:
  "(\<exists>s. reach (reveal_init (\<lambda>_. 0) (reveal_default [js ''a'']\<lparr>r_startOnView := False\<rparr>))
      (reveal_step (reveal_default [js ''a'']\<lparr>r_startOnView := False\<rparr>)) s \<and> r_mounted s \<and> \<not> r_playing s \<and> sweepPos s \<noteq> SWEEP_END) \<and>
   (\<exists>s t. reach (reveal_init (\<lambda>_. 0) (reveal_default [js ''a'']\<lparr>r_startOnView := False\<rparr>))
      (reveal_step (reveal_default [js ''a'']\<lparr>r_startOnView := False\<rparr>)) s \<and> r_playing s \<and>
      reveal_step (reveal_default [js ''a'']\<lparr>r_startOnView := False\<rparr>) s t \<and>
      \<not> (\<exists>u. (reveal_step (reveal_default [js ''a'']\<lparr>r_startOnView := False\<rparr>))\<^sup>*\<^sup>* t u \<and> r_playing u))"
proof -
  let ?p = "reveal_default [js ''a'']\<lparr>r_startOnView := False\<rparr>"
  let ?s = "reveal_mount (\<lambda>_. 0) ?p False"
  let ?t = "reveal_effect ?p (reveal_cleanup ?s\<lparr>r_inView := True\<rparr>)"
  have r: "reach (reveal_init (\<lambda>_. 0) ?p) (reveal_step ?p) ?s" by (rule reach_init) (auto simp: reveal_init_def)
  have s: "r_once ?p" "hasPlayedRef ?s" "r_mounted ?s" "\<not> r_inView ?s" "r_playing ?s"
    by (simp_all add: reveal_default_def reveal_mount_def reveal_effect_def play_def)
  have "reveal_step ?p ?s ?t" using reveal_view [of ?s ?p] s by simp
  then have "\<exists>s t. reach (reveal_init (\<lambda>_. 0) ?p) (reveal_step ?p) s \<and> r_playing s \<and> reveal_step ?p s t \<and>
      \<not> (\<exists>u. (reveal_step ?p)\<^sup>*\<^sup>* t u \<and> r_playing u)"
    using reveal_shows_text [of "\<lambda>_. 0" ?p] r s by blast
  moreover have "\<exists>s. reach (reveal_init (\<lambda>_. 0) ?p) (reveal_step ?p) s \<and> r_mounted s \<and> \<not> r_playing s \<and> sweepPos s \<noteq> SWEEP_END"
    using reveal_shows_text [of "\<lambda>_. 0" ?p] by (auto simp: reveal_default_def)
  ultimately show ?thesis by blast
qed

text \<open>
  The sweep reveals from left to right: in every reachable state the stops of the gradient
  are in order, the text is painted in its colour to the left of the band and is transparent to
  its right, a frame never moves the band back, and at the end all of the text has its colour.
\<close>

theorem reveal_gradient:
  assumes "reach (reveal_init width p) (reveal_step p) s"
  shows "sorted (map (\<lambda>q. fst (snd q)) (gradient_stops (sweepPos s) (r_colors p) (r_textColor p))) \<and>
    (0 \<le> x \<and> x < sweepPos s - BAND_HALF \<longrightarrow>
       painted (gradient_stops (sweepPos s) (r_colors p) (r_textColor p)) x = Some (r_textColor p)) \<and>
    (sweepPos s + BAND_HALF < x \<and> x \<le> 100 \<longrightarrow>
       painted (gradient_stops (sweepPos s) (r_colors p) (r_textColor p)) x = Some (js ''transparent'')) \<and>
    (r_playing s \<and> r_progress s \<le> t \<and> t \<le> 1 \<longrightarrow> sweepPos s \<le> sweepPos (sweep_frame t s)) \<and>
    (sweepPos s = SWEEP_END \<longrightarrow> buildGradient (sweepPos s) (r_colors p) (r_textColor p) =
       js ''linear-gradient(90deg, '' @ r_textColor p @ js '', '' @ r_textColor p @ js '')'')"
proof -
  have "reveal_inv p s" using assms by (rule reveal.always)
  then have "r_playing s \<and> r_progress s \<le> t \<and> t \<le> 1 \<longrightarrow> sweepPos s \<le> sweepPos (sweep_frame t s)"
    using sweep_at_mono [of "r_progress s" t] by (auto simp: reveal_inv_def sweep_frame_def sweep_at_def)
  then show ?thesis by (auto simp: gradient_sorted gradient_left gradient_right buildGradient_def sweep_defs)
qed

theorem reveal_gradient_witness:
  "painted (gradient_stops (sweepPos (reveal_mount (\<lambda>_. 0) (reveal_default [js ''a'']) False)) DEFAULT_COLORS
     (js ''var(--foreground)'')) 50 = Some (js ''transparent'')"
proof -
  let ?p = "reveal_default [js ''a'']" and ?s = "reveal_mount (\<lambda>_. 0) (reveal_default [js ''a'']) False"
  have "reach (reveal_init (\<lambda>_. 0) ?p) (reveal_step ?p) ?s" by (rule reach_init) (auto simp: reveal_init_def)
  note reveal_gradient [OF this, of 50]
  moreover have "sweepPos ?s = SWEEP_START" by (simp add: reveal_mount_def reveal_effect_def reveal_default_def)
  ultimately show ?thesis by (simp add: reveal_default_def sweep_defs)
qed

section \<open>Rotating words and growing lists\<close>

text \<open>The words come round in order: after \<open>k\<close> ticks the word number \<open>k mod n\<close> is shown.\<close>

lemma next_index_iterated: "0 < n \<Longrightarrow> (next_index n ^^ k) (Some 0) = Some (k mod n)"
  by (induction k) (simp_all add: next_index_def mod_Suc_eq)

lemma rotate_shows:
  assumes "words p \<noteq> []"
  shows "textContent (wordRotate cn p ((rotate_tick p ^^ k) (Some 0))) = words p ! (k mod length (words p))"
proof -
  have "(rotate_tick p ^^ k) (Some 0) = Some (k mod length (words p))"
    using next_index_iterated [of "length (words p)" k] assms
    by (simp add: rotate_tick_def [abs_def])
  then show ?thesis using assms by (simp add: wordRotate_def element_at_def)
qed

text \<open>
  The list grows by one item per timeout, the newest on top, and stops when all are shown: the
  timeout is pending as long as an item is missing.
\<close>

definition list_inv :: "list_props \<Rightarrow> list_state \<Rightarrow> bool" where
  "list_inv p s \<longleftrightarrow> (\<exists>k. l_index s = Some k \<and> (l_children p \<noteq> [] \<longrightarrow> k < length (l_children p)) \<and>
     (l_timeout s \<longrightarrow> k + 1 < length (l_children p)))"

lemma list_effect_inv: "l_index s = Some k \<Longrightarrow> (l_children p \<noteq> [] \<longrightarrow> k < length (l_children p)) \<Longrightarrow> list_inv p (list_effect p s)"
  by (auto simp: list_inv_def list_effect_def)

interpretation growing: component "list_init p" "list_step p" "list_inv p" for p
proof
  fix s
  assume "list_init p s"
  then show "list_inv p s" by (auto simp: list_init_def intro: list_effect_inv)
next
  fix s t
  assume inv: "list_inv p s" and "list_step p s t"
  from this(2) show "list_inv p t"
  proof cases
    case list_fires
    from inv list_fires obtain k where k: "l_index s = Some k" "k + 1 < length (l_children p)" by (auto simp: list_inv_def)
    show ?thesis unfolding list_fires(1) list_timeout_def
      by (rule list_effect_inv [of _ "k + 1"]) (use k in \<open>auto simp: next_index_def\<close>)
  next
    case list_unmount
    with inv show ?thesis by (auto simp: list_inv_def)
  qed
qed

lemma list_after:
  assumes "k < length (l_children p)"
  shows "(list_timeout p ^^ k) (list_effect p \<lparr>l_index = Some 0, l_timeout = False\<rparr>) =
    \<lparr>l_index = Some k, l_timeout = (k + 1 < length (l_children p))\<rparr>"
  using assms by (induction k) (auto simp: list_effect_def list_timeout_def next_index_def)

theorem animated_list_grows:
  assumes "k < length (l_children p)"
  defines "s \<equiv> (list_timeout p ^^ k) (list_effect p \<lparr>l_index = Some 0, l_timeout = False\<rparr>)"
  shows "itemsToShow p s = rev (take (k + 1) (l_children p))" and "l_timeout s \<longleftrightarrow> k + 1 < length (l_children p)"
  using list_after [OF assms(1)] by (simp_all add: s_def itemsToShow_def slice_def)

theorem animated_list_keys:
  assumes "reach (list_init p) (list_step p) s" and "distinct (map fst (l_children p))"
  shows "distinct (child_keys (map (\<lambda>(key, item). animatedListItem key item) (itemsToShow p s)))"
proof -
  have "child_keys (map (\<lambda>(key, item). animatedListItem key item) xs) = map fst xs" for xs
    by (induction xs) (auto simp: child_keys_def animatedListItem_def)
  moreover have "distinct (map fst (itemsToShow p s))"
    using assms(2) by (auto simp: itemsToShow_def slice_def rev_map [symmetric] take_map [symmetric] split: option.splits)
  ultimately show ?thesis by simp
qed

section \<open>The ticking number\<close>

text \<open>
  Until the spring moves, the element shows the raw start value, and afterwards the formatted
  value of the spring. A ticker at rest in view shows its target; one that counts down shows
  its start value, the number it is to end at, before it starts with \<open>value\<close>.
\<close>

definition ticker_inv :: "(real \<Rightarrow> jstr) \<Rightarrow> (nat \<Rightarrow> real \<Rightarrow> jstr) \<Rightarrow> ticker_props \<Rightarrow> ticker_state \<Rightarrow> bool" where
  "ticker_inv num fmt p s \<longleftrightarrow>
     (let start = (if t_direction p = Down then t_value p else t_startValue p) in
      (motionValue s = (if \<not> t_inView s \<or> t_timer s then start else motionValue s)) \<and>
      (t_mounted s \<and> t_inView s \<and> \<not> t_timer s \<longrightarrow> motionValue s = ticker_target p) \<and>
      (t_timer s \<longrightarrow> t_mounted s \<and> t_inView s) \<and>
      (t_text s = fmt (t_decimalPlaces p) (springValue s) \<or> springValue s = start \<and> t_text s = num (t_startValue p)) \<and>
      (\<not> t_inView s \<or> t_timer s \<longrightarrow> springValue s = start \<and> t_text s = num (t_startValue p)))"

interpretation ticker: component "ticker_init num p" "ticker_step fmt p" "ticker_inv num fmt p" for num fmt p
proof
  fix s
  assume "ticker_init num p s"
  then show "ticker_inv num fmt p s" by (simp add: ticker_init_def ticker_inv_def Let_def)
next
  fix s t
  assume inv: "ticker_inv num fmt p s" and "ticker_step fmt p s t"
  from this(2,1) show "ticker_inv num fmt p t"
    by cases (auto simp: ticker_inv_def ticker_timeout_def spring_change_def Let_def split: if_splits)
qed

theorem ticker_shows_target:
  assumes "reach (ticker_init num p) (ticker_step fmt p) s" "t_mounted s" "t_inView s" "\<not> t_timer s"
    and "springValue s = motionValue s" "t_value p \<noteq> t_startValue p"
  shows "t_text s = fmt (t_decimalPlaces p) (ticker_target p)"
proof -
  have "ticker_inv num fmt p s" using assms(1) by (rule ticker.always)
  then show ?thesis using assms(2-) by (auto simp: ticker_inv_def ticker_target_def Let_def split: if_splits)
qed

section \<open>Sparkles\<close>

text \<open>For random numbers below one there are always as many sparkles as requested, each with proper values.\<close>

definition sparkle_ok :: "sparkles_props \<Rightarrow> sparkle \<Rightarrow> bool" where
  "sparkle_ok p k \<longleftrightarrow> s_color k \<in> {s_first p, s_second p} \<and> 0 \<le> s_delay k \<and> s_delay k < 2 \<and>
     3/10 \<le> s_scale k \<and> s_scale k < 13/10 \<and> - 1/10 < lifespan k \<and> lifespan k < 15"

definition unit_random :: "(nat \<Rightarrow> real) \<Rightarrow> bool" where
  "unit_random rnd \<longleftrightarrow> (\<forall>i. 0 \<le> rnd i \<and> rnd i < 1)"

lemma generateStar_ok: "unit_random rnd \<Longrightarrow> sparkle_ok p (generateStar num now rnd p i)"
proof -
  assume "unit_random rnd"
  then have r: "0 \<le> rnd j" "rnd j < 1" for j by (simp_all add: unit_random_def)
  have "- (1 / 10) < rnd (i + 5) * 10 + 5" using r(1) [of "i + 5"] by linarith
  then show ?thesis using r [of "i + 3"] r [of "i + 4"] r [of "i + 5"] by (simp add: sparkle_ok_def generateStar_def Let_def)
qed

lemma update_stars_ok:
  assumes "unit_random rnd"
  shows "list_all (sparkle_ok p) ss \<Longrightarrow> list_all (sparkle_ok p) (fst (update_stars num now rnd p i ss)) \<and>
     length (fst (update_stars num now rnd p i ss)) = length ss"
proof (induction ss arbitrary: i)
  case Nil
  then show ?case by simp
next
  case (Cons k ss)
  have "sparkle_ok p k" "list_all (sparkle_ok p) ss" using Cons.prems by simp_all
  moreover have "0 < lifespan k \<Longrightarrow> sparkle_ok p k \<Longrightarrow> sparkle_ok p (k\<lparr>lifespan := lifespan k - 1/10\<rparr>)"
    by (simp add: sparkle_ok_def)
  ultimately show ?case using Cons.IH generateStar_ok [OF assms] by (simp add: split_beta Let_def)
qed

interpretation sparkling: component "sparkles_init num rnd p" "sparkles_step num rnd p"
  "\<lambda>s. unit_random rnd \<longrightarrow> list_all (sparkle_ok p) (sparkles s) \<and> length (sparkles s) = sparklesCount p" for num rnd p
proof
  fix s
  assume "sparkles_init num rnd p s"
  then show "unit_random rnd \<longrightarrow> list_all (sparkle_ok p) (sparkles s) \<and> length (sparkles s) = sparklesCount p"
    by (auto simp: sparkles_init_def initializeStars_def list_all_iff generateStar_ok)
next
  fix s t
  assume "unit_random rnd \<longrightarrow> list_all (sparkle_ok p) (sparkles s) \<and> length (sparkles s) = sparklesCount p"
    and "sparkles_step num rnd p s t"
  from this(2,1) show "unit_random rnd \<longrightarrow> list_all (sparkle_ok p) (sparkles t) \<and> length (sparkles t) = sparklesCount p"
    by cases (auto simp: updateStars_def split_beta Let_def update_stars_ok)
qed

theorem sparkles_ok:
  assumes "reach (sparkles_init num rnd p) (sparkles_step num rnd p) s" "unit_random rnd"
  shows "length (find_all ''motion.svg'' (sparklesText cn num (p\<lparr>s_children := []\<rparr>) s)) = sparklesCount p \<and>
    list_all (sparkle_ok p) (sparkles s)"
proof -
  have "find_all ''motion.svg'' (sparkle_node num k) = [sparkle_node num k]" for k by (simp add: sparkle_node_def)
  then have "concat (map (\<lambda>k. find_all ''motion.svg'' (sparkle_node num k)) ks) = map (sparkle_node num) ks" for ks
    by (induction ks) auto
  then show ?thesis using sparkling.always [OF assms(1)] assms(2) by (simp add: sparklesText_def comp_def)
qed

end
