(* ===== verification/Home_Page.thy ===== *)
theory Home_Page
  imports Main_Pages Wrappers Terminal_Seq Text_Effects
begin

text \<open>
  The home page \<open>app/page.tsx\<close> and its sections in \<open>components/home\<close>. The parts that change while
  the page is shown are in \<open>home_state\<close>: the word of the rotating headline, the animated terminal,
  the styles of the meteors and the identifier of the backlight filter.
\<close>

record home_state =
  hs_word :: "nat option"
  hs_terminal :: term_state
  hs_meteors :: "meteor_style list"
  hs_uid :: jstr

section \<open>components/home/hero.tsx\<close>

definition heroManifest :: "jstr" where
  \<open>heroManifest =
     join [10]
       [js ''apiVersion: kubecell.io/v1alpha1'',
        js ''kind: VirtualCluster'',
        js ''metadata:'',
        js ''  name: child-dev'',
        js ''  namespace: kubecell-system'',
        js ''spec:'',
        js ''  cellRef: {name: cell1}'',
        js ''  classRef: {name: ascend-910b}'']\<close>

record hero_stat =
  stat_value :: nat
  stat_suffix :: jstr
  stat_label :: jstr

definition heroStats :: "hero_stat list" where
  \<open>heroStats =
     [\<lparr>stat_value = 0, stat_suffix = [], stat_label = js ''VMs to manage''\<rparr>,
      \<lparr>stat_value = 8, stat_suffix = [], stat_label = js ''lines to create a cluster''\<rparr>,
      \<lparr>stat_value = 20, stat_suffix = js '' min'', stat_label = js ''from apply to first Ready''\<rparr>,
      \<lparr>stat_value = 100, stat_suffix = js ''%'', stat_label = js ''standard kubectl, Helm, and CI''\<rparr>]\<close>

definition hero_headline :: "class_fn \<Rightarrow> (real \<Rightarrow> jstr) \<Rightarrow> jstr option \<Rightarrow> home_state \<Rightarrow> node list" where
  \<open>hero_headline cn num env h =
     [El ''div'' [cls ''mx-auto max-w-3xl text-center'']
        [El ''BlurFade'' [att ''inView'' ''true'']
           [El ''Link'' [att ''href'' ''/docs/'', cls ''group inline-flex items-center gap-2 rounded-full border border-white/10 bg-white/[0.03] px-3.5 py-1.5 text-xs text-muted-foreground transition-colors hover:border-sky-400/40 hover:text-foreground'']
              [El ''span'' [cls ''inline-flex h-1.5 w-1.5 rounded-full bg-emerald-400''] [],
               animatedShinyText cn num (Some (js ''text-xs'')) None []
                 [Txt (js ''Open source '' @ [183] @ js '' pre-release '' @ [183] @ js '' not production ready yet'')],
               El ''ArrowRight'' [cls ''h-3 w-3 transition-transform group-hover:translate-x-0.5''] []]],
         El ''BlurFade'' [att ''delay'' ''0.08'', att ''inView'' ''true'']
           [El ''h1'' [cls ''mt-6 text-pretty text-4xl font-semibold leading-[1.12] tracking-tight text-foreground sm:text-5xl'']
              [Txt (js ''Give every developer''),
               Txt (js '' ''),
               El ''br'' [cls ''hidden sm:inline''] [],
               animatedGradientText cn num None (Some 1) (Some (js ''#7fb6ff'')) (Some (js ''#c4b5fd'')) []
                 [Txt (js ''their own Kubernetes cluster'')]]],
         El ''BlurFade'' [att ''delay'' ''0.12'', att ''inView'' ''true'']
           [El ''div'' [cls ''mt-5 flex flex-wrap items-center justify-center gap-2 text-sm text-muted-foreground'']
              [El ''span'' [] [Txt (js ''Built for'')],
               wordRotate cn
                 ((rotate_default [js ''AI research teams'', js ''platform engineering'', js ''training labs'', js ''CI pipelines'', js ''edge sites''])\<lparr>w_className := Some (js ''text-sm font-medium text-sky-300'')\<rparr>)
                 (hs_word h)]],
         El ''BlurFade'' [att ''delay'' ''0.16'', att ''inView'' ''true'']
           [El ''p'' [cls ''mx-auto mt-6 max-w-2xl text-pretty text-base leading-7 text-muted-foreground sm:text-lg'']
              [Txt (js ''Each developer gets an isolated cluster on the hardware you already own: standard''),
               Txt (js '' ''),
               El ''span'' [cls ''text-foreground/90''] [Txt (js ''kubectl'')],
               Txt
                 (js '', a real control plane, persistent storage, and hard CPU, memory, and GPU quotas. No VM per person, no shared namespace everyone has to trust.'')]],
         El ''BlurFade'' [att ''delay'' ''0.24'', att ''inView'' ''true'']
           [El ''div'' [cls ''mt-8 flex flex-col items-center justify-center gap-3 sm:flex-row'']
              [shimmerLink cn
                 (shimmer_link_default\<lparr>sm_className := Some (js ''h-11 px-6 text-sm font-medium shadow-2xl'')\<rparr>)
                 (js ''/quickstart/'')
                 [El ''TerminalIcon'' [cls ''h-4 w-4''] [], Txt (js ''Start the quickstart'')],
               El ''Button'' [att ''variant'' ''outline'', att ''size'' ''lg'', att ''asChild'' ''true'']
                 [El ''a''
                    [(''href'', github (siteConfig env)), att ''target'' ''_blank'', att ''rel'' ''noreferrer'']
                    [El ''Github'' [cls ''h-4 w-4''] [], Txt (js ''View on GitHub'')]]]]]]\<close>

definition hero_listing :: "class_fn \<Rightarrow> (real \<Rightarrow> jstr) \<Rightarrow> node list" where
  \<open>hero_listing cn num =
     [El ''BlurFade'' [att ''delay'' ''0.32'', att ''inView'' ''true'']
        [El ''div'' [cls ''relative mx-auto mt-14 max-w-2xl'']
           [El ''div'' [cls ''absolute -inset-x-6 -inset-y-4 -z-10 rounded-3xl bg-gradient-to-r from-sky-500/10 via-transparent to-violet-500/10 blur-2xl'']
              [],
            El ''CodeBlock''
              [(''code'', heroManifest), att ''language'' ''yaml'', att ''filename'' ''virtualcluster.yaml'']
              [],
            borderBeam cn num
              (border_beam_default\<lparr>bb_size := 220, bb_duration := 10, bb_colorFrom := js ''#38bdf8'', bb_colorTo := js ''#8b5cf6'', bb_borderWidth := 1, bb_className := Some (js ''rounded-xl'')\<rparr>)]]]\<close>

definition hero_statistics :: "node list" where
  \<open>hero_statistics =
     [El ''BlurFade'' [att ''delay'' ''0.4'', att ''inView'' ''true'']
        [El ''dl'' [cls ''mx-auto mt-14 grid max-w-4xl grid-cols-2 gap-x-6 gap-y-8 sm:grid-cols-4'']
           (map
              (\<lambda>stat.
                 El ''div'' [(''key'', stat_label stat), cls ''text-center'']
                   [El ''dt'' [cls ''sr-only''] [Txt (stat_label stat)],
                    El ''dd'' [cls ''text-3xl font-semibold tracking-tight text-foreground sm:text-4xl'']
                      [El ''NumberTicker'' [(''value'', digits (stat_value stat)), cls ''text-foreground''] [],
                       Txt (stat_suffix stat)],
                    El ''p'' [cls ''mt-1.5 text-xs leading-5 text-muted-foreground''] [Txt (stat_label stat)]])
              heroStats)]]\<close>

definition hero :: "class_fn \<Rightarrow> (real \<Rightarrow> jstr) \<Rightarrow> jstr option \<Rightarrow> home_state \<Rightarrow> node" where
  \<open>hero cn num env h =
     El ''section'' [cls ''relative overflow-hidden pb-16 pt-16 sm:pb-24 sm:pt-24'']
       [El ''AnimatedGridPattern''
          [att ''numSquares'' ''36'',
           att ''maxOpacity'' ''0.12'',
           att ''duration'' ''4'',
           att ''repeatDelay'' ''0.6'',
           (''className'',
            cn
              [Some (js ''absolute inset-0 -z-10 h-[46rem] w-full''),
               Some (js ''[mask-image:radial-gradient(60%_60%_at_50%_20%,black,transparent)]'')])]
          [],
        El ''div'' [cls ''pointer-events-none absolute -top-32 left-1/2 -z-10 h-[28rem] w-[52rem] -translate-x-1/2 rounded-full bg-sky-500/10 blur-[120px]'']
          [],
        El ''div'' [cls ''pointer-events-none absolute inset-x-0 bottom-0 -z-10 h-40 bg-gradient-to-b from-transparent to-background'']
          [],
        El ''div'' [cls ''container-page relative'']
          (hero_headline cn num env h @ hero_listing cn num @ hero_statistics)]\<close>

section \<open>components/home/stack-marquee.tsx\<close>

definition marquee_stack :: "jstr list" where
  \<open>marquee_stack =
     [js ''Kubernetes'',
      js ''K3s'',
      js ''kubectl'',
      js ''Helm'',
      js ''Traefik'',
      js ''CoreDNS'',
      js ''TopoLVM'',
      js ''LVM'',
      js ''NVIDIA'',
      js ''Ascend 910B'',
      js ''ARM64'',
      js ''x86_64'']\<close>

definition stackMarquee :: "class_fn \<Rightarrow> node" where
  \<open>stackMarquee cn =
     El ''div'' [cls ''relative border-y border-white/5 bg-white/[0.015] py-8'']
       [El ''p'' [cls ''mb-5 text-center font-mono text-xs uppercase tracking-[0.24em] text-muted-foreground'']
          [Txt (js ''Standard Kubernetes tooling, no new workflow to learn'')],
        El ''div'' [cls ''relative'']
          [marquee cn
             ((marquee_default
                 (map
                    (\<lambda>name.
                       El ''span''
                         [(''key'', name),
                          cls ''rounded-full border border-white/10 bg-white/[0.03] px-4 py-1.5 text-sm text-muted-foreground'']
                         [Txt name])
                    marquee_stack))
               \<lparr>mq_className := Some (js ''[--duration:45s] [--gap:2.5rem]''), mq_pauseOnHover := True\<rparr>),
           El ''div'' [cls ''pointer-events-none absolute inset-y-0 left-0 w-24 bg-gradient-to-r from-background to-transparent'']
             [],
           El ''div'' [cls ''pointer-events-none inset-y-0 right-0 absolute w-24 bg-gradient-to-l from-background to-transparent'']
             []]]\<close>

section \<open>components/home/feature-bento.tsx\<close>

definition feature_cards :: "class_fn \<Rightarrow> bento_card list" where
  \<open>feature_cards cn =
     [\<lparr>bc_name = js ''Real clusters, not namespaces'',
       bc_className = js ''lg:col-span-1 lg:row-start-1 lg:row-end-1'',
       bc_background = El ''DotPattern''
                         [att ''width'' ''20'',
                          att ''height'' ''20'',
                          att ''cx'' ''1'',
                          att ''cy'' ''1'',
                          att ''cr'' ''1'',
                          (''className'',
                           cn [Some (js ''[mask-image:radial-gradient(18rem_circle_at_center,white,transparent)]'')])]
                         [],
       bc_Icon = ''Boxes'',
       bc_description = js ''Every developer gets their own API server, so they can install CRDs, operators, and webhooks without stepping on anyone else.'',
       bc_href = js ''/docs/concepts/'',
       bc_cta = js ''What you get''\<rparr>,
      \<lparr>bc_name = js ''Know it will fit before you create it'',
       bc_className = js ''lg:col-span-2 lg:row-start-1 lg:row-end-2'',
       bc_background = El ''RetroGrid'' [cls ''opacity-40'', att ''cellSize'' ''48'', att ''opacity'' ''0.35''] [],
       bc_Icon = ''Gauge'',
       bc_description = js ''A dry-run request tells you whether CPU, memory, GPUs, and storage are available '' @ [8212] @ js '' and exactly what is missing when they are not. Nothing is created until you are ready.'',
       bc_href = js ''/docs/concepts/'',
       bc_cta = js ''How the dry run works''\<rparr>,
      \<lparr>bc_name = js ''Grow by picking a bigger tier'',
       bc_className = js ''lg:col-span-2 lg:row-start-2 lg:row-end-3'',
       bc_background = El ''AnimatedGridPattern''
                         [att ''numSquares'' ''24'',
                          att ''maxOpacity'' ''0.14'',
                          att ''duration'' ''4'',
                          (''className'',
                           cn
                             [Some
                                (js ''absolute inset-0 [mask-image:radial-gradient(20rem_circle_at_center,white,transparent)]'')])]
                         [],
       bc_Icon = ''SlidersHorizontal'',
       bc_description = js ''Each cluster presents one node sized by the quota tier you choose. Need more CPU, memory, or another GPU? Move to the next tier instead of learning a new scaling model.'',
       bc_href = js ''/docs/concepts/'',
       bc_cta = js ''Understand sizing''\<rparr>,
      \<lparr>bc_name = js ''Isolation you can audit'',
       bc_className = js ''lg:col-span-1 lg:row-start-2 lg:row-end-3'',
       bc_background = El ''HexagonPattern'' [att ''radius'' ''22'', att ''gap'' ''6'', att ''strokeDasharray'' ''2 3'', cls ''absolute inset-0 opacity-40'']
                         [],
       bc_Icon = ''Lock'',
       bc_description = js ''Quotas, network policy, and blocked privileged workloads are enforced on the host '' @ [8212] @ js '' visible in the same Kubernetes objects you already know.'',
       bc_href = js ''/docs/security/'',
       bc_cta = js ''Security model''\<rparr>,
      \<lparr>bc_name = js ''Manifests you can read in a minute'',
       bc_className = js ''lg:col-span-1 lg:row-start-3 lg:row-end-3'',
       bc_background = El ''FlickeringGrid'' [att ''squareSize'' ''3'', att ''gridGap'' ''6'', att ''color'' ''#2f7fe0'', att ''maxOpacity'' ''0.25'', att ''flickerChance'' ''0.08'', cls ''absolute inset-0 [mask-image:radial-gradient(12rem_circle_at_center,white,transparent)]'']
                         [],
       bc_Icon = ''LayoutGrid'',
       bc_description = js ''You write which host to use and how much CPU, memory, and GPU you need. Versions, ports, and security defaults are handled for you.'',
       bc_href = js ''/docs/first-virtualcluster/'',
       bc_cta = js ''Write your first cluster''\<rparr>,
      \<lparr>bc_name = js ''Tested versions, predictable upgrades'',
       bc_className = js ''lg:col-span-2 lg:row-start-3 lg:row-end-3'',
       bc_background = El ''HexagonPattern'' [att ''radius'' ''30'', att ''gap'' ''10'', att ''direction'' ''vertical'', cls ''absolute inset-0 opacity-30'']
                         [],
       bc_Icon = ''Pin'',
       bc_description = js ''KubeCell pins the versions it validates and reports drift in resource status, so upgrades are a deliberate step '' @ [8212] @ js '' not a surprise on a Monday morning.'',
       bc_href = js ''/architecture/'',
       bc_cta = js ''See what is pinned''\<rparr>]\<close>

definition featureBento :: "class_fn \<Rightarrow> node" where
  \<open>featureBento cn =
     El ''section'' [cls ''relative py-20 sm:py-24'']
       [El ''div'' [cls ''container-page'']
          [sectionHeading cn (Some (js ''Why KubeCell''))
             [Txt (js ''Platform-grade isolation without a platform rewrite'')]
             [Txt
                (js ''Four resources to learn, one management plane to operate, and the Kubernetes workflow your team already knows.'')]
             Center
             None,
           El ''div'' [cls ''mt-12'']
             [bentoGrid cn (Some (js ''lg:auto-rows-[18rem] lg:grid-cols-3'')) []
                (map (\<lambda>card. bentoCard cn card []) (feature_cards cn))]]]\<close>

section \<open>components/home/workflow.tsx\<close>

record workflow_step =
  ws_icon :: string
  ws_title :: jstr
  ws_description :: jstr

definition workflow_steps :: "workflow_step list" where
  \<open>workflow_steps =
     [\<lparr>ws_icon = ''ClipboardCheck'',
       ws_title = js ''Check before you change anything'',
       ws_description = js ''A read-only preflight inspects both clusters and stops at the first problem. Nothing is modified until you pass --apply and --confirm.''\<rparr>,
      \<lparr>ws_icon = ''DownloadCloud'',
       ws_title = js ''Add your host'',
       ws_description = js ''Register the machine and approve it manually '' @ [8212] @ js '' a deliberate safety gate, so a new host can never join silently.''\<rparr>,
      \<lparr>ws_icon = ''Wrench'',
       ws_title = js ''Let KubeCell prepare the host'',
       ws_description = js ''Storage, ingress, and accelerator support are installed at tested versions. You do not assemble the stack yourself.''\<rparr>,
      \<lparr>ws_icon = ''Rocket'',
       ws_title = js ''Create the developer cluster'',
       ws_description = js ''Pick the host and a quota tier, apply an eight-line manifest, and collect the kubeconfig from the resource status.''\<rparr>]\<close>

definition workflow_terminal :: "term_props" where
  \<open>workflow_terminal =
     \<lparr>tm_children = [(typed_item (js ''$ go run ./cmd/kubecell-installer doctor host --bundle ./release''))
                       \<lparr>ti_delay := 0, ti_className := Some (js ''font-mono text-xs text-slate-300'')\<rparr>,
                     (span_item [Txt ([10003] @ js '' host reachable and healthy'')])
                       \<lparr>ti_delay := 400, ti_className := Some (js ''font-mono text-xs text-emerald-400'')\<rparr>,
                     (span_item [Txt ([10003] @ js '' machine profile detected: ascend-910b'')])
                       \<lparr>ti_delay := 300, ti_className := Some (js ''font-mono text-xs text-emerald-400'')\<rparr>,
                     (span_item [Txt ([10003] @ js '' storage available: 2.1 TiB'')])
                       \<lparr>ti_delay := 300, ti_className := Some (js ''font-mono text-xs text-emerald-400'')\<rparr>,
                     (span_item [Txt ([10003] @ js '' accelerators detected: 8 '' @ [215] @ js '' Ascend 910B'')])
                       \<lparr>ti_delay := 300, ti_className := Some (js ''font-mono text-xs text-emerald-400'')\<rparr>,
                     (typed_item (js ''$ clusteradm join --cluster-name cell1 --wait''))
                       \<lparr>ti_delay := 700, ti_className := Some (js ''font-mono text-xs text-slate-300'')\<rparr>,
                     (span_item [Txt ([8594] @ js '' host cell1 registered and waiting for approval'')])
                       \<lparr>ti_delay := 500, ti_className := Some (js ''font-mono text-xs text-sky-300'')\<rparr>,
                     (typed_item (js ''$ kubectl apply -f virtualcluster.yaml''))
                       \<lparr>ti_delay := 700, ti_className := Some (js ''font-mono text-xs text-slate-300'')\<rparr>,
                     (span_item
                         [Txt
                            ([8594] @ js '' preflight: accepted (cpu, memory, 2 '' @ [215] @ js '' Ascend 910B, storage)'')])
                       \<lparr>ti_delay := 500, ti_className := Some (js ''font-mono text-xs text-amber-300'')\<rparr>,
                     (span_item [Txt ([10003] @ js '' cluster child-dev is Ready'')])
                       \<lparr>ti_delay := 700, ti_className := Some (js ''font-mono text-xs text-emerald-400'')\<rparr>,
                     (typed_item (js ''$ kubectl --kubeconfig child-dev.yaml get nodes''))
                       \<lparr>ti_delay := 900, ti_className := Some (js ''font-mono text-xs text-slate-300'')\<rparr>,
                     (span_item [Txt (js ''NAME     STATUS   ROLES    AGE   VERSION'')])
                       \<lparr>ti_delay := 400, ti_className := Some (js ''font-mono text-xs text-slate-100'')\<rparr>,
                     (span_item [Txt (js ''kubelet  Ready    <none>   42s   v1.34.2+k3s1'')])
                       \<lparr>ti_delay := 300, ti_className := Some (js ''font-mono text-xs text-slate-100'')\<rparr>],
      tm_className = Some (js ''max-w-none bg-[#070b14] shadow-[0_30px_80px_-40px_rgba(47,127,224,0.6)]''),
      tm_sequence = True,
      tm_startOnView = True\<rparr>\<close>

definition workflow :: "class_fn \<Rightarrow> (real \<Rightarrow> jstr) \<Rightarrow> home_state \<Rightarrow> node" where
  \<open>workflow cn num h =
     El ''section'' [cls ''relative py-20 sm:py-24'']
       [El ''div'' [cls ''container-page'']
          [sectionHeading cn (Some (js ''How it works'')) [Txt (js ''Four commands to a running cluster'')]
             [Txt
                (js ''Humans run four commands. KubeCell handles the rest: what to install, which versions, and how to keep every host consistent.'')]
             Center
             None,
           El ''div'' [cls ''mt-14 grid gap-12 lg:grid-cols-2 lg:items-center'']
             [El ''div'' [cls ''space-y-6'']
                (map
                   (\<lambda>(index, step).
                      El ''BlurFade''
                        [(''key'', ws_title step), (''delay'', num (real index * 0.08)), att ''inView'' ''true'']
                        [El ''div'' [cls ''flex gap-4'']
                           [El ''div'' [cls ''flex flex-col items-center'']
                              ([El ''span'' [cls ''inline-flex h-10 w-10 shrink-0 items-center justify-center rounded-xl border border-sky-400/20 bg-sky-500/10 text-sky-300'']
                                  [El (ws_icon step) [cls ''h-5 w-5''] []]] @
                               (if index < length workflow_steps - 1 then [El ''span'' [cls ''mt-2 h-full w-px flex-1 bg-gradient-to-b from-sky-400/30 to-transparent'']
                                      []]
                                else [])),
                            El ''div'' [cls ''pb-2'']
                              [El ''h3'' [cls ''text-base font-semibold text-foreground''] [Txt (ws_title step)],
                               El ''p'' [cls ''mt-1 text-sm leading-6 text-muted-foreground'']
                                 [Txt (ws_description step)]]]])
                   (enumerate 0 workflow_steps) @
                 [El ''BlurFade'' [att ''delay'' ''0.4'', att ''inView'' ''true'']
                    [El ''div'' [cls ''flex items-start gap-3 rounded-xl border border-emerald-400/15 bg-emerald-500/[0.06] p-4'']
                       [El ''CheckCircle2'' [cls ''mt-0.5 h-4 w-4 shrink-0 text-emerald-400''] [],
                        El ''p'' [cls ''text-sm leading-6 text-emerald-100/80'']
                          [Txt
                             (js ''The first cluster usually takes 10'' @ [8211] @ js ''20 minutes while container images are pulled onto the host. Clusters created afterwards start much faster.'')]]]]),
              El ''BlurFade'' [att ''delay'' ''0.15'', att ''inView'' ''true'']
                [terminal cn (num \<circ> of_rat) workflow_terminal (hs_terminal h)]]]]\<close>

section \<open>components/home/isolation.tsx\<close>

definition isolation_icons :: "string list" where
  \<open>isolation_icons =
     [''ShieldCheck'', ''Lock'', ''Network'', ''ScanSearch'', ''Waypoints'', ''UserCheck'']\<close>

definition isolationGrid :: "class_fn \<Rightarrow> node" where
  \<open>isolationGrid cn =
     El ''section'' [cls ''relative py-20 sm:py-24'']
       [El ''div'' [cls ''container-page'']
          [sectionHeading cn (Some (js ''Isolation model''))
             [Txt (js ''Isolation is enforced on the host, not promised in a README'')]
             [Txt
                (js ''Every cluster runs in its own space on the host with real Kubernetes guardrails. Nothing depends on developers behaving well.'')]
             Center
             None,
           El ''div'' [cls ''mt-12 grid gap-4 sm:grid-cols-2 lg:grid-cols-3'']
             (map
                (\<lambda>(index, control).
                   El ''MagicCard''
                     [(''key'', iso_title control),
                      cls ''h-full rounded-xl border border-white/10 bg-white/[0.02]'',
                      att ''gradientColor'' ''#1d3f73'',
                      att ''gradientOpacity'' ''0.5'']
                     [El ''div'' [cls ''flex h-full flex-col gap-3 p-6'']
                        [El ''span'' [cls ''inline-flex h-10 w-10 items-center justify-center rounded-xl border border-sky-400/20 bg-sky-500/10 text-sky-300'']
                           [El (isolation_icons ! (index mod length isolation_icons)) [cls ''h-5 w-5''] []],
                         El ''h3'' [cls ''text-base font-semibold text-foreground''] [Txt (iso_title control)],
                         El ''p'' [cls ''text-sm leading-6 text-muted-foreground''] [Txt (iso_description control)]]])
                (enumerate 0 isolationControls))]]\<close>

section \<open>components/home/comparison.tsx\<close>

record comparison_row =
  cr_aspect :: jstr
  cr_namespaces :: jstr
  cr_namespacesGood :: bool
  cr_vmPerDev :: jstr
  cr_vmGood :: bool
  cr_kubecell :: jstr
  cr_kubecellGood :: bool

definition comparison_rows :: "comparison_row list" where
  \<open>comparison_rows =
     [\<lparr>cr_aspect = js ''API surface'',
       cr_namespaces = js ''Shared API server, shared cluster-wide resources'',
       cr_namespacesGood = False,
       cr_vmPerDev = js ''Own API, heavy per-VM control plane'',
       cr_vmGood = True,
       cr_kubecell = js ''Own K3s API server per developer cluster'',
       cr_kubecellGood = True\<rparr>,
      \<lparr>cr_aspect = js ''Isolation'',
       cr_namespaces = js ''Namespaces and RBAC only; shared kernel'',
       cr_namespacesGood = False,
       cr_vmPerDev = js ''Strong VM boundary, high fixed cost'',
       cr_vmGood = True,
       cr_kubecell = js ''Dedicated namespace, hard quota, network policy'',
       cr_kubecellGood = True\<rparr>,
      \<lparr>cr_aspect = js ''Accelerators'',
       cr_namespaces = js ''Shared allocation, hard to reason about'',
       cr_namespacesGood = False,
       cr_vmPerDev = js ''GPU passthrough per VM, limited density'',
       cr_vmGood = False,
       cr_kubecell = js ''Whole cards per cluster, never shared'',
       cr_kubecellGood = True\<rparr>,
      \<lparr>cr_aspect = js ''Density and cost'',
       cr_namespaces = js ''High density, weak boundaries'',
       cr_namespacesGood = True,
       cr_vmPerDev = js ''Low density, duplicated control planes'',
       cr_vmGood = False,
       cr_kubecell = js ''Shared hosts, isolated control planes'',
       cr_kubecellGood = True\<rparr>,
      \<lparr>cr_aspect = js ''Day-2 operations'',
       cr_namespaces = js ''One cluster to upgrade'',
       cr_namespacesGood = True,
       cr_vmPerDev = js ''Thousands of VMs to patch'',
       cr_vmGood = False,
       cr_kubecell = js ''One management plane to operate'',
       cr_kubecellGood = True\<rparr>]\<close>

definition comparison_cell :: "jstr \<Rightarrow> bool \<Rightarrow> node" where
  \<open>comparison_cell value good =
     El ''div'' [cls ''flex items-start gap-2'']
       ((if good then [El ''Check'' [cls ''mt-0.5 h-4 w-4 shrink-0 text-emerald-400''] []]
         else [El ''X'' [cls ''mt-0.5 h-4 w-4 shrink-0 text-rose-400/80''] []]) @
        [El ''span'' [cls ''text-sm leading-6 text-muted-foreground''] [Txt value]])\<close>

definition comparison :: "class_fn \<Rightarrow> node" where
  \<open>comparison cn =
     El ''section'' [cls ''relative py-20 sm:py-24'']
       [El ''div'' [cls ''container-page'']
          [sectionHeading cn (Some (js ''Trade-offs'')) [Txt (js ''Not namespaces. Not a VM per developer.'')]
             [Txt
                (js ''KubeCell sits between the two familiar extremes: real cluster semantics per developer, sharing the hardware underneath.'')]
             Center
             None,
           El ''div'' [cls ''mt-12 overflow-hidden rounded-2xl border border-white/10'']
             [El ''div'' [cls ''overflow-x-auto'']
                [El ''table'' [cls ''w-full min-w-[720px] border-collapse text-left'']
                   [El ''thead'' []
                      [El ''tr'' [cls ''bg-white/[0.03] text-sm'']
                         [El ''th'' [cls ''px-5 py-4 font-medium text-muted-foreground''] [Txt (js ''Aspect'')],
                          El ''th'' [cls ''px-5 py-4 font-medium text-muted-foreground'']
                            [Txt (js ''Shared namespaces'')],
                          El ''th'' [cls ''px-5 py-4 font-medium text-muted-foreground'']
                            [Txt (js ''VM per developer'')],
                          El ''th''
                            [(''className'',
                              cn
                                [Some (js ''px-5 py-4 font-semibold text-foreground''),
                                 Some (js ''border-x border-sky-400/20 bg-sky-500/[0.07]'')])]
                            [Txt (js ''KubeCell'')]]],
                    El ''tbody'' []
                      (map
                         (\<lambda>row.
                            El ''tr'' [(''key'', cr_aspect row), cls ''border-t border-white/5'']
                              [El ''td'' [cls ''px-5 py-4 text-sm font-medium text-foreground''] [Txt (cr_aspect row)],
                               El ''td'' [cls ''px-5 py-4'']
                                 [comparison_cell (cr_namespaces row) (cr_namespacesGood row)],
                               El ''td'' [cls ''px-5 py-4''] [comparison_cell (cr_vmPerDev row) (cr_vmGood row)],
                               El ''td'' [cls ''border-x border-sky-400/20 bg-sky-500/[0.07] px-5 py-4'']
                                 [comparison_cell (cr_kubecell row) (cr_kubecellGood row)]])
                         comparison_rows)]]]]]\<close>

section \<open>components/home/code-showcase.tsx\<close>

definition cellYaml :: "jstr" where
  \<open>cellYaml =
     join [10]
       [js ''apiVersion: kubecell.io/v1alpha1'',
        js ''kind: Cell'',
        js ''metadata:'',
        js ''  name: cell1'',
        js ''  namespace: kubecell-system'',
        js ''spec:'',
        js ''  managedClusterRef:'',
        js ''    name: cell1'',
        js ''  machineProfile:'',
        js ''    name: ascend-910b'',
        js ''    devices:'',
        js ''    - name: ascend'',
        js ''      resourceName: huawei.com/Ascend910'']\<close>

definition classYaml :: "jstr" where
  \<open>classYaml =
     join [10]
       [js ''apiVersion: kubecell.io/v1alpha1'',
        js ''kind: VirtualNodeClass'',
        js ''metadata:'',
        js ''  name: ascend-910b'',
        js ''spec:'',
        js ''  entitlement:'',
        js ''    workloadHard:'',
        js ''      requests.cpu: "4"'',
        js ''      limits.cpu: "4"'',
        js ''      requests.memory: 8Gi'',
        js ''      limits.memory: 8Gi'',
        js ''      requests.huawei.com/Ascend910: "2"'',
        js ''      limits.huawei.com/Ascend910: "2"'',
        js ''  storageClassName: topolvm-provisioner'']\<close>

definition vcYaml :: "jstr" where
  \<open>vcYaml =
     join [10]
       [js ''apiVersion: kubecell.io/v1alpha1'',
        js ''kind: VirtualClusterPlan   # isomorphic dry run first'',
        js ''metadata:'',
        js ''  name: child-dev-plan'',
        js ''  namespace: kubecell-system'',
        js ''spec:'',
        js ''  cellRef: {name: cell1}'',
        js ''  classRef: {name: ascend-910b}'',
        js ''---'',
        js ''apiVersion: kubecell.io/v1alpha1'',
        js ''kind: VirtualCluster       # then the real thing'',
        js ''metadata:'',
        js ''  name: child-dev'',
        js ''  namespace: kubecell-system'',
        js ''spec:'',
        js ''  cellRef: {name: cell1}'',
        js ''  classRef: {name: ascend-910b}'']\<close>

definition codeShowcase :: "class_fn \<Rightarrow> node" where
  \<open>codeShowcase cn =
     El ''section'' [cls ''relative py-20 sm:py-24'']
       [El ''div'' [cls ''container-page'']
          [sectionHeading cn (Some (js ''The manifests''))
             [Txt (js ''Three small files stand between a host and a developer'')]
             [Txt
                (js ''A Cell describes one physical host and what it offers. A VirtualNodeClass is a quota tier. A VirtualCluster is eight lines.'')]
             Center
             None,
           El ''div'' [cls ''mx-auto mt-12 max-w-3xl'']
             [El ''Tabs'' [att ''defaultValue'' ''cell'']
                [El ''TabsList'' [cls ''mx-auto flex h-auto w-fit flex-wrap justify-center gap-1 border border-white/10 bg-white/[0.03] p-1'']
                   [El ''TabsTrigger'' [att ''value'' ''cell''] [Txt (js ''Cell'')],
                    El ''TabsTrigger'' [att ''value'' ''class''] [Txt (js ''VirtualNodeClass'')],
                    El ''TabsTrigger'' [att ''value'' ''vc''] [Txt (js ''Plan '' @ [8594] @ js '' VirtualCluster'')]],
                 El ''TabsContent'' [att ''value'' ''cell'', cls ''mt-6'']
                   [El ''CodeBlock'' [(''code'', cellYaml), att ''language'' ''yaml'', att ''filename'' ''cell.yaml'']
                      []],
                 El ''TabsContent'' [att ''value'' ''class'', cls ''mt-6'']
                   [El ''CodeBlock''
                      [(''code'', classYaml), att ''language'' ''yaml'', att ''filename'' ''virtualnodeclass.yaml'']
                      []],
                 El ''TabsContent'' [att ''value'' ''vc'', cls ''mt-6'']
                   [El ''CodeBlock''
                      [(''code'', vcYaml), att ''language'' ''yaml'', att ''filename'' ''virtualcluster.yaml'']
                      []]]],
           El ''p'' [cls ''mx-auto mt-6 max-w-3xl text-center text-sm leading-6 text-muted-foreground'']
             [Txt
                (js ''Not sure a request will fit? Create the Plan first: it checks capacity without creating anything, tells you exactly which resource is missing, and never blocks a later change.'')]]]\<close>

section \<open>components/home/use-cases-preview.tsx\<close>

record use_case_preview =
  up_icon :: string
  up_title :: jstr
  up_description :: jstr
  up_href :: jstr

definition preview_useCases :: "use_case_preview list" where
  \<open>preview_useCases =
     [\<lparr>up_icon = ''BrainCircuit'',
       up_title = js ''Accelerator sandboxes'',
       up_description = js ''Give each researcher their own cluster with two dedicated Ascend 910B cards '' @ [8212] @ js '' no partitioning tricks, no shared queue.'',
       up_href = js ''/use-cases/#accelerator-sandboxes''\<rparr>,
      \<lparr>up_icon = ''TestTube2'',
       up_title = js ''Ephemeral test environments'',
       up_description = js ''Create a cluster per pull request or integration run, hand over the kubeconfig, then delete it and let KubeCell clean up the host.'',
       up_href = js ''/use-cases/#ephemeral-environments''\<rparr>,
      \<lparr>up_icon = ''GraduationCap'',
       up_title = js ''Workshops and training'',
       up_description = js ''Forty students, one physical host, forty clusters. Credentials are easy to hand out, and quotas stop one busy cluster from ruining the class.'',
       up_href = js ''/use-cases/#training-labs''\<rparr>,
      \<lparr>up_icon = ''ShipWheel'',
       up_title = js ''Edge and field labs'',
       up_description = js ''Hosts live where the hardware is. They connect outbound to one management plane, so there is no inbound tunnel to maintain per site.'',
       up_href = js ''/use-cases/#field-labs''\<rparr>,
      \<lparr>up_icon = ''Layers3'',
       up_title = js ''Self-service for platform teams'',
       up_description = js ''Publish hosts and quota tiers once; teams self-serve clusters inside the limits you defined, with capacity visible to everyone.'',
       up_href = js ''/use-cases/#platform-landlord''\<rparr>]\<close>

definition useCasePreview :: "class_fn \<Rightarrow> node" where
  \<open>useCasePreview cn =
     El ''section'' [cls ''relative py-20 sm:py-24'']
       [El ''div'' [cls ''container-page'']
          [sectionHeading cn (Some (js ''Use cases'')) [Txt (js ''One operator, five shapes of shared hardware'')]
             [Txt
                (js ''If a team needs a real Kubernetes API and the hardware lives on shared bare metal, KubeCell is the seam between them.'')]
             Center
             None,
           El ''div'' [cls ''mt-12 grid gap-4 md:grid-cols-2 lg:grid-cols-3'']
             (map
                (\<lambda>useCase.
                   El ''GlareHover''
                     [(''key'', up_title useCase),
                      cls ''h-full rounded-xl border border-white/10'',
                      att ''background'' ''rgba(255,255,255,0.02)'',
                      att ''color'' ''#9ad4ff'',
                      att ''opacity'' ''0.35'',
                      att ''duration'' ''600'']
                     [El ''div'' [cls ''flex h-full flex-col p-6'']
                        [El ''span'' [cls ''inline-flex h-10 w-10 items-center justify-center rounded-xl border border-sky-400/20 bg-sky-500/10 text-sky-300'']
                           [El (up_icon useCase) [cls ''h-5 w-5''] []],
                         El ''h3'' [cls ''mt-4 text-base font-semibold text-foreground''] [Txt (up_title useCase)],
                         El ''p'' [cls ''mt-2 flex-1 text-sm leading-6 text-muted-foreground'']
                           [Txt (up_description useCase)],
                         El ''Link''
                           [(''href'', up_href useCase),
                            cls ''mt-4 inline-flex items-center gap-1.5 text-sm font-medium text-sky-400 transition-colors hover:text-sky-300'']
                           [Txt (js ''Read the scenario''), El ''ArrowRight'' [cls ''h-3.5 w-3.5''] []]]])
                preview_useCases)]]\<close>

section \<open>components/home/cta.tsx\<close>

definition callToAction :: "class_fn \<Rightarrow> (real \<Rightarrow> jstr) \<Rightarrow> jstr option \<Rightarrow> home_state \<Rightarrow> node" where
  \<open>callToAction cn num env h =
     El ''section'' [cls ''relative py-20 sm:py-28'']
       [El ''div'' [cls ''container-page'']
          [El ''div'' [cls ''relative mx-auto max-w-4xl overflow-hidden rounded-3xl border border-white/10 bg-[#060a13] px-6 py-16 text-center sm:px-14'']
             (meteors cn num (meteors_default\<lparr>number := 22, m_className := Some (js ''opacity-70'')\<rparr>)
                (hs_meteors h) @
              [El ''div'' [cls ''pointer-events-none absolute -top-24 left-1/2 h-64 w-[36rem] -translate-x-1/2 rounded-full bg-sky-500/15 blur-[100px]'']
                 [],
               El ''div'' [cls ''relative'']
                 [backlight num (hs_uid h) (Some 14) (Some (js ''mx-auto''))
                    [El ''h2'' [cls ''text-balance text-3xl font-semibold tracking-tight text-foreground sm:text-4xl'']
                       [Txt (js ''Give every developer a real cluster'')]],
                  El ''p'' [cls ''mx-auto mt-4 max-w-2xl text-pretty text-base leading-7 text-muted-foreground'']
                    [Txt
                       (js ''Start with the read-only preflight. Nothing is created until you explicitly confirm, so the first command you run is always safe.'')],
                  El ''div'' [cls ''mt-8 flex flex-col items-center justify-center gap-3 sm:flex-row'']
                    [shimmerLink cn
                       (shimmer_link_default\<lparr>sm_className := Some (js ''h-11 px-6 text-sm font-medium'')\<rparr>)
                       (js ''/quickstart/'')
                       [Txt (js ''Read the quickstart'')],
                     El ''Button'' [att ''variant'' ''outline'', att ''size'' ''lg'', att ''asChild'' ''true'']
                       [El ''a''
                          [(''href'', github (siteConfig env)), att ''target'' ''_blank'', att ''rel'' ''noreferrer'']
                          [Txt (js ''Browse the source'')]]],
                  El ''p'' [cls ''mt-6 font-mono text-xs text-muted-foreground'']
                    [Txt (js ''go run ./cmd/kubecell-installer doctor management --bundle ./kubecell-release'')]]])]]\<close>

section \<open>app/page.tsx\<close>

definition home_architecture :: "class_fn \<Rightarrow> node" where
  \<open>home_architecture cn =
     section_node cn None (Some (js ''border-y border-white/5 bg-white/[0.015]''))
       [sectionHeading cn (Some (js ''Architecture'')) [Txt (js ''One management plane, many isolated clusters'')]
          [Txt
             (js ''You apply manifests to a single management cluster. KubeCell turns them into changes on the host, then hands back an endpoint and a kubeconfig.'')]
          Center
          None,
        El ''div'' [cls ''mt-12''] [architectureBeam cn None Simple],
        El ''div'' [cls ''mt-8 text-center'']
          [El ''Link'' [att ''href'' ''/architecture/'', cls ''inline-flex items-center gap-1.5 text-sm font-medium text-sky-400 transition-colors hover:text-sky-300'']
             [Txt (js ''Read the technical principles''), El ''ArrowRight'' [cls ''h-3.5 w-3.5''] []]]]\<close>

definition home_versions :: "class_fn \<Rightarrow> node" where
  \<open>home_versions cn =
     section_node cn None (Some (js ''border-y border-white/5 bg-white/[0.015]''))
       [sectionHeading cn (Some (js ''Tested versions'')) [Txt (js ''Versions that are validated together'')]
          [Txt
             (js ''KubeCell pins and verifies the components each release supports, and reports any drift in resource status '' @ [8212] @ js '' so upgrades are a decision, not a surprise.'')]
          Center
          None,
        El ''div'' [cls ''mt-12 overflow-hidden rounded-2xl border border-white/10'']
          [El ''div'' [cls ''overflow-x-auto'']
             [El ''table'' [cls ''w-full min-w-[640px] border-collapse text-left text-sm'']
                [El ''thead'' []
                   [El ''tr'' [cls ''bg-white/[0.03]'']
                      [El ''th'' [cls ''px-5 py-3.5 font-medium text-muted-foreground''] [Txt (js ''Component'')],
                       El ''th'' [cls ''px-5 py-3.5 font-medium text-muted-foreground''] [Txt (js ''Version'')],
                       El ''th'' [cls ''px-5 py-3.5 font-medium text-muted-foreground'']
                         [Txt (js ''What it does for you'')]]],
                 El ''tbody'' []
                   (map
                      (\<lambda>row.
                         El ''tr'' [(''key'', pin_component row), cls ''border-t border-white/5'']
                           [El ''td'' [cls ''px-5 py-3.5 font-medium text-foreground''] [Txt (pin_component row)],
                            El ''td'' [cls ''px-5 py-3.5 font-mono text-xs text-sky-300''] [Txt (pin_version row)],
                            El ''td'' [cls ''px-5 py-3.5 text-muted-foreground''] [Txt (pin_note row)]])
                      pinnedStack)]]]]\<close>

definition homePage :: "class_fn \<Rightarrow> (real \<Rightarrow> jstr) \<Rightarrow> url_fn \<Rightarrow> jstr option \<Rightarrow> home_state \<Rightarrow> node list" where
  \<open>homePage cn num URL env h =
     [jsonLd (softwareLd URL env),
      hero cn num env h,
      stackMarquee cn,
      featureBento cn,
      workflow cn num h,
      home_architecture cn,
      isolationGrid cn,
      comparison cn,
      codeShowcase cn,
      home_versions cn,
      useCasePreview cn,
      faqPreview cn,
      callToAction cn num env h]\<close>

section \<open>The contract of the home page\<close>

lemma upt_four: "[0..<4] = [0, 1, 2, 3]"
  by (simp add: upt_rec)

lemmas wrapper_eval = shimmerLink_def shimmer_spark_def shimmer_highlight_def shimmer_link_default_def borderBeam_def border_beam_default_def
  marquee_def marquee_copy_def marquee_default_def upt_four bentoGrid_def bentoCard_def bento_link_def animatedShinyText_def animatedGradientText_def backlight_def
  shimmer_style_def

lemmas home_defs = heroStats_def hero_headline_def hero_listing_def hero_statistics_def hero_def marquee_stack_def stackMarquee_def
  feature_cards_def featureBento_def workflow_steps_def workflow_def isolation_icons_def isolationControls_def isolationGrid_def
  comparison_rows_def comparison_cell_def comparison_def codeShowcase_def preview_useCases_def useCasePreview_def callToAction_def
  home_architecture_def home_versions_def pinnedStack_def architectureBeam_eval faqPreview_def faqItems_def accordion_def accordion_item_def
  slice_def

text \<open>
  The parts whose content depends on the state: the rotating word, the terminal and the meteors
  hold no anchors, links, headings but the one of the word, or listings, whatever the state.
\<close>

abbreviation inert :: "node \<Rightarrow> bool" where
  "inert n \<equiv> ids n = [] \<and> links n = [] \<and> keys_ok n \<and> safe_targets n \<and> find_all ''CodeBlock'' n = []"

lemma wordRotate_inert: "inert (wordRotate cn ((rotate_default ws)\<lparr>w_className := c\<rparr>) i)" "headings (wordRotate cn ((rotate_default ws)\<lparr>w_className := c\<rparr>) i) = [1]"
  by (auto simp: wordRotate_def rotate_default_def page_eval split: option.splits)

lemma meteors_inert: "n \<in> set (meteors cn num p st) \<Longrightarrow> inert n \<and> headings n = []"
  by (auto simp: meteors_def meteor_node_def split_beta page_eval)

lemma meteors_keys: "child_keys (meteors cn num p st) = map digits [0..<length st]"
proof -
  have "child_keys (map (\<lambda>(idx, s). meteor_node cn num p idx s) xs) = map digits (map fst xs)" for xs
    by (induction xs) (auto simp: meteor_node_def)
  then show ?thesis by (simp add: meteors_def enumerate_keys)
qed

text \<open>A line of text, as all children of the home page's terminal are.\<close>

fun text_item :: "term_kind \<Rightarrow> bool" where
  "text_item (TTyped t) = True"
| "text_item (TSpan [Txt t]) = True"
| "text_item k = False"

lemma workflow_items: "list_all (\<lambda>c. text_item (ti_kind c) \<and> ti_as c \<in> {''div'', ''span''}) (tm_children workflow_terminal)"
  by (simp add: workflow_terminal_def typed_item_def span_item_def cong: opaque)

lemma term_child_inert:
  assumes "text_item (ti_kind c)" "ti_as c \<in> {''div'', ''span''}"
  shows "inert (term_child cn num p c it)" "headings (term_child cn num p c it) = []"
  using assms by (cases "ti_kind c" rule: text_item.cases;
    auto simp: term_child_def animatedSpan_def termTypingAnimation_def page_eval)+

lemma wrapped_cases:
  assumes "n \<in> set (wrappedChildren cn num p s)"
  obtains c it where "c \<in> set (tm_children p)" "n = term_child cn num p c it"
  | c it k where "c \<in> set (tm_children p)"
      "n = El ''ItemIndexContext.Provider'' [(''key'', digits k), (''value'', digits k)] [term_child cn num p c it]"
proof -
  define ns where "ns = map (\<lambda>(c, it). term_child cn num p c it) (zip (tm_children p) (t_items s))"
  have ns: "\<exists>c it. c \<in> set (tm_children p) \<and> m = term_child cn num p c it" if "m \<in> set ns" for m
    using that by (auto simp: ns_def dest: set_zip_leftD)
  have "n \<in> set ns \<or> (\<exists>k. \<exists>m\<in>set ns. n = El ''ItemIndexContext.Provider'' [(''key'', digits k), (''value'', digits k)] [m])"
    using assms by (auto simp: wrappedChildren_def ns_def [symmetric] Let_def in_set_enumerate_eq split: if_splits)
  then show thesis using ns that by blast
qed

lemma wrapped_inert:
  assumes "list_all (\<lambda>c. text_item (ti_kind c) \<and> ti_as c \<in> {''div'', ''span''}) (tm_children p)" "n \<in> set (wrappedChildren cn num p s)"
  shows "inert n" "headings n = []"
  by (rule wrapped_cases [OF assms(2)]; use assms(1) term_child_inert in \<open>auto simp: list_all_iff page_eval\<close>)+

lemma wrapped_keys: "distinct (child_keys (wrappedChildren cn num workflow_terminal s))"
proof -
  have "child_keys (map (\<lambda>(index, n). El ''ItemIndexContext.Provider'' [(''key'', digits index), (''value'', digits index)] [n]) xs) =
      map digits (map fst xs)" for xs
    by (induction xs) auto
  moreover have "tm_sequence workflow_terminal" by (simp add: workflow_terminal_def)
  ultimately show ?thesis by (simp add: wrappedChildren_def Let_def enumerate_keys del: map_map)
qed

lemma terminal_inert:
  "inert (terminal cn num workflow_terminal s)" "headings (terminal cn num workflow_terminal s) = []"
proof -
  have "\<forall>n\<in>set (wrappedChildren cn num workflow_terminal s). inert n \<and> headings n = []"
    using wrapped_inert [OF workflow_items] by blast
  then show "inert (terminal cn num workflow_terminal s)" "headings (terminal cn num workflow_terminal s) = []"
    using wrapped_keys [of cn num s] by (auto simp: terminal_def Let_def list_all_iff page_eval)
qed

lemmas state_inert = terminal_inert wordRotate_inert meteors_inert meteors_keys enumerate_keys

lemma meteors_page:
  "page_ids (meteors cn num p st) = []" "page_links (meteors cn num p st) = []" "page_headings (meteors cn num p st) = []"
  "list_all keys_ok (meteors cn num p st)" "list_all safe_targets (meteors cn num p st)"
  "concat (map (find_all ''CodeBlock'') (meteors cn num p st)) = []"
  using meteors_inert [of _ cn num p st] by (auto simp: list_all_iff)

definition use_case_anchors :: "jstr set" where
  "use_case_anchors = (\<lambda>c. js ''/use-cases/#'' @ uc_id c) ` set useCases"

lemma use_case_anchors_eq:
  "use_case_anchors = {js ''/use-cases/#accelerator-sandboxes'', js ''/use-cases/#ephemeral-environments'', js ''/use-cases/#training-labs'',
     js ''/use-cases/#field-labs'', js ''/use-cases/#platform-landlord''}"
  by (simp add: use_case_anchors_def use_cases_defs cong: opaque) (simp add: js_simps(3) [symmetric] del: js_simps(3))

lemmas home_eval = homePage_def home_defs wrapper_eval page_eval state_inert meteors_page

interpretation home: page_core env "js ''/''" use_case_anchors "homePage cn num URL env h" for cn num URL env h
  by unfold_locales (simp_all add: home_eval use_case_anchors_eq cong: opaque)

end
