(* ===== verification/Ui_Kit.thy ===== *)
theory Ui_Kit
  imports Page_Model
begin

text \<open>
  The user interface kit, \<open>components/ui\<close>: wrappers that give class names to HTML elements and to
  the primitives of a component library, and hand on the properties they get.

  A component is a function of its properties: the class name, the reference, the children and the
  other properties by name. \<open>object_spread as bs\<close> is \<open>{...as, ...bs}\<close>, where the later value of a name
  wins; \<open>rest_of ks p\<close> is what is left for \<open>...props\<close> after the names \<open>ks\<close> were taken out. Elements
  written between the tags of an element replace the children in \<open>...props\<close>. The primitives are
  elements of their own (\<open>AccordionPrimitive.Root\<close>), since the library is not part of the
  repository; so is \<open>Slot\<close>, which renders its child with the properties it gets. \<open>cva\<close>, the class
  names of a variant, is a parameter that is given the arguments of the source.

  \<open>ui_expand\<close> renders the elements of the kit in a tree. A wrapper loses no property but those it
  uses itself, and rendering adds no link and makes none unsafe; the interface \<open>ui_library\<close> says
  what this takes of a kit.
\<close>

record ui_props =
  u_className :: "jstr option"
  u_ref :: "jstr option"
  u_props :: "(string \<times> jstr) list"
  u_children :: "node list"

type_synonym cva_fn = "jstr \<Rightarrow> (string \<times> (string \<times> jstr) list) list \<Rightarrow> (string \<times> jstr) list \<Rightarrow> (string \<times> jstr option) list \<Rightarrow> jstr"

definition no_props :: ui_props where
  "no_props = \<lparr>u_className = None, u_ref = None, u_props = [], u_children = []\<rparr>"

definition opt_attr :: "string \<Rightarrow> jstr option \<Rightarrow> (string \<times> jstr) list" where
  "opt_attr k v = (case v of None \<Rightarrow> [] | Some x \<Rightarrow> [(k, x)])"

definition own_ref :: "ui_props \<Rightarrow> (string \<times> jstr) list" where
  "own_ref p = opt_attr ''ref'' (u_ref p)"

definition given :: "ui_props \<Rightarrow> string \<Rightarrow> jstr option" where
  "given p k = map_of (u_props p) k"

definition prop_or :: "ui_props \<Rightarrow> string \<Rightarrow> jstr \<Rightarrow> jstr" where
  "prop_or p k d = (case given p k of None \<Rightarrow> d | Some v \<Rightarrow> v)"

text \<open>A boolean property is the text of its value.\<close>

definition is_on :: "jstr option \<Rightarrow> bool" where
  "is_on v \<longleftrightarrow> v \<noteq> None \<and> v \<noteq> Some (js ''false'')"

definition object_spread :: "(string \<times> jstr) list \<Rightarrow> (string \<times> jstr) list \<Rightarrow> (string \<times> jstr) list" where
  "object_spread as bs = filter (\<lambda>(k, _). k \<notin> fst ` set bs) as @ bs"

definition rest_of :: "string list \<Rightarrow> ui_props \<Rightarrow> (string \<times> jstr) list" where
  "rest_of ks p = filter (\<lambda>(k, _). k \<notin> set ks) (u_props p)"

definition all_props :: "ui_props \<Rightarrow> (string \<times> jstr) list" where
  "all_props p = opt_attr ''className'' (u_className p) @ u_props p"

definition primitive :: "string \<Rightarrow> ui_props \<Rightarrow> node" where
  "primitive t p = El t (own_ref p @ all_props p) (u_children p)"

text \<open>The shape of most wrappers: \<open>({ className, ...props }, ref) => <t ref={ref} className={cn(c, className)} {...props} />\<close>.\<close>

definition forward_ref :: "class_fn \<Rightarrow> string \<Rightarrow> jstr \<Rightarrow> ui_props \<Rightarrow> node" where
  "forward_ref cn t c p = El t (object_spread (own_ref p @ [(''className'', cn [Some c, u_className p])]) (u_props p)) (u_children p)"

section \<open>accordion.tsx\<close>

definition Accordion :: "ui_props \<Rightarrow> node" where
  "Accordion p = primitive ''AccordionPrimitive.Root'' p"

definition AccordionItem :: "class_fn \<Rightarrow> ui_props \<Rightarrow> node" where
  \<open>AccordionItem cn p = forward_ref cn ''AccordionPrimitive.Item''
     (js ''border-b'') p\<close>

definition AccordionTrigger :: "class_fn \<Rightarrow> ui_props \<Rightarrow> node" where
  \<open>AccordionTrigger cn p = El ''AccordionPrimitive.Header''
       [(''className'', js ''flex'')]
       [El ''AccordionPrimitive.Trigger''
          (object_spread (own_ref p @ [(''className'', cn [Some (js ''flex flex-1 items-center justify-between py-4 text-sm font-medium transition-all hover:underline text-left [&[data-state=open]>svg]:rotate-180''),
             u_className p])]) (u_props p))
          (u_children p @ [El ''ChevronDown''
             [(''className'', js ''h-4 w-4 shrink-0 text-muted-foreground transition-transform duration-200'')]
             []])]\<close>

definition AccordionContent :: "class_fn \<Rightarrow> ui_props \<Rightarrow> node" where
  \<open>AccordionContent cn p = El ''AccordionPrimitive.Content''
       (object_spread (own_ref p @ [(''className'', js ''overflow-hidden text-sm data-[state=closed]:animate-accordion-up data-[state=open]:animate-accordion-down'')]) (u_props p))
       [El ''div''
          [(''className'', cn [Some (js ''pb-4 pt-0''), u_className p])]
          (u_children p)]\<close>

section \<open>alert.tsx\<close>

definition alertVariants :: "cva_fn \<Rightarrow> jstr option \<Rightarrow> jstr" where
  \<open>alertVariants cva variant_arg = cva
     (js ''relative w-full rounded-lg border px-4 py-3 text-sm [&>svg+div]:translate-y-[-3px] [&>svg]:absolute [&>svg]:left-4 [&>svg]:top-4 [&>svg]:text-foreground [&>svg~*]:pl-7'')
     [(''variant'', [(''default'', js ''bg-background text-foreground''),
         (''destructive'', js ''border-destructive/50 text-destructive dark:border-destructive [&>svg]:text-destructive'')])]
     [att ''variant'' ''default'']
     [(''variant'', variant_arg)]\<close>

definition Alert :: "class_fn \<Rightarrow> cva_fn \<Rightarrow> ui_props \<Rightarrow> node" where
  \<open>Alert cn cva p = El ''div''
       (object_spread (own_ref p @ [(''role'', js ''alert''),
          (''className'', cn [Some (alertVariants cva (given p ''variant'')), u_className p])]) (rest_of [''variant''] p))
       (u_children p)\<close>

definition AlertTitle :: "class_fn \<Rightarrow> ui_props \<Rightarrow> node" where
  \<open>AlertTitle cn p = forward_ref cn ''h5''
     (js ''mb-1 font-medium leading-none tracking-tight'') p\<close>

definition AlertDescription :: "class_fn \<Rightarrow> ui_props \<Rightarrow> node" where
  \<open>AlertDescription cn p = forward_ref cn ''div''
     (js ''text-sm [&_p]:leading-relaxed'') p\<close>

section \<open>avatar.tsx\<close>

definition Avatar :: "class_fn \<Rightarrow> ui_props \<Rightarrow> node" where
  \<open>Avatar cn p = forward_ref cn ''AvatarPrimitive.Root''
     (js ''relative flex h-10 w-10 shrink-0 overflow-hidden rounded-full'') p\<close>

definition AvatarImage :: "class_fn \<Rightarrow> ui_props \<Rightarrow> node" where
  \<open>AvatarImage cn p = forward_ref cn ''AvatarPrimitive.Image''
     (js ''aspect-square h-full w-full'') p\<close>

definition AvatarFallback :: "class_fn \<Rightarrow> ui_props \<Rightarrow> node" where
  \<open>AvatarFallback cn p = forward_ref cn ''AvatarPrimitive.Fallback''
     (js ''flex h-full w-full items-center justify-center rounded-full bg-muted'') p\<close>

section \<open>badge.tsx\<close>

definition badgeVariants :: "cva_fn \<Rightarrow> jstr option \<Rightarrow> jstr" where
  \<open>badgeVariants cva variant_arg = cva
     (js ''inline-flex items-center rounded-md border px-2.5 py-0.5 text-xs font-semibold transition-colors focus:outline-none focus:ring-2 focus:ring-ring focus:ring-offset-2'')
     [(''variant'', [(''default'', js ''border-transparent bg-primary text-primary-foreground shadow hover:bg-primary/80''),
         (''secondary'', js ''border-transparent bg-secondary text-secondary-foreground hover:bg-secondary/80''),
         (''destructive'', js ''border-transparent bg-destructive text-destructive-foreground shadow hover:bg-destructive/80''),
         (''outline'', js ''text-foreground'')])]
     [att ''variant'' ''default'']
     [(''variant'', variant_arg)]\<close>

definition Badge :: "class_fn \<Rightarrow> cva_fn \<Rightarrow> ui_props \<Rightarrow> node" where
  \<open>Badge cn cva p = El ''div''
       (object_spread ([(''className'', cn [Some (badgeVariants cva (given p ''variant'')), u_className p])])
          (rest_of [''variant''] p))
       (u_children p)\<close>

section \<open>breadcrumb.tsx\<close>

definition Breadcrumb :: "ui_props \<Rightarrow> node" where
  \<open>Breadcrumb p = El ''nav''
       (object_spread (own_ref p @ [(''aria-label'', js ''breadcrumb'')]) (all_props p))
       (u_children p)\<close>

definition BreadcrumbList :: "class_fn \<Rightarrow> ui_props \<Rightarrow> node" where
  \<open>BreadcrumbList cn p = forward_ref cn ''ol''
     (js ''flex flex-wrap items-center gap-1.5 break-words text-sm text-muted-foreground sm:gap-2.5'') p\<close>

definition BreadcrumbItem :: "class_fn \<Rightarrow> ui_props \<Rightarrow> node" where
  \<open>BreadcrumbItem cn p = forward_ref cn ''li''
     (js ''inline-flex items-center gap-1.5'') p\<close>

definition BreadcrumbLink :: "class_fn \<Rightarrow> ui_props \<Rightarrow> node" where
  \<open>BreadcrumbLink cn p = El (if is_on (given p ''asChild'') then ''Slot'' else ''a'')
       (object_spread (own_ref p @ [(''className'', cn [Some (js ''transition-colors hover:text-foreground''),
          u_className p])]) (rest_of [''asChild''] p))
       (u_children p)\<close>

definition BreadcrumbPage :: "class_fn \<Rightarrow> ui_props \<Rightarrow> node" where
  \<open>BreadcrumbPage cn p = El ''span''
       (object_spread (own_ref p @ [(''role'', js ''link''), (''aria-disabled'', js ''true''), (''aria-current'', js ''page''),
          (''className'', cn [Some (js ''font-normal text-foreground''), u_className p])]) (u_props p))
       (u_children p)\<close>

definition BreadcrumbSeparator :: "class_fn \<Rightarrow> ui_props \<Rightarrow> node" where
  \<open>BreadcrumbSeparator cn p = El ''li''
       (object_spread ([(''role'', js ''presentation''), (''aria-hidden'', js ''true''),
          (''className'', cn [Some (js ''[&>svg]:w-3.5 [&>svg]:h-3.5''), u_className p])]) (u_props p))
       ((if u_children p = [] then [El ''ChevronRight'' [] []] else u_children p))\<close>

definition BreadcrumbEllipsis :: "class_fn \<Rightarrow> ui_props \<Rightarrow> node" where
  \<open>BreadcrumbEllipsis cn p = El ''span''
       (object_spread ([(''role'', js ''presentation''), (''aria-hidden'', js ''true''),
          (''className'', cn [Some (js ''flex h-9 w-9 items-center justify-center''), u_className p])]) (u_props p))
       [El ''MoreHorizontal''
          [(''className'', js ''h-4 w-4'')]
          [], El ''span''
          [(''className'', js ''sr-only'')]
          [Txt (js ''More'')]]\<close>

section \<open>button.tsx\<close>

definition buttonVariants :: "cva_fn \<Rightarrow> jstr option \<Rightarrow> jstr option \<Rightarrow> jstr option \<Rightarrow> jstr" where
  \<open>buttonVariants cva variant_arg size_arg className_arg = cva
     (js ''inline-flex items-center justify-center gap-2 whitespace-nowrap rounded-md text-sm font-medium transition-colors focus-visible:outline-none focus-visible:ring-1 focus-visible:ring-ring disabled:pointer-events-none disabled:opacity-50 [&_svg]:pointer-events-none [&_svg]:size-4 [&_svg]:shrink-0'')
     [(''variant'', [(''default'', js ''bg-primary text-primary-foreground shadow hover:bg-primary/90''),
         (''destructive'', js ''bg-destructive text-destructive-foreground shadow-sm hover:bg-destructive/90''),
         (''outline'', js ''border border-input bg-background shadow-sm hover:bg-accent hover:text-accent-foreground''),
         (''secondary'', js ''bg-secondary text-secondary-foreground shadow-sm hover:bg-secondary/80''),
         (''ghost'', js ''hover:bg-accent hover:text-accent-foreground''),
         (''link'', js ''text-primary underline-offset-4 hover:underline'')]),
      (''size'', [(''default'', js ''h-9 px-4 py-2''),
         (''sm'', js ''h-8 rounded-md px-3 text-xs''),
         (''lg'', js ''h-10 rounded-md px-8''),
         (''icon'', js ''h-9 w-9'')])]
     [att ''variant'' ''default'', att ''size'' ''default'']
     [(''variant'', variant_arg), (''size'', size_arg), (''className'', className_arg)]\<close>

definition Button :: "class_fn \<Rightarrow> cva_fn \<Rightarrow> ui_props \<Rightarrow> node" where
  \<open>Button cn cva p = El (if is_on (given p ''asChild'') then ''Slot'' else ''button'')
       (object_spread ([(''className'', cn [Some (buttonVariants cva (given p ''variant'') (given p ''size'') (u_className p))])] @ own_ref p) (rest_of [''variant'', ''size'', ''asChild''] p))
       (u_children p)\<close>

section \<open>card.tsx\<close>

definition Card :: "class_fn \<Rightarrow> ui_props \<Rightarrow> node" where
  \<open>Card cn p = forward_ref cn ''div''
     (js ''rounded-xl border bg-card text-card-foreground shadow'') p\<close>

definition CardHeader :: "class_fn \<Rightarrow> ui_props \<Rightarrow> node" where
  \<open>CardHeader cn p = forward_ref cn ''div''
     (js ''flex flex-col space-y-1.5 p-6'') p\<close>

definition CardTitle :: "class_fn \<Rightarrow> ui_props \<Rightarrow> node" where
  \<open>CardTitle cn p = forward_ref cn ''div''
     (js ''font-semibold leading-none tracking-tight'') p\<close>

definition CardDescription :: "class_fn \<Rightarrow> ui_props \<Rightarrow> node" where
  \<open>CardDescription cn p = forward_ref cn ''div''
     (js ''text-sm text-muted-foreground'') p\<close>

definition CardContent :: "class_fn \<Rightarrow> ui_props \<Rightarrow> node" where
  \<open>CardContent cn p = forward_ref cn ''div''
     (js ''p-6 pt-0'') p\<close>

definition CardFooter :: "class_fn \<Rightarrow> ui_props \<Rightarrow> node" where
  \<open>CardFooter cn p = forward_ref cn ''div''
     (js ''flex items-center p-6 pt-0'') p\<close>

section \<open>collapsible.tsx\<close>

definition Collapsible :: "ui_props \<Rightarrow> node" where
  "Collapsible p = primitive ''CollapsiblePrimitive.Root'' p"

definition CollapsibleTrigger :: "ui_props \<Rightarrow> node" where
  "CollapsibleTrigger p = primitive ''CollapsiblePrimitive.CollapsibleTrigger'' p"

definition CollapsibleContent :: "ui_props \<Rightarrow> node" where
  "CollapsibleContent p = primitive ''CollapsiblePrimitive.CollapsibleContent'' p"

section \<open>dialog.tsx\<close>

definition Dialog :: "ui_props \<Rightarrow> node" where
  "Dialog p = primitive ''DialogPrimitive.Root'' p"

definition DialogTrigger :: "ui_props \<Rightarrow> node" where
  "DialogTrigger p = primitive ''DialogPrimitive.Trigger'' p"

definition DialogPortal :: "ui_props \<Rightarrow> node" where
  "DialogPortal p = primitive ''DialogPrimitive.Portal'' p"

definition DialogClose :: "ui_props \<Rightarrow> node" where
  "DialogClose p = primitive ''DialogPrimitive.Close'' p"

definition DialogOverlay :: "class_fn \<Rightarrow> ui_props \<Rightarrow> node" where
  \<open>DialogOverlay cn p = forward_ref cn ''DialogPrimitive.Overlay''
     (js ''fixed inset-0 z-50 bg-black/80  data-[state=open]:animate-in data-[state=closed]:animate-out data-[state=closed]:fade-out-0 data-[state=open]:fade-in-0'') p\<close>

definition DialogContent :: "class_fn \<Rightarrow> ui_props \<Rightarrow> node" where
  \<open>DialogContent cn p = DialogPortal (no_props\<lparr>u_children := [DialogOverlay cn no_props, El ''DialogPrimitive.Content''
           (object_spread (own_ref p @ [(''className'', cn [Some (js ''fixed left-[50%] top-[50%] z-50 grid w-full max-w-lg translate-x-[-50%] translate-y-[-50%] gap-4 border bg-background p-6 shadow-lg duration-200 data-[state=open]:animate-in data-[state=closed]:animate-out data-[state=closed]:fade-out-0 data-[state=open]:fade-in-0 data-[state=closed]:zoom-out-95 data-[state=open]:zoom-in-95 data-[state=closed]:slide-out-to-left-1/2 data-[state=closed]:slide-out-to-top-[48%] data-[state=open]:slide-in-from-left-1/2 data-[state=open]:slide-in-from-top-[48%] sm:rounded-lg''),
              u_className p])]) (u_props p))
           (u_children p @ [El ''DialogPrimitive.Close''
              [(''className'', js ''absolute right-4 top-4 rounded-sm opacity-70 ring-offset-background transition-opacity hover:opacity-100 focus:outline-none focus:ring-2 focus:ring-ring focus:ring-offset-2 disabled:pointer-events-none data-[state=open]:bg-accent data-[state=open]:text-muted-foreground'')]
              [El ''X''
                 [(''className'', js ''h-4 w-4'')]
                 [], El ''span''
                 [(''className'', js ''sr-only'')]
                 [Txt (js ''Close'')]]])]\<rparr>)\<close>

definition DialogHeader :: "class_fn \<Rightarrow> ui_props \<Rightarrow> node" where
  \<open>DialogHeader cn p = El ''div''
       (object_spread ([(''className'', cn [Some (js ''flex flex-col space-y-1.5 text-center sm:text-left''), u_className p])])
          (u_props p))
       (u_children p)\<close>

definition DialogFooter :: "class_fn \<Rightarrow> ui_props \<Rightarrow> node" where
  \<open>DialogFooter cn p = El ''div''
       (object_spread ([(''className'', cn [Some (js ''flex flex-col-reverse sm:flex-row sm:justify-end sm:space-x-2''),
          u_className p])]) (u_props p))
       (u_children p)\<close>

definition DialogTitle :: "class_fn \<Rightarrow> ui_props \<Rightarrow> node" where
  \<open>DialogTitle cn p = forward_ref cn ''DialogPrimitive.Title''
     (js ''text-lg font-semibold leading-none tracking-tight'') p\<close>

definition DialogDescription :: "class_fn \<Rightarrow> ui_props \<Rightarrow> node" where
  \<open>DialogDescription cn p = forward_ref cn ''DialogPrimitive.Description''
     (js ''text-sm text-muted-foreground'') p\<close>

section \<open>dropdown-menu.tsx\<close>

definition DropdownMenu :: "ui_props \<Rightarrow> node" where
  "DropdownMenu p = primitive ''DropdownMenuPrimitive.Root'' p"

definition DropdownMenuTrigger :: "ui_props \<Rightarrow> node" where
  "DropdownMenuTrigger p = primitive ''DropdownMenuPrimitive.Trigger'' p"

definition DropdownMenuGroup :: "ui_props \<Rightarrow> node" where
  "DropdownMenuGroup p = primitive ''DropdownMenuPrimitive.Group'' p"

definition DropdownMenuPortal :: "ui_props \<Rightarrow> node" where
  "DropdownMenuPortal p = primitive ''DropdownMenuPrimitive.Portal'' p"

definition DropdownMenuSub :: "ui_props \<Rightarrow> node" where
  "DropdownMenuSub p = primitive ''DropdownMenuPrimitive.Sub'' p"

definition DropdownMenuRadioGroup :: "ui_props \<Rightarrow> node" where
  "DropdownMenuRadioGroup p = primitive ''DropdownMenuPrimitive.RadioGroup'' p"

definition DropdownMenuSubTrigger :: "class_fn \<Rightarrow> ui_props \<Rightarrow> node" where
  \<open>DropdownMenuSubTrigger cn p = El ''DropdownMenuPrimitive.SubTrigger''
       (object_spread (own_ref p @ [(''className'', cn [Some (js ''flex cursor-default select-none items-center gap-2 rounded-sm px-2 py-1.5 text-sm outline-none focus:bg-accent data-[state=open]:bg-accent [&_svg]:pointer-events-none [&_svg]:size-4 [&_svg]:shrink-0''),
          (if is_on (given p ''inset'') then Some (js ''pl-8'') else None), u_className p])]) (rest_of [''inset''] p))
       (u_children p @ [El ''ChevronRight''
          [(''className'', js ''ml-auto'')]
          []])\<close>

definition DropdownMenuSubContent :: "class_fn \<Rightarrow> ui_props \<Rightarrow> node" where
  \<open>DropdownMenuSubContent cn p = forward_ref cn ''DropdownMenuPrimitive.SubContent''
     (js ''z-50 min-w-[8rem] overflow-hidden rounded-md border bg-popover p-1 text-popover-foreground shadow-lg data-[state=open]:animate-in data-[state=closed]:animate-out data-[state=closed]:fade-out-0 data-[state=open]:fade-in-0 data-[state=closed]:zoom-out-95 data-[state=open]:zoom-in-95 data-[side=bottom]:slide-in-from-top-2 data-[side=left]:slide-in-from-right-2 data-[side=right]:slide-in-from-left-2 data-[side=top]:slide-in-from-bottom-2 origin-[--radix-dropdown-menu-content-transform-origin]'') p\<close>

definition DropdownMenuContent :: "class_fn \<Rightarrow> ui_props \<Rightarrow> node" where
  \<open>DropdownMenuContent cn p = El ''DropdownMenuPrimitive.Portal''
       []
       [El ''DropdownMenuPrimitive.Content''
          (object_spread (own_ref p @ [(''sideOffset'', prop_or p ''sideOffset'' (js ''4'')),
             (''className'', cn [Some (js ''z-50 max-h-[var(--radix-dropdown-menu-content-available-height)] min-w-[8rem] overflow-y-auto overflow-x-hidden rounded-md border bg-popover p-1 text-popover-foreground shadow-md''),
             Some (js ''data-[state=open]:animate-in data-[state=closed]:animate-out data-[state=closed]:fade-out-0 data-[state=open]:fade-in-0 data-[state=closed]:zoom-out-95 data-[state=open]:zoom-in-95 data-[side=bottom]:slide-in-from-top-2 data-[side=left]:slide-in-from-right-2 data-[side=right]:slide-in-from-left-2 data-[side=top]:slide-in-from-bottom-2 origin-[--radix-dropdown-menu-content-transform-origin]''),
             u_className p])]) (rest_of [''sideOffset''] p))
          (u_children p)]\<close>

definition DropdownMenuItem :: "class_fn \<Rightarrow> ui_props \<Rightarrow> node" where
  \<open>DropdownMenuItem cn p = El ''DropdownMenuPrimitive.Item''
       (object_spread (own_ref p @ [(''className'', cn [Some (js ''relative flex cursor-default select-none items-center gap-2 rounded-sm px-2 py-1.5 text-sm outline-none transition-colors focus:bg-accent focus:text-accent-foreground data-[disabled]:pointer-events-none data-[disabled]:opacity-50 [&>svg]:size-4 [&>svg]:shrink-0''),
          (if is_on (given p ''inset'') then Some (js ''pl-8'') else None), u_className p])]) (rest_of [''inset''] p))
       (u_children p)\<close>

definition DropdownMenuCheckboxItem :: "class_fn \<Rightarrow> ui_props \<Rightarrow> node" where
  \<open>DropdownMenuCheckboxItem cn p = El ''DropdownMenuPrimitive.CheckboxItem''
       (object_spread (own_ref p @ [(''className'', cn [Some (js ''relative flex cursor-default select-none items-center rounded-sm py-1.5 pl-8 pr-2 text-sm outline-none transition-colors focus:bg-accent focus:text-accent-foreground data-[disabled]:pointer-events-none data-[disabled]:opacity-50''),
          u_className p])] @ opt_attr ''checked'' (given p ''checked'')) (rest_of [''checked''] p))
       ([El ''span''
          [(''className'', js ''absolute left-2 flex h-3.5 w-3.5 items-center justify-center'')]
          [El ''DropdownMenuPrimitive.ItemIndicator''
             []
             [El ''Check''
                [(''className'', js ''h-4 w-4'')]
                []]]] @ u_children p)\<close>

definition DropdownMenuRadioItem :: "class_fn \<Rightarrow> ui_props \<Rightarrow> node" where
  \<open>DropdownMenuRadioItem cn p = El ''DropdownMenuPrimitive.RadioItem''
       (object_spread (own_ref p @ [(''className'', cn [Some (js ''relative flex cursor-default select-none items-center rounded-sm py-1.5 pl-8 pr-2 text-sm outline-none transition-colors focus:bg-accent focus:text-accent-foreground data-[disabled]:pointer-events-none data-[disabled]:opacity-50''),
          u_className p])]) (u_props p))
       ([El ''span''
          [(''className'', js ''absolute left-2 flex h-3.5 w-3.5 items-center justify-center'')]
          [El ''DropdownMenuPrimitive.ItemIndicator''
             []
             [El ''Circle''
                [(''className'', js ''h-2 w-2 fill-current'')]
                []]]] @ u_children p)\<close>

definition DropdownMenuLabel :: "class_fn \<Rightarrow> ui_props \<Rightarrow> node" where
  \<open>DropdownMenuLabel cn p = El ''DropdownMenuPrimitive.Label''
       (object_spread (own_ref p @ [(''className'', cn [Some (js ''px-2 py-1.5 text-sm font-semibold''),
          (if is_on (given p ''inset'') then Some (js ''pl-8'') else None), u_className p])]) (rest_of [''inset''] p))
       (u_children p)\<close>

definition DropdownMenuSeparator :: "class_fn \<Rightarrow> ui_props \<Rightarrow> node" where
  \<open>DropdownMenuSeparator cn p = forward_ref cn ''DropdownMenuPrimitive.Separator''
     (js ''-mx-1 my-1 h-px bg-muted'') p\<close>

definition DropdownMenuShortcut :: "class_fn \<Rightarrow> ui_props \<Rightarrow> node" where
  \<open>DropdownMenuShortcut cn p = El ''span''
       (object_spread ([(''className'', cn [Some (js ''ml-auto text-xs tracking-widest opacity-60''), u_className p])])
          (u_props p))
       (u_children p)\<close>

section \<open>input.tsx\<close>

definition Input :: "class_fn \<Rightarrow> ui_props \<Rightarrow> node" where
  \<open>Input cn p = El ''input''
       (object_spread (opt_attr ''type'' (given p ''type'') @ [(''className'', cn [Some (js ''flex h-9 w-full rounded-md border border-input bg-transparent px-3 py-1 text-base shadow-sm transition-colors file:border-0 file:bg-transparent file:text-sm file:font-medium file:text-foreground placeholder:text-muted-foreground focus-visible:outline-none focus-visible:ring-1 focus-visible:ring-ring disabled:cursor-not-allowed disabled:opacity-50 md:text-sm''),
          u_className p])] @ own_ref p) (rest_of [''type''] p))
       (u_children p)\<close>

section \<open>kbd.tsx\<close>

definition Kbd :: "class_fn \<Rightarrow> ui_props \<Rightarrow> node" where
  \<open>Kbd cn p = El ''kbd''
       (object_spread ([(''data-slot'', js ''kbd''),
          (''className'', cn [Some (js ''bg-muted text-muted-foreground pointer-events-none inline-flex h-5 w-fit min-w-5 select-none items-center justify-center gap-1 rounded-sm px-1 font-sans text-xs font-medium''),
          Some (js ''[&_svg:not([class*='size-'])]:size-3''),
          Some (js ''['' @ js ''[data-slot=tooltip-content]_&]:bg-background/20 ['' @ js ''[data-slot=tooltip-content]_&]:text-background dark:['' @ js ''[data-slot=tooltip-content]_&]:bg-background/10''),
          u_className p])]) (u_props p))
       (u_children p)\<close>

definition KbdGroup :: "class_fn \<Rightarrow> ui_props \<Rightarrow> node" where
  \<open>KbdGroup cn p = El ''kbd''
       (object_spread ([(''data-slot'', js ''kbd-group''), (''className'', cn [Some (js ''inline-flex items-center gap-1''),
          u_className p])]) (u_props p))
       (u_children p)\<close>

section \<open>label.tsx\<close>

definition labelVariants :: "cva_fn \<Rightarrow> jstr" where
  \<open>labelVariants cva = cva
     (js ''text-sm font-medium leading-none peer-disabled:cursor-not-allowed peer-disabled:opacity-70'')
     []
     []
     []\<close>

definition Label :: "class_fn \<Rightarrow> cva_fn \<Rightarrow> ui_props \<Rightarrow> node" where
  \<open>Label cn cva p = El ''LabelPrimitive.Root''
       (object_spread (own_ref p @ [(''className'', cn [Some (labelVariants cva), u_className p])]) (u_props p))
       (u_children p)\<close>

section \<open>progress.tsx\<close>

definition Progress :: "class_fn \<Rightarrow> (real \<Rightarrow> jstr) \<Rightarrow> real option \<Rightarrow> ui_props \<Rightarrow> node" where
  \<open>Progress cn num value p = El ''ProgressPrimitive.Root''
       (object_spread (own_ref p @ [(''className'', cn [Some (js ''relative h-2 w-full overflow-hidden rounded-full bg-primary/20''),
          u_className p])]) (rest_of [''value''] p))
       [El ''ProgressPrimitive.Indicator''
          ([(''className'', js ''h-full w-full flex-1 bg-primary transition-all'')] @ [(''style.transform'', js ''translateX(-'' @ num (100 - (case value of None \<Rightarrow> 0 | Some v \<Rightarrow> v)) @ js ''%)'')])
          []]\<close>

section \<open>scroll-area.tsx\<close>

definition ScrollBar :: "class_fn \<Rightarrow> ui_props \<Rightarrow> node" where
  \<open>ScrollBar cn p = El ''ScrollAreaPrimitive.ScrollAreaScrollbar''
       (object_spread (own_ref p @ [(''orientation'', prop_or p ''orientation'' (js ''vertical'')),
          (''className'', cn [Some (js ''flex touch-none select-none transition-colors''),
          (if prop_or p ''orientation'' (js ''vertical'') = js ''vertical'' then Some (js ''h-full w-2.5 border-l border-l-transparent p-[1px]'') else None),
          (if prop_or p ''orientation'' (js ''vertical'') = js ''horizontal'' then Some (js ''h-2.5 flex-col border-t border-t-transparent p-[1px]'') else None),
          u_className p])]) (rest_of [''orientation''] p))
       [El ''ScrollAreaPrimitive.ScrollAreaThumb''
          [(''className'', js ''relative flex-1 rounded-full bg-border'')]
          []]\<close>

definition ScrollArea :: "class_fn \<Rightarrow> ui_props \<Rightarrow> node" where
  \<open>ScrollArea cn p = El ''ScrollAreaPrimitive.Root''
       (object_spread (own_ref p @ [(''className'', cn [Some (js ''relative overflow-hidden''), u_className p])]) (u_props p))
       [El ''ScrollAreaPrimitive.Viewport''
          [(''className'', js ''h-full w-full rounded-[inherit]'')]
          (u_children p), ScrollBar cn no_props, El ''ScrollAreaPrimitive.Corner''
          []
          []]\<close>

section \<open>separator.tsx\<close>

definition Separator :: "class_fn \<Rightarrow> ui_props \<Rightarrow> node" where
  \<open>Separator cn p = El ''SeparatorPrimitive.Root''
       (object_spread (own_ref p @ [(''decorative'', prop_or p ''decorative'' (js ''true'')),
          (''orientation'', prop_or p ''orientation'' (js ''horizontal'')), (''className'', cn [Some (js ''shrink-0 bg-border''),
          Some (if prop_or p ''orientation'' (js ''horizontal'') = js ''horizontal'' then js ''h-[1px] w-full'' else js ''h-full w-[1px]''),
          u_className p])]) (rest_of [''orientation'', ''decorative''] p))
       (u_children p)\<close>

section \<open>sheet.tsx\<close>

definition Sheet :: "ui_props \<Rightarrow> node" where
  "Sheet p = primitive ''SheetPrimitive.Root'' p"

definition SheetTrigger :: "ui_props \<Rightarrow> node" where
  "SheetTrigger p = primitive ''SheetPrimitive.Trigger'' p"

definition SheetClose :: "ui_props \<Rightarrow> node" where
  "SheetClose p = primitive ''SheetPrimitive.Close'' p"

definition SheetPortal :: "ui_props \<Rightarrow> node" where
  "SheetPortal p = primitive ''SheetPrimitive.Portal'' p"

definition SheetOverlay :: "class_fn \<Rightarrow> ui_props \<Rightarrow> node" where
  \<open>SheetOverlay cn p = El ''SheetPrimitive.Overlay''
       (object_spread (object_spread ([(''className'', cn [Some (js ''fixed inset-0 z-50 bg-black/80  data-[state=open]:animate-in data-[state=closed]:animate-out data-[state=closed]:fade-out-0 data-[state=open]:fade-in-0''),
          u_className p])]) (u_props p)) (own_ref p))
       (u_children p)\<close>

definition sheetVariants :: "cva_fn \<Rightarrow> jstr option \<Rightarrow> jstr" where
  \<open>sheetVariants cva side_arg = cva
     (js ''fixed z-50 gap-4 bg-background p-6 shadow-lg transition ease-in-out data-[state=closed]:duration-300 data-[state=open]:duration-500 data-[state=open]:animate-in data-[state=closed]:animate-out'')
     [(''side'', [(''top'', js ''inset-x-0 top-0 border-b data-[state=closed]:slide-out-to-top data-[state=open]:slide-in-from-top''),
         (''bottom'', js ''inset-x-0 bottom-0 border-t data-[state=closed]:slide-out-to-bottom data-[state=open]:slide-in-from-bottom''),
         (''left'', js ''inset-y-0 left-0 h-full w-3/4 border-r data-[state=closed]:slide-out-to-left data-[state=open]:slide-in-from-left sm:max-w-sm''),
         (''right'', js ''inset-y-0 right-0 h-full w-3/4 border-l data-[state=closed]:slide-out-to-right data-[state=open]:slide-in-from-right sm:max-w-sm'')])]
     [att ''side'' ''right'']
     [(''side'', side_arg)]\<close>

definition SheetContent :: "class_fn \<Rightarrow> cva_fn \<Rightarrow> ui_props \<Rightarrow> node" where
  \<open>SheetContent cn cva p = SheetPortal (no_props\<lparr>u_children := [SheetOverlay cn no_props, El ''SheetPrimitive.Content''
           (object_spread (own_ref p @ [(''className'', cn [Some (sheetVariants cva (Some (prop_or p ''side'' (js ''right'')))),
              u_className p])]) (rest_of [''side''] p))
           ([El ''SheetPrimitive.Close''
              [(''className'', js ''absolute right-4 top-4 rounded-sm opacity-70 ring-offset-background transition-opacity hover:opacity-100 focus:outline-none focus:ring-2 focus:ring-ring focus:ring-offset-2 disabled:pointer-events-none data-[state=open]:bg-secondary'')]
              [El ''X''
                 [(''className'', js ''h-4 w-4'')]
                 [], El ''span''
                 [(''className'', js ''sr-only'')]
                 [Txt (js ''Close'')]]] @ u_children p)]\<rparr>)\<close>

definition SheetHeader :: "class_fn \<Rightarrow> ui_props \<Rightarrow> node" where
  \<open>SheetHeader cn p = El ''div''
       (object_spread ([(''className'', cn [Some (js ''flex flex-col space-y-2 text-center sm:text-left''), u_className p])])
          (u_props p))
       (u_children p)\<close>

definition SheetFooter :: "class_fn \<Rightarrow> ui_props \<Rightarrow> node" where
  \<open>SheetFooter cn p = El ''div''
       (object_spread ([(''className'', cn [Some (js ''flex flex-col-reverse sm:flex-row sm:justify-end sm:space-x-2''),
          u_className p])]) (u_props p))
       (u_children p)\<close>

definition SheetTitle :: "class_fn \<Rightarrow> ui_props \<Rightarrow> node" where
  \<open>SheetTitle cn p = forward_ref cn ''SheetPrimitive.Title''
     (js ''text-lg font-semibold text-foreground'') p\<close>

definition SheetDescription :: "class_fn \<Rightarrow> ui_props \<Rightarrow> node" where
  \<open>SheetDescription cn p = forward_ref cn ''SheetPrimitive.Description''
     (js ''text-sm text-muted-foreground'') p\<close>

section \<open>skeleton.tsx\<close>

definition Skeleton :: "class_fn \<Rightarrow> ui_props \<Rightarrow> node" where
  \<open>Skeleton cn p = El ''div''
       (object_spread ([(''className'', cn [Some (js ''animate-pulse rounded-md bg-primary/10''), u_className p])]) (u_props p))
       (u_children p)\<close>

section \<open>switch.tsx\<close>

definition Switch :: "class_fn \<Rightarrow> ui_props \<Rightarrow> node" where
  \<open>Switch cn p = El ''SwitchPrimitives.Root''
       (object_spread (object_spread ([(''className'', cn [Some (js ''peer inline-flex h-5 w-9 shrink-0 cursor-pointer items-center rounded-full border-2 border-transparent shadow-sm transition-colors focus-visible:outline-none focus-visible:ring-2 focus-visible:ring-ring focus-visible:ring-offset-2 focus-visible:ring-offset-background disabled:cursor-not-allowed disabled:opacity-50 data-[state=checked]:bg-primary data-[state=unchecked]:bg-input''),
          u_className p])]) (u_props p)) (own_ref p))
       [El ''SwitchPrimitives.Thumb''
          [(''className'', cn [Some (js ''pointer-events-none block h-4 w-4 rounded-full bg-background shadow-lg ring-0 transition-transform data-[state=checked]:translate-x-4 data-[state=unchecked]:translate-x-0'')])]
          []]\<close>

section \<open>table.tsx\<close>

definition Table :: "class_fn \<Rightarrow> ui_props \<Rightarrow> node" where
  \<open>Table cn p = El ''div''
       [(''className'', js ''relative w-full overflow-auto'')]
       [El ''table''
          (object_spread (own_ref p @ [(''className'', cn [Some (js ''w-full caption-bottom text-sm''), u_className p])])
             (u_props p))
          (u_children p)]\<close>

definition TableHeader :: "class_fn \<Rightarrow> ui_props \<Rightarrow> node" where
  \<open>TableHeader cn p = forward_ref cn ''thead''
     (js ''[&_tr]:border-b'') p\<close>

definition TableBody :: "class_fn \<Rightarrow> ui_props \<Rightarrow> node" where
  \<open>TableBody cn p = forward_ref cn ''tbody''
     (js ''[&_tr:last-child]:border-0'') p\<close>

definition TableFooter :: "class_fn \<Rightarrow> ui_props \<Rightarrow> node" where
  \<open>TableFooter cn p = forward_ref cn ''tfoot''
     (js ''border-t bg-muted/50 font-medium [&>tr]:last:border-b-0'') p\<close>

definition TableRow :: "class_fn \<Rightarrow> ui_props \<Rightarrow> node" where
  \<open>TableRow cn p = forward_ref cn ''tr''
     (js ''border-b transition-colors hover:bg-muted/50 data-[state=selected]:bg-muted'') p\<close>

definition TableHead :: "class_fn \<Rightarrow> ui_props \<Rightarrow> node" where
  \<open>TableHead cn p = forward_ref cn ''th''
     (js ''h-10 px-2 text-left align-middle font-medium text-muted-foreground [&:has([role=checkbox])]:pr-0 [&>[role=checkbox]]:translate-y-[2px]'') p\<close>

definition TableCell :: "class_fn \<Rightarrow> ui_props \<Rightarrow> node" where
  \<open>TableCell cn p = forward_ref cn ''td''
     (js ''p-2 align-middle [&:has([role=checkbox])]:pr-0 [&>[role=checkbox]]:translate-y-[2px]'') p\<close>

definition TableCaption :: "class_fn \<Rightarrow> ui_props \<Rightarrow> node" where
  \<open>TableCaption cn p = forward_ref cn ''caption''
     (js ''mt-4 text-sm text-muted-foreground'') p\<close>

section \<open>tabs.tsx\<close>

definition Tabs :: "ui_props \<Rightarrow> node" where
  "Tabs p = primitive ''TabsPrimitive.Root'' p"

definition TabsList :: "class_fn \<Rightarrow> ui_props \<Rightarrow> node" where
  \<open>TabsList cn p = forward_ref cn ''TabsPrimitive.List''
     (js ''inline-flex h-9 items-center justify-center rounded-lg bg-muted p-1 text-muted-foreground'') p\<close>

definition TabsTrigger :: "class_fn \<Rightarrow> ui_props \<Rightarrow> node" where
  \<open>TabsTrigger cn p = forward_ref cn ''TabsPrimitive.Trigger''
     (js ''inline-flex items-center justify-center whitespace-nowrap rounded-md px-3 py-1 text-sm font-medium ring-offset-background transition-all focus-visible:outline-none focus-visible:ring-2 focus-visible:ring-ring focus-visible:ring-offset-2 disabled:pointer-events-none disabled:opacity-50 data-[state=active]:bg-background data-[state=active]:text-foreground data-[state=active]:shadow'') p\<close>

definition TabsContent :: "class_fn \<Rightarrow> ui_props \<Rightarrow> node" where
  \<open>TabsContent cn p = forward_ref cn ''TabsPrimitive.Content''
     (js ''mt-2 ring-offset-background focus-visible:outline-none focus-visible:ring-2 focus-visible:ring-ring focus-visible:ring-offset-2'') p\<close>

section \<open>textarea.tsx\<close>

definition Textarea :: "class_fn \<Rightarrow> ui_props \<Rightarrow> node" where
  \<open>Textarea cn p = El ''textarea''
       (object_spread ([(''className'', cn [Some (js ''flex min-h-[60px] w-full rounded-md border border-input bg-transparent px-3 py-2 text-base shadow-sm placeholder:text-muted-foreground focus-visible:outline-none focus-visible:ring-1 focus-visible:ring-ring disabled:cursor-not-allowed disabled:opacity-50 md:text-sm''),
          u_className p])] @ own_ref p) (u_props p))
       (u_children p)\<close>

section \<open>tooltip.tsx\<close>

definition TooltipProvider :: "ui_props \<Rightarrow> node" where
  "TooltipProvider p = primitive ''TooltipPrimitive.Provider'' p"

definition Tooltip :: "ui_props \<Rightarrow> node" where
  "Tooltip p = primitive ''TooltipPrimitive.Root'' p"

definition TooltipTrigger :: "ui_props \<Rightarrow> node" where
  "TooltipTrigger p = primitive ''TooltipPrimitive.Trigger'' p"

definition TooltipContent :: "class_fn \<Rightarrow> ui_props \<Rightarrow> node" where
  \<open>TooltipContent cn p = El ''TooltipPrimitive.Portal''
       []
       [El ''TooltipPrimitive.Content''
          (object_spread (own_ref p @ [(''sideOffset'', prop_or p ''sideOffset'' (js ''4'')),
             (''className'', cn [Some (js ''z-50 overflow-hidden rounded-md bg-primary px-3 py-1.5 text-xs text-primary-foreground animate-in fade-in-0 zoom-in-95 data-[state=closed]:animate-out data-[state=closed]:fade-out-0 data-[state=closed]:zoom-out-95 data-[side=bottom]:slide-in-from-top-2 data-[side=left]:slide-in-from-right-2 data-[side=right]:slide-in-from-left-2 data-[side=top]:slide-in-from-bottom-2 origin-[--radix-tooltip-content-transform-origin]''),
             u_className p])]) (rest_of [''sideOffset''] p))
          (u_children p)]\<close>

section \<open>The kit\<close>

text \<open>\<open>to_num\<close> is the number that the text of a property stands for.\<close>

definition ui_kit :: "class_fn \<Rightarrow> cva_fn \<Rightarrow> (real \<Rightarrow> jstr) \<Rightarrow> (jstr \<Rightarrow> real) \<Rightarrow> (string \<times> (ui_props \<Rightarrow> node)) list" where
  "ui_kit cn cva num to_num =
     [(''Accordion'', Accordion), (''AccordionItem'', AccordionItem cn), (''AccordionTrigger'', AccordionTrigger cn),
      (''AccordionContent'', AccordionContent cn), (''Alert'', Alert cn cva), (''AlertTitle'', AlertTitle cn),
      (''AlertDescription'', AlertDescription cn), (''Avatar'', Avatar cn), (''AvatarImage'', AvatarImage cn),
      (''AvatarFallback'', AvatarFallback cn), (''Badge'', Badge cn cva), (''Breadcrumb'', Breadcrumb),
      (''BreadcrumbList'', BreadcrumbList cn), (''BreadcrumbItem'', BreadcrumbItem cn),
      (''BreadcrumbLink'', BreadcrumbLink cn), (''BreadcrumbPage'', BreadcrumbPage cn),
      (''BreadcrumbSeparator'', BreadcrumbSeparator cn), (''BreadcrumbEllipsis'', BreadcrumbEllipsis cn),
      (''Button'', Button cn cva), (''Card'', Card cn), (''CardHeader'', CardHeader cn),
      (''CardTitle'', CardTitle cn), (''CardDescription'', CardDescription cn), (''CardContent'', CardContent cn),
      (''CardFooter'', CardFooter cn), (''Collapsible'', Collapsible), (''CollapsibleTrigger'', CollapsibleTrigger),
      (''CollapsibleContent'', CollapsibleContent), (''Dialog'', Dialog), (''DialogTrigger'', DialogTrigger),
      (''DialogPortal'', DialogPortal), (''DialogClose'', DialogClose), (''DialogOverlay'', DialogOverlay cn),
      (''DialogContent'', DialogContent cn), (''DialogHeader'', DialogHeader cn),
      (''DialogFooter'', DialogFooter cn), (''DialogTitle'', DialogTitle cn),
      (''DialogDescription'', DialogDescription cn), (''DropdownMenu'', DropdownMenu),
      (''DropdownMenuTrigger'', DropdownMenuTrigger), (''DropdownMenuGroup'', DropdownMenuGroup),
      (''DropdownMenuPortal'', DropdownMenuPortal), (''DropdownMenuSub'', DropdownMenuSub),
      (''DropdownMenuRadioGroup'', DropdownMenuRadioGroup), (''DropdownMenuSubTrigger'', DropdownMenuSubTrigger cn),
      (''DropdownMenuSubContent'', DropdownMenuSubContent cn), (''DropdownMenuContent'', DropdownMenuContent cn),
      (''DropdownMenuItem'', DropdownMenuItem cn), (''DropdownMenuCheckboxItem'', DropdownMenuCheckboxItem cn),
      (''DropdownMenuRadioItem'', DropdownMenuRadioItem cn), (''DropdownMenuLabel'', DropdownMenuLabel cn),
      (''DropdownMenuSeparator'', DropdownMenuSeparator cn), (''DropdownMenuShortcut'', DropdownMenuShortcut cn),
      (''Input'', Input cn), (''Kbd'', Kbd cn), (''KbdGroup'', KbdGroup cn), (''Label'', Label cn cva),
      (''Progress'', \<lambda>p. Progress cn num (map_option to_num (given p ''value'')) p),
      (''ScrollArea'', ScrollArea cn), (''ScrollBar'', ScrollBar cn), (''Separator'', Separator cn),
      (''Sheet'', Sheet), (''SheetTrigger'', SheetTrigger), (''SheetClose'', SheetClose),
      (''SheetPortal'', SheetPortal), (''SheetOverlay'', SheetOverlay cn), (''SheetContent'', SheetContent cn cva),
      (''SheetHeader'', SheetHeader cn), (''SheetFooter'', SheetFooter cn), (''SheetTitle'', SheetTitle cn),
      (''SheetDescription'', SheetDescription cn), (''Skeleton'', Skeleton cn), (''Switch'', Switch cn),
      (''Table'', Table cn), (''TableHeader'', TableHeader cn), (''TableBody'', TableBody cn),
      (''TableFooter'', TableFooter cn), (''TableRow'', TableRow cn), (''TableHead'', TableHead cn),
      (''TableCell'', TableCell cn), (''TableCaption'', TableCaption cn), (''Tabs'', Tabs),
      (''TabsList'', TabsList cn), (''TabsTrigger'', TabsTrigger cn), (''TabsContent'', TabsContent cn),
      (''Textarea'', Textarea cn), (''TooltipProvider'', TooltipProvider), (''Tooltip'', Tooltip),
      (''TooltipTrigger'', TooltipTrigger), (''TooltipContent'', TooltipContent cn)]"

lemmas ui_defs = forward_ref_def primitive_def Accordion_def AccordionItem_def AccordionTrigger_def
  AccordionContent_def Alert_def AlertTitle_def AlertDescription_def Avatar_def AvatarImage_def AvatarFallback_def
  Badge_def Breadcrumb_def BreadcrumbList_def BreadcrumbItem_def BreadcrumbLink_def BreadcrumbPage_def
  BreadcrumbSeparator_def BreadcrumbEllipsis_def Button_def Card_def CardHeader_def CardTitle_def CardDescription_def
  CardContent_def CardFooter_def Collapsible_def CollapsibleTrigger_def CollapsibleContent_def Dialog_def
  DialogTrigger_def DialogPortal_def DialogClose_def DialogOverlay_def DialogContent_def DialogHeader_def
  DialogFooter_def DialogTitle_def DialogDescription_def DropdownMenu_def DropdownMenuTrigger_def DropdownMenuGroup_def
  DropdownMenuPortal_def DropdownMenuSub_def DropdownMenuRadioGroup_def DropdownMenuSubTrigger_def
  DropdownMenuSubContent_def DropdownMenuContent_def DropdownMenuItem_def DropdownMenuCheckboxItem_def
  DropdownMenuRadioItem_def DropdownMenuLabel_def DropdownMenuSeparator_def DropdownMenuShortcut_def Input_def Kbd_def
  KbdGroup_def Label_def Progress_def ScrollArea_def ScrollBar_def Separator_def Sheet_def SheetTrigger_def
  SheetClose_def SheetPortal_def SheetOverlay_def SheetContent_def SheetHeader_def SheetFooter_def SheetTitle_def
  SheetDescription_def Skeleton_def Switch_def Table_def TableHeader_def TableBody_def TableFooter_def TableRow_def
  TableHead_def TableCell_def TableCaption_def Tabs_def TabsList_def TabsTrigger_def TabsContent_def Textarea_def
  TooltipProvider_def Tooltip_def TooltipTrigger_def TooltipContent_def

text \<open>A property of an element of the kit is its class name, its reference, or one of the others; a key is for React alone.\<close>

definition props_of :: "(string \<times> jstr) list \<Rightarrow> node list \<Rightarrow> ui_props" where
  "props_of as ns = \<lparr>u_className = map_of as ''className'', u_ref = map_of as ''ref'',
     u_props = filter (\<lambda>(k, _). k \<notin> {''className'', ''ref'', ''key''}) as, u_children = ns\<rparr>"

fun ui_expand :: "(string \<times> (ui_props \<Rightarrow> node)) list \<Rightarrow> node \<Rightarrow> node" where
  "ui_expand kit (Txt s) = Txt s"
| "ui_expand kit (El t as ns) = (case map_of kit t of
     None \<Rightarrow> El t as (map (ui_expand kit) ns)
   | Some C \<Rightarrow> C (props_of as (map (ui_expand kit) ns)))"

text \<open>The properties a component uses itself, and the components that put their own children in place of those they get.\<close>

definition consumed :: "string \<Rightarrow> string list" where
  "consumed name = (case map_of
     [(''Alert'', [''variant'']), (''Badge'', [''variant'']), (''BreadcrumbLink'', [''asChild'']),
      (''Button'', [''variant'', ''size'', ''asChild'']), (''DropdownMenuSubTrigger'', [''inset'']), (''DropdownMenuItem'', [''inset'']),
      (''DropdownMenuLabel'', [''inset'']), (''Progress'', [''value'']), (''SheetContent'', [''side''])] name of Some ks \<Rightarrow> ks | None \<Rightarrow> [])"

definition childless :: "string list" where
  "childless = [''BreadcrumbEllipsis'', ''Progress'', ''ScrollBar'', ''Switch'']"

definition added_text :: "string \<Rightarrow> jstr \<times> jstr" where
  "added_text name = (if name = ''SheetContent'' then (js ''Close'', []) else if name = ''DialogContent'' then ([], js ''Close'') else ([], []))"

section \<open>Properties of elements\<close>

lemma map_of_filter_keys: "map_of (filter (\<lambda>(k, _). P k) as) k = (if P k then map_of as k else None)"
  by (induction as) auto

lemma map_of_object_spread [simp]: "map_of (object_spread as bs) k = (case map_of bs k of None \<Rightarrow> map_of as k | Some v \<Rightarrow> Some v)"
  using map_of_eq_None_iff [of bs k] by (cases "map_of bs k") (auto simp: object_spread_def map_add_def map_of_filter_keys split: option.splits)

lemma map_of_opt_attr [simp]: "map_of (opt_attr k v) l = (if l = k then v else None)"
  by (simp add: opt_attr_def split: option.splits)

lemma map_of_rest_of [simp]: "map_of (rest_of ks p) k = (if k \<in> set ks then None else map_of (u_props p) k)"
  by (simp add: rest_of_def map_of_filter_keys)

lemma map_of_own_ref [simp]: "map_of (own_ref p) k = (if k = ''ref'' then u_ref p else None)"
  by (simp add: own_ref_def)

lemma map_of_all_props [simp]:
  "map_of (all_props p) k = (if k = ''className'' \<and> u_className p \<noteq> None then u_className p else map_of (u_props p) k)"
  by (auto simp: all_props_def map_add_def split: option.splits)

lemma no_props_simps [simp]: "u_className no_props = None" "u_ref no_props = None" "u_props no_props = []" "u_children no_props = []"
  by (simp_all add: no_props_def)

definition carries :: "string list \<Rightarrow> ui_props \<Rightarrow> (string \<times> jstr) list \<Rightarrow> bool" where
  "carries ks p as \<longleftrightarrow> list_all (\<lambda>(k, _). k \<in> {''className'', ''ref''} \<union> set ks \<or> map_of as k = map_of (u_props p) k) (u_props p)"

lemma carriesI: "(\<And>k v. map_of (u_props p) k = Some v \<Longrightarrow> k \<notin> {''className'', ''ref''} \<union> set ks \<Longrightarrow> map_of as k = Some v) \<Longrightarrow> carries ks p as"
  unfolding carries_def list.pred_set by (fastforce simp: weak_map_of_SomeI dest: weak_map_of_SomeI)

lemma carries_simps [simp]:
  "carries ks p (object_spread as (u_props p))" "carries ks p (object_spread as (all_props p))" "carries ks p (own_ref p @ all_props p)"
  "carries ks p (object_spread (object_spread as (u_props p)) (own_ref p))"
  by (auto intro!: carriesI simp: map_add_def split: option.splits if_splits)

lemma carries_rest [simp]:
  "list_all (\<lambda>k. k \<in> set ks \<or> map_of (u_props p) k = None \<or> map_of as k = map_of (u_props p) k) ls \<Longrightarrow> carries ks p (object_spread as (rest_of ls p))"
  by (auto intro!: carriesI simp: list.pred_set split: option.splits if_splits)

fun elements :: "node \<Rightarrow> node list" where
  "elements (Txt s) = []"
| "elements (El t as ns) = El t as ns # concat (map elements ns)"

definition forwards :: "string list \<Rightarrow> ui_props \<Rightarrow> node \<Rightarrow> bool" where
  "forwards ks p n = list_ex (\<lambda>e. carries ks p (attrs e)) (elements n)"

lemma given_or [simp]: "map_of (u_props p) k = None \<or> Some (prop_or p k d) = map_of (u_props p) k"
  by (simp add: prop_or_def given_def split: option.splits)

lemma given_again [simp]: "v = None \<or> (case v of None \<Rightarrow> y | Some x \<Rightarrow> Some x) = v"
  by (cases v) simp_all

text \<open>
  Every wrapper of the kit hands on all properties it gets, but those it uses itself, to one
  element of what it renders. The progress bar uses up \<open>value\<close>, which it ought to hand on as well
  (\<open>progress_value_lost\<close> below).
\<close>

lemma ui_kit_forwards: "list_all (\<lambda>(name, C). forwards (consumed name) p (C p)) (ui_kit cn cva num to_num)"
  by (simp add: ui_kit_def ui_defs forwards_def consumed_def given_def map_add_def split del: if_split cong: opaque)

section \<open>What a reader gets\<close>

abbreviation own_link :: "ui_props \<Rightarrow> jstr list" where
  "own_link p \<equiv> (case map_of (u_props p) ''href'' of None \<Rightarrow> [] | Some h \<Rightarrow> [h])"

abbreviation own_id :: "ui_props \<Rightarrow> jstr list" where
  "own_id p \<equiv> (case map_of (u_props p) ''id'' of None \<Rightarrow> [] | Some i \<Rightarrow> [i])"

abbreviation kids_text :: "ui_props \<Rightarrow> jstr" where
  "kids_text p \<equiv> concat (map textContent (u_children p))"

abbreviation safe_props :: "ui_props \<Rightarrow> bool" where
  "safe_props p \<equiv> map_of (u_props p) ''target'' = Some (js ''_blank'') \<longrightarrow> map_of (u_props p) ''rel'' = Some (js ''noreferrer'')"

lemma kit_text: "list_all (\<lambda>(name, C). name \<in> set childless \<or>
    textContent (C p) = fst (added_text name) @ kids_text p @ snd (added_text name)) (ui_kit cn cva num to_num)"
  by (simp add: ui_kit_def ui_defs childless_def added_text_def cong: opaque)

lemma option_again [simp]: "(case v of None \<Rightarrow> None | Some x \<Rightarrow> Some x) = v"
  by (cases v) simp_all

lemma kit_links: "list_all (\<lambda>(name, C). links (C p) = own_link p @ (if name \<in> set childless then [] else concat (map links (u_children p))))
    (ui_kit cn cva num to_num)"
  by (simp add: ui_kit_def ui_defs childless_def map_add_def cong: opaque option.case_cong)

lemma kit_ids: "list_all (\<lambda>(name, C). ids (C p) = own_id p @ (if name \<in> set childless then [] else concat (map ids (u_children p))))
    (ui_kit cn cva num to_num)"
  by (simp add: ui_kit_def ui_defs childless_def map_add_def cong: opaque option.case_cong)

lemma kit_targets: "safe_props p \<Longrightarrow> list_all safe_targets (u_children p) \<Longrightarrow> list_all (\<lambda>(name, C). safe_targets (C p)) (ui_kit cn cva num to_num)"
  by (simp add: ui_kit_def ui_defs map_add_def cong: opaque option.case_cong)

section \<open>Rendering a tree\<close>

text \<open>
  What is needed of a kit so that rendering a tree with it invents no link and hands no opener to
  another site.
\<close>

locale ui_library =
  fixes kit :: "(string \<times> (ui_props \<Rightarrow> node)) list"
  assumes component_links: "map_of kit t = Some C \<Longrightarrow> set (links (C p)) \<subseteq> set (own_link p @ concat (map links (u_children p)))"
    and component_targets: "map_of kit t = Some C \<Longrightarrow> safe_props p \<Longrightarrow> list_all safe_targets (u_children p) \<Longrightarrow> safe_targets (C p)"
begin

lemma props_of_simps:
  "own_link (props_of as ns) = (case map_of as ''href'' of None \<Rightarrow> [] | Some h \<Rightarrow> [h])"
  "own_id (props_of as ns) = (case map_of as ''id'' of None \<Rightarrow> [] | Some i \<Rightarrow> [i])"
  "safe_props (props_of as ns) \<longleftrightarrow> (map_of as ''target'' = Some (js ''_blank'') \<longrightarrow> map_of as ''rel'' = Some (js ''noreferrer''))"
  "u_children (props_of as ns) = ns"
  by (simp_all add: props_of_def map_of_filter_keys)

lemma expand_links: "set (links (ui_expand kit n)) \<subseteq> set (links n)"
proof (induction n)
  case (El t as ns)
  then have ns: "set (concat (map links (map (ui_expand kit) ns))) \<subseteq> set (concat (map links ns))" by auto
  show ?case
  proof (cases "map_of kit t")
    case None
    with ns show ?thesis by auto
  next
    case (Some C)
    from component_links [OF Some, of "props_of as (map (ui_expand kit) ns)"] ns Some show ?thesis
      by (auto simp: props_of_simps)
  qed
qed simp

lemma expand_targets: "safe_targets n \<Longrightarrow> safe_targets (ui_expand kit n)"
proof (induction n)
  case (El t as ns)
  then have ns: "list_all safe_targets (map (ui_expand kit) ns)" by (auto simp: list.pred_set)
  show ?case
  proof (cases "map_of kit t")
    case None
    with ns El.prems show ?thesis by auto
  next
    case (Some C)
    from El.prems have "safe_props (props_of as (map (ui_expand kit) ns))" by (simp add: props_of_simps)
    from component_targets [OF Some this] ns Some show ?thesis by (simp add: props_of_simps)
  qed
qed simp

end

interpretation ui: ui_library "ui_kit cn cva num to_num" for cn cva num to_num
proof
  fix t C p
  assume "map_of (ui_kit cn cva num to_num) t = Some C"
  then have C: "(t, C) \<in> set (ui_kit cn cva num to_num)" by (rule map_of_SomeD)
  with kit_links [of p cn cva num to_num] have "links (C p) = own_link p @ (if t \<in> set childless then [] else concat (map links (u_children p)))"
    by (auto simp: list.pred_set)
  then show "set (links (C p)) \<subseteq> set (own_link p @ concat (map links (u_children p)))" by (auto split: if_splits)
  assume "safe_props p" "list_all safe_targets (u_children p)"
  from kit_targets [OF this] C show "safe_targets (C p)" by (fastforce simp: list.pred_set)
qed

text \<open>Where no component replaces its children or adds words of its own, rendering keeps the words, the links and the anchors.\<close>

fun plain :: "node \<Rightarrow> bool" where
  "plain (Txt s) = True"
| "plain (El t as ns) = (t \<notin> set childless \<and> t \<noteq> ''SheetContent'' \<and> t \<noteq> ''DialogContent'' \<and> list_all plain ns)"

lemma plain_component:
  assumes "map_of (ui_kit cn cva num to_num) t = Some C" "t \<notin> set childless" "t \<noteq> ''SheetContent''" "t \<noteq> ''DialogContent''"
  shows "textContent (C p) = kids_text p" "links (C p) = own_link p @ concat (map links (u_children p))"
    "ids (C p) = own_id p @ concat (map ids (u_children p))"
  using map_of_SomeD [OF assms(1)] kit_text [of p cn cva num to_num] kit_links [of p cn cva num to_num] kit_ids [of p cn cva num to_num] assms(2-4)
  by (fastforce simp: list.pred_set added_text_def)+

text \<open>
  Rendering the elements of the kit in a tree keeps its words, its links and its anchors, in their order, if no
  component of the tree replaces its children (a switch, a progress bar, a scroll bar, an
  ellipsis) or has a button to close it (a sheet, a dialogue).
\<close>

lemma ui_expand_keeps_content:
  "plain n \<Longrightarrow> textContent (ui_expand (ui_kit cn cva num to_num) n) = textContent n \<and>
     links (ui_expand (ui_kit cn cva num to_num) n) = links n \<and> ids (ui_expand (ui_kit cn cva num to_num) n) = ids n"
proof (induction n)
  case (El t as ns)
  then have ns: "map textContent (map (ui_expand (ui_kit cn cva num to_num)) ns) = map textContent ns"
      "map links (map (ui_expand (ui_kit cn cva num to_num)) ns) = map links ns"
      "map ids (map (ui_expand (ui_kit cn cva num to_num)) ns) = map ids ns"
    by (auto simp: list.pred_set)
  show ?case
  proof (cases "map_of (ui_kit cn cva num to_num) t")
    case None
    show ?thesis unfolding ui_expand.simps None option.case textContent.simps links.simps ids.simps ns by simp
  next
    case (Some C)
    from El.prems have t: "t \<notin> set childless" "t \<noteq> ''SheetContent''" "t \<noteq> ''DialogContent''" by simp_all
    show ?thesis unfolding ui_expand.simps Some option.case plain_component [OF Some t] ui.props_of_simps ns by simp
  qed
qed simp

lemma plain_El:
  "plain (El t as ns) \<longleftrightarrow> t \<notin> {''BreadcrumbEllipsis'', ''Progress'', ''ScrollBar'', ''Switch'', ''SheetContent'', ''DialogContent''} \<and> list_all plain ns"
  by (auto simp: childless_def)

text \<open>The host elements that \<open>component_roots\<close> gives for the components of the kit with a root of their own.\<close>

lemma kit_hosts:
  "tag (Badge cn cva p) = host ''Badge''" "tag (Card cn p) = host ''Card''" "tag (CardHeader cn p) = host ''CardHeader''"
  "tag (CardTitle cn p) = host ''CardTitle''" "tag (CardContent cn p) = host ''CardContent''"
  "tag (Button cn cva p) = (if is_on (given p ''asChild'') then ''Slot'' else ''button'')"
  by (simp_all add: ui_defs)

text \<open>
  A progress bar takes \<open>value\<close> out of its properties for the style of its indicator and does not
  hand it on, so the primitive it wraps is never given the value it reports to assistive software.
\<close>

lemma progress_value_lost:
  assumes "e \<in> set (elements (Progress cn num value p))"
  shows "map_of (attrs e) ''value'' = None"
  using assms by (auto simp: Progress_def map_add_def)

end
