(* ===== verification/Pages.thy ===== *)
theory Pages
  imports Docs_Guide Docs_Reference Home_Page Ui_Kit
begin

text \<open>
  All pages of the site together: which address each page of \<open>website/app\<close> has, the metadata it
  declares, the document it becomes in the layouts, and what holds of every document.

  \<open>route_of\<close> is the address of the page in a directory of \<open>app\<close>, with the slash at the end that
  \<open>website/next.config.ts\<close> asks for. A page under \<open>app/docs\<close> stands in the layout of the
  documentation, and every page in the root layout.
\<close>

section \<open>Addresses and documents\<close>

definition route_of :: "string list \<Rightarrow> jstr" where
  "route_of segs = js ''/'' @ concat (map (\<lambda>s. js s @ js ''/'') segs)"

definition page_files :: "class_fn \<Rightarrow> (real \<Rightarrow> jstr) \<Rightarrow> url_fn \<Rightarrow> jstr option \<Rightarrow> home_state \<Rightarrow> (string list \<times> node list) list" where
  "page_files cn num URL env h =
     [([], homePage cn num URL env h),
      ([''quickstart''], quickstartPage cn num URL env),
      ([''use-cases''], useCasesPage cn num URL env),
      ([''architecture''], architecturePage cn num URL env),
      ([''docs''], [docsOverviewPage cn]),
      ([''docs'', ''concepts''], [conceptsPage cn]),
      ([''docs'', ''installation''], [installationPage cn]),
      ([''docs'', ''first-virtualcluster''], [firstVirtualClusterPage cn]),
      ([''docs'', ''host-onboarding''], [hostOnboardingPage cn]),
      ([''docs'', ''operations''], [operationsPage cn]),
      ([''docs'', ''api-reference''], [apiReferencePage cn]),
      ([''docs'', ''security''], [securityPage cn]),
      ([''docs'', ''troubleshooting''], [troubleshootingPage cn]),
      ([''docs'', ''faq''], faqPage cn URL env)]"

definition site_pages :: "class_fn \<Rightarrow> (real \<Rightarrow> jstr) \<Rightarrow> url_fn \<Rightarrow> jstr option \<Rightarrow> home_state \<Rightarrow> (jstr \<times> node list) list" where
  "site_pages cn num URL env h = map (\<lambda>(segs, ns). (route_of segs, ns)) (page_files cn num URL env h)"

text \<open>The exported \<open>metadata\<close> of each page file; the home page has none and takes that of the layout.\<close>

definition page_metadata :: "(string list \<times> Metadata) list" where
  "page_metadata =
     [([''quickstart''], quickstart_metadata), ([''use-cases''], useCases_metadata), ([''architecture''], architecture_metadata),
      ([''docs''], docs_metadata), ([''docs'', ''concepts''], concepts_metadata), ([''docs'', ''installation''], installation_metadata),
      ([''docs'', ''first-virtualcluster''], first_metadata), ([''docs'', ''host-onboarding''], onboarding_metadata),
      ([''docs'', ''operations''], operations_metadata), ([''docs'', ''api-reference''], api_metadata),
      ([''docs'', ''security''], security_metadata), ([''docs'', ''troubleshooting''], troubleshooting_metadata),
      ([''docs'', ''faq''], faq_metadata)]"

definition document :: "class_fn \<Rightarrow> url_fn \<Rightarrow> jstr option \<Rightarrow> frame_input \<Rightarrow> node list \<Rightarrow> node" where
  "document cn URL env i ns = rootLayout cn URL env i
     (if startsWith (pathname i) (js ''/docs/'') then [docsLayout cn (pathname i) ns] else ns)"

text \<open>
  Where a link leads: to the element \<open>main\<close> of the same document, to the repository, or to a page,
  and then to an element of it if the address has a fragment.
\<close>

definition target_ok :: "(jstr \<times> node list) list \<Rightarrow> jstr option \<Rightarrow> jstr \<Rightarrow> bool" where
  "target_ok ps env l \<longleftrightarrow> l = js ''#main'' \<or> l \<in> repository_urls env \<or>
     (let p = takeWhile (\<lambda>c. c \<noteq> 35) l; f = drop (length p) l in
      case map_of ps p of None \<Rightarrow> False | Some ns \<Rightarrow> f = [] \<or> tl f \<in> set (page_ids ns))"

section \<open>Metadata as objects\<close>

abbreviation entry :: "string \<Rightarrow> json \<Rightarrow> jstr \<times> json" where
  "entry k v \<equiv> (js k, v)"

text \<open>An entry that is \<open>undefined\<close> is left out.\<close>

definition metadata_object :: "Metadata \<Rightarrow> json" where
  "metadata_object md = JObj
     ([entry ''title'' (JStr (md_title md)), entry ''description'' (JStr (md_description md))] @
      (case md_keywords md of Some ks \<Rightarrow> [entry ''keywords'' (JArr (map JStr ks))] | None \<Rightarrow> []) @
      [entry ''alternates'' (JObj [entry ''canonical'' (JStr (canonical md))]),
       entry ''openGraph'' (JObj
         [entry ''type'' (str (case og_type (openGraph md) of Website \<Rightarrow> ''website'' | Article \<Rightarrow> ''article'')),
          entry ''title'' (JStr (og_title (openGraph md))), entry ''description'' (JStr (og_description (openGraph md))),
          entry ''url'' (JStr (og_url (openGraph md))), entry ''siteName'' (JStr (og_siteName (openGraph md)))]),
       entry ''twitter'' (JObj
         [entry ''card'' (JStr (tw_card (twitter md))), entry ''title'' (JStr (tw_title (twitter md))),
          entry ''description'' (JStr (tw_description (twitter md)))])])"

definition layout_metadata :: "url_fn \<Rightarrow> jstr option \<Rightarrow> json" where
  "layout_metadata URL env = (let c = siteConfig env in JObj
     [entry ''metadataBase'' (JStr (site_url c)),
      entry ''title'' (JObj [entry ''default'' (JStr (site_title c)), entry ''template'' (str ''%s | KubeCell'')]),
      entry ''description'' (JStr (site_description c)),
      entry ''keywords'' (JArr (map JStr (site_keywords c))),
      entry ''applicationName'' (JStr (site_name c)),
      entry ''authors'' (JArr [JObj [entry ''name'' (str ''KubeCell contributors''), entry ''url'' (JStr (github c))]]),
      entry ''creator'' (str ''KubeCell''), entry ''publisher'' (str ''KubeCell''), entry ''category'' (str ''technology''),
      entry ''alternates'' (JObj [entry ''canonical'' (str ''/'')]),
      entry ''openGraph'' (JObj
        [entry ''type'' (str ''website''), entry ''locale'' (str ''en_US''),
         entry ''url'' (JStr (absoluteUrl URL env (Some (js ''/'')))), entry ''siteName'' (JStr (site_name c)),
         entry ''title'' (JStr (site_title c)), entry ''description'' (JStr (site_description c)),
         entry ''images'' (JArr [JObj
           [entry ''url'' (str ''/og.png''), entry ''width'' (JNum (js ''1200'')), entry ''height'' (JNum (js ''630'')),
            entry ''alt'' (JStr (js ''KubeCell '' @ [8212] @ js '' isolated Kubernetes child clusters on shared bare metal''))]])]),
      entry ''twitter'' (JObj
        [entry ''card'' (str ''summary_large_image''), entry ''title'' (JStr (site_title c)),
         entry ''description'' (JStr (shortDescription c)), entry ''images'' (JArr [str ''/og.png''])]),
      entry ''robots'' (JObj
        [entry ''index'' (JBool True), entry ''follow'' (JBool True),
         entry ''googleBot'' (JObj
           [entry ''index'' (JBool True), entry ''follow'' (JBool True), entry ''max-image-preview'' (str ''large''),
            entry ''max-snippet'' (JNum (js ''-1'')), entry ''max-video-preview'' (JNum (js ''-1''))])]),
      entry ''icons'' (JObj
        [entry ''icon'' (JArr [JObj [entry ''url'' (str ''/kubecell-logo.svg''), entry ''type'' (str ''image/svg+xml'')]]),
         entry ''shortcut'' (JArr [str ''/kubecell-logo.svg'']),
         entry ''apple'' (JArr [JObj [entry ''url'' (str ''/apple-icon.png''), entry ''sizes'' (str ''180x180'')]])]),
      entry ''formatDetection'' (JObj [entry ''telephone'' (JBool False)])])"

definition viewport :: json where
  "viewport = JObj [entry ''width'' (str ''device-width''), entry ''initialScale'' (JNum (js ''1'')),
     entry ''colorScheme'' (str ''dark''), entry ''themeColor'' (str ''#04060d'')]"

text \<open>The entry \<open>j\<close> of the entry \<open>k\<close>.\<close>

definition json_path :: "string \<Rightarrow> string \<Rightarrow> json \<Rightarrow> json option" where
  "json_path k j v = Option.bind (json_get k v) (json_get j)"

section \<open>Addresses\<close>

lemmas metadata_eval = page_metadata_def quickstart_metadata_def useCases_metadata_def architecture_metadata_def docs_metadata_def
  concepts_metadata_def installation_metadata_def first_metadata_def onboarding_metadata_def operations_metadata_def api_metadata_def
  security_metadata_def troubleshooting_metadata_def faq_metadata_def buildMetadata_def

lemma route_of_js: "route_of segs = js (CHR ''/'' # concat (map (\<lambda>s. s @ ''/'') segs))"
proof -
  have "concat (map (\<lambda>s. js s @ js ''/'') segs) = js (concat (map (\<lambda>s. s @ ''/'') segs))"
    by (induction segs) (simp_all add: js_def)
  then show ?thesis by (simp add: route_of_def js_simps(2) js_def [of "''/''"])
qed

lemma site_pages_paths: "map fst (site_pages cn num URL env h) = map path routes"
  by (simp add: site_pages_def page_files_def route_of_js routes_def docRoutes_paths staticRoutes_def) (simp add: docs_eval)

lemma metadata_paths: "map (route_of \<circ> fst) page_metadata = tl (map path routes)"
  by (simp add: page_metadata_def route_of_js routes_def docRoutes_paths staticRoutes_def) (simp add: docs_eval)

lemma metadata_canonical:
  "list_all (\<lambda>(segs, md). canonical md = route_of segs \<and> og_url (openGraph md) = route_of segs) page_metadata"
  by (simp add: metadata_eval route_of_js)

lemma metadata_distinct:
  "distinct (map (md_title \<circ> snd) page_metadata)" "distinct (map (md_description \<circ> snd) page_metadata)"
  by (simp_all add: metadata_eval)

section \<open>Every page\<close>

text \<open>A property of all pages is a property of each of the fourteen.\<close>

lemma all_pages:
  assumes "P (homePage cn num URL env h)" "P (quickstartPage cn num URL env)" "P (useCasesPage cn num URL env)"
    "P (architecturePage cn num URL env)" "P [docsOverviewPage cn]" "P [conceptsPage cn]" "P [installationPage cn]"
    "P [firstVirtualClusterPage cn]" "P [hostOnboardingPage cn]" "P [operationsPage cn]" "P [apiReferencePage cn]"
    "P [securityPage cn]" "P [troubleshootingPage cn]" "P (faqPage cn URL env)"
  shows "list_all (\<lambda>(r, ns). P ns) (site_pages cn num URL env h)"
  using assms by (simp only: site_pages_def page_files_def list.map list.pred_inject prod.case simp_thms)

lemma all_but_home:
  assumes "P (quickstartPage cn num URL env)" "P (useCasesPage cn num URL env)"
    "P (architecturePage cn num URL env)" "P [docsOverviewPage cn]" "P [conceptsPage cn]" "P [installationPage cn]"
    "P [firstVirtualClusterPage cn]" "P [hostOnboardingPage cn]" "P [operationsPage cn]" "P [apiReferencePage cn]"
    "P [securityPage cn]" "P [troubleshootingPage cn]" "P (faqPage cn URL env)"
  shows "list_all (\<lambda>(r, ns). P ns) (tl (site_pages cn num URL env h))"
  using assms by (simp only: site_pages_def page_files_def list.map list.sel list.pred_inject prod.case simp_thms)

lemma linked_more: "set ls \<subseteq> A \<union> {} \<union> B \<Longrightarrow> set ls \<subseteq> A \<union> C \<union> B"
  by blast

lemmas pages_linked = home.linked
  quickstart.linked [THEN linked_more] use_cases.linked [THEN linked_more] architecture.linked [THEN linked_more]
  overview.linked [THEN linked_more] concepts.linked [THEN linked_more] installation.linked [THEN linked_more]
  first.linked [THEN linked_more] onboarding.linked [THEN linked_more] operations.linked [THEN linked_more]
  api.linked [THEN linked_more] security.linked [THEN linked_more] troubleshooting.linked [THEN linked_more]
  faq.linked [THEN linked_more]

lemma site_pages_linked:
  "list_all (\<lambda>(r, ns). set (page_links ns) \<subseteq> site_paths \<union> use_case_anchors \<union> repository_urls env) (site_pages cn num URL env h)"
  by (rule all_pages; rule pages_linked)

lemmas pages_new_tabs = home.new_tabs quickstart.new_tabs use_cases.new_tabs architecture.new_tabs overview.new_tabs concepts.new_tabs
  installation.new_tabs first.new_tabs onboarding.new_tabs operations.new_tabs api.new_tabs security.new_tabs troubleshooting.new_tabs
  faq.new_tabs

lemma site_pages_new_tabs: "list_all (\<lambda>(r, ns). list_all safe_targets ns) (site_pages cn num URL env h)"
  by (rule all_pages; rule pages_new_tabs)

lemmas pages_nesting =
  quickstart.nesting use_cases.nesting architecture.nesting overview.nesting concepts.nesting installation.nesting
  first.nesting onboarding.nesting operations.nesting api.nesting security.nesting troubleshooting.nesting faq.nesting

lemmas pages_outline =
  quickstart.outline use_cases.outline architecture.outline overview.outline concepts.outline installation.outline
  first.outline onboarding.outline operations.outline api.outline security.outline troubleshooting.outline faq.outline

lemmas pages_titles =
  quickstart.one_title use_cases.one_title architecture.one_title overview.one_title concepts.one_title
  installation.one_title first.one_title onboarding.one_title operations.one_title api.one_title security.one_title
  troubleshooting.one_title faq.one_title

lemmas pages_keyed = home.keyed
  quickstart.keyed use_cases.keyed architecture.keyed overview.keyed concepts.keyed installation.keyed first.keyed
  onboarding.keyed operations.keyed api.keyed security.keyed troubleshooting.keyed faq.keyed

lemmas pages_anchored = home.anchored
  quickstart.anchored use_cases.anchored architecture.anchored overview.anchored concepts.anchored installation.anchored
  first.anchored onboarding.anchored operations.anchored api.anchored security.anchored troubleshooting.anchored
  faq.anchored

lemmas pages_main_free =
  quickstart.main_free use_cases.main_free architecture.main_free overview.main_free concepts.main_free
  installation.main_free first.main_free onboarding.main_free operations.main_free api.main_free security.main_free
  troubleshooting.main_free faq.main_free

lemmas pages_listed = home.listed
  quickstart.listed use_cases.listed architecture.listed overview.listed concepts.listed installation.listed
  first.listed onboarding.listed operations.listed api.listed security.listed troubleshooting.listed faq.listed

section \<open>Documents\<close>

lemma hash_js: "35 \<in> set (js s) \<longleftrightarrow> CHR ''#'' \<in> set s"
proof -
  have "(35 :: nat) = cu CHR ''#''" by simp
  then have "35 \<in> set (js s) \<longleftrightarrow> cu CHR ''#'' \<in> cu ` set s" by (simp only: js_def set_map)
  then show ?thesis by (simp only: inj_image_mem_iff [OF inj_of_char])
qed

lemma site_paths_plain: "l \<in> site_paths \<Longrightarrow> 35 \<notin> set l"
  by (auto simp: site_paths_eq docs_eval hash_js)

lemma path_target:
  assumes "l \<in> site_paths"
  shows "target_ok (site_pages cn num URL env h) env l"
proof -
  have whole: "takeWhile (\<lambda>c. c \<noteq> 35) l = l" using site_paths_plain [OF assms] by (auto simp: takeWhile_eq_all_conv)
  have "l \<in> fst ` set (site_pages cn num URL env h)"
    using assms site_pages_paths [of cn num URL env h] by (metis list.set_map site_paths_def)
  then obtain ns where "map_of (site_pages cn num URL env h) l = Some ns" by (meson map_of_eq_None_iff not_Some_eq)
  then show ?thesis unfolding target_ok_def Let_def whole by simp
qed

lemma use_case_page: "map_of (site_pages cn num URL env h) (js ''/use-cases/'') = Some (useCasesPage cn num URL env)"
  by (simp add: site_pages_def page_files_def route_of_js)

lemma use_case_ids: "page_ids (useCasesPage cn num URL env) = map uc_id useCases"
  by (simp add: use_cases_defs page_eval cong: opaque)

lemma anchor_target:
  assumes "l \<in> use_case_anchors"
  shows "target_ok (site_pages cn num URL env h) env l"
proof -
  obtain c where c: "c \<in> set useCases" "l = js ''/use-cases/#'' @ uc_id c" using assms by (auto simp: use_case_anchors_def)
  have l: "l = js ''/use-cases/'' @ 35 # uc_id c" using c(2) by (simp add: js_def)
  have "\<forall>x\<in>set (js ''/use-cases/''). x \<noteq> 35" using hash_js [of "''/use-cases/''"] by auto
  then have "takeWhile (\<lambda>c. c \<noteq> 35) l = js ''/use-cases/''" unfolding l by (subst takeWhile_append2) auto
  moreover from this have "drop (length (takeWhile (\<lambda>c. c \<noteq> 35) l)) l = 35 # uc_id c" by (simp add: l)
  ultimately show ?thesis using c(1) by (simp add: target_ok_def Let_def use_case_page use_case_ids)
qed

lemma repository_target: "l \<in> repository_urls env \<Longrightarrow> target_ok ps env l"
  by (simp add: target_ok_def)

lemma docs_layout_links: "set (links (docsLayout cn here ns)) \<subseteq> site_paths \<union> external_urls env \<union> set (page_links ns)"
  using docs_resolve [of env cn here] pager_resolves [of env here]
  by (cases "docsPager here") (auto simp: docsLayout_def resolves_def)

lemma docs_layout_targets: "list_all safe_targets ns \<Longrightarrow> safe_targets (docsLayout cn here ns)"
  using docs_resolve [of undefined cn here] pager_resolves [of undefined here]
  by (cases "docsPager here") (auto simp: docsLayout_def resolves_def list_all_iff)

lemma document_links:
  "set (links (document cn URL env i ns)) \<subseteq> {js ''#main''} \<union> site_paths \<union> repository_urls env \<union> set (page_links ns)"
  using docs_layout_links [of cn "pathname i" ns env] header_resolves [of env cn "pathname i" "menu_open i"]
    footer_resolves [of env "this_year i"]
  by (auto simp: document_def frame_links resolves_def repository_urls_def)

lemma document_new_tabs: "list_all safe_targets ns \<Longrightarrow> safe_targets (document cn URL env i ns)"
  using docs_layout_targets [of ns cn "pathname i"] by (simp add: document_def frame_safe_targets)

lemma documents_resolve:
  assumes "(r, ns) \<in> set (site_pages cn num URL env h)"
  shows "list_all (target_ok (site_pages cn num URL env h) env) (links (document cn URL env i ns))"
    "safe_targets (document cn URL env i ns)"
proof -
  have "set (page_links ns) \<subseteq> site_paths \<union> use_case_anchors \<union> repository_urls env" "list_all safe_targets ns"
    using assms site_pages_linked [of env cn num URL h] site_pages_new_tabs [of cn num URL env h] unfolding list.pred_set by blast+
  then have "set (links (document cn URL env i ns)) \<subseteq> {js ''#main''} \<union> site_paths \<union> use_case_anchors \<union> repository_urls env"
    using document_links [of cn URL env i ns] by blast
  then have "target_ok (site_pages cn num URL env h) env l" if "l \<in> set (links (document cn URL env i ns))" for l
    using that path_target [of l] anchor_target [of l] repository_target [of l env] by (auto simp: target_ok_def [of _ _ "js ''#main''"])
  then show "list_all (target_ok (site_pages cn num URL env h) env) (links (document cn URL env i ns))" by (simp add: list.pred_set)
  show "safe_targets (document cn URL env i ns)" using \<open>list_all safe_targets ns\<close> by (rule document_new_tabs)
qed

text \<open>
  C16. The site is complete: the addresses of the page files are those the generator announces in the
  sitemap, in its order, and every page file but the one of the home page declares metadata
  whose canonical address is the address of the page. No two pages share a title or a
  description.
\<close>

theorem pages_cover_routes:
  "map fst (site_pages cn num URL env h) = map path routes \<and>
   map (route_of \<circ> fst) page_metadata = tl (map path routes) \<and>
   list_all (\<lambda>(segs, md). canonical md = route_of segs \<and> og_url (openGraph md) = route_of segs) page_metadata \<and>
   distinct (map (md_title \<circ> snd) page_metadata) \<and> distinct (map (md_description \<circ> snd) page_metadata)"
  using site_pages_paths metadata_paths metadata_canonical metadata_distinct by blast

definition rendered :: "class_fn \<Rightarrow> cva_fn \<Rightarrow> (real \<Rightarrow> jstr) \<Rightarrow> (jstr \<Rightarrow> real) \<Rightarrow> url_fn \<Rightarrow> jstr option \<Rightarrow> frame_input \<Rightarrow> node list \<Rightarrow> node" where
  "rendered cn cva num to_num URL env i ns = ui_expand (ui_kit cn cva num to_num) (document cn URL env i ns)"

text \<open>
  C15. No document of the site has a dead link. Whatever the state of the page, every link of the whole
  document, header, footer, sidebar and pager included, leads to a page of the site, to an element
  that exists on that page if the address has a fragment, to the element \<open>main\<close> of the
  document, or to the repository; and links that open a new tab withhold the referrer. Both are
  still so when the elements of the user interface kit have been rendered.
\<close>

theorem documents_have_no_dead_links:
  "list_all (\<lambda>(r, ns). list_all (\<lambda>d. list_all (target_ok (site_pages cn num URL env h) env) (links d) \<and> safe_targets d)
     [document cn URL env (i\<lparr>pathname := r\<rparr>) ns, rendered cn cva num to_num URL env (i\<lparr>pathname := r\<rparr>) ns])
   (site_pages cn num URL env h)"
proof -
  have "list_all (target_ok ps env) (links (ui_expand (ui_kit cn cva num to_num) d))"
    if "list_all (target_ok ps env) (links d)" for ps d
    using that ui.expand_links [of cn cva num to_num d] by (auto simp: list.pred_set)
  then show ?thesis
    unfolding list.pred_set [of "\<lambda>(r, ns). P r ns" for P] rendered_def
    using documents_resolve ui.expand_targets [of _ cn cva num to_num] by (simp; blast)
qed

section \<open>Structure of the pages\<close>

lemma home_nesting:
  "list_all (fits Flow True)
     [stackMarquee cn, featureBento cn, home_architecture cn, isolationGrid cn, comparison cn, codeShowcase cn, home_versions cn,
      useCasePreview cn, faqPreview cn]"
  by (simp add: home_eval cong: opaque)

lemma statistics_misfit: "\<not> list_all (fits Flow True) hero_statistics"
  by (simp add: home_eval cong: opaque)

text \<open>
  C17. The elements of every page but the home page are nested as the content model of HTML demands, so
  that no paragraph or heading contains a block and no link or button contains another. The home
  page keeps to it outside of its hero, terminal and call to action; the statistics of the hero do
  not, because they put a paragraph into a group of a description list.
\<close>

theorem pages_well_nested:
  "list_all (\<lambda>(r, ns). list_all (\<lambda>n. fits Flow True n \<and>
       \<not> nested {''p'', ''h1'', ''h2'', ''h3'', ''pre''} (set block_tags) n \<and> \<not> nested {''a'', ''button''} {''a'', ''button''} n) ns)
     (tl (site_pages cn num URL env h)) \<and>
   list_all (fits Flow True)
     [stackMarquee cn, featureBento cn, home_architecture cn, isolationGrid cn, comparison cn, codeShowcase cn, home_versions cn,
      useCasePreview cn, faqPreview cn] \<and>
   \<not> list_all (fits Flow True) hero_statistics"
proof -
  have "list_all (\<lambda>(r, ns). list_all (fits Flow True) ns) (tl (site_pages cn num URL env h))"
    by (rule all_but_home; rule pages_nesting)
  then have "list_all (\<lambda>(r, ns). list_all (\<lambda>n. fits Flow True n \<and>
       \<not> nested {''p'', ''h1'', ''h2'', ''h3'', ''pre''} (set block_tags) n \<and> \<not> nested {''a'', ''button''} {''a'', ''button''} n) ns)
     (tl (site_pages cn num URL env h))"
    by (rule list.pred_mono_strong) (use fits_nested in \<open>fastforce simp: list.pred_set\<close>)
  then show ?thesis using home_nesting statistics_misfit by blast
qed

lemma home_headings:
  "page_headings (homePage cn num URL env h) =
     [1, 1, 2, 3, 3, 3, 3, 3, 3, 2, 3, 3, 3, 3, 2, 2, 3, 3, 3, 3, 3, 3, 2, 2, 2, 2, 3, 3, 3, 3, 3, 2, 2]"
  by (simp add: home_eval cong: opaque) (simp add: heading_level_def host_def html_tags_def component_roots_def)

text \<open>
  The headings of every page form an outline: no level is skipped on the way down, and every page but
  the home page has exactly one title, its first heading. The home page has two, because the
  rotating word below the title is a heading of the first level as well.
\<close>

theorem pages_outlined:
  "list_all (\<lambda>(r, ns). hd (page_headings ns) = 1 \<and> no_skip (page_headings ns) \<and> count_list (page_headings ns) 1 = 1)
     (tl (site_pages cn num URL env h)) \<and>
   no_skip (page_headings (homePage cn num URL env h)) \<and> count_list (page_headings (homePage cn num URL env h)) 1 = 2"
proof -
  have "list_all (\<lambda>(r, ns). outline_ok (page_headings ns)) (tl (site_pages cn num URL env h))"
    by (rule all_but_home; rule pages_outline)
  moreover have "hd ls = 1 \<and> no_skip ls \<and> count_list ls 1 = 1" if "outline_ok ls" for ls
    using that by (cases ls) (auto simp: outline_ok_def count_list_0_iff)
  ultimately have "list_all (\<lambda>(r, ns). hd (page_headings ns) = 1 \<and> no_skip (page_headings ns) \<and> count_list (page_headings ns) 1 = 1)
      (tl (site_pages cn num URL env h))"
    by (simp add: list.pred_set split_beta)
  moreover have "no_skip (page_headings (homePage cn num URL env h)) \<and> count_list (page_headings (homePage cn num URL env h)) 1 = 2"
    unfolding home_headings by simp
  ultimately show ?thesis by blast
qed

lemma header_ids: "ids (siteHeader cn env a b) = []"
  by (simp add: siteHeader_def header_nav_def header_sheet_def comp_def)

lemma footer_ids: "ids (siteFooter env y) = []"
  by (simp add: siteFooter_def footer_columns_def comp_def)

lemma docs_layout_ids: "ids (docsLayout cn a ns) = page_ids ns"
proof -
  have "ids (docsSidebar cn a) = []" "ids (docsMobileNav cn a) = []"
    by (auto simp: docsSidebar_def sidebar_item_def docsMobileNav_def mobile_item_def Let_def comp_def split: option.splits)
  moreover have "docsPager a = Some n \<Longrightarrow> ids n = []" for n
    by (auto simp: docsPager_def Let_def split: option.splits if_splits)
  ultimately show ?thesis by (cases "docsPager a") (simp_all add: docsLayout_def)
qed

lemma document_ids: "ids (document cn URL env i ns) = js ''main'' # page_ids ns"
  by (simp add: document_def rootLayout_def jsonLd_def scrollProgress_def header_ids footer_ids docs_layout_ids)

lemma home_ids: "page_ids (homePage cn num URL env h) = [hs_uid h]"
  by (simp add: home_eval cong: opaque)

text \<open>
  C18. Anchors are unique in every document and the keys of repeated children are unique among their
  siblings, provided the identifier \<open>useId\<close> makes up for the backlight of the home page is not
  the one of the main element.
\<close>

theorem pages_keys_and_ids:
  assumes "hs_uid h \<noteq> js ''main''"
  shows "list_all (\<lambda>(r, ns). distinct (ids (document cn URL env (i\<lparr>pathname := r\<rparr>) ns)) \<and> list_all keys_ok ns)
     (site_pages cn num URL env h)"
proof -
  have "list_all (\<lambda>(r, ns). js ''main'' \<notin> set (page_ids ns) \<and> distinct (page_ids ns) \<and> list_all keys_ok ns) (site_pages cn num URL env h)"
    by (rule all_pages; intro conjI;
      (rule pages_main_free pages_anchored pages_keyed | (unfold home_ids, use assms in simp)))
  then show ?thesis unfolding document_ids by (simp add: list.pred_set split_beta)
qed

theorem pages_keys_and_ids_witness:
  "list_all (\<lambda>(r, ns). distinct (ids (document (\<lambda>_. []) (\<lambda>p b. b @ p) None
       \<lparr>pathname = r, menu_open = False, this_year = 2026, scrolled = js ''0''\<rparr> ns)) \<and> list_all keys_ok ns)
     (site_pages (\<lambda>_. []) (\<lambda>_. []) (\<lambda>p b. b @ p) None
        \<lparr>hs_word = Some 0, hs_terminal = \<lparr>term_state.t_inView = False, activeIndex = 0, t_items = []\<rparr>, hs_meteors = [], hs_uid = js '':r1:''\<rparr>)"
  using pages_keys_and_ids [of "\<lparr>hs_word = Some 0, hs_terminal = \<lparr>term_state.t_inView = False, activeIndex = 0, t_items = []\<rparr>,
      hs_meteors = [], hs_uid = js '':r1:''\<rparr>" "\<lambda>_. []" "\<lambda>p b. b @ p" None
      "\<lparr>pathname = [], menu_open = False, this_year = 2026, scrolled = js ''0''\<rparr>" "\<lambda>_. []"]
  by simp

section \<open>Listings of the pages\<close>

lemmas pages_render = home.listings_render quickstart.listings_render use_cases.listings_render architecture.listings_render
  overview.listings_render concepts.listings_render installation.listings_render first.listings_render onboarding.listings_render
  operations.listings_render api.listings_render security.listings_render troubleshooting.listings_render faq.listings_render

definition shell_listing :: "CodeBlockProps option \<Rightarrow> bool" where
  "shell_listing p = (case p of Some q \<Rightarrow> cb_language q = Bash \<or> cb_language q = Shell | None \<Rightarrow> False)"

lemma listings_count: "length (concat (map (page_listings \<circ> snd) (site_pages cn num URL env h))) = 53"
  by (simp add: site_pages_def page_files_def page_listings_def quickstart_defs use_cases_defs architecture_defs overview_defs concepts_defs
      installation_defs first_defs onboarding_defs operations_defs api_defs security_defs troubleshooting_defs faq_defs home_eval
      failureModes_def failures_def orbitingStack_eval cong: opaque)

lemma shell_count: "length (filter shell_listing (concat (map (page_listings \<circ> snd) (site_pages cn num URL env h)))) = 35"
  by (simp add: shell_listing_def site_pages_def page_files_def page_listings_def quickstart_defs use_cases_defs architecture_defs overview_defs concepts_defs
      installation_defs first_defs onboarding_defs operations_defs api_defs security_defs troubleshooting_defs faq_defs home_eval
      failureModes_def failures_def orbitingStack_eval cong: opaque)

text \<open>The listing of the installation guide that checks the result, whose first line has a flag right after the command.\<close>

definition verify_props :: CodeBlockProps where
  "verify_props = (code_props verify_install)\<lparr>cb_language := Bash, cb_filename := Some (js ''verify.sh''), cb_className := Some (js ''not-prose my-6'')\<rparr>"

lemma verify_listed: "Some verify_props \<in> set (page_listings [installationPage cn])"
  by (simp add: verify_props_def page_listings_def installation_defs page_eval cong: opaque)

lemma verify_first_line:
  "hd (split_at 10 (cb_code verify_props)) = js ''kubectl -n kubecell-system get cell,vnclass,vcp,vc''"
  "hd (code_lines (cb_code verify_props)) = js ''kubectl -n kubecell-system get cell,vnclass,vcp,vc''"
  by (simp_all add: verify_props_def code_props_def verify_install_def code_lines_def strip_final_newline_def js_def)

lemma verify_first_row:
  "map_option texts (highlightLine (js ''kubectl -n kubecell-system get cell,vnclass,vcp,vc'') Bash) =
     Some (js ''kubectl-n kubecell-system get cell,vnclass,vcp,vc'')"
  by (simp add: highlight_eval cong: option.case_cong_weak list.case_cong_weak)

text \<open>
  C19. There are 53 listings on the pages, 35 of them in a shell language. Each names a language the
  highlighter knows and is rendered: its \<open>code\<close> element has a row for each line of its source, and its
  copy button hands out exactly the source. The rows spell the source outside the shell languages and
  its characters other than white space in them. White space is lost on the pages: the first line of
  the check in the installation guide is shown as \<open>kubectl-n kubecell-system ...\<close>.
\<close>

theorem pages_show_their_listings:
  "list_all (\<lambda>(r, ns). list_all (\<lambda>p. \<exists>q rows n. p = Some q \<and> codeBlock cn q = Some n \<and> listing_shown q rows n) (page_listings ns))
     (site_pages cn num URL env h) \<and>
   length (concat (map (page_listings \<circ> snd) (site_pages cn num URL env h))) = 53 \<and>
   length (filter shell_listing (concat (map (page_listings \<circ> snd) (site_pages cn num URL env h)))) = 35 \<and>
   (\<exists>q rows n. Some q \<in> set (page_listings [installationPage cn]) \<and> codeBlock cn q = Some n \<and> listing_shown q rows n \<and>
      hd (split_at 10 (cb_code q)) = js ''kubectl -n kubecell-system get cell,vnclass,vcp,vc'' \<and>
      row_code (hd rows) = js ''kubectl-n kubecell-system get cell,vnclass,vcp,vc'')"
proof -
  have "list_all (\<lambda>(r, ns). list_all (\<lambda>p. \<exists>q rows n. p = Some q \<and> codeBlock cn q = Some n \<and> listing_shown q rows n) (page_listings ns))
     (site_pages cn num URL env h)"
    by (rule all_pages; unfold list.pred_set; intro ballI; erule pages_render)
  moreover have "\<exists>q rows n. Some q \<in> set (page_listings [installationPage cn]) \<and> codeBlock cn q = Some n \<and> listing_shown q rows n \<and>
      hd (split_at 10 (cb_code q)) = js ''kubectl -n kubecell-system get cell,vnclass,vcp,vc'' \<and>
      row_code (hd rows) = js ''kubectl-n kubecell-system get cell,vnclass,vcp,vc''"
  proof -
    obtain ts where ts: "highlightLine (js ''kubectl -n kubecell-system get cell,vnclass,vcp,vc'') (cb_language verify_props) = Some ts"
        "texts ts = js ''kubectl-n kubecell-system get cell,vnclass,vcp,vc''"
      using verify_first_row by (auto simp: verify_props_def)
    have "code_lines (cb_code verify_props) = js ''kubectl -n kubecell-system get cell,vnclass,vcp,vc'' # tl (code_lines (cb_code verify_props))"
      using verify_first_line(2) by (metis code_lines_def list.collapse split_at_nonempty)
    from listing_first_row [OF this ts(1), of cn] show ?thesis using verify_listed [of cn] verify_first_line(1) ts(2) by metis
  qed
  ultimately show ?thesis using listings_count shell_count by blast
qed

section \<open>The kit on the pages\<close>

lemma wordRotate_plain: "plain (wordRotate cn ((rotate_default ws)\<lparr>w_className := c\<rparr>) i)"
  by (auto simp: wordRotate_def rotate_default_def plain_El simp del: plain.simps(2) split: option.splits)

lemma meteors_plain: "list_all plain (meteors cn num p st)"
  by (auto simp: meteors_def meteor_node_def split_beta plain_El list_all_iff simp del: plain.simps(2))

lemma terminal_plain: "plain (terminal cn num workflow_terminal s)"
proof -
  have child: "plain (term_child cn num p c it)" if "text_item (ti_kind c)" "ti_as c \<in> {''div'', ''span''}" for p c it
    using that by (cases "ti_kind c" rule: text_item.cases; auto simp: term_child_def animatedSpan_def termTypingAnimation_def childless_def)
  have "plain n" if "n \<in> set (wrappedChildren cn num workflow_terminal s)" for n
    by (rule wrapped_cases [OF that]; use workflow_items child in \<open>auto simp: list_all_iff childless_def\<close>)
  then show ?thesis by (simp add: terminal_def Let_def list_all_iff childless_def)
qed

lemma pages_plain: "list_all (\<lambda>(r, ns). list_all plain ns) (site_pages cn num URL env h)"
  by (rule all_pages)
    (simp_all add: plain_El quickstart_defs use_cases_defs architecture_defs overview_defs concepts_defs installation_defs first_defs
      onboarding_defs operations_defs api_defs security_defs troubleshooting_defs faq_defs home_eval page_eval architectureBeam_eval
      orbitingStack_eval failureModes_def failures_def pinnedStack_def wordRotate_plain meteors_plain terminal_plain
      del: plain.simps(2) cong: opaque)

text \<open>
  C25. Rendering the elements of the user interface kit loses nothing of a page: on every page, in every
  state, the rendered elements have the same words, the same links and the same anchors as the
  page, in the same order.
\<close>

theorem pages_render_intact:
  "list_all (\<lambda>(r, ns). let ms = map (ui_expand (ui_kit cn cva num to_num)) ns in
      concat (map textContent ms) = concat (map textContent ns) \<and> page_links ms = page_links ns \<and> page_ids ms = page_ids ns)
     (site_pages cn num URL env h)"
proof -
  have "map textContent (map (ui_expand (ui_kit cn cva num to_num)) ns) = map textContent ns \<and>
      map links (map (ui_expand (ui_kit cn cva num to_num)) ns) = map links ns \<and>
      map ids (map (ui_expand (ui_kit cn cva num to_num)) ns) = map ids ns" if "list_all plain ns" for ns
    using that ui_expand_keeps_content [of _ cn cva num to_num] by (auto simp: list.pred_set)
  then show ?thesis
    using pages_plain [of cn num URL env h] unfolding Let_def by (simp add: list.pred_set split_beta del: map_map)
qed

section \<open>Structured data of the pages\<close>

lemma quickstart_ids: "page_ids (quickstartPage cn num URL env) = map qs_id quickstart_steps"
  by (simp add: quickstart_defs page_eval cong: opaque)

lemma enumerate_positions:
  "map (\<lambda>x. f (fst x)) (enumerate n xs) = map f [n..<n + length xs]" "map (\<lambda>x. g (snd x)) (enumerate n xs) = map g xs"
proof -
  have split: "map (\<lambda>x. f (fst x)) ys = map f (map fst ys)" "map (\<lambda>x. g (snd x)) ys = map g (map snd ys)" for ys
    by (simp_all add: comp_def)
  show "map (\<lambda>x. f (fst x)) (enumerate n xs) = map f [n..<n + length xs]" "map (\<lambda>x. g (snd x)) (enumerate n xs) = map g xs"
    by (simp_all only: split map_fst_enumerate map_snd_enumerate)
qed

text \<open>
  C22. The structured data of the quickstart and of the use cases lists what the page shows: entry \<open>k\<close> has
  position \<open>k\<close>, counted from one, and its address is that of the page with the anchor of the
  \<open>k\<close>-th section, which exists.
\<close>

theorem structured_lists_match_pages:
  "\<exists>steps items. json_get ''step'' (howToLd URL env) = Some (JArr steps) \<and>
     json_get ''itemListElement'' (itemListLd URL env) = Some (JArr items) \<and>
     map (json_get ''position'') steps = map (\<lambda>k. Some (JNum (digits (k + 1)))) [0..<6] \<and>
     map (json_get ''position'') items = map (\<lambda>k. Some (JNum (digits (k + 1)))) [0..<5] \<and>
     map (json_get ''url'') steps =
       map (\<lambda>i. Some (JStr (absoluteUrl URL env (Some (js ''/quickstart/#'' @ i))))) (page_ids (quickstartPage cn num URL env)) \<and>
     map (json_get ''url'') items =
       map (\<lambda>i. Some (JStr (absoluteUrl URL env (Some (js ''/use-cases/#'' @ i))))) (page_ids (useCasesPage cn num URL env))"
proof -
  have "length quickstart_steps = 6" "length useCases = 5" by (simp_all add: quickstart_steps_def useCases_def)
  then show ?thesis
    unfolding quickstart_ids use_case_ids howToLd_def itemListLd_def
    by (simp add: comp_def split_beta
        enumerate_positions(1) [where f = "\<lambda>k. Some (JNum (digits (Suc k)))"]
        enumerate_positions(2) [where g = "\<lambda>x. Some (JStr (absoluteUrl URL env (Some (js ''/quickstart/#'' @ qs_id x))))"]
        enumerate_positions(2) [where g = "\<lambda>x. Some (JStr (absoluteUrl URL env (Some (js ''/use-cases/#'' @ uc_id x))))"])
qed

section \<open>Social previews\<close>

lemma metadata_no_images:
  "json_get ''openGraph'' (metadata_object md) \<noteq> None" "json_path ''openGraph'' ''images'' (metadata_object md) = None"
  "json_get ''twitter'' (metadata_object md) \<noteq> None" "json_path ''twitter'' ''images'' (metadata_object md) = None"
  by (simp_all add: metadata_object_def json_path_def split: option.splits)

lemma layout_images:
  "json_path ''openGraph'' ''images'' (layout_metadata URL env) \<noteq> None" "json_path ''twitter'' ''images'' (layout_metadata URL env) \<noteq> None"
  by (simp_all add: layout_metadata_def json_path_def Let_def)

text \<open>
  C23. Only the home page has a preview image. The framework merges the metadata of a page into that of
  its layout shallowly: of the two objects for previews, \<open>openGraph\<close> and \<open>twitter\<close>, one that the page sets
  takes nothing from the one of the layout, and an image is in the result only if one of the merged
  objects has it. The metadata a page builds has both objects and an image in neither, so the image
  that the layout sets is lost.
\<close>

theorem page_previews_lose_image:
  assumes "\<And>parent parent' child k. k \<in> {''openGraph'', ''twitter''} \<Longrightarrow>
      json_get ''openGraph'' child \<noteq> None \<Longrightarrow> json_get ''twitter'' child \<noteq> None \<Longrightarrow>
      json_get k (resolve parent child) = json_get k (resolve parent' child)"
    and "\<And>parent child k. k \<in> {''openGraph'', ''twitter''} \<Longrightarrow>
      (\<And>j m. j \<in> {''openGraph'', ''twitter''} \<Longrightarrow> m \<in> {parent, child} \<Longrightarrow> json_path j ''images'' m = None) \<Longrightarrow>
      json_path k ''images'' (resolve parent child) = None"
  shows "json_path ''openGraph'' ''images'' (layout_metadata URL env) \<noteq> None \<and>
    json_path ''twitter'' ''images'' (layout_metadata URL env) \<noteq> None \<and>
    list_all (\<lambda>(segs, md).
      json_path ''openGraph'' ''images'' (resolve (layout_metadata URL env) (metadata_object md)) = None \<and>
      json_path ''twitter'' ''images'' (resolve (layout_metadata URL env) (metadata_object md)) = None) page_metadata"
proof -
  have "json_path k ''images'' (resolve parent (metadata_object md)) = None" if k: "k \<in> {''openGraph'', ''twitter''}" for k parent md
  proof -
    have "json_get k (resolve parent (metadata_object md)) = json_get k (resolve (JObj []) (metadata_object md))"
      using k metadata_no_images(1,3) by (rule assms(1))
    then have "json_path k ''images'' (resolve parent (metadata_object md)) = json_path k ''images'' (resolve (JObj []) (metadata_object md))"
      by (simp add: json_path_def)
    also have "\<dots> = None"
      by (rule assms(2) [OF k]) (use metadata_no_images in \<open>auto simp: json_path_def\<close>)
    finally show ?thesis .
  qed
  then show ?thesis using layout_images by (simp add: list.pred_set split_beta)
qed

definition merge_members :: "json \<Rightarrow> json \<Rightarrow> json" where
  "merge_members parent child = (case (parent, child) of (JObj a, JObj b) \<Rightarrow> JObj (b @ a) | _ \<Rightarrow> child)"

theorem page_previews_lose_image_witness:
  "json_path ''openGraph'' ''images'' (merge_members (layout_metadata (\<lambda>p b. b @ p) None) (metadata_object faq_metadata)) = None"
proof -
  have get: "json_get k (merge_members parent child) =
      (case json_get k child of Some v \<Rightarrow> Some v | None \<Rightarrow> (case child of JObj b \<Rightarrow> json_get k parent | _ \<Rightarrow> None))" for parent child k
    by (cases parent; cases child) (auto simp: merge_members_def map_add_def split: option.splits)
  have replaced: "json_get k (merge_members parent child) = json_get k (merge_members parent' child)"
    if "k \<in> {''openGraph'', ''twitter''}" "json_get ''openGraph'' child \<noteq> None" "json_get ''twitter'' child \<noteq> None" for parent parent' child k
    using that by (auto simp: get)
  have images: "json_path k ''images'' (merge_members parent child) = None"
    if "k \<in> {''openGraph'', ''twitter''}" "\<And>j m. j \<in> {''openGraph'', ''twitter''} \<Longrightarrow> m \<in> {parent, child} \<Longrightarrow> json_path j ''images'' m = None"
    for parent child k
    using that(2) [OF that(1), of parent] that(2) [OF that(1), of child]
    by (auto simp: json_path_def get split: option.splits json.splits)
  have "([''docs'', ''faq''], faq_metadata) \<in> set page_metadata" by (simp add: page_metadata_def)
  then show ?thesis
    using page_previews_lose_image [of merge_members "\<lambda>p b. b @ p" None, OF replaced images] unfolding list.pred_set by fast
qed

section \<open>The terminal of the home page\<close>

lemma workflow_spans: "list_all (\<lambda>c. case ti_kind c of TTyped _ \<Rightarrow> ti_as c = ''span'' | TSpan _ \<Rightarrow> True) (tm_children workflow_terminal)"
  by (simp add: workflow_terminal_def typed_item_def span_item_def cong: opaque)

text \<open>
  The delays written at the lines of the home page's terminal have no effect: in a sequence every line
  is rendered with the delay zero, whatever the state of the terminal.
\<close>

theorem workflow_delays_ignored:
  "list_all (\<lambda>c. 0 < ti_delay c) (tl (tm_children workflow_terminal)) \<and>
   list_all (\<lambda>n. map_of (attrs n) ''transition.delay'' = Some (num 0)) (find_all ''motion.div'' (terminal cn num workflow_terminal s))"
proof -
  have seq: "tm_sequence workflow_terminal" by (simp add: workflow_terminal_def)
  have child: "list_all (\<lambda>n. map_of (attrs n) ''transition.delay'' = Some (num 0)) (find_all ''motion.div'' (term_child cn num workflow_terminal c it))"
    if "c \<in> set (tm_children workflow_terminal)" for c it
    using workflow_items workflow_spans that seq unfolding list.pred_set by (cases "ti_kind c" rule: text_item.cases) (auto simp: term_child_def animatedSpan_def termTypingAnimation_def)
  have "list_all (\<lambda>n. map_of (attrs n) ''transition.delay'' = Some (num 0)) (find_all ''motion.div'' m)"
    if "m \<in> set (wrappedChildren cn num workflow_terminal s)" for m
    by (rule wrapped_cases [OF that]) (use child in auto)
  then have "list_all (\<lambda>n. map_of (attrs n) ''transition.delay'' = Some (num 0))
      (concat (map (find_all ''motion.div'') (wrappedChildren cn num workflow_terminal s)))"
    by (auto simp: list.pred_set)
  then have "list_all (\<lambda>n. map_of (attrs n) ''transition.delay'' = Some (num 0)) (find_all ''motion.div'' (terminal cn num workflow_terminal s))"
    by (simp add: terminal_def Let_def seq)
  moreover have "list_all (\<lambda>c. 0 < ti_delay c) (tl (tm_children workflow_terminal))"
    by (simp add: workflow_terminal_def typed_item_def span_item_def cong: opaque)
  ultimately show ?thesis by blast
qed

end
