(* ===== verification/Commit_Message.thy ===== *)
theory Commit_Message
  imports Json Vdom
begin

text \<open>
  The commit message of the hook \<open>.opencode/plugins/auto-commit.js\<close>: how it is read from the
  reply of a language model (structured output, a JSON object in the text, or prose), and the
  message that is used when there is none.

  A reply is a value of the language: \<open>None\<close> is \<open>undefined\<close>, the other values are those of
  \<open>json\<close>, objects with their members in the order of \<open>Object.values\<close>.
\<close>

section \<open>Values of the language\<close>

text \<open>
  \<open>v?.k\<close>, \<open>v ?? w\<close>, truth of a value and \<open>String(v)\<close>; \<open>num\<close> turns the literal of a number into
  the text the language gives it.
\<close>

definition getp :: "json option \<Rightarrow> string \<Rightarrow> json option" where
  "getp v k = (case v of Some (JObj ms) \<Rightarrow> member (js k) ms | _ \<Rightarrow> None)"

definition nullish :: "json option \<Rightarrow> bool" where
  "nullish v \<longleftrightarrow> v = None \<or> v = Some JNull"

definition or_else :: "json option \<Rightarrow> json option \<Rightarrow> json option" where
  "or_else v w = (if nullish v then w else v)"

text \<open>A literal is different from zero if its mantissa has a digit that is not \<open>0\<close>; \<open>NaN\<close> counts as zero.\<close>

definition nonzero :: "jstr \<Rightarrow> bool" where
  "nonzero n \<longleftrightarrow> n = js ''Infinity'' \<or> n = js ''-Infinity'' \<or>
     list_ex (\<lambda>c. 49 \<le> c \<and> c \<le> 57) (takeWhile (\<lambda>c. c \<noteq> 69 \<and> c \<noteq> 101) n)"

fun truthy :: "json option \<Rightarrow> bool" where
  "truthy None = False"
| "truthy (Some JNull) = False"
| "truthy (Some (JBool b)) = b"
| "truthy (Some (JNum n)) = nonzero n"
| "truthy (Some (JStr s)) = (s \<noteq> [])"
| "truthy (Some (JArr vs)) = True"
| "truthy (Some (JObj ms)) = True"

fun toString :: "(jstr \<Rightarrow> jstr) \<Rightarrow> json \<Rightarrow> jstr" where
  "toString num JNull = js ''null''"
| "toString num (JBool b) = (if b then js ''true'' else js ''false'')"
| "toString num (JNum n) = num n"
| "toString num (JStr s) = s"
| "toString num (JArr vs) = join (js '','') (map (\<lambda>v. if v = JNull then [] else toString num v) vs)"
| "toString num (JObj ms) = js ''[object Object]''"

text \<open>
  \<open>String(v)\<close>. An object is taken to have no member called \<open>toString\<close> of its own: with
  \<open>{"toString": 1}\<close> the conversion raises a \<open>TypeError\<close>, which the model leaves out.
\<close>

definition String_of :: "(jstr \<Rightarrow> jstr) \<Rightarrow> json option \<Rightarrow> jstr" where
  "String_of num v = (case v of None \<Rightarrow> js ''undefined'' | Some j \<Rightarrow> toString num j)"

text \<open>\<open>s.replace(r, "")\<close> for a pattern that is not global.\<close>

definition replace_first :: "re \<Rightarrow> jstr \<Rightarrow> jstr" where
  "replace_first r s = (case search r None s of None \<Rightarrow> s | Some (g, w, t) \<Rightarrow> g @ t)"

section \<open>Reading a message\<close>

record message =
  subject :: jstr
  body :: jstr

fun collectText :: "json \<Rightarrow> jstr list" where
  "collectText (JArr vs) = concat (map collectText vs)"
| "collectText (JObj ms) =
     (case member (js ''text'') ms of Some (JStr t) \<Rightarrow> [t] | _ \<Rightarrow> []) @
     concat (map (\<lambda>(k, v). collectText v) ms)"
| "collectText node = []"

definition BODY_BUDGET :: nat where
  "BODY_BUDGET = 2000"

definition is_quote_mark :: "nat \<Rightarrow> bool" where
  "is_quote_mark c \<longleftrightarrow> c = 96 \<or> c = 34 \<or> c = 39 \<or> c = 8220 \<or> c = 8221"

definition sanitizeSubject :: "jstr \<Rightarrow> jstr" where
  "sanitizeSubject value =
     (let line = hd (split_at 10 value);
          bare = rev (dropWhile is_quote_mark (rev (dropWhile is_quote_mark line))) in
      slice (trim bare) 0 100)"

definition subject_prefix :: re where
  "subject_prefix = Seqs
     [Bol, Opt (Chr CHR ''{''), Lit ([CHR 0x22] @ ''subject'' @ [CHR 0x22]), Star (Cls is_ws), Chr CHR '':'',
      Star (Cls is_ws), Opt (Chr CHR 0x22)]"

definition subject_suffix :: re where
  "subject_suffix = Seqs [Opt (Chr CHR 0x22), Opt (Chr CHR '',''), Opt (Chr CHR ''}''), Eol]"

definition nonblank_lines :: "jstr \<Rightarrow> jstr list" where
  "nonblank_lines s = filter (\<lambda>line. line \<noteq> []) (map trim (split_at 10 s))"

definition fromProseText :: "jstr \<Rightarrow> message option" where
  "fromProseText joined =
     (case nonblank_lines joined of
        [] \<Rightarrow> None
      | l # ls \<Rightarrow>
          (let s = sanitizeSubject (replace_first subject_suffix (replace_first subject_prefix l)) in
           if s = [] then None
           else Some \<lparr>subject = s,
             body = slice (trim (filter (\<lambda>c. c \<noteq> 123 \<and> c \<noteq> 125 \<and> c \<noteq> 34) (join [10] ls))) 0 BODY_BUDGET\<rparr>))"

definition object_pattern :: re where
  "object_pattern = Seqs
     [Chr CHR ''{'', Star (Cls (\<lambda>_. True)), Lit ([CHR 0x22] @ ''subject'' @ [CHR 0x22]), Star (Cls (\<lambda>_. True)),
      Chr CHR ''}'']"

text \<open>
  The test \<open>typeof v.subject === "string" && v.subject.trim()\<close> with the message it leads to,
  which the source has twice.
\<close>

definition message_of :: "(jstr \<Rightarrow> jstr) \<Rightarrow> json option \<Rightarrow> message option" where
  "message_of num v =
     (case getp v ''subject'' of
        Some (JStr s) \<Rightarrow>
          if trim s \<noteq> []
          then Some \<lparr>subject = sanitizeSubject s, body = trim (String_of num (or_else (getp v ''body'') (Some (JStr []))))\<rparr>
          else None
      | _ \<Rightarrow> None)"

definition structured_output :: "json option \<Rightarrow> json option" where
  "structured_output data =
     or_else (or_else (getp (getp data ''info'') ''structured_output'') (getp data ''structured_output'')) (Some JNull)"

definition extractMessage :: "(jstr \<Rightarrow> jstr) \<Rightarrow> json option \<Rightarrow> message option" where
  "extractMessage num result =
     (let data = getp result ''data'' in
      case message_of num (structured_output data) of
        Some m \<Rightarrow> Some m
      | None \<Rightarrow>
          (let joined = join [10] (case data of None \<Rightarrow> [] | Some d \<Rightarrow> collectText d) in
           case search object_pattern None joined of
             None \<Rightarrow> fromProseText joined
           | Some (g, w, t) \<Rightarrow>
               (case message_of num (JSON_parse w) of Some m \<Rightarrow> Some m | None \<Rightarrow> fromProseText joined)))"

definition fallbackMessage :: "nat \<Rightarrow> jstr \<Rightarrow> message" where
  "fallbackMessage fileCount stat =
     \<lparr>subject = js ''chore: sync working tree changes'',
      body = join [10]
        [js ''- '' @ digits fileCount @ js '' file(s) changed; LLM summary unavailable (generation failed).'',
         js ''- Stat: '' @ (if stat = [] then js ''n/a'' else stat)]\<rparr>"

section \<open>What every message satisfies\<close>

text \<open>A subject line: at most a hundred code units and no line feed.\<close>

definition subject_ok :: "jstr \<Rightarrow> bool" where
  "subject_ok s \<longleftrightarrow> length s \<le> 100 \<and> 10 \<notin> set s"

lemma set_slice: "set (slice s i j) \<subseteq> set s"
  by (auto simp: slice_def dest: in_set_takeD in_set_dropD)

lemma set_trim: "set (trim s) \<subseteq> set s"
  by (auto simp: trim_def trimEnd_def dest!: set_dropWhileD)

lemma sanitizeSubject_ok: "subject_ok (sanitizeSubject v)"
proof -
  have "hd (split_at 10 v) \<in> set (split_at 10 v)" by simp
  then have "10 \<notin> set (hd (split_at 10 v))" by (rule split_at_no_sep)
  then have "10 \<notin> set (sanitizeSubject v)"
    unfolding sanitizeSubject_def Let_def
    by (auto dest!: subsetD [OF set_slice] subsetD [OF set_trim] set_dropWhileD)
  then show ?thesis by (simp add: subject_ok_def sanitizeSubject_def Let_def slice_def)
qed

lemma message_of_ok: "message_of num v = Some m \<Longrightarrow> subject_ok (subject m)"
  by (auto simp: message_of_def sanitizeSubject_ok split: option.splits json.splits if_splits)

lemma fromProseText_ok:
  "fromProseText s = Some m \<Longrightarrow> subject_ok (subject m) \<and> subject m \<noteq> [] \<and> length (body m) \<le> BODY_BUDGET"
  by (auto simp: fromProseText_def Let_def sanitizeSubject_ok slice_def split: list.splits if_splits)

lemma extractMessage_ok: "extractMessage num r = Some m \<Longrightarrow> subject_ok (subject m)"
  using message_of_ok fromProseText_ok
  by (auto simp: extractMessage_def Let_def split: option.splits)

lemma fallbackMessage_ok: "subject_ok (subject (fallbackMessage n stat))"
  by (simp add: fallbackMessage_def subject_ok_def js_def)

section \<open>Empty subjects\<close>

lemma strip_quotes_blank_iff:
  "(\<forall>c\<in>set (rev (dropWhile Q (rev (dropWhile Q l)))). W c) \<longleftrightarrow>
     (\<exists>q w q'. l = q @ w @ q' \<and> (\<forall>c\<in>set (q @ q'). Q c) \<and> (\<forall>c\<in>set w. W c))"
  if disjoint: "\<And>c. W c \<Longrightarrow> \<not> Q c"
proof
  let ?m = "dropWhile Q l"
  assume "\<forall>c\<in>set (rev (dropWhile Q (rev ?m))). W c"
  moreover have "l = takeWhile Q l @ rev (dropWhile Q (rev ?m)) @ rev (takeWhile Q (rev ?m))"
    by (metis append.assoc rev_append rev_rev_ident takeWhile_dropWhile_id)
  moreover have "\<forall>c\<in>set (takeWhile Q l @ rev (takeWhile Q (rev ?m))). Q c"
    by (auto dest: set_takeWhileD)
  ultimately show "\<exists>q w q'. l = q @ w @ q' \<and> (\<forall>c\<in>set (q @ q'). Q c) \<and> (\<forall>c\<in>set w. W c)" by blast
next
  assume "\<exists>q w q'. l = q @ w @ q' \<and> (\<forall>c\<in>set (q @ q'). Q c) \<and> (\<forall>c\<in>set w. W c)"
  then obtain q w q' where l: "l = q @ w @ q'" "\<forall>c\<in>set q. Q c" "\<forall>c\<in>set q'. Q c" "\<forall>c\<in>set w. W c" by auto
  show "\<forall>c\<in>set (rev (dropWhile Q (rev (dropWhile Q l)))). W c"
  proof (cases w)
    case Nil
    with l have "dropWhile Q l = []" by (auto simp: dropWhile_eq_Nil_conv)
    show ?thesis unfolding \<open>dropWhile Q l = []\<close> by simp
  next
    case (Cons c w')
    with l disjoint have "\<not> Q c" by simp
    with l Cons have "dropWhile Q l = w @ q'" by simp
    moreover have keep: "dropWhile Q u = u" if "\<forall>c\<in>set u. \<not> Q c" for u using that by (cases u) auto
    have "dropWhile Q (rev q' @ rev w) = dropWhile Q (rev w)" using l(3) by (intro dropWhile_append2) simp
    moreover have "dropWhile Q (rev w) = rev w" using l(4) disjoint by (intro keep) simp
    ultimately show ?thesis using l(4) by simp
  qed
qed

lemma sanitizeSubject_empty_iff:
  "sanitizeSubject s = [] \<longleftrightarrow>
     (\<exists>q w q'. hd (split_at 10 s) = q @ w @ q' \<and> (\<forall>c\<in>set (q @ q'). is_quote_mark c) \<and> (\<forall>c\<in>set w. is_ws c))"
proof -
  have "\<not> is_quote_mark c" if "is_ws c" for c using that by (auto simp: is_ws_def is_quote_mark_def)
  then show ?thesis
    using strip_quotes_blank_iff [of is_ws is_quote_mark "hd (split_at 10 s)"]
    by (simp add: sanitizeSubject_def Let_def slice_def trim_eq_Nil_iff)
qed

text \<open>
  C11. The subject of a message can be empty: prose without a subject is refused, but a
  structured reply is accepted as soon as its subject is not blank, and then the subject is
  empty if and only if its first line consists of quotes around blanks.
\<close>

theorem extractMessage_empty_subject:
  assumes "structured_output (getp result ''data'') = Some v" and "getp (Some v) ''subject'' = Some (JStr s)"
    and "trim s \<noteq> []"
  shows "\<exists>m. extractMessage num result = Some m \<and>
      (subject m = [] \<longleftrightarrow> (\<exists>q w q'. hd (split_at 10 s) = q @ w @ q' \<and>
         (\<forall>c\<in>set (q @ q'). is_quote_mark c) \<and> (\<forall>c\<in>set w. is_ws c))) \<and>
      (\<forall>t p. fromProseText t = Some p \<longrightarrow> subject p \<noteq> [])"
proof -
  have "extractMessage num result = message_of num (Some v)"
    using assms by (auto simp: extractMessage_def Let_def message_of_def)
  moreover obtain m where "message_of num (Some v) = Some m" "subject m = sanitizeSubject s"
    using assms(2,3) by (auto simp: message_of_def)
  ultimately show ?thesis using fromProseText_ok by (simp add: sanitizeSubject_empty_iff)
qed

theorem extractMessage_empty_subject_witness:
  "\<exists>m. extractMessage id (Some (JObj [(js ''data'', JObj [(js ''structured_output'',
     JObj [(js ''subject'', JStr [34, 34, 10, 65]), (js ''body'', JStr [66])])])])) = Some m \<and> subject m = []"
proof -
  let ?v = "JObj [(js ''subject'', JStr [34, 34, 10, 65]), (js ''body'', JStr [66])]"
  let ?r = "Some (JObj [(js ''data'', JObj [(js ''structured_output'', ?v)])])"
  have "structured_output (getp ?r ''data'') = Some ?v"
    by (simp add: structured_output_def getp_def member_def or_else_def nullish_def)
  moreover have "getp (Some ?v) ''subject'' = Some (JStr [34, 34, 10, 65])"
    by (simp add: getp_def member_def)
  moreover have "trim [34, 34, 10, 65] \<noteq> []" by (simp add: trim_def trimEnd_def is_ws_def)
  ultimately obtain m where "extractMessage id ?r = Some m"
      "subject m = [] \<longleftrightarrow> (\<exists>q w q'. hd (split_at 10 [34, 34, 10, 65]) = q @ w @ q' \<and>
         (\<forall>c\<in>set (q @ q'). is_quote_mark c) \<and> (\<forall>c\<in>set w. is_ws c))"
    using extractMessage_empty_subject [of ?r ?v "[34, 34, 10, 65]" id] by blast
  moreover have "\<exists>q w q'. hd (split_at 10 [34, 34, 10, 65]) = q @ w @ q' \<and>
         (\<forall>c\<in>set (q @ q'). is_quote_mark c) \<and> (\<forall>c\<in>set w. is_ws c)"
    by (intro exI [of _ "[34, 34]"] exI [of _ "[]"]) (simp add: is_quote_mark_def)
  ultimately show ?thesis by blast
qed

end
