(* ===== verification/Auto_Commit.thy ===== *)
theory Auto_Commit
  imports Commit_Message
begin

text \<open>
  The commit hook \<open>.opencode/plugins/auto-commit.js\<close>: when a session becomes idle it stages
  the tracked changes, asks a language model for a message in a helper session and commits.

  An asynchronous function is a tree of type \<open>prog\<close>: at each \<open>await\<close> it waits for the answer
  of a shell command or of a call of the client, and continues with any answer it may get, a
  rejection included (\<open>Inl\<close> with the text of the error). \<open>Access\<close> is code between two
  \<open>await\<close>s that reads or writes the two variables of the module, \<open>busy\<close> and
  \<open>internalSessions\<close>. \<open>Race\<close> is \<open>Promise.race\<close> of a program and the timer: when the timer
  wins, the program goes on, and its result is ignored.

  Any number of events may be handled at the same time; \<open>hook_step\<close> interleaves them at the
  \<open>await\<close>s.
\<close>

section \<open>Programs\<close>

datatype git_cmd =
    RevParse
  | AddUpdate
  | NameOnly
  | CachedDiff
  | ShortStat
  | Commit jstr jstr

datatype call =
    Log string jstr
  | SessionCreate jstr
  | SessionPrompt json jstr
  | SessionDelete json

record hook_vars =
  busy :: bool
  internalSessions :: "json set"

datatype ('g, 'a) prog =
    Return 'a
  | Throw jstr
  | Shell git_cmd "jstr + int \<times> jstr \<Rightarrow> ('g, 'a) prog"
  | Client call "jstr + json option \<Rightarrow> ('g, 'a) prog"
  | Access "hook_vars \<Rightarrow> hook_vars \<times> ('g, 'a) prog"
  | Race 'g "jstr + message option \<Rightarrow> ('g, 'a) prog"

type_synonym generator = "(unit, message option) prog"
type_synonym flow = "(generator, unit) prog"

primrec bind :: "('g, 'a) prog \<Rightarrow> ('a \<Rightarrow> ('g, 'b) prog) \<Rightarrow> ('g, 'b) prog" where
  "bind (Return v) f = f v"
| "bind (Throw e) f = Throw e"
| "bind (Shell c k) f = Shell c (\<lambda>r. bind (k r) f)"
| "bind (Client c k) f = Client c (\<lambda>r. bind (k r) f)"
| "bind (Access g) f = Access (\<lambda>s. map_prod id (\<lambda>p. bind p f) (g s))"
| "bind (Race g k) f = Race g (\<lambda>r. bind (k r) f)"

primrec catch :: "('g, 'a) prog \<Rightarrow> (jstr \<Rightarrow> ('g, 'a) prog) \<Rightarrow> ('g, 'a) prog" where
  "catch (Return v) h = Return v"
| "catch (Throw e) h = h e"
| "catch (Shell c k) h = Shell c (\<lambda>r. catch (k r) h)"
| "catch (Client c k) h = Client c (\<lambda>r. catch (k r) h)"
| "catch (Access g) h = Access (\<lambda>s. map_prod id (\<lambda>p. catch p h) (g s))"
| "catch (Race g k) h = Race g (\<lambda>r. catch (k r) h)"

text \<open>Induction and equations in terms of \<open>fst\<close> and \<open>snd\<close>.\<close>

lemma prog_induct [case_names Return Throw Shell Client Access Race]:
  assumes "\<And>v. P (Return v)" and "\<And>e. P (Throw e)"
    and "\<And>c k. (\<And>r. P (k r)) \<Longrightarrow> P (Shell c k)"
    and "\<And>c k. (\<And>r. P (k r)) \<Longrightarrow> P (Client c k)"
    and "\<And>g. (\<And>s. P (snd (g s))) \<Longrightarrow> P (Access g)"
    and "\<And>g k. (\<And>r. P (k r)) \<Longrightarrow> P (Race g k)"
  shows "P (p :: ('g, 'a) prog)"
proof (induction p)
  case (Access g)
  have "snd (g s) \<in> Basic_BNFs.snds (g s)" for s by (cases "g s") (auto intro: snds.intros)
  then show ?case by (intro assms(5) Access) (rule rangeI)
qed (auto intro: assms)

lemma bind_Access: "bind (Access g) f = Access (\<lambda>s. (fst (g s), bind (snd (g s)) f))"
  by (simp add: map_prod_def split_beta)

lemma catch_Access: "catch (Access g) h = Access (\<lambda>s. (fst (g s), catch (snd (g s)) h))"
  by (simp add: map_prod_def split_beta)

declare bind.simps(5) [simp del] catch.simps(5) [simp del]
declare bind_Access [simp] catch_Access [simp]

definition finally_do :: "('g, 'a) prog \<Rightarrow> ('g, unit) prog \<Rightarrow> ('g, 'a) prog" where
  "finally_do m f =
     bind (catch (bind m (\<lambda>v. Return (Inr v))) (\<lambda>e. Return (Inl e)))
       (\<lambda>r. bind f (\<lambda>_. case r of Inl e \<Rightarrow> Throw e | Inr v \<Rightarrow> Return v))"

definition await_shell :: "git_cmd \<Rightarrow> ('g, int \<times> jstr) prog" where
  "await_shell c = Shell c (\<lambda>r. case r of Inl e \<Rightarrow> Throw e | Inr v \<Rightarrow> Return v)"

definition await_client :: "call \<Rightarrow> ('g, json option) prog" where
  "await_client c = Client c (\<lambda>r. case r of Inl e \<Rightarrow> Throw e | Inr v \<Rightarrow> Return v)"

definition await_race :: "generator \<Rightarrow> (generator, message option) prog" where
  "await_race g = Race g (\<lambda>r. case r of Inl e \<Rightarrow> Throw e | Inr v \<Rightarrow> Return v)"

section \<open>The plugin\<close>

text \<open>The arguments of the \<open>git\<close> commands.\<close>

fun git_args :: "jstr \<Rightarrow> git_cmd \<Rightarrow> jstr list" where
  "git_args directory RevParse = [js ''git'', js ''-C'', directory, js ''rev-parse'', js ''--is-inside-work-tree'']"
| "git_args directory AddUpdate = [js ''git'', js ''-C'', directory, js ''add'', js ''-u'']"
| "git_args directory NameOnly = [js ''git'', js ''-C'', directory, js ''diff'', js ''--cached'', js ''--name-only'']"
| "git_args directory CachedDiff = [js ''git'', js ''-C'', directory, js ''diff'', js ''--cached'']"
| "git_args directory ShortStat = [js ''git'', js ''-C'', directory, js ''diff'', js ''--cached'', js ''--shortstat'']"
| "git_args directory (Commit s b) = [js ''git'', js ''-C'', directory, js ''commit'', js ''-m'', s, js ''-m'', b]"

definition INTERNAL_TITLE :: jstr where
  "INTERNAL_TITLE = js ''[auto-commit hook] commit message generator''"

definition DIFF_BUDGET :: nat where
  "DIFF_BUDGET = 12000"

record hook_event =
  event_type :: jstr
  properties :: "json option"

definition sessionIdOf :: "hook_event \<Rightarrow> json option" where
  "sessionIdOf event =
     (let properties = or_else (properties event) (Some (JObj [])) in
      or_else (getp properties ''sessionID'')
        (or_else (getp properties ''sessionId'')
          (or_else (getp properties ''id'')
            (or_else (getp (getp properties ''info'') ''id'') (Some JNull)))))"

text \<open>\<open>Set.prototype.has\<close>: objects and arrays are only equal to themselves, and an event never carries one of the set's.\<close>

definition has :: "json set \<Rightarrow> json option \<Rightarrow> bool" where
  "has S v = (case v of None \<Rightarrow> False | Some (JArr _) \<Rightarrow> False | Some (JObj _) \<Rightarrow> False | Some j \<Rightarrow> j \<in> S)"

definition log :: "string \<Rightarrow> jstr \<Rightarrow> ('g, unit) prog" where
  "log level msg = catch (bind (await_client (Log level msg)) (\<lambda>_. Return ())) (\<lambda>_. Return ())"

definition prompt_text :: "jstr \<Rightarrow> jstr list \<Rightarrow> jstr" where
  "prompt_text diff files = join [10]
     ([js ''You are a commit message generator. Write a commit message for the changes below.'',
       js ''Rules:'',
       js ''- English only.'',
       js ''- Conventional commits: type must be one of feat, fix, docs, refactor, test, chore, perf, ci, build.'',
       js ''- Subject: imperative mood, max 72 characters, no trailing period.'',
       js ''- Body: bullet list of what changed and why, one bullet per area.'',
       js ''- Base the message ONLY on the diff below; do not invent changes.'',
       js ''- Reply with ONLY a JSON object {\"subject\": \"...\", \"body\": \"...\"}, no prose, no code fences.'',
       [],
       js ''Changed files:''] @
      map (\<lambda>f. js ''- '' @ f) files @
      [[], js ''Diff (may be truncated):'', diff])"

definition error_text :: "(jstr \<Rightarrow> jstr) \<Rightarrow> json option \<Rightarrow> jstr" where
  "error_text num structuredError =
     js ''Error: '' @ trim (js ''structured output: '' @
       String_of num (or_else (getp structuredError ''name'') (Some (JStr (js ''error'')))) @ js '' '' @
       String_of num (or_else (getp structuredError ''message'') (Some (JStr []))))"

definition generateCommitMessage :: "(jstr \<Rightarrow> jstr) \<Rightarrow> jstr \<Rightarrow> jstr list \<Rightarrow> generator" where
  "generateCommitMessage num diff files =
     bind (await_client (SessionCreate INTERNAL_TITLE)) (\<lambda>created.
       let helperId = getp (getp created ''data'') ''id'' in
       if \<not> truthy helperId then Throw (js ''Error: failed to create helper session'')
       else
         let h = the helperId in
         Access (\<lambda>s. (s\<lparr>internalSessions := insert h (internalSessions s)\<rparr>,
           finally_do
             (bind (await_client (SessionPrompt h (prompt_text diff files))) (\<lambda>result.
                if truthy (getp result ''error'')
                then Throw (js ''Error: '' @ String_of num (getp result ''error''))
                else
                  let structuredError = getp (getp (getp result ''data'') ''info'') ''error'' in
                  if truthy structuredError then Throw (error_text num structuredError)
                  else Return (extractMessage num result)))
             (catch (bind (await_client (SessionDelete h)) (\<lambda>_. Return ())) (\<lambda>_. Return ())))))"

definition clip_diff :: "jstr \<Rightarrow> jstr" where
  "clip_diff diff = (if length diff > DIFF_BUDGET then slice diff 0 DIFF_BUDGET @ [10] @ js ''... [truncated]'' else diff)"

definition footer :: jstr where
  "footer = js ''Generated by opencode auto-commit hook; commit only, no push.''"

definition commit_body :: "message \<Rightarrow> jstr" where
  "commit_body m = (if body m \<noteq> [] then body m @ [10, 10] @ footer else footer)"

text \<open>Committing with the message, or with the fallback.\<close>

definition do_commit :: "jstr list \<Rightarrow> message \<Rightarrow> flow" where
  "do_commit files finalMessage =
     bind (await_shell (Commit (subject finalMessage) (commit_body finalMessage))) (\<lambda>(exitCode, out).
       if exitCode \<noteq> 0
       then log ''error'' (js ''auto-commit: git commit failed (exit '' @
              (if exitCode < 0 then js ''-'' @ digits (nat (- exitCode)) else digits (nat exitCode)) @
              js ''): '' @ slice (trim out) 0 500)
       else log ''info'' (js ''auto-commit: committed '' @ digits (length files) @ js '' file(s): '' @
              subject finalMessage))"

definition ask_message :: "(jstr \<Rightarrow> jstr) \<Rightarrow> jstr \<Rightarrow> jstr list \<Rightarrow> (generator, message option) prog" where
  "ask_message num diff files =
     catch
       (bind (await_race (generateCommitMessage num diff files)) (\<lambda>msg.
          bind (case msg of
                  Some m \<Rightarrow> log ''info'' (js ''auto-commit: message generated: '' @ subject m)
                | None \<Rightarrow> log ''warn'' (js ''auto-commit: prompt returned no usable text, using fallback''))
            (\<lambda>_. Return msg)))
       (\<lambda>error. bind (log ''warn'' (js ''auto-commit: LLM message generation failed, using fallback: '' @ error))
          (\<lambda>_. Return None))"

definition commit_flow :: "(jstr \<Rightarrow> jstr) \<Rightarrow> flow" where
  "commit_flow num =
     bind (await_shell RevParse) (\<lambda>(_, inside).
     if trim inside \<noteq> js ''true'' then log ''warn'' (js ''skip: not inside a git work tree'')
     else
       bind (await_shell AddUpdate) (\<lambda>_.
       bind (await_shell NameOnly) (\<lambda>(_, cached).
       let files = nonblank_lines (trim cached) in
       if length files = 0 then log ''info'' (js ''skip: no staged changes'')
       else
         bind (await_shell CachedDiff) (\<lambda>(_, out).
         let diff = clip_diff (trim out) in
         bind (await_shell ShortStat) (\<lambda>(_, shortstat).
         bind (ask_message num diff files) (\<lambda>msg.
         do_commit files (case msg of Some m \<Rightarrow> m | None \<Rightarrow> fallbackMessage (length files) (trim shortstat))))))))"

definition release :: flow where
  "release = Access (\<lambda>s. (s\<lparr>busy := False\<rparr>, Return ()))"

definition guarded_flow :: "(jstr \<Rightarrow> jstr) \<Rightarrow> flow" where
  "guarded_flow num =
     finally_do (catch (commit_flow num) (\<lambda>error. log ''error'' (js ''auto-commit: flow failed: '' @ error))) release"

definition handle_event :: "(jstr \<Rightarrow> jstr) \<Rightarrow> hook_event \<Rightarrow> flow" where
  "handle_event num event =
     (if event_type event \<noteq> js ''session.idle'' then Return ()
      else bind (log ''info'' (js ''session.idle received'')) (\<lambda>_.
        let sid = sessionIdOf event in
        Access (\<lambda>s.
          if truthy sid \<and> has (internalSessions s) sid
          then (s\<lparr>internalSessions := internalSessions s - {the sid}\<rparr>, Return ())
          else if busy s then (s, log ''warn'' (js ''skip: previous commit flow still running''))
          else (s\<lparr>busy := True\<rparr>, guarded_flow num))))"

section \<open>Execution\<close>

text \<open>Running on to the next \<open>await\<close>.\<close>

primrec settle :: "('g, 'a) prog \<Rightarrow> hook_vars \<Rightarrow> hook_vars \<times> ('g, 'a) prog" where
  "settle (Return v) s = (s, Return v)"
| "settle (Throw e) s = (s, Throw e)"
| "settle (Shell c k) s = (s, Shell c k)"
| "settle (Client c k) s = (s, Client c k)"
| "settle (Access g) s = (case map_prod id settle (g s) of (s', f) \<Rightarrow> f s')"
| "settle (Race g k) s = (s, Race g k)"

text \<open>What a program has just asked for.\<close>

fun issued :: "('g, 'a) prog \<Rightarrow> git_cmd list \<times> call list" where
  "issued (Shell c k) = ([c], [])"
| "issued (Client c k) = ([], [c])"
| "issued p = ([], [])"

record hook_state =
  vars :: hook_vars
  flows :: "flow list"
  detached :: "generator list"
  git_log :: "git_cmd list"
  call_log :: "call list"

definition noting :: "('g, 'a) prog \<Rightarrow> hook_state \<Rightarrow> hook_state" where
  "noting p s = s\<lparr>git_log := git_log s @ fst (issued p), call_log := call_log s @ snd (issued p)\<rparr>"

text \<open>A flow runs on; when it comes to the race, the generator starts at once.\<close>

definition run_flow :: "flow \<Rightarrow> hook_state \<Rightarrow> flow \<times> hook_state" where
  "run_flow p s =
     (let (v, p') = settle p (vars s); s' = s\<lparr>vars := v\<rparr> in
      case p' of
        Race g k \<Rightarrow> (let (v', g') = settle g v in (Race g' k, noting g' (s'\<lparr>vars := v'\<rparr>)))
      | _ \<Rightarrow> (p', noting p' s'))"

definition run_generator :: "generator \<Rightarrow> hook_state \<Rightarrow> generator \<times> hook_state" where
  "run_generator g s = (let (v, g') = settle g (vars s) in (g', noting g' (s\<lparr>vars := v\<rparr>)))"

text \<open>An answer to what a program waits for.\<close>

inductive answered :: "('g, 'a) prog \<Rightarrow> ('g, 'a) prog \<Rightarrow> bool" where
  shell_answer: "answered (Shell c k) (k r)"
| client_answer: "answered (Client c k) (k r')"

text \<open>A settled race: the result of the generator, or the timer.\<close>

definition TIMEOUT :: jstr where
  "TIMEOUT = js ''Error: commit message timeout''"

inductive flow_step :: "nat \<Rightarrow> hook_state \<Rightarrow> hook_state \<Rightarrow> bool" where
  flow_answer: "i < length (flows s) \<Longrightarrow> answered (flows s ! i) p \<Longrightarrow> run_flow p s = (p', s') \<Longrightarrow>
    flow_step i s (s'\<lparr>flows := (flows s)[i := p']\<rparr>)"
| race_answer: "i < length (flows s) \<Longrightarrow> flows s ! i = Race g k \<Longrightarrow> answered g h \<Longrightarrow>
    run_generator h s = (h', s') \<Longrightarrow> flow_step i s (s'\<lparr>flows := (flows s)[i := Race h' k]\<rparr>)"
| race_return: "i < length (flows s) \<Longrightarrow> flows s ! i = Race (Return m) k \<Longrightarrow>
    run_flow (k (Inr m)) s = (p', s') \<Longrightarrow> flow_step i s (s'\<lparr>flows := (flows s)[i := p']\<rparr>)"
| race_throw: "i < length (flows s) \<Longrightarrow> flows s ! i = Race (Throw e) k \<Longrightarrow>
    run_flow (k (Inl e)) s = (p', s') \<Longrightarrow> flow_step i s (s'\<lparr>flows := (flows s)[i := p']\<rparr>)"
| race_timeout: "i < length (flows s) \<Longrightarrow> flows s ! i = Race g k \<Longrightarrow>
    run_flow (k (Inl TIMEOUT)) s = (p', s') \<Longrightarrow>
    flow_step i s (s'\<lparr>flows := (flows s)[i := p'], detached := detached s @ [g]\<rparr>)"

inductive hook_step :: "(jstr \<Rightarrow> jstr) \<Rightarrow> hook_state \<Rightarrow> hook_state \<Rightarrow> bool" for num where
  hook_event: "run_flow (handle_event num event) s = (p, s') \<Longrightarrow> hook_step num s (s'\<lparr>flows := flows s @ [p]\<rparr>)"
| hook_flow: "flow_step i s s' \<Longrightarrow> hook_step num s s'"
| hook_detached: "j < length (detached s) \<Longrightarrow> answered (detached s ! j) h \<Longrightarrow> run_generator h s = (h', s') \<Longrightarrow>
    hook_step num s (s'\<lparr>detached := (detached s)[j := h']\<rparr>)"

definition hook_init :: "hook_state \<Rightarrow> bool" where
  "hook_init s \<longleftrightarrow> s = \<lparr>vars = \<lparr>busy = False, internalSessions = {}\<rparr>, flows = [], detached = [], git_log = [], call_log = []\<rparr>"

section \<open>The specification: one commit at a time\<close>

text \<open>
  The abstract view of the hook knows the commands given to \<open>git\<close> so far and how far the
  running commit has come. A run starts when none is running, gives the commands in a fixed
  order, each at most once, may stop after any of them, and commits with a proper subject line
  and the footer.
\<close>

fun stage_of :: "git_cmd \<Rightarrow> nat" where
  "stage_of RevParse = 0"
| "stage_of AddUpdate = 1"
| "stage_of NameOnly = 2"
| "stage_of CachedDiff = 3"
| "stage_of ShortStat = 4"
| "stage_of (Commit s b) = 5"

definition git_ok :: "nat \<Rightarrow> git_cmd \<Rightarrow> bool" where
  "git_ok n c \<longleftrightarrow> stage_of c = n \<and>
     (case c of Commit s b \<Rightarrow> subject_ok s \<and> (\<exists>x. b = x @ footer) | _ \<Rightarrow> True)"

record spec_state =
  spec_git :: "git_cmd list"
  running :: "nat option"

inductive spec_step :: "spec_state \<Rightarrow> spec_state \<Rightarrow> bool" where
  spec_start: "running a = None \<Longrightarrow> spec_step a (a\<lparr>running := Some 0\<rparr>)"
| spec_command: "running a = Some n \<Longrightarrow> git_ok n c \<Longrightarrow>
    spec_step a (a\<lparr>spec_git := spec_git a @ [c], running := Some (Suc n)\<rparr>)"
| spec_stop: "running a = Some n \<Longrightarrow> spec_step a (a\<lparr>running := None\<rparr>)"

definition spec_init :: "spec_state \<Rightarrow> bool" where
  "spec_init a \<longleftrightarrow> a = \<lparr>spec_git = [], running = None\<rparr>"

section \<open>Programs that keep to it\<close>

text \<open>
  \<open>quiet\<close>: gives no command to \<open>git\<close> and leaves \<open>busy\<close> alone. \<open>yields Q\<close>: every result
  satisfies \<open>Q\<close>. \<open>stages\<close>: from stage \<open>n\<close> on gives the commands in order and ends as \<open>Q\<close> says.
  \<open>holding\<close>: does so with \<open>busy\<close> set, and always resets it in the end. \<open>calm\<close>: quiet, until it
  may set \<open>busy\<close>, if it is not set, and then holds it.
\<close>

primrec quiet :: "('g, 'a) prog \<Rightarrow> bool" where
  "quiet (Return v) = True"
| "quiet (Throw e) = True"
| "quiet (Shell c k) = False"
| "quiet (Client c k) = (\<forall>r. quiet (k r))"
| "quiet (Access g) = (\<forall>s. case map_prod id quiet (g s) of (s', q) \<Rightarrow> busy s' = busy s \<and> q)"
| "quiet (Race g k) = False"

primrec yields :: "('g, 'a) prog \<Rightarrow> ('a \<Rightarrow> bool) \<Rightarrow> bool" where
  "yields (Return v) Q = Q v"
| "yields (Throw e) Q = True"
| "yields (Shell c k) Q = (\<forall>r. yields (k r) Q)"
| "yields (Client c k) Q = (\<forall>r. yields (k r) Q)"
| "yields (Access g) Q = (\<forall>s. case map_prod id yields (g s) of (s', y) \<Rightarrow> y Q)"
| "yields (Race g k) Q = (\<forall>r. yields (k r) Q)"

definition good_message :: "message option \<Rightarrow> bool" where
  "good_message m \<longleftrightarrow> (case m of None \<Rightarrow> True | Some m \<Rightarrow> subject_ok (subject m))"

definition good_outcome :: "jstr + message option \<Rightarrow> bool" where
  "good_outcome r \<longleftrightarrow> (case r of Inl e \<Rightarrow> True | Inr m \<Rightarrow> good_message m)"

abbreviation good_generator :: "generator \<Rightarrow> bool" where
  "good_generator g \<equiv> quiet g \<and> yields g good_message"

primrec stages :: "(generator, 'a) prog \<Rightarrow> nat \<Rightarrow> (jstr + 'a \<Rightarrow> nat \<Rightarrow> bool) \<Rightarrow> bool" where
  "stages (Return v) n Q = Q (Inr v) n"
| "stages (Throw e) n Q = Q (Inl e) n"
| "stages (Shell c k) n Q = (git_ok n c \<and> (\<forall>r. stages (k r) (Suc n) Q))"
| "stages (Client c k) n Q = (\<forall>r. stages (k r) n Q)"
| "stages (Access g) n Q = (\<forall>s. case map_prod id stages (g s) of (s', h) \<Rightarrow> busy s' = busy s \<and> h n Q)"
| "stages (Race g k) n Q = (good_generator g \<and> (\<forall>r. good_outcome r \<longrightarrow> stages (k r) n Q))"

primrec holding :: "(generator, 'a) prog \<Rightarrow> nat \<Rightarrow> bool" where
  "holding (Return v) n = False"
| "holding (Throw e) n = False"
| "holding (Shell c k) n = (git_ok n c \<and> (\<forall>r. holding (k r) (Suc n)))"
| "holding (Client c k) n = (\<forall>r. holding (k r) n)"
| "holding (Access g) n = (\<forall>s. busy s \<longrightarrow>
     (case map_prod id (\<lambda>p. (quiet p, holding p)) (g s) of (s', q, h) \<Rightarrow> if busy s' then h n else q))"
| "holding (Race g k) n = (good_generator g \<and> (\<forall>r. good_outcome r \<longrightarrow> holding (k r) n))"

primrec calm :: "(generator, 'a) prog \<Rightarrow> bool" where
  "calm (Return v) = True"
| "calm (Throw e) = True"
| "calm (Shell c k) = False"
| "calm (Client c k) = (\<forall>r. calm (k r))"
| "calm (Access g) = (\<forall>s. case map_prod id (\<lambda>p. (calm p, holding p)) (g s) of
     (s', c, h) \<Rightarrow> busy s' = busy s \<and> c \<or> \<not> busy s \<and> busy s' \<and> h 0)"
| "calm (Race g k) = False"

lemma access_simps:
  "settle (Access f) s = settle (snd (f s)) (fst (f s))"
  "quiet (Access g) \<longleftrightarrow> (\<forall>s. busy (fst (g s)) = busy s \<and> quiet (snd (g s)))"
  "yields (Access g') Q \<longleftrightarrow> (\<forall>s. yields (snd (g' s)) Q)"
  "stages (Access h) n R \<longleftrightarrow> (\<forall>s. busy (fst (h s)) = busy s \<and> stages (snd (h s)) n R)"
  "holding (Access h) n \<longleftrightarrow>
     (\<forall>s. busy s \<longrightarrow> (if busy (fst (h s)) then holding (snd (h s)) n else quiet (snd (h s))))"
  "calm (Access h) \<longleftrightarrow> (\<forall>s. busy (fst (h s)) = busy s \<and> calm (snd (h s)) \<or>
     \<not> busy s \<and> busy (fst (h s)) \<and> holding (snd (h s)) 0)"
  by (simp_all add: split_beta)

declare settle.simps(5) [simp del] quiet.simps(5) [simp del] yields.simps(5) [simp del]
  stages.simps(5) [simp del] holding.simps(5) [simp del] calm.simps(5) [simp del]
declare access_simps [simp]

lemma quiet_calm: "quiet p \<Longrightarrow> calm p"
  by (induction p rule: prog_induct) auto

lemma quiet_bind: "quiet m \<Longrightarrow> (\<And>v. quiet (f v)) \<Longrightarrow> quiet (bind m f)"
  by (induction m rule: prog_induct) auto

lemma quiet_catch: "quiet m \<Longrightarrow> (\<And>e. quiet (h e)) \<Longrightarrow> quiet (catch m h)"
  by (induction m rule: prog_induct) auto

lemma yields_bind: "(\<And>v. yields (f v) Q) \<Longrightarrow> yields (bind m f) Q"
  by (induction m rule: prog_induct) auto

lemma yields_bind_strong: "yields m P \<Longrightarrow> (\<And>v. P v \<Longrightarrow> yields (f v) Q) \<Longrightarrow> yields (bind m f) Q"
  by (induction m rule: prog_induct) auto

lemma yields_catch: "yields m Q \<Longrightarrow> (\<And>e. yields (h e) Q) \<Longrightarrow> yields (catch m h) Q"
  by (induction m rule: prog_induct) auto

lemma stages_bind:
  "stages (bind m f) n Q \<longleftrightarrow> stages m n (\<lambda>r n. case r of Inl e \<Rightarrow> Q (Inl e) n | Inr v \<Rightarrow> stages (f v) n Q)"
  by (induction m arbitrary: n rule: prog_induct) auto

lemma stages_catch:
  "stages (catch m h) n Q \<longleftrightarrow> stages m n (\<lambda>r n. case r of Inl e \<Rightarrow> stages (h e) n Q | Inr v \<Rightarrow> Q (Inr v) n)"
  by (induction m arbitrary: n rule: prog_induct) auto

lemma stages_mono: "stages m n P \<Longrightarrow> (\<And>r n. P r n \<Longrightarrow> Q r n) \<Longrightarrow> stages m n Q"
  by (induction m arbitrary: n rule: prog_induct) auto

lemma holding_bind:
  "stages m n (\<lambda>r n. case r of Inl e \<Rightarrow> False | Inr v \<Rightarrow> holding (f v) n) \<Longrightarrow> holding (bind m f) n"
  by (induction m arbitrary: n rule: prog_induct) auto

lemma calm_bind: "quiet m \<Longrightarrow> (\<And>v. calm (f v)) \<Longrightarrow> calm (bind m f)"
  by (induction m rule: prog_induct) auto

section \<open>The plugin keeps to it\<close>

lemma quiet_await_client: "quiet (await_client c)"
  by (simp add: await_client_def split: sum.splits)

lemma quiet_log: "quiet (log l msg)"
  unfolding log_def by (intro quiet_catch quiet_bind quiet_await_client) simp_all

lemma stages_log: "stages (log l msg) n Q \<longleftrightarrow> Q (Inr ()) n"
  by (simp add: log_def stages_catch stages_bind await_client_def split_sum_all)

lemma stages_shell:
  "stages (await_shell c) n Q \<longleftrightarrow> git_ok n c \<and> (\<forall>r. Q r (Suc n))"
  by (simp add: await_shell_def split_sum_all)

lemma yields_finally:
  assumes "yields m Q"
  shows "yields (finally_do m f) Q"
proof -
  have "yields (catch (bind m (\<lambda>v. Return (Inr v))) (\<lambda>e. Return (Inl e))) (case_sum (\<lambda>_. True) Q)"
    using assms by (intro yields_catch yields_bind_strong) auto
  then show ?thesis unfolding finally_do_def
    by (rule yields_bind_strong) (auto intro: yields_bind split: sum.splits)
qed

lemma good_generateCommitMessage: "good_generator (generateCommitMessage num diff files)"
proof
  show "quiet (generateCommitMessage num diff files)"
    unfolding generateCommitMessage_def Let_def
    by (intro quiet_bind quiet_await_client)
      (auto simp: finally_do_def intro!: quiet_bind quiet_catch quiet_await_client split: sum.splits)
  have "good_message (extractMessage num r)" for r
    using extractMessage_ok by (auto simp: good_message_def split: option.splits)
  then show "yields (generateCommitMessage num diff files) good_message"
    unfolding generateCommitMessage_def Let_def
    by (intro yields_bind) (auto intro!: yields_finally yields_bind)
qed

lemma stages_ask:
  "(\<And>m. good_message m \<Longrightarrow> Q (Inr m) n) \<Longrightarrow> stages (ask_message num diff files) n Q"
  by (auto simp: ask_message_def await_race_def stages_catch stages_bind stages_log good_generateCommitMessage
      good_outcome_def good_message_def split: sum.splits option.splits)

lemma stages_do_commit:
  "subject_ok (subject m) \<Longrightarrow> (\<And>r n. Q r n) \<Longrightarrow> stages (do_commit files m) 5 Q"
  by (auto simp: do_commit_def stages_bind stages_shell stages_log git_ok_def commit_body_def split: sum.splits)

lemma stages_commit_flow: "stages (commit_flow num) 0 (\<lambda>_ _. True)"
  by (auto simp: commit_flow_def Let_def stages_bind stages_shell stages_log git_ok_def numeral_eq_Suc good_message_def
      fallbackMessage_ok split: sum.splits option.splits prod.splits
      intro!: stages_ask stages_do_commit [unfolded numeral_eq_Suc, simplified])

lemma holding_guarded_flow: "holding (guarded_flow num) 0"
  unfolding guarded_flow_def finally_do_def
  by (rule holding_bind)
    (auto simp: stages_catch stages_bind stages_log release_def split: sum.splits
      intro!: stages_mono [OF stages_commit_flow])

lemma calm_handle_event: "calm (handle_event num event)"
  unfolding handle_event_def Let_def
  using quiet_calm [OF quiet_log] by (auto intro!: calm_bind quiet_log simp: holding_guarded_flow)

section \<open>The simulation\<close>

lemma settle_quiet:
  "quiet p \<Longrightarrow> settle p v = (v', p') \<Longrightarrow>
     busy v' = busy v \<and> quiet p' \<and> fst (issued p') = [] \<and> (\<forall>g k. p' \<noteq> Race g k)"
  by (induction p arbitrary: v rule: prog_induct) auto

lemma settle_yields: "yields p Q \<Longrightarrow> settle p v = (v', p') \<Longrightarrow> yields p' Q"
  by (induction p arbitrary: v rule: prog_induct) auto

text \<open>A flow that rests while it holds \<open>busy\<close>; what it waits for has been issued.\<close>

definition waiting :: "flow \<Rightarrow> nat \<Rightarrow> bool" where
  "waiting p n \<longleftrightarrow>
     (case p of
        Shell c k \<Rightarrow> \<forall>r. holding (k r) n
      | Client c k \<Rightarrow> \<forall>r. holding (k r) n
      | Race g k \<Rightarrow> good_generator g \<and> (\<forall>r. good_outcome r \<longrightarrow> holding (k r) n)
      | _ \<Rightarrow> False)"

lemma settle_holding:
  "holding p n \<Longrightarrow> busy v \<Longrightarrow> settle p v = (v', p') \<Longrightarrow>
     if busy v' then holding p' n \<and> (\<forall>g. p' \<noteq> Access g) else quiet p' \<and> fst (issued p') = [] \<and> (\<forall>g k. p' \<noteq> Race g k)"
proof (induction p arbitrary: v rule: prog_induct)
  case (Access g)
  show ?case
  proof (cases "busy (fst (g v))")
    case True
    with Access.prems have "holding (snd (g v)) n" by auto
    from Access.IH [OF this True] Access.prems(3) show ?thesis by simp
  next
    case False
    with Access.prems have "quiet (snd (g v))" by auto
    with False Access.prems show ?thesis using settle_quiet [of "snd (g v)" "fst (g v)" v' p'] by auto
  qed
qed auto

lemma settle_calm:
  "calm p \<Longrightarrow> settle p v = (v', p') \<Longrightarrow>
     busy v' = busy v \<and> calm p' \<and> fst (issued p') = [] \<and> (\<forall>g k. p' \<noteq> Race g k) \<or>
     \<not> busy v \<and> busy v' \<and> holding p' 0 \<and> (\<forall>g. p' \<noteq> Access g)"
proof (induction p arbitrary: v rule: prog_induct)
  case (Access g)
  show ?case
  proof (cases "busy (fst (g v)) = busy v \<and> calm (snd (g v))")
    case True
    with Access show ?thesis by auto
  next
    case False
    with Access.prems have "\<not> busy v" "busy (fst (g v))" "holding (snd (g v)) 0" by auto
    then show ?thesis
      using settle_holding [of "snd (g v)" 0 "fst (g v)" v' p'] Access.prems(2) quiet_calm [of p']
      by (auto split: if_splits)
  qed
qed auto

lemma noting_simps [simp]:
  "vars (noting p s) = vars s" "flows (noting p s) = flows s" "detached (noting p s) = detached s"
  "git_log (noting p s) = git_log s @ fst (issued p)"
  by (simp_all add: noting_def)

lemma run_flow_plain:
  "settle p (vars s) = (v, q) \<Longrightarrow> \<forall>g k. q \<noteq> Race g k \<Longrightarrow> run_flow p s = (q, noting q (s\<lparr>vars := v\<rparr>))"
  by (cases q) (simp_all add: run_flow_def)

lemma run_flow_race:
  "settle p (vars s) = (v, Race g k) \<Longrightarrow> settle g v = (v', g') \<Longrightarrow>
     run_flow p s = (Race g' k, noting g' (s\<lparr>vars := v'\<rparr>))"
  by (simp add: run_flow_def)

lemma run_generator_good:
  assumes "good_generator g" and "run_generator g s = (g', s')"
  shows "good_generator g' \<and> busy (vars s') = busy (vars s) \<and> git_log s' = git_log s \<and>
    flows s' = flows s \<and> detached s' = detached s"
proof -
  obtain v h where h: "settle g (vars s) = (v, h)" by (cases "settle g (vars s)")
  then have "g' = h" "s' = noting h (s\<lparr>vars := v\<rparr>)" using assms(2) by (auto simp: run_generator_def)
  with settle_quiet [OF conjunct1 [OF assms(1)] h] settle_yields [OF conjunct2 [OF assms(1)] h] show ?thesis by simp
qed

text \<open>A program that holds \<open>busy\<close> runs on: the specification can follow.\<close>

definition follows :: "spec_state \<Rightarrow> flow \<Rightarrow> hook_state \<Rightarrow> bool" where
  "follows a p s \<longleftrightarrow> spec_git a = git_log s \<and>
     (case running a of
        None \<Rightarrow> \<not> busy (vars s) \<and> calm p
      | Some n \<Rightarrow> busy (vars s) \<and> waiting p n)"

lemma run_holding:
  assumes "holding p n" and "busy (vars s)" and "run_flow p s = (p', s')"
    and "spec_git a = git_log s" and "running a = Some n"
  shows "\<exists>a'. spec_step\<^sup>*\<^sup>* a a' \<and> follows a' p' s' \<and> flows s' = flows s \<and> detached s' = detached s"
proof -
  obtain v q where q: "settle p (vars s) = (v, q)" by (cases "settle p (vars s)")
  note sh = settle_holding [OF assms(1,2) q]
  show ?thesis
  proof (cases "busy v")
    case False
    with sh have sq: "quiet q" "fst (issued q) = []" "\<forall>g k. q \<noteq> Race g k" by auto
    have "p' = q" "s' = noting q (s\<lparr>vars := v\<rparr>)" using run_flow_plain [OF q sq(3)] assms(3) by auto
    moreover have "spec_step a (a\<lparr>running := None\<rparr>)" using assms(5) by (rule spec_stop)
    ultimately show ?thesis using False sq assms(4) quiet_calm [of q]
      by (intro exI [of _ "a\<lparr>running := None\<rparr>"]) (auto simp: follows_def)
  next
    case True
    with sh have h: "holding q n" "\<forall>g. q \<noteq> Access g" by auto
    show ?thesis
    proof (cases q)
      case (Shell c k)
      with h assms(5) have "spec_step a (a\<lparr>spec_git := spec_git a @ [c], running := Some (Suc n)\<rparr>)"
        by (intro spec_command) auto
      moreover have "p' = q" "s' = noting q (s\<lparr>vars := v\<rparr>)" using run_flow_plain [OF q] assms(3) Shell by auto
      ultimately show ?thesis using True h Shell assms(4)
        by (intro exI [of _ "a\<lparr>spec_git := spec_git a @ [c], running := Some (Suc n)\<rparr>"])
          (auto simp: follows_def waiting_def)
    next
      case (Race g k)
      with h have g: "good_generator g" by simp
      obtain v' g' where g': "settle g v = (v', g')" by (cases "settle g v")
      have "good_generator g'" "busy v'" "fst (issued g') = []"
        using settle_quiet [OF conjunct1 [OF g] g'] settle_yields [OF conjunct2 [OF g] g'] True by auto
      moreover have "p' = Race g' k" "s' = noting g' (s\<lparr>vars := v'\<rparr>)"
        using run_flow_race [OF q [unfolded Race] g'] assms(3) by auto
      ultimately show ?thesis using h Race assms(4,5)
        by (intro exI [of _ a]) (auto simp: follows_def waiting_def)
    next
      case (Client c k)
      have "p' = q" "s' = noting q (s\<lparr>vars := v\<rparr>)" using run_flow_plain [OF q] assms(3) Client by auto
      then show ?thesis using True h Client assms(4,5)
        by (intro exI [of _ a]) (auto simp: follows_def waiting_def)
    qed (use h in auto)
  qed
qed

lemma settle_idem: "settle p v = (v', q) \<Longrightarrow> settle q v' = (v', q)"
  by (induction p arbitrary: v rule: prog_induct) auto

lemma run_flow_settle: "settle p (vars s) = (v, q) \<Longrightarrow> run_flow p s = run_flow q (s\<lparr>vars := v\<rparr>)"
  using settle_idem [of p "vars s" v q] by (simp add: run_flow_def)

lemma run_calm_busy:
  assumes "calm p" and "busy (vars s)" and "run_flow p s = (p', s')"
  shows "calm p' \<and> busy (vars s') \<and> git_log s' = git_log s \<and> flows s' = flows s \<and> detached s' = detached s"
proof -
  obtain v q where q: "settle p (vars s) = (v, q)" by (cases "settle p (vars s)")
  from settle_calm [OF assms(1) q] assms(2)
  have sq: "busy v" "calm q" "fst (issued q) = []" "\<forall>g k. q \<noteq> Race g k" by auto
  with run_flow_plain [OF q sq(4)] assms(3) show ?thesis by auto
qed

lemma run_calm:
  assumes "calm p" and "\<not> busy (vars s)" and "run_flow p s = (p', s')"
    and "spec_git a = git_log s" and "running a = None"
  shows "\<exists>a'. spec_step\<^sup>*\<^sup>* a a' \<and> follows a' p' s' \<and> flows s' = flows s \<and> detached s' = detached s"
proof -
  obtain v q where q: "settle p (vars s) = (v, q)" by (cases "settle p (vars s)")
  show ?thesis
  proof (cases "busy v")
    case False
    with settle_calm [OF assms(1) q] have sq: "calm q" "fst (issued q) = []" "\<forall>g k. q \<noteq> Race g k" by auto
    with run_flow_plain [OF q sq(3)] assms False show ?thesis by (intro exI [of _ a]) (auto simp: follows_def)
  next
    case True
    with settle_calm [OF assms(1) q] assms(2) have "holding q 0" by auto
    from run_holding [OF this, of "s\<lparr>vars := v\<rparr>" p' s' "a\<lparr>running := Some 0\<rparr>"] True assms(3,4) run_flow_settle [OF q]
    obtain a' where "spec_step\<^sup>*\<^sup>* (a\<lparr>running := Some 0\<rparr>) a'" "follows a' p' s'" "flows s' = flows s"
        "detached s' = detached s"
      by auto
    moreover have "spec_step a (a\<lparr>running := Some 0\<rparr>)" using assms(5) by (rule spec_start)
    ultimately show ?thesis by (meson converse_rtranclp_into_rtranclp)
  qed
qed

text \<open>The simulation: one flow, its owner, holds \<open>busy\<close> exactly while the specification runs.\<close>

definition owner :: "flow list \<Rightarrow> nat \<Rightarrow> nat \<Rightarrow> bool" where
  "owner fs n i \<longleftrightarrow> i < length fs \<and> waiting (fs ! i) n \<and> (\<forall>j<length fs. j \<noteq> i \<longrightarrow> calm (fs ! j))"

definition simulates :: "hook_state \<Rightarrow> spec_state \<Rightarrow> bool" where
  "simulates s a \<longleftrightarrow> spec_git a = git_log s \<and> (\<forall>g\<in>set (detached s). good_generator g) \<and>
     (case running a of
        None \<Rightarrow> \<not> busy (vars s) \<and> (\<forall>f\<in>set (flows s). calm f)
      | Some n \<Rightarrow> busy (vars s) \<and> (\<exists>i. owner (flows s) n i))"

definition may_run :: "hook_state \<Rightarrow> spec_state \<Rightarrow> nat \<Rightarrow> flow \<Rightarrow> bool" where
  "may_run s a i q \<longleftrightarrow>
     (case running a of
        None \<Rightarrow> calm q
      | Some n \<Rightarrow> \<exists>w. owner (flows s) n w \<and> (if i = w then holding q n else calm q))"

lemma follows_simulates:
  assumes "follows a p s" and "i < length fs" and "fs ! i = p"
    and "\<And>j. j < length fs \<Longrightarrow> j \<noteq> i \<Longrightarrow> calm (fs ! j)" and "\<forall>g\<in>set gs. good_generator g"
  shows "simulates (s\<lparr>flows := fs, detached := gs\<rparr>) a"
proof (cases "running a")
  case None
  with assms(1,3) have "calm (fs ! i)" by (simp add: follows_def)
  with assms(4) have "\<forall>f\<in>set fs. calm f" by (metis in_set_conv_nth)
  with None assms(1,5) show ?thesis by (simp add: simulates_def follows_def)
next
  case (Some n)
  with assms(1-4) have "owner fs n i" by (simp add: follows_def owner_def)
  with Some assms(1,5) show ?thesis by (auto simp: simulates_def follows_def)
qed

lemma resume_simulates:
  assumes "simulates s a" and "may_run s a i q" and "run_flow q s = (p', s')"
    and fs: "i < length fs" "fs ! i = p'" "length (flows s) \<le> length fs"
      "\<forall>j<length fs. j \<noteq> i \<longrightarrow> j < length (flows s) \<and> fs ! j = flows s ! j"
    and gs: "\<forall>g\<in>set gs. good_generator g"
  shows "\<exists>a'. spec_step\<^sup>*\<^sup>* a a' \<and> simulates (s'\<lparr>flows := fs, detached := detached s @ gs\<rparr>) a'"
proof (cases "running a")
  have good: "\<forall>g\<in>set (detached s @ gs). good_generator g" using assms(1) gs by (auto simp: simulates_def)
  case None
  with assms(1,2) have pre: "calm q" "\<not> busy (vars s)" "\<forall>f\<in>set (flows s). calm f" "spec_git a = git_log s"
    by (auto simp: simulates_def may_run_def)
  from run_calm [OF pre(1,2) assms(3) pre(4) None]
  obtain a' where a': "spec_step\<^sup>*\<^sup>* a a'" "follows a' p' s'" by blast
  have "calm (fs ! j)" if "j < length fs" "j \<noteq> i" for j using that fs(4) pre(3) by auto
  with follows_simulates [OF a'(2) fs(1,2) _ good] a'(1) show ?thesis by blast
next
  have good: "\<forall>g\<in>set (detached s @ gs). good_generator g" using assms(1) gs by (auto simp: simulates_def)
  case (Some n)
  with assms(1,2) obtain w where w: "owner (flows s) n w" "if i = w then holding q n else calm q" "busy (vars s)"
      "spec_git a = git_log s"
    by (auto simp: simulates_def may_run_def)
  show ?thesis
  proof (cases "i = w")
    case True
    with w have "holding q n" by simp
    from run_holding [OF this w(3) assms(3) w(4) Some]
    obtain a' where a': "spec_step\<^sup>*\<^sup>* a a'" "follows a' p' s'" by blast
    have "calm (fs ! j)" if "j < length fs" "j \<noteq> i" for j using that fs(4) w(1) True by (auto simp: owner_def)
    with follows_simulates [OF a'(2) fs(1,2) _ good] a'(1) show ?thesis by blast
  next
    case False
    with w have "calm q" by simp
    from run_calm_busy [OF this w(3) assms(3)] have r: "calm p'" "busy (vars s')" "git_log s' = git_log s" by auto
    have "calm (fs ! j)" if "j < length fs" "j \<noteq> w" for j
      using that fs r(1) w(1) by (cases "j = i") (auto simp: owner_def)
    moreover have "w < length fs" "fs ! w = flows s ! w" using fs(3,4) w(1) False by (auto simp: owner_def)
    ultimately have "owner fs n w" using w(1) by (auto simp: owner_def)
    with r assms(1) gs Some show ?thesis by (intro exI [of _ a]) (auto simp: simulates_def)
  qed
qed

lemma calm_answered: "calm p \<Longrightarrow> answered p q \<Longrightarrow> calm q"
  by (auto elim: answered.cases)

lemma waiting_answered: "waiting p n \<Longrightarrow> answered p q \<Longrightarrow> holding q n"
  by (auto simp: waiting_def elim: answered.cases)

lemma good_answered: "good_generator g \<Longrightarrow> answered g h \<Longrightarrow> good_generator h"
  by (auto elim: answered.cases)

lemma answered_may_run:
  assumes "simulates s a" and "i < length (flows s)" and "answered (flows s ! i) q"
  shows "may_run s a i q"
proof (cases "running a")
  case None
  with assms(1,2) have "calm (flows s ! i)" by (simp add: simulates_def)
  with None calm_answered [OF _ assms(3)] show ?thesis by (simp add: may_run_def)
next
  case (Some n)
  with assms(1) obtain w where w: "owner (flows s) n w" by (auto simp: simulates_def)
  with assms(2,3) have "if i = w then holding q n else calm q"
    using waiting_answered [OF _ assms(3)] calm_answered [OF _ assms(3)] by (auto simp: owner_def)
  with w Some show ?thesis by (auto simp: may_run_def)
qed

text \<open>Only the owner races.\<close>

lemma race_owner:
  assumes "simulates s a" and "i < length (flows s)" and "flows s ! i = Race g k"
  obtains n where "running a = Some n" "owner (flows s) n i" "good_generator g"
    "\<And>r. good_outcome r \<Longrightarrow> holding (k r) n"
proof -
  have nc: "\<not> calm (flows s ! i)" using assms(3) by simp
  with assms(1,2) obtain n w where n: "running a = Some n" "owner (flows s) n w"
    by (auto simp: simulates_def split: option.splits)
  with nc assms(2) have "w = i" by (auto simp: owner_def)
  with n assms(3) that show thesis by (auto simp: owner_def waiting_def)
qed

lemma race_may_run:
  assumes "simulates s a" and "i < length (flows s)" and "flows s ! i = Race g k" and "good_outcome r"
  shows "may_run s a i (k r)"
  by (rule race_owner [OF assms(1-3)]) (use assms(4) in \<open>auto simp: may_run_def\<close>)

lemma run_flow_frame: "run_flow q s = (p', s') \<Longrightarrow> flows s' = flows s \<and> detached s' = detached s"
  by (auto simp: run_flow_def Let_def split: prod.splits prog.splits)

lemma resume_update:
  assumes "simulates s a" and "may_run s a i q" and "run_flow q s = (p', s')" and "i < length (flows s)"
    and "\<forall>g\<in>set gs. good_generator g"
  shows "\<exists>a'. spec_step\<^sup>*\<^sup>* a a' \<and> simulates (s'\<lparr>flows := (flows s)[i := p'], detached := detached s @ gs\<rparr>) a'"
  by (rule resume_simulates [OF assms(1-3)]) (use assms(4,5) in auto)

lemma detached_same: "detached s' = d \<Longrightarrow> s'\<lparr>flows := fs, detached := d\<rparr> = s'\<lparr>flows := fs\<rparr>"
  by simp

lemma resume_here:
  assumes "simulates s a" and "may_run s a i q" and "run_flow q s = (p', s')" and "i < length (flows s)"
  shows "\<exists>a'. spec_step\<^sup>*\<^sup>* a a' \<and> simulates (s'\<lparr>flows := (flows s)[i := p']\<rparr>) a'"
  using resume_update [OF assms, of "[]"] run_flow_frame [OF assms(3)] by (simp add: detached_same)

lemma race_answer_simulates:
  assumes "simulates s a" and "i < length (flows s)" and "flows s ! i = Race g k" and "answered g h"
    and "run_generator h s = (h', s')"
  shows "simulates (s'\<lparr>flows := (flows s)[i := Race h' k]\<rparr>) a"
proof (rule race_owner [OF assms(1-3)])
  fix n
  assume n: "running a = Some n" "owner (flows s) n i" "good_generator g" "\<And>r. good_outcome r \<Longrightarrow> holding (k r) n"
  from run_generator_good [OF good_answered [OF n(3) assms(4)] assms(5)]
  have h: "good_generator h'" "busy (vars s') = busy (vars s)" "git_log s' = git_log s" "detached s' = detached s"
    by auto
  have "owner ((flows s)[i := Race h' k]) n i" using n(2,4) h(1) by (auto simp: owner_def waiting_def)
  then show ?thesis using assms(1) n(1) h by (auto simp: simulates_def)
qed

lemma flow_step_simulates:
  assumes "flow_step i s t" and "simulates s a"
  shows "\<exists>a'. spec_step\<^sup>*\<^sup>* a a' \<and> simulates t a'"
  using assms
proof (induction rule: flow_step.induct)
  case (flow_answer i s q p' s')
  then show ?case using resume_here answered_may_run by blast
next
  case (race_answer i s g k h h' s')
  then show ?case using race_answer_simulates by blast
next
  case (race_return i s m k p' s')
  then have "good_message m" using race_owner by fastforce
  then have "may_run s a i (k (Inr m))"
    using race_may_run [OF race_return.prems race_return.hyps(1,2)] by (simp add: good_outcome_def)
  then show ?case using resume_here race_return by blast
next
  case (race_throw i s e k p' s')
  then have "may_run s a i (k (Inl e))" using race_may_run by (simp add: good_outcome_def)
  then show ?case using resume_here race_throw by blast
next
  case (race_timeout i s g k p' s')
  then have "may_run s a i (k (Inl TIMEOUT))" using race_may_run by (simp add: good_outcome_def)
  moreover have "good_generator g" using race_owner race_timeout by blast
  ultimately show ?case
    using resume_update [OF race_timeout.prems _ race_timeout.hyps(3,1), of "[g]"] by simp
qed

lemma new_may_run:
  assumes "simulates s a"
  shows "may_run s a (length (flows s)) (handle_event num event)"
proof (cases "running a")
  case None
  then show ?thesis by (simp add: may_run_def calm_handle_event)
next
  case (Some n)
  with assms obtain w where w: "owner (flows s) n w" by (auto simp: simulates_def)
  then have "length (flows s) \<noteq> w" by (auto simp: owner_def)
  with Some w show ?thesis by (auto simp: may_run_def calm_handle_event)
qed

lemma hook_step_simulates:
  assumes "hook_step num s t" and "simulates s a"
  shows "\<exists>a'. spec_step\<^sup>*\<^sup>* a a' \<and> simulates t a'"
  using assms
proof (induction rule: hook_step.induct)
  case (hook_event event s p s')
  have "may_run s a (length (flows s)) (handle_event num event)"
    using hook_event.prems by (rule new_may_run)
  from resume_simulates [OF hook_event.prems this hook_event.hyps, of "flows s @ [p]" "[]"]
  show ?case using run_flow_frame [OF hook_event.hyps] by (auto simp: nth_append detached_same)
next
  case (hook_flow i s s')
  then show ?case by (rule flow_step_simulates)
next
  case (hook_detached j s h h' s')
  then have "good_generator (detached s ! j)" by (auto simp: simulates_def)
  from run_generator_good [OF good_answered [OF this hook_detached.hyps(2)] hook_detached.hyps(3)] hook_detached
  have "simulates (s'\<lparr>detached := (detached s)[j := h']\<rparr>) a"
    by (auto simp: simulates_def dest: subsetD [OF set_update_subset_insert] split: option.splits)
  then show ?case by blast
qed

lemma hook_simulated:
  "reach hook_init (hook_step num) s \<Longrightarrow> \<exists>a. reach spec_init spec_step a \<and> simulates s a"
proof (induction rule: reach.induct)
  case (reach_init s)
  let ?a = "\<lparr>spec_git = [], running = None\<rparr>"
  have "reach spec_init spec_step ?a" by (rule reach.reach_init) (simp add: spec_init_def)
  moreover have "simulates s ?a" using reach_init by (simp add: simulates_def hook_init_def)
  ultimately show ?case by blast
next
  case (reach_step s t)
  then obtain a where a: "reach spec_init spec_step a" "simulates s a" by (elim exE conjE)
  obtain a' where a': "spec_step\<^sup>*\<^sup>* a a'" "simulates t a'"
    using hook_step_simulates [OF reach_step.hyps(2) a(2)] by (elim exE conjE)
  have "reach spec_init spec_step a'" using reach_rtranclp [OF a'(1) a(1)] .
  with a'(2) show ?case by (intro exI conjI)
qed

text \<open>What the specification allows: runs one after the other.\<close>

definition one_run :: "git_cmd list \<Rightarrow> bool" where
  "one_run cs \<longleftrightarrow> (\<forall>i<length cs. git_ok i (cs ! i))"

definition spec_inv :: "spec_state \<Rightarrow> bool" where
  "spec_inv a \<longleftrightarrow> (\<exists>runs cur. spec_git a = concat runs @ cur \<and> (\<forall>r\<in>set runs. one_run r) \<and> one_run cur \<and>
     running a = (if running a = None then None else Some (length cur)) \<and> (running a = None \<longrightarrow> cur = []))"

lemma one_run_snoc: "one_run cs \<Longrightarrow> git_ok (length cs) c \<Longrightarrow> one_run (cs @ [c])"
  by (auto simp: one_run_def nth_append less_Suc_eq)

lemma one_run_facts:
  assumes "one_run r"
  shows "length r \<le> 6" "map stage_of r = [0..<length r]"
    "Commit x y \<in> set r \<Longrightarrow> length x \<le> 100 \<and> 10 \<notin> set x \<and> (\<exists>z. y = z @ footer)"
proof -
  have "stage_of c \<noteq> 6" for c by (cases c) auto
  then have "\<not> 6 < length r" using assms by (auto simp: one_run_def git_ok_def)
  then show "length r \<le> 6" by simp
  show "map stage_of r = [0..<length r]"
    using assms by (intro nth_equalityI) (auto simp: one_run_def git_ok_def)
  assume "Commit x y \<in> set r"
  then obtain i where "git_ok i (Commit x y)" using assms by (metis in_set_conv_nth one_run_def)
  then show "length x \<le> 100 \<and> 10 \<notin> set x \<and> (\<exists>z. y = z @ footer)" by (auto simp: git_ok_def subject_ok_def)
qed

interpretation commit_spec: component spec_init spec_step spec_inv
proof
  fix a
  assume "spec_init a"
  then show "spec_inv a"
    unfolding spec_inv_def by (intro exI [of _ "[]"]) (auto simp: spec_init_def one_run_def)
next
  fix a b
  assume "spec_inv a" and "spec_step a b"
  then obtain runs cur where a: "spec_git a = concat runs @ cur" "\<forall>r\<in>set runs. one_run r" "one_run cur"
      "running a = None \<longrightarrow> cur = []" "running a \<noteq> None \<longrightarrow> running a = Some (length cur)"
    by (auto simp: spec_inv_def split: if_splits)
  from \<open>spec_step a b\<close> show "spec_inv b"
  proof cases
    case spec_start
    then show ?thesis using a unfolding spec_inv_def by (intro exI [of _ runs] exI [of _ cur]) auto
  next
    case (spec_command n c)
    then show ?thesis using a one_run_snoc [of cur c] unfolding spec_inv_def
      by (intro exI [of _ runs] exI [of _ "cur @ [c]"]) auto
  next
    case (spec_stop n)
    then show ?thesis using a unfolding spec_inv_def
      by (intro exI [of _ "runs @ [cur]"] exI [of _ "[]"]) (auto simp: one_run_def)
  qed
qed

section \<open>Releasing \<open>busy\<close>\<close>

text \<open>
  However the answers turn out, and whether the timer or the generator wins, flow \<open>i\<close> always has
  a next step and comes, after finitely many of its steps, to a state in which \<open>busy\<close> is reset.
\<close>

inductive will_release :: "nat \<Rightarrow> hook_state \<Rightarrow> bool" for i where
  released: "\<not> busy (vars s) \<Longrightarrow> will_release i s"
| releasing: "\<exists>s'. flow_step i s s' \<Longrightarrow> (\<And>s'. flow_step i s s' \<Longrightarrow> will_release i s') \<Longrightarrow> will_release i s"

text \<open>\<open>runs_out i p\<close>: wherever flow \<open>i\<close> goes on with \<open>p\<close> while it holds \<open>busy\<close>, it will release it.\<close>

definition runs_out :: "nat \<Rightarrow> flow \<Rightarrow> bool" where
  "runs_out i p \<longleftrightarrow> (\<forall>s p' s' d. i < length (flows s) \<longrightarrow> busy (vars s) \<longrightarrow> run_flow p s = (p', s') \<longrightarrow>
     will_release i (s'\<lparr>flows := (flows s)[i := p'], detached := d\<rparr>))"

lemma runs_outD:
  assumes "runs_out i p" and "i < length (flows s)" and "busy (vars s)" and "run_flow p s = (p', s')"
  shows "will_release i (s'\<lparr>flows := (flows s)[i := p']\<rparr>)"
  using assms detached_same [of s' "detached s'"] unfolding runs_out_def by metis

inductive_cases answeredE: "answered p q"

lemma answer_runs_out:
  assumes "i < length (flows s)" and "busy (vars s)" and "\<exists>q. answered (flows s ! i) q"
    and "\<And>q. answered (flows s ! i) q \<Longrightarrow> runs_out i q"
  shows "will_release i s"
proof (rule releasing)
  from assms(3) obtain q where "answered (flows s ! i) q" ..
  then show "\<exists>s'. flow_step i s s'" using flow_answer [OF assms(1)] by (metis surj_pair)
next
  have nr: "\<nexists>g k. flows s ! i = Race g k" using assms(3) by (auto elim: answeredE)
  fix t
  assume "flow_step i s t"
  then show "will_release i t"
    by cases (use nr assms(1,2,4) in \<open>auto intro: runs_outD\<close>)
qed

lemma race_runs_out:
  assumes "i < length (flows s)" and "busy (vars s)" and "flows s ! i = Race g k"
    and "\<And>r. good_outcome r \<Longrightarrow> runs_out i (k r)" and "good_generator g"
    and "\<And>h h' s'. answered g h \<Longrightarrow> run_generator h s = (h', s') \<Longrightarrow>
      will_release i (s'\<lparr>flows := (flows s)[i := Race h' k]\<rparr>)"
  shows "will_release i s"
proof (rule releasing)
  show "\<exists>s'. flow_step i s s'" using race_timeout [OF assms(1,3)] by (metis surj_pair)
next
  have k: "runs_out i (k (Inl e))" for e by (rule assms(4)) (simp add: good_outcome_def)
  fix t
  assume "flow_step i s t"
  then show "will_release i t"
  proof cases
    case (flow_answer p p' s')
    then show ?thesis using assms(3) by (auto elim: answeredE)
  next
    case (race_answer g' k' h h' s')
    then show ?thesis using assms(3,6) by auto
  next
    case (race_return m k' p' s')
    then have "runs_out i (k (Inr m))" using assms(3-5) by (simp add: good_outcome_def)
    from runs_outD [OF this assms(1,2)] race_return assms(3) show ?thesis by auto
  next
    case (race_throw e k' p' s')
    then show ?thesis using runs_outD [OF k assms(1,2)] assms(3) by auto
  next
    case (race_timeout g' k' p' s')
    then show ?thesis using k [of TIMEOUT] assms(1-3) by (auto simp: runs_out_def)
  qed
qed

lemma race_ends:
  assumes "i < length (flows s)" and "busy (vars s)" and "flows s ! i = Race g k"
    and "\<And>r. good_outcome r \<Longrightarrow> runs_out i (k r)" and "good_generator g" and "\<And>h. \<not> answered g h"
  shows "will_release i s"
  by (rule race_runs_out [OF assms(1-5)]) (use assms(6) in blast)+

lemma generator_runs_out:
  assumes "good_generator g" and "run_generator g s = (g', s')" and "i < length (flows s)" and "busy (vars s)"
    and k: "\<And>r. good_outcome r \<Longrightarrow> runs_out i (k r)"
  shows "will_release i (s'\<lparr>flows := (flows s)[i := Race g' k], detached := d\<rparr>)"
  using assms(1-4)
proof (induction g arbitrary: s d g' s' rule: prog_induct)
  case (Access f)
  have "run_generator (snd (f (vars s))) (s\<lparr>vars := fst (f (vars s))\<rparr>) = (g', s')"
    using Access.prems(2) by (simp add: run_generator_def)
  then show ?case using Access.IH [of "vars s" "s\<lparr>vars := fst (f (vars s))\<rparr>"] Access.prems by simp
next
  case (Client c kg)
  have s': "s' = noting (Client c kg) s" "g' = Client c kg" using Client.prems(2) by (auto simp: run_generator_def)
  define t where "t = s'\<lparr>flows := (flows s)[i := Race g' k], detached := d\<rparr>"
  have t: "i < length (flows t)" "busy (vars t)" "flows t ! i = Race (Client c kg) k"
    using Client.prems(3,4) s' by (simp_all add: t_def)
  have "will_release i t"
  proof (rule race_runs_out [OF t k Client.prems(1)])
    fix h h' t'
    assume h: "answered (Client c kg) h" and r: "run_generator h t = (h', t')"
    from h obtain x where x: "h = kg x" by (auto elim: answeredE)
    then have "good_generator h" using Client.prems(1) by simp
    from Client.IH [OF this [unfolded x] r [unfolded x] t(1,2), of "detached t'"]
    show "will_release i (t'\<lparr>flows := (flows t)[i := Race h' k]\<rparr>)" by simp
  qed
  then show ?case by (simp add: t_def)
next
  case (Return m)
  then have "s' = noting g' s" "g' = Return m" by (auto simp: run_generator_def)
  with Return.prems show ?case by (intro race_ends [where g = "Return m" and k = k, OF _ _ _ k]) (auto elim: answeredE)
next
  case (Throw e)
  then have "s' = noting g' s" "g' = Throw e" by (auto simp: run_generator_def)
  with Throw.prems show ?case by (intro race_ends [where g = "Throw e" and k = k, OF _ _ _ k]) (auto elim: answeredE)
qed simp_all

lemma holding_runs_out: "holding p n \<Longrightarrow> runs_out i p"
proof (induction p arbitrary: n rule: prog_induct)
  case (Shell c k)
  then have "runs_out i (k r)" for r using Shell.IH [of r "Suc n"] by simp
  then show ?case
    by (auto simp: runs_out_def [of i "Shell c k"] run_flow_def intro!: answer_runs_out shell_answer elim!: answeredE)
next
  case (Client c k)
  then have "runs_out i (k r)" for r using Client.IH [of r n] by simp
  then show ?case
    by (auto simp: runs_out_def [of i "Client c k"] run_flow_def intro!: answer_runs_out client_answer elim!: answeredE)
next
  case (Access g)
  show ?case unfolding runs_out_def
  proof (intro allI impI)
    fix s p' s' d
    assume s: "i < length (flows s)" "busy (vars s)" "run_flow (Access g) s = (p', s')"
    let ?v = "fst (g (vars s))" and ?p = "snd (g (vars s))"
    have r: "run_flow ?p (s\<lparr>vars := ?v\<rparr>) = (p', s')" using s(3) by (simp add: run_flow_def)
    show "will_release i (s'\<lparr>flows := (flows s)[i := p'], detached := d\<rparr>)"
    proof (cases "busy ?v")
      case True
      with Access.prems s(2) have "holding ?p n" by auto
      from Access.IH [OF this] have "runs_out i ?p" .
      with True s(1) r show ?thesis
        unfolding runs_out_def by (auto dest!: spec [of _ "s\<lparr>vars := ?v\<rparr>"])
    next
      case False
      with Access.prems s(2) have "quiet ?p" by auto
      moreover obtain v q where q: "settle ?p ?v = (v, q)" by (cases "settle ?p ?v")
      ultimately have sq: "busy v = busy ?v" "\<forall>g k. q \<noteq> Race g k" using settle_quiet by blast+
      have "settle ?p (vars (s\<lparr>vars := ?v\<rparr>)) = (v, q)" using q by simp
      from run_flow_plain [OF this sq(2)] r False sq(1) have "\<not> busy (vars s')" by auto
      then show ?thesis by (intro released) simp
    qed
  qed
next
  case (Race g k)
  then have k: "\<And>r. good_outcome r \<Longrightarrow> runs_out i (k r)" by auto
  show ?case unfolding runs_out_def
  proof (intro allI impI)
    fix s p' s' d
    assume s: "i < length (flows s)" "busy (vars s)" "run_flow (Race g k) s = (p', s')"
    then obtain g' where "run_generator g s = (g', s')" "p' = Race g' k"
      by (auto simp: run_flow_def run_generator_def split: prod.splits)
    then show "will_release i (s'\<lparr>flows := (flows s)[i := p'], detached := d\<rparr>)"
      using generator_runs_out [OF _ _ s(1,2) k, where g = g and d = d] Race.prems by simp
  qed
qed auto

lemma waiting_will_release:
  assumes "i < length (flows s)" and "busy (vars s)" and "waiting (flows s ! i) n"
  shows "will_release i s"
proof (cases "\<exists>g k. flows s ! i = Race g k")
  case True
  then obtain g k where gk: "flows s ! i = Race g k" by blast
  with assms(3) have k: "\<And>r. good_outcome r \<Longrightarrow> runs_out i (k r)" and g: "good_generator g"
    using holding_runs_out by (auto simp: waiting_def)
  show ?thesis
  proof (rule race_runs_out [OF assms(1,2) gk k g])
    fix h h' s'
    assume h: "answered g h" "run_generator h s = (h', s')"
    from generator_runs_out [OF good_answered [OF g h(1)] h(2) assms(1,2) k, where d = "detached s'"]
    show "will_release i (s'\<lparr>flows := (flows s)[i := Race h' k]\<rparr>)" by simp
  qed
next
  case False
  with assms(3) have "\<exists>q. answered (flows s ! i) q"
    by (auto simp: waiting_def intro: shell_answer client_answer split: prog.splits)
  then show ?thesis
    using answer_runs_out [OF assms(1,2)] holding_runs_out waiting_answered [OF assms(3)] by blast
qed

section \<open>Running to the end\<close>

text \<open>
  One handler run to its end while nothing else happens: \<open>sh\<close> and \<open>cl\<close> answer commands and
  calls, \<open>rc\<close> settles races. The result lists the commands, the calls and the outcome.
\<close>

type_synonym 'a run = "hook_vars \<times> git_cmd list \<times> call list \<times> (jstr + 'a)"

definition and_then :: "git_cmd list \<Rightarrow> call list \<Rightarrow> 'a run \<Rightarrow> 'a run" where
  "and_then gs cs x = (case x of (s, gs', cs', r) \<Rightarrow> (s, gs @ gs', cs @ cs', r))"

primrec exec :: "(git_cmd \<Rightarrow> jstr + int \<times> jstr) \<Rightarrow> (call \<Rightarrow> jstr + json option) \<Rightarrow>
    ('g \<Rightarrow> hook_vars \<Rightarrow> (message option) run) \<Rightarrow> ('g, 'a) prog \<Rightarrow> hook_vars \<Rightarrow> 'a run" where
  "exec sh cl rc (Return v) s = (s, [], [], Inr v)"
| "exec sh cl rc (Throw e) s = (s, [], [], Inl e)"
| "exec sh cl rc (Shell c k) s = and_then [c] [] (exec sh cl rc (k (sh c)) s)"
| "exec sh cl rc (Client c k) s = and_then [] [c] (exec sh cl rc (k (cl c)) s)"
| "exec sh cl rc (Access g) s = (case map_prod id (exec sh cl rc) (g s) of (s', f) \<Rightarrow> f s')"
| "exec sh cl rc (Race g k) s = (case rc g s of (s', gs, cs, r) \<Rightarrow> and_then gs cs (exec sh cl rc (k r) s'))"

lemma exec_Access [simp]: "exec sh cl rc (Access g) s = exec sh cl rc (snd (g s)) (fst (g s))"
  by (simp add: split_beta)

declare exec.simps(5) [simp del]

lemma and_then_simps [simp]:
  "and_then gs cs (s, gs', cs', r) = (s, gs @ gs', cs @ cs', r)"
  "and_then gs cs (and_then gs' cs' x) = and_then (gs @ gs') (cs @ cs') x"
  "and_then [] [] x = x"
  by (auto simp: and_then_def split: prod.splits)

definition next_run :: "'a run \<Rightarrow> (hook_vars \<Rightarrow> jstr + 'a \<Rightarrow> 'b run) \<Rightarrow> 'b run" where
  "next_run x f = (case x of (s, gs, cs, r) \<Rightarrow> and_then gs cs (f s r))"

lemma next_run_simps [simp]:
  "next_run (s, gs, cs, r) f = and_then gs cs (f s r)"
  "next_run (and_then gs cs x) f = and_then gs cs (next_run x f)"
  by (auto simp: next_run_def and_then_def split: prod.splits)

lemma exec_bind:
  "exec sh cl rc (bind m f) s =
     next_run (exec sh cl rc m s) (\<lambda>s r. case r of Inl e \<Rightarrow> (s, [], [], Inl e) | Inr v \<Rightarrow> exec sh cl rc (f v) s)"
  by (induction m arbitrary: s rule: prog_induct) (auto split: prod.splits)

lemma exec_catch:
  "exec sh cl rc (catch m h) s =
     next_run (exec sh cl rc m s) (\<lambda>s r. case r of Inl e \<Rightarrow> exec sh cl rc (h e) s | Inr v \<Rightarrow> (s, [], [], Inr v))"
  by (induction m arbitrary: s rule: prog_induct) (auto split: prod.splits)

lemma exec_await [simp]:
  "exec sh cl rc (await_shell c) s = (s, [c], [], sh c)"
  "exec sh cl rc (await_client d) s = (s, [], [d], cl d)"
  by (auto simp: await_shell_def await_client_def split: sum.splits)

lemma exec_log [simp]: "exec sh cl rc (log l m) s = (s, [], [Log l m], Inr ())"
  by (simp add: log_def exec_catch exec_bind split: sum.splits)

text \<open>The race: the timer wins when the model is too \<open>late\<close>.\<close>

definition run_race :: "(git_cmd \<Rightarrow> jstr + int \<times> jstr) \<Rightarrow> (call \<Rightarrow> jstr + json option) \<Rightarrow> bool \<Rightarrow>
    generator \<Rightarrow> hook_vars \<Rightarrow> (message option) run" where
  "run_race sh cl late g s =
     (if late then (s, [], [], Inl TIMEOUT) else exec sh cl (\<lambda>_ s. (s, [], [], Inl [])) g s)"

lemma exec_race [simp]:
  "exec sh cl (run_race sh cl late) (await_race g) s = run_race sh cl late g s"
  by (auto simp: await_race_def split: sum.splits prod.splits)

text \<open>When the hook commits, and with which message.\<close>

definition out_text :: "(git_cmd \<Rightarrow> jstr + int \<times> jstr) \<Rightarrow> git_cmd \<Rightarrow> jstr" where
  "out_text sh c = (case sh c of Inl e \<Rightarrow> [] | Inr (exitCode, out) \<Rightarrow> trim out)"

definition ready :: "(git_cmd \<Rightarrow> jstr + int \<times> jstr) \<Rightarrow> bool" where
  "ready sh \<longleftrightarrow> (\<forall>c\<in>{RevParse, AddUpdate, NameOnly, CachedDiff, ShortStat}. \<exists>x. sh c = Inr x) \<and>
     out_text sh RevParse = js ''true'' \<and> nonblank_lines (out_text sh NameOnly) \<noteq> []"

definition chosen_message :: "(git_cmd \<Rightarrow> jstr + int \<times> jstr) \<Rightarrow> jstr + message option \<Rightarrow> message" where
  "chosen_message sh r =
     (case r of
        Inr (Some m) \<Rightarrow> m
      | _ \<Rightarrow> fallbackMessage (length (nonblank_lines (out_text sh NameOnly))) (out_text sh ShortStat))"

lemma exec_quiet: "quiet p \<Longrightarrow> fst (snd (exec sh cl rc p s)) = []"
  by (induction p arbitrary: s rule: prog_induct) (auto simp: and_then_def split_beta)

lemma race_no_git: "fst (snd (run_race sh cl late (generateCommitMessage num diff files) s)) = []"
  using exec_quiet [OF conjunct1 [OF good_generateCommitMessage]] by (simp add: run_race_def)

lemma exec_ask:
  "\<exists>s' cs. exec sh cl (run_race sh cl late) (ask_message num diff files) s =
     (s', [], cs, Inr (case snd (snd (snd (run_race sh cl late (generateCommitMessage num diff files) s))) of
        Inl e \<Rightarrow> None | Inr m \<Rightarrow> m))"
  using race_no_git [of sh cl late num diff files s]
  by (cases "run_race sh cl late (generateCommitMessage num diff files) s")
    (auto simp: ask_message_def exec_catch exec_bind split: sum.splits option.splits)

lemma exec_do_commit:
  "\<exists>cs r. exec sh cl rc (do_commit files m) s = (s, [Commit (subject m) (commit_body m)], cs, r)"
  by (auto simp: do_commit_def exec_bind split: sum.splits prod.splits)

lemma exec_commit_flow:
  assumes "exec sh cl (run_race sh cl late) (commit_flow num) s = (s', gs, cs, r)"
  shows "if ready sh
    then (\<exists>m. m = chosen_message sh (snd (snd (snd (run_race sh cl late
            (generateCommitMessage num (clip_diff (out_text sh CachedDiff)) (nonblank_lines (out_text sh NameOnly))) s)))) \<and>
        gs = [RevParse, AddUpdate, NameOnly, CachedDiff, ShortStat, Commit (subject m) (commit_body m)])
    else (\<forall>x y. Commit x y \<notin> set gs)"
proof (cases "ready sh")
  case False
  then show ?thesis using assms exec_ask [of sh cl late num] exec_do_commit
    by (auto simp: commit_flow_def exec_bind ready_def out_text_def Let_def split: sum.splits if_splits)
next
  case True
  then obtain x1 o1 x2 o2 x3 o3 x4 o4 x5 o5 where sh: "sh RevParse = Inr (x1, o1)" "sh AddUpdate = Inr (x2, o2)"
      "sh NameOnly = Inr (x3, o3)" "sh CachedDiff = Inr (x4, o4)" "sh ShortStat = Inr (x5, o5)"
    by (auto simp: ready_def)
  let ?files = "nonblank_lines (trim o3)" and ?diff = "clip_diff (trim o4)"
  obtain s1 cs1 where ask: "exec sh cl (run_race sh cl late) (ask_message num ?diff ?files) s =
     (s1, [], cs1, Inr (case snd (snd (snd (run_race sh cl late (generateCommitMessage num ?diff ?files) s))) of
        Inl e \<Rightarrow> None | Inr m \<Rightarrow> m))"
    using exec_ask by blast
  let ?m = "chosen_message sh (snd (snd (snd (run_race sh cl late (generateCommitMessage num ?diff ?files) s))))"
  obtain cs2 r2 where com: "exec sh cl (run_race sh cl late) (do_commit ?files ?m) s1 =
      (s1, [Commit (subject ?m) (commit_body ?m)], cs2, r2)"
    using exec_do_commit by blast
  have "(case (case snd (snd (snd (run_race sh cl late (generateCommitMessage num ?diff ?files) s))) of
      Inl e \<Rightarrow> None | Inr m \<Rightarrow> m) of Some m \<Rightarrow> m | None \<Rightarrow> fallbackMessage (length ?files) (trim o5)) = ?m"
    using sh by (auto simp: chosen_message_def out_text_def split: sum.splits option.splits)
  with True sh ask com assms show ?thesis
    by (simp add: commit_flow_def exec_bind Let_def ready_def out_text_def)
qed

section \<open>Properties of the commit hook\<close>

text \<open>
  C7. The hook refines the specification of a serial committer: whatever events arrive and
  however they are interleaved, the commands given to \<open>git\<close> are those of a state the
  specification can reach, and \<open>busy\<close> says whether a run is under way there.
\<close>

theorem hook_refines_spec:
  assumes "reach hook_init (hook_step num) s"
  shows "\<exists>a. reach spec_init spec_step a \<and> spec_git a = git_log s \<and> (running a = None \<longleftrightarrow> \<not> busy (vars s))"
proof -
  obtain a where "reach spec_init spec_step a" "simulates s a" using hook_simulated [OF assms] by (elim exE conjE)
  then show ?thesis by (intro exI [of _ a]) (auto simp: simulates_def split: option.splits)
qed

text \<open>
  Runs do not overlap: the commands given to \<open>git\<close> so far are complete runs one after the
  other, followed by the one under way. A run gives \<open>rev-parse\<close>, \<open>add -u\<close>, the two listings,
  the statistics and the commit in this order, and may stop early; the subject of a commit has
  at most a hundred code units and no line feed, and its body ends with the footer.
\<close>

theorem hook_runs_serial:
  assumes "reach hook_init (hook_step num) s"
  shows "\<exists>runs cur. git_log s = concat runs @ cur \<and> (\<forall>r\<in>set (cur # runs). length r \<le> 6 \<and>
      map stage_of r = [0..<length r] \<and>
      (\<forall>x y. Commit x y \<in> set r \<longrightarrow> length x \<le> 100 \<and> 10 \<notin> set x \<and> (\<exists>z. y = z @ footer))) \<and>
    (\<not> busy (vars s) \<longrightarrow> cur = [])"
proof -
  obtain a where "reach spec_init spec_step a" and sim: "simulates s a"
    using hook_simulated [OF assms] by (elim exE conjE)
  then have "spec_inv a" by (intro commit_spec.always)
  then obtain runs cur where a: "spec_git a = concat runs @ cur" "\<forall>r\<in>set (cur # runs). one_run r"
      "running a = None \<longrightarrow> cur = []"
    by (auto simp: spec_inv_def)
  moreover have "git_log s = spec_git a" "\<not> busy (vars s) \<longrightarrow> running a = None"
    using sim by (auto simp: simulates_def split: option.splits)
  ultimately show ?thesis using one_run_facts by (intro exI [of _ runs] exI [of _ cur]) auto
qed

text \<open>
  C8. The hook never stays busy: in every reachable state in which \<open>busy\<close> is set, one of the
  flows will reset it after finitely many of its own steps, whatever the answers it gets,
  rejections and the timer included.
\<close>

theorem hook_releases:
  assumes "reach hook_init (hook_step num) s" and "busy (vars s)"
  shows "\<exists>i. will_release i s"
proof -
  obtain a where "simulates s a" using hook_simulated [OF assms(1)] by (elim exE conjE)
  with assms(2) obtain n i where "owner (flows s) n i" by (auto simp: simulates_def split: option.splits)
  then show ?thesis using waiting_will_release [OF _ assms(2)] by (auto simp: owner_def)
qed

text \<open>
  C9. What one event does, run to its end: other events do nothing; the idle event of a helper
  session only removes that session from the set; while a run is under way nothing happens; and
  otherwise \<open>busy\<close> is free again at the end, and the hook commits exactly if all commands before
  the commit answer, the directory is a work tree and something is staged, with the message of
  the model or, if there is none in time, the fallback.
\<close>

theorem handle_event_effect:
  assumes "exec sh cl (run_race sh cl late) (handle_event num event) v = (v', gs, cs, r)"
  shows "if event_type event \<noteq> js ''session.idle'' then v' = v \<and> gs = [] \<and> cs = [] \<and> r = Inr ()
    else if truthy (sessionIdOf event) \<and> has (internalSessions v) (sessionIdOf event)
    then v' = v\<lparr>internalSessions := internalSessions v - {the (sessionIdOf event)}\<rparr> \<and> gs = [] \<and> r = Inr ()
    else if busy v then v' = v \<and> gs = [] \<and> r = Inr ()
    else \<not> busy v' \<and> r = Inr () \<and>
      (if ready sh
       then (\<exists>m. m = chosen_message sh (snd (snd (snd (run_race sh cl late (generateCommitMessage num
               (clip_diff (out_text sh CachedDiff)) (nonblank_lines (out_text sh NameOnly))) (v\<lparr>busy := True\<rparr>))))) \<and>
           gs = [RevParse, AddUpdate, NameOnly, CachedDiff, ShortStat, Commit (subject m) (commit_body m)])
       else (\<forall>x y. Commit x y \<notin> set gs))"
proof -
  obtain s1 gs1 cs1 r1 where flow: "exec sh cl (run_race sh cl late) (commit_flow num) (v\<lparr>busy := True\<rparr>) = (s1, gs1, cs1, r1)"
    by (cases "exec sh cl (run_race sh cl late) (commit_flow num) (v\<lparr>busy := True\<rparr>)")
  have "exec sh cl (run_race sh cl late) (guarded_flow num) (v\<lparr>busy := True\<rparr>) =
      (s1\<lparr>busy := False\<rparr>, gs1, cs1 @ (case r1 of Inl e \<Rightarrow> [Log ''error'' (js ''auto-commit: flow failed: '' @ e)] | Inr _ \<Rightarrow> []), Inr ())"
    using flow by (cases r1) (auto simp: guarded_flow_def finally_do_def release_def exec_bind exec_catch)
  then show ?thesis
    using assms exec_commit_flow [OF flow] by (auto simp: handle_event_def exec_bind Let_def split: if_splits)
qed

text \<open>
  C10. No helper session is left behind: once a session was created, a prompt and a deletion
  follow, whatever the prompt answers, and the outcome is decided by the prompt alone: its
  rejection, an error it reports or the message read from its answer. A deletion that is
  rejected is ignored. Only if no session was created is none deleted, and then the generator
  fails.
\<close>

theorem generator_cleans_up:
  assumes "exec sh cl rc (generateCommitMessage num diff files) v = (v', gs, cs, r)"
  shows "gs = [] \<and>
    (case cl (SessionCreate INTERNAL_TITLE) of
       Inl e \<Rightarrow> cs = [SessionCreate INTERNAL_TITLE] \<and> r = Inl e \<and> v' = v
     | Inr created \<Rightarrow>
         (case getp (getp created ''data'') ''id'' of
            Some h \<Rightarrow> if truthy (Some h)
              then cs = [SessionCreate INTERNAL_TITLE, SessionPrompt h (prompt_text diff files), SessionDelete h] \<and>
                v' = v\<lparr>internalSessions := insert h (internalSessions v)\<rparr> \<and>
                (case cl (SessionPrompt h (prompt_text diff files)) of
                   Inl e \<Rightarrow> r = Inl e
                 | Inr result \<Rightarrow>
                     if truthy (getp result ''error'') \<or> truthy (getp (getp (getp result ''data'') ''info'') ''error'')
                     then \<exists>e. r = Inl e
                     else r = Inr (extractMessage num result))
              else cs = [SessionCreate INTERNAL_TITLE] \<and> v' = v \<and> (\<exists>e. r = Inl e)
          | None \<Rightarrow> cs = [SessionCreate INTERNAL_TITLE] \<and> v' = v \<and> (\<exists>e. r = Inl e)))"
  using assms
  by (auto simp: generateCommitMessage_def exec_bind exec_catch finally_do_def Let_def
      split: sum.splits option.splits if_splits)

text \<open>An idle event on a fresh hook, and the answer to its first log entry.\<close>

definition idle_event :: hook_event where
  "idle_event = \<lparr>event_type = js ''session.idle'', properties = None\<rparr>"

lemma busy_reachable: "\<exists>s. reach hook_init (hook_step num) s \<and> busy (vars s) \<and> git_log s = [RevParse]"
proof -
  define s0 :: hook_state where "s0 = \<lparr>vars = \<lparr>busy = False, internalSessions = {}\<rparr>, flows = [], detached = [], git_log = [], call_log = []\<rparr>"
  have r0: "reach hook_init (hook_step num) s0" by (rule reach_init) (simp add: hook_init_def s0_def)
  obtain k where k: "handle_event num idle_event = Client (Log ''info'' (js ''session.idle received'')) k"
      "k (Inr None) = Access (\<lambda>s. if busy s then (s, log ''warn'' (js ''skip: previous commit flow still running''))
          else (s\<lparr>busy := True\<rparr>, guarded_flow num))"
    by (simp add: handle_event_def idle_event_def log_def await_client_def sessionIdOf_def or_else_def nullish_def
        getp_def member_def Let_def)
  define s1 where "s1 = (noting (handle_event num idle_event) s0)\<lparr>flows := [handle_event num idle_event]\<rparr>"
  have "run_flow (handle_event num idle_event) s0 = (handle_event num idle_event, noting (handle_event num idle_event) s0)"
    using run_flow_plain [of "handle_event num idle_event" s0 "vars s0"] by (simp add: k(1))
  from hook_event [OF this] have "hook_step num s0 s1" by (simp add: s1_def s0_def)
  with r0 have r1: "reach hook_init (hook_step num) s1" by (rule reach_step)
  obtain kk where g: "guarded_flow num = Shell RevParse kk"
    by (simp add: guarded_flow_def commit_flow_def finally_do_def await_shell_def)
  define v where "v = \<lparr>busy = True, internalSessions = {}\<rparr>"
  have "settle (k (Inr None)) (vars s1) = (v, guarded_flow num)"
    by (simp add: k(2) g s1_def s0_def v_def)
  from run_flow_plain [OF this] g
  have "run_flow (k (Inr None)) s1 = (guarded_flow num, noting (guarded_flow num) (s1\<lparr>vars := v\<rparr>))" by simp
  from flow_answer [OF _ _ this, of 0] k(1)
  have "flow_step 0 s1 ((noting (guarded_flow num) (s1\<lparr>vars := v\<rparr>))\<lparr>flows := (flows s1)[0 := guarded_flow num]\<rparr>)"
    by (simp add: s1_def client_answer)
  with r1 have "reach hook_init (hook_step num) ((noting (guarded_flow num) (s1\<lparr>vars := v\<rparr>))\<lparr>flows := (flows s1)[0 := guarded_flow num]\<rparr>)"
    (is "reach _ _ ?s2")
    by (meson hook_flow reach_step)
  moreover have "busy (vars ?s2)" "git_log ?s2 = [RevParse]" by (simp_all add: v_def g s1_def s0_def k(1))
  ultimately show ?thesis by blast
qed

theorem hook_refines_spec_witness:
  "\<exists>s a. reach hook_init (hook_step id) s \<and> reach spec_init spec_step a \<and> spec_git a = [RevParse] \<and> running a \<noteq> None"
  using busy_reachable [of id] hook_refines_spec by metis

theorem hook_runs_serial_witness:
  "\<exists>s runs cur. reach hook_init (hook_step id) s \<and> git_log s = [RevParse] \<and> git_log s = concat runs @ cur"
  using busy_reachable [of id] hook_runs_serial by metis

theorem hook_releases_witness:
  "\<exists>s i. reach hook_init (hook_step id) s \<and> busy (vars s) \<and> will_release i s"
  using busy_reachable [of id] hook_releases by metis

text \<open>A repository with one changed file, and a model that creates a session and then fails.\<close>

definition demo_shell :: "git_cmd \<Rightarrow> jstr + int \<times> jstr" where
  "demo_shell c = Inr (0, case c of RevParse \<Rightarrow> js ''true'' | NameOnly \<Rightarrow> js ''a'' | _ \<Rightarrow> [])"

definition demo_client :: "call \<Rightarrow> jstr + json option" where
  "demo_client c = (case c of
     SessionCreate t \<Rightarrow> Inr (Some (JObj [(js ''data'', JObj [(js ''id'', JStr (js ''h''))])]))
   | _ \<Rightarrow> Inl (js ''Error: offline''))"

lemma demo_ready: "ready demo_shell"
  by (simp add: ready_def demo_shell_def out_text_def nonblank_lines_def trim_def trimEnd_def is_ws_def js_def)

theorem handle_event_effect_witness:
  "\<exists>v' cs m. exec demo_shell demo_client (run_race demo_shell demo_client False) (handle_event id idle_event)
       \<lparr>busy = False, internalSessions = {}\<rparr> =
     (v', [RevParse, AddUpdate, NameOnly, CachedDiff, ShortStat, Commit (subject m) (commit_body m)], cs, Inr ()) \<and>
     \<not> busy v'"
proof -
  let ?v = "\<lparr>busy = False, internalSessions = {}\<rparr>"
  obtain v' gs cs r where e: "exec demo_shell demo_client (run_race demo_shell demo_client False)
      (handle_event id idle_event) ?v = (v', gs, cs, r)"
    by (rule prod_cases4)
  have "\<not> truthy (sessionIdOf idle_event)" "event_type idle_event = js ''session.idle''"
    by (simp_all add: idle_event_def sessionIdOf_def or_else_def nullish_def getp_def member_def Let_def)
  then show ?thesis using handle_event_effect [OF e] demo_ready e by simp blast
qed

text \<open>A client that answers the prompt and rejects the deletion.\<close>

definition demo_answer :: json where
  "demo_answer = JObj [(js ''data'', JObj [(js ''parts'', JArr [JObj [(js ''text'', JStr (js ''fix: x''))]])])]"

definition rejecting_client :: "call \<Rightarrow> jstr + json option" where
  "rejecting_client c = (case c of
     SessionCreate t \<Rightarrow> Inr (Some (JObj [(js ''data'', JObj [(js ''id'', JStr (js ''h''))])]))
   | SessionPrompt h t \<Rightarrow> Inr (Some demo_answer)
   | _ \<Rightarrow> Inl (js ''Error: gone''))"

theorem generator_cleans_up_witness:
  "\<exists>v' cs. exec demo_shell rejecting_client (\<lambda>_ s. (s, [], [], Inl [])) (generateCommitMessage id [] [])
       \<lparr>busy = True, internalSessions = {}\<rparr> = (v', [], cs, Inr (extractMessage id (Some demo_answer))) \<and>
     rejecting_client (SessionDelete (JStr (js ''h''))) = Inl (js ''Error: gone'') \<and>
     last cs = SessionDelete (JStr (js ''h'')) \<and> internalSessions v' = {JStr (js ''h'')}"
proof -
  let ?v = "\<lparr>busy = True, internalSessions = {}\<rparr>"
  obtain v' gs cs r where e: "exec demo_shell rejecting_client (\<lambda>_ s. (s, [], [], Inl []))
      (generateCommitMessage id [] []) ?v = (v', gs, cs, r)"
    by (rule prod_cases4)
  have "js ''h'' \<noteq> []" by (simp add: js_def)
  then show ?thesis using generator_cleans_up [OF e] e
    by (simp add: rejecting_client_def demo_answer_def getp_def member_def)
qed

end
