(* ===== verification/Typing.thy ===== *)
theory Typing
  imports Vdom Complex_Main
begin

text \<open>
  The type-writer, \<open>website/components/magicui/typing-animation.tsx\<close>: a machine with the
  phases typing, pause and deleting that is driven by one timer. React re-runs the effect
  that arms the timer exactly when the callback changed the state, so a callback that
  changes nothing leaves the component at rest.

  Properties are fixed for the life of the timer; \<open>typing_reset\<close> is the effect that runs
  when the text to animate changes. Speeds and delays are rational numbers of milliseconds.
\<close>

section \<open>Code points\<close>

text \<open>\<open>Array.from(s)\<close>: the code points of a string, surrogate pairs kept together.\<close>

fun code_points :: "jstr \<Rightarrow> jstr list" where
  "code_points [] = []"
| "code_points [c] = [[c]]"
| "code_points (c # d # s) =
     (if 55296 \<le> c \<and> c \<le> 56319 \<and> 56320 \<le> d \<and> d \<le> 57343 then [c, d] # code_points s
      else [c] # code_points (d # s))"

lemma concat_code_points [simp]: "concat (code_points s) = s"
  by (induction s rule: code_points.induct) auto

section \<open>Properties and state\<close>

datatype typing_phase = PTyping | PPause | PDeleting

datatype cursor_style = CLine | CBlock | CUnderscore

record typing_props =
  tp_children :: "jstr option"
  tp_words :: "jstr list option"
  tp_className :: "jstr option"
  tp_duration :: rat
  tp_typeSpeed :: "rat option"
  tp_deleteSpeed :: "rat option"
  tp_delay :: rat
  tp_pauseDelay :: rat
  tp_loop :: bool
  tp_as :: string
  tp_startOnView :: bool
  tp_showCursor :: bool
  tp_blinkCursor :: bool
  tp_cursorStyle :: cursor_style

definition typing_props_default :: typing_props where
  "typing_props_default = \<lparr>tp_children = None, tp_words = None, tp_className = None, tp_duration = 100,
     tp_typeSpeed = None, tp_deleteSpeed = None, tp_delay = 0, tp_pauseDelay = 1000, tp_loop = False,
     tp_as = ''span'', tp_startOnView = True, tp_showCursor = True, tp_blinkCursor = True,
     tp_cursorStyle = CLine\<rparr>"

record typing_state =
  displayedText :: jstr
  currentWordIndex :: nat
  currentCharIndex :: nat
  phase :: typing_phase
  isInView :: bool
  timeout :: "rat option"

text \<open>\<open>words ?? (children ? [children] : [])\<close>: an empty child is falsy.\<close>

definition wordsToAnimate :: "typing_props \<Rightarrow> jstr list" where
  "wordsToAnimate p =
     (case tp_words p of
        Some ws \<Rightarrow> ws
      | None \<Rightarrow> (case tp_children p of Some c \<Rightarrow> if c = [] then [] else [c] | None \<Rightarrow> []))"

definition hasMultipleWords :: "typing_props \<Rightarrow> bool" where
  "hasMultipleWords p = (length (wordsToAnimate p) > 1)"

definition typingSpeed :: "typing_props \<Rightarrow> rat" where
  "typingSpeed p = (case tp_typeSpeed p of Some v \<Rightarrow> v | None \<Rightarrow> tp_duration p)"

definition deletingSpeed :: "typing_props \<Rightarrow> rat" where
  "deletingSpeed p = (case tp_deleteSpeed p of Some v \<Rightarrow> v | None \<Rightarrow> typingSpeed p / 2)"

definition shouldStart :: "typing_props \<Rightarrow> typing_state \<Rightarrow> bool" where
  "shouldStart p s = (if tp_startOnView p then isInView s else True)"

definition animationSourceKey :: "typing_props \<Rightarrow> jstr" where
  "animationSourceKey p =
     (case tp_words p of
        Some ws \<Rightarrow> join [0] ws
      | None \<Rightarrow> (case tp_children p of Some c \<Rightarrow> c | None \<Rightarrow> []))"

text \<open>\<open>wordsToAnimate[i] || ""\<close>.\<close>

definition word_at :: "typing_props \<Rightarrow> nat \<Rightarrow> jstr" where
  "word_at p i = (if i < length (wordsToAnimate p) then wordsToAnimate p ! i else [])"

definition graphemes :: "typing_props \<Rightarrow> typing_state \<Rightarrow> jstr list" where
  "graphemes p s = code_points (word_at p (currentWordIndex s))"

section \<open>Effects\<close>

definition typing_reset :: "typing_state \<Rightarrow> typing_state" where
  "typing_reset s = s\<lparr>displayedText := [], currentWordIndex := 0, currentCharIndex := 0, phase := PTyping\<rparr>"

definition timeoutDelay :: "typing_props \<Rightarrow> typing_state \<Rightarrow> rat" where
  "timeoutDelay p s =
     (if tp_delay p > 0 \<and> displayedText s = [] then tp_delay p
      else case phase s of PTyping \<Rightarrow> typingSpeed p | PDeleting \<Rightarrow> deletingSpeed p | PPause \<Rightarrow> tp_pauseDelay p)"

text \<open>The effect: the old timer is cleared and a new one armed.\<close>

definition typing_arm :: "typing_props \<Rightarrow> typing_state \<Rightarrow> typing_state" where
  "typing_arm p s = s\<lparr>timeout :=
     (if shouldStart p s \<and> wordsToAnimate p \<noteq> [] then Some (timeoutDelay p s) else None)\<rparr>"

text \<open>The callback of the timer.\<close>

definition typing_callback :: "typing_props \<Rightarrow> typing_state \<Rightarrow> typing_state" where
  "typing_callback p s =
     (let gs = graphemes p s in
      case phase s of
        PTyping \<Rightarrow>
          if currentCharIndex s < length gs
          then s\<lparr>displayedText := concat (slice gs 0 (currentCharIndex s + 1)),
                 currentCharIndex := currentCharIndex s + 1\<rparr>
          else if hasMultipleWords p \<or> tp_loop p
          then (let isLastWord = (int (currentWordIndex s) = int (length (wordsToAnimate p)) - 1) in
                if \<not> isLastWord \<or> tp_loop p then s\<lparr>phase := PPause\<rparr> else s)
          else s
      | PPause \<Rightarrow> s\<lparr>phase := PDeleting\<rparr>
      | PDeleting \<Rightarrow>
          if currentCharIndex s > 0
          then s\<lparr>displayedText := concat (slice gs 0 (currentCharIndex s - 1)),
                 currentCharIndex := currentCharIndex s - 1\<rparr>
          else s\<lparr>currentWordIndex := (currentWordIndex s + 1) mod length (wordsToAnimate p), phase := PTyping\<rparr>)"

text \<open>A firing timer: the effect runs again only when the callback changed the state.\<close>

definition typing_fire :: "typing_props \<Rightarrow> typing_state \<Rightarrow> typing_state" where
  "typing_fire p s =
     (let s' = typing_callback p s in if s' = s then s\<lparr>timeout := None\<rparr> else typing_arm p s')"

definition typing_init :: "typing_props \<Rightarrow> typing_state \<Rightarrow> bool" where
  "typing_init p s \<longleftrightarrow> (\<exists>v. s = typing_arm p \<lparr>displayedText = [], currentWordIndex = 0, currentCharIndex = 0,
     phase = PTyping, isInView = v, timeout = None\<rparr>)"

inductive typing_step :: "typing_props \<Rightarrow> typing_state \<Rightarrow> typing_state \<Rightarrow> bool" for p where
  typing_enter: "\<not> isInView s \<Longrightarrow> typing_step p s (typing_arm p (s\<lparr>isInView := True\<rparr>))"
| typing_timer: "timeout s = Some d \<Longrightarrow> typing_step p s (typing_fire p s)"

section \<open>Rendering\<close>

definition isComplete :: "typing_props \<Rightarrow> typing_state \<Rightarrow> bool" where
  "isComplete p s \<longleftrightarrow>
     \<not> tp_loop p \<and> int (currentWordIndex s) = int (length (wordsToAnimate p)) - 1 \<and>
     currentCharIndex s \<ge> length (graphemes p s) \<and> phase s \<noteq> PDeleting"

definition shouldShowCursor :: "typing_props \<Rightarrow> typing_state \<Rightarrow> bool" where
  "shouldShowCursor p s \<longleftrightarrow>
     tp_showCursor p \<and> \<not> isComplete p s \<and>
     (hasMultipleWords p \<or> tp_loop p \<or> currentCharIndex s < length (graphemes p s))"

fun getCursorChar :: "cursor_style \<Rightarrow> jstr" where
  "getCursorChar CBlock = [9612]"
| "getCursorChar CUnderscore = js ''_''"
| "getCursorChar CLine = js ''|''"

definition typingAnimation :: "class_fn \<Rightarrow> typing_props \<Rightarrow> typing_state \<Rightarrow> node" where
  "typingAnimation cn p s =
     El (''motion.'' @ tp_as p)
       [(''className'', cn [Some (js ''leading-20 tracking-[-0.02em]''),
          if tp_as p = ''span'' then Some (js ''inline-block'') else None, tp_className p])]
       (Txt (displayedText s) #
        (if shouldShowCursor p s
         then [El ''span'' [(''className'', cn [Some (js ''inline-block''),
                 if tp_blinkCursor p then Some (js ''animate-blink-cursor'') else None])]
                 [Txt (getCursorChar (tp_cursorStyle p))]]
         else []))"

section \<open>Invariant\<close>

text \<open>
  What is shown is always a whole number of code points of the word that is current, and
  the word is one of the words.
\<close>

definition typing_inv :: "typing_props \<Rightarrow> typing_state \<Rightarrow> bool" where
  "typing_inv p s \<longleftrightarrow>
     (wordsToAnimate p \<noteq> [] \<longrightarrow> currentWordIndex s < length (wordsToAnimate p)) \<and>
     currentCharIndex s \<le> length (graphemes p s) \<and>
     displayedText s = concat (take (currentCharIndex s) (graphemes p s)) \<and>
     (phase s = PPause \<longrightarrow> currentCharIndex s = length (graphemes p s)) \<and>
     (timeout s \<noteq> None \<longrightarrow> wordsToAnimate p \<noteq> [])"

lemma typing_arm_simps [simp]:
  "displayedText (typing_arm p s) = displayedText s"
  "currentWordIndex (typing_arm p s) = currentWordIndex s"
  "currentCharIndex (typing_arm p s) = currentCharIndex s"
  "phase (typing_arm p s) = phase s" "isInView (typing_arm p s) = isInView s"
  "graphemes p (typing_arm p s) = graphemes p s"
  "timeout (typing_arm p s) = (if shouldStart p s \<and> wordsToAnimate p \<noteq> [] then Some (timeoutDelay p s) else None)"
  by (simp_all add: typing_arm_def graphemes_def)

lemma graphemes_cong [simp]:
  "graphemes p (s\<lparr>displayedText := x\<rparr>) = graphemes p s"
  "graphemes p (s\<lparr>currentCharIndex := i\<rparr>) = graphemes p s"
  "graphemes p (s\<lparr>phase := ph\<rparr>) = graphemes p s"
  "graphemes p (s\<lparr>isInView := v\<rparr>) = graphemes p s"
  "graphemes p (s\<lparr>timeout := t\<rparr>) = graphemes p s"
  by (simp_all add: graphemes_def)

lemma typing_inv_arm: "typing_inv p s \<Longrightarrow> typing_inv p (typing_arm p s)"
  by (auto simp: typing_inv_def split: if_splits)

lemma typing_inv_callback:
  assumes "typing_inv p s" and "wordsToAnimate p \<noteq> []"
  shows "typing_inv p (typing_callback p s)"
  using assms
  by (cases "phase s") (auto simp: typing_callback_def typing_inv_def slice_def Let_def)

lemma typing_inv_fire:
  assumes "typing_inv p s" and "timeout s = Some d"
  shows "typing_inv p (typing_fire p s)"
proof -
  have "wordsToAnimate p \<noteq> []" using assms by (simp add: typing_inv_def)
  with assms show ?thesis
    using typing_inv_callback [of p s] typing_inv_arm
    by (auto simp: typing_fire_def Let_def) (simp add: typing_inv_def)
qed

interpretation typing: component "typing_init p" "typing_step p" "typing_inv p" for p
proof
  show "typing_inv p s" if "typing_init p s" for s
    using that by (auto simp: typing_init_def typing_inv_def split: if_splits)
  show "typing_inv p t" if "typing_inv p s" "typing_step p s t" for s t
    using that(2,1)
  proof (cases rule: typing_step.cases)
    case typing_enter
    have "typing_inv p (s\<lparr>isInView := True\<rparr>)" using that(1) by (simp add: typing_inv_def)
    then show ?thesis using typing_enter typing_inv_arm by simp
  next
    case (typing_timer d)
    then show ?thesis using typing_inv_fire [OF that(1)] by simp
  qed
qed

section \<open>Runs of the timer\<close>

text \<open>The state in which \<open>c\<close> code points of word \<open>i\<close> are shown.\<close>

definition typing_at :: "typing_props \<Rightarrow> bool \<Rightarrow> nat \<Rightarrow> nat \<Rightarrow> typing_phase \<Rightarrow> typing_state" where
  "typing_at p v i c ph = typing_arm p
     \<lparr>displayedText = concat (take c (code_points (word_at p i))), currentWordIndex = i, currentCharIndex = c,
      phase = ph, isInView = v, timeout = None\<rparr>"

definition word_size :: "typing_props \<Rightarrow> nat \<Rightarrow> nat" where
  "word_size p i = length (code_points (word_at p i))"

definition moves_on :: "typing_props \<Rightarrow> nat \<Rightarrow> bool" where
  "moves_on p i \<longleftrightarrow> tp_loop p \<or> i + 1 < length (wordsToAnimate p)"

lemmas typing_run_defs = typing_at_def typing_fire_def typing_callback_def typing_arm_def Let_def
  graphemes_def slice_def shouldStart_def timeoutDelay_def

lemma fire_type:
  "c < word_size p i \<Longrightarrow> typing_fire p (typing_at p v i c PTyping) = typing_at p v i (Suc c) PTyping"
  by (simp add: typing_run_defs word_size_def)

lemma fire_full:
  "i < length (wordsToAnimate p) \<Longrightarrow> moves_on p i \<Longrightarrow>
     typing_fire p (typing_at p v i (word_size p i) PTyping) = typing_at p v i (word_size p i) PPause"
  by (auto simp: typing_run_defs word_size_def moves_on_def hasMultipleWords_def)

lemma fire_pause: "typing_fire p (typing_at p v i c PPause) = typing_at p v i c PDeleting"
  by (simp add: typing_run_defs)

lemma fire_delete: "typing_fire p (typing_at p v i (Suc c) PDeleting) = typing_at p v i c PDeleting"
  by (simp add: typing_run_defs)

lemma fire_next:
  "typing_fire p (typing_at p v i 0 PDeleting) = typing_at p v ((i + 1) mod length (wordsToAnimate p)) 0 PTyping"
  by (simp add: typing_run_defs)

lemma fire_last:
  "i < length (wordsToAnimate p) \<Longrightarrow> \<not> moves_on p i \<Longrightarrow>
     typing_fire p (typing_at p v i (word_size p i) PTyping) =
       (typing_at p v i (word_size p i) PTyping)\<lparr>timeout := None\<rparr>"
  by (auto simp: typing_run_defs word_size_def moves_on_def hasMultipleWords_def)

text \<open>The timer is armed: the element is in view if it has to be, and there is a word.\<close>

definition typing_live :: "typing_props \<Rightarrow> bool \<Rightarrow> bool" where
  "typing_live p v \<longleftrightarrow> (tp_startOnView p \<longrightarrow> v) \<and> wordsToAnimate p \<noteq> []"

lemma step_at:
  assumes "typing_live p v" and "typing_fire p (typing_at p v i c ph) = t"
  shows "typing_step p (typing_at p v i c ph) t"
proof -
  have "timeout (typing_at p v i c ph) \<noteq> None"
    using assms(1) by (auto simp: typing_at_def typing_live_def shouldStart_def)
  then show ?thesis using assms(2) typing_timer by auto
qed

lemma run_type:
  assumes "typing_live p v"
  shows "c \<le> word_size p i \<Longrightarrow> (typing_step p ^^ c) (typing_at p v i 0 PTyping) (typing_at p v i c PTyping)"
proof (induction c)
  case 0
  then show ?case by simp
next
  case (Suc c)
  then show ?case using step_at [OF assms fire_type [of c p i v]] by auto
qed

lemma run_delete:
  assumes "typing_live p v"
  shows "(typing_step p ^^ c) (typing_at p v i c PDeleting) (typing_at p v i 0 PDeleting)"
proof (induction c)
  case 0
  then show ?case by simp
next
  case (Suc c)
  then show ?case using step_at [OF assms fire_delete [of p v i c]] by (rule relpowp_Suc_I2 [rotated])
qed

text \<open>One word is typed, held and deleted in \<open>2n + 3\<close> callbacks.\<close>

lemma run_word:
  assumes "i < length (wordsToAnimate p)" and "moves_on p i" and live: "typing_live p v"
  shows "(typing_step p ^^ (2 * word_size p i + 3)) (typing_at p v i 0 PTyping)
    (typing_at p v ((i + 1) mod length (wordsToAnimate p)) 0 PTyping)"
proof -
  let ?n = "word_size p i" and ?R = "typing_step p"
  have one: "(?R ^^ 1) x y" if "?R x y" for x y using that by auto
  have "(?R ^^ (?n + 1)) (typing_at p v i 0 PTyping) (typing_at p v i ?n PPause)"
    using relpowp_trans [OF run_type [OF live order_refl] one [OF step_at [OF live fire_full [OF assms(1,2)]]]] .
  then have "(?R ^^ (?n + 1 + 1)) (typing_at p v i 0 PTyping) (typing_at p v i ?n PDeleting)"
    using one [OF step_at [OF live fire_pause]] by (rule relpowp_trans)
  then have "(?R ^^ (?n + 1 + 1 + ?n)) (typing_at p v i 0 PTyping) (typing_at p v i 0 PDeleting)"
    using run_delete [OF live] by (rule relpowp_trans)
  then have "(?R ^^ (?n + 1 + 1 + ?n + 1)) (typing_at p v i 0 PTyping)
      (typing_at p v ((i + 1) mod length (wordsToAnimate p)) 0 PTyping)"
    using one [OF step_at [OF live fire_next]] by (rule relpowp_trans)
  then show ?thesis by (simp add: numeral_eq_Suc mult_2 ac_simps)
qed

text \<open>The number of callbacks before word \<open>i\<close> is started.\<close>

primrec fires_before :: "typing_props \<Rightarrow> nat \<Rightarrow> nat" where
  "fires_before p 0 = 0"
| "fires_before p (Suc i) = (2 * word_size p i + 3) + fires_before p i"

lemma run_words:
  assumes "typing_live p v"
  shows "i < length (wordsToAnimate p) \<Longrightarrow>
     (typing_step p ^^ fires_before p i) (typing_at p v 0 0 PTyping) (typing_at p v i 0 PTyping)"
proof (induction i)
  case 0
  then show ?case by simp
next
  case (Suc i)
  then have i: "i < length (wordsToAnimate p)" "moves_on p i" by (simp_all add: moves_on_def)
  have "(typing_step p ^^ (fires_before p i + (2 * word_size p i + 3))) (typing_at p v 0 0 PTyping)
      (typing_at p v ((i + 1) mod length (wordsToAnimate p)) 0 PTyping)"
    using Suc.IH [OF i(1)] run_word [OF i assms] by (rule relpowp_trans)
  then show ?case using Suc.prems by (simp add: add.commute)
qed

lemma loop_changes: "typing_inv p s \<Longrightarrow> wordsToAnimate p \<noteq> [] \<Longrightarrow> tp_loop p \<Longrightarrow> typing_callback p s \<noteq> s"
proof -
  assume "typing_inv p s" "wordsToAnimate p \<noteq> []" "tp_loop p"
  show ?thesis
  proof
    assume eq: "typing_callback p s = s"
    have "currentCharIndex (typing_callback p s) = currentCharIndex s" "phase (typing_callback p s) = phase s"
      by (simp_all add: eq)
    then show False using \<open>tp_loop p\<close> \<open>typing_inv p s\<close>
      by (cases "phase s") (auto simp: typing_callback_def Let_def split: if_splits)
  qed
qed


text \<open>A looping animation is never at rest: its timer is armed whenever it may run.\<close>

definition loop_inv :: "typing_props \<Rightarrow> typing_state \<Rightarrow> bool" where
  "loop_inv p s \<longleftrightarrow> typing_inv p s \<and>
     (tp_loop p \<and> wordsToAnimate p \<noteq> [] \<and> shouldStart p s \<longrightarrow> timeout s \<noteq> None)"

lemma loop_inv_arm: "typing_inv p (typing_arm p s) \<Longrightarrow> loop_inv p (typing_arm p s)"
  by (auto simp: loop_inv_def shouldStart_def)

interpretation typing_loop: component "typing_init p" "typing_step p" "loop_inv p" for p
proof
  show "loop_inv p s" if "typing_init p s" for s
    using typing.inv_init [OF that] that loop_inv_arm by (auto simp: typing_init_def)
  show "loop_inv p t" if "loop_inv p s" "typing_step p s t" for s t
  proof -
    have inv: "typing_inv p t" using that typing.inv_step by (auto simp: loop_inv_def)
    from that(2) show ?thesis
    proof (cases rule: typing_step.cases)
      case typing_enter
      then show ?thesis using inv loop_inv_arm by simp
    next
      case (typing_timer d)
      show ?thesis
      proof (cases "typing_callback p s = s")
        case True
        then have "\<not> (tp_loop p \<and> wordsToAnimate p \<noteq> [])"
          using loop_changes [of p s] that(1) by (auto simp: loop_inv_def)
        then show ?thesis using inv by (auto simp: loop_inv_def)
      next
        case False
        then have "t = typing_arm p (typing_callback p s)"
          using typing_timer by (simp add: typing_fire_def Let_def)
        then show ?thesis using inv loop_inv_arm by simp
      qed
    qed
  qed
qed

section \<open>Properties of the type-writer\<close>

text \<open>
  C26. In every reachable state the text shown is a prefix of one of the words, cut between
  code points: a surrogate pair is never split.
\<close>

theorem typing_shows_prefix:
  assumes "reach (typing_init p) (typing_step p) s" and "wordsToAnimate p \<noteq> []"
  shows "\<exists>i<length (wordsToAnimate p). \<exists>k\<le>length (code_points (wordsToAnimate p ! i)).
    displayedText s = concat (take k (code_points (wordsToAnimate p ! i)))"
proof -
  have "typing_inv p s" using assms(1) by (rule typing.always)
  then show ?thesis using assms(2)
    by (intro exI [of _ "currentWordIndex s"] conjI exI [of _ "currentCharIndex s"])
      (auto simp: typing_inv_def graphemes_def word_at_def)
qed

theorem typing_shows_prefix_witness:
  "\<exists>s. reach (typing_init (typing_props_default\<lparr>tp_words := Some [[55357, 56832, 97]]\<rparr>))
       (typing_step (typing_props_default\<lparr>tp_words := Some [[55357, 56832, 97]]\<rparr>)) s \<and> displayedText s = [55357, 56832] \<and>
     (\<exists>i<1. \<exists>k\<le>length (code_points ([[55357, 56832, 97]] ! i)). displayedText s = concat (take k (code_points ([[55357, 56832, 97]] ! i))))"
proof -
  let ?p = "typing_props_default\<lparr>tp_words := Some [[55357, 56832, 97]]\<rparr>"
  have w: "wordsToAnimate ?p = [[55357, 56832, 97]]" by (simp add: wordsToAnimate_def)
  have start: "reach (typing_init ?p) (typing_step ?p) (typing_at ?p True 0 0 PTyping)"
    by (rule reach_init) (auto simp: typing_init_def typing_at_def)
  have "1 \<le> word_size ?p 0" by (simp add: word_size_def word_at_def w)
  then have "(typing_step ?p ^^ 1) (typing_at ?p True 0 0 PTyping) (typing_at ?p True 0 1 PTyping)"
    by (intro run_type) (simp_all add: typing_live_def w)
  then have "(typing_step ?p)\<^sup>*\<^sup>* (typing_at ?p True 0 0 PTyping) (typing_at ?p True 0 1 PTyping)"
    by (rule relpowp_imp_rtranclp)
  from this start have r: "reach (typing_init ?p) (typing_step ?p) (typing_at ?p True 0 1 PTyping)" by (rule reach_rtranclp)
  moreover have "displayedText (typing_at ?p True 0 1 PTyping) = [55357, 56832]"
    by (simp add: typing_at_def word_at_def w)
  ultimately show ?thesis using typing_shows_prefix [OF r] w by (intro exI [of _ "typing_at ?p True 0 1 PTyping"]) simp
qed

text \<open>
  C27. Without \<open>loop\<close> the animation ends: once it may start, after \<open>2n + 3\<close> callbacks for
  each word but the last and \<open>n + 1\<close> for the last, it shows the whole last word, counts as
  complete, shows no cursor and has no timer left.
\<close>

theorem typing_completes:
  assumes "\<not> tp_loop p" and "wordsToAnimate p \<noteq> []" and "tp_startOnView p \<longrightarrow> v"
  shows "\<exists>s. (typing_step p ^^ (fires_before p (length (wordsToAnimate p) - 1) +
        (length (code_points (last (wordsToAnimate p))) + 1))) (typing_at p v 0 0 PTyping) s \<and>
    timeout s = None \<and> displayedText s = last (wordsToAnimate p) \<and> isComplete p s \<and> \<not> shouldShowCursor p s"
proof -
  let ?k = "length (wordsToAnimate p) - 1"
  let ?n = "word_size p ?k"
  let ?s = "(typing_at p v ?k ?n PTyping)\<lparr>timeout := None\<rparr>"
  have k: "?k < length (wordsToAnimate p)" and stop: "\<not> moves_on p ?k" and live: "typing_live p v"
    using assms by (auto simp: moves_on_def typing_live_def)
  have word: "word_at p ?k = last (wordsToAnimate p)"
    using assms(2) k by (simp add: word_at_def last_conv_nth)
  have "(typing_step p ^^ (?n + 1)) (typing_at p v ?k 0 PTyping) ?s"
    using relpowp_trans [OF run_type [OF live order_refl], of 1] step_at [OF live fire_last [OF k stop]] by auto
  then have "(typing_step p ^^ (fires_before p ?k + (?n + 1))) (typing_at p v 0 0 PTyping) ?s"
    using relpowp_trans [OF run_words [OF live k]] by blast
  moreover have "?n = length (code_points (last (wordsToAnimate p)))"
    unfolding word_size_def word ..
  moreover have "isComplete p ?s"
    using assms(1,2) k
    by (auto simp: isComplete_def typing_at_def graphemes_def word_size_def Suc_le_eq of_nat_diff)
  moreover have "displayedText ?s = last (wordsToAnimate p)"
    unfolding typing_at_def word_size_def word by simp
  ultimately show ?thesis by (intro exI [of _ ?s]) (simp add: shouldShowCursor_def)
qed

theorem typing_completes_witness:
  "\<exists>s. (typing_step (typing_props_default\<lparr>tp_words := Some [js ''a'', js ''bc'']\<rparr>) ^^ 8)
      (typing_at (typing_props_default\<lparr>tp_words := Some [js ''a'', js ''bc'']\<rparr>) True 0 0 PTyping) s \<and>
    displayedText s = js ''bc''"
proof -
  let ?p = "typing_props_default\<lparr>tp_words := Some [js ''a'', js ''bc'']\<rparr>"
  have w: "wordsToAnimate ?p = [js ''a'', js ''bc'']" by (simp add: wordsToAnimate_def)
  have "fires_before ?p 1 = 5" "length (code_points (js ''bc'')) = 2"
    by (simp_all add: word_size_def word_at_def wordsToAnimate_def js_def)
  moreover have "\<not> tp_loop ?p" by (simp add: typing_props_default_def)
  ultimately show ?thesis using typing_completes [of ?p True] by (auto simp: w simp del: fires_before.simps)
qed

text \<open>
  With \<open>loop\<close> the animation never stops: whenever it may run, a timer is armed,
  and its callback arms the next one.
\<close>

theorem typing_loop_never_rests:
  assumes "reach (typing_init p) (typing_step p) s" and "tp_loop p" and "wordsToAnimate p \<noteq> []" and "shouldStart p s"
  shows "timeout s \<noteq> None \<and> typing_step p s (typing_fire p s) \<and> timeout (typing_fire p s) \<noteq> None"
proof -
  have inv: "loop_inv p s" using assms(1) by (rule typing_loop.always)
  then obtain d where d: "timeout s = Some d" using assms by (auto simp: loop_inv_def)
  have "loop_inv p (typing_fire p s)" using inv typing_timer [OF d] by (rule typing_loop.inv_step)
  moreover have "shouldStart p (typing_fire p s)"
    using assms(4) by (auto simp: shouldStart_def typing_fire_def typing_callback_def Let_def split: typing_phase.splits)
  ultimately have "timeout (typing_fire p s) \<noteq> None" using assms by (auto simp: loop_inv_def)
  then show ?thesis using d typing_timer [OF d] by auto
qed

theorem typing_loop_never_rests_witness:
  "\<exists>d. timeout (typing_at (typing_props_default\<lparr>tp_words := Some [js ''a''], tp_loop := True\<rparr>) True 0 0 PTyping) = Some d"
proof -
  let ?p = "typing_props_default\<lparr>tp_words := Some [js ''a''], tp_loop := True\<rparr>"
  have "reach (typing_init ?p) (typing_step ?p) (typing_at ?p True 0 0 PTyping)"
    by (rule reach_init) (auto simp: typing_init_def typing_at_def)
  from typing_loop_never_rests [OF this] show ?thesis
    by (auto simp: wordsToAnimate_def shouldStart_def typing_at_def)
qed

end
