(* ===== verification/File_Tree.thy ===== *)
theory File_Tree
  imports Vdom "HOL-Library.Multiset"
begin

text \<open>
  The file tree, \<open>website/components/magicui/file-tree.tsx\<close>, and the tree of the
  repository that it shows, \<open>website/components/architecture/repo-tree.tsx\<close>.

  \<open>Intl.Collator\<close> compares names by their collation keys; the keys are a parameter, a
  function into a linear order. \<open>Array.prototype.sort\<close> with a consistent comparator is the
  stable sort, modelled by \<open>js_sort\<close>; the interface \<open>comparator\<close> states consistency.
\<close>

section \<open>Elements\<close>

datatype element_type = FileType | FolderType

datatype tree_element = TreeElement
  (el_id: jstr) (el_name: jstr) (el_type: "element_type option") (el_isSelectable: "bool option")
  (el_children: "tree_element list option")

definition isFolderElement :: "tree_element \<Rightarrow> bool" where
  "isFolderElement e =
     (case el_type e of Some t \<Rightarrow> t = FolderType | None \<Rightarrow> el_children e \<noteq> None)"

text \<open>\<open>[...new Set(xs)]\<close>: the first occurrence of every element, in order.\<close>

fun unique :: "'a list \<Rightarrow> 'a list" where
  "unique [] = []"
| "unique (x # xs) = x # filter (\<lambda>y. y \<noteq> x) (unique xs)"

definition mergeExpandedItems :: "jstr list option \<Rightarrow> jstr list \<Rightarrow> jstr list" where
  "mergeExpandedItems currentItems nextItems =
     unique ((case currentItems of Some xs \<Rightarrow> xs | None \<Rightarrow> []) @ nextItems)"

section \<open>Sorting\<close>

definition collator_compare :: "(jstr \<Rightarrow> 'k::linorder) \<Rightarrow> jstr \<Rightarrow> jstr \<Rightarrow> int" where
  "collator_compare key a b = (if key a < key b then -1 else if key b < key a then 1 else 0)"

definition defaultTreeComparator :: "(jstr \<Rightarrow> 'k::linorder) \<Rightarrow> tree_element \<Rightarrow> tree_element \<Rightarrow> int" where
  "defaultTreeComparator key a b =
     (let aIsFolder = isFolderElement a; bIsFolder = isFolderElement b in
      if aIsFolder \<noteq> bIsFolder then (if aIsFolder then -1 else 1)
      else collator_compare key (el_name a) (el_name b))"

datatype TreeSortMode = SortDefault | SortNone | SortBy "tree_element \<Rightarrow> tree_element \<Rightarrow> int"

fun getTreeComparator ::
  "(jstr \<Rightarrow> 'k::linorder) \<Rightarrow> TreeSortMode \<Rightarrow> (tree_element \<Rightarrow> tree_element \<Rightarrow> int) option" where
  "getTreeComparator key SortNone = None"
| "getTreeComparator key SortDefault = Some (defaultTreeComparator key)"
| "getTreeComparator key (SortBy c) = Some c"

fun sort_insert :: "('a \<Rightarrow> 'a \<Rightarrow> int) \<Rightarrow> 'a \<Rightarrow> 'a list \<Rightarrow> 'a list" where
  "sort_insert cmp x [] = [x]"
| "sort_insert cmp x (y # ys) = (if cmp x y \<le> 0 then x # y # ys else y # sort_insert cmp x ys)"

fun js_sort :: "('a \<Rightarrow> 'a \<Rightarrow> int) \<Rightarrow> 'a list \<Rightarrow> 'a list" where
  "js_sort cmp [] = []"
| "js_sort cmp (x # xs) = sort_insert cmp x (js_sort cmp xs)"

definition sort_level :: "(tree_element \<Rightarrow> tree_element \<Rightarrow> int) option \<Rightarrow> tree_element list \<Rightarrow> tree_element list" where
  "sort_level comparator nextElements =
     (case comparator of None \<Rightarrow> nextElements | Some c \<Rightarrow> js_sort c nextElements)"

text \<open>The callback of \<open>elements.map\<close>, which sorts the children first.\<close>

fun sort_element :: "(tree_element \<Rightarrow> tree_element \<Rightarrow> int) option \<Rightarrow> tree_element \<Rightarrow> tree_element" where
  "sort_element c (TreeElement i n t s None) = TreeElement i n t s None"
| "sort_element c (TreeElement i n t s (Some cs)) =
     TreeElement i n t s (Some (sort_level c (map (sort_element c) cs)))"

definition sortTreeElements ::
  "(jstr \<Rightarrow> 'k::linorder) \<Rightarrow> tree_element list \<Rightarrow> TreeSortMode \<Rightarrow> tree_element list" where
  "sortTreeElements key elements mode =
     (let comparator = getTreeComparator key mode in sort_level comparator (map (sort_element comparator) elements))"

lemma sort_insert_mset [simp]: "mset (sort_insert cmp x xs) = add_mset x (mset xs)"
  by (induction xs) auto

lemma js_sort_mset [simp]: "mset (js_sort cmp xs) = mset xs"
  by (induction xs) auto

lemma js_sort_set [simp]: "set (js_sort cmp xs) = set xs"
  by (metis js_sort_mset set_mset_mset)

lemma js_sort_length [simp]: "length (js_sort cmp xs) = length xs"
  by (metis js_sort_mset size_mset)

lemma sort_level_mset [simp]: "mset (sort_level c xs) = mset xs"
  by (simp add: sort_level_def split: option.splits)

lemma sort_level_set [simp]: "set (sort_level c xs) = set xs"
  by (metis sort_level_mset set_mset_mset)

text \<open>The recursion of the source: every child list is sorted by the same call.\<close>

lemma sortTreeElements_unfold:
  "sortTreeElements key elements mode =
     sort_level (getTreeComparator key mode)
       (map (\<lambda>e. case el_children e of None \<Rightarrow> e
             | Some cs \<Rightarrow> TreeElement (el_id e) (el_name e) (el_type e) (el_isSelectable e)
                           (Some (sortTreeElements key cs mode))) elements)"
proof -
  have eq: "sort_element c e = (case el_children e of None \<Rightarrow> e
      | Some cs \<Rightarrow> TreeElement (el_id e) (el_name e) (el_type e) (el_isSelectable e)
                     (Some (sort_level c (map (sort_element c) cs))))" for c e
    by (cases "(c, e)" rule: sort_element.cases) auto
  show ?thesis unfolding sortTreeElements_def Let_def by (intro arg_cong2 [of _ _ _ _ sort_level] map_cong refl eq)
qed

text \<open>
  A consistent comparator: the sign is antisymmetric and not after is transitive. This is
  what \<open>Array.prototype.sort\<close> asks of its argument.
\<close>

locale comparator =
  fixes cmp :: "'a \<Rightarrow> 'a \<Rightarrow> int"
  assumes sign: "sgn (cmp a b) = - sgn (cmp b a)"
    and trans: "cmp a b \<le> 0 \<Longrightarrow> cmp b c \<le> 0 \<Longrightarrow> cmp a c \<le> 0"
begin

lemma total: "\<not> cmp a b \<le> 0 \<Longrightarrow> cmp b a \<le> 0"
  using sign [of a b] by (auto simp: sgn_if split: if_splits)

lemma not_after: "cmp a b \<le> 0 \<longleftrightarrow> 0 \<le> cmp b a"
  using sign [of a b] by (auto simp: sgn_if split: if_splits)

lemma sort_insert_sorted:
  "sorted_wrt (\<lambda>a b. cmp a b \<le> 0) xs \<Longrightarrow> sorted_wrt (\<lambda>a b. cmp a b \<le> 0) (sort_insert cmp x xs)"
proof (induction xs)
  case Nil
  then show ?case by simp
next
  case (Cons y ys)
  have "set (sort_insert cmp x ys) = insert x (set ys)"
    by (metis sort_insert_mset set_mset_mset set_mset_add_mset_insert)
  then show ?case using Cons by (auto intro: trans total)
qed

lemma sorted: "sorted_wrt (\<lambda>a b. cmp a b \<le> 0) (js_sort cmp xs)"
  by (induction xs) (auto intro: sort_insert_sorted)

lemma sort_id: "sorted_wrt (\<lambda>a b. cmp a b \<le> 0) xs \<Longrightarrow> js_sort cmp xs = xs"
proof (induction xs)
  case Nil
  then show ?case by simp
next
  case (Cons x xs)
  then show ?case by (cases xs) auto
qed

lemma idem: "js_sort cmp (js_sort cmp xs) = js_sort cmp xs"
  using sorted by (rule sort_id)

lemma sort_insert_stable:
  "filter (\<lambda>y. cmp y a = 0) (sort_insert cmp x xs) = filter (\<lambda>y. cmp y a = 0) (x # xs)"
proof (induction xs)
  case Nil
  then show ?case by simp
next
  case (Cons y ys)
  have "\<not> (cmp x a = 0 \<and> cmp y a = 0)" if "\<not> cmp x y \<le> 0"
    using that trans [of x a y] sign [of y a] by (auto simp: sgn_if split: if_splits)
  then show ?case using Cons by auto
qed

text \<open>Stability: elements that compare equal keep their order.\<close>

lemma stable: "filter (\<lambda>y. cmp y a = 0) (js_sort cmp xs) = filter (\<lambda>y. cmp y a = 0) xs"
  by (induction xs) (simp_all add: sort_insert_stable)

end

interpretation default_order: comparator "defaultTreeComparator key" for key :: "jstr \<Rightarrow> 'k::linorder"
  by unfold_locales
    (auto simp: defaultTreeComparator_def collator_compare_def Let_def sgn_if split: if_splits)

section \<open>Sorted forests\<close>

text \<open>The intended order of two neighbours: folders before files, each kind by the collation of the names.\<close>

definition listed_before :: "(jstr \<Rightarrow> 'k::linorder) \<Rightarrow> tree_element \<Rightarrow> tree_element \<Rightarrow> bool" where
  "listed_before key a b \<longleftrightarrow>
     isFolderElement a \<and> \<not> isFolderElement b \<or>
     isFolderElement a = isFolderElement b \<and> key (el_name a) \<le> key (el_name b)"

lemma listed_before_iff: "listed_before key a b \<longleftrightarrow> defaultTreeComparator key a b \<le> 0"
  by (auto simp: listed_before_def defaultTreeComparator_def collator_compare_def Let_def)

lemma default_sort_sorted [simp]: "sorted_wrt (listed_before key) (js_sort (defaultTreeComparator key) xs)"
  using default_order.sorted by (rule sorted_wrt_mono_rel [rotated]) (simp add: listed_before_iff)

lemma default_sort_id: "sorted_wrt (listed_before key) xs \<Longrightarrow> js_sort (defaultTreeComparator key) xs = xs"
  by (rule default_order.sort_id) (erule sorted_wrt_mono_rel [rotated], simp add: listed_before_iff)

lemma same_place_iff:
  "defaultTreeComparator key a b = 0 \<longleftrightarrow>
     isFolderElement a = isFolderElement b \<and> key (el_name a) = key (el_name b)"
  by (auto simp: defaultTreeComparator_def collator_compare_def Let_def)

fun tree_sorted :: "(tree_element \<Rightarrow> tree_element \<Rightarrow> bool) \<Rightarrow> tree_element \<Rightarrow> bool" where
  "tree_sorted le (TreeElement i n t s None) = True"
| "tree_sorted le (TreeElement i n t s (Some cs)) = (sorted_wrt le cs \<and> list_all (tree_sorted le) cs)"

definition forest_sorted :: "(tree_element \<Rightarrow> tree_element \<Rightarrow> bool) \<Rightarrow> tree_element list \<Rightarrow> bool" where
  "forest_sorted le es \<longleftrightarrow> sorted_wrt le es \<and> list_all (tree_sorted le) es"

text \<open>Every element of a tree with everything but its children.\<close>

fun tree_labels :: "tree_element \<Rightarrow> (jstr \<times> jstr \<times> element_type option \<times> bool option) list" where
  "tree_labels (TreeElement i n t s None) = [(i, n, t, s)]"
| "tree_labels (TreeElement i n t s (Some cs)) = (i, n, t, s) # concat (map tree_labels cs)"

lemma mset_concat_cong: "mset xs = mset ys \<Longrightarrow> mset (concat (map f xs)) = mset (concat (map f ys))"
  by (metis mset_concat mset_map sum_mset_sum_list)

lemma sort_element_labels: "mset (tree_labels (sort_element c e)) = mset (tree_labels e)"
proof (induction c e rule: sort_element.induct)
  case (1 c i n t s)
  then show ?case by simp
next
  case (2 c i n t s cs)
  have "mset (concat (map tree_labels (sort_level c (map (sort_element c) cs)))) =
      mset (concat (map tree_labels (map (sort_element c) cs)))"
    by (rule mset_concat_cong) simp
  also have "\<dots> = mset (concat (map tree_labels cs))"
    using 2 by (induction cs) auto
  finally show ?case by simp
qed

lemma sort_element_fields [simp]:
  "el_id (sort_element c e) = el_id e" "el_name (sort_element c e) = el_name e"
  "el_type (sort_element c e) = el_type e" "el_isSelectable (sort_element c e) = el_isSelectable e"
  "isFolderElement (sort_element c e) = isFolderElement e"
  by (cases "(c, e)" rule: sort_element.cases; simp add: isFolderElement_def split: option.splits)+

lemma defaultTreeComparator_sort_element [simp]:
  "defaultTreeComparator key (sort_element c a) (sort_element c b) = defaultTreeComparator key a b"
  by (simp add: defaultTreeComparator_def Let_def)

lemma sort_element_sorted: "tree_sorted (listed_before key) (sort_element (Some (defaultTreeComparator key)) e)"
proof (induction "Some (defaultTreeComparator key)" e rule: sort_element.induct)
  case (1 i n t s)
  then show ?case by simp
next
  case (2 i n t s cs)
  then show ?case by (simp add: sort_level_def list_all_iff)
qed

lemma sortTreeElements_sorted: "forest_sorted (listed_before key) (sortTreeElements key es SortDefault)"
  by (simp add: forest_sorted_def sortTreeElements_def sort_level_def list_all_iff sort_element_sorted)

lemma sort_element_id:
  "tree_sorted (listed_before key) e \<Longrightarrow> sort_element (Some (defaultTreeComparator key)) e = e"
proof (induction "listed_before key" e rule: tree_sorted.induct)
  case (1 i n t s)
  then show ?case by simp
next
  case (2 i n t s cs)
  then have "map (sort_element (Some (defaultTreeComparator key))) cs = cs"
    by (auto simp: list_all_iff intro: map_idI)
  then show ?case using 2(2) by (simp add: sort_level_def default_sort_id)
qed

lemma sortTreeElements_id:
  "forest_sorted (listed_before key) es \<Longrightarrow> sortTreeElements key es SortDefault = es"
  by (simp add: forest_sorted_def sortTreeElements_def sort_level_def list_all_iff sort_element_id default_sort_id map_idI cong: map_cong)

lemma size_list_same: "(\<And>x. x \<in> set xs \<Longrightarrow> f x = g x) \<Longrightarrow> size_list f xs = size_list g xs"
  by (induction xs) auto

lemma size_sort_insert [simp]: "size_list f (sort_insert c x xs) = f x + size_list f xs + 1"
  by (induction xs) auto

lemma size_js_sort [simp]: "size_list f (js_sort c xs) = size_list f xs"
  by (induction xs) auto

lemma size_sort_level [simp]: "size_list f (sort_level c xs) = size_list f xs"
  by (simp add: sort_level_def split: option.splits)

lemma size_sort_element [simp]: "size (sort_element c e) = size e"
proof (induction c e rule: sort_element.induct)
  case (1 c i n t s)
  then show ?case by simp
next
  case (2 c i n t s cs)
  then have "size_list (size \<circ> sort_element c) cs = size_list size cs"
    by (intro size_list_same) auto
  then show ?case by (simp add: size_list_map)
qed

lemma size_sortTreeElements: "size_list size (sortTreeElements key es mode) = size_list size es"
proof -
  have "size_list (size \<circ> sort_element c) es = size_list size es" for c
    by (intro size_list_same) auto
  then show ?thesis by (simp add: sortTreeElements_def Let_def size_list_map)
qed

section \<open>Rendering\<close>

definition selectable_attr :: "tree_element \<Rightarrow> (string \<times> jstr) list" where
  "selectable_attr e = (case el_isSelectable e of Some b \<Rightarrow> [(''isSelectable'', bool_attr b)] | None \<Rightarrow> [])"

definition folder_el :: "tree_element \<Rightarrow> node list \<Rightarrow> node" where
  "folder_el e ns = El ''Folder''
     ([(''key'', el_id e), (''value'', el_id e), (''element'', el_name e)] @ selectable_attr e) ns"

definition file_el :: "tree_element \<Rightarrow> node" where
  "file_el e = El ''File'' ([(''key'', el_id e), (''value'', el_id e)] @ selectable_attr e)
     [El ''span'' [] [Txt (el_name e)]]"

lemma child_size: "e \<in> set es \<Longrightarrow> el_children e = Some cs \<Longrightarrow> size_list size cs < size_list size es"
proof -
  assume "e \<in> set es" "el_children e = Some cs"
  from \<open>el_children e = Some cs\<close> have "size_list size cs < size e" by (cases e) auto
  also have "size e < size_list size es" using \<open>e \<in> set es\<close> by (induction es) auto
  finally show ?thesis .
qed

function renderTreeElements ::
  "(jstr \<Rightarrow> 'k::linorder) \<Rightarrow> TreeSortMode \<Rightarrow> tree_element list \<Rightarrow> node list" where
  "renderTreeElements key mode es =
     map (\<lambda>e. if isFolderElement e
              then folder_el e (case el_children e of Some cs \<Rightarrow> renderTreeElements key mode cs | None \<Rightarrow> [])
              else file_el e)
       (sortTreeElements key es mode)"
  by pat_completeness auto

termination
  by (relation "measure (\<lambda>(key, mode, es). size_list size es)")
    (auto dest!: child_size simp: size_sortTreeElements)

declare renderTreeElements.simps [simp del]

text \<open>The values of the rendered folders and files, in document order.\<close>

fun tree_values :: "node \<Rightarrow> jstr list" where
  "tree_values (Txt s) = []"
| "tree_values (El t as ns) =
     (case map_of as ''value'' of Some v \<Rightarrow> [v] | None \<Rightarrow> []) @ concat (map tree_values ns)"

text \<open>The elements that should be shown: everything except what lies below a file.\<close>

fun visible_ids :: "tree_element \<Rightarrow> jstr list" where
  "visible_ids (TreeElement i n t s None) = [i]"
| "visible_ids (TreeElement i n t s (Some cs)) =
     i # (if isFolderElement (TreeElement i n t s (Some cs)) then concat (map visible_ids cs) else [])"

lemma visible_ids_eq:
  "visible_ids e = el_id e # (if isFolderElement e
     then (case el_children e of Some cs \<Rightarrow> concat (map visible_ids cs) | None \<Rightarrow> []) else [])"
  by (cases e rule: visible_ids.cases) auto

lemma forest_children_sorted:
  "forest_sorted le es \<Longrightarrow> e \<in> set es \<Longrightarrow> el_children e = Some cs \<Longrightarrow> forest_sorted le cs"
  by (cases e rule: visible_ids.cases) (auto simp: forest_sorted_def list_all_iff)

lemma render_values:
  "concat (map tree_values (renderTreeElements key SortDefault es)) =
     concat (map visible_ids (sortTreeElements key es SortDefault))"
proof (induction key "SortDefault" es rule: renderTreeElements.induct)
  case (1 key es)
  have "tree_values (if isFolderElement e
      then folder_el e (case el_children e of Some cs \<Rightarrow> renderTreeElements key SortDefault cs | None \<Rightarrow> [])
      else file_el e) = visible_ids e" if e: "e \<in> set (sortTreeElements key es SortDefault)" for e
  proof (cases "isFolderElement e")
    case True
    have "concat (map tree_values (renderTreeElements key SortDefault cs)) = concat (map visible_ids cs)"
      if "el_children e = Some cs" for cs
      using "1" [OF e True that] sortTreeElements_id [OF forest_children_sorted [OF sortTreeElements_sorted e that]]
      by simp
    then show ?thesis using True
      by (simp add: visible_ids_eq [of e] folder_el_def selectable_attr_def split: option.splits)
  next
    case False
    then show ?thesis by (simp add: visible_ids_eq [of e] file_el_def selectable_attr_def split: option.splits)
  qed
  then show ?case by (subst renderTreeElements.simps) (simp add: comp_def cong: map_cong)
qed

section \<open>Selection and expansion\<close>

record tree_state =
  selectedId :: "jstr option"
  expandedItems :: "jstr list option"

definition items :: "tree_state \<Rightarrow> jstr list" where
  "items s = (case expandedItems s of Some xs \<Rightarrow> xs | None \<Rightarrow> [])"

definition selectItem :: "jstr \<Rightarrow> tree_state \<Rightarrow> tree_state" where
  "selectItem i s = s\<lparr>selectedId := Some i\<rparr>"

definition handleExpand :: "jstr \<Rightarrow> tree_state \<Rightarrow> tree_state" where
  "handleExpand i s = s\<lparr>expandedItems :=
     (case expandedItems s of
        Some prev \<Rightarrow> if i \<in> set prev then Some (filter (\<lambda>item. item \<noteq> i) prev) else Some (prev @ [i])
      | None \<Rightarrow> Some [i])\<rparr>"

definition is_selectable :: "tree_element \<Rightarrow> bool" where
  "is_selectable e = (case el_isSelectable e of Some b \<Rightarrow> b | None \<Rightarrow> True)"

text \<open>The queued updates of \<open>setExpandedItems\<close>, applied one after the other.\<close>

fun findParent :: "jstr \<Rightarrow> tree_element \<Rightarrow> jstr list \<Rightarrow> jstr list option \<Rightarrow> jstr list option" where
  "findParent selectId (TreeElement i n t s cs) currentPath prev =
     (let isSelectable = (case s of Some b \<Rightarrow> b | None \<Rightarrow> True);
          newPath = currentPath @ [i] in
      if i = selectId then
        (if isSelectable then Some (mergeExpandedItems prev newPath)
         else if i \<in> set newPath then Some (mergeExpandedItems prev (butlast newPath)) else prev)
      else (case cs of
              Some children \<Rightarrow>
                if length children > 0
                then foldl (\<lambda>p child. findParent selectId child newPath p) prev children else prev
            | None \<Rightarrow> prev))"

declare findParent.simps [simp del]

definition expandSpecificTargetedElements ::
  "tree_element list option \<Rightarrow> jstr option \<Rightarrow> jstr list option \<Rightarrow> jstr list option" where
  "expandSpecificTargetedElements elements selectId prev =
     (case (elements, selectId) of
        (Some es, Some i) \<Rightarrow>
          if i = [] then prev else foldl (\<lambda>p e. findParent i e [] p) prev es
      | _ \<Rightarrow> prev)"

fun expandTree :: "tree_element \<Rightarrow> jstr list" where
  "expandTree (TreeElement i n t s None) = []"
| "expandTree (TreeElement i n t s (Some cs)) =
     (if (case s of Some b \<Rightarrow> b | None \<Rightarrow> True) \<and> length cs > 0 then i # concat (map expandTree cs) else [])"

definition expendAllTree :: "tree_element list \<Rightarrow> jstr list" where
  "expendAllTree es = unique (concat (map expandTree es))"

text \<open>Handlers: a disabled trigger is not clicked, a disabled file button neither.\<close>

definition folder_click :: "tree_element \<Rightarrow> tree_state \<Rightarrow> tree_state" where
  "folder_click e s = handleExpand (el_id e) (selectItem (el_id e) s)"

definition file_click :: "tree_element \<Rightarrow> tree_state \<Rightarrow> tree_state" where
  "file_click e s = selectItem (el_id e) s"

definition closeAll :: "tree_state \<Rightarrow> tree_state" where
  "closeAll s = s\<lparr>expandedItems := Some []\<rparr>"

definition expandAll :: "tree_element list \<Rightarrow> tree_state \<Rightarrow> tree_state" where
  "expandAll es s = s\<lparr>expandedItems := Some (expendAllTree es)\<rparr>"

definition collapse_click :: "tree_element list \<Rightarrow> tree_state \<Rightarrow> tree_state" where
  "collapse_click es s =
     (case expandedItems s of
        Some xs \<Rightarrow> if length xs > 0 then closeAll s else expandAll es s
      | None \<Rightarrow> expandAll es s)"

record tree_props =
  tr_elements :: "tree_element list option"
  tr_initialSelectedId :: "jstr option"
  tr_initialExpandedItems :: "jstr list option"
  tr_className :: "jstr option"
  tr_indicator :: bool
  tr_sort :: TreeSortMode
  tr_dir :: "jstr option"

definition tree_props_default :: tree_props where
  "tree_props_default = \<lparr>tr_elements = None, tr_initialSelectedId = None, tr_initialExpandedItems = None,
     tr_className = None, tr_indicator = True, tr_sort = SortDefault, tr_dir = None\<rparr>"

text \<open>The state after the first render: the effect that expands the selected element has run.\<close>

definition tree_mount :: "tree_props \<Rightarrow> tree_state" where
  "tree_mount p = \<lparr>selectedId = tr_initialSelectedId p, expandedItems =
     expandSpecificTargetedElements (tr_elements p) (tr_initialSelectedId p) (tr_initialExpandedItems p)\<rparr>"

inductive tree_step :: "tree_props \<Rightarrow> tree_state \<Rightarrow> tree_state \<Rightarrow> bool" for p where
  tree_folder: "is_selectable e \<Longrightarrow> isFolderElement e \<Longrightarrow> tree_step p s (folder_click e s)"
| tree_file: "is_selectable e \<Longrightarrow> \<not> isFolderElement e \<Longrightarrow> tree_step p s (file_click e s)"
| tree_collapse: "tree_step p s (collapse_click es s)"
| tree_expand_effect: "tree_step p s (expandAll es s)"
| tree_target_effect: "tree_step p s
    (s\<lparr>expandedItems := expandSpecificTargetedElements (tr_elements p) (tr_initialSelectedId p) (expandedItems s)\<rparr>)"

section \<open>The rendered tree\<close>

text \<open>The context of a tree; \<open>useTree\<close> fails outside one. Object arguments of \<open>cn\<close> count the keys that are true.\<close>

record tree_context =
  ctx_state :: tree_state
  ctx_indicator :: bool
  ctx_rtl :: bool

definition useTree :: "tree_context option \<Rightarrow> string + tree_context" where
  "useTree c = (case c of None \<Rightarrow> Inl ''useTree must be used within a TreeProvider'' | Some x \<Rightarrow> Inr x)"

definition dir_name :: "bool \<Rightarrow> jstr" where
  "dir_name rtl = (if rtl then js ''rtl'' else js ''ltr'')"

definition class_if :: "bool \<Rightarrow> string \<Rightarrow> jstr option" where
  "class_if b c = (if b then Some (js c) else None)"

definition treeIndicator :: "class_fn \<Rightarrow> jstr option \<Rightarrow> tree_context option \<Rightarrow> string + node" where
  "treeIndicator cn className c =
     map_sum id (\<lambda>x. El ''div'' [(''dir'', dir_name (ctx_rtl x)),
       (''className'', cn [Some (js ''bg-muted absolute left-1.5 h-full w-px rounded-md py-3 duration-300 ease-in-out hover:bg-slate-300 rtl:right-1.5''), className])] [])
     (useTree c)"

definition expanded_attr :: "tree_state \<Rightarrow> (string \<times> jstr) list" where
  "expanded_attr s = (case expandedItems s of Some xs \<Rightarrow> [(''value'', join (js '','') xs)] | None \<Rightarrow> [])"

definition treeFolder :: "class_fn \<Rightarrow> jstr option \<Rightarrow> bool option \<Rightarrow> tree_element \<Rightarrow> node list \<Rightarrow> tree_context option \<Rightarrow> string + node" where
  "treeFolder cn className isSelect e children c =
     map_sum id (\<lambda>x.
       let isSelectable = is_selectable e;
           isSelected = (case isSelect of Some b \<Rightarrow> b | None \<Rightarrow> selectedId (ctx_state x) = Some (el_id e)) in
       El ''AccordionPrimitive.Item'' [(''value'', el_id e), cls ''relative h-full overflow-hidden'']
         [El ''AccordionPrimitive.Trigger''
            [(''className'', cn [Some (js ''flex items-center gap-1 rounded-md text-sm''), className,
               class_if (isSelected \<and> isSelectable) ''bg-muted rounded-md'', class_if isSelectable ''cursor-pointer'',
               class_if (\<not> isSelectable) ''cursor-not-allowed opacity-50'']),
             (''disabled'', bool_attr (\<not> isSelectable)), att ''onClick'' ''folder_click'']
            [if el_id e \<in> set (items (ctx_state x)) then El ''FolderOpenIcon'' [cls ''size-4''] []
             else El ''FolderIcon'' [cls ''size-4''] [],
             El ''span'' [] [Txt (el_name e)]],
          El ''AccordionPrimitive.Content''
            [cls ''data-[state=closed]:animate-accordion-up data-[state=open]:animate-accordion-down relative h-full overflow-hidden text-sm'']
            ((if el_name e \<noteq> [] \<and> ctx_indicator x
              then [El ''TreeIndicator'' [att ''aria-hidden'' ''true''] []] else []) @
             [El ''AccordionPrimitive.Root'' ([(''dir'', dir_name (ctx_rtl x)), att ''type'' ''multiple'',
                cls ''ml-5 flex flex-col gap-1 py-1 rtl:mr-5''] @ expanded_attr (ctx_state x)) children])])
     (useTree c)"

definition treeFile :: "class_fn \<Rightarrow> jstr option \<Rightarrow> bool option \<Rightarrow> tree_element \<Rightarrow> node list \<Rightarrow> tree_context option \<Rightarrow> string + node" where
  "treeFile cn className isSelect e children c =
     map_sum id (\<lambda>x.
       let isSelectable = is_selectable e;
           isSelected = (case isSelect of Some b \<Rightarrow> b | None \<Rightarrow> selectedId (ctx_state x) = Some (el_id e)) in
       El ''button'' [att ''type'' ''button'', (''disabled'', bool_attr (\<not> isSelectable)),
         (''className'', cn [Some (js ''flex w-fit items-center gap-1 rounded-md pr-1 text-sm duration-200 ease-in-out rtl:pr-0 rtl:pl-1''),
            class_if (isSelected \<and> isSelectable) ''bg-muted'',
            Some (if isSelectable then js ''cursor-pointer'' else js ''cursor-not-allowed opacity-50''),
            Some (dir_name (ctx_rtl x)), className]),
         att ''onClick'' ''file_click'']
         (El ''FileIcon'' [cls ''size-4''] [] # children))
     (useTree c)"

text \<open>The context a tree provides to its folders and files.\<close>

definition tree_provider :: "tree_props \<Rightarrow> tree_state \<Rightarrow> tree_context" where
  "tree_provider p s = \<lparr>ctx_state = s, ctx_indicator = tr_indicator p, ctx_rtl = (tr_dir p = Some (js ''rtl''))\<rparr>"

definition dir_attr :: "jstr option \<Rightarrow> (string \<times> jstr) list" where
  "dir_attr d = (case d of Some x \<Rightarrow> [(''dir'', x)] | None \<Rightarrow> [])"

definition tree :: "class_fn \<Rightarrow> (jstr \<Rightarrow> 'k::linorder) \<Rightarrow> tree_props \<Rightarrow> tree_state \<Rightarrow> node list option \<Rightarrow> node" where
  "tree cn key p s children =
     (let treeChildren = (case children of Some ns \<Rightarrow> ns
            | None \<Rightarrow> (case tr_elements p of Some es \<Rightarrow> renderTreeElements key (tr_sort p) es | None \<Rightarrow> [])) in
      El ''TreeContext.Provider'' []
        [El ''div'' [(''className'', cn [Some (js ''size-full''), tr_className p])]
           [El ''ScrollArea'' ([cls ''relative h-full px-2''] @ dir_attr (tr_dir p))
              [El ''AccordionPrimitive.Root''
                 ([att ''type'' ''multiple''] @ expanded_attr s @ [cls ''flex flex-col gap-1''] @ dir_attr (tr_dir p))
                 treeChildren]]])"

definition collapseButton :: "class_fn \<Rightarrow> jstr option \<Rightarrow> node list \<Rightarrow> tree_context option \<Rightarrow> string + node" where
  "collapseButton cn className children c =
     map_sum id (\<lambda>x. El ''Button''
       [att ''variant'' ''ghost'', (''className'', cn [Some (js ''absolute right-2 bottom-1 h-8 w-fit p-1''), className]),
        (''onClick'', if items (ctx_state x) \<noteq> [] then js ''closeAll'' else js ''expandAll'')]
       (children @ [El ''span'' [cls ''sr-only''] [Txt (js ''Toggle'')]]))
     (useTree c)"

section \<open>The tree of the repository\<close>

abbreviation repo_folder :: "string \<Rightarrow> string \<Rightarrow> tree_element list \<Rightarrow> tree_element" where
  "repo_folder i n cs \<equiv> TreeElement (js i) (js n) (Some FolderType) None (Some cs)"

abbreviation repo_file :: "string \<Rightarrow> string \<Rightarrow> tree_element" where
  "repo_file i n \<equiv> TreeElement (js i) (js n) (Some FileType) None None"

definition repo_elements :: "tree_element list" where
  "repo_elements =
     [repo_folder ''api'' ''api/''
        [repo_file ''api-types'' ''CRD types and validation''],
      repo_folder ''cmd'' ''cmd/''
        [repo_file ''cmd-management'' ''management controller'',
         repo_file ''cmd-webhook'' ''host webhook'',
         repo_file ''cmd-installer'' ''kubecell-installer''],
      repo_folder ''internal'' ''internal/''
        [repo_file ''internal-controllers'' ''controllers and rendering'',
         repo_file ''internal-admission'' ''admission'',
         repo_file ''internal-platform'' ''platform constants''],
      repo_folder ''charts'' ''charts/''
        [repo_file ''charts-management'' ''kubecell-management'',
         repo_file ''charts-host'' ''kubecell-host''],
      repo_folder ''config'' ''config/''
        [repo_file ''config-kubebuilder'' ''CRDs, RBAC, webhook, manager''],
      repo_folder ''third-party'' ''third-party/''
        [repo_file ''third-party-ocm'' ''pinned upstream versions (OCM)''],
      repo_folder ''hack'' ''hack/''
        [repo_file ''hack-image'' ''image and release helpers''],
      repo_folder ''test'' ''test/''
        [repo_file ''test-envtest'' ''envtest, chart contracts, e2e''],
      repo_folder ''website'' ''website/''
        [repo_file ''website-site'' ''this site and documentation''],
      repo_file ''design'' ''technical-design.md'']"

definition repo_props :: tree_props where
  "repo_props = tree_props_default\<lparr>tr_elements := Some repo_elements,
     tr_initialExpandedItems := Some [js ''api'', js ''cmd'', js ''internal'', js ''charts''],
     tr_className := Some (js ''[&_button]:text-slate-300 [&_button:hover]:bg-white/5'')\<rparr>"

definition repoTree :: "class_fn \<Rightarrow> (jstr \<Rightarrow> 'k::linorder) \<Rightarrow> tree_state \<Rightarrow> node" where
  "repoTree cn key s =
     El ''div'' [cls ''relative h-[26rem] overflow-hidden rounded-2xl border border-white/10 bg-[#070b14] p-4'']
       [tree cn key repo_props s None]"

section \<open>Expanded folders\<close>

lemma unique_set [simp]: "set (unique xs) = set xs"
  by (induction xs) auto

lemma unique_distinct [simp]: "distinct (unique xs)"
  by (induction xs) auto

lemma unique_id: "distinct xs \<Longrightarrow> unique xs = xs"
proof (induction xs)
  case Nil
  then show ?case by simp
next
  case (Cons x xs)
  then show ?case by (auto simp: filter_id_conv)
qed

primrec opt_items :: "jstr list option \<Rightarrow> jstr list" where
  "opt_items None = []"
| "opt_items (Some xs) = xs"

lemma merge_set [simp]: "set (mergeExpandedItems prev xs) = set (opt_items prev) \<union> set xs"
  by (cases prev) (simp_all add: mergeExpandedItems_def)

lemma merge_distinct [simp]: "distinct (mergeExpandedItems prev xs)"
  by (simp add: mergeExpandedItems_def)

text \<open>The ancestors of an element below a root, outermost first.\<close>

definition kids_of :: "tree_element \<Rightarrow> tree_element list" where
  "kids_of r = (case el_children r of Some cs \<Rightarrow> cs | None \<Rightarrow> [])"

inductive tree_path :: "tree_element \<Rightarrow> tree_element list \<Rightarrow> tree_element \<Rightarrow> bool" where
  path_here: "tree_path r [] r"
| path_down: "c \<in> set (kids_of r) \<Longrightarrow> tree_path c anc e \<Longrightarrow> tree_path r (r # anc) e"

inductive_cases tree_path_cases: "tree_path r anc e"

text \<open>What targeting \<open>sel\<close> below \<open>r\<close> expands.\<close>

definition target_ids :: "jstr \<Rightarrow> tree_element \<Rightarrow> jstr set" where
  "target_ids sel r = {x. \<exists>anc e. tree_path r anc e \<and> el_id e = sel \<and> sel \<notin> el_id ` set anc \<and>
     (x \<in> el_id ` set anc \<or> x = sel \<and> is_selectable e)}"

definition targeted :: "jstr \<Rightarrow> tree_element \<Rightarrow> bool" where
  "targeted sel r \<longleftrightarrow> (\<exists>anc e. tree_path r anc e \<and> el_id e = sel \<and> sel \<notin> el_id ` set anc)"

lemma tree_path_here: "tree_path r anc e \<Longrightarrow> el_id r \<notin> el_id ` set anc \<Longrightarrow> anc = [] \<and> e = r"
  by (erule tree_path_cases) auto

lemma target_ids_here: "el_id r = sel \<Longrightarrow> target_ids sel r = (if is_selectable r then {sel} else {})"
proof -
  assume sel: "el_id r = sel"
  have "(\<exists>anc e. tree_path r anc e \<and> el_id e = sel \<and> sel \<notin> el_id ` set anc \<and> P anc e) \<longleftrightarrow> P [] r" for P
    using tree_path_here [of r] path_here [of r] sel by fastforce
  then show ?thesis by (auto simp: target_ids_def)
qed

lemma targeted_here: "el_id r = sel \<Longrightarrow> targeted sel r"
  by (auto simp: targeted_def intro!: exI [of _ "[]"] exI [of _ r] path_here)

lemma target_ids_down:
  "el_id r \<noteq> sel \<Longrightarrow> target_ids sel r =
     (\<Union>c\<in>set (kids_of r). target_ids sel c \<union> (if targeted sel c then {el_id r} else {}))"
proof
  assume ne: "el_id r \<noteq> sel"
  show "target_ids sel r \<subseteq> (\<Union>c\<in>set (kids_of r). target_ids sel c \<union> (if targeted sel c then {el_id r} else {}))"
  proof
    fix x
    assume "x \<in> target_ids sel r"
    then obtain anc e where p: "tree_path r anc e" "el_id e = sel" "sel \<notin> el_id ` set anc"
        "x \<in> el_id ` set anc \<or> x = sel \<and> is_selectable e"
      by (auto simp: target_ids_def)
    from p(1) show "x \<in> (\<Union>c\<in>set (kids_of r). target_ids sel c \<union> (if targeted sel c then {el_id r} else {}))"
    proof (cases rule: tree_path.cases)
      case path_here
      then show ?thesis using ne p(2) by simp
    next
      case (path_down c anc')
      then have "targeted sel c" using p by (auto simp: targeted_def)
      moreover have "x = el_id r \<or> x \<in> target_ids sel c" using path_down p by (auto simp: target_ids_def)
      ultimately show ?thesis using path_down by auto
    qed
  qed
  show "(\<Union>c\<in>set (kids_of r). target_ids sel c \<union> (if targeted sel c then {el_id r} else {})) \<subseteq> target_ids sel r"
  proof
    fix x
    assume "x \<in> (\<Union>c\<in>set (kids_of r). target_ids sel c \<union> (if targeted sel c then {el_id r} else {}))"
    then obtain c where c: "c \<in> set (kids_of r)" "x \<in> target_ids sel c \<or> targeted sel c \<and> x = el_id r"
      by (auto split: if_splits)
    then obtain anc e where "tree_path c anc e" "el_id e = sel" "sel \<notin> el_id ` set anc"
        "x = el_id r \<or> x \<in> el_id ` set anc \<or> x = sel \<and> is_selectable e"
      by (auto simp: target_ids_def targeted_def)
    then show "x \<in> target_ids sel r"
      using path_down [OF c(1)] ne unfolding target_ids_def
      by (intro CollectI exI [of _ "r # anc"] exI [of _ e]) auto
  qed
qed

lemma targeted_down:
  "el_id r \<noteq> sel \<Longrightarrow> targeted sel r \<longleftrightarrow> (\<exists>c\<in>set (kids_of r). targeted sel c)"
proof
  assume ne: "el_id r \<noteq> sel" and "targeted sel r"
  then obtain anc e where p: "tree_path r anc e" "el_id e = sel" "sel \<notin> el_id ` set anc" by (auto simp: targeted_def)
  from p(1) show "\<exists>c\<in>set (kids_of r). targeted sel c"
  proof (cases rule: tree_path.cases)
    case path_here
    then show ?thesis using ne p(2) by simp
  next
    case (path_down c anc')
    then have "targeted sel c" using p by (auto simp: targeted_def)
    then show ?thesis using path_down by auto
  qed
next
  assume ne: "el_id r \<noteq> sel" and "\<exists>c\<in>set (kids_of r). targeted sel c"
  then obtain c anc e where "c \<in> set (kids_of r)" "tree_path c anc e" "el_id e = sel" "sel \<notin> el_id ` set anc"
    by (auto simp: targeted_def)
  then show "targeted sel r"
    using path_down [of c r anc e] ne by (auto simp: targeted_def intro!: exI [of _ "r # anc"] exI [of _ e])
qed

lemma foldl_union:
  assumes "\<And>c prev. c \<in> set cs \<Longrightarrow> set (opt_items (f prev c)) = set (opt_items prev) \<union> S c"
  shows "set (opt_items (foldl f prev cs)) = set (opt_items prev) \<union> (\<Union>c\<in>set cs. S c)"
  using assms by (induction cs arbitrary: prev) auto

lemma findParent_set:
  "set (opt_items (findParent sel r path prev)) =
     set (opt_items prev) \<union> target_ids sel r \<union> (if targeted sel r then set path else {})"
proof (induction sel r path prev rule: findParent.induct)
  case (1 sel i n t s cs path prev)
  let ?r = "TreeElement i n t s cs"
  show ?case
  proof (cases "i = sel")
    case True
    then show ?thesis
      using target_ids_here [of ?r sel] targeted_here [of ?r sel]
      by (auto simp: findParent.simps is_selectable_def split: option.splits)
  next
    case False
    show ?thesis
    proof (cases cs)
      case None
      then show ?thesis
        using False target_ids_down [of ?r sel] targeted_down [of ?r sel]
        by (simp add: findParent.simps Let_def kids_of_def)
    next
      case (Some ds)
      have "set (opt_items (foldl (\<lambda>p c. findParent sel c (path @ [i]) p) prev ds)) = set (opt_items prev) \<union>
          (\<Union>c\<in>set ds. target_ids sel c \<union> (if targeted sel c then set (path @ [i]) else {}))"
      proof (rule foldl_union)
        fix c p
        assume "c \<in> set ds"
        then have "ds \<noteq> []" by auto
        then show "set (opt_items (findParent sel c (path @ [i]) p)) =
            set (opt_items p) \<union> (target_ids sel c \<union> (if targeted sel c then set (path @ [i]) else {}))"
          using "1.IH" [OF refl refl False Some _ \<open>c \<in> set ds\<close>] by (simp add: Un_assoc)
      qed
      then show ?thesis
        using False Some target_ids_down [of ?r sel] targeted_down [of ?r sel]
        by (cases "ds = []") (auto simp: findParent.simps Let_def kids_of_def split: if_splits)
    qed
  qed
qed

lemma expandTree_eq:
  "expandTree r = (if is_selectable r \<and> kids_of r \<noteq> [] then el_id r # concat (map expandTree (kids_of r)) else [])"
  by (cases r rule: expandTree.cases) (simp_all add: is_selectable_def kids_of_def)

lemma expandTree_complete:
  "tree_path r anc e \<Longrightarrow> \<forall>a\<in>set anc. is_selectable a \<Longrightarrow> el_id ` set anc \<subseteq> set (expandTree r)"
proof (induction rule: tree_path.induct)
  case (path_here r)
  then show ?case by simp
next
  case (path_down c r anc e)
  then have "kids_of r \<noteq> []" "is_selectable r" by auto
  then show ?case using path_down by (auto simp: expandTree_eq [of r])
qed

lemma expandTree_sound:
  "x \<in> set (expandTree r) \<Longrightarrow>
     \<exists>anc e. tree_path r anc e \<and> (\<forall>a\<in>set anc. is_selectable a) \<and> x \<in> el_id ` set anc"
proof (induction r rule: expandTree.induct)
  case (1 i n t s)
  then show ?case by simp
next
  case (2 i n t s cs)
  let ?r = "TreeElement i n t s (Some cs)"
  have r: "is_selectable ?r" "cs \<noteq> []" "kids_of ?r = cs"
    using "2.prems" by (auto simp: is_selectable_def kids_of_def split: if_splits)
  then consider "x = i" | c where "c \<in> set cs" "x \<in> set (expandTree c)"
    using "2.prems" by (auto split: if_splits)
  then show ?case
  proof cases
    case 1
    have "tree_path ?r [?r] (hd cs)" using r by (intro path_down [of "hd cs"] path_here) auto
    then show ?thesis using 1 r by (intro exI [of _ "[?r]"] exI [of _ "hd cs"]) auto
  next
    case (2 c)
    then obtain anc e where "tree_path c anc e" "\<forall>a\<in>set anc. is_selectable a" "x \<in> el_id ` set anc"
      using "2.IH" [of c] r(1,2) by (auto simp: is_selectable_def [of ?r])
    then show ?thesis using 2 r path_down [of c ?r anc e] by (intro exI [of _ "?r # anc"] exI [of _ e]) auto
  qed
qed

lemma visible_ids_mset: "mset (visible_ids (sort_element c e)) = mset (visible_ids e)"
proof (induction c e rule: sort_element.induct)
  case (1 c i n t s)
  then show ?case by simp
next
  case (2 c i n t s cs)
  have "mset (concat (map visible_ids (sort_level c (map (sort_element c) cs)))) =
      mset (concat (map visible_ids (map (sort_element c) cs)))"
    by (rule mset_concat_cong) simp
  also have "\<dots> = mset (concat (map visible_ids cs))"
    using 2 by (induction cs) auto
  finally show ?case by (simp add: isFolderElement_def split: option.splits)
qed

lemma sortTreeElements_mset:
  assumes "\<And>c e. mset (f (sort_element c e)) = mset (f e)"
  shows "mset (concat (map f (sortTreeElements key es mode))) = mset (concat (map f es))"
proof -
  have "mset (concat (map f (sort_level c (map (sort_element c) es)))) = mset (concat (map f (map (sort_element c) es)))" for c
    by (rule mset_concat_cong) simp
  moreover have "mset (concat (map f (map (sort_element c) es))) = mset (concat (map f es))" for c
    by (induction es) (simp_all add: assms)
  ultimately show ?thesis by (simp add: sortTreeElements_def Let_def)
qed

text \<open>
  The invariant of a tree: no folder is listed twice as expanded, unless the list it was
  given at the start already has one twice.
\<close>

definition tree_inv :: "tree_props \<Rightarrow> tree_state \<Rightarrow> bool" where
  "tree_inv p s \<longleftrightarrow> (distinct (opt_items (tr_initialExpandedItems p)) \<longrightarrow> distinct (items s))"

definition tree_init :: "tree_props \<Rightarrow> tree_state \<Rightarrow> bool" where
  "tree_init p s \<longleftrightarrow> s = tree_mount p"

lemma items_simps [simp]:
  "items (s\<lparr>selectedId := i\<rparr>) = items s" "items (s\<lparr>expandedItems := xs\<rparr>) = opt_items xs"
  "opt_items (expandedItems s) = items s"
  by (simp_all add: items_def split: option.splits)

lemma findParent_distinct: "distinct (opt_items prev) \<Longrightarrow> distinct (opt_items (findParent sel r path prev))"
proof (induction sel r path prev rule: findParent.induct)
  case (1 sel i n t s cs path prev)
  have fold: "distinct (opt_items (foldl (\<lambda>p c. findParent sel c (path @ [i]) p) q ds))"
    if "i \<noteq> sel" "cs = Some es" "set ds \<subseteq> set es" "distinct (opt_items q)" for ds es q
    using that(3,4)
  proof (induction ds arbitrary: q)
    case Nil
    then show ?case by simp
  next
    case (Cons d ds)
    then have "es \<noteq> []" by auto
    then show ?case using Cons "1.IH" [OF refl refl that(1,2), of d q] by auto
  qed
  show ?case using "1.prems" fold by (auto simp: findParent.simps Let_def split: option.splits)
qed

lemma expandSpecific_distinct:
  "distinct (opt_items prev) \<Longrightarrow> distinct (opt_items (expandSpecificTargetedElements es sel prev))"
proof -
  assume "distinct (opt_items prev)"
  then have "distinct (opt_items (foldl (\<lambda>p e. findParent i e [] p) prev xs))" for i xs
    by (induction xs arbitrary: prev) (auto intro: findParent_distinct)
  then show ?thesis using \<open>distinct (opt_items prev)\<close>
    by (simp add: expandSpecificTargetedElements_def split: option.splits)
qed

lemma handleExpand_set: "x \<in> set (items (handleExpand i s)) \<longleftrightarrow> (x \<in> set (items s)) \<noteq> (x = i)"
  by (auto simp: handleExpand_def items_def split: option.splits)

lemma handleExpand_distinct: "tree_inv p s \<Longrightarrow> tree_inv p (handleExpand i s)"
  by (auto simp: tree_inv_def handleExpand_def items_def split: option.splits)

interpretation tree_view: component "tree_init p" "tree_step p" "tree_inv p" for p
proof
  show "tree_inv p s" if "tree_init p s" for s
  proof -
    have "items s = opt_items (expandSpecificTargetedElements (tr_elements p) (tr_initialSelectedId p) (tr_initialExpandedItems p))"
      using that by (simp add: tree_init_def tree_mount_def items_def split: option.splits)
    then show ?thesis using that expandSpecific_distinct by (simp add: tree_init_def tree_inv_def)
  qed
  show "tree_inv p t" if "tree_inv p s" "tree_step p s t" for s t
    using that(2,1)
  proof (induction rule: tree_step.induct)
    case (tree_folder e s)
    then show ?case by (auto simp: folder_click_def intro!: handleExpand_distinct) (simp add: tree_inv_def selectItem_def)
  next
    case (tree_target_effect s)
    then show ?case using tree_target_effect expandSpecific_distinct by (simp add: tree_inv_def)
  qed (auto simp: tree_inv_def file_click_def selectItem_def collapse_click_def closeAll_def expandAll_def
      expendAllTree_def split: option.splits)
qed

section \<open>Properties of the file tree\<close>

text \<open>
  C30. Sorting a tree in the default mode orders every level, folders before files and each
  group by the collation of its names; it keeps every element with its attributes, keeps
  the order of elements that compare equal, and sorting again changes nothing.
\<close>

theorem sortTreeElements_correct:
  "forest_sorted (listed_before key) (sortTreeElements key es SortDefault) \<and>
   mset (concat (map tree_labels (sortTreeElements key es SortDefault))) = mset (concat (map tree_labels es)) \<and>
   map el_id (filter (\<lambda>y. isFolderElement y = isFolderElement a \<and> key (el_name y) = key (el_name a))
       (sortTreeElements key es SortDefault)) =
     map el_id (filter (\<lambda>y. isFolderElement y = isFolderElement a \<and> key (el_name y) = key (el_name a)) es) \<and>
   sortTreeElements key (sortTreeElements key es SortDefault) SortDefault = sortTreeElements key es SortDefault"
proof -
  let ?c = "defaultTreeComparator key"
  have "?c (sort_element (Some ?c) y) a = ?c y a" for y by (simp add: defaultTreeComparator_def Let_def)
  then have "filter (\<lambda>y. ?c y a = 0) (sortTreeElements key es SortDefault) =
      map (sort_element (Some ?c)) (filter (\<lambda>y. ?c y a = 0) es)"
    by (simp add: sortTreeElements_def sort_level_def default_order.stable filter_map comp_def)
  then show ?thesis
    using sortTreeElements_sorted [of key es] sortTreeElements_id [OF sortTreeElements_sorted]
      sortTreeElements_mset [of tree_labels key es SortDefault, OF sort_element_labels]
    by (simp add: same_place_iff)
qed

text \<open>
  C31. The tree renders every element that is not below a file exactly once, in the order
  of the sorted tree: sorting the children once more on the way down makes no difference.
  In the tree of the repository no two of them share a key.
\<close>

theorem renderTreeElements_shows:
  "concat (map tree_values (renderTreeElements key SortDefault es)) =
     concat (map visible_ids (sortTreeElements key es SortDefault)) \<and>
   mset (concat (map tree_values (renderTreeElements key SortDefault es))) = mset (concat (map visible_ids es)) \<and>
   distinct (concat (map tree_values (renderTreeElements key SortDefault repo_elements)))"
proof -
  have perm: "mset (concat (map tree_values (renderTreeElements key SortDefault es))) = mset (concat (map visible_ids es))" for es
    unfolding render_values by (rule sortTreeElements_mset) (rule visible_ids_mset)
  moreover have "distinct (concat (map visible_ids repo_elements))"
    by (simp add: repo_elements_def isFolderElement_def)
  ultimately have "distinct (concat (map tree_values (renderTreeElements key SortDefault repo_elements)))"
    by (metis mset_eq_imp_distinct_iff)
  then show ?thesis using render_values perm by blast
qed

text \<open>
  C32. Whatever is clicked, no folder is recorded as expanded twice, provided the list of
  initially expanded items names none twice. A click on a folder changes the expansion of that
  folder only and selects it, and a second click undoes it; these need no such proviso.
\<close>

theorem tree_toggle:
  assumes "reach (tree_init p) (tree_step p) s"
  shows "(distinct (opt_items (tr_initialExpandedItems p)) \<longrightarrow> distinct (items s)) \<and>
    (x \<in> set (items (folder_click e s)) \<longleftrightarrow> (x \<in> set (items s)) \<noteq> (x = el_id e)) \<and>
    set (items (folder_click e (folder_click e s))) = set (items s) \<and>
    selectedId (folder_click e s) = Some (el_id e)"
proof -
  have "tree_inv p s" using assms by (rule tree_view.always)
  moreover have "selectedId (handleExpand i u) = selectedId u" for i u by (simp add: handleExpand_def)
  ultimately show ?thesis
    by (auto simp: tree_inv_def folder_click_def handleExpand_set selectItem_def)
qed

theorem tree_toggle_witness:
  "set (items (folder_click (hd repo_elements) (tree_mount repo_props))) = {js ''cmd'', js ''internal'', js ''charts''} \<and>
   distinct (items (tree_mount repo_props))"
proof -
  let ?s = "tree_mount repo_props"
  have i: "items ?s = [js ''api'', js ''cmd'', js ''internal'', js ''charts'']"
    by (simp add: tree_mount_def repo_props_def tree_props_default_def expandSpecificTargetedElements_def items_def)
  have "reach (tree_init repo_props) (tree_step repo_props) ?s"
    by (rule reach_init) (simp add: tree_init_def)
  note t = tree_toggle [OF this, of _ "hd repo_elements"]
  have id: "el_id (hd repo_elements) = js ''api''" by (simp add: repo_elements_def)
  have "x \<in> set (items (folder_click (hd repo_elements) ?s)) \<longleftrightarrow> x \<in> {js ''cmd'', js ''internal'', js ''charts''}" for x
    using t [of x] unfolding i id by (cases "x = js ''api''") simp_all
  moreover have "distinct (opt_items (tr_initialExpandedItems repo_props))" by (simp add: repo_props_def)
  ultimately show ?thesis using t by blast
qed

text \<open>The proviso is needed: a list that names a folder twice is taken as it is.\<close>

lemma tree_records_twice:
  "items (tree_mount (repo_props\<lparr>tr_initialExpandedItems := Some [i, i], tr_initialSelectedId := None\<rparr>)) = [i, i]"
  by (simp add: tree_mount_def expandSpecificTargetedElements_def items_def split: option.splits)

text \<open>
  Selecting an element at the start opens the way to it: the folders that are expanded
  afterwards are those that were, the ancestors of every element with the selected name
  (the first one on its path) and that element itself unless it is not selectable.
\<close>

theorem expandSpecificTargetedElements_opens:
  assumes "sel \<noteq> []"
  shows "set (opt_items (expandSpecificTargetedElements (Some es) (Some sel) prev)) = set (opt_items prev) \<union>
    {x. \<exists>r\<in>set es. \<exists>anc e. tree_path r anc e \<and> el_id e = sel \<and> sel \<notin> el_id ` set anc \<and>
       (x \<in> el_id ` set anc \<or> x = sel \<and> is_selectable e)}"
proof -
  have "set (opt_items (foldl (\<lambda>p e. findParent sel e [] p) prev es)) =
      set (opt_items prev) \<union> (\<Union>r\<in>set es. target_ids sel r)"
    by (rule foldl_union) (simp add: findParent_set)
  moreover have "(\<Union>r\<in>set es. target_ids sel r) = {x. \<exists>r\<in>set es. \<exists>anc e. tree_path r anc e \<and> el_id e = sel \<and>
      sel \<notin> el_id ` set anc \<and> (x \<in> el_id ` set anc \<or> x = sel \<and> is_selectable e)}"
    unfolding target_ids_def by blast
  ultimately show ?thesis using assms by (simp add: expandSpecificTargetedElements_def)
qed

theorem expandSpecificTargetedElements_opens_witness:
  "js ''cmd'' \<in> set (opt_items (expandSpecificTargetedElements (Some repo_elements) (Some (js ''cmd-webhook'')) None))"
proof -
  let ?cmd = "repo_elements ! 1" and ?hook = "repo_file ''cmd-webhook'' ''host webhook''"
  have "tree_path ?cmd [?cmd] ?hook"
    by (rule path_down [OF _ path_here]) (simp add: repo_elements_def kids_of_def)
  moreover have "?cmd \<in> set repo_elements" "el_id ?cmd = js ''cmd''" by (simp_all add: repo_elements_def)
  ultimately have "\<exists>r\<in>set repo_elements. \<exists>anc e. tree_path r anc e \<and> el_id e = js ''cmd-webhook'' \<and>
      js ''cmd-webhook'' \<notin> el_id ` set anc \<and> (js ''cmd'' \<in> el_id ` set anc \<or> js ''cmd'' = js ''cmd-webhook'' \<and> is_selectable e)"
    by (intro bexI [of _ ?cmd] exI [of _ "[?cmd]"] exI [of _ ?hook]) auto
  then show ?thesis using expandSpecificTargetedElements_opens [of "js ''cmd-webhook''" repo_elements None]
    by (auto simp: js_def [of "''cmd-webhook''"])
qed

text \<open>
  Expanding all opens exactly the folders that are not empty and can be reached through
  selectable folders, each once; the collapse button then closes everything.
\<close>

theorem expendAllTree_correct:
  "(x \<in> set (expendAllTree es) \<longleftrightarrow>
     (\<exists>r anc e. r \<in> set es \<and> tree_path r anc e \<and> list_all is_selectable anc \<and> x \<in> el_id ` set anc)) \<and>
   distinct (expendAllTree es) \<and>
   items (collapse_click es (s\<lparr>expandedItems := Some []\<rparr>)) = expendAllTree es \<and>
   items (collapse_click es (s\<lparr>expandedItems := Some (y # ys)\<rparr>)) = []"
proof -
  have "x \<in> set (expendAllTree es) \<longleftrightarrow>
      (\<exists>r anc e. r \<in> set es \<and> tree_path r anc e \<and> list_all is_selectable anc \<and> x \<in> el_id ` set anc)"
    using expandTree_complete expandTree_sound unfolding expendAllTree_def list_all_iff unique_set
    by (auto simp del: image_iff) blast+
  then show ?thesis
    by (simp add: expendAllTree_def collapse_click_def closeAll_def expandAll_def)
qed

end
