(* ===== verification/Hexagon.thy ===== *)
theory Hexagon
  imports Vdom Complex_Main
begin

text \<open>
  The honeycomb background, \<open>website/components/magicui/hexagon-pattern.tsx\<close>. Numbers are
  real numbers, that is, the geometry is the one the formulas describe, without the
  rounding of floating point; \<open>num\<close> is the conversion of a number to text in a template
  literal and stays a parameter.
\<close>

section \<open>Geometry\<close>

datatype direction = Horizontal | Vertical

type_synonym point = "real \<times> real"

definition hexVertexList :: "real \<Rightarrow> real \<Rightarrow> real \<Rightarrow> direction \<Rightarrow> point list" where
  "hexVertexList cx cy r direction =
     (let startAngle = (case direction of Horizontal \<Rightarrow> 0 | Vertical \<Rightarrow> 30) in
      map (\<lambda>i. let angle = ((startAngle + real i * 60) * pi) / 180 in
             (cx + r * cos angle, cy + r * sin angle)) [0..<6])"

definition hexPoints :: "(real \<Rightarrow> jstr) \<Rightarrow> real \<Rightarrow> real \<Rightarrow> real \<Rightarrow> direction \<Rightarrow> jstr" where
  "hexPoints num cx cy r direction =
     join (js '' '') (map (\<lambda>(px, py). num px @ js '','' @ num py) (hexVertexList cx cy r direction))"

text \<open>\<open>x.toFixed(6)\<close>: the nearest multiple of \<open>10\<^sup>-\<^sup>6\<close>, the larger one of two, by magnitude.\<close>

definition pad6 :: "nat \<Rightarrow> jstr" where
  "pad6 n = replicate (6 - length (digits n)) 48 @ digits n"

definition toFixed6 :: "real \<Rightarrow> jstr" where
  "toFixed6 x =
     (let n = nat \<lfloor>\<bar>x\<bar> * 1000000 + 1/2\<rfloor> in
      (if x < 0 then js ''-'' else []) @ digits (n div 1000000) @ js ''.'' @ pad6 (n mod 1000000))"

definition edgeLexKey :: "point \<Rightarrow> point \<Rightarrow> jstr" where
  "edgeLexKey a b =
     (let (p, q) = (if fst a < fst b \<or> fst a = fst b \<and> snd a \<le> snd b then (a, b) else (b, a)) in
      toFixed6 (fst p) @ js '','' @ toFixed6 (snd p) @ js ''|'' @ toFixed6 (fst q) @ js '','' @ toFixed6 (snd q))"

text \<open>The six edges of a hexagon, and the loop body that keeps an edge not seen before.\<close>

definition hex_edges :: "point list \<Rightarrow> (point \<times> point) list" where
  "hex_edges verts = map (\<lambda>i. (verts ! i, verts ! ((i + 1) mod 6))) [0..<6]"

definition collect_edge ::
  "jstr set \<times> (point \<times> point) list \<Rightarrow> point \<times> point \<Rightarrow> jstr set \<times> (point \<times> point) list" where
  "collect_edge acc e =
     (let (seen, edges) = acc; key = edgeLexKey (fst e) (snd e) in
      if key \<notin> seen then (insert key seen, edges @ [e]) else acc)"

definition collectUniqueHexEdges :: "point list \<Rightarrow> real \<Rightarrow> direction \<Rightarrow> (point \<times> point) list" where
  "collectUniqueHexEdges centers r direction =
     snd (foldl (\<lambda>acc (cx, cy). foldl collect_edge acc (hex_edges (hexVertexList cx cy r direction))) ({}, []) centers)"

definition isSolidStrokeDasharray :: "jstr \<Rightarrow> bool" where
  "isSolidStrokeDasharray strokeDasharray =
     (let t = trim strokeDasharray in t = [] \<or> t = js ''none'' \<or> t = js ''0'')"

record hex_spacing =
  colStep :: real
  rowStep :: real
  tileW :: real
  tileH :: real

definition getHexSpacing :: "real \<Rightarrow> direction \<Rightarrow> real \<Rightarrow> hex_spacing" where
  "getHexSpacing r direction gap =
     (case direction of
        Horizontal \<Rightarrow>
          (let colStep = (3 * r) / 2 + (sqrt 3 * gap) / 2; rowStep = sqrt 3 * r + gap in
           \<lparr>colStep = colStep, rowStep = rowStep, tileW = colStep * 2, tileH = rowStep\<rparr>)
      | Vertical \<Rightarrow>
          (let colStep = sqrt 3 * r + gap; rowStep = (3 * r) / 2 + (sqrt 3 * gap) / 2 in
           \<lparr>colStep = colStep, rowStep = rowStep, tileW = colStep, tileH = rowStep * 2\<rparr>))"

text \<open>The copies of one centre that the body of the loop pushes, in order.\<close>

definition tile_copies :: "real \<Rightarrow> real \<Rightarrow> real \<Rightarrow> point \<Rightarrow> point list" where
  "tile_copies r tw th c =
     (let (cx, cy) = c in
      [(cx, cy)] @
      (if cy - r < 0 then [(cx, cy + th)] else []) @
      (if cy + r > th then [(cx, cy - th)] else []) @
      (if cx - r < 0 then [(cx + tw, cy)] else []) @
      (if cx + r > tw then [(cx - tw, cy)] else []) @
      (if cy - r < 0 \<and> cx - r < 0 then [(cx + tw, cy + th)] else []) @
      (if cy - r < 0 \<and> cx + r > tw then [(cx - tw, cy + th)] else []) @
      (if cy + r > th \<and> cx - r < 0 then [(cx + tw, cy - th)] else []) @
      (if cy + r > th \<and> cx + r > tw then [(cx - tw, cy - th)] else []))"

definition canonical :: "real \<Rightarrow> direction \<Rightarrow> real \<Rightarrow> point list" where
  "canonical r direction gap =
     (let s = getHexSpacing r direction gap in
      case direction of
        Horizontal \<Rightarrow> [(colStep s / 2, rowStep s / 2), ((colStep s * 3) / 2, rowStep s)]
      | Vertical \<Rightarrow> [(colStep s / 2, rowStep s / 2), (colStep s, (rowStep s * 3) / 2)])"

definition getTileGeometry :: "real \<Rightarrow> direction \<Rightarrow> real \<Rightarrow> real \<times> real \<times> point list" where
  "getTileGeometry r direction gap =
     (let s = getHexSpacing r direction gap in
      (tileW s, tileH s, concat (map (tile_copies r (tileW s) (tileH s)) (canonical r direction gap))))"

definition hexCenter :: "int \<Rightarrow> int \<Rightarrow> real \<Rightarrow> direction \<Rightarrow> real \<Rightarrow> point" where
  "hexCenter col row r direction gap =
     (let s = getHexSpacing r direction gap in
      case direction of
        Horizontal \<Rightarrow>
          (of_int col * colStep s + colStep s / 2,
           of_int row * rowStep s + rowStep s / 2 + (if col mod 2 \<noteq> 0 then rowStep s / 2 else 0))
      | Vertical \<Rightarrow>
          (of_int col * colStep s + colStep s / 2 + (if row mod 2 \<noteq> 0 then colStep s / 2 else 0),
           of_int row * rowStep s + rowStep s / 2))"

section \<open>The element\<close>

record hex_props =
  hx_radius :: real
  hx_gap :: real
  hx_x :: real
  hx_y :: real
  hx_direction :: direction
  hx_strokeDasharray :: jstr
  hx_hexagons :: "(int \<times> int) list option"
  hx_className :: "jstr option"

definition hex_props_default :: hex_props where
  "hex_props_default = \<lparr>hx_radius = 40, hx_gap = 0, hx_x = -1, hx_y = -1, hx_direction = Horizontal,
     hx_strokeDasharray = js ''0'', hx_hexagons = None, hx_className = None\<rparr>"

definition int_text :: "int \<Rightarrow> jstr" where
  "int_text i = (if i < 0 then js ''-'' @ digits (nat (- i)) else digits (nat i))"

definition hexagonPattern :: "class_fn \<Rightarrow> (real \<Rightarrow> jstr) \<Rightarrow> jstr \<Rightarrow> hex_props \<Rightarrow> node" where
  "hexagonPattern cn num pid p =
     (let (tw, th, centers) = getTileGeometry (hx_radius p) (hx_direction p) (hx_gap p);
          solidStroke = isSolidStrokeDasharray (hx_strokeDasharray p) in
      El ''svg'' [att ''aria-hidden'' ''true'',
        (''className'', cn [Some (js ''pointer-events-none absolute inset-0 h-full w-full fill-gray-400/30 stroke-gray-400/30''), hx_className p])]
        ([El ''defs'' []
            [El ''pattern'' [(''id'', pid), (''width'', num tw), (''height'', num th), att ''patternUnits'' ''userSpaceOnUse'',
               (''x'', num (hx_x p)), (''y'', num (hx_y p))]
               (if solidStroke
                then map (\<lambda>(cx, cy). El ''polygon''
                       [cls ''fill-none'', (''key'', num cx @ js ''-'' @ num cy),
                        (''points'', hexPoints num cx cy (hx_radius p) (hx_direction p)),
                        (''strokeDasharray'', hx_strokeDasharray p)] []) centers
                else map (\<lambda>(a, b). El ''line''
                       [cls ''fill-none'', (''key'', edgeLexKey a b), (''x1'', num (fst a)), (''x2'', num (fst b)),
                        (''y1'', num (snd a)), (''y2'', num (snd b)), (''strokeDasharray'', hx_strokeDasharray p)] [])
                       (collectUniqueHexEdges centers (hx_radius p) (hx_direction p)))],
          El ''rect'' [att ''width'' ''100%'', att ''height'' ''100%'', (''fill'', js ''url(#'' @ pid @ js '')''), att ''stroke'' ''none''] []] @
         (case hx_hexagons p of
            Some hs \<Rightarrow>
              if length hs > 0
              then [El ''svg'' [att ''aria-hidden'' ''true'', cls ''overflow-visible'', (''x'', num (hx_x p)), (''y'', num (hx_y p))]
                (map (\<lambda>(col, row).
                   let (cx, cy) = hexCenter col row (hx_radius p) (hx_direction p) (hx_gap p) in
                   El ''polygon'' [(''key'', int_text col @ js ''-'' @ int_text row),
                     (''points'', hexPoints num cx cy (hx_radius p - 1) (hx_direction p)), att ''strokeWidth'' ''0''] []) hs)]
              else []
          | None \<Rightarrow> [])))"

section \<open>The lattice\<close>

lemmas spacing_defs = getHexSpacing_def Let_def

lemma spacing_relations:
  "colStep (getHexSpacing r Horizontal gap) = sqrt 3 / 2 * rowStep (getHexSpacing r Horizontal gap)"
  "rowStep (getHexSpacing r Vertical gap) = sqrt 3 / 2 * colStep (getHexSpacing r Vertical gap)"
  by (simp_all add: spacing_defs algebra_simps)

text \<open>A centre of the lattice is a canonical centre moved by whole tiles.\<close>

lemma hexCenter_horizontal:
  "hexCenter col row r Horizontal gap =
     (let s = getHexSpacing r Horizontal gap; c = canonical r Horizontal gap ! nat (col mod 2) in
      (fst c + of_int (col div 2) * tileW s, snd c + of_int row * tileH s))"
proof -
  have col: "real_of_int col = 2 * of_int (col div 2) + of_int (col mod 2)"
    by (metis mult_div_mod_eq of_int_add of_int_mult of_int_numeral)
  have "col mod 2 = 0 \<or> col mod 2 = 1" by auto
  then show ?thesis
    by (elim disjE) (simp_all add: hexCenter_def canonical_def spacing_defs col algebra_simps)
qed

lemma hexCenter_vertical:
  "hexCenter col row r Vertical gap =
     (let s = getHexSpacing r Vertical gap; c = canonical r Vertical gap ! nat (row mod 2) in
      (fst c + of_int col * tileW s, snd c + of_int (row div 2) * tileH s))"
proof -
  have row: "real_of_int row = 2 * of_int (row div 2) + of_int (row mod 2)"
    by (metis mult_div_mod_eq of_int_add of_int_mult of_int_numeral)
  have "row mod 2 = 0 \<or> row mod 2 = 1" by auto
  then show ?thesis
    by (elim disjE) (simp_all add: hexCenter_def canonical_def spacing_defs row algebra_simps)
qed

lemma shift_range:
  fixes k :: int and w r c :: real
  assumes "0 < w" and "r < w" and "0 \<le> c" and "c \<le> w"
    and "0 < c + of_int k * w + r" and "c + of_int k * w - r < w"
  shows "k = -1 \<and> c + r > w \<or> k = 0 \<or> k = 1 \<and> c - r < 0"
proof -
  have "k < 2"
  proof (rule ccontr)
    assume "\<not> k < 2"
    then have "2 * w \<le> of_int k * w" using assms(1) by (intro mult_right_mono) auto
    then show False using assms by linarith
  qed
  moreover have "-2 < k"
  proof (rule ccontr)
    assume "\<not> -2 < k"
    then have "of_int k * w \<le> -2 * w" using assms(1) by (intro mult_right_mono) auto
    then show False using assms by linarith
  qed
  ultimately have "k = -1 \<or> k = 0 \<or> k = 1" by linarith
  then show ?thesis using assms by auto
qed

text \<open>Every copy of a centre whose box overlaps the tile is one of the pushed copies.\<close>

lemma tile_copies_complete:
  fixes k l :: int and r tw th cx cy :: real
  assumes "0 < r" and "r < tw" and "r < th"
    and "0 \<le> cx" and "cx \<le> tw" and "0 \<le> cy" and "cy \<le> th"
    and "0 < cx + of_int k * tw + r" and "cx + of_int k * tw - r < tw"
    and "0 < cy + of_int l * th + r" and "cy + of_int l * th - r < th"
  shows "(cx + of_int k * tw, cy + of_int l * th) \<in> set (tile_copies r tw th (cx, cy))"
proof -
  have "k = -1 \<and> cx + r > tw \<or> k = 0 \<or> k = 1 \<and> cx - r < 0"
    using assms by (intro shift_range) auto
  moreover have "l = -1 \<and> cy + r > th \<or> l = 0 \<or> l = 1 \<and> cy - r < 0"
    using assms by (intro shift_range) auto
  ultimately show ?thesis by (elim disjE conjE) (simp_all add: tile_copies_def)
qed

lemma spacing_bounds:
  assumes "0 < r" and "0 \<le> gap"
  shows "r < tileW (getHexSpacing r d gap)" "r < tileH (getHexSpacing r d gap)"
    "0 < colStep (getHexSpacing r d gap)" "0 < rowStep (getHexSpacing r d gap)"
proof -
  have "1 < sqrt 3" by simp
  then have "1 * r < sqrt 3 * r" using assms(1) by (rule mult_strict_right_mono)
  moreover have "0 \<le> sqrt 3 * gap" using assms(2) by simp
  ultimately show "r < tileW (getHexSpacing r d gap)" "r < tileH (getHexSpacing r d gap)"
    "0 < colStep (getHexSpacing r d gap)" "0 < rowStep (getHexSpacing r d gap)"
    using assms by (cases d; simp add: spacing_defs; linarith)+
qed

lemma canonical_in_tile:
  assumes "0 < r" and "0 \<le> gap" and "c \<in> set (canonical r d gap)"
  shows "0 \<le> fst c" "fst c \<le> tileW (getHexSpacing r d gap)" "0 \<le> snd c" "snd c \<le> tileH (getHexSpacing r d gap)"
proof -
  have t: "tileW (getHexSpacing r Horizontal gap) = 2 * colStep (getHexSpacing r Horizontal gap)"
    "tileH (getHexSpacing r Horizontal gap) = rowStep (getHexSpacing r Horizontal gap)"
    "tileW (getHexSpacing r Vertical gap) = colStep (getHexSpacing r Vertical gap)"
    "tileH (getHexSpacing r Vertical gap) = 2 * rowStep (getHexSpacing r Vertical gap)"
    by (simp_all add: spacing_defs)
  show "0 \<le> fst c" "fst c \<le> tileW (getHexSpacing r d gap)" "0 \<le> snd c" "snd c \<le> tileH (getHexSpacing r d gap)"
    using assms(3) spacing_bounds(3,4) [OF assms(1,2), of d]
    by (cases d; auto simp: canonical_def Let_def t)+
qed

lemma hexCenter_copy:
  "\<exists>c\<in>set (canonical r d gap). \<exists>k l. hexCenter col row r d gap =
     (fst c + of_int k * tileW (getHexSpacing r d gap), snd c + of_int l * tileH (getHexSpacing r d gap))"
proof -
  have two: "canonical r d gap ! nat (n mod 2) \<in> set (canonical r d gap)" for n :: int
  proof -
    have "length (canonical r d gap) = 2" by (cases d) (simp_all add: canonical_def Let_def)
    moreover have "nat (n mod 2) < 2" by auto
    ultimately show ?thesis by simp
  qed
  show ?thesis
  proof (cases d)
    case Horizontal
    then show ?thesis using two [of col] hexCenter_horizontal [of col row r gap]
      by (intro bexI [of _ "canonical r d gap ! nat (col mod 2)"] exI) (auto simp: Let_def)
  next
    case Vertical
    then show ?thesis using two [of row] hexCenter_vertical [of col row r gap]
      by (intro bexI [of _ "canonical r d gap ! nat (row mod 2)"] exI) (auto simp: Let_def)
  qed
qed

section \<open>Distances\<close>

definition distance :: "point \<Rightarrow> point \<Rightarrow> real" where
  "distance a b = sqrt ((fst a - fst b)\<^sup>2 + (snd a - snd b)\<^sup>2)"

text \<open>The six neighbours of a cell: in rows or columns that are odd the next ones are shifted.\<close>

definition hex_neighbours :: "direction \<Rightarrow> int \<Rightarrow> int \<Rightarrow> (int \<times> int) list" where
  "hex_neighbours d col row =
     (case d of
        Horizontal \<Rightarrow> (let k = (if col mod 2 \<noteq> 0 then row + 1 else row - 1) in
          [(col, row - 1), (col, row + 1), (col - 1, row), (col + 1, row), (col - 1, k), (col + 1, k)])
      | Vertical \<Rightarrow> (let k = (if row mod 2 \<noteq> 0 then col + 1 else col - 1) in
          [(col - 1, row), (col + 1, row), (col, row - 1), (col, row + 1), (k, row - 1), (k, row + 1)]))"

text \<open>One for odd numbers; offsets between neighbours, counted in steps and half steps.\<close>

definition odd1 :: "int \<Rightarrow> int" where
  "odd1 n = (if n mod 2 \<noteq> 0 then 1 else 0)"

definition adjacent :: "int \<Rightarrow> int \<Rightarrow> bool" where
  "adjacent a b \<longleftrightarrow> a = 0 \<and> (b = 2 \<or> b = -2) \<or> (a = 1 \<or> a = -1) \<and> (b = 1 \<or> b = -1)"

lemma odd1_step: "odd1 (n - 1) = 1 - odd1 n" "odd1 (n + 1) = 1 - odd1 n"
  by (auto simp: odd1_def) presburger+

lemma odd1_cases: "n mod 2 \<noteq> 0 \<Longrightarrow> odd1 n = 1" "\<not> n mod 2 \<noteq> 0 \<Longrightarrow> odd1 n = 0"
  by (simp_all add: odd1_def)

lemma neighbours_horizontal:
  "(c, w) \<in> set (hex_neighbours Horizontal col row) \<Longrightarrow> adjacent (col - c) (2 * (row - w) + odd1 col - odd1 c)"
  by (cases "col mod 2 \<noteq> 0") (auto simp: hex_neighbours_def Let_def adjacent_def odd1_step odd1_cases)

lemma neighbours_vertical:
  "(c, w) \<in> set (hex_neighbours Vertical col row) \<Longrightarrow> adjacent (row - w) (2 * (col - c) + odd1 row - odd1 w)"
  by (cases "row mod 2 \<noteq> 0") (auto simp: hex_neighbours_def Let_def adjacent_def odd1_step odd1_cases)

lemma adjacent_distance:
  assumes "0 \<le> (h::real)" and "adjacent a b"
  shows "sqrt ((sqrt 3 / 2 * h * of_int a)\<^sup>2 + (h / 2 * of_int b)\<^sup>2) = h"
    "sqrt ((h / 2 * of_int b)\<^sup>2 + (sqrt 3 / 2 * h * of_int a)\<^sup>2) = h"
proof -
  have "(sqrt 3 / 2 * h * of_int a)\<^sup>2 + (h / 2 * of_int b)\<^sup>2 = h\<^sup>2"
    using assms(2) by (auto simp: adjacent_def power_mult_distrib power_divide)
  then show "sqrt ((sqrt 3 / 2 * h * of_int a)\<^sup>2 + (h / 2 * of_int b)\<^sup>2) = h"
    "sqrt ((h / 2 * of_int b)\<^sup>2 + (sqrt 3 / 2 * h * of_int a)\<^sup>2) = h"
    using assms(1) by (simp_all add: add.commute)
qed

lemma centre_difference:
  fixes r gap :: real
  defines "h \<equiv> sqrt 3 * r + gap"
  shows "fst (hexCenter col row r Horizontal gap) - fst (hexCenter c w r Horizontal gap) = sqrt 3 / 2 * h * of_int (col - c)"
    and "snd (hexCenter col row r Horizontal gap) - snd (hexCenter c w r Horizontal gap) =
      h / 2 * of_int (2 * (row - w) + odd1 col - odd1 c)"
    and "snd (hexCenter col row r Vertical gap) - snd (hexCenter c w r Vertical gap) = sqrt 3 / 2 * h * of_int (row - w)"
    and "fst (hexCenter col row r Vertical gap) - fst (hexCenter c w r Vertical gap) =
      h / 2 * of_int (2 * (col - c) + odd1 row - odd1 w)"
proof -
  have steps: "rowStep (getHexSpacing r Horizontal gap) = h" "colStep (getHexSpacing r Horizontal gap) = sqrt 3 / 2 * h"
    "colStep (getHexSpacing r Vertical gap) = h" "rowStep (getHexSpacing r Vertical gap) = sqrt 3 / 2 * h"
    by (simp_all add: spacing_defs h_def algebra_simps)
  show "fst (hexCenter col row r Horizontal gap) - fst (hexCenter c w r Horizontal gap) = sqrt 3 / 2 * h * of_int (col - c)"
    "snd (hexCenter col row r Vertical gap) - snd (hexCenter c w r Vertical gap) = sqrt 3 / 2 * h * of_int (row - w)"
    by (simp_all add: hexCenter_def Let_def steps algebra_simps)
  have half: "(if n mod 2 \<noteq> 0 then h / 2 else 0) = h / 2 * of_int (odd1 n)" for n by (simp add: odd1_def)
  show "snd (hexCenter col row r Horizontal gap) - snd (hexCenter c w r Horizontal gap) =
      h / 2 * of_int (2 * (row - w) + odd1 col - odd1 c)"
    "fst (hexCenter col row r Vertical gap) - fst (hexCenter c w r Vertical gap) =
      h / 2 * of_int (2 * (col - c) + odd1 row - odd1 w)"
    unfolding hexCenter_def Let_def direction.case fst_conv snd_conv steps half by (simp_all add: algebra_simps)
qed

lemma neighbour_distance:
  assumes "0 \<le> r" and "0 \<le> gap" and "(c, w) \<in> set (hex_neighbours d col row)"
  shows "distance (hexCenter col row r d gap) (hexCenter c w r d gap) = sqrt 3 * r + gap"
proof -
  have h: "0 \<le> sqrt 3 * r + gap" using assms(1,2) by simp
  show ?thesis
  proof (cases d)
    case Horizontal
    then show ?thesis using assms(3) neighbours_horizontal adjacent_distance(1) [OF h]
      by (simp only: distance_def centre_difference)
  next
    case Vertical
    then show ?thesis using assms(3) neighbours_vertical adjacent_distance(2) [OF h]
      by (simp only: distance_def centre_difference)
  qed
qed

lemma vertex_distance: "0 \<le> r \<Longrightarrow> map (distance (cx, cy)) (hexVertexList cx cy r d) = replicate 6 r"
proof -
  assume r: "0 \<le> r"
  have "distance (cx, cy) (cx + r * cos t, cy + r * sin t) = r" for t
  proof -
    have "(r * cos t)\<^sup>2 + (r * sin t)\<^sup>2 = r\<^sup>2 * ((cos t)\<^sup>2 + (sin t)\<^sup>2)"
      by (simp only: power_mult_distrib distrib_left)
    then show ?thesis using r by (simp add: distance_def)
  qed
  then have "map (distance (cx, cy)) (hexVertexList cx cy r d) = map (\<lambda>_. r) [0..<6]"
    by (simp add: hexVertexList_def Let_def)
  then show ?thesis by (simp add: map_replicate_const)
qed

section \<open>Edges\<close>

lemma edgeLexKey_sym: "edgeLexKey a b = edgeLexKey b a"
  by (cases a; cases b) (auto simp: edgeLexKey_def)

abbreviation edge_key :: "point \<times> point \<Rightarrow> jstr" where
  "edge_key e \<equiv> edgeLexKey (fst e) (snd e)"

definition edges_ok :: "(point \<times> point) set \<Rightarrow> jstr set \<times> (point \<times> point) list \<Rightarrow> bool" where
  "edges_ok all acc \<longleftrightarrow> distinct (map edge_key (snd acc)) \<and> fst acc = edge_key ` set (snd acc) \<and>
     fst acc = edge_key ` all \<and> set (snd acc) \<subseteq> all"

lemma collect_edge_ok: "edges_ok all acc \<Longrightarrow> edges_ok (insert e all) (collect_edge acc e)"
  by (cases acc) (auto simp: edges_ok_def collect_edge_def Let_def)

lemma collect_edges_ok: "edges_ok all acc \<Longrightarrow> edges_ok (all \<union> set es) (foldl collect_edge acc es)"
proof (induction es arbitrary: all acc)
  case Nil
  then show ?case by simp
next
  case (Cons e es)
  then show ?case using Cons.IH [OF collect_edge_ok [OF Cons.prems], of e] by simp
qed

lemma collect_centres_ok:
  "edges_ok all acc \<Longrightarrow>
     edges_ok (all \<union> (\<Union>(cx, cy)\<in>set cs. set (hex_edges (hexVertexList cx cy r d))))
       (foldl (\<lambda>acc (cx, cy). foldl collect_edge acc (hex_edges (hexVertexList cx cy r d))) acc cs)"
proof (induction cs arbitrary: all acc)
  case Nil
  then show ?case by simp
next
  case (Cons c cs)
  obtain cx cy where c: "c = (cx, cy)" by (cases c)
  show ?case using Cons.IH [OF collect_edges_ok [OF Cons.prems, of "hex_edges (hexVertexList cx cy r d)"]]
    by (simp add: c Un_assoc)
qed

section \<open>Properties of the honeycomb\<close>

text \<open>
  C33. The pattern tile is complete: for a positive radius and a gap that is not negative,
  every cell of the infinite honeycomb whose bounding box overlaps the tile is drawn in it,
  so that the repeated tile shows the whole honeycomb, with the highlighted cells in place.
\<close>

theorem tile_covers_lattice:
  assumes "0 < r" and "0 \<le> gap" and "getTileGeometry r d gap = (w, h, centers)"
    and "hexCenter col row r d gap = (x, y)"
    and "0 < x + r" and "x - r < w" and "0 < y + r" and "y - r < h"
  shows "(x, y) \<in> set centers"
proof -
  let ?s = "getHexSpacing r d gap"
  obtain c k l where c: "c \<in> set (canonical r d gap)"
    and xy: "x = fst c + of_int k * tileW ?s" "y = snd c + of_int l * tileH ?s"
    using hexCenter_copy [of r d gap col row] assms(4) by auto
  have wh: "w = tileW ?s" "h = tileH ?s" and cs: "centers = concat (map (tile_copies r w h) (canonical r d gap))"
    using assms(3) by (auto simp: getTileGeometry_def Let_def)
  have "(fst c + of_int k * w, snd c + of_int l * h) \<in> set (tile_copies r w h (fst c, snd c))"
    using assms spacing_bounds [OF assms(1,2), of d] canonical_in_tile [OF assms(1,2) c] xy wh
    by (intro tile_copies_complete) auto
  then show ?thesis using c cs xy wh by auto
qed

theorem tile_covers_lattice_witness:
  "\<exists>w h centers. getTileGeometry 40 Vertical 0 = (w, h, centers) \<and> hexCenter 0 0 40 Vertical 0 \<in> set centers"
proof -
  obtain w h centers where g: "getTileGeometry 40 Vertical 0 = (w, h, centers)" by (cases "getTileGeometry 40 Vertical 0")
  obtain x y where xy: "hexCenter 0 0 40 Vertical 0 = (x, y)" by (cases "hexCenter 0 0 40 Vertical 0")
  have "x = sqrt 3 * 20" "y = 30" "w = sqrt 3 * 40" "h = 120"
    using g xy by (auto simp: getTileGeometry_def hexCenter_def spacing_defs)
  moreover have "-2 < sqrt (3::real)" by (rule less_le_trans [of _ 0]) simp_all
  ultimately have "(x, y) \<in> set centers" using tile_covers_lattice [OF _ _ g xy] by simp
  then show ?thesis using g xy by auto
qed

text \<open>
  The gap is the visible distance: all six neighbours of a cell are equally far away,
  and the distance of the centres less twice the inner radius is \<open>gap\<close>, in both directions;
  the vertices of a cell lie at distance \<open>r\<close> from its centre.
\<close>

theorem gap_is_edge_distance:
  assumes "0 \<le> r" and "0 \<le> gap"
  shows "map (\<lambda>(c, w). distance (hexCenter col row r d gap) (hexCenter c w r d gap) - 2 * (sqrt 3 / 2 * r))
      (hex_neighbours d col row) = replicate 6 gap \<and>
    map (distance (cx, cy)) (hexVertexList cx cy r d) = replicate 6 r"
proof -
  have "map (\<lambda>(c, w). distance (hexCenter col row r d gap) (hexCenter c w r d gap) - 2 * (sqrt 3 / 2 * r))
      (hex_neighbours d col row) = map (\<lambda>_. gap) (hex_neighbours d col row)"
    using neighbour_distance [OF assms] by (intro map_cong) auto
  moreover have "length (hex_neighbours d col row) = 6"
    by (cases d) (simp_all add: hex_neighbours_def Let_def)
  ultimately show ?thesis using vertex_distance [OF assms(1)] by (simp add: map_replicate_const)
qed

theorem gap_is_edge_distance_witness:
  "distance (hexCenter 0 0 40 Horizontal 6) (hexCenter 0 (-1) 40 Horizontal 6) - 2 * (sqrt 3 / 2 * 40) = 6"
  using gap_is_edge_distance [of 40 6 0 0 Horizontal 0 0]
  by (simp add: hex_neighbours_def Let_def numeral_eq_Suc)

text \<open>
  Dashed outlines are drawn once: the edges collected for a list of cells have pairwise
  different keys, they are edges of these cells, and each edge of each cell is represented;
  an edge has the same key in both directions.
\<close>

theorem collectUniqueHexEdges_correct:
  "distinct (map (\<lambda>(a, b). edgeLexKey a b) (collectUniqueHexEdges centers r d)) \<and>
   set (collectUniqueHexEdges centers r d) \<subseteq> (\<Union>(cx, cy)\<in>set centers. set (hex_edges (hexVertexList cx cy r d))) \<and>
   (\<lambda>(a, b). edgeLexKey a b) ` set (collectUniqueHexEdges centers r d) =
     (\<lambda>(a, b). edgeLexKey a b) ` (\<Union>(cx, cy)\<in>set centers. set (hex_edges (hexVertexList cx cy r d))) \<and>
   edgeLexKey a b = edgeLexKey b a"
proof -
  have "edges_ok {} ({}, [])" by (simp add: edges_ok_def)
  from collect_centres_ok [OF this, where cs = centers and r = r and d = d] show ?thesis
    using edgeLexKey_sym unfolding edges_ok_def collectUniqueHexEdges_def split_def by simp metis
qed

end
