(* ===== verification/Icon_Cloud.thy ===== *)
theory Icon_Cloud
  imports Vdom Complex_Main
begin

text \<open>
  The rotating cloud of icons, \<open>website/components/magicui/icon-cloud.tsx\<close>. Numbers are
  real numbers. An icon's picture is prepared on a canvas of its own and becomes available
  when its image has loaded; the browser decides when. Time is the argument of the handlers
  that call \<open>performance.now()\<close>. What a frame draws is kept in \<open>drawn\<close>.
\<close>

section \<open>Geometry\<close>

definition easeOutCubic :: "real \<Rightarrow> real" where
  "easeOutCubic t = 1 - (1 - t) ^ 3"

text \<open>\<open>Math.atan2(y, x)\<close>.\<close>

definition atan2 :: "real \<Rightarrow> real \<Rightarrow> real" where
  "atan2 y x =
     (if x > 0 then arctan (y / x)
      else if x < 0 then (if y \<ge> 0 then arctan (y / x) + pi else arctan (y / x) - pi)
      else if y > 0 then pi / 2 else if y < 0 then - (pi / 2) else 0)"

record Icon =
  ic_x :: real
  ic_y :: real
  ic_z :: real
  ic_scale :: real
  ic_opacity :: real
  ic_id :: nat

text \<open>\<open>items.length || 20\<close> icons on a Fibonacci sphere of radius 100.\<close>

definition numIcons :: "nat \<Rightarrow> nat" where
  "numIcons n = (if n = 0 then 20 else n)"

definition sphere_icon :: "nat \<Rightarrow> nat \<Rightarrow> Icon" where
  "sphere_icon m i =
     (let offset = 2 / real m;
          increment = pi * (3 - sqrt 5);
          y = real i * offset - 1 + offset / 2;
          r = sqrt (1 - y * y);
          phi = real i * increment;
          x = cos phi * r;
          z = sin phi * r in
      \<lparr>ic_x = x * 100, ic_y = y * 100, ic_z = z * 100, ic_scale = 1, ic_opacity = 1, ic_id = i\<rparr>)"

definition sphere_icons :: "nat \<Rightarrow> Icon list" where
  "sphere_icons n = map (sphere_icon (numIcons n)) [0..<numIcons n]"

text \<open>The position of an icon relative to the centre, and its depth.\<close>

definition rotatedX :: "real \<times> real \<Rightarrow> Icon \<Rightarrow> real" where
  "rotatedX rot icon = ic_x icon * cos (snd rot) - ic_z icon * sin (snd rot)"

definition rotatedZ :: "real \<times> real \<Rightarrow> Icon \<Rightarrow> real" where
  "rotatedZ rot icon = ic_x icon * sin (snd rot) + ic_z icon * cos (snd rot)"

definition rotatedY :: "real \<times> real \<Rightarrow> Icon \<Rightarrow> real" where
  "rotatedY rot icon = ic_y icon * cos (fst rot) + rotatedZ rot icon * sin (fst rot)"

definition icon_scale :: "real \<times> real \<Rightarrow> Icon \<Rightarrow> real" where
  "icon_scale rot icon = (rotatedZ rot icon + 200) / 300"

definition icon_opacity :: "real \<times> real \<Rightarrow> Icon \<Rightarrow> real" where
  "icon_opacity rot icon = max (2/10) (min 1 ((rotatedZ rot icon + 150) / 200))"

section \<open>State\<close>

record target_rotation =
  tg_x :: real
  tg_y :: real
  startX :: real
  startY :: real
  tg_distance :: real
  startTime :: real
  tg_duration :: real

datatype picture = Image nat | Number nat | Nothing_drawn

record draw =
  dr_x :: real
  dr_y :: real
  dr_scale :: real
  dr_alpha :: real
  dr_picture :: picture

record cloud_props =
  cl_icons :: "node list option"
  cl_images :: "jstr list option"
  showControl :: bool

record cloud_state =
  ctx_ok :: bool
  iconPositions :: "Icon list"
  isDragging :: bool
  isPaused :: bool
  lastMousePos :: "real \<times> real"
  mousePos :: "real \<times> real"
  targetRotation :: "target_rotation option"
  rotation :: "real \<times> real"
  loaded :: "bool list"
  frame :: bool
  drawn :: "draw list"

definition cloud_items :: "cloud_props \<Rightarrow> nat" where
  "cloud_items p =
     (case cl_icons p of Some is \<Rightarrow> length is
      | None \<Rightarrow> (case cl_images p of Some srcs \<Rightarrow> length srcs | None \<Rightarrow> 0))"

definition has_items :: "cloud_props \<Rightarrow> bool" where
  "has_items p \<longleftrightarrow> cl_icons p \<noteq> None \<or> cl_images p \<noteq> None"

abbreviation canvas_width :: real where
  "canvas_width \<equiv> 400"

abbreviation canvas_height :: real where
  "canvas_height \<equiv> 400"

section \<open>One frame\<close>

definition spin_speed :: "cloud_state \<Rightarrow> real \<times> real \<Rightarrow> real" where
  "spin_speed s d =
     (let centerX = canvas_width / 2; centerY = canvas_height / 2;
          maxDistance = sqrt (centerX * centerX + centerY * centerY);
          distance = sqrt (fst d * fst d + snd d * snd d) in
      3/1000 + (distance / maxDistance) * (1/100))"

definition eased :: "real \<Rightarrow> target_rotation \<Rightarrow> real" where
  "eased now t = easeOutCubic (min 1 ((now - startTime t) / tg_duration t))"

definition turn :: "real \<Rightarrow> cloud_state \<Rightarrow> real \<times> real" where
  "turn now s =
     (let dx = fst (mousePos s) - canvas_width / 2;
          dy = snd (mousePos s) - canvas_height / 2;
          speed = spin_speed s (dx, dy) in
      case targetRotation s of
        Some t \<Rightarrow> (startX t + (tg_x t - startX t) * eased now t, startY t + (tg_y t - startY t) * eased now t)
      | None \<Rightarrow>
          if \<not> isDragging s \<and> \<not> isPaused s
          then (fst (rotation s) + (dy / canvas_height) * speed, snd (rotation s) + (dx / canvas_width) * speed)
          else rotation s)"

definition draw_icon :: "cloud_props \<Rightarrow> cloud_state \<Rightarrow> nat \<Rightarrow> Icon \<Rightarrow> draw" where
  "draw_icon p s index icon =
     \<lparr>dr_x = canvas_width / 2 + rotatedX (rotation s) icon, dr_y = canvas_height / 2 + rotatedY (rotation s) icon,
      dr_scale = icon_scale (rotation s) icon, dr_alpha = icon_opacity (rotation s) icon,
      dr_picture =
        (if has_items p
         then (if index < length (loaded s) \<and> loaded s ! index then Image index else Nothing_drawn)
         else Number (ic_id icon + 1))\<rparr>"

definition hasPendingAssets :: "cloud_props \<Rightarrow> cloud_state \<Rightarrow> bool" where
  "hasPendingAssets p s \<longleftrightarrow> has_items p \<and> \<not> list_all (\<lambda>l. l) (loaded s)"

definition shouldContinue :: "cloud_props \<Rightarrow> cloud_state \<Rightarrow> bool" where
  "shouldContinue p s \<longleftrightarrow> \<not> isPaused s \<or> isDragging s \<or> targetRotation s \<noteq> None \<or> hasPendingAssets p s"

definition finished :: "real \<Rightarrow> cloud_state \<Rightarrow> bool" where
  "finished now s =
     (case targetRotation s of Some t \<Rightarrow> min 1 ((now - startTime t) / tg_duration t) \<ge> 1 | None \<Rightarrow> False)"

text \<open>The body of \<open>animate\<close>, up to the request of the next frame.\<close>

definition animate_once :: "cloud_props \<Rightarrow> real \<Rightarrow> cloud_state \<Rightarrow> cloud_state" where
  "animate_once p now s =
     (let s1 = s\<lparr>rotation := turn now s\<rparr> in
      s1\<lparr>drawn := map (\<lambda>(i, icon). draw_icon p s1 i icon) (enumerate 0 (iconPositions s1)),
         frame := shouldContinue p s1\<rparr>)"

text \<open>
  When the target is reached, \<open>setTargetRotation(null)\<close> renders again: the effect is cleaned
  up, which cancels the frame, and runs anew without a target.
\<close>

definition cloud_animate :: "cloud_props \<Rightarrow> real \<Rightarrow> cloud_state \<Rightarrow> cloud_state" where
  "cloud_animate p now s =
     (if ctx_ok s
      then (let s1 = animate_once p now s in
            if finished now s then animate_once p now (s1\<lparr>targetRotation := None, frame := False\<rparr>) else s1)
      else s)"

text \<open>Every change of the state renders again: clean-up, then \<open>animate()\<close>.\<close>

definition rerender :: "cloud_props \<Rightarrow> real \<Rightarrow> cloud_state \<Rightarrow> cloud_state" where
  "rerender p now s = cloud_animate p now (s\<lparr>frame := False\<rparr>)"

section \<open>Handlers\<close>

definition hit :: "cloud_state \<Rightarrow> real \<times> real \<Rightarrow> Icon \<Rightarrow> bool" where
  "hit s pos icon =
     (let screenX = canvas_width / 2 + rotatedX (rotation s) icon;
          screenY = canvas_height / 2 + rotatedY (rotation s) icon;
          radius = 20 * icon_scale (rotation s) icon;
          dx = fst pos - screenX; dy = snd pos - screenY in
      dx * dx + dy * dy < radius * radius)"

definition aim :: "cloud_state \<Rightarrow> real \<Rightarrow> Icon \<Rightarrow> target_rotation" where
  "aim s now icon =
     (let targetX = - atan2 (ic_y icon) (sqrt (ic_x icon * ic_x icon + ic_z icon * ic_z icon));
          targetY = atan2 (ic_x icon) (ic_z icon);
          currentX = fst (rotation s); currentY = snd (rotation s);
          distance = sqrt ((targetX - currentX) ^ 2 + (targetY - currentY) ^ 2);
          duration = min 2000 (max 800 (distance * 1000)) in
      \<lparr>tg_x = targetX, tg_y = targetY, startX = currentX, startY = currentY, tg_distance = distance,
       startTime = now, tg_duration = duration\<rparr>)"

text \<open>
  \<open>return\<close> inside \<open>forEach\<close> only leaves the callback: the last icon that is hit
  wins. A press that hits nothing while dragging changes nothing the effect depends on.
\<close>

definition pick :: "cloud_state \<Rightarrow> real \<Rightarrow> real \<times> real \<Rightarrow> target_rotation option" where
  "pick s now pos =
     foldl (\<lambda>t icon. if hit s pos icon then Some (aim s now icon) else t) (targetRotation s) (iconPositions s)"

definition handleMouseDown :: "cloud_props \<Rightarrow> real \<Rightarrow> real \<times> real \<Rightarrow> real \<times> real \<Rightarrow> cloud_state \<Rightarrow> cloud_state" where
  "handleMouseDown p now client rect s =
     (if \<not> ctx_ok s then s
      else
        let pos = (fst client - fst rect, snd client - snd rect);
            s1 = s\<lparr>targetRotation := pick s now pos, isDragging := True, lastMousePos := client\<rparr> in
        if isDragging s \<and> \<not> list_ex (hit s pos) (iconPositions s) then s1 else rerender p now s1)"

definition handleMouseMove :: "cloud_props \<Rightarrow> real \<Rightarrow> real \<times> real \<Rightarrow> real \<times> real \<Rightarrow> cloud_state \<Rightarrow> cloud_state" where
  "handleMouseMove p now client rect s =
     (let s1 = s\<lparr>mousePos := (fst client - fst rect, snd client - snd rect)\<rparr>;
          s2 = (if isDragging s
                then s1\<lparr>rotation := (fst (rotation s) + (snd client - snd (lastMousePos s)) * (2/1000),
                                   snd (rotation s) + (fst client - fst (lastMousePos s)) * (2/1000)),
                        lastMousePos := client\<rparr>
                else s1) in
      rerender p now s2)"

definition handleMouseUp :: "cloud_props \<Rightarrow> real \<Rightarrow> cloud_state \<Rightarrow> cloud_state" where
  "handleMouseUp p now s = (if isDragging s then rerender p now (s\<lparr>isDragging := False\<rparr>) else s)"

definition setPaused :: "cloud_props \<Rightarrow> real \<Rightarrow> bool \<Rightarrow> cloud_state \<Rightarrow> cloud_state" where
  "setPaused p now b s = (if isPaused s = b then s else rerender p now (s\<lparr>isPaused := b\<rparr>))"

definition image_loaded :: "nat \<Rightarrow> cloud_state \<Rightarrow> cloud_state" where
  "image_loaded i s = s\<lparr>loaded := (loaded s)[i := True]\<rparr>"

text \<open>The first effects animate without icons; the positions and the reduced motion they set render again.\<close>

definition cloud_start :: "cloud_props \<Rightarrow> bool \<Rightarrow> cloud_state" where
  "cloud_start p ctx = \<lparr>ctx_ok = ctx, iconPositions = [], isDragging = False, isPaused = False,
     lastMousePos = (0, 0), mousePos = (0, 0), targetRotation = None, rotation = (0, 0),
     loaded = (if has_items p then replicate (cloud_items p) False else []), frame = False, drawn = []\<rparr>"

definition cloud_mount :: "cloud_props \<Rightarrow> bool \<Rightarrow> bool \<Rightarrow> real \<Rightarrow> cloud_state" where
  "cloud_mount p ctx reduced now =
     rerender p now ((rerender p now (cloud_start p ctx))
       \<lparr>isPaused := reduced, iconPositions := sphere_icons (cloud_items p)\<rparr>)"

definition cloud_init :: "cloud_props \<Rightarrow> cloud_state \<Rightarrow> bool" where
  "cloud_init p s \<longleftrightarrow> (\<exists>ctx reduced now. s = cloud_mount p ctx reduced now)"

inductive cloud_step :: "cloud_props \<Rightarrow> cloud_state \<Rightarrow> cloud_state \<Rightarrow> bool" for p where
  cloud_frame: "frame s \<Longrightarrow> cloud_step p s (cloud_animate p now (s\<lparr>frame := False\<rparr>))"
| cloud_down: "cloud_step p s (handleMouseDown p now client rect s)"
| cloud_move: "cloud_step p s (handleMouseMove p now client rect s)"
| cloud_up: "cloud_step p s (handleMouseUp p now s)"
| cloud_pause: "cloud_step p s (setPaused p now b s)"
| cloud_load: "cloud_step p s (image_loaded i s)"

definition iconCloud :: "cloud_props \<Rightarrow> cloud_state \<Rightarrow> node" where
  "iconCloud p s = El ''div'' [cls ''relative inline-block'']
     (El ''canvas'' [att ''width'' ''400'', att ''height'' ''400'', att ''onMouseDown'' ''handleMouseDown'',
        att ''onMouseMove'' ''handleMouseMove'', att ''onMouseUp'' ''handleMouseUp'', att ''onMouseLeave'' ''handleMouseUp'',
        cls ''rounded-lg'', att ''aria-label'' ''Interactive 3D Icon Cloud'', att ''role'' ''img''] [] #
      (if showControl p
       then [El ''Button'' [att ''variant'' ''outline'', att ''size'' ''icon'', att ''onClick'' ''setIsPaused'',
               (''aria-label'', if isPaused s then js ''Play Animation'' else js ''Pause Animation''),
               cls ''absolute top-2 right-2'']
               [if isPaused s then El ''Play'' [att ''size'' ''16''] [] else El ''Pause'' [att ''size'' ''16''] []]]
       else []))"

section \<open>Angles\<close>

lemma arctan_polar:
  assumes "x \<noteq> 0"
  shows "cos (arctan (y / x)) * sqrt (x * x + y * y) = \<bar>x\<bar>" "sin (arctan (y / x)) * sqrt (x * x + y * y) = y * \<bar>x\<bar> / x"
proof -
  have "x * x + y * y = x\<^sup>2 * (1 + (y / x)\<^sup>2)" using assms by (simp add: field_simps power2_eq_square)
  then have r: "sqrt (x * x + y * y) = \<bar>x\<bar> * sqrt (1 + (y / x)\<^sup>2)" by (simp add: real_sqrt_mult)
  have "sqrt (1 + (y / x)\<^sup>2) \<noteq> 0" by (metis add_pos_nonneg less_numeral_extra(1,3) real_sqrt_eq_zero_cancel_iff zero_le_power2)
  then show "cos (arctan (y / x)) * sqrt (x * x + y * y) = \<bar>x\<bar>" "sin (arctan (y / x)) * sqrt (x * x + y * y) = y * \<bar>x\<bar> / x"
    unfolding r cos_arctan sin_arctan by simp_all
qed

lemma atan2_polar:
  "cos (atan2 y x) * sqrt (x * x + y * y) = x" "sin (atan2 y x) * sqrt (x * x + y * y) = y"
proof -
  consider "x > 0" | "x < 0" | "x = 0" by linarith
  then have "cos (atan2 y x) * sqrt (x * x + y * y) = x \<and> sin (atan2 y x) * sqrt (x * x + y * y) = y"
  proof cases
    case 1
    then show ?thesis using arctan_polar [of x y] by (simp add: atan2_def)
  next
    case 2
    then show ?thesis using arctan_polar [of x y] by (simp add: atan2_def cos_diff sin_diff)
  next
    case 3
    then show ?thesis by (simp add: atan2_def real_sqrt_mult_self)
  qed
  then show "cos (atan2 y x) * sqrt (x * x + y * y) = x" "sin (atan2 y x) * sqrt (x * x + y * y) = y" by simp_all
qed

lemma polar_unit: "(s * d) * s + (c * d) * c = d * (s\<^sup>2 + (c::real)\<^sup>2)"
  by (simp add: power2_eq_square algebra_simps)

text \<open>Turned to the angles that \<open>aim\<close> computes, an icon lies on the line of sight.\<close>

lemma aim_centres:
  "rotatedX (tg_x (aim s now icon), tg_y (aim s now icon)) icon = 0"
  "rotatedY (tg_x (aim s now icon), tg_y (aim s now icon)) icon = 0"
proof -
  let ?x = "ic_x icon" and ?y = "ic_y icon" and ?z = "ic_z icon"
  let ?t = "atan2 ?x ?z"
  define d where "d = sqrt (?z * ?z + ?x * ?x)"
  define a where "a = atan2 ?y (sqrt (?x * ?x + ?z * ?z))"
  have z: "?z = cos ?t * d" and x: "?x = sin ?t * d" using atan2_polar [of ?x ?z] by (simp_all add: d_def)
  show "rotatedX (tg_x (aim s now icon), tg_y (aim s now icon)) icon = 0"
    unfolding rotatedX_def aim_def Let_def by (simp only: target_rotation.simps snd_conv) (subst (1) x, subst (2) z, simp)
  have depth: "rotatedZ (r, ?t) icon = d" for r
  proof -
    have "?x * sin ?t + ?z * cos ?t = (sin ?t * d) * sin ?t + (cos ?t * d) * cos ?t" using x z by presburger
    also have "\<dots> = d * ((sin ?t)\<^sup>2 + (cos ?t)\<^sup>2)" by (rule polar_unit)
    finally show ?thesis by (simp add: rotatedZ_def)
  qed
  have "d = sqrt (?x * ?x + ?z * ?z)" by (simp add: d_def add.commute)
  then have "?y * cos a = d * sin a"
    using atan2_polar [of ?y d] a_def by (metis mult.assoc mult.commute)
  then show "rotatedY (tg_x (aim s now icon), tg_y (aim s now icon)) icon = 0"
    using depth by (simp add: rotatedY_def aim_def Let_def a_def)
qed

section \<open>The sphere\<close>

definition on_sphere :: "Icon \<Rightarrow> bool" where
  "on_sphere icon \<longleftrightarrow> (ic_x icon)\<^sup>2 + (ic_y icon)\<^sup>2 + (ic_z icon)\<^sup>2 = 100\<^sup>2"

lemma sphere_icon_on_sphere:
  assumes "i < m"
  shows "on_sphere (sphere_icon m i)"
proof -
  define y where "y = real i * (2 / real m) - 1 + 2 / real m / 2"
  define r where "r = sqrt (1 - y * y)"
  define t where "t = real i * (pi * (3 - sqrt 5))"
  have m: "0 < real m" using assms by simp
  have "y = (2 * real i + 1) / real m - 1" using m by (simp add: y_def field_simps)
  moreover have "0 \<le> (2 * real i + 1) / real m" "(2 * real i + 1) / real m \<le> 2" using assms m by (simp_all add: field_simps)
  ultimately have "\<bar>y\<bar> \<le> 1" by linarith
  then have "0 \<le> 1 - y * y" using abs_square_le_1 [of y] by (simp add: power2_eq_square)
  then have r: "r\<^sup>2 = 1 - y\<^sup>2" by (simp add: r_def power2_eq_square)
  have "(c * r * 100)\<^sup>2 + (y * 100)\<^sup>2 + (s * r * 100)\<^sup>2 = ((c\<^sup>2 + s\<^sup>2) * r\<^sup>2 + y\<^sup>2) * 100\<^sup>2" for c s
    by (simp add: power_mult_distrib algebra_simps)
  then have "(cos t * r * 100)\<^sup>2 + (y * 100)\<^sup>2 + (sin t * r * 100)\<^sup>2 = (((cos t)\<^sup>2 + (sin t)\<^sup>2) * r\<^sup>2 + y\<^sup>2) * 100\<^sup>2" .
  also have "\<dots> = 100\<^sup>2" by (simp add: r)
  finally show ?thesis
    unfolding on_sphere_def sphere_icon_def Let_def y_def [symmetric] r_def [symmetric] t_def [symmetric] by simp
qed

lemma turn_plane: "(a * cos t - b * sin t)\<^sup>2 + (a * sin t + b * cos t)\<^sup>2 = a\<^sup>2 + (b::real)\<^sup>2"
proof -
  have "(a * c - b * s)\<^sup>2 + (a * s + b * c)\<^sup>2 = (a\<^sup>2 + b\<^sup>2) * (c\<^sup>2 + s\<^sup>2)" for c s
    by (simp add: power2_eq_square algebra_simps)
  then have "(a * cos t - b * sin t)\<^sup>2 + (a * sin t + b * cos t)\<^sup>2 = (a\<^sup>2 + b\<^sup>2) * ((cos t)\<^sup>2 + (sin t)\<^sup>2)" .
  then show ?thesis by simp
qed

lemma rotated_bounds:
  assumes "on_sphere icon"
  shows "(rotatedX rot icon)\<^sup>2 + (rotatedY rot icon)\<^sup>2 \<le> 100\<^sup>2" "\<bar>rotatedZ rot icon\<bar> \<le> 100"
proof -
  have xz: "(rotatedX rot icon)\<^sup>2 + (rotatedZ rot icon)\<^sup>2 = (ic_x icon)\<^sup>2 + (ic_z icon)\<^sup>2"
    unfolding rotatedX_def rotatedZ_def by (rule turn_plane)
  have "(rotatedY rot icon)\<^sup>2 \<le> (rotatedZ rot icon)\<^sup>2 + (ic_y icon)\<^sup>2"
    using turn_plane [of "rotatedZ rot icon" "fst rot" "ic_y icon"] zero_le_power2 [of "rotatedZ rot icon * cos (fst rot) - ic_y icon * sin (fst rot)"]
    unfolding rotatedY_def add.commute [of "ic_y icon * cos (fst rot)"] by linarith
  then show "(rotatedX rot icon)\<^sup>2 + (rotatedY rot icon)\<^sup>2 \<le> 100\<^sup>2" using xz assms by (simp add: on_sphere_def)
  have "(rotatedZ rot icon)\<^sup>2 \<le> 100\<^sup>2"
    using xz assms zero_le_power2 [of "rotatedX rot icon"] zero_le_power2 [of "ic_y icon"] unfolding on_sphere_def by linarith
  then show "\<bar>rotatedZ rot icon\<bar> \<le> 100" by (metis abs_le_square_iff abs_numeral)
qed

definition draw_ok :: "draw \<Rightarrow> bool" where
  "draw_ok d \<longleftrightarrow> 1/3 \<le> dr_scale d \<and> dr_scale d \<le> 1 \<and> 2/10 \<le> dr_alpha d \<and> dr_alpha d \<le> 1 \<and>
     (dr_x d - canvas_width / 2)\<^sup>2 + (dr_y d - canvas_height / 2)\<^sup>2 \<le> 100\<^sup>2"

lemma draw_icon_ok: "on_sphere icon \<Longrightarrow> draw_ok (draw_icon p s i icon)"
  using rotated_bounds [of icon "rotation s"]
  by (auto simp: draw_ok_def draw_icon_def icon_scale_def icon_opacity_def)

section \<open>Invariant\<close>

text \<open>
  Icons stay on the sphere, the last frame was drawn as it should, and the next frame is
  requested whenever something is still to change.
\<close>

definition cloud_inv :: "cloud_props \<Rightarrow> cloud_state \<Rightarrow> bool" where
  "cloud_inv p s \<longleftrightarrow> list_all on_sphere (iconPositions s) \<and> list_all draw_ok (drawn s) \<and>
     (ctx_ok s \<and> shouldContinue p s \<longrightarrow> frame s)"

text \<open>What \<open>animate\<close> needs and what it gives.\<close>

definition cloud_pre :: "cloud_state \<Rightarrow> bool" where
  "cloud_pre s \<longleftrightarrow> list_all on_sphere (iconPositions s) \<and> list_all draw_ok (drawn s)"

lemma animate_once_inv: "cloud_pre s \<Longrightarrow> cloud_inv p (animate_once p now s) \<and> cloud_pre (animate_once p now s)"
proof -
  assume pre: "cloud_pre s"
  let ?s = "s\<lparr>rotation := turn now s\<rparr>"
  have "list_all draw_ok (map (\<lambda>(i, icon). draw_icon p ?s i icon) (enumerate 0 (iconPositions s)))"
    using pre draw_icon_ok by (auto simp: cloud_pre_def list_all_iff in_set_enumerate_eq)
  then show ?thesis using pre
    by (simp add: cloud_inv_def cloud_pre_def animate_once_def Let_def shouldContinue_def hasPendingAssets_def)
qed

lemma cloud_animate_inv: "cloud_pre s \<Longrightarrow> cloud_inv p (cloud_animate p now s)"
proof -
  assume pre: "cloud_pre s"
  have "cloud_pre ((animate_once p now s)\<lparr>targetRotation := None, frame := False\<rparr>)"
    using animate_once_inv [OF pre, of p now] by (simp add: cloud_pre_def)
  then show ?thesis
    using animate_once_inv [of _ p now] pre by (auto simp: cloud_animate_def Let_def) (simp add: cloud_inv_def cloud_pre_def)
qed

lemma rerender_inv: "cloud_pre s \<Longrightarrow> cloud_inv p (rerender p now s)"
  unfolding rerender_def by (rule cloud_animate_inv) (simp add: cloud_pre_def)

lemma cloud_inv_pre: "cloud_inv p s \<Longrightarrow> cloud_pre s"
  by (simp add: cloud_inv_def cloud_pre_def)

lemma pick_nothing: "\<not> list_ex (hit s pos) icons \<Longrightarrow>
    foldl (\<lambda>t icon. if hit s pos icon then Some (aim s now icon) else t) t icons = t"
  by (induction icons arbitrary: t) auto

lemma down_inv: "cloud_inv p s \<Longrightarrow> cloud_inv p (handleMouseDown p now client rect s)"
proof (cases "ctx_ok s \<and> \<not> (isDragging s \<and> \<not> list_ex (hit s (fst client - fst rect, snd client - snd rect)) (iconPositions s))")
  case True
  moreover assume "cloud_inv p s"
  ultimately show ?thesis
    by (auto simp: handleMouseDown_def Let_def intro!: rerender_inv dest!: cloud_inv_pre) (simp_all add: cloud_pre_def)
next
  case False
  moreover assume "cloud_inv p s"
  ultimately show ?thesis
    by (auto simp: handleMouseDown_def Let_def cloud_inv_def shouldContinue_def)
qed

lemma move_inv: "cloud_inv p s \<Longrightarrow> cloud_inv p (handleMouseMove p now client rect s)"
  unfolding handleMouseMove_def Let_def
  by (rule rerender_inv) (simp add: cloud_inv_def cloud_pre_def)

lemma load_inv: "cloud_inv p s \<Longrightarrow> cloud_inv p (image_loaded i s)"
proof -
  assume inv: "cloud_inv p s"
  have "list_all (\<lambda>l. l) (loaded s) \<Longrightarrow> list_all (\<lambda>l. l) ((loaded s)[i := True])"
    by (auto simp: list_all_iff dest!: set_update_subset_insert [THEN subsetD])
  then have "shouldContinue p (image_loaded i s) \<Longrightarrow> shouldContinue p s"
    by (auto simp: shouldContinue_def hasPendingAssets_def image_loaded_def)
  then show ?thesis using inv by (auto simp: cloud_inv_def) (auto simp: image_loaded_def)
qed

interpretation cloud: component "cloud_init p" "cloud_step p" "cloud_inv p" for p
proof
  show "cloud_inv p s" if start: "cloud_init p s" for s
  proof -
    obtain ctx reduced now where s: "s = cloud_mount p ctx reduced now" using start unfolding cloud_init_def by blast
    have "list_all on_sphere (sphere_icons n)" for n
      by (auto simp: list_all_iff sphere_icons_def sphere_icon_on_sphere)
    moreover have "cloud_inv p (rerender p now (cloud_start p ctx))"
      by (rule rerender_inv) (simp add: cloud_pre_def cloud_start_def)
    ultimately show ?thesis unfolding s cloud_mount_def
      by (intro rerender_inv) (simp add: cloud_inv_def cloud_pre_def)
  qed
  show "cloud_inv p t" if "cloud_inv p s" "cloud_step p s t" for s t
    using that(2,1)
  proof (induction rule: cloud_step.induct)
    case (cloud_frame s now)
    then show ?case by (intro cloud_animate_inv) (simp add: cloud_inv_def cloud_pre_def)
  next
    case (cloud_up s now)
    then show ?case by (auto simp: handleMouseUp_def intro!: rerender_inv dest: cloud_inv_pre) (simp add: cloud_inv_def cloud_pre_def)
  next
    case (cloud_pause s now b)
    then show ?case by (auto simp: setPaused_def intro!: rerender_inv dest: cloud_inv_pre) (simp_all add: cloud_inv_def cloud_pre_def)
  qed (auto intro: down_inv move_inv load_inv)
qed

section \<open>Properties of the icon cloud\<close>

text \<open>
  C34. Whatever the user does, every icon of every frame is drawn inside the canvas, within
  the circle of radius 100 around its centre, at a scale between a third and one and with
  an opacity between 0.2 and 1.
\<close>

theorem cloud_stays_in_canvas:
  assumes "reach (cloud_init p) (cloud_step p) s"
  shows "list_all (\<lambda>d. (dr_x d - 200)\<^sup>2 + (dr_y d - 200)\<^sup>2 \<le> 100\<^sup>2 \<and> 1/3 \<le> dr_scale d \<and> dr_scale d \<le> 1 \<and>
    2/10 \<le> dr_alpha d \<and> dr_alpha d \<le> 1) (drawn s)"
proof -
  have "cloud_inv p s" using assms by (rule cloud.always)
  then show ?thesis by (simp add: cloud_inv_def draw_ok_def list_all_iff)
qed

definition plain_cloud :: cloud_props where
  "plain_cloud = \<lparr>cl_icons = None, cl_images = None, showControl = True\<rparr>"

lemma plain_cloud_mount: "reach (cloud_init plain_cloud) (cloud_step plain_cloud) (cloud_mount plain_cloud True False 0)"
  unfolding cloud_init_def by (rule reach_init) blast

lemma mount_drawn: "length (drawn (cloud_mount plain_cloud True False 0)) = 20"
  by (simp add: cloud_mount_def rerender_def cloud_animate_def animate_once_def cloud_start_def finished_def Let_def
      sphere_icons_def numIcons_def cloud_items_def plain_cloud_def)

theorem cloud_stays_in_canvas_witness:
  "1/3 \<le> dr_scale (drawn (cloud_mount plain_cloud True False 0) ! 7)"
  using cloud_stays_in_canvas [OF plain_cloud_mount] mount_drawn by (simp add: list_all_length)

text \<open>
  A click brings the icon to the front: a frame that is drawn after the turn has ended,
  which takes between 0.8 and 2 seconds, shows the icon exactly at the centre of the canvas,
  and then the target is given up.
\<close>

theorem click_centres_icon:
  assumes "targetRotation s = Some (aim s0 t0 icon)" and "i < length (iconPositions s)" and "iconPositions s ! i = icon"
    and "t0 + 2000 \<le> now"
  shows "dr_x (drawn (animate_once p now s) ! i) = 200 \<and> dr_y (drawn (animate_once p now s) ! i) = 200 \<and>
    800 \<le> tg_duration (aim s0 t0 icon) \<and> tg_duration (aim s0 t0 icon) \<le> 2000 \<and>
    (ctx_ok s \<longrightarrow> targetRotation (cloud_animate p now s) = None)"
proof -
  let ?t = "aim s0 t0 icon"
  have d: "800 \<le> tg_duration ?t" "tg_duration ?t \<le> 2000" "startTime ?t = t0" by (simp_all add: aim_def Let_def)
  then have "1 \<le> (now - startTime ?t) / tg_duration ?t" using assms(4) by (simp add: le_divide_eq)
  then have m: "min 1 ((now - startTime ?t) / tg_duration ?t) = 1" by simp
  then have "turn now s = (tg_x ?t, tg_y ?t)"
    using assms(1) by (simp add: turn_def eased_def easeOutCubic_def Let_def)
  then have "drawn (animate_once p now s) ! i = draw_icon p (s\<lparr>rotation := (tg_x ?t, tg_y ?t)\<rparr>) i icon"
    using assms(2,3) by (simp add: animate_once_def Let_def nth_enumerate_eq)
  moreover have "finished now s" using m assms(1) by (simp add: finished_def)
  ultimately show ?thesis
    using d aim_centres [of s0 t0 icon] by (simp add: draw_icon_def cloud_animate_def Let_def) (simp add: animate_once_def Let_def)
qed

theorem click_centres_icon_witness:
  "dr_x (drawn (animate_once plain_cloud 2500 ((cloud_mount plain_cloud True False 0)
     \<lparr>targetRotation := Some (aim (cloud_mount plain_cloud True False 0) 100 (sphere_icon 20 3))\<rparr>)) ! 3) = 200"
proof -
  let ?s = "cloud_mount plain_cloud True False 0"
  have "iconPositions ?s = sphere_icons 0"
    by (simp add: cloud_mount_def rerender_def cloud_animate_def animate_once_def cloud_start_def finished_def Let_def
        cloud_items_def plain_cloud_def)
  then have "3 < length (iconPositions ?s)" "iconPositions ?s ! 3 = sphere_icon 20 3"
    by (simp_all add: sphere_icons_def numIcons_def del: upt_rec_numeral)
  then show ?thesis
    using click_centres_icon [of "?s\<lparr>targetRotation := Some (aim ?s 100 (sphere_icon 20 3))\<rparr>" ?s 100 "sphere_icon 20 3" 3 2500 plain_cloud]
    by simp
qed

text \<open>
  The frame loop runs when it is needed: with a drawing context, a frame is requested
  in every reachable state in which the cloud is not paused, is dragged, turns to a target
  or waits for images, and a frame drawn while none of this holds is the last one.
\<close>

theorem cloud_loop_runs_when_needed:
  assumes "reach (cloud_init p) (cloud_step p) s" and "ctx_ok s"
  shows "(shouldContinue p s \<longrightarrow> frame s) \<and>
    (\<not> shouldContinue p s \<longrightarrow> \<not> frame (cloud_animate p now (s\<lparr>frame := False\<rparr>)))"
proof -
  have "cloud_inv p s" using assms(1) by (rule cloud.always)
  moreover have "\<not> frame (cloud_animate p now (s\<lparr>frame := False\<rparr>))" if "\<not> shouldContinue p s"
    using that by (simp add: cloud_animate_def animate_once_def finished_def shouldContinue_def hasPendingAssets_def Let_def)
  ultimately show ?thesis using assms(2) by (simp add: cloud_inv_def)
qed

theorem cloud_loop_runs_when_needed_witness: "frame (cloud_mount plain_cloud True False 0)"
proof -
  have "ctx_ok (cloud_mount plain_cloud True False 0)" "shouldContinue plain_cloud (cloud_mount plain_cloud True False 0)"
    by (simp_all add: cloud_mount_def rerender_def cloud_animate_def animate_once_def cloud_start_def finished_def Let_def
        shouldContinue_def)
  then show ?thesis using cloud_loop_runs_when_needed [OF plain_cloud_mount] by simp
qed

end
