(* ===== verification/Icon_Pictures.thy ===== *)
theory Icon_Pictures
  imports Icon_Cloud
begin

text \<open>
  The pictures of the icon cloud: the effect of \<open>icon-cloud.tsx\<close> that prepares a canvas of 40 by 40
  pixels for every icon or image, with the calls on its context and the address its image is loaded
  from. For an icon this is a data address with the markup in the encoding of \<open>btoa\<close>, which throws
  on code units above 255; \<open>renderToString\<close> is a parameter. An exception of the effect is \<open>None\<close>.
\<close>

section \<open>btoa\<close>

definition base64_unit :: "nat \<Rightarrow> nat" where
  "base64_unit n =
     (if n < 26 then 65 + n else if n < 52 then 97 + (n - 26) else if n < 62 then 48 + (n - 52) else if n = 62 then 43 else 47)"

fun base64 :: "nat list \<Rightarrow> jstr" where
  "base64 [] = []"
| "base64 [a] = [base64_unit (a div 4), base64_unit (a mod 4 * 16), 61, 61]"
| "base64 [a, b] = [base64_unit (a div 4), base64_unit (a mod 4 * 16 + b div 16), base64_unit (b mod 16 * 4), 61]"
| "base64 (a # b # c # s) =
     [base64_unit (a div 4), base64_unit (a mod 4 * 16 + b div 16), base64_unit (b mod 16 * 4 + c div 64), base64_unit (c mod 64)] @ base64 s"

definition btoa :: "jstr \<Rightarrow> jstr option" where
  "btoa s = (if list_all (\<lambda>c. c < 256) s then Some (base64 s) else None)"

section \<open>Preparing the canvases\<close>

datatype cloud_item = IconItem node | ImageItem jstr

definition picture_items :: "cloud_props \<Rightarrow> cloud_item list" where
  "picture_items p = (case cl_icons p of Some ns \<Rightarrow> map IconItem ns
     | None \<Rightarrow> (case cl_images p of Some srcs \<Rightarrow> map ImageItem srcs | None \<Rightarrow> []))"

datatype canvas_call =
    Scale real real
  | ClearRect real real real real
  | BeginPath
  | Arc real real real real real
  | ClosePath
  | Clip
  | DrawImage "real list"

record icon_canvas =
  oc_width :: real
  oc_height :: real
  oc_setup :: "canvas_call list"
  oc_src :: "jstr option"
  oc_onload :: "canvas_call list"

definition empty_canvas :: icon_canvas where
  "empty_canvas = \<lparr>oc_width = 40, oc_height = 40, oc_setup = [], oc_src = None, oc_onload = []\<rparr>"

text \<open>An element that is assigned to \<open>src\<close> is turned into text, whatever the type says.\<close>

definition item_text :: "cloud_item \<Rightarrow> jstr" where
  "item_text it = (case it of ImageItem src \<Rightarrow> src | IconItem (Txt s) \<Rightarrow> s | IconItem _ \<Rightarrow> js ''[object Object]'')"

definition item_node :: "cloud_item \<Rightarrow> node" where
  "item_node it = (case it of IconItem n \<Rightarrow> n | ImageItem src \<Rightarrow> Txt src)"

definition image_canvas :: "cloud_item \<Rightarrow> icon_canvas" where
  "image_canvas it = empty_canvas\<lparr>oc_src := Some (item_text it),
     oc_onload := [ClearRect 0 0 40 40, BeginPath, Arc 20 20 20 0 (pi * 2), ClosePath, Clip, DrawImage [0, 0, 40, 40]]\<rparr>"

definition svg_canvas :: "(node \<Rightarrow> jstr) \<Rightarrow> cloud_item \<Rightarrow> icon_canvas option" where
  "svg_canvas renderToString it = map_option (\<lambda>code. empty_canvas\<lparr>oc_setup := [Scale (4/10) (4/10)],
     oc_src := Some (js ''data:image/svg+xml;base64,'' @ code), oc_onload := [ClearRect 0 0 40 40, DrawImage [0, 0]]\<rparr>)
     (btoa (renderToString (item_node it)))"

definition item_canvas :: "(node \<Rightarrow> jstr) \<Rightarrow> bool \<Rightarrow> cloud_props \<Rightarrow> cloud_item \<Rightarrow> icon_canvas option" where
  "item_canvas renderToString offCtx p it =
     (if \<not> offCtx then Some empty_canvas
      else if cl_images p \<noteq> None then Some (image_canvas it)
      else svg_canvas renderToString it)"

definition iconCanvases :: "(node \<Rightarrow> jstr) \<Rightarrow> bool \<Rightarrow> cloud_props \<Rightarrow> icon_canvas list option" where
  "iconCanvases renderToString offCtx p = those (map (item_canvas renderToString offCtx p) (picture_items p))"

section \<open>Reading the encoding back\<close>

definition base64_value :: "nat \<Rightarrow> nat" where
  "base64_value c = (if 97 \<le> c then c - 97 + 26 else if 65 \<le> c then c - 65 else if c = 43 then 62 else if c = 47 then 63 else c - 48 + 52)"

lemma base64_value_unit: "n < 64 \<Longrightarrow> base64_value (base64_unit n) = n"
  by (auto simp: base64_value_def base64_unit_def)

lemma base64_unit_pad: "base64_unit n \<noteq> 61"
  by (auto simp: base64_unit_def)

fun atob :: "jstr \<Rightarrow> nat list" where
  "atob (w # x # y # z # s) =
     (let a = base64_value w; b = base64_value x; c = base64_value y; d = base64_value z in
      if y = 61 then [a * 4 + b div 16]
      else if z = 61 then [a * 4 + b div 16, b mod 16 * 16 + c div 4]
      else [a * 4 + b div 16, b mod 16 * 16 + c div 4, c mod 4 * 64 + d] @ atob s)"
| "atob s = []"

lemma byte_parts:
  fixes a b c :: nat
  assumes "a < 256" "b < 256" "c < 256"
  shows "a div 4 < 64" "a mod 4 * 16 + b div 16 < 64" "b mod 16 * 4 + c div 64 < 64" "c mod 64 < 64"
    "a mod 4 * 16 < 64" "b mod 16 * 4 < 64"
    "a div 4 * 4 + (a mod 4 * 16 + b div 16) div 16 = a" "a div 4 * 4 + a mod 4 * 16 div 16 = a"
    "(a mod 4 * 16 + b div 16) mod 16 * 16 + (b mod 16 * 4 + c div 64) div 4 = b"
    "(a mod 4 * 16 + b div 16) mod 16 * 16 + b mod 16 * 4 div 4 = b"
    "(b mod 16 * 4 + c div 64) mod 4 * 64 + c mod 64 = c"
proof -
  have pack: "(m * k + n) div k = m" "(m * k + n) mod k = n" if "n < k" for m n k :: nat using that by simp_all
  have d: "b div 16 < 16" "c div 64 < 4" using assms by (simp_all add: less_mult_imp_div_less)
  show "a div 4 < 64" using assms by (simp add: less_mult_imp_div_less)
  have ab: "a mod 4 \<le> 3" "b mod 16 \<le> 15" by (simp_all add: less_Suc_eq_le [symmetric])
  then show "a mod 4 * 16 + b div 16 < 64" "b mod 16 * 4 + c div 64 < 64" "c mod 64 < 64" "a mod 4 * 16 < 64" "b mod 16 * 4 < 64"
    using d by simp_all
  show "a div 4 * 4 + (a mod 4 * 16 + b div 16) div 16 = a" "a div 4 * 4 + a mod 4 * 16 div 16 = a"
    "(a mod 4 * 16 + b div 16) mod 16 * 16 + (b mod 16 * 4 + c div 64) div 4 = b"
    "(a mod 4 * 16 + b div 16) mod 16 * 16 + b mod 16 * 4 div 4 = b"
    "(b mod 16 * 4 + c div 64) mod 4 * 64 + c mod 64 = c"
    using d by (simp_all only: pack div_mult_mod_eq nonzero_mult_div_cancel_right [of 16] nonzero_mult_div_cancel_right [of 4])
qed

lemma atob_base64: "list_all (\<lambda>c. c < 256) s \<Longrightarrow> atob (base64 s) = s"
proof (induction s rule: base64.induct)
  case (2 a)
  then show ?case using byte_parts [of a 0 0] by (simp add: base64_value_unit)
next
  case (3 a b)
  then show ?case using byte_parts [of a b 0] by (simp add: base64_value_unit base64_unit_pad)
next
  case (4 a b c s)
  then show ?case using byte_parts [of a b c] by (simp add: base64_value_unit base64_unit_pad Let_def)
qed simp

section \<open>What is prepared\<close>

lemma those_None: "those xs = None \<longleftrightarrow> None \<in> set xs"
  by (induction xs) (auto split: option.splits)

lemma those_length: "those xs = Some ys \<Longrightarrow> length ys = length xs"
  by (induction xs arbitrary: ys) (auto split: option.splits)

text \<open>
  The effect throws exactly if there is a drawing context, the cloud is given icons and no images,
  and the markup of an icon has a code unit above 255; otherwise there is a canvas for every item.
\<close>

theorem iconCanvases_fail:
  "(iconCanvases renderToString offCtx p = None \<longleftrightarrow>
      offCtx \<and> cl_images p = None \<and> list_ex (\<lambda>it. list_ex (\<lambda>c. 256 \<le> c) (renderToString (item_node it))) (picture_items p)) \<and>
   map_option length (iconCanvases renderToString offCtx p) \<in> {None, Some (cloud_items p)}"
proof
  show "iconCanvases renderToString offCtx p = None \<longleftrightarrow>
      offCtx \<and> cl_images p = None \<and> list_ex (\<lambda>it. list_ex (\<lambda>c. 256 \<le> c) (renderToString (item_node it))) (picture_items p)"
    by (auto simp: iconCanvases_def those_None item_canvas_def svg_canvas_def btoa_def list_ex_iff list.pred_set not_less image_iff
        split: if_splits)
  have "length (picture_items p) = cloud_items p" by (simp add: picture_items_def cloud_items_def split: option.splits)
  then show "map_option length (iconCanvases renderToString offCtx p) \<in> {None, Some (cloud_items p)}"
    using those_length [of "map (item_canvas renderToString offCtx p) (picture_items p)"]
    by (cases "iconCanvases renderToString offCtx p") (auto simp: iconCanvases_def)
qed

text \<open>The address of an icon's picture holds its markup.\<close>

lemma svg_canvas_readable:
  assumes "svg_canvas renderToString it = Some c"
  shows "\<exists>code. oc_src c = Some (js ''data:image/svg+xml;base64,'' @ code) \<and> atob code = renderToString (item_node it)"
  using assms atob_base64 by (auto simp: svg_canvas_def btoa_def split: if_splits)

text \<open>With icons and images the addresses of the images are never used: an icon's element is taken for one.\<close>

lemma images_ignored:
  "cl_icons p = Some ns \<Longrightarrow> cl_images p = Some srcs \<Longrightarrow>
   map_option (map oc_src) (iconCanvases renderToString True p) = Some (map (\<lambda>n. Some (item_text (IconItem n))) ns)"
proof -
  assume p: "cl_icons p = Some ns" "cl_images p = Some srcs"
  have "those (map (\<lambda>x. Some (f x)) xs) = Some (map f xs)" for f :: "node \<Rightarrow> icon_canvas" and xs by (induction xs) simp_all
  with p show ?thesis by (simp add: iconCanvases_def picture_items_def item_canvas_def image_canvas_def comp_def)
qed

end
