(* ===== verification/Retro_Grid.thy ===== *)
theory Retro_Grid
  imports Vdom Complex_Main
begin

text \<open>
  The perspective grid, \<open>website/components/magicui/retro-grid.tsx\<close>: the life cycle of its
  WebGL pipeline and of its animation frames, and the fragment shader that draws it.

  What the browser answers during one call (whether WebGL objects can be created, compiled
  and linked, the sizes, the colours that CSS resolves to) is the argument \<open>e\<close>, a
  \<open>retro_env\<close>. WebGL objects are numbers; the sets of live objects and of frame callbacks
  that the browser will still run are part of the state. Numbers are real numbers.
\<close>

section \<open>The browser\<close>

datatype outcome = NoObject | Rejected | Accepted

record retro_env =
  e_context :: bool
  e_vertex :: outcome
  e_fragment :: outcome
  e_program :: outcome
  e_attrib :: int
  e_uniform :: "string \<Rightarrow> bool"
  e_buffer :: bool
  e_clientWidth :: real
  e_clientHeight :: real
  e_devicePixelRatio :: "real option"
  e_darkClass :: bool
  e_lightClass :: bool
  e_prefersDark :: bool
  e_pixel :: "jstr \<Rightarrow> (real \<times> real \<times> real \<times> real) option"
  e_now :: real
  e_innerWidth :: real
  e_innerHeight :: real

record retro_props =
  rp_className :: "jstr option"
  rp_angle :: real
  rp_cellSize :: real
  rp_opacity :: real
  rp_light :: jstr
  rp_dark :: jstr

definition retro_default :: retro_props where
  "retro_default = \<lparr>rp_className = None, rp_angle = 65, rp_cellSize = 60, rp_opacity = 1/2,
     rp_light = js ''gray'', rp_dark = js ''gray''\<rparr>"

record uniforms =
  u_angle :: real
  u_cell_size :: real
  u_container_size :: "real \<times> real"
  u_device_pixel_ratio :: real
  u_line_color :: "real \<times> real \<times> real \<times> real"
  u_time :: real
  u_viewport_size :: "real \<times> real"

record retro_state =
  mounted :: bool
  refs :: retro_props
  isWebGlReady :: bool
  animationFrameId :: "nat option"
  currentWidth :: real
  currentHeight :: real
  currentDevicePixelRatio :: real
  canvas_dims :: "real \<times> real"
  has_gl :: bool
  isVisible :: bool
  isContextLost :: bool
  lineColor :: "real \<times> real \<times> real \<times> real"
  positionBuffer :: "nat option"
  programInfo :: "nat option"
  reducedMotion :: bool
  pending :: "nat set"
  live_shaders :: "nat set"
  live_programs :: "nat set"
  live_buffers :: "nat set"
  next_id :: nat
  draws :: "uniforms list"

definition fresh :: "retro_state \<Rightarrow> retro_state" where
  "fresh s = s\<lparr>next_id := next_id s + 1\<rparr>"

section \<open>The pipeline\<close>

definition clamp :: "real \<Rightarrow> real \<Rightarrow> real \<Rightarrow> real" where
  "clamp value lo hi = min (max value lo) hi"

definition createShader :: "outcome \<Rightarrow> retro_state \<Rightarrow> nat option \<times> retro_state" where
  "createShader out s =
     (case out of
        NoObject \<Rightarrow> (None, s)
      | Accepted \<Rightarrow> (Some (next_id s), fresh (s\<lparr>live_shaders := insert (next_id s) (live_shaders s)\<rparr>))
      | Rejected \<Rightarrow> (None, fresh s))"

definition deleteShader :: "nat \<Rightarrow> retro_state \<Rightarrow> retro_state" where
  "deleteShader i s = s\<lparr>live_shaders := live_shaders s - {i}\<rparr>"

definition createProgram :: "retro_env \<Rightarrow> retro_state \<Rightarrow> nat option \<times> retro_state" where
  "createProgram e s =
     (let (vertexShader, s1) = createShader (e_vertex e) s;
          (fragmentShader, s2) = createShader (e_fragment e) s1 in
      case (vertexShader, fragmentShader) of
        (Some v, Some f) \<Rightarrow>
          (case e_program e of
             NoObject \<Rightarrow> (None, deleteShader f (deleteShader v s2))
           | Accepted \<Rightarrow>
               (let s3 = deleteShader f (deleteShader v s2) in
                (Some (next_id s3), fresh (s3\<lparr>live_programs := insert (next_id s3) (live_programs s3)\<rparr>)))
           | Rejected \<Rightarrow> (None, fresh (deleteShader f (deleteShader v s2))))
      | _ \<Rightarrow> (None, s2))"

definition uniform_names :: "string list" where
  "uniform_names = [''u_angle'', ''u_cell_size'', ''u_container_size'', ''u_device_pixel_ratio'',
     ''u_line_color'', ''u_time'', ''u_viewport_size'']"

definition getProgramInfo :: "retro_env \<Rightarrow> nat \<Rightarrow> nat option" where
  "getProgramInfo e program =
     (if e_attrib e < 0 \<or> \<not> list_all (e_uniform e) uniform_names then None else Some program)"

definition isDarkMode :: "retro_env \<Rightarrow> bool" where
  "isDarkMode e = (if e_darkClass e then True else if e_lightClass e then False else e_prefersDark e)"

definition resolveLineColor :: "retro_env \<Rightarrow> jstr \<Rightarrow> real \<times> real \<times> real \<times> real" where
  "resolveLineColor e color =
     (case e_pixel e color of
        None \<Rightarrow> (1/2, 1/2, 1/2, 1)
      | Some (r, g, b, a) \<Rightarrow> (r / 255, g / 255, b / 255, a / 255))"

definition deleteProgram :: "nat \<Rightarrow> retro_state \<Rightarrow> retro_state" where
  "deleteProgram i s = s\<lparr>live_programs := live_programs s - {i}\<rparr>"

definition deleteBuffer :: "nat \<Rightarrow> retro_state \<Rightarrow> retro_state" where
  "deleteBuffer i s = s\<lparr>live_buffers := live_buffers s - {i}\<rparr>"

definition releasePipeline :: "bool \<Rightarrow> retro_state \<Rightarrow> retro_state" where
  "releasePipeline shouldDeleteResources s =
     (let s1 = (if shouldDeleteResources \<and> has_gl s
                then (let s0 = (case positionBuffer s of Some b \<Rightarrow> deleteBuffer b s | None \<Rightarrow> s) in
                      case programInfo s of Some p \<Rightarrow> deleteProgram p s0 | None \<Rightarrow> s0)
                else s);
          s2 = s1\<lparr>positionBuffer := None, programInfo := None\<rparr> in
      if shouldDeleteResources then s2\<lparr>has_gl := False\<rparr> else s2)"

definition initializePipeline :: "retro_env \<Rightarrow> retro_state \<Rightarrow> bool \<times> retro_state" where
  "initializePipeline e s =
     (if \<not> e_context e then (False, releasePipeline False s)
      else
        let s1 = (releasePipeline True (s\<lparr>has_gl := True\<rparr>))\<lparr>has_gl := True\<rparr>;
            (program, s2) = createProgram e s1 in
        case program of
          None \<Rightarrow> (False, s2)
        | Some pr \<Rightarrow>
            (case getProgramInfo e pr of
               None \<Rightarrow> (False, deleteProgram pr s2)
             | Some info \<Rightarrow>
                 if \<not> e_buffer e then (False, deleteProgram pr s2)
                 else (True, fresh (s2\<lparr>live_buffers := insert (next_id s2) (live_buffers s2),
                        positionBuffer := Some (next_id s2), programInfo := Some info\<rparr>))))"

definition updateLineColor :: "retro_env \<Rightarrow> retro_state \<Rightarrow> retro_state" where
  "updateLineColor e s =
     s\<lparr>lineColor := resolveLineColor e (if isDarkMode e then rp_dark (refs s) else rp_light (refs s))\<rparr>"

definition resizeCanvas :: "retro_env \<Rightarrow> retro_state \<Rightarrow> retro_state" where
  "resizeCanvas e s =
     (let s1 = s\<lparr>currentWidth := of_int \<lfloor>e_clientWidth e\<rfloor>, currentHeight := of_int \<lfloor>e_clientHeight e\<rfloor>\<rparr> in
      if currentWidth s1 = 0 \<or> currentHeight s1 = 0 \<or> \<not> has_gl s1 then s1
      else
        let ratio = min (case e_devicePixelRatio e of Some r \<Rightarrow> if r = 0 then 1 else r | None \<Rightarrow> 1) 2 in
        s1\<lparr>currentDevicePixelRatio := ratio,
           canvas_dims := (of_int \<lfloor>currentWidth s1 * ratio\<rfloor>, of_int \<lfloor>currentHeight s1 * ratio\<rfloor>)\<rparr>)"

definition can_draw :: "retro_state \<Rightarrow> bool" where
  "can_draw s \<longleftrightarrow> currentWidth s \<noteq> 0 \<and> currentHeight s \<noteq> 0 \<and> has_gl s \<and> positionBuffer s \<noteq> None \<and>
     programInfo s \<noteq> None \<and> \<not> isContextLost s"

definition draw :: "retro_env \<Rightarrow> real \<Rightarrow> retro_state \<Rightarrow> retro_state" where
  "draw e timestamp s =
     (if \<not> can_draw s then s
      else s\<lparr>draws := draws s @
        [\<lparr>u_angle = clamp (rp_angle (refs s)) 1 89,
          u_cell_size = max (rp_cellSize (refs s)) 1,
          u_container_size = (currentWidth s, currentHeight s),
          u_device_pixel_ratio = currentDevicePixelRatio s,
          u_line_color = lineColor s,
          u_time = (if reducedMotion s then 0 else timestamp / 1000),
          u_viewport_size = (e_innerWidth e, e_innerHeight e)\<rparr>]\<rparr>)"

section \<open>Frames and handlers\<close>

definition request_frame :: "retro_state \<Rightarrow> retro_state" where
  "request_frame s = fresh (s\<lparr>pending := insert (next_id s) (pending s), animationFrameId := Some (next_id s)\<rparr>)"

definition stopAnimation :: "retro_state \<Rightarrow> retro_state" where
  "stopAnimation s =
     (case animationFrameId s of
        Some i \<Rightarrow> s\<lparr>pending := pending s - {i}, animationFrameId := None\<rparr>
      | None \<Rightarrow> s)"

definition frame :: "retro_env \<Rightarrow> real \<Rightarrow> retro_state \<Rightarrow> retro_state" where
  "frame e timestamp s =
     (let s1 = draw e timestamp s in
      if \<not> reducedMotion s1 \<and> isVisible s1 then request_frame s1 else s1\<lparr>animationFrameId := None\<rparr>)"

definition syncReady :: "retro_env \<Rightarrow> retro_state \<Rightarrow> retro_state" where
  "syncReady e s =
     (let s1 = resizeCanvas e s in
      if currentWidth s1 = 0 \<or> currentHeight s1 = 0 then stopAnimation s1
      else
        let s2 = (draw e (e_now e) (updateLineColor e s1))\<lparr>isWebGlReady := True\<rparr> in
        if reducedMotion s2 \<or> \<not> isVisible s2 then stopAnimation s2
        else if animationFrameId s2 = None then request_frame s2 else s2)"

definition syncScene :: "retro_env \<Rightarrow> retro_state \<Rightarrow> retro_state" where
  "syncScene e s =
     (if isContextLost s then (stopAnimation s)\<lparr>isWebGlReady := False\<rparr>
      else if \<not> has_gl s \<or> positionBuffer s = None \<or> programInfo s = None
      then (case initializePipeline e s of
              (True, s1) \<Rightarrow> syncReady e s1
            | (False, s1) \<Rightarrow> (stopAnimation s1)\<lparr>isWebGlReady := False\<rparr>)
      else syncReady e s)"

definition setProps :: "retro_env \<Rightarrow> retro_props \<Rightarrow> retro_state \<Rightarrow> retro_state" where
  "setProps e p s = syncScene e (s\<lparr>refs := p\<rparr>)"

definition handleIntersection :: "retro_env \<Rightarrow> bool \<Rightarrow> retro_state \<Rightarrow> retro_state" where
  "handleIntersection e intersecting s =
     (let s1 = s\<lparr>isVisible := intersecting\<rparr> in if intersecting then syncScene e s1 else stopAnimation s1)"

definition handleMotionChange :: "retro_env \<Rightarrow> bool \<Rightarrow> retro_state \<Rightarrow> retro_state" where
  "handleMotionChange e reduce s = syncScene e (s\<lparr>reducedMotion := reduce\<rparr>)"

text \<open>A lost context takes all its objects with it before the handler runs.\<close>

definition lose_objects :: "retro_state \<Rightarrow> retro_state" where
  "lose_objects s = s\<lparr>live_shaders := {}, live_programs := {}, live_buffers := {}\<rparr>"

definition handleContextLost :: "retro_state \<Rightarrow> retro_state" where
  "handleContextLost s =
     (releasePipeline False (stopAnimation (s\<lparr>isContextLost := True\<rparr>)))\<lparr>isWebGlReady := False\<rparr>"

definition handleContextRestored :: "retro_env \<Rightarrow> retro_state \<Rightarrow> retro_state" where
  "handleContextRestored e s = syncScene e (s\<lparr>isContextLost := False\<rparr>)"

definition retro_cleanup :: "retro_state \<Rightarrow> retro_state" where
  "retro_cleanup s = (let s1 = stopAnimation s in (releasePipeline (\<not> isContextLost s1) s1)\<lparr>mounted := False\<rparr>)"

definition retro_mount :: "retro_env \<Rightarrow> retro_props \<Rightarrow> bool \<Rightarrow> retro_state" where
  "retro_mount e p reduce = syncScene e \<lparr>mounted = True, refs = p, isWebGlReady = False, animationFrameId = None,
     currentWidth = 0, currentHeight = 0, currentDevicePixelRatio = 1, canvas_dims = (300, 150), has_gl = False,
     isVisible = True, isContextLost = False, lineColor = resolveLineColor e (rp_light p), positionBuffer = None,
     programInfo = None, reducedMotion = reduce, pending = {}, live_shaders = {}, live_programs = {}, live_buffers = {},
     next_id = 0, draws = []\<rparr>"

definition retro_init :: "retro_state \<Rightarrow> bool" where
  "retro_init s \<longleftrightarrow> (\<exists>e p reduce. s = retro_mount e p reduce)"

text \<open>
  A change of the browser's state and the event that reports it are one step: the loss of the context and
  \<open>webglcontextlost\<close>, a change of the preferred motion and its listener. Handlers that run between the
  two are not described.
\<close>

inductive retro_step :: "retro_state \<Rightarrow> retro_state \<Rightarrow> bool" where
  retro_sync: "mounted s \<Longrightarrow> retro_step s (syncScene e s)"
| retro_props: "mounted s \<Longrightarrow> retro_step s (setProps e p s)"
| retro_motion: "mounted s \<Longrightarrow> retro_step s (handleMotionChange e b s)"
| retro_intersect: "mounted s \<Longrightarrow> retro_step s (handleIntersection e b s)"
| retro_lost: "mounted s \<Longrightarrow> retro_step s (handleContextLost (lose_objects s))"
| retro_restored: "mounted s \<Longrightarrow> isContextLost s \<Longrightarrow> retro_step s (handleContextRestored e s)"
| retro_frame: "i \<in> pending s \<Longrightarrow> retro_step s (frame e t (s\<lparr>pending := pending s - {i}\<rparr>))"
| retro_unmount: "mounted s \<Longrightarrow> retro_step s (retro_cleanup s)"

section \<open>The fragment shader\<close>

type_synonym vec3 = "real \<times> real \<times> real"

fun dot3 :: "vec3 \<Rightarrow> vec3 \<Rightarrow> real" where
  "dot3 (a, b, c) (x, y, z) = a * x + b * y + c * z"

fun cross3 :: "vec3 \<Rightarrow> vec3 \<Rightarrow> vec3" where
  "cross3 (a, b, c) (x, y, z) = (b * z - c * y, c * x - a * z, a * y - b * x)"

fun scale3 :: "real \<Rightarrow> vec3 \<Rightarrow> vec3" where
  "scale3 k (x, y, z) = (k * x, k * y, k * z)"

fun add3 :: "vec3 \<Rightarrow> vec3 \<Rightarrow> vec3" where
  "add3 (a, b, c) (x, y, z) = (a + x, b + y, c + z)"

definition normalize3 :: "vec3 \<Rightarrow> vec3" where
  "normalize3 v = scale3 (1 / sqrt (dot3 v v)) v"

definition smoothstep :: "real \<Rightarrow> real \<Rightarrow> real \<Rightarrow> real" where
  "smoothstep e0 e1 x = (let t = clamp ((x - e0) / (e1 - e0)) 0 1 in t * t * (3 - 2 * t))"

definition glsl_mod :: "real \<Rightarrow> real \<Rightarrow> real" where
  "glsl_mod x y = x - y * of_int \<lfloor>x / y\<rfloor>"

definition renderGridLine :: "real \<Rightarrow> real \<Rightarrow> real \<Rightarrow> real" where
  "renderGridLine wrappedCoord antiAliasWidth softnessBoost =
     1 - smoothstep (92/100) (92/100 + (antiAliasWidth * (3/2 + softnessBoost))) wrappedCoord"

definition shader_angle :: "uniforms \<Rightarrow> real" where
  "shader_angle u = clamp (u_angle u) 1 89 * pi / 180"

definition planeYAxis :: "uniforms \<Rightarrow> vec3" where
  "planeYAxis u = (0, cos (shader_angle u), sin (shader_angle u))"

definition planeNormal :: "uniforms \<Rightarrow> vec3" where
  "planeNormal u = normalize3 (cross3 (1, 0, 0) (planeYAxis u))"

definition screen_ray :: "uniforms \<Rightarrow> real \<times> real \<Rightarrow> vec3" where
  "screen_ray u fragCoord =
     (fst fragCoord / u_device_pixel_ratio u - fst (u_container_size u) * (1/2),
      snd (u_container_size u) * (1/2) - snd fragCoord / u_device_pixel_ratio u, -200)"

text \<open>The point of the tilted plane behind a pixel; \<open>None\<close> is \<open>discard\<close>.\<close>

definition hitPoint :: "uniforms \<Rightarrow> real \<times> real \<Rightarrow> vec3 option" where
  "hitPoint u fragCoord =
     (let rayOrigin = (0, 0, 200);
          rayDirection = normalize3 (screen_ray u fragCoord);
          denominator = dot3 rayDirection (planeNormal u);
          distanceToPlane = dot3 (scale3 (-1) rayOrigin) (planeNormal u) / denominator in
      if \<bar>denominator\<bar> < 1/10000 then None
      else if distanceToPlane \<le> 0 then None
      else Some (add3 rayOrigin (scale3 distanceToPlane rayDirection)))"

definition gridWidth :: "uniforms \<Rightarrow> real" where
  "gridWidth u = fst (u_viewport_size u) * 6"

definition gridHeight :: "uniforms \<Rightarrow> real" where
  "gridHeight u = snd (u_viewport_size u) * 3"

definition planePosition :: "uniforms \<Rightarrow> vec3 \<Rightarrow> real \<times> real" where
  "planePosition u hit =
     (let gridLeft = (-1/2 * fst (u_container_size u)) + (-2 * fst (u_container_size u));
          gridTop = (-1/2 * snd (u_container_size u)) + (-1/2 * gridHeight u) in
      (fst hit - gridLeft, dot3 hit (planeYAxis u) - gridTop))"

definition on_grid :: "uniforms \<Rightarrow> real \<times> real \<Rightarrow> bool" where
  "on_grid u pos \<longleftrightarrow> \<not> (fst pos < 0 \<or> snd pos < 0 \<or> fst pos > gridWidth u \<or> snd pos > gridHeight u)"

definition patternPosition :: "uniforms \<Rightarrow> real \<times> real \<Rightarrow> real \<times> real" where
  "patternPosition u pos =
     (let gridScrollSpeed = (gridHeight u * (1/2)) / 15; patternOffsetY = u_time u * gridScrollSpeed in
      (fst pos, snd pos - patternOffsetY))"

text \<open>The screen-space derivative \<open>fwidth(patternPosition)\<close> is the argument \<open>d\<close>.\<close>

definition verticalLine :: "uniforms \<Rightarrow> real \<times> real \<Rightarrow> real \<times> real \<Rightarrow> real" where
  "verticalLine u pos d =
     (let cell = u_cell_size u;
          patternX = fst (patternPosition u pos);
          derivative = max (fst d) (1/10000);
          antiAliasWidth = derivative * (9/10);
          verticalCellSpanPx = cell / derivative;
          sideDistance = \<bar>(fst pos / gridWidth u) * 2 - 1\<bar>;
          verticalEdgeCompression = smoothstep (45/100) (95/100) sideDistance;
          verticalTopCompression = 1 - smoothstep (cell * 2) (cell * 6) (snd pos);
          verticalCompression = (1 - smoothstep 1 (26/10) verticalCellSpanPx) * verticalEdgeCompression * verticalTopCompression;
          verticalSoftnessBoost = 1 + verticalCompression * (35/10);
          verticalLod = smoothstep (22/100) (64/100) verticalCompression;
          verticalLineFine = renderGridLine (glsl_mod (patternX + 1/2) cell) antiAliasWidth verticalSoftnessBoost;
          verticalLineCoarse = renderGridLine (glsl_mod (patternX + 1/2) (cell * 2)) antiAliasWidth (verticalSoftnessBoost + verticalLod) in
      max (verticalLineFine * (1 - verticalLod)) (verticalLineCoarse * verticalLod))"

definition horizontalLine :: "uniforms \<Rightarrow> real \<times> real \<Rightarrow> real \<times> real \<Rightarrow> real" where
  "horizontalLine u pos d =
     (let cell = u_cell_size u;
          patternY = snd (patternPosition u pos);
          derivative = max (snd d) (1/10000);
          antiAliasWidth = derivative * (9/10);
          horizontalCellSpanPx = cell / derivative;
          horizontalCompression = 1 - smoothstep (12/10) (28/10) horizontalCellSpanPx;
          horizontalSoftnessBoost = 1 + horizontalCompression * 3;
          lodOne = 1 - smoothstep (28/10) (56/10) horizontalCellSpanPx;
          lodTwo = 1 - smoothstep (14/10) 3 horizontalCellSpanPx;
          fine = renderGridLine (glsl_mod (patternY + 1/2) cell) antiAliasWidth horizontalSoftnessBoost;
          coarse = renderGridLine (glsl_mod (patternY + 1/2) (cell * 2)) antiAliasWidth (horizontalSoftnessBoost + lodOne);
          extraCoarse = renderGridLine (glsl_mod (patternY + 1/2) (cell * 4)) antiAliasWidth (horizontalSoftnessBoost + lodOne + lodTwo);
          reduced = max (fine * (1 - lodOne)) (coarse * lodOne) in
      max (reduced * (1 - lodTwo)) (extraCoarse * lodTwo))"

definition fragment_main ::
  "uniforms \<Rightarrow> real \<times> real \<Rightarrow> (real \<times> real \<Rightarrow> real \<times> real) \<Rightarrow> (real \<times> real \<times> real \<times> real) option" where
  "fragment_main u fragCoord fwidth =
     (case hitPoint u fragCoord of
        None \<Rightarrow> None
      | Some hit \<Rightarrow>
          (let pos = planePosition u hit in
           if \<not> on_grid u pos then None
           else
             let d = fwidth (patternPosition u pos);
                 line = max (verticalLine u pos d) (horizontalLine u pos d) in
             if line \<le> 1/1000 then None
             else
               let (r, g, b, a) = u_line_color u; alpha = a * line in
               Some (r * alpha, g * alpha, b * alpha, alpha)))"

section \<open>Rendering\<close>

text \<open>Styles are properties with the name of the CSS attribute; \<open>num\<close> is the text of a number.\<close>

definition createFallbackGridStyle :: "(real \<Rightarrow> jstr) \<Rightarrow> real \<Rightarrow> jstr \<Rightarrow> (string \<times> jstr) list" where
  "createFallbackGridStyle num cellSize color =
     [att ''style.animation'' ''retro-grid-fallback-scroll 15s linear infinite'',
      (''style.backgroundImage'', js ''linear-gradient(to right, '' @ color @ js '' 1px, transparent 0), linear-gradient(to bottom, '' @ color @ js '' 1px, transparent 0)''),
      att ''style.backgroundRepeat'' ''repeat'',
      (''style.backgroundSize'', num cellSize @ js ''px '' @ num cellSize @ js ''px''),
      att ''style.transform'' ''translateY(-50%)'']"

definition FALLBACK_STYLES :: jstr where
  "FALLBACK_STYLES = join [10]
     [[],
      js ''@keyframes retro-grid-fallback-scroll {'',
      js ''  from {'',
      js ''    transform: translateY(-50%);'',
      js ''  }'',
      js '''',
      js ''  to {'',
      js ''    transform: translateY(0);'',
      js ''  }'',
      js ''}'',
      js '''',
      js ''@media (prefers-reduced-motion: reduce) {'',
      js ''  [data-retro-grid-scroll=\"true\"] {'',
      js ''    animation: none !important;'',
      js ''    transform: translateY(-50%) !important;'',
      js ''  }'',
      js ''}'',
      []]"

definition retroGrid :: "class_fn \<Rightarrow> (real \<Rightarrow> jstr) \<Rightarrow> retro_props \<Rightarrow> retro_state \<Rightarrow> node" where
  "retroGrid cn num p s =
     (let normalizedAngle = clamp (rp_angle p) 1 89;
          normalizedCellSize = max (rp_cellSize p) 1 in
      El ''div'' [(''className'', cn [Some (js ''pointer-events-none absolute size-full overflow-hidden''), rp_className p]),
        (''style.opacity'', num (rp_opacity p))]
        ([El ''style'' [] [Txt FALLBACK_STYLES]] @
         (if \<not> isWebGlReady s
          then [El ''div'' [cls ''absolute inset-0'', att ''style.perspective'' ''200px'']
             [El ''div'' [cls ''absolute inset-0'', (''style.transform'', js ''rotateX('' @ num normalizedAngle @ js ''deg)'')]
                [El ''div'' ([att ''data-retro-grid-scroll'' ''true'',
                     cls ''absolute inset-[0%_0px] ml-[-200%] h-[300vh] w-[600vw] origin-[100%_0_0] dark:hidden''] @
                   createFallbackGridStyle num normalizedCellSize (rp_light p)) [],
                 El ''div'' ([att ''data-retro-grid-scroll'' ''true'',
                     cls ''absolute inset-[0%_0px] ml-[-200%] hidden h-[300vh] w-[600vw] origin-[100%_0_0] dark:block''] @
                   createFallbackGridStyle num normalizedCellSize (rp_dark p)) []]]]
          else []) @
         [El ''canvas'' [(''className'', cn [Some (js ''absolute inset-0 size-full''),
            Some (if isWebGlReady s then js ''opacity-100'' else js ''opacity-0'')])] [],
          El ''div'' [cls ''absolute inset-0 bg-linear-to-t from-white to-transparent to-90% dark:from-black''] []]))"

section \<open>Invariant\<close>

text \<open>
  The objects that are alive are exactly those the pipeline holds, and it holds both or none.
\<close>

definition gl_ok :: "retro_state \<Rightarrow> bool" where
  "gl_ok s \<longleftrightarrow>
     live_programs s = set_option (programInfo s) \<and> live_buffers s = set_option (positionBuffer s) \<and>
     (positionBuffer s = None \<longleftrightarrow> programInfo s = None) \<and>
     (\<not> has_gl s \<or> isContextLost s \<longrightarrow> programInfo s = None) \<and>
     (\<forall>i\<in>live_shaders s. i < next_id s)"

text \<open>
  The browser will run exactly the frame callback whose number is remembered, and such a
  frame is only requested while it can draw and should.
\<close>

definition frames_ok :: "retro_state \<Rightarrow> bool" where
  "frames_ok s \<longleftrightarrow> pending s = set_option (animationFrameId s) \<and>
     (animationFrameId s \<noteq> None \<longrightarrow> mounted s \<and> can_draw s \<and> isVisible s \<and> \<not> reducedMotion s \<and> isWebGlReady s)"

definition retro_inv :: "retro_state \<Rightarrow> bool" where
  "retro_inv s \<longleftrightarrow> gl_ok s \<and> frames_ok s"

text \<open>The part of the state that the pipeline does not touch.\<close>

definition same_frames :: "retro_state \<Rightarrow> retro_state \<Rightarrow> bool" where
  "same_frames s t \<longleftrightarrow> pending t = pending s \<and> animationFrameId t = animationFrameId s \<and> mounted t = mounted s \<and>
     isVisible t = isVisible s \<and> reducedMotion t = reducedMotion s \<and> isContextLost t = isContextLost s \<and>
     isWebGlReady t = isWebGlReady s"

lemma createProgram_ok:
  assumes "createProgram e s = (r, t)" and "\<forall>i\<in>live_shaders s. i < next_id s"
  shows "same_frames s t \<and> live_buffers t = live_buffers s \<and> positionBuffer t = positionBuffer s \<and>
    programInfo t = programInfo s \<and> has_gl t = has_gl s \<and> (\<forall>i\<in>live_shaders t. i < next_id t) \<and>
    live_programs t = live_programs s \<union> set_option r"
  using assms
  by (cases "e_vertex e"; cases "e_fragment e"; cases "e_program e")
    (auto simp: createProgram_def createShader_def deleteShader_def fresh_def same_frames_def Let_def less_Suc_eq)

lemma createProgram_shaders:
  assumes "\<forall>i\<in>live_shaders s. i < next_id s"
  shows "live_shaders (snd (createProgram e s)) = live_shaders s \<longleftrightarrow> (e_vertex e = Accepted \<longleftrightarrow> e_fragment e = Accepted)"
  using assms
  by (cases "e_vertex e"; cases "e_fragment e"; cases "e_program e")
    (auto simp: createProgram_def createShader_def deleteShader_def fresh_def Let_def)

lemma releasePipeline_frames:
  "same_frames s (releasePipeline b s)"
  "positionBuffer (releasePipeline b s) = None" "programInfo (releasePipeline b s) = None"
  by (auto simp: releasePipeline_def same_frames_def deleteBuffer_def deleteProgram_def Let_def split: option.splits)

lemma releasePipeline_ok:
  "gl_ok s \<Longrightarrow> b \<and> has_gl s \<or> programInfo s = None \<Longrightarrow> gl_ok (releasePipeline b s)"
  by (auto simp: releasePipeline_def gl_ok_def deleteBuffer_def deleteProgram_def Let_def split: option.splits)

lemma initializePipeline_ok:
  assumes "gl_ok s" and "\<not> isContextLost s" and "\<not> has_gl s \<or> positionBuffer s = None \<or> programInfo s = None"
    and "initializePipeline e s = (b, t)"
  shows "gl_ok t \<and> same_frames s t \<and> (b \<longrightarrow> has_gl t \<and> positionBuffer t \<noteq> None \<and> programInfo t \<noteq> None)"
proof -
  have none: "programInfo s = None" "positionBuffer s = None" using assms(1,3) by (auto simp: gl_ok_def)
  show ?thesis
  proof (cases "e_context e")
    case False
    then show ?thesis using assms none by (auto simp: initializePipeline_def releasePipeline_def gl_ok_def same_frames_def Let_def)
  next
    case True
    let ?s1 = "(releasePipeline True (s\<lparr>has_gl := True\<rparr>))\<lparr>has_gl := True\<rparr>"
    obtain r s2 where c: "createProgram e ?s1 = (r, s2)" by (cases "createProgram e ?s1")
    have s1: "gl_ok ?s1" "same_frames s ?s1" "programInfo ?s1 = None" "positionBuffer ?s1 = None" "has_gl ?s1"
      "live_buffers ?s1 = {}" "live_programs ?s1 = {}"
      using assms(1,2) none by (auto simp: releasePipeline_def gl_ok_def same_frames_def Let_def)
    then have "\<forall>i\<in>live_shaders ?s1. i < next_id ?s1" by (simp add: gl_ok_def)
    note s2 = createProgram_ok [OF c this]
    have lost: "\<not> isContextLost s2" using s1(2) s2 assms(2) by (simp add: same_frames_def)
    have "initializePipeline e s = (case r of None \<Rightarrow> (False, s2) | Some pr \<Rightarrow>
        (case getProgramInfo e pr of None \<Rightarrow> (False, deleteProgram pr s2)
         | Some info \<Rightarrow> if \<not> e_buffer e then (False, deleteProgram pr s2)
             else (True, fresh (s2\<lparr>live_buffers := insert (next_id s2) (live_buffers s2),
                    positionBuffer := Some (next_id s2), programInfo := Some info\<rparr>))))"
      using True c by (simp add: initializePipeline_def Let_def)
    then show ?thesis
      using assms(4) s1 s2 lost
      by (auto simp: gl_ok_def same_frames_def deleteProgram_def getProgramInfo_def fresh_def less_Suc_eq
          split: option.splits if_splits)
  qed
qed

lemma stopAnimation_ok:
  "frames_ok s \<Longrightarrow> frames_ok (stopAnimation s)" "gl_ok (stopAnimation s) = gl_ok s"
  "animationFrameId (stopAnimation s) = None" "can_draw (stopAnimation s) = can_draw s"
  "mounted (stopAnimation s) = mounted s"
  "isContextLost (stopAnimation s) = isContextLost s" "programInfo (stopAnimation s) = programInfo s"
  "has_gl (stopAnimation s) = has_gl s"
  by (auto simp: stopAnimation_def frames_ok_def gl_ok_def can_draw_def split: option.splits)

text \<open>What is left of the invariant when only the numbers of frames are known to agree.\<close>

definition frame_ids :: "retro_state \<Rightarrow> bool" where
  "frame_ids s \<longleftrightarrow> pending s = set_option (animationFrameId s)"

lemma stopAnimation_frames: "frame_ids s \<Longrightarrow> frames_ok ((stopAnimation s)\<lparr>isWebGlReady := b\<rparr>) \<and> frames_ok (stopAnimation s)"
  by (auto simp: stopAnimation_def frames_ok_def frame_ids_def split: option.splits)

lemma gl_ok_ready [simp]: "gl_ok (s\<lparr>isWebGlReady := b\<rparr>) = gl_ok s"
  by (simp add: gl_ok_def)

lemma draw_frames [simp]: "same_frames s (draw e t s)" "gl_ok (draw e t s) = gl_ok s" "can_draw (draw e t s) = can_draw s"
  "has_gl (draw e t s) = has_gl s" "positionBuffer (draw e t s) = positionBuffer s" "programInfo (draw e t s) = programInfo s"
  "currentWidth (draw e t s) = currentWidth s" "currentHeight (draw e t s) = currentHeight s"
  by (simp_all add: draw_def same_frames_def gl_ok_def) (simp_all add: can_draw_def)

lemma resizeCanvas_frames: "same_frames s (resizeCanvas e s)" "gl_ok (resizeCanvas e s) = gl_ok s"
  "has_gl (resizeCanvas e s) = has_gl s" "positionBuffer (resizeCanvas e s) = positionBuffer s"
  "programInfo (resizeCanvas e s) = programInfo s"
  by (simp_all add: resizeCanvas_def same_frames_def gl_ok_def Let_def)

lemma updateLineColor_frames: "same_frames s (updateLineColor e s)" "gl_ok (updateLineColor e s) = gl_ok s"
  "has_gl (updateLineColor e s) = has_gl s" "positionBuffer (updateLineColor e s) = positionBuffer s"
  "programInfo (updateLineColor e s) = programInfo s" "currentWidth (updateLineColor e s) = currentWidth s"
  "currentHeight (updateLineColor e s) = currentHeight s"
  by (simp_all add: updateLineColor_def same_frames_def gl_ok_def)

lemma request_frame_ok:
  assumes "gl_ok s" and "pending s = {}" and "mounted s" and "can_draw s" and "isVisible s" and "\<not> reducedMotion s" and "isWebGlReady s"
  shows "gl_ok (request_frame s)" "frames_ok (request_frame s)" "animationFrameId (request_frame s) \<noteq> None"
  using assms by (auto simp: request_frame_def fresh_def gl_ok_def frames_ok_def can_draw_def less_Suc_eq)

lemma syncReady_ok:
  assumes "gl_ok s" and "frame_ids s" and "mounted s" and "\<not> isContextLost s"
    and "has_gl s" and "positionBuffer s \<noteq> None" and "programInfo s \<noteq> None"
  shows "gl_ok (syncReady e s) \<and> frames_ok (syncReady e s) \<and>
    (can_draw (syncReady e s) \<and> isVisible s \<and> \<not> reducedMotion s \<longrightarrow> animationFrameId (syncReady e s) \<noteq> None)"
proof (cases "currentWidth (resizeCanvas e s) = 0 \<or> currentHeight (resizeCanvas e s) = 0")
  case True
  then have eq: "syncReady e s = stopAnimation (resizeCanvas e s)" by (simp add: syncReady_def Let_def)
  have "frame_ids (resizeCanvas e s)" using assms(2) resizeCanvas_frames(1) [of s e] by (simp add: same_frames_def frame_ids_def)
  moreover have "\<not> can_draw (resizeCanvas e s)" using True by (auto simp: can_draw_def)
  ultimately show ?thesis using assms(1) by (simp add: eq stopAnimation_frames stopAnimation_ok resizeCanvas_frames)
next
  case False
  let ?s2 = "(draw e (e_now e) (updateLineColor e (resizeCanvas e s)))\<lparr>isWebGlReady := True\<rparr>"
  have eq: "syncReady e s = (if reducedMotion ?s2 \<or> \<not> isVisible ?s2 then stopAnimation ?s2
      else if animationFrameId ?s2 = None then request_frame ?s2 else ?s2)"
    using False by (simp add: syncReady_def Let_def)
  have frames: "pending ?s2 = pending s" "animationFrameId ?s2 = animationFrameId s" "mounted ?s2" "isVisible ?s2 = isVisible s"
    "reducedMotion ?s2 = reducedMotion s" "\<not> isContextLost ?s2" "isWebGlReady ?s2"
    using assms(3,4) resizeCanvas_frames(1) [of s e] updateLineColor_frames(1) [of "resizeCanvas e s" e]
      draw_frames(1) [of "updateLineColor e (resizeCanvas e s)" e "e_now e"]
    by (simp_all add: same_frames_def)
  have gl: "gl_ok ?s2" using assms(1) by (simp add: updateLineColor_frames resizeCanvas_frames)
  have draw: "can_draw ?s2" using assms(4-7) False frames(6)
    by (simp add: can_draw_def updateLineColor_frames resizeCanvas_frames)
  have ids: "frame_ids ?s2" using assms(2) frames(1,2) by (simp add: frame_ids_def)
  show ?thesis
  proof (cases "reducedMotion s \<or> \<not> isVisible s")
    case True
    then have "syncReady e s = stopAnimation ?s2" using frames(4,5) by (simp add: eq)
    then show ?thesis using True gl stopAnimation_frames [OF ids] by (auto simp: stopAnimation_ok)
  next
    case go: False
    show ?thesis
    proof (cases "animationFrameId s")
      case None
      then have "syncReady e s = request_frame ?s2" using go frames(2,4,5) by (simp add: eq)
      moreover have "pending ?s2 = {}" using ids None frames(2) by (simp add: frame_ids_def)
      ultimately show ?thesis using request_frame_ok [OF gl _ frames(3) draw] go frames by simp
    next
      case (Some i)
      then have "syncReady e s = ?s2" using go frames(2,4,5) by (simp add: eq)
      then show ?thesis using gl draw ids Some frames go by (simp add: frames_ok_def frame_ids_def)
    qed
  qed
qed

lemma syncScene_ok:
  assumes "gl_ok s" and "frame_ids s" and "mounted s"
  shows "retro_inv (syncScene e s) \<and>
    (can_draw (syncScene e s) \<and> isVisible s \<and> \<not> reducedMotion s \<longrightarrow> animationFrameId (syncScene e s) \<noteq> None)"
proof (cases "isContextLost s")
  case True
  then have "\<not> can_draw (syncScene e s)" by (simp add: syncScene_def can_draw_def stopAnimation_ok)
  then show ?thesis using True assms stopAnimation_frames [OF assms(2)]
    by (simp add: syncScene_def retro_inv_def stopAnimation_ok)
next
  case alive: False
  show ?thesis
  proof (cases "\<not> has_gl s \<or> positionBuffer s = None \<or> programInfo s = None")
    case missing: True
    obtain b s1 where i: "initializePipeline e s = (b, s1)" by (cases "initializePipeline e s")
    note s1 = initializePipeline_ok [OF assms(1) alive missing i]
    have f: "frame_ids s1" "mounted s1" "\<not> isContextLost s1" "isVisible s1 = isVisible s" "reducedMotion s1 = reducedMotion s"
      using s1 assms alive by (auto simp: same_frames_def frame_ids_def)
    show ?thesis
    proof (cases b)
      case True
      then have "syncScene e s = syncReady e s1" using i alive missing by (simp add: syncScene_def)
      then show ?thesis using syncReady_ok [of s1 e] s1 f True by (simp add: retro_inv_def)
    next
      case False
      then have eq: "syncScene e s = (stopAnimation s1)\<lparr>isWebGlReady := False\<rparr>" using i alive missing by (simp add: syncScene_def)
      have "programInfo s1 = None"
        using i False missing assms(1) alive
        by (auto simp: initializePipeline_def Let_def gl_ok_def releasePipeline_def split: option.splits if_splits prod.splits
            dest!: createProgram_ok simp: deleteProgram_def)
      then have "\<not> can_draw (syncScene e s)" by (simp add: eq can_draw_def stopAnimation_ok)
      then show ?thesis using eq s1 stopAnimation_frames [OF f(1)] by (simp add: retro_inv_def stopAnimation_ok)
    qed
  next
    case False
    then have "syncScene e s = syncReady e s" using alive by (auto simp: syncScene_def)
    then show ?thesis using syncReady_ok [of s e] assms alive False by (simp add: retro_inv_def)
  qed
qed

lemma retro_inv_ids: "retro_inv s \<Longrightarrow> gl_ok s \<and> frame_ids s"
  by (simp add: retro_inv_def frames_ok_def frame_ids_def)

lemma lost_ok: "retro_inv s \<Longrightarrow> retro_inv (handleContextLost (lose_objects s))"
  by (auto simp: retro_inv_def gl_ok_def frames_ok_def handleContextLost_def lose_objects_def stopAnimation_def
      releasePipeline_def Let_def split: option.splits)

lemma cleanup_ok: "retro_inv s \<Longrightarrow> retro_inv (retro_cleanup s) \<and> animationFrameId (retro_cleanup s) = None \<and>
    programInfo (retro_cleanup s) = None \<and> positionBuffer (retro_cleanup s) = None"
proof -
  assume inv: "retro_inv s"
  let ?s1 = "stopAnimation s"
  have "gl_ok ?s1" using inv by (simp add: retro_inv_def stopAnimation_ok)
  moreover have "\<not> isContextLost ?s1 \<and> has_gl ?s1 \<or> programInfo ?s1 = None" using inv by (auto simp: retro_inv_def gl_ok_def stopAnimation_ok)
  ultimately have "gl_ok (releasePipeline (\<not> isContextLost ?s1) ?s1)" by (rule releasePipeline_ok)
  moreover have "animationFrameId (releasePipeline b ?s1) = None" "pending (releasePipeline b ?s1) = pending ?s1" for b
    using releasePipeline_frames(1) [of ?s1 b] by (simp_all add: same_frames_def stopAnimation_ok)
  moreover have "pending ?s1 = {}" using inv by (auto simp: retro_inv_def frames_ok_def stopAnimation_def split: option.splits)
  ultimately show ?thesis
    by (simp add: retro_inv_def retro_cleanup_def Let_def frames_ok_def gl_ok_def releasePipeline_frames)
qed

lemma can_draw_pending [simp]: "can_draw (s\<lparr>pending := x\<rparr>) = can_draw s"
  by (simp add: can_draw_def)

lemma frame_ok:
  assumes inv: "retro_inv s" and i: "i \<in> pending s"
  shows "retro_inv (frame e t (s\<lparr>pending := pending s - {i}\<rparr>))"
proof -
  let ?s = "s\<lparr>pending := pending s - {i}\<rparr>"
  have id: "animationFrameId s = Some i" "pending ?s = {}" using inv i by (auto simp: retro_inv_def frames_ok_def split: option.splits)
  then have go: "mounted s" "can_draw s" "isVisible s" "\<not> reducedMotion s" "isWebGlReady s"
    using inv by (auto simp: retro_inv_def frames_ok_def)
  have d: "pending (draw e t ?s) = {}" "mounted (draw e t ?s)" "can_draw (draw e t ?s)" "isVisible (draw e t ?s)"
    "\<not> reducedMotion (draw e t ?s)" "isWebGlReady (draw e t ?s)"
    using go id(2) draw_frames(1) [of ?s e t] by (auto simp: same_frames_def)
  moreover have "gl_ok (draw e t ?s)" using inv by (simp add: retro_inv_def) (simp add: gl_ok_def)
  ultimately have "retro_inv (request_frame (draw e t ?s))" by (simp add: retro_inv_def request_frame_ok)
  then show ?thesis using d by (simp add: frame_def Let_def)
qed

lemma intersect_ok:
  assumes "retro_inv s" and "mounted s"
  shows "retro_inv (handleIntersection e b s)"
proof -
  let ?s = "s\<lparr>isVisible := b\<rparr>"
  have "gl_ok ?s" "frame_ids ?s" using retro_inv_ids [OF assms(1)] by (simp_all add: gl_ok_def frame_ids_def)
  then show ?thesis using assms(2) syncScene_ok [of ?s e] stopAnimation_frames [of ?s]
    by (auto simp: handleIntersection_def Let_def retro_inv_def stopAnimation_ok)
qed

interpretation retro: component retro_init retro_step retro_inv
proof
  show "retro_inv s" if start: "retro_init s" for s
  proof -
    obtain e p reduce where "s = retro_mount e p reduce" using start unfolding retro_init_def by blast
    then show ?thesis unfolding retro_mount_def
      by (auto intro!: syncScene_ok [THEN conjunct1] simp: gl_ok_def frame_ids_def)
  qed
  show "retro_inv t" if "retro_inv s" "retro_step s t" for s t
    using that(2,1)
  proof (induction rule: retro_step.induct)
    case (retro_sync s e)
    then show ?case using syncScene_ok [of s e] retro_inv_ids by blast
  next
    case (retro_props s e p)
    then have "gl_ok (s\<lparr>refs := p\<rparr>)" "frame_ids (s\<lparr>refs := p\<rparr>)"
      using retro_inv_ids [of s] by (simp_all add: gl_ok_def frame_ids_def)
    then show ?case using syncScene_ok [of "s\<lparr>refs := p\<rparr>" e] retro_props(1) by (simp add: setProps_def)
  next
    case (retro_motion s e b)
    then have "gl_ok (s\<lparr>reducedMotion := b\<rparr>)" "frame_ids (s\<lparr>reducedMotion := b\<rparr>)"
      using retro_inv_ids [of s] by (simp_all add: gl_ok_def frame_ids_def)
    then show ?case using syncScene_ok [of "s\<lparr>reducedMotion := b\<rparr>" e] retro_motion(1) by (simp add: handleMotionChange_def)
  next
    case (retro_restored s e)
    then have "gl_ok (s\<lparr>isContextLost := False\<rparr>)" "frame_ids (s\<lparr>isContextLost := False\<rparr>)"
      using retro_inv_ids [of s] by (auto simp: gl_ok_def frame_ids_def)
    then show ?case using syncScene_ok [of "s\<lparr>isContextLost := False\<rparr>" e] retro_restored(1) by (simp add: handleContextRestored_def)
  qed (use lost_ok frame_ok intersect_ok cleanup_ok in auto)
qed

section \<open>Bounds of the shader\<close>

definition unit :: "real \<Rightarrow> bool" where
  "unit x \<longleftrightarrow> 0 \<le> x \<and> x \<le> 1"

lemma unit_intros:
  "unit x \<Longrightarrow> unit y \<Longrightarrow> unit (x * y)" "unit x \<Longrightarrow> unit y \<Longrightarrow> unit (max x y)" "unit x \<Longrightarrow> unit (1 - x)"
  by (auto simp: unit_def mult_le_one)

lemma unit_smoothstep: "unit (smoothstep a b x)"
proof -
  define t where "t = clamp ((x - a) / (b - a)) 0 1"
  have t: "0 \<le> t" "t \<le> 1" by (simp_all add: t_def clamp_def)
  have "1 - t * t * (3 - 2 * t) = (1 - t)\<^sup>2 * (1 + 2 * t)" by (simp add: power2_eq_square algebra_simps)
  moreover have "0 \<le> (1 - t)\<^sup>2 * (1 + 2 * t)" using t by simp
  moreover have "0 \<le> t * t * (3 - 2 * t)" using t by simp
  ultimately show ?thesis unfolding unit_def smoothstep_def Let_def t_def [symmetric] by linarith
qed

lemma unit_line: "unit (renderGridLine a b c)"
  unfolding renderGridLine_def by (intro unit_intros unit_smoothstep)

lemma unit_vertical: "unit (verticalLine u pos d)"
  unfolding verticalLine_def Let_def by (intro unit_intros unit_smoothstep unit_line)

lemma unit_horizontal: "unit (horizontalLine u pos d)"
  unfolding horizontalLine_def Let_def by (intro unit_intros unit_smoothstep unit_line)

lemma planeNormal_eq: "planeNormal u = (0, - sin (shader_angle u), cos (shader_angle u))"
proof -
  have "(sin x)\<^sup>2 + (cos x)\<^sup>2 = 1" for x :: real by simp
  then show ?thesis by (simp add: planeNormal_def planeYAxis_def normalize3_def power2_eq_square [symmetric])
qed

lemma hit_on_plane:
  assumes "hitPoint u f = Some h"
  shows "dot3 h (planeNormal u) = 0"
proof -
  let ?n = "planeNormal u" and ?d = "normalize3 (screen_ray u f)"
  have "dot3 (add3 a (scale3 k b)) c = dot3 a c + k * dot3 b c" for a b c k
    by (cases a; cases b; cases c) (simp add: algebra_simps)
  moreover have "dot3 (scale3 (-1) a) c = - dot3 a c" for a c by (cases a; cases c) simp
  moreover have "dot3 ?d ?n \<noteq> 0" using assms by (auto simp: hitPoint_def Let_def split: if_splits)
  moreover have "h = add3 (0, 0, 200) (scale3 (dot3 (scale3 (-1) (0, 0, 200)) ?n / dot3 ?d ?n) ?d)"
    using assms by (auto simp: hitPoint_def Let_def split: if_splits)
  moreover have "dot3 (0, 0, 200) c + dot3 (0, 0, - 200) c = 0" for c by (cases c) simp
  ultimately show ?thesis by simp
qed

text \<open>A vector orthogonal to the normal lies in the plane of the two axes.\<close>

lemma plane_coordinates:
  assumes "dot3 h (planeNormal u) = 0"
  shows "h = add3 (scale3 (fst h) (1, 0, 0)) (scale3 (dot3 h (planeYAxis u)) (planeYAxis u))"
proof -
  obtain x y z where h: "h = (x, y, z)" by (cases h)
  define c s where "c = cos (shader_angle u)" and "s = sin (shader_angle u)"
  have unit: "s\<^sup>2 + c\<^sup>2 = 1" by (simp add: c_def s_def)
  have orth: "z * c = y * s" using assms by (simp add: h planeNormal_eq c_def s_def)
  have "(y * c + z * s) * c = y * (c\<^sup>2) + (z * c) * s" by (simp add: power2_eq_square algebra_simps)
  also have "\<dots> = y * (s\<^sup>2 + c\<^sup>2)" unfolding orth by (simp add: power2_eq_square algebra_simps)
  finally have y: "(y * c + z * s) * c = y" by (simp add: unit)
  have "(y * c + z * s) * s = (y * s) * c + z * s\<^sup>2" by (simp add: power2_eq_square algebra_simps)
  also have "\<dots> = z * (s\<^sup>2 + c\<^sup>2)" unfolding orth [symmetric] by (simp add: power2_eq_square algebra_simps)
  finally have z: "(y * c + z * s) * s = z" by (simp add: unit)
  show ?thesis using y z by (simp add: h planeYAxis_def c_def [symmetric] s_def [symmetric])
qed

section \<open>Properties of the grid\<close>

text \<open>
  C35. Frames are accounted for: in every reachable state the browser holds at most one frame
  callback, the one that is remembered; a frame is pending only while the grid is mounted,
  visible, ready to draw and motion is not reduced; and a synchronisation after which the
  grid can draw leaves a frame pending unless it is hidden or motion is reduced.
\<close>

theorem retro_frames:
  assumes "reach retro_init retro_step s"
  shows "pending s = set_option (animationFrameId s) \<and>
    (pending s \<noteq> {} \<longrightarrow> mounted s \<and> can_draw s \<and> isVisible s \<and> \<not> reducedMotion s \<and> isWebGlReady s) \<and>
    (mounted s \<and> can_draw (syncScene e s) \<and> isVisible s \<and> \<not> reducedMotion s \<longrightarrow> pending (syncScene e s) \<noteq> {})"
proof -
  have inv: "retro_inv s" using assms by (rule retro.always)
  have "pending (syncScene e s) \<noteq> {}" if "mounted s" "can_draw (syncScene e s)" "isVisible s" "\<not> reducedMotion s"
    using syncScene_ok [of s e] retro_inv_ids [OF inv] that by (auto simp: retro_inv_def frames_ok_def)
  then show ?thesis using inv by (auto simp: retro_inv_def frames_ok_def)
qed

text \<open>
  C36. No WebGL program or buffer leaks: in every reachable state the live programs and
  buffers are exactly those the pipeline holds, and unmounting leaves none, and no frame.
\<close>

theorem retro_no_leak:
  assumes "reach retro_init retro_step s"
  shows "live_programs s = set_option (programInfo s) \<and> live_buffers s = set_option (positionBuffer s) \<and>
    live_programs (retro_cleanup s) = {} \<and> live_buffers (retro_cleanup s) = {} \<and> pending (retro_cleanup s) = {}"
proof -
  have inv: "retro_inv s" using assms by (rule retro.always)
  then show ?thesis using cleanup_ok [OF inv] by (simp add: retro_inv_def gl_ok_def frames_ok_def)
qed

text \<open>
  Shaders can leak: building a program in a reachable state leaves the live shaders as
  they were if and only if both shaders compile or neither does; when only one of them
  fails, the other one is never deleted.
\<close>

theorem createProgram_shader_leak:
  assumes "reach retro_init retro_step s"
  shows "live_shaders (snd (createProgram e s)) = live_shaders s \<longleftrightarrow> (e_vertex e = Accepted \<longleftrightarrow> e_fragment e = Accepted)"
proof -
  have "retro_inv s" using assms by (rule retro.always)
  then have "\<forall>i\<in>live_shaders s. i < next_id s" by (simp add: retro_inv_def gl_ok_def)
  then show ?thesis by (rule createProgram_shaders)
qed

text \<open>
  The shader draws on the tilted plane and within range: the point it computes behind a
  pixel lies in the plane of the grid with the coordinates it then uses, and a pixel that is
  not discarded has premultiplied colour, no channel above its opacity and the opacity not
  above that of the line colour.
\<close>

theorem fragment_in_range:
  assumes "u_line_color u = (r, g, b, a)" and "0 \<le> a" and "0 \<le> r" and "r \<le> 1" and "0 \<le> g" and "g \<le> 1"
    and "0 \<le> b" and "b \<le> 1" and "fragment_main u f fwidth = Some (x, y, z, w)"
  shows "0 \<le> w \<and> w \<le> a \<and> 0 \<le> x \<and> x \<le> w \<and> 0 \<le> y \<and> y \<le> w \<and> 0 \<le> z \<and> z \<le> w \<and>
    (\<exists>h. hitPoint u f = Some h \<and> on_grid u (planePosition u h) \<and>
       h = add3 (scale3 (fst h) (1, 0, 0)) (scale3 (dot3 h (planeYAxis u)) (planeYAxis u)))"
proof -
  obtain h where h: "hitPoint u f = Some h" using assms(9) by (auto simp: fragment_main_def split: option.splits)
  let ?pos = "planePosition u h"
  let ?d = "fwidth (patternPosition u ?pos)"
  define line where "line = max (verticalLine u ?pos ?d) (horizontalLine u ?pos ?d)"
  have grid: "on_grid u ?pos" and out: "(x, y, z, w) = (r * (a * line), g * (a * line), b * (a * line), a * line)"
    using assms(1,9) h by (auto simp: fragment_main_def line_def Let_def split: if_splits)
  have "unit line" unfolding line_def by (intro unit_intros unit_vertical unit_horizontal)
  then have w: "0 \<le> w" "w \<le> a" using out assms(2) by (auto simp: unit_def mult_left_le)
  have "0 \<le> c * w" "c * w \<le> w" if "0 \<le> c" "c \<le> 1" for c using that w(1) by (auto simp: mult_left_le_one_le)
  then show ?thesis using w out assms h grid plane_coordinates [OF hit_on_plane [OF h]] by auto
qed

section \<open>Witnesses\<close>

definition good_env :: retro_env where
  "good_env = \<lparr>e_context = True, e_vertex = Accepted, e_fragment = Accepted, e_program = Accepted, e_attrib = 0,
     e_uniform = (\<lambda>_. True), e_buffer = True, e_clientWidth = 800, e_clientHeight = 600, e_devicePixelRatio = Some 3,
     e_darkClass = True, e_lightClass = False, e_prefersDark = False, e_pixel = (\<lambda>_. Some (128, 128, 128, 255)), e_now = 0,
     e_innerWidth = 800, e_innerHeight = 600\<rparr>"

lemma good_mount: "reach retro_init retro_step (retro_mount good_env retro_default False)"
  unfolding retro_init_def by (rule reach_init) blast

lemmas retro_eval = retro_mount_def syncScene_def syncReady_def initializePipeline_def createProgram_def createShader_def
  deleteShader_def getProgramInfo_def releasePipeline_def resizeCanvas_def updateLineColor_def draw_def can_draw_def
  request_frame_def fresh_def good_env_def uniform_names_def Let_def

lemma good_mount_state:
  "mounted (retro_mount good_env retro_default False)" "programInfo (retro_mount good_env retro_default False) = Some 2"
  "animationFrameId (retro_mount good_env retro_default False) = Some 4"
  by (simp_all add: retro_eval)

theorem retro_frames_witness: "pending (retro_mount good_env retro_default False) = {4}"
  using retro_frames [OF good_mount, of good_env] good_mount_state by simp

theorem retro_no_leak_witness:
  "live_programs (retro_mount good_env retro_default False) = {2} \<and>
   live_programs (retro_cleanup (retro_mount good_env retro_default False)) = {}"
  using retro_no_leak [OF good_mount] good_mount_state by simp

theorem createProgram_shader_leak_witness:
  "live_shaders (snd (createProgram (good_env\<lparr>e_fragment := Rejected\<rparr>) (retro_mount good_env retro_default False))) \<noteq>
   live_shaders (retro_mount good_env retro_default False)"
  using createProgram_shader_leak [OF good_mount, of "good_env\<lparr>e_fragment := Rejected\<rparr>"] by (simp add: good_env_def)

definition sample_uniforms :: uniforms where
  "sample_uniforms = \<lparr>u_angle = 60, u_cell_size = 60, u_container_size = (800, 600), u_device_pixel_ratio = 1,
     u_line_color = (1/2, 1/2, 1/2, 1), u_time = 0, u_viewport_size = (800, 600)\<rparr>"

lemma sample_hit: "hitPoint sample_uniforms (400, 300) = Some (0, 0, 0)"
proof -
  have "shader_angle sample_uniforms = pi / 3" by (simp add: shader_angle_def sample_uniforms_def clamp_def)
  then have "cos (shader_angle sample_uniforms) = 1 / 2" by (simp only: cos_60)
  moreover have "screen_ray sample_uniforms (400, 300) = (0, 0, -200)" by (simp add: screen_ray_def sample_uniforms_def)
  ultimately show ?thesis by (simp add: hitPoint_def planeNormal_eq normalize3_def Let_def)
qed

lemma sample_position: "planePosition sample_uniforms (0, 0, 0) = (2000, 1200)"
  by (simp add: planePosition_def planeYAxis_def gridHeight_def sample_uniforms_def)

lemma sample_line: "horizontalLine sample_uniforms (2000, 1200) (1, 1) = 1"
proof -
  have "\<lfloor>2401 / (120::real)\<rfloor> = 20" by (simp add: floor_eq_iff)
  then have "glsl_mod (2401 / 2) 60 = 1 / 2" by (simp add: glsl_mod_def)
  then show ?thesis
    by (simp add: horizontalLine_def patternPosition_def sample_uniforms_def renderGridLine_def smoothstep_def clamp_def Let_def max_def min_def)
qed

lemma sample_fragment: "fragment_main sample_uniforms (400, 300) (\<lambda>_. (1, 1)) \<noteq> None"
proof -
  have "on_grid sample_uniforms (2000, 1200)" by (simp add: on_grid_def gridWidth_def gridHeight_def sample_uniforms_def)
  moreover have "\<not> max v 1 \<le> 1 / (1000::real)" for v by simp
  ultimately show ?thesis
    by (simp add: fragment_main_def sample_hit sample_position sample_line Let_def split_beta)
qed

theorem fragment_in_range_witness:
  "\<exists>x y z w. fragment_main sample_uniforms (400, 300) (\<lambda>_. (1, 1)) = Some (x, y, z, w) \<and> 0 \<le> x \<and> x \<le> w \<and> w \<le> 1"
proof -
  obtain x y z w where out: "fragment_main sample_uniforms (400, 300) (\<lambda>_. (1, 1)) = Some (x, y, z, w)"
    using sample_fragment by (metis option.exhaust prod_cases4)
  have "u_line_color sample_uniforms = (1/2, 1/2, 1/2, 1)" by (simp add: sample_uniforms_def)
  from fragment_in_range [OF this _ _ _ _ _ _ _ out] show ?thesis using out by auto
qed

end
