(* ===== verification/Grids.thy ===== *)
theory Grids
  imports Vdom Complex_Main
begin

text \<open>
  The grid backgrounds under \<open>website/components/magicui\<close>: \<open>dot-pattern.tsx\<close>,
  \<open>interactive-grid-pattern.tsx\<close>, \<open>animated-grid-pattern.tsx\<close> and \<open>flickering-grid.tsx\<close>.

  Sizes and opacities are real numbers; sizes of cells are meant to be positive. The results
  of \<open>Math.random()\<close> are the parameter \<open>rnd\<close>, a sequence of which the state or an argument
  counts how many are used; \<open>num\<close> is the text of a number, \<open>uid\<close> the result of \<open>useId\<close>.
\<close>

section \<open>Numbering the cells of a grid\<close>

text \<open>
  The interface of a numbering of \<open>cols\<close> times \<open>rows\<close> cells: every cell has exactly one
  number below their product.
\<close>

locale cell_numbering =
  fixes cols rows :: nat
    and cell :: "nat \<Rightarrow> nat \<times> nat"
    and number :: "nat \<times> nat \<Rightarrow> nat"
  assumes cell_range: "i < cols * rows \<Longrightarrow> fst (cell i) < cols \<and> snd (cell i) < rows"
    and number_cell: "i < cols * rows \<Longrightarrow> number (cell i) = i"
    and number_range: "c < cols \<Longrightarrow> r < rows \<Longrightarrow> number (c, r) < cols * rows"
    and cell_number: "c < cols \<Longrightarrow> r < rows \<Longrightarrow> cell (number (c, r)) = (c, r)"
begin

lemma unique_number:
  assumes "c < cols" and "r < rows"
  shows "\<exists>!i. i < cols * rows \<and> cell i = (c, r)"
  using assms number_range cell_number number_cell by (metis fst_conv snd_conv)

lemma all_cells: "cell ` {..<cols * rows} = {..<cols} \<times> {..<rows}"
proof
  show "cell ` {..<cols * rows} \<subseteq> {..<cols} \<times> {..<rows}"
    by (auto dest!: cell_range [of _] simp: prod_eq_iff split: prod.splits)
  show "{..<cols} \<times> {..<rows} \<subseteq> cell ` {..<cols * rows}"
    using number_range cell_number by (auto simp: image_iff) (metis lessThan_iff)
qed

end

text \<open>Row by row: \<open>(i % cols, Math.floor(i / cols))\<close>; column by column: number \<open>i * rows + j\<close>.\<close>

definition row_cell :: "nat \<Rightarrow> nat \<Rightarrow> nat \<times> nat" where
  "row_cell cols i = (i mod cols, i div cols)"

definition column_number :: "nat \<Rightarrow> nat \<times> nat \<Rightarrow> nat" where
  "column_number rows c = fst c * rows + snd c"

lemma pair_number_less: "c < m \<Longrightarrow> r < n \<Longrightarrow> r * m + c < m * (n::nat)"
  by (metis add.commute add_less_cancel_left less_le_trans mult.commute mult_Suc mult_le_mono1 Suc_leI)

interpretation by_rows: cell_numbering cols rows "row_cell cols" "\<lambda>(c, r). r * cols + c" for cols rows
proof
  fix i
  assume "i < cols * rows"
  then show "fst (row_cell cols i) < cols \<and> snd (row_cell cols i) < rows"
    by (cases "cols = 0") (auto simp: row_cell_def less_mult_imp_div_less mult.commute)
qed (auto simp: row_cell_def pair_number_less)

interpretation by_columns: cell_numbering cols rows "\<lambda>i. (i div rows, i mod rows)" "column_number rows" for cols rows
proof
  fix i
  assume "i < cols * rows"
  then show "fst (i div rows, i mod rows) < cols \<and> snd (i div rows, i mod rows) < rows"
    by (cases "rows = 0") (auto simp: less_mult_imp_div_less)
qed (use pair_number_less [of _ rows _ cols] in \<open>auto simp: column_number_def mult.commute\<close>)

text \<open>The cell of size \<open>w\<close> that a coordinate falls into.\<close>

lemma unique_slot:
  assumes "0 < w" and "0 \<le> p" and "p < W"
  shows "\<exists>!c. c < nat \<lceil>W / w\<rceil> \<and> real c * w \<le> p \<and> p < real c * w + w"
proof
  let ?c = "nat \<lfloor>p / w\<rfloor>"
  have f: "0 \<le> \<lfloor>p / w\<rfloor>" using assms by simp
  have "real ?c \<le> p / w" "p / w < real ?c + 1" using f by linarith+
  then have c: "real ?c * w \<le> p" "p < real ?c * w + w" using assms(1) by (simp_all add: field_simps)
  have "p / w < W / w" using assms by (simp add: divide_strict_right_mono)
  then have "\<lfloor>p / w\<rfloor> < \<lceil>W / w\<rceil>" by linarith
  with f c show "?c < nat \<lceil>W / w\<rceil> \<and> real ?c * w \<le> p \<and> p < real ?c * w + w" by linarith
  fix c
  assume "c < nat \<lceil>W / w\<rceil> \<and> real c * w \<le> p \<and> p < real c * w + w"
  then have "real c \<le> p / w" "p / w < real c + 1" using assms(1) by (simp_all add: field_simps)
  then have "\<lfloor>p / w\<rfloor> = int c" by linarith
  then show "c = ?c" by simp
qed

section \<open>dot-pattern.tsx\<close>

record dot_props =
  d_width :: real
  d_height :: real
  d_x :: real
  d_y :: real
  d_cx :: real
  d_cy :: real
  d_cr :: real
  d_className :: "jstr option"
  d_glow :: bool

definition dot_default :: dot_props where
  "dot_default = \<lparr>d_width = 16, d_height = 16, d_x = 0, d_y = 0, d_cx = 1, d_cy = 1, d_cr = 1,
     d_className = None, d_glow = False\<rparr>"

record dot =
  dot_x :: real
  dot_y :: real
  dot_delay :: real
  dot_duration :: real

text \<open>The listener \<open>updateDimensions\<close>: \<open>rect\<close> is the present size, if the element is mounted.\<close>

definition updateDimensions :: "(real \<times> real) option \<Rightarrow> real \<times> real \<Rightarrow> real \<times> real" where
  "updateDimensions rect dimensions = (case rect of Some d \<Rightarrow> d | None \<Rightarrow> dimensions)"

definition dot_cols :: "dot_props \<Rightarrow> real \<times> real \<Rightarrow> nat" where
  "dot_cols p dimensions = nat \<lceil>fst dimensions / d_width p\<rceil>"

definition dot_rows :: "dot_props \<Rightarrow> real \<times> real \<Rightarrow> nat" where
  "dot_rows p dimensions = nat \<lceil>snd dimensions / d_height p\<rceil>"

definition dot_at :: "(nat \<Rightarrow> real) \<Rightarrow> dot_props \<Rightarrow> real \<times> real \<Rightarrow> nat \<Rightarrow> dot" where
  "dot_at rnd p dimensions i =
     (let (col, row) = row_cell (dot_cols p dimensions) i in
      \<lparr>dot_x = real col * d_width p + d_cx p + d_x p,
       dot_y = real row * d_height p + d_cy p + d_y p,
       dot_delay = rnd (2 * i) * 5,
       dot_duration = rnd (2 * i + 1) * 3 + 2\<rparr>)"

definition dots :: "(nat \<Rightarrow> real) \<Rightarrow> dot_props \<Rightarrow> real \<times> real \<Rightarrow> dot list" where
  "dots rnd p dimensions = map (dot_at rnd p dimensions) [0..<dot_cols p dimensions * dot_rows p dimensions]"

definition dot_node :: "(real \<Rightarrow> jstr) \<Rightarrow> jstr \<Rightarrow> dot_props \<Rightarrow> dot \<Rightarrow> node" where
  "dot_node num uid p d = El ''motion.circle''
     ([(''key'', num (dot_x d) @ js ''-'' @ num (dot_y d)), (''cx'', num (dot_x d)), (''cy'', num (dot_y d)),
       (''r'', num (d_cr p)),
       (''fill'', if d_glow p then js ''url(#'' @ uid @ js ''-gradient)'' else js ''currentColor'')] @
      (if d_glow p
       then [att ''initial'' ''{opacity: 0.4, scale: 1}'', att ''animate'' ''{opacity: [0.4, 1, 0.4], scale: [1, 1.5, 1]}'',
             (''transition.duration'', num (dot_duration d)), att ''transition.repeat'' ''Infinity'',
             att ''transition.repeatType'' ''reverse'', (''transition.delay'', num (dot_delay d)),
             att ''transition.ease'' ''easeInOut'']
       else [att ''initial'' ''{}'', att ''animate'' ''{}'', att ''transition'' ''{}''])) []"

definition dotPattern :: "class_fn \<Rightarrow> (real \<Rightarrow> jstr) \<Rightarrow> jstr \<Rightarrow> (nat \<Rightarrow> real) \<Rightarrow> dot_props \<Rightarrow> real \<times> real \<Rightarrow> node" where
  "dotPattern cn num uid rnd p dimensions =
     El ''svg'' [att ''aria-hidden'' ''true'',
         (''className'', cn [Some (js ''pointer-events-none absolute inset-0 h-full w-full text-neutral-400/80''), d_className p])]
       (El ''defs'' []
          [El ''radialGradient'' [(''id'', uid @ js ''-gradient'')]
             [El ''stop'' [att ''offset'' ''0%'', att ''stopColor'' ''currentColor'', att ''stopOpacity'' ''1''] [],
              El ''stop'' [att ''offset'' ''100%'', att ''stopColor'' ''currentColor'', att ''stopOpacity'' ''0''] []]] #
        map (dot_node num uid p) (dots rnd p dimensions))"

section \<open>interactive-grid-pattern.tsx\<close>

record squares_props =
  sq_width :: real
  sq_height :: real
  horizontal :: nat
  vertical :: nat
  sq_className :: "jstr option"
  squaresClassName :: "jstr option"

definition squares_default :: squares_props where
  "squares_default = \<lparr>sq_width = 40, sq_height = 40, horizontal = 24, vertical = 24, sq_className = None,
     squaresClassName = None\<rparr>"

definition square_at :: "squares_props \<Rightarrow> nat \<Rightarrow> real \<times> real" where
  "square_at p index =
     (let (c, r) = row_cell (horizontal p) index in (real c * sq_width p, real r * sq_height p))"

definition square_fill :: "nat option \<Rightarrow> nat \<Rightarrow> jstr" where
  "square_fill hoveredSquare index =
     (if hoveredSquare = Some index then js ''fill-gray-300/30'' else js ''fill-transparent'')"

definition square_node :: "class_fn \<Rightarrow> (real \<Rightarrow> jstr) \<Rightarrow> squares_props \<Rightarrow> nat option \<Rightarrow> nat \<Rightarrow> node" where
  "square_node cn num p hoveredSquare index =
     El ''rect'' [(''key'', digits index), (''x'', num (fst (square_at p index))), (''y'', num (snd (square_at p index))),
       (''width'', num (sq_width p)), (''height'', num (sq_height p)),
       (''className'', cn [Some (js ''stroke-gray-400/30 transition-all duration-100 ease-in-out not-[&:hover]:duration-1000''),
          Some (square_fill hoveredSquare index), squaresClassName p])] []"

definition interactiveGridPattern ::
  "class_fn \<Rightarrow> (real \<Rightarrow> jstr) \<Rightarrow> squares_props \<Rightarrow> nat option \<Rightarrow> node" where
  "interactiveGridPattern cn num p hoveredSquare =
     El ''svg'' [(''width'', num (sq_width p * real (horizontal p))), (''height'', num (sq_height p * real (vertical p))),
         (''className'', cn [Some (js ''absolute inset-0 h-full w-full border border-gray-400/30''), sq_className p])]
       (map (square_node cn num p hoveredSquare) [0..<horizontal p * vertical p])"

inductive hover_step :: "squares_props \<Rightarrow> nat option \<Rightarrow> nat option \<Rightarrow> bool" for p where
  mouse_enter: "index < horizontal p * vertical p \<Longrightarrow> hover_step p h (Some index)"
| mouse_leave: "hover_step p h None"

section \<open>animated-grid-pattern.tsx\<close>

record grid_props =
  g_width :: real
  g_height :: real
  g_x :: real
  g_y :: real
  strokeDasharray :: real
  numSquares :: nat
  g_className :: "jstr option"
  g_maxOpacity :: real
  g_duration :: real
  repeatDelay :: real

definition grid_default :: grid_props where
  "grid_default = \<lparr>g_width = 40, g_height = 40, g_x = -1, g_y = -1, strokeDasharray = 0, numSquares = 50,
     g_className = None, g_maxOpacity = 1/2, g_duration = 4, repeatDelay = 1/2\<rparr>"

record square =
  square_id :: nat
  square_pos :: "int \<times> int"
  iteration :: nat

record grid_state =
  dimensions :: "real \<times> real"
  grid_squares :: "square list"
  g_used :: nat

definition getPos :: "(nat \<Rightarrow> real) \<Rightarrow> grid_props \<Rightarrow> real \<times> real \<Rightarrow> nat \<Rightarrow> int \<times> int" where
  "getPos rnd p dims n = (\<lfloor>rnd n * fst dims / g_width p\<rfloor>, \<lfloor>rnd (n + 1) * snd dims / g_height p\<rfloor>)"

definition generateSquares :: "(nat \<Rightarrow> real) \<Rightarrow> grid_props \<Rightarrow> real \<times> real \<Rightarrow> nat \<Rightarrow> nat \<Rightarrow> square list" where
  "generateSquares rnd p dims n count =
     map (\<lambda>i. \<lparr>square_id = i, square_pos = getPos rnd p dims (n + 2 * i), iteration = 0\<rparr>) [0..<count]"

definition updateSquarePosition :: "(nat \<Rightarrow> real) \<Rightarrow> grid_props \<Rightarrow> nat \<Rightarrow> grid_state \<Rightarrow> grid_state" where
  "updateSquarePosition rnd p squareId s =
     (if squareId < length (grid_squares s) \<and> square_id (grid_squares s ! squareId) = squareId
      then (let current = grid_squares s ! squareId in
            s\<lparr>grid_squares := (grid_squares s)[squareId :=
                current\<lparr>square_pos := getPos rnd p (dimensions s) (g_used s), iteration := iteration current + 1\<rparr>],
              g_used := g_used s + 2\<rparr>)
      else s)"

text \<open>A new size, and the effect that depends on it.\<close>

definition grid_resize :: "(nat \<Rightarrow> real) \<Rightarrow> grid_props \<Rightarrow> real \<times> real \<Rightarrow> grid_state \<Rightarrow> grid_state" where
  "grid_resize rnd p next s =
     (if dimensions s = next then s
      else if fst next \<noteq> 0 \<and> snd next \<noteq> 0
      then s\<lparr>dimensions := next, grid_squares := generateSquares rnd p next (g_used s) (numSquares p),
             g_used := g_used s + 2 * numSquares p\<rparr>
      else s\<lparr>dimensions := next\<rparr>)"

definition grid_init :: "grid_state \<Rightarrow> bool" where
  "grid_init s \<longleftrightarrow> s = \<lparr>dimensions = (0, 0), grid_squares = [], g_used = 0\<rparr>"

inductive grid_step :: "(nat \<Rightarrow> real) \<Rightarrow> grid_props \<Rightarrow> grid_state \<Rightarrow> grid_state \<Rightarrow> bool" for rnd p where
  grid_observed: "0 \<le> w \<Longrightarrow> 0 \<le> h \<Longrightarrow> grid_step rnd p s (grid_resize rnd p (w, h) s)"
| grid_complete: "q \<in> set (grid_squares s) \<Longrightarrow> grid_step rnd p s (updateSquarePosition rnd p (square_id q) s)"

definition grid_square_node :: "(real \<Rightarrow> jstr) \<Rightarrow> grid_props \<Rightarrow> nat \<Rightarrow> square \<Rightarrow> node" where
  "grid_square_node num p index q =
     El ''motion.rect'' [att ''initial'' ''{opacity: 0}'', (''animate.opacity'', num (g_maxOpacity p)),
       (''transition.duration'', num (g_duration p)), att ''transition.repeat'' ''1'',
       (''transition.delay'', num (real index * (1/10))), att ''transition.repeatType'' ''reverse'',
       (''transition.repeatDelay'', num (repeatDelay p)),
       (''key'', digits (square_id q) @ js ''-'' @ digits (iteration q)),
       (''width'', num (g_width p - 1)), (''height'', num (g_height p - 1)),
       (''x'', num (of_int (fst (square_pos q)) * g_width p + 1)), (''y'', num (of_int (snd (square_pos q)) * g_height p + 1)),
       att ''fill'' ''currentColor'', att ''strokeWidth'' ''0''] []"

definition animatedGridPattern ::
  "class_fn \<Rightarrow> (real \<Rightarrow> jstr) \<Rightarrow> jstr \<Rightarrow> grid_props \<Rightarrow> grid_state \<Rightarrow> node" where
  "animatedGridPattern cn num uid p s =
     El ''svg'' [att ''aria-hidden'' ''true'',
         (''className'', cn [Some (js ''pointer-events-none absolute inset-0 h-full w-full fill-gray-400/30 stroke-gray-400/30''), g_className p])]
       [El ''defs'' []
          [El ''pattern'' [(''id'', uid), (''width'', num (g_width p)), (''height'', num (g_height p)),
               att ''patternUnits'' ''userSpaceOnUse'', (''x'', num (g_x p)), (''y'', num (g_y p))]
             [El ''path'' [(''d'', js ''M.5 '' @ num (g_height p) @ js ''V.5H'' @ num (g_width p)), att ''fill'' ''none'',
                (''strokeDasharray'', num (strokeDasharray p))] []]],
        El ''rect'' [att ''width'' ''100%'', att ''height'' ''100%'', (''fill'', js ''url(#'' @ uid @ js '')'')] [],
        El ''svg'' [(''x'', num (g_x p)), (''y'', num (g_y p)), cls ''overflow-visible'']
          (map (\<lambda>(index, q). grid_square_node num p index q) (enumerate 0 (grid_squares s)))]"

section \<open>flickering-grid.tsx\<close>

text \<open>
  The effect closes over \<open>isInView\<close>; it runs again whenever that changes, with a new grid and a
  new clock. A drawn rectangle is its position, its size and its opacity. \<open>f_color\<close> is the
  colour \<open>toRGBA\<close> gets from the browser, \<open>client\<close> the size of the container.
\<close>

record flicker_props =
  squareSize :: real
  gridGap :: real
  flickerChance :: real
  f_color :: jstr
  f_width :: "real option"
  f_height :: "real option"
  f_className :: "jstr option"
  f_maxOpacity :: real

record grid_params =
  p_cols :: nat
  p_rows :: nat
  p_squares :: "real list"
  p_dpr :: real

record flicker_state =
  f_context :: bool
  f_inView :: bool
  f_canvas :: "real \<times> real"
  gridParams :: "grid_params option"
  lastTime :: real
  f_frame :: bool
  f_used :: nat
  f_drawn :: "(real \<times> real \<times> real \<times> real) list"

definition setupCanvas ::
  "(nat \<Rightarrow> real) \<Rightarrow> flicker_props \<Rightarrow> real \<Rightarrow> real \<times> real \<Rightarrow> nat \<Rightarrow> grid_params" where
  "setupCanvas rnd p dpr dims n =
     (let cols = nat \<lceil>fst dims / (squareSize p + gridGap p)\<rceil>;
          rows = nat \<lceil>snd dims / (squareSize p + gridGap p)\<rceil> in
      \<lparr>p_cols = cols, p_rows = rows, p_squares = map (\<lambda>i. rnd (n + i) * f_maxOpacity p) [0..<cols * rows],
       p_dpr = dpr\<rparr>)"

text \<open>Each square takes one random number, and a second one when it changes.\<close>

fun updateSquares :: "(nat \<Rightarrow> real) \<Rightarrow> flicker_props \<Rightarrow> real \<Rightarrow> nat \<Rightarrow> real list \<Rightarrow> real list \<times> nat" where
  "updateSquares rnd p deltaTime n [] = ([], n)"
| "updateSquares rnd p deltaTime n (q # qs) =
     (if rnd n < flickerChance p * deltaTime
      then (let (qs', n') = updateSquares rnd p deltaTime (n + 2) qs in (rnd (n + 1) * f_maxOpacity p # qs', n'))
      else (let (qs', n') = updateSquares rnd p deltaTime (n + 1) qs in (q # qs', n')))"

definition drawGrid :: "flicker_props \<Rightarrow> grid_params \<Rightarrow> (real \<times> real \<times> real \<times> real) list" where
  "drawGrid p g =
     concat (map (\<lambda>i. map (\<lambda>j.
       (real i * (squareSize p + gridGap p) * p_dpr g, real j * (squareSize p + gridGap p) * p_dpr g,
        squareSize p * p_dpr g, p_squares g ! column_number (p_rows g) (i, j))) [0..<p_rows g]) [0..<p_cols g])"

definition or_client :: "real option \<Rightarrow> real \<Rightarrow> real" where
  "or_client x client = (case x of Some w \<Rightarrow> if w \<noteq> 0 then w else client | None \<Rightarrow> client)"

definition updateCanvasSize ::
  "(nat \<Rightarrow> real) \<Rightarrow> flicker_props \<Rightarrow> real \<Rightarrow> real \<times> real \<Rightarrow> flicker_state \<Rightarrow> flicker_state" where
  "updateCanvasSize rnd p dpr client s =
     (let dims = (or_client (f_width p) (fst client), or_client (f_height p) (snd client));
          g = setupCanvas rnd p dpr dims (f_used s) in
      s\<lparr>f_canvas := dims, gridParams := Some g, f_used := f_used s + length (p_squares g)\<rparr>)"

definition flicker_animate :: "(nat \<Rightarrow> real) \<Rightarrow> flicker_props \<Rightarrow> real \<Rightarrow> flicker_state \<Rightarrow> flicker_state" where
  "flicker_animate rnd p time s =
     (case gridParams s of
        Some g \<Rightarrow>
          if f_inView s
          then (let (qs, n) = updateSquares rnd p ((time - lastTime s) / 1000) (f_used s) (p_squares g);
                    g' = g\<lparr>p_squares := qs\<rparr> in
                s\<lparr>lastTime := time, gridParams := Some g', f_used := n, f_drawn := drawGrid p g', f_frame := True\<rparr>)
          else s\<lparr>f_frame := False\<rparr>
      | None \<Rightarrow> s\<lparr>f_frame := False\<rparr>)"

definition flicker_effect ::
  "(nat \<Rightarrow> real) \<Rightarrow> flicker_props \<Rightarrow> real \<Rightarrow> real \<times> real \<Rightarrow> flicker_state \<Rightarrow> flicker_state" where
  "flicker_effect rnd p dpr client s =
     (if f_context s
      then (updateCanvasSize rnd p dpr client s)\<lparr>lastTime := 0, f_frame := f_inView s\<rparr>
      else s)"

definition flicker_cleanup :: "flicker_state \<Rightarrow> flicker_state" where
  "flicker_cleanup s = s\<lparr>f_frame := False, gridParams := None\<rparr>"

definition setIsInView ::
  "(nat \<Rightarrow> real) \<Rightarrow> flicker_props \<Rightarrow> real \<Rightarrow> real \<times> real \<Rightarrow> bool \<Rightarrow> flicker_state \<Rightarrow> flicker_state" where
  "setIsInView rnd p dpr client b s =
     (if f_inView s = b then s else flicker_effect rnd p dpr client ((flicker_cleanup s)\<lparr>f_inView := b\<rparr>))"

definition flicker_init :: "(nat \<Rightarrow> real) \<Rightarrow> flicker_props \<Rightarrow> flicker_state \<Rightarrow> bool" where
  "flicker_init rnd p s \<longleftrightarrow> (\<exists>ctx dpr client. 0 \<le> fst client \<and> 0 \<le> snd client \<and> s = flicker_effect rnd p dpr client
     \<lparr>f_context = ctx, f_inView = False, f_canvas = (0, 0), gridParams = None, lastTime = 0, f_frame = False,
      f_used = 0, f_drawn = []\<rparr>)"

inductive flicker_step :: "(nat \<Rightarrow> real) \<Rightarrow> flicker_props \<Rightarrow> flicker_state \<Rightarrow> flicker_state \<Rightarrow> bool" for rnd p where
  flicker_resize: "f_context s \<Longrightarrow> flicker_step rnd p s (updateCanvasSize rnd p dpr client s)"
| flicker_intersect: "f_context s \<Longrightarrow> flicker_step rnd p s (setIsInView rnd p dpr client b s)"
| flicker_frame: "f_frame s \<Longrightarrow> flicker_step rnd p s (flicker_animate rnd p time s)"

definition flickeringGrid :: "class_fn \<Rightarrow> (real \<Rightarrow> jstr) \<Rightarrow> flicker_props \<Rightarrow> flicker_state \<Rightarrow> node" where
  "flickeringGrid cn num p s =
     El ''div'' [(''className'', cn [Some (js ''h-full w-full '' @
         (case f_className p of Some c \<Rightarrow> c | None \<Rightarrow> js ''undefined''))])]
       [El ''canvas'' [cls ''pointer-events-none'', (''style.width'', num (fst (f_canvas s))),
          (''style.height'', num (snd (f_canvas s)))] []]"

section \<open>Tilings\<close>

text \<open>Whatever the numbering, a point of the area lies in the cell of exactly one number.\<close>

context cell_numbering
begin

lemma unique_tile:
  assumes "0 < w" "0 < h" "0 \<le> x" "x < W" "0 \<le> y" "y < H"
    and "cols = nat \<lceil>W / w\<rceil>" and "rows = nat \<lceil>H / h\<rceil>"
  shows "\<exists>!i. i < cols * rows \<and> real (fst (cell i)) * w \<le> x \<and> x < real (fst (cell i)) * w + w \<and>
    real (snd (cell i)) * h \<le> y \<and> y < real (snd (cell i)) * h + h"
proof -
  obtain c where c: "c < cols" "real c * w \<le> x" "x < real c * w + w"
      "\<And>c'. c' < cols \<Longrightarrow> real c' * w \<le> x \<Longrightarrow> x < real c' * w + w \<Longrightarrow> c' = c"
    using unique_slot [OF assms(1,3,4)] assms(7) by metis
  obtain r where r: "r < rows" "real r * h \<le> y" "y < real r * h + h"
      "\<And>r'. r' < rows \<Longrightarrow> real r' * h \<le> y \<Longrightarrow> y < real r' * h + h \<Longrightarrow> r' = r"
    using unique_slot [OF assms(2,5,6)] assms(8) by metis
  show ?thesis
  proof (rule ex1I [of _ "number (c, r)"])
    show "number (c, r) < cols * rows \<and> real (fst (cell (number (c, r)))) * w \<le> x \<and>
        x < real (fst (cell (number (c, r)))) * w + w \<and> real (snd (cell (number (c, r)))) * h \<le> y \<and>
        y < real (snd (cell (number (c, r)))) * h + h"
      using c(2,3) r(2,3) cell_number [OF c(1) r(1)] number_range [OF c(1) r(1)] by simp
    fix i
    assume i: "i < cols * rows \<and> real (fst (cell i)) * w \<le> x \<and> x < real (fst (cell i)) * w + w \<and>
      real (snd (cell i)) * h \<le> y \<and> y < real (snd (cell i)) * h + h"
    then have "fst (cell i) = c" "snd (cell i) = r"
      using c(4) [of "fst (cell i)"] r(4) [of "snd (cell i)"] cell_range [of i] by auto
    then have "cell i = (c, r)" by (simp add: prod_eq_iff)
    with i show "i = number (c, r)" using number_cell [of i] by simp
  qed
qed

end

lemma dot_corner:
  "length (dots rnd p dims) = dot_cols p dims * dot_rows p dims"
  "i < dot_cols p dims * dot_rows p dims \<Longrightarrow>
     dot_x (dots rnd p dims ! i) - d_cx p - d_x p = real (fst (row_cell (dot_cols p dims) i)) * d_width p"
  "i < dot_cols p dims * dot_rows p dims \<Longrightarrow>
     dot_y (dots rnd p dims ! i) - d_cy p - d_y p = real (snd (row_cell (dot_cols p dims) i)) * d_height p"
  by (simp_all add: dots_def dot_at_def split_beta)

lemma ceiling_nat_mult: "0 < w \<Longrightarrow> nat \<lceil>w * real n / w\<rceil> = n"
  by simp

text \<open>
  The grids tile their area: every point of the container lies in the cell of exactly one
  dot of the dot pattern, and every point of the interactive pattern in exactly one of its
  squares; of these squares exactly the one under the pointer is highlighted.
\<close>

theorem grids_tile:
  assumes "0 < d_width p" "0 < d_height p" "0 < sq_width q" "0 < sq_height q"
  shows "(0 \<le> x \<and> x < W \<and> 0 \<le> y \<and> y < H \<longrightarrow>
      (\<exists>!i. i < length (dots rnd p (W, H)) \<and>
        (let d = dots rnd p (W, H) ! i; l = dot_x d - d_cx p - d_x p; t = dot_y d - d_cy p - d_y p in
         l \<le> x \<and> x < l + d_width p \<and> t \<le> y \<and> y < t + d_height p))) \<and>
    (0 \<le> x \<and> x < sq_width q * horizontal q \<and> 0 \<le> y \<and> y < sq_height q * vertical q \<longrightarrow>
      (\<exists>!i. i < horizontal q * vertical q \<and>
        (let (l, t) = square_at q i in l \<le> x \<and> x < l + sq_width q \<and> t \<le> y \<and> y < t + sq_height q))) \<and>
    (reach (\<lambda>h. h = None) (hover_step q) h \<longrightarrow>
      {i. i < horizontal q * vertical q \<and> square_fill h i = js ''fill-gray-300/30''} = set_option h)"
proof (intro conjI impI)
  assume xy: "0 \<le> x \<and> x < W \<and> 0 \<le> y \<and> y < H"
  have "i < length (dots rnd p (W, H)) \<and>
      (let d = dots rnd p (W, H) ! i; l = dot_x d - d_cx p - d_x p; t = dot_y d - d_cy p - d_y p in
         l \<le> x \<and> x < l + d_width p \<and> t \<le> y \<and> y < t + d_height p) \<longleftrightarrow>
    i < dot_cols p (W, H) * dot_rows p (W, H) \<and>
      real (fst (row_cell (dot_cols p (W, H)) i)) * d_width p \<le> x \<and>
      x < real (fst (row_cell (dot_cols p (W, H)) i)) * d_width p + d_width p \<and>
      real (snd (row_cell (dot_cols p (W, H)) i)) * d_height p \<le> y \<and>
      y < real (snd (row_cell (dot_cols p (W, H)) i)) * d_height p + d_height p" for i
    by (simp add: Let_def dot_corner cong: conj_cong)
  then show "\<exists>!i. i < length (dots rnd p (W, H)) \<and>
        (let d = dots rnd p (W, H) ! i; l = dot_x d - d_cx p - d_x p; t = dot_y d - d_cy p - d_y p in
         l \<le> x \<and> x < l + d_width p \<and> t \<le> y \<and> y < t + d_height p)"
    using by_rows.unique_tile [of "d_width p" "d_height p" x W y H "dot_cols p (W, H)" "dot_rows p (W, H)"] assms xy
    by (simp add: dot_cols_def dot_rows_def)
next
  assume "0 \<le> x \<and> x < sq_width q * horizontal q \<and> 0 \<le> y \<and> y < sq_height q * vertical q"
  then show "\<exists>!i. i < horizontal q * vertical q \<and>
        (let (l, t) = square_at q i in l \<le> x \<and> x < l + sq_width q \<and> t \<le> y \<and> y < t + sq_height q)"
    using by_rows.unique_tile [of "sq_width q" "sq_height q" x "sq_width q * horizontal q" y
        "sq_height q * vertical q" "horizontal q" "vertical q"] assms
    by (simp add: square_at_def Let_def split_beta)
next
  assume "reach (\<lambda>h. h = None) (hover_step q) h"
  then have "case h of None \<Rightarrow> True | Some i \<Rightarrow> i < horizontal q * vertical q"
    by (induction rule: reach.induct) (auto elim: hover_step.cases)
  then show "{i. i < horizontal q * vertical q \<and> square_fill h i = js ''fill-gray-300/30''} = set_option h"
    by (auto simp: square_fill_def split: option.splits)
qed

theorem grids_tile_witness:
  "\<exists>!i. i < length (dots (\<lambda>_. 0) dot_default (40, 40)) \<and>
    (let d = dots (\<lambda>_. 0) dot_default (40, 40) ! i; l = dot_x d - d_cx dot_default - d_x dot_default;
       t = dot_y d - d_cy dot_default - d_y dot_default in
     l \<le> 39 \<and> 39 < l + d_width dot_default \<and> t \<le> 0 \<and> 0 < t + d_height dot_default)"
  using grids_tile [of dot_default squares_default 39 40 0 40 "\<lambda>_. 0"]
  by (simp add: dot_default_def squares_default_def)

section \<open>Invariants\<close>

definition unit_stream :: "(nat \<Rightarrow> real) \<Rightarrow> bool" where
  "unit_stream rnd \<longleftrightarrow> (\<forall>n. 0 \<le> rnd n \<and> rnd n < 1)"

definition in_grid :: "grid_props \<Rightarrow> real \<times> real \<Rightarrow> int \<times> int \<Rightarrow> bool" where
  "in_grid p dims pos \<longleftrightarrow> 0 \<le> fst pos \<and> of_int (fst pos) * g_width p < fst dims \<and>
     0 \<le> snd pos \<and> of_int (snd pos) * g_height p < snd dims"

lemma floor_in_grid:
  assumes "0 \<le> r" "r < 1" "0 < w" "0 < (W::real)"
  shows "0 \<le> \<lfloor>r * W / w\<rfloor>" "of_int \<lfloor>r * W / w\<rfloor> * w < W"
proof -
  show "0 \<le> \<lfloor>r * W / w\<rfloor>" using assms by simp
  have "of_int \<lfloor>r * W / w\<rfloor> * w \<le> r * W / w * w" using assms(3) by (intro mult_right_mono) simp_all
  also have "\<dots> < W" using assms by simp
  finally show "of_int \<lfloor>r * W / w\<rfloor> * w < W" .
qed

lemma getPos_in_grid:
  "unit_stream rnd \<Longrightarrow> 0 < g_width p \<Longrightarrow> 0 < g_height p \<Longrightarrow> 0 < fst dims \<Longrightarrow> 0 < snd dims \<Longrightarrow>
     in_grid p dims (getPos rnd p dims n)"
  by (simp add: in_grid_def getPos_def unit_stream_def floor_in_grid)

definition grid_inv :: "(nat \<Rightarrow> real) \<Rightarrow> grid_props \<Rightarrow> grid_state \<Rightarrow> bool" where
  "grid_inv rnd p s \<longleftrightarrow> 0 \<le> fst (dimensions s) \<and> 0 \<le> snd (dimensions s) \<and>
     map square_id (grid_squares s) = [0..<length (grid_squares s)] \<and>
     (fst (dimensions s) \<noteq> 0 \<and> snd (dimensions s) \<noteq> 0 \<longrightarrow>
        length (grid_squares s) = numSquares p \<and>
        (unit_stream rnd \<and> 0 < g_width p \<and> 0 < g_height p \<longrightarrow>
          (\<forall>q\<in>set (grid_squares s). in_grid p (dimensions s) (square_pos q))))"

lemma grid_inv_resize:
  assumes "grid_inv rnd p s" and "0 \<le> w" and "0 \<le> h"
  shows "grid_inv rnd p (grid_resize rnd p (w, h) s)"
  using assms
  by (auto simp: grid_inv_def grid_resize_def generateSquares_def comp_def intro!: getPos_in_grid)

lemma grid_inv_update:
  assumes "grid_inv rnd p s"
  shows "grid_inv rnd p (updateSquarePosition rnd p i s)"
proof -
  have "map square_id ((grid_squares s)[i := q]) = map square_id (grid_squares s)"
    if "i < length (grid_squares s)" "square_id q = square_id (grid_squares s ! i)" for q
    using that by (simp add: map_update list_update_same_conv)
  then show ?thesis
    using assms
    by (auto simp: grid_inv_def updateSquarePosition_def Let_def
        dest!: subsetD [OF set_update_subset_insert] intro!: getPos_in_grid)
qed

interpretation animated_grid: component grid_init "grid_step rnd p" "grid_inv rnd p" for rnd p
proof
  fix s t
  assume "grid_inv rnd p s" and "grid_step rnd p s t"
  from this(2,1) show "grid_inv rnd p t"
    by cases (simp_all add: grid_inv_resize grid_inv_update)
qed (simp add: grid_init_def grid_inv_def)

text \<open>Keys of squares.\<close>

lemma key_injective:
  "digits i @ js ''-'' @ digits a = digits j @ js ''-'' @ digits b \<longleftrightarrow> i = j \<and> a = b"
proof
  assume eq: "digits i @ js ''-'' @ digits a = digits j @ js ''-'' @ digits b"
  have "c \<noteq> 45" if "c \<in> set (digits n)" for c n using digits_are_digits [OF that] by (auto simp: is_digit_def)
  then have t: "takeWhile (\<lambda>c. c \<noteq> 45) (digits n @ js ''-'' @ x) = digits n" for n x
    by (simp add: js_def takeWhile_append2)
  with eq have "digits i = digits j" by metis
  with eq show "i = j \<and> a = b" by simp
qed simp

lemma child_keys_squares:
  "child_keys (map (\<lambda>(index, q). grid_square_node num p index q) (enumerate n qs)) =
     map (\<lambda>q. digits (square_id q) @ js ''-'' @ digits (iteration q)) qs"
  by (induction qs arbitrary: n) (simp_all add: child_keys_def grid_square_node_def)

section \<open>The flickering grid\<close>

lemma updateSquares_range:
  assumes "unit_stream rnd" and "0 \<le> f_maxOpacity p" and "\<forall>q\<in>set qs. 0 \<le> q \<and> q \<le> f_maxOpacity p"
    and "updateSquares rnd p d n qs = (qs', n')"
  shows "length qs' = length qs \<and> (\<forall>q\<in>set qs'. 0 \<le> q \<and> q \<le> f_maxOpacity p)"
proof -
  have r: "0 \<le> rnd k * f_maxOpacity p" "rnd k * f_maxOpacity p \<le> f_maxOpacity p" for k
    using assms(1,2) mult_left_le_one_le [of "f_maxOpacity p" "rnd k"] by (simp_all add: unit_stream_def less_imp_le)
  show ?thesis
    using assms(3,4)
    by (induction qs arbitrary: n qs' n') (auto simp: r split: if_splits prod.splits)
qed

definition squares_ok :: "flicker_props \<Rightarrow> grid_params \<Rightarrow> bool" where
  "squares_ok p g \<longleftrightarrow> length (p_squares g) = p_cols g * p_rows g \<and> (\<forall>q\<in>set (p_squares g). 0 \<le> q \<and> q \<le> f_maxOpacity p)"

lemma nth_columns: "length xs = m * n \<Longrightarrow> concat (map (\<lambda>i. map (\<lambda>j. xs ! (i * n + j)) [0..<n]) [0..<m]) = xs"
proof (induction m arbitrary: xs)
  case 0
  then show ?case by simp
next
  case (Suc m)
  have "map (\<lambda>i. map (\<lambda>j. xs ! (i * n + j)) [0..<n]) [0..<m] =
      map (\<lambda>i. map (\<lambda>j. take (m * n) xs ! (i * n + j)) [0..<n]) [0..<m]"
    using pair_number_less [of _ n _ m] by (auto simp: mult.commute add.commute)
  moreover have "concat (map (\<lambda>i. map (\<lambda>j. take (m * n) xs ! (i * n + j)) [0..<n]) [0..<m]) = take (m * n) xs"
    using Suc.IH [of "take (m * n) xs"] Suc.prems by simp
  ultimately have "concat (map (\<lambda>i. map (\<lambda>j. xs ! (i * n + j)) [0..<n]) [0..<m]) = take (m * n) xs"
    by (simp only:)
  moreover have "map (\<lambda>j. xs ! (m * n + j)) [0..<n] = drop (m * n) xs"
    using Suc.prems by (intro nth_equalityI) auto
  ultimately show ?case by simp
qed

lemma drawGrid_opacities:
  "squares_ok p g \<Longrightarrow> map (\<lambda>(x, y, a, op). op) (drawGrid p g) = p_squares g"
  using nth_columns [of "p_squares g" "p_cols g" "p_rows g"]
  by (simp add: drawGrid_def squares_ok_def map_concat comp_def column_number_def)

definition flicker_inv :: "(nat \<Rightarrow> real) \<Rightarrow> flicker_props \<Rightarrow> flicker_state \<Rightarrow> bool" where
  "flicker_inv rnd p s \<longleftrightarrow> (f_frame s \<longleftrightarrow> f_context s \<and> f_inView s) \<and> (f_context s \<longrightarrow> gridParams s \<noteq> None) \<and>
     (unit_stream rnd \<and> 0 \<le> f_maxOpacity p \<longrightarrow> (\<forall>g\<in>set_option (gridParams s). squares_ok p g))"

lemma setupCanvas_ok:
  assumes "unit_stream rnd" and "0 \<le> f_maxOpacity p"
  shows "squares_ok p (setupCanvas rnd p dpr dims n)"
proof -
  have "0 \<le> rnd k * f_maxOpacity p" "rnd k * f_maxOpacity p \<le> f_maxOpacity p" for k
    using assms mult_left_le_one_le [of "f_maxOpacity p" "rnd k"] by (simp_all add: unit_stream_def less_imp_le)
  then show ?thesis by (auto simp: squares_ok_def setupCanvas_def Let_def)
qed

lemma flicker_inv_size:
  "flicker_inv rnd p s \<Longrightarrow> flicker_inv rnd p (updateCanvasSize rnd p dpr client s)"
  by (simp add: flicker_inv_def updateCanvasSize_def Let_def setupCanvas_ok)

lemma flicker_inv_effect:
  "\<not> f_context s \<Longrightarrow> flicker_inv rnd p s \<Longrightarrow> flicker_inv rnd p (flicker_effect rnd p dpr client s)"
  "f_context s \<Longrightarrow> flicker_inv rnd p (flicker_effect rnd p dpr client s)"
  by (simp_all add: flicker_inv_def flicker_effect_def updateCanvasSize_def Let_def setupCanvas_ok)

lemma flicker_inv_animate:
  assumes "flicker_inv rnd p s" and "f_frame s"
  shows "flicker_inv rnd p (flicker_animate rnd p time s)"
proof -
  from assms obtain g where g: "gridParams s = Some g" "f_inView s" "f_context s" by (auto simp: flicker_inv_def)
  obtain qs n where u: "updateSquares rnd p ((time - lastTime s) / 1000) (f_used s) (p_squares g) = (qs, n)"
    by (cases "updateSquares rnd p ((time - lastTime s) / 1000) (f_used s) (p_squares g)")
  have eq: "flicker_animate rnd p time s = s\<lparr>lastTime := time, gridParams := Some (g\<lparr>p_squares := qs\<rparr>), f_used := n,
      f_drawn := drawGrid p (g\<lparr>p_squares := qs\<rparr>), f_frame := True\<rparr>"
    using g u by (simp add: flicker_animate_def Let_def)
  have "squares_ok p (g\<lparr>p_squares := qs\<rparr>)" if "unit_stream rnd" "0 \<le> f_maxOpacity p"
  proof -
    have ok: "squares_ok p g" using that assms(1) g(1) unfolding flicker_inv_def by simp
    then have "\<forall>q\<in>set (p_squares g). 0 \<le> q \<and> q \<le> f_maxOpacity p" unfolding squares_ok_def by blast
    from updateSquares_range [OF that this u] ok show ?thesis unfolding squares_ok_def by simp
  qed
  then show ?thesis unfolding eq using g by (simp add: flicker_inv_def)
qed

interpretation flicker: component "flicker_init rnd p" "flicker_step rnd p" "flicker_inv rnd p" for rnd p
proof
  fix s
  assume "flicker_init rnd p s"
  then obtain ctx dpr client where s: "s = flicker_effect rnd p dpr client
     \<lparr>f_context = ctx, f_inView = False, f_canvas = (0, 0), gridParams = None, lastTime = 0, f_frame = False,
      f_used = 0, f_drawn = []\<rparr>"
    unfolding flicker_init_def by blast
  show "flicker_inv rnd p s"
    unfolding s
    by (cases ctx) (simp_all add: flicker_inv_effect(2), intro flicker_inv_effect(1), simp_all add: flicker_inv_def)
next
  fix s t
  assume "flicker_inv rnd p s" and "flicker_step rnd p s t"
  from this(2,1) show "flicker_inv rnd p t"
    by cases (auto simp: flicker_inv_size flicker_inv_animate setIsInView_def flicker_cleanup_def intro: flicker_inv_effect)
qed

text \<open>
  The moving squares stay on the grid: in every reachable state the squares are numbered
  by their positions in the list and the keys of the rendered squares are distinct; while the
  container has an area there are \<open>numSquares\<close> of them, each starting inside the container.
\<close>

theorem animated_grid_ok:
  assumes "reach grid_init (grid_step rnd p) s"
  shows "map square_id (grid_squares s) = [0..<length (grid_squares s)] \<and>
    distinct (child_keys (map (\<lambda>(index, q). grid_square_node num p index q) (enumerate 0 (grid_squares s)))) \<and>
    (fst (dimensions s) \<noteq> 0 \<and> snd (dimensions s) \<noteq> 0 \<longrightarrow> length (grid_squares s) = numSquares p \<and>
      (unit_stream rnd \<and> 0 < g_width p \<and> 0 < g_height p \<longrightarrow>
        (\<forall>q\<in>set (grid_squares s). 0 \<le> fst (square_pos q) \<and> of_int (fst (square_pos q)) * g_width p < fst (dimensions s) \<and>
           0 \<le> snd (square_pos q) \<and> of_int (snd (square_pos q)) * g_height p < snd (dimensions s))))"
proof -
  have inv: "grid_inv rnd p s" using assms by (rule animated_grid.always)
  then have ids: "map square_id (grid_squares s) = [0..<length (grid_squares s)]" by (simp add: grid_inv_def)
  then have "distinct (map square_id (grid_squares s))" by simp
  then have "distinct (map (\<lambda>q. digits (square_id q) @ js ''-'' @ digits (iteration q)) (grid_squares s))"
    by (auto simp: distinct_map inj_on_def key_injective)
  with inv ids show ?thesis by (auto simp: grid_inv_def in_grid_def child_keys_squares)
qed

theorem animated_grid_ok_witness:
  "\<exists>s. reach grid_init (grid_step (\<lambda>_. 1/2) grid_default) s \<and> length (grid_squares s) = 50"
proof -
  let ?s = "grid_resize (\<lambda>_. 1/2) grid_default (100, 100) \<lparr>dimensions = (0, 0), grid_squares = [], g_used = 0\<rparr>"
  have "reach grid_init (grid_step (\<lambda>_. 1/2) grid_default) ?s"
    by (rule reach_step, rule reach_init) (simp_all add: grid_init_def, rule grid_observed, simp_all)
  with animated_grid_ok [OF this] show ?thesis
    by (intro exI [of _ ?s]) (simp add: grid_resize_def grid_default_def generateSquares_def)
qed

text \<open>
  The flickering grid draws when it should and what it should: a frame is requested exactly
  while there is a context and the grid is in view, so the loop neither dies nor runs hidden;
  a frame draws one square per cell, column by column, with the opacities of the squares, which
  lie between zero and \<open>maxOpacity\<close>.
\<close>

theorem flickering_grid_ok:
  assumes "reach (flicker_init rnd p) (flicker_step rnd p) s"
  shows "(f_frame s \<longleftrightarrow> f_context s \<and> f_inView s) \<and>
    (f_frame s \<and> unit_stream rnd \<and> 0 \<le> f_maxOpacity p \<longrightarrow>
      (\<exists>g. gridParams (flicker_animate rnd p time s) = Some g \<and>
        length (f_drawn (flicker_animate rnd p time s)) = p_cols g * p_rows g \<and>
        map (\<lambda>(x, y, a, op). op) (f_drawn (flicker_animate rnd p time s)) = p_squares g \<and>
        (\<forall>q\<in>set (p_squares g). 0 \<le> q \<and> q \<le> f_maxOpacity p)))"
proof -
  have inv: "flicker_inv rnd p s" using assms by (rule flicker.always)
  moreover have "\<exists>g. gridParams (flicker_animate rnd p time s) = Some g \<and>
      f_drawn (flicker_animate rnd p time s) = drawGrid p g \<and> squares_ok p g"
    if f: "f_frame s" and "unit_stream rnd" "0 \<le> f_maxOpacity p"
  proof -
    from inv f obtain g where "gridParams s = Some g" "f_inView s" by (auto simp: flicker_inv_def)
    moreover have "flicker_inv rnd p (flicker_animate rnd p time s)" by (rule flicker_inv_animate [OF inv f])
    ultimately show ?thesis using that(2,3) by (simp add: flicker_inv_def flicker_animate_def Let_def split_beta)
  qed
  moreover have "length (drawGrid p g) = p_cols g * p_rows g" if "squares_ok p g" for g
    using arg_cong [OF drawGrid_opacities [OF that], of length] that by (simp add: squares_ok_def)
  moreover have "\<forall>q\<in>set (p_squares g). 0 \<le> q \<and> q \<le> f_maxOpacity p" if "squares_ok p g" for g
    using that unfolding squares_ok_def by blast
  ultimately show ?thesis using drawGrid_opacities [of p] unfolding flicker_inv_def by metis
qed

definition flicker_default :: flicker_props where
  "flicker_default = \<lparr>squareSize = 4, gridGap = 6, flickerChance = 3/10, f_color = js ''rgba(0, 0, 0,'', f_width = None,
     f_height = None, f_className = None, f_maxOpacity = 3/10\<rparr>"

theorem flickering_grid_ok_witness:
  "\<exists>s g. reach (flicker_init (\<lambda>_. 1/2) flicker_default) (flicker_step (\<lambda>_. 1/2) flicker_default) s \<and> f_frame s \<and>
     gridParams (flicker_animate (\<lambda>_. 1/2) flicker_default 16 s) = Some g \<and>
     length (f_drawn (flicker_animate (\<lambda>_. 1/2) flicker_default 16 s)) = p_cols g * p_rows g"
proof -
  define s0 where "s0 = flicker_effect (\<lambda>_. 1/2) flicker_default 1 (20, 20)
     \<lparr>f_context = True, f_inView = False, f_canvas = (0, 0), gridParams = None, lastTime = 0, f_frame = False,
      f_used = 0, f_drawn = []\<rparr>"
  define s1 where "s1 = setIsInView (\<lambda>_. 1/2) flicker_default 1 (20, 20) True s0"
  have "flicker_init (\<lambda>_. 1/2) flicker_default s0"
    unfolding flicker_init_def s0_def by (intro exI [of _ True] exI [of _ 1] exI [of _ "(20, 20)"]) simp
  then have r0: "reach (flicker_init (\<lambda>_. 1/2) flicker_default) (flicker_step (\<lambda>_. 1/2) flicker_default) s0"
    by (rule reach_init)
  have "f_context s0" by (simp add: s0_def flicker_effect_def updateCanvasSize_def Let_def)
  then have "flicker_step (\<lambda>_. 1/2) flicker_default s0 s1" unfolding s1_def by (rule flicker_intersect)
  with r0 have r1: "reach (flicker_init (\<lambda>_. 1/2) flicker_default) (flicker_step (\<lambda>_. 1/2) flicker_default) s1"
    by (rule reach_step)
  have "f_frame s1"
    by (simp add: s1_def s0_def setIsInView_def flicker_effect_def flicker_cleanup_def updateCanvasSize_def Let_def)
  moreover have "unit_stream (\<lambda>_. 1/2)" "0 \<le> f_maxOpacity flicker_default"
    by (simp_all add: unit_stream_def flicker_default_def)
  ultimately show ?thesis using flickering_grid_ok [OF r1, of 16] r1 by blast
qed

end
