(* ===== verification/Waiting.thy ===== *)
theory Waiting
  imports Vdom "HOL-Library.Sublist"
begin

text \<open>
  Waiting for a condition, \<open>.agents/skills/systematic-debugging/condition-based-waiting-example.ts\<close>:
  three functions that poll the events of a thread until a condition holds or a time is over.

  \<open>ThreadManager\<close> and the events come from another repository. What \<open>getEvents\<close> answers is the
  parameter \<open>getEvents\<close>, a function of the time of the call. \<open>start\<close> is the first reading of
  \<open>Date.now()\<close> and \<open>clock k\<close> the time of the \<open>k\<close>-th call of \<open>check\<close>; a call takes no time. That
  \<open>setTimeout(check, 10)\<close> comes back after 10 milliseconds or later is the interface \<open>polling\<close>.

  One call of \<open>check\<close> settles the promise (\<open>Some\<close>) or schedules the next call (\<open>None\<close>). The chain of
  calls is \<open>poll\<close>, a partial function, because nothing in the source bounds the number of calls: that
  the promise settles is a theorem, and rests on the clock.
\<close>

section \<open>Events and promises\<close>

record 'd LaceEvent =
  ev_type :: jstr
  ev_data :: 'd

datatype 'a settled = Resolved 'a | Rejected jstr

definition POLL_MS :: int where
  "POLL_MS = 10"

partial_function (option) poll :: "(nat \<Rightarrow> 'r option) \<Rightarrow> nat \<Rightarrow> (nat \<times> 'r) option" where
  "poll check k = (case check k of Some r \<Rightarrow> Some (k, r) | None \<Rightarrow> poll check (Suc k))"

text \<open>The body of \<open>check\<close>: what is looked for in the events, the time that has passed, the message of the error.\<close>

definition check_once :: "('e list \<Rightarrow> 'a option) \<Rightarrow> ('e list \<Rightarrow> jstr) \<Rightarrow> nat \<Rightarrow> 'e list \<Rightarrow> int \<Rightarrow> 'a settled option" where
  "check_once probe message timeoutMs events elapsed =
     (case probe events of
        Some x \<Rightarrow> Some (Resolved x)
      | None \<Rightarrow> if elapsed > int timeoutMs then Some (Rejected (message events)) else None)"

definition wait :: "('e list \<Rightarrow> 'a option) \<Rightarrow> ('e list \<Rightarrow> jstr) \<Rightarrow> nat \<Rightarrow> (int \<Rightarrow> 'e list) \<Rightarrow> int \<Rightarrow> (nat \<Rightarrow> int) \<Rightarrow> (nat \<times> 'a settled) option" where
  "wait probe message timeoutMs getEvents start clock =
     poll (\<lambda>k. check_once probe message timeoutMs (getEvents (clock k)) (clock k - start)) 0"

section \<open>The three functions\<close>

definition find_type :: "jstr \<Rightarrow> 'd LaceEvent list \<Rightarrow> 'd LaceEvent option" where
  "find_type eventType events = find (\<lambda>e. ev_type e = eventType) events"

definition waitForEvent ::
  "jstr \<Rightarrow> nat \<Rightarrow> (int \<Rightarrow> 'd LaceEvent list) \<Rightarrow> int \<Rightarrow> (nat \<Rightarrow> int) \<Rightarrow> (nat \<times> 'd LaceEvent settled) option" where
  "waitForEvent eventType timeoutMs = wait (find_type eventType)
     (\<lambda>_. js ''Timeout waiting for '' @ eventType @ js '' event after '' @ digits timeoutMs @ js ''ms'') timeoutMs"

definition find_count :: "jstr \<Rightarrow> nat \<Rightarrow> 'd LaceEvent list \<Rightarrow> 'd LaceEvent list option" where
  "find_count eventType count events =
     (let matchingEvents = filter (\<lambda>e. ev_type e = eventType) events in
      if length matchingEvents \<ge> count then Some matchingEvents else None)"

definition count_message :: "jstr \<Rightarrow> nat \<Rightarrow> nat \<Rightarrow> 'd LaceEvent list \<Rightarrow> jstr" where
  "count_message eventType count timeoutMs events =
     js ''Timeout waiting for '' @ digits count @ js '' '' @ eventType @ js '' events after '' @ digits timeoutMs @
     js ''ms (got '' @ digits (length (filter (\<lambda>e. ev_type e = eventType) events)) @ js '')''"

definition waitForEventCount ::
  "jstr \<Rightarrow> nat \<Rightarrow> nat \<Rightarrow> (int \<Rightarrow> 'd LaceEvent list) \<Rightarrow> int \<Rightarrow> (nat \<Rightarrow> int) \<Rightarrow> (nat \<times> 'd LaceEvent list settled) option" where
  "waitForEventCount eventType count timeoutMs =
     wait (find_count eventType count) (count_message eventType count timeoutMs) timeoutMs"

definition waitForEventMatch ::
  "('d LaceEvent \<Rightarrow> bool) \<Rightarrow> jstr \<Rightarrow> nat \<Rightarrow> (int \<Rightarrow> 'd LaceEvent list) \<Rightarrow> int \<Rightarrow> (nat \<Rightarrow> int) \<Rightarrow> (nat \<times> 'd LaceEvent settled) option" where
  "waitForEventMatch predicate description timeoutMs = wait (find predicate)
     (\<lambda>_. js ''Timeout waiting for '' @ description @ js '' after '' @ digits timeoutMs @ js ''ms'') timeoutMs"

section \<open>Chains of calls\<close>

lemma poll_first:
  assumes "check k = Some r" "\<And>i. k0 \<le> i \<Longrightarrow> i < k \<Longrightarrow> check i = None" "k0 \<le> k"
  shows "poll check k0 = Some (k, r)"
  using assms(2,3)
proof (induction "k - k0" arbitrary: k0)
  case 0
  then show ?case using assms(1) by (subst poll.simps) simp
next
  case (Suc n)
  then have "poll check (Suc k0) = Some (k, r)" by (intro Suc.hyps(1)) auto
  moreover have "check k0 = None" using Suc.prems Suc.hyps(2) by simp
  ultimately show ?case by (subst poll.simps) simp
qed

text \<open>The interface of the clock: the first call is not before the start, and a scheduled call comes no earlier than asked for.\<close>

locale polling =
  fixes start :: int and clock :: "nat \<Rightarrow> int"
  assumes first_call: "start \<le> clock 0"
    and next_call: "clock k + POLL_MS \<le> clock (Suc k)"
begin

lemma clock_grows: "start + POLL_MS * int k \<le> clock k"
proof (induction k)
  case 0
  then show ?case using first_call by simp
next
  case (Suc k)
  then show ?case using next_call [of k] by (simp add: algebra_simps)
qed

lemma clock_mono: "i \<le> k \<Longrightarrow> clock i \<le> clock k"
proof (induction k)
  case (Suc k)
  then show ?case using next_call [of k] by (cases "i = Suc k") (auto simp: POLL_MS_def)
qed simp

lemma settles: "\<exists>k\<le>timeoutMs div 10 + 1. check_once probe message timeoutMs (getEvents (clock k)) (clock k - start) \<noteq> None"
proof (intro exI conjI)
  have "timeoutMs < 10 * (timeoutMs div 10 + 1)" by simp
  then have "int timeoutMs < 10 * int (timeoutMs div 10 + 1)" by linarith
  then show "check_once probe message timeoutMs (getEvents (clock (timeoutMs div 10 + 1))) (clock (timeoutMs div 10 + 1) - start) \<noteq> None"
    using clock_grows [of "timeoutMs div 10 + 1"] by (auto simp: check_once_def POLL_MS_def split: option.splits)
qed simp

text \<open>The first call that settles, and what it settles to.\<close>

lemma wait_outcome:
  obtains k r where "wait probe message timeoutMs getEvents start clock = Some (k, r)"
    "k \<le> timeoutMs div 10 + 1"
    "check_once probe message timeoutMs (getEvents (clock k)) (clock k - start) = Some r"
    "\<And>i. i < k \<Longrightarrow> probe (getEvents (clock i)) = None"
proof -
  let ?c = "\<lambda>k. check_once probe message timeoutMs (getEvents (clock k)) (clock k - start)"
  define k where "k = (LEAST k. ?c k \<noteq> None)"
  obtain k1 where k1: "k1 \<le> timeoutMs div 10 + 1" "?c k1 \<noteq> None" using settles by blast
  have "?c k \<noteq> None" unfolding k_def using k1(2) by (rule LeastI)
  then obtain r where r: "?c k = Some r" by blast
  have before: "?c i = None" if "i < k" for i using not_less_Least [of i "\<lambda>k. ?c k \<noteq> None"] that by (auto simp: k_def)
  have "k \<le> k1" unfolding k_def using k1(2) by (rule Least_le)
  moreover have "wait probe message timeoutMs getEvents start clock = Some (k, r)"
    unfolding wait_def by (rule poll_first [where check = ?c, OF r]) (use before in auto)
  moreover have "probe (getEvents (clock i)) = None" if "i < k" for i
    using before [OF that] by (auto simp: check_once_def split: option.splits)
  ultimately show thesis using that r k1(1) by (meson order_trans)
qed

text \<open>A condition that comes true in time and stays true is not missed.\<close>

lemma wait_resolves:
  assumes "t \<le> start + int timeoutMs" "\<And>t'. t \<le> t' \<Longrightarrow> probe (getEvents t') \<noteq> None"
  obtains k x where "wait probe message timeoutMs getEvents start clock = Some (k, Resolved x)" "probe (getEvents (clock k)) = Some x"
    "\<And>i. i < k \<Longrightarrow> clock i < t"
proof -
  obtain k r where w: "wait probe message timeoutMs getEvents start clock = Some (k, r)"
    and c: "check_once probe message timeoutMs (getEvents (clock k)) (clock k - start) = Some r"
    and before: "\<And>i. i < k \<Longrightarrow> probe (getEvents (clock i)) = None"
    by (rule wait_outcome [of probe message timeoutMs getEvents]) blast
  have "probe (getEvents (clock k)) \<noteq> None"
  proof
    assume none: "probe (getEvents (clock k)) = None"
    then have "t \<le> clock k" using c assms(1) by (auto simp: check_once_def split: if_splits)
    from assms(2) [OF this] none show False ..
  qed
  then obtain x where "probe (getEvents (clock k)) = Some x" "r = Resolved x" using c by (auto simp: check_once_def)
  moreover have "clock i < t" if "i < k" for i using assms(2) [of "clock i"] before [OF that] by force
  ultimately show thesis using that w by blast
qed

end

section \<open>What the functions promise\<close>

definition ticks :: "int \<Rightarrow> nat \<Rightarrow> int" where
  "ticks start k = start + 10 * int k"

text \<open>The clock of an idle event loop, which calls back in exactly ten milliseconds.\<close>

interpretation idle: polling start "ticks start" for start
  by unfold_locales (simp_all add: ticks_def POLL_MS_def)

text \<open>
  Waiting for a number of events always ends, with the second call after the time limit at the
  latest. It resolves with all events of the type, which are as many as asked for, and it
  is rejected only when the time is over and there were too few at every call.
\<close>

theorem waitForEventCount_settles:
  assumes "polling start clock"
  shows "\<exists>k r. waitForEventCount eventType count timeoutMs getEvents start clock = Some (k, r) \<and> k \<le> timeoutMs div 10 + 1 \<and>
    (case r of
       Resolved es \<Rightarrow> es = filter (\<lambda>e. ev_type e = eventType) (getEvents (clock k)) \<and> count \<le> length es
     | Rejected _ \<Rightarrow> int timeoutMs < clock k - start \<and>
         list_all (\<lambda>i. length (filter (\<lambda>e. ev_type e = eventType) (getEvents (clock i))) < count) [0..<Suc k])"
proof -
  obtain k r where w: "waitForEventCount eventType count timeoutMs getEvents start clock = Some (k, r)" "k \<le> timeoutMs div 10 + 1"
    and c: "check_once (find_count eventType count) (count_message eventType count timeoutMs) timeoutMs (getEvents (clock k))
      (clock k - start) = Some r"
    and before: "\<And>i. i < k \<Longrightarrow> find_count eventType count (getEvents (clock i)) = None"
    unfolding waitForEventCount_def
    by (rule polling.wait_outcome [OF assms, of "find_count eventType count" "count_message eventType count timeoutMs" timeoutMs getEvents]) blast
  have "length (filter (\<lambda>e. ev_type e = eventType) (getEvents (clock i))) < count" if "i < k" for i
    using before [OF that] by (simp add: find_count_def Let_def split: if_splits)
  with w c show ?thesis
    by (fastforce simp: check_once_def find_count_def Let_def list.pred_set less_Suc_eq split: if_splits)
qed

theorem waitForEventCount_settles_witness:
  "\<exists>k r. waitForEventCount (js ''TOOL_RESULT'') 2 5000 (\<lambda>t. if t < 37 then [] else [\<lparr>ev_type = js ''TOOL_RESULT'', ev_data = ()\<rparr>])
     7 (ticks 7) = Some (k, r) \<and> k \<le> 501"
  using waitForEventCount_settles [OF idle.polling_axioms, of "js ''TOOL_RESULT''" 2 5000
      "\<lambda>t. if t < 37 then [] else [\<lparr>ev_type = js ''TOOL_RESULT'', ev_data = ()\<rparr>]" 7]
  by auto

text \<open>
  C39. Waiting for an event does not miss it. If events are only ever appended and one that matches is
  there at a time within the limit, the promise resolves, however late the calls come: with the
  first event that matches, and no later than the first call from that time on.
\<close>

theorem waitForEventMatch_reliable:
  assumes "polling start clock" "\<And>u v. u \<le> v \<Longrightarrow> prefix (getEvents u) (getEvents v)"
    and "t \<le> start + int timeoutMs" "\<exists>e\<in>set (getEvents t). predicate e"
  shows "\<exists>k e. waitForEventMatch predicate description timeoutMs getEvents start clock = Some (k, Resolved e) \<and>
    find predicate (getEvents (clock k)) = Some e \<and> list_all (\<lambda>i. clock i < t) [0..<k]"
proof -
  have stays: "find predicate (getEvents t') \<noteq> None" if "t \<le> t'" for t'
    using set_mono_prefix [OF assms(2) [OF that]] assms(4) by (auto simp: find_None_iff)
  obtain k e where "waitForEventMatch predicate description timeoutMs getEvents start clock = Some (k, Resolved e)"
      "find predicate (getEvents (clock k)) = Some e" "\<And>i. i < k \<Longrightarrow> clock i < t"
    unfolding waitForEventMatch_def by (rule polling.wait_resolves [OF assms(1,3), of "find predicate" getEvents, OF stays]) blast+
  then show ?thesis by (auto simp: list.pred_set)
qed

theorem waitForEventMatch_reliable_witness:
  "\<exists>k e. waitForEventMatch (\<lambda>e. ev_type e = js ''TOOL_RESULT'') (js ''TOOL_RESULT'') 5000
     (\<lambda>u. if u < 37 then [] else [\<lparr>ev_type = js ''TOOL_RESULT'', ev_data = ()\<rparr>]) 7 (ticks 7) = Some (k, Resolved e)"
proof -
  let ?g = "\<lambda>u :: int. if u < 37 then [] else [\<lparr>ev_type = js ''TOOL_RESULT'', ev_data = ()\<rparr>]"
  have "prefix (?g u) (?g v)" if "u \<le> v" for u v using that by auto
  then show ?thesis
    using waitForEventMatch_reliable [OF idle.polling_axioms [of 7], of ?g 37 5000 "\<lambda>e. ev_type e = js ''TOOL_RESULT''"] by fastforce
qed

end
