(* ===== verification/Graph_Render.thy ===== *)
theory Graph_Render
  imports Js_Regex Vdom "HOL-Library.Sublist"
begin

text \<open>
  The tool \<open>.agents/skills/writing-skills/render-graphs.js\<close>, which takes the diagrams out of the file
  \<open>SKILL.md\<close> of a directory and writes them as pictures: the patterns as terms of \<open>Js_Regex\<close>, one
  definition per function, the file system as a map.

  Parameters are what \<open>path.resolve\<close> makes of the argument, whether the program \<open>dot\<close> can be run, and
  what it answers. Resolved paths are absolute and have no slash at their end, so \<open>path.join\<close> puts a
  slash between a directory and a name. The calls that write files and create the directory succeed.
\<close>

section \<open>Patterns\<close>

abbreviation AnyUnit :: re where "AnyUnit \<equiv> Cls (\<lambda>_. True)"
abbreviation Blank :: re where "Blank \<equiv> Cls is_ws"
abbreviation WordUnit :: re where "WordUnit \<equiv> Cls is_word"

definition fence_open :: jstr where
  "fence_open = js ''```dot'' @ [10]"

definition fence_close :: jstr where
  "fence_close = js ''```''"

text \<open>A text of the pattern as it stands.\<close>

fun Exact :: "jstr \<Rightarrow> re" where
  "Exact [] = Eps"
| "Exact (c # s) = Seq (Cls (\<lambda>d. d = c)) (Exact s)"

definition dot_fence :: re where
  "dot_fence = Seq (Exact fence_open) (Seq (Lazy AnyUnit) (Exact fence_close))"

definition digraph_name :: "re list" where
  "digraph_name = [Lit ''digraph'', Plus Blank, Plus WordUnit]"

definition digraph_body :: "re list" where
  "digraph_body = [Lit ''digraph'', Plus Blank, Plus WordUnit, Star Blank, Lit ''{'', Star AnyUnit, Lit ''}'']"

definition rankdir_line :: re where
  "rankdir_line = Seqs [BolM, Star Blank, Lit ''rankdir'', Star Blank, Lit ''='', Star Blank, Plus WordUnit, Star Blank, Opt (Lit '';''),
     Star Blank, EolM]"

text \<open>\<open>s.match(r)\<close> for a pattern that is a sequence of groups: the groups at the leftmost position where it matches.\<close>

fun search_groups :: "re list \<Rightarrow> nat option \<Rightarrow> jstr \<Rightarrow> jstr list option" where
  "search_groups rs p [] = (case groups rs p [] of [] \<Rightarrow> None | (ws, _) # _ \<Rightarrow> Some ws)"
| "search_groups rs p (c # s) = (case groups rs p (c # s) of [] \<Rightarrow> search_groups rs (Some c) s | (ws, _) # _ \<Rightarrow> Some ws)"

text \<open>\<open>s.replace(r, "")\<close> for a global pattern.\<close>

definition remove_all :: "re \<Rightarrow> jstr \<Rightarrow> jstr option" where
  "remove_all r s = map_option (\<lambda>(kept, left). kept @ left) (exec_loop r (\<lambda>kept g w. kept @ g) None s [])"

section \<open>Functions of the tool\<close>

record dot_block =
  block_name :: jstr
  block_content :: jstr

definition dot_block_of :: "nat \<Rightarrow> jstr \<Rightarrow> dot_block" where
  "dot_block_of n inner =
     (let content = trim inner in
      \<lparr>block_name = (case search_groups digraph_name None content of Some ws \<Rightarrow> ws ! 2 | None \<Rightarrow> js ''graph_'' @ digits (n + 1)),
       block_content = content\<rparr>)"

definition fence_inner :: "jstr \<Rightarrow> jstr" where
  "fence_inner w = slice w (length fence_open) (length w - length fence_close)"

definition extractDotBlocks :: "jstr \<Rightarrow> dot_block list option" where
  "extractDotBlocks markdown =
     map_option fst (exec_loop dot_fence (\<lambda>blocks g w. blocks @ [dot_block_of (length blocks) (fence_inner w)]) None markdown [])"

definition extractGraphBody :: "jstr \<Rightarrow> jstr option" where
  "extractGraphBody dotContent =
     (case search_groups digraph_body None dotContent of
        None \<Rightarrow> Some []
      | Some ws \<Rightarrow> map_option trim (remove_all rankdir_line (ws ! 5)))"

definition subgraph :: "nat \<Rightarrow> dot_block \<Rightarrow> jstr option" where
  "subgraph i block = map_option (\<lambda>body.
     join [10] [js ''  subgraph cluster_'' @ digits i @ js '' {'',
       js ''    label='' @ [34] @ block_name block @ [34] @ js '';'',
       js ''    '' @ join [10] (map (\<lambda>line. js ''  '' @ line) (split_at 10 body)),
       js ''  }'']) (extractGraphBody (block_content block))"

definition combineGraphs :: "dot_block list \<Rightarrow> jstr \<Rightarrow> jstr option" where
  "combineGraphs blocks skillName = map_option (\<lambda>bodies.
     join [10] [js ''digraph '' @ skillName @ js ''_combined {'', js ''  rankdir=TB;'', js ''  compound=true;'', js ''  newrank=true;'', [],
       join [10, 10] bodies, js ''}'']) (those (map (\<lambda>(i, block). subgraph i block) (enumerate 0 blocks)))"

text \<open>What \<open>dot\<close> answers: a picture, or an exception with its message and, if there is one, its output.\<close>

type_synonym dot_answer = "jstr \<Rightarrow> (jstr \<times> jstr option) + jstr"

record tool_run =
  exitCode :: nat
  run_files :: "jstr \<rightharpoonup> jstr"
  run_dirs :: "jstr set"
  stdout :: "jstr list"
  stderr :: "jstr list"

definition print :: "jstr \<Rightarrow> tool_run \<Rightarrow> tool_run" where
  "print line r = r\<lparr>stdout := stdout r @ [line]\<rparr>"

definition complain :: "jstr list \<Rightarrow> tool_run \<Rightarrow> tool_run" where
  "complain lines r = r\<lparr>stderr := stderr r @ lines\<rparr>"

definition quit :: "nat \<Rightarrow> tool_run \<Rightarrow> tool_run" where
  "quit n r = r\<lparr>exitCode := n\<rparr>"

definition write_file :: "jstr \<Rightarrow> jstr \<Rightarrow> tool_run \<Rightarrow> tool_run" where
  "write_file f content r = r\<lparr>run_files := (run_files r)(f \<mapsto> content)\<rparr>"

definition path_join :: "jstr \<Rightarrow> jstr \<Rightarrow> jstr" where
  "path_join d f = (if d = js ''/'' then d @ f else d @ js ''/'' @ f)"

definition basename :: "jstr \<Rightarrow> jstr" where
  "basename d = last (split_at 47 d)"

text \<open>An empty picture counts as none, as the empty string is false.\<close>

definition renderToSvg :: "dot_answer \<Rightarrow> jstr \<Rightarrow> tool_run \<Rightarrow> jstr option \<times> tool_run" where
  "renderToSvg dot dotContent r =
     (case dot dotContent of
        Inr svg \<Rightarrow> (if svg = [] then None else Some svg, r)
      | Inl (message, output) \<Rightarrow> (None, complain ((js ''Error running dot: '' @ message) # (case output of None \<Rightarrow> [] | Some t \<Rightarrow> [t])) r))"

definition render_block :: "dot_answer \<Rightarrow> jstr \<Rightarrow> tool_run \<Rightarrow> dot_block \<Rightarrow> tool_run" where
  "render_block dot outputDir r block =
     (case renderToSvg dot (block_content block) r of
        (Some svg, r') \<Rightarrow> print (js ''  Rendered: '' @ block_name block @ js ''.svg'')
          (write_file (path_join outputDir (block_name block @ js ''.svg'')) svg r')
      | (None, r') \<Rightarrow> complain [js ''  Failed: '' @ block_name block] r')"

definition render_combined :: "dot_answer \<Rightarrow> jstr \<Rightarrow> jstr \<Rightarrow> jstr \<Rightarrow> tool_run \<Rightarrow> tool_run" where
  "render_combined dot outputDir skillName combined r =
     (case renderToSvg dot combined r of
        (Some svg, r') \<Rightarrow>
          print (js ''  Source: '' @ skillName @ js ''_combined.dot'')
            (write_file (path_join outputDir (skillName @ js ''_combined.dot'')) combined
              (print (js ''  Rendered: '' @ skillName @ js ''_combined.svg'')
                (write_file (path_join outputDir (skillName @ js ''_combined.svg'')) svg r')))
      | (None, r') \<Rightarrow> complain [js ''  Failed to render combined diagram''] r')"

definition usage :: "jstr list" where
  "usage = [js ''Usage: render-graphs.js <skill-directory> [--combine]'', [], js ''Options:'',
     js ''  --combine    Combine all diagrams into one SVG'', [], js ''Example:'',
     js ''  ./render-graphs.js ../subagent-driven-development'',
     js ''  ./render-graphs.js ../subagent-driven-development --combine'']"

definition no_graphviz :: "jstr list" where
  "no_graphviz = [js ''Error: graphviz (dot) not found. Install with:'', js ''  brew install graphviz    # macOS'',
     js ''  apt install graphviz     # Linux'']"

definition render_all :: "dot_answer \<Rightarrow> bool \<Rightarrow> jstr \<Rightarrow> dot_block list \<Rightarrow> tool_run \<Rightarrow> tool_run option" where
  "render_all dot combine skillDir blocks r =
     (let skillName = map (\<lambda>c. if c = 45 then 95 else c) (basename skillDir);
          outputDir = path_join skillDir (js ''diagrams'');
          r1 = print (js ''Found '' @ digits (length blocks) @ js '' diagram(s) in '' @ basename skillDir @ js ''/SKILL.md'') r;
          r2 = (if outputDir \<in> run_dirs r1 \<or> run_files r1 outputDir \<noteq> None then r1 else r1\<lparr>run_dirs := insert outputDir (run_dirs r1)\<rparr>)
      in map_option (print ([10] @ js ''Output: '' @ outputDir @ js ''/''))
        (if combine then map_option (\<lambda>combined. render_combined dot outputDir skillName combined r2) (combineGraphs blocks skillName)
         else Some (foldl (render_block dot outputDir) r2 blocks)))"

definition main :: "(jstr \<Rightarrow> jstr) \<Rightarrow> bool \<Rightarrow> dot_answer \<Rightarrow> jstr list \<Rightarrow> tool_run \<Rightarrow> tool_run option" where
  "main resolve dotAvailable dot args r =
     (case find (\<lambda>a. \<not> startsWith a (js ''--'')) args of
        None \<Rightarrow> Some (quit 1 (complain usage r))
      | Some [] \<Rightarrow> Some (quit 1 (complain usage r))
      | Some skillDirArg \<Rightarrow>
          let skillDir = resolve skillDirArg; skillFile = path_join skillDir (js ''SKILL.md'') in
          case run_files r skillFile of
            None \<Rightarrow> Some (quit 1 (complain [js ''Error: '' @ skillFile @ js '' not found''] r))
          | Some markdown \<Rightarrow>
              if \<not> dotAvailable then Some (quit 1 (complain no_graphviz r))
              else case extractDotBlocks markdown of
                  None \<Rightarrow> None
                | Some blocks \<Rightarrow>
                    if blocks = [] then Some (quit 0 (print (js ''No ```dot blocks found in '' @ skillFile) r))
                    else render_all dot (js ''--combine'' \<in> set args) skillDir blocks r)"

section \<open>Literal texts\<close>

lemma rem_Exact: "rem (Exact l) p s = (if startsWith s l then [(l, drop (length l) s)] else [])"
proof (induction l arbitrary: p s)
  case (Cons c l)
  then show ?case by (cases s) auto
qed simp

lemma rem_Lazy_Any: "rem (Lazy AnyUnit) p s = map (\<lambda>i. (take i s, drop i s)) [0..<Suc (length s)]"
proof (induction s arbitrary: p)
  case (Cons c s)
  have "[0..<Suc (length (c # s))] = 0 # map Suc [0..<Suc (length s)]" by (simp add: map_Suc_upt upt_conv_Cons del: upt_Suc)
  then show ?case using Cons by (subst rem.simps(10)) (simp add: comp_def del: upt_Suc)
qed (simp add: rem_Lazy_Nil)

section \<open>Fences\<close>

lemma fence_lengths: "length fence_open = 7" "length fence_close = 3" "fence_open \<noteq> []" "fence_close \<noteq> []"
  by (simp_all add: fence_open_def fence_close_def js_def)

interpretation fence: global_pattern dot_fence
  by unfold_locales (simp add: dot_fence_def fence_open_def js_def)

interpretation rankdir: global_pattern rankdir_line
  by unfold_locales (simp add: rankdir_line_def)

lemma startsWith_long: "length q \<le> length a \<Longrightarrow> startsWith (a @ b) q \<longleftrightarrow> startsWith a q"
  by (auto simp: startsWith_iff append_eq_append_conv2)

lemma rem_fence:
  "rem dot_fence p s = (if startsWith s fence_open then
     map (\<lambda>(v, u). (fence_open @ v, u)) (concat (map (\<lambda>i. if startsWith (drop i (drop 7 s)) fence_close
       then [(take i (drop 7 s) @ fence_close, drop (length fence_close) (drop i (drop 7 s)))] else []) [0..<Suc (length (drop 7 s))])) else [])"
proof -
  have "rem (Seq (Lazy AnyUnit) (Exact fence_close)) q u = concat (map (\<lambda>i. if startsWith (drop i u) fence_close
      then [(take i u @ fence_close, drop (length fence_close) (drop i u))] else []) [0..<Suc (length u)])" for q u
    by (simp add: rem_Lazy_Any rem_Exact comp_def if_distrib cong: if_cong map_cong del: upt_Suc)
  then show ?thesis by (simp add: dot_fence_def rem_Exact fence_lengths del: upt_Suc)
qed

text \<open>Text in which no fence starts, and text that does not end the fence it stands in.\<close>

definition clear :: "jstr \<Rightarrow> bool" where
  "clear g = list_all (\<lambda>i. \<not> startsWith (drop i g @ fence_open) fence_open) [0..<length g]"

definition unclosed :: "jstr \<Rightarrow> bool" where
  "unclosed b = list_all (\<lambda>i. \<not> startsWith (drop i b @ fence_close) fence_close) [0..<length b]"

lemma upt_split: "k \<le> n \<Longrightarrow> [0..<Suc n] = [0..<k] @ k # [Suc k..<Suc n]"
  using upt_add_eq_append [of 0 k "Suc n - k"] upt_conv_Cons [of k "Suc n"] by simp

lemma rem_fence_here:
  assumes "unclosed b"
  shows "\<exists>ms. rem dot_fence p (fence_open @ b @ fence_close @ t) = (fence_open @ b @ fence_close, t) # ms"
proof -
  let ?u = "b @ fence_close @ t"
  let ?f = "\<lambda>i. if startsWith (drop i ?u) fence_close then [(take i ?u @ fence_close, drop (length fence_close) (drop i ?u))] else []"
  have "\<not> startsWith (drop i ?u) fence_close" if "i < length b" for i
  proof -
    have "startsWith (drop i ?u) fence_close \<longleftrightarrow> startsWith (drop i b @ fence_close) fence_close"
      using startsWith_long [of fence_close "drop i b @ fence_close" t] that by simp
    then show ?thesis using assms that by (simp add: unclosed_def list.pred_set)
  qed
  then have before: "concat (map ?f [0..<length b]) = []" by auto
  have "[0..<Suc (length ?u)] = [0..<length b] @ length b # [Suc (length b)..<Suc (length ?u)]" by (rule upt_split) simp
  then have "concat (map ?f [0..<Suc (length ?u)]) = (b @ fence_close, t) # concat (map ?f [Suc (length b)..<Suc (length ?u)])"
    using before by (simp only: map_append concat_append list.map concat.simps) simp
  moreover have "drop 7 (fence_open @ ?u) = ?u" by (simp add: fence_lengths(1) [symmetric])
  moreover have "startsWith (fence_open @ ?u) fence_open" by simp
  ultimately show ?thesis unfolding rem_fence by (simp only: if_True list.map split) blast
qed

lemma search_first:
  assumes "\<And>i q. i < length g \<Longrightarrow> rem r q (drop i g @ u) = []" "\<And>q. \<exists>ms. rem r q u = m # ms"
  shows "search r p (g @ u) = Some (g, m)"
  using assms(1)
proof (induction g arbitrary: p)
  case Nil
  obtain ms where "rem r p u = m # ms" using assms(2) by blast
  then show ?case by (cases u; cases m) simp_all
next
  case (Cons c g)
  have "rem r p (c # g @ u) = []" using Cons.prems [of 0] by simp
  moreover have "search r (Some c) (g @ u) = Some (g, m)" using Cons.prems [of "Suc i" for i] by (intro Cons.IH) fastforce
  ultimately show ?case by (cases m) simp
qed

lemma search_fence:
  assumes "clear g" "unclosed b"
  shows "search dot_fence p (g @ fence_open @ b @ fence_close @ t) = Some (g, fence_open @ b @ fence_close, t)"
proof (rule search_first)
  fix i q
  assume i: "i < length g"
  have "startsWith (drop i g @ fence_open @ b @ fence_close @ t) fence_open \<longleftrightarrow> startsWith (drop i g @ fence_open) fence_open"
    using startsWith_long [of fence_open "drop i g @ fence_open" "b @ fence_close @ t"] by simp
  then show "rem dot_fence q (drop i g @ fence_open @ b @ fence_close @ t) = []"
    using assms(1) i by (simp add: rem_fence clear_def list.pred_set)
qed (use rem_fence_here [OF assms(2)] in blast)

lemma search_clear:
  assumes "clear g"
  shows "search dot_fence p g = None"
  unfolding search_None_iff
proof (intro allI impI)
  fix h u
  assume g: "g = h @ u"
  have "\<not> startsWith u fence_open"
  proof
    assume "startsWith u fence_open"
    then have "u \<noteq> []" "startsWith (u @ fence_open) fence_open" using fence_lengths by (auto simp: startsWith_iff)
    then show False using assms g by (auto simp: clear_def list.pred_set dest!: bspec [of _ _ "length h"])
  qed
  then show "rem dot_fence (prev p h) u = []" by (simp add: rem_fence)
qed

section \<open>Diagrams are found\<close>

fun with_fences :: "(jstr \<times> jstr) list \<Rightarrow> jstr \<Rightarrow> jstr" where
  "with_fences [] rest = rest"
| "with_fences ((g, b) # xs) rest = g @ fence_open @ b @ fence_close @ with_fences xs rest"

lemma fence_inner_fence: "fence_inner (fence_open @ b @ fence_close) = b"
  by (simp add: fence_inner_def slice_def)

lemma extract_from:
  assumes "list_all (\<lambda>(g, b). clear g \<and> unclosed b) xs" "clear rest"
  shows "exec_loop dot_fence (\<lambda>blocks g w. blocks @ [dot_block_of (length blocks) (fence_inner w)]) p (with_fences xs rest) st =
    Some (st @ map (\<lambda>(i, (g, b)). dot_block_of i b) (enumerate (length st) xs), rest)"
  using assms(1)
proof (induction xs arbitrary: p st)
  case Nil
  then show ?case using search_clear [OF assms(2)] by (simp add: exec_loop.simps)
next
  case (Cons x xs)
  obtain g b where x: "x = (g, b)" by (cases x)
  then have s: "search dot_fence p (with_fences (x # xs) rest) = Some (g, fence_open @ b @ fence_close, with_fences xs rest)"
    using Cons.prems by (simp add: search_fence)
  show ?case by (subst exec_loop.simps) (use Cons s x in \<open>simp add: fence_inner_fence\<close>)
qed

section \<open>Names of diagrams\<close>

text \<open>
  How a reader without patterns finds the name: the first place where the word \<open>digraph\<close>, at least
  one blank and a name follow each other; the name ends before the first character that is not of a word.
\<close>

definition name_here :: "jstr \<Rightarrow> jstr option" where
  "name_here s =
     (let t = drop 7 s; name = takeWhile is_word (dropWhile is_ws t) in
      if take 7 s = js ''digraph'' \<and> takeWhile is_ws t \<noteq> [] \<and> name \<noteq> [] then Some name else None)"

fun graph_name :: "jstr \<Rightarrow> jstr option" where
  "graph_name [] = None"
| "graph_name (c # s) = (case name_here (c # s) of Some name \<Rightarrow> Some name | None \<Rightarrow> graph_name s)"

lemma rem_Lit_eq: "rem (Lit l) p s = (if startsWith s (js l) then [(js l, drop (length l) s)] else [])"
proof (induction l arbitrary: p s)
  case (Cons c l)
  then show ?case by (cases s) (auto simp: js_def)
qed (simp add: js_def)

lemma groups_Lit: "groups (Lit l # rs) p s = (if startsWith s (js l)
    then map (\<lambda>(ws, u). (js l # ws, u)) (groups rs (prev p (js l)) (drop (length l) s)) else [])"
  by (simp add: rem_Lit_eq)

lemma groups_two: "groups [a, b] q t = concat (map (\<lambda>(w, v). map (\<lambda>(x, u). ([w, x], u)) (rem b (prev q w) v)) (rem a q t))"
proof -
  have "concat (map (\<lambda>(x, u). [([x], u)]) xs) = map (\<lambda>(x, u). ([x], u)) xs" for xs :: "(jstr \<times> jstr) list"
    by (induction xs) auto
  then have "groups [b] r v = map (\<lambda>(x, u). ([x], u)) (rem b r v)" for r v by simp
  then have "groups [a, b] q t = concat (map (\<lambda>(w, v). map (\<lambda>(ws, u). (w # ws, u)) (map (\<lambda>(x, u). ([x], u)) (rem b (prev q w) v))) (rem a q t))"
    by (simp only: groups.simps(2) [of a])
  moreover have "map (\<lambda>(ws, u). (w # ws, u)) (map (\<lambda>(x, u). ([x], u)) xs) = map (\<lambda>(x, u). ([w, x], u)) xs" for w and xs :: "(jstr \<times> jstr) list"
    by (induction xs) auto
  ultimately show ?thesis by (simp only:)
qed

text \<open>What a class, repeated, can take, longest first.\<close>

lemma rem_Star_all: "rem (Star (Cls P)) p s = map (\<lambda>i. (take i s, drop i s)) (rev [0..<Suc (length (takeWhile P s))])"
proof (induction s arbitrary: p)
  case (Cons c s)
  let ?n = "length (takeWhile P s)"
  have "[0..<Suc (Suc ?n)] = 0 # map Suc [0..<Suc ?n]" by (simp add: map_Suc_upt upt_conv_Cons del: upt_Suc)
  then have "map (\<lambda>i. (take i (c # s), drop i (c # s))) (rev [0..<Suc (Suc ?n)]) =
      map (\<lambda>(v, u). (c # v, u)) (map (\<lambda>i. (take i s, drop i s)) (rev [0..<Suc ?n])) @ [([], c # s)]"
    by (simp add: rev_map comp_def del: upt_Suc)
  then show ?case using Cons [of "prev p [c]"] by (cases "P c") (simp_all add: rem.simps(5) [of _ _ "c # s"] del: upt_Suc, simp)
qed (simp add: rem_Star_Nil)

lemma Plus_longest:
  "rem (Plus (Cls P)) p s = (if takeWhile P s = [] then []
     else (takeWhile P s, dropWhile P s) # map (\<lambda>i. (take i s, drop i s)) (rev [1..<length (takeWhile P s)]))"
proof (cases "takeWhile P s")
  case Nil
  then show ?thesis by (cases s) (simp_all split: if_splits)
next
  case (Cons c w)
  then obtain t where s: "s = c # t" "P c" "w = takeWhile P t" by (cases s) (simp_all split: if_splits)
  have "[1..<Suc n] = map Suc [0..<n]" for n by (simp add: map_Suc_upt)
  then show ?thesis
    using s by (simp add: rem_Star_all rev_map comp_def takeWhile_eq_take [symmetric] dropWhile_eq_drop [symmetric])
qed

lemma blank_no_word: "is_ws c \<Longrightarrow> \<not> is_word c"
  by (auto simp: char_class_defs is_ws_def)

text \<open>After the longest run of blanks comes the name; after a shorter one there is still a blank.\<close>

lemma groups_blank_name:
  "\<exists>ms. groups [Plus Blank, Plus WordUnit] q t =
     (if takeWhile is_ws t \<noteq> [] \<and> takeWhile is_word (dropWhile is_ws t) \<noteq> []
      then [([takeWhile is_ws t, takeWhile is_word (dropWhile is_ws t)], dropWhile is_word (dropWhile is_ws t))] else []) @ ms \<and>
     (takeWhile is_ws t = [] \<or> takeWhile is_word (dropWhile is_ws t) = [] \<longrightarrow> ms = [])"
proof (cases "takeWhile is_ws t = []")
  case True
  then show ?thesis by (simp only: groups_two Plus_longest if_True list.map concat.simps) simp
next
  case False
  let ?n = "length (takeWhile is_ws t)" and ?u = "dropWhile is_ws t"
  have inner: "rem (Plus WordUnit) r (drop i t) = []" if "i < ?n" for i r
  proof -
    have "i < length t" using that length_takeWhile_le less_le_trans by blast
    then have "drop i t = t ! i # drop (Suc i) t" by (simp only: Cons_nth_drop_Suc)
    moreover have "is_ws (t ! i)" using that by (metis nth_mem set_takeWhileD takeWhile_nth)
    ultimately show ?thesis using blank_no_word by (simp only: Plus_longest) simp
  qed
  have g: "groups [Plus Blank, Plus WordUnit] q t =
      map (\<lambda>(w, v). ([takeWhile is_ws t, w], v)) (rem (Plus WordUnit) (prev q (takeWhile is_ws t)) ?u) @
      concat (map (\<lambda>i. map (\<lambda>(w, v). ([take i t, w], v)) (rem (Plus WordUnit) (prev q (take i t)) (drop i t))) (rev [1..<?n]))"
    using False by (simp only: groups_two Plus_longest [of is_ws] if_False list.map concat.simps split) (simp add: comp_def del: rem.simps)
  have "concat (map (\<lambda>i. map (\<lambda>(w, v). ([take i t, w], v)) (rem (Plus WordUnit) (prev q (take i t)) (drop i t))) (rev [1..<?n])) = []"
    using inner by auto
  then show ?thesis unfolding g Plus_longest [of is_word] using False by auto
qed

lemma groups_name:
  "\<exists>g t ms. groups digraph_name p s = (case name_here s of Some n \<Rightarrow> ([js ''digraph'', g, n], t) # ms | None \<Rightarrow> [])"
proof (cases "startsWith s (js ''digraph'')")
  case False
  then have "name_here s = None" by (auto simp: name_here_def startsWith_iff Let_def) (metis append_take_drop_id)
  with False show ?thesis by (simp only: digraph_name_def groups_Lit if_False option.case) simp
next
  case True
  then have h: "take 7 s = js ''digraph''" by (auto simp: startsWith_iff js_def)
  have seven: "length ''digraph'' = 7" by simp
  have "groups digraph_name p s = map (\<lambda>(ws, u). (js ''digraph'' # ws, u)) (groups [Plus Blank, Plus WordUnit] (prev p (js ''digraph'')) (drop 7 s))"
    using True seven by (simp only: digraph_name_def groups_Lit if_True)
  moreover obtain ms where "groups [Plus Blank, Plus WordUnit] (prev p (js ''digraph'')) (drop 7 s) =
     (if takeWhile is_ws (drop 7 s) \<noteq> [] \<and> takeWhile is_word (dropWhile is_ws (drop 7 s)) \<noteq> []
      then [([takeWhile is_ws (drop 7 s), takeWhile is_word (dropWhile is_ws (drop 7 s))], dropWhile is_word (dropWhile is_ws (drop 7 s)))] else []) @ ms \<and>
     (takeWhile is_ws (drop 7 s) = [] \<or> takeWhile is_word (dropWhile is_ws (drop 7 s)) = [] \<longrightarrow> ms = [])"
    using groups_blank_name by blast
  ultimately show ?thesis using h by (auto simp: name_here_def Let_def)
qed

lemma search_name: "(case search_groups digraph_name p s of Some ws \<Rightarrow> ws ! 2 | None \<Rightarrow> d) = (case graph_name s of Some n \<Rightarrow> n | None \<Rightarrow> d)"
proof (induction s arbitrary: p)
  case Nil
  have "name_here [] = None" by (simp add: name_here_def js_def Let_def)
  then show ?case using groups_name [of p "[]"] by auto
next
  case (Cons c s)
  obtain g t ms where "groups digraph_name p (c # s) = (case name_here (c # s) of Some n \<Rightarrow> ([js ''digraph'', g, n], t) # ms | None \<Rightarrow> [])"
    using groups_name by blast
  then show ?case using Cons by (cases "name_here (c # s)") simp_all
qed

text \<open>
  C40. A document made of diagrams in fences and text around them gives exactly these diagrams, in their
  order and without the blanks around them. Each has the name that stands after its first
  \<open>digraph\<close>, if a name does, and \<open>graph_1\<close>, \<open>graph_2\<close> and so on by its place in the document
  otherwise. The text between may hold other fences.
\<close>

theorem extractDotBlocks_roundtrip:
  assumes "list_all (\<lambda>(g, b). clear g \<and> unclosed b) xs" "clear rest"
  shows "\<exists>blocks. extractDotBlocks (with_fences xs rest) = Some blocks \<and> length blocks = length xs \<and>
    (\<forall>i<length xs. block_content (blocks ! i) = trim (snd (xs ! i)) \<and>
       block_name (blocks ! i) = (case graph_name (trim (snd (xs ! i))) of
          Some name \<Rightarrow> name
        | None \<Rightarrow> js ''graph_'' @ digits (i + 1)))"
  using extract_from [OF assms, of None "[]"]
  by (simp add: extractDotBlocks_def nth_enumerate_eq split_beta dot_block_of_def Let_def search_name split: option.splits)

theorem extractDotBlocks_roundtrip_witness:
  "\<exists>blocks. extractDotBlocks (with_fences [(js ''See '', [10] @ js ''digraph a { x -> y }'' @ [10]), ([10], js ''graph { }'')] []) = Some blocks \<and>
     map block_content blocks = [js ''digraph a { x -> y }'', js ''graph { }''] \<and>
     map block_name blocks = [js ''a'', js ''graph_2'']"
proof -
  let ?xs = "[(js ''See '', [10] @ js ''digraph a { x -> y }'' @ [10]), ([10], js ''graph { }'')]"
  have "list_all (\<lambda>(g, b). clear g \<and> unclosed b) ?xs" "clear []"
    by (simp_all add: clear_def unclosed_def fence_open_def fence_close_def js_def upt_rec)
  from extractDotBlocks_roundtrip [OF this] obtain blocks where
      b: "extractDotBlocks (with_fences ?xs []) = Some blocks" "length blocks = 2"
        "\<forall>i<2. block_content (blocks ! i) = trim (snd (?xs ! i)) \<and>
           block_name (blocks ! i) = (case graph_name (trim (snd (?xs ! i))) of
              Some name \<Rightarrow> name
            | None \<Rightarrow> js ''graph_'' @ digits (i + 1))"
    by auto
  have t: "trim ([10] @ js ''digraph a { x -> y }'' @ [10]) = js ''digraph a { x -> y }''" "trim (js ''graph { }'') = js ''graph { }''"
    by (simp_all add: trim_def trimEnd_def is_ws_def js_def)
  have n: "graph_name (js ''digraph a { x -> y }'') = Some (js ''a'')" "graph_name (js ''graph { }'') = None"
    by (simp_all add: name_here_def js_def is_ws_def char_class_defs Let_def)
  have "block_content (blocks ! 0) = js ''digraph a { x -> y }''" "block_name (blocks ! 0) = js ''a''"
    using b(3) t(1) n(1) by simp_all
  moreover have "block_content (blocks ! 1) = js ''graph { }''" "block_name (blocks ! 1) = js ''graph_2''"
    using b(3) t(2) n(2) by (simp_all add: digits.simps js_def)
  moreover obtain x y where "blocks = [x, y]" using b(2) by (auto simp: numeral_2_eq_2 length_Suc_conv)
  ultimately show ?thesis using b(1) by simp
qed

section \<open>Where the pictures go\<close>

lemma search_groups_sound: "search_groups rs p s = Some ws \<Longrightarrow> \<exists>q u t. (ws, t) \<in> set (groups rs q u)"
proof (induction rs p s rule: search_groups.induct)
  case (1 rs p)
  then have "\<exists>t. (ws, t) \<in> set (groups rs p [])" by (auto split: list.splits)
  then show ?case by blast
next
  case (2 rs p c s)
  show ?case
  proof (cases "groups rs p (c # s)")
    case Nil
    with 2 show ?thesis by simp
  next
    case (Cons m ms)
    with "2.prems" have "\<exists>t. (ws, t) \<in> set (groups rs p (c # s))" by (cases m) auto
    then show ?thesis by blast
  qed
qed

lemma rem_Star_Cls: "(w, t) \<in> set (rem (Star (Cls P)) q s) \<Longrightarrow> list_all P w"
proof (induction s arbitrary: w q rule: length_induct)
  case (1 s)
  then show ?case by (subst (asm) rem_Star_iff) (fastforce split: list.splits if_splits)
qed

lemma rem_Plus_Cls: "(w, t) \<in> set (rem (Plus (Cls P)) q s) \<Longrightarrow> list_all P w"
  using rem_Star_Cls by (fastforce split: list.splits if_splits)

lemma block_name_word: "list_all is_word (block_name (dot_block_of n inner))"
proof (cases "search_groups digraph_name None (trim inner)")
  case None
  then show ?thesis
    using digits_are_digits [of _ "n + 1"] by (auto simp: dot_block_of_def Let_def list.pred_set is_word_def js_def is_alpha_def)
next
  case (Some ws)
  then obtain q u t where "(ws, t) \<in> set (groups digraph_name q u)" using search_groups_sound by blast
  from groups_match [OF this, of 2] have "list_all is_word (ws ! 2)" by (auto simp: digraph_name_def dest: rem_Star_Cls)
  with Some show ?thesis by (simp add: dot_block_of_def)
qed

lemma slash_no_word: "list_all is_word w \<Longrightarrow> 47 \<notin> set w"
  by (auto simp: list.pred_set char_class_defs)

lemma extract_names: "\<exists>blocks. extractDotBlocks markdown = Some blocks \<and> list_all (\<lambda>b. 47 \<notin> set (block_name b)) blocks"
proof -
  let ?body = "\<lambda>blocks g w. blocks @ [dot_block_of (length blocks) (fence_inner w)]"
  obtain blocks u where l: "exec_loop dot_fence ?body None markdown [] = Some (blocks, u)"
    using fence.loop_returns [of ?body None markdown "[]"] by blast
  have "list_all (\<lambda>b. 47 \<notin> set (block_name b)) blocks"
    by (rule fence.loop_invariant [OF l, where I = "\<lambda>bs _. list_all (\<lambda>b. 47 \<notin> set (block_name b)) bs"])
      (simp_all add: slash_no_word [OF block_name_word])
  with l show ?thesis by (simp add: extractDotBlocks_def)
qed

lemma extractGraphBody_returns: "\<exists>body. extractGraphBody content = Some body"
  using rankdir.loop_returns [of "\<lambda>kept g w. kept @ g" None] by (fastforce simp: extractGraphBody_def remove_all_def split: option.splits)

lemma combineGraphs_returns: "\<exists>g. combineGraphs blocks skillName = Some g"
proof -
  have one: "\<exists>y. subgraph i block = Some y" for i block
    using extractGraphBody_returns [of "block_content block"] by (auto simp: subgraph_def)
  have "\<exists>ys. those (map (\<lambda>(i, block). subgraph i block) xs) = Some ys" for xs
  proof (induction xs)
    case (Cons x xs)
    then show ?case using one [of "fst x" "snd x"] by (auto simp: split_beta)
  qed simp
  then show ?thesis by (auto simp: combineGraphs_def)
qed

text \<open>\<open>r'\<close> has the files of \<open>r\<close> but for files directly in \<open>d\<close>.\<close>

definition writes_in :: "jstr \<Rightarrow> tool_run \<Rightarrow> tool_run \<Rightarrow> bool" where
  "writes_in d r r' \<longleftrightarrow> (\<forall>f. run_files r' f = run_files r f \<or> (\<exists>name. 47 \<notin> set name \<and> f = path_join d name))"

lemma writes_in_refl [simp]: "writes_in d r r"
  by (simp add: writes_in_def)

lemma writes_in_trans: "writes_in d r s \<Longrightarrow> writes_in d s t \<Longrightarrow> writes_in d r t"
  unfolding writes_in_def by metis

lemma writes_in_write: "47 \<notin> set name \<Longrightarrow> writes_in d r s \<Longrightarrow> writes_in d r (write_file (path_join d name) content s)"
  by (auto simp: writes_in_def write_file_def)

lemma writes_in_other [simp]:
  "writes_in d r (print l s) = writes_in d r s" "writes_in d r (complain ls s) = writes_in d r s" "writes_in d r (quit n s) = writes_in d r s"
  "writes_in d r (s\<lparr>run_dirs := ds\<rparr>) = writes_in d r s"
  by (simp_all add: writes_in_def print_def complain_def quit_def)

lemma slash_js: "47 \<in> set (js s) \<longleftrightarrow> CHR ''/'' \<in> set s"
proof -
  have "(47 :: nat) = cu CHR ''/''" by simp
  then show ?thesis by (simp only: js_def set_map inj_image_mem_iff [OF inj_of_char])
qed

lemma renderToSvg_files: "renderToSvg dot c r = (svg, r') \<Longrightarrow> writes_in d r r'"
  by (auto simp: renderToSvg_def split: sum.splits)

lemma render_block_writes: "47 \<notin> set (block_name b) \<Longrightarrow> writes_in d r (render_block dot d r b)"
  by (auto simp: render_block_def slash_js split: prod.splits option.splits intro!: writes_in_write intro: renderToSvg_files)

lemma render_blocks_write: "list_all (\<lambda>b. 47 \<notin> set (block_name b)) blocks \<Longrightarrow> writes_in d r (foldl (render_block dot d) r blocks)"
  by (induction blocks arbitrary: r) (auto intro: writes_in_trans render_block_writes)

lemma render_combined_writes: "47 \<notin> set skillName \<Longrightarrow> writes_in d r (render_combined dot d skillName combined r)"
  by (auto simp: render_combined_def slash_js split: prod.splits option.splits intro!: writes_in_write intro: renderToSvg_files)

lemma render_all_writes:
  assumes "list_all (\<lambda>b. 47 \<notin> set (block_name b)) blocks"
  shows "\<exists>r'. render_all dot combine skillDir blocks r = Some r' \<and> writes_in (path_join skillDir (js ''diagrams'')) r r'"
proof -
  let ?d = "path_join skillDir (js ''diagrams'')" and ?name = "map (\<lambda>c. if c = 45 then 95 else c) (basename skillDir)"
  have name: "47 \<notin> set ?name" using split_at_no_sep [of "basename skillDir" 47 skillDir] by (auto simp: basename_def)
  obtain g where g: "combineGraphs blocks ?name = Some g" using combineGraphs_returns by blast
  have "writes_in ?d r (render_combined dot ?d ?name g r2)" "writes_in ?d r (foldl (render_block dot ?d) r2 blocks)"
    if "writes_in ?d r r2" for r2
    using that writes_in_trans render_combined_writes [OF name] render_blocks_write [OF assms] by blast+
  then show ?thesis using g by (simp add: render_all_def Let_def)
qed

text \<open>
  The tool returns for every document, whatever \<open>dot\<close> answers, and writes only files that lie
  directly in the directory \<open>diagrams\<close> of the directory it was given: no name of a graph leads
  out of it.
\<close>

theorem render_graphs_confined:
  "\<exists>r'. main resolve dotAvailable dot args r = Some r' \<and>
     (run_files r' = run_files r \<or> (\<exists>d\<in>set args. writes_in (path_join (resolve d) (js ''diagrams'')) r r'))"
proof (cases "find (\<lambda>a. \<not> startsWith a (js ''--'')) args")
  case None
  then show ?thesis by (simp add: main_def quit_def complain_def)
next
  case (Some a)
  then have a: "a \<in> set args" by (auto simp: find_Some_iff)
  show ?thesis
  proof (cases "a = [] \<or> run_files r (path_join (resolve a) (js ''SKILL.md'')) = None \<or> \<not> dotAvailable")
    case True
    with Some show ?thesis by (auto simp: main_def Let_def quit_def complain_def split: list.splits option.splits)
  next
    case False
    then obtain markdown where md: "run_files r (path_join (resolve a) (js ''SKILL.md'')) = Some markdown" by auto
    obtain blocks where b: "extractDotBlocks markdown = Some blocks" "list_all (\<lambda>b. 47 \<notin> set (block_name b)) blocks"
      using extract_names by blast
    have "main resolve dotAvailable dot args r = (if blocks = []
        then Some (quit 0 (print (js ''No ```dot blocks found in '' @ path_join (resolve a) (js ''SKILL.md'')) r))
        else render_all dot (js ''--combine'' \<in> set args) (resolve a) blocks r)"
      using Some False md b(1) by (cases a) (simp_all add: main_def Let_def)
    then show ?thesis
      using render_all_writes [OF b(2), of dot "js ''--combine'' \<in> set args" "resolve a" r] a by (auto simp: quit_def print_def)
  qed
qed

text \<open>With distinct names every picture is stored under its own; of diagrams with the same name only the last is kept.\<close>

lemma render_block_file:
  "run_files (render_block dot d r b) f =
     (case dot (block_content b) of
        Inr svg \<Rightarrow> if svg \<noteq> [] \<and> f = path_join d (block_name b @ js ''.svg'') then Some svg else run_files r f
      | Inl _ \<Rightarrow> run_files r f)"
  by (auto simp: render_block_def renderToSvg_def print_def write_file_def complain_def split: sum.splits)

lemma path_join_inject [simp]: "path_join d a = path_join d b \<longleftrightarrow> a = b"
  by (simp add: path_join_def)

lemma render_blocks_last:
  assumes "dot (block_content b) = Inr svg" "svg \<noteq> []" "block_name b \<notin> block_name ` set later"
  shows "run_files (foldl (render_block dot d) r (earlier @ b # later)) (path_join d (block_name b @ js ''.svg'')) = Some svg"
proof -
  have "run_files (foldl (render_block dot d) r later) (path_join d (block_name b @ js ''.svg'')) =
      run_files r (path_join d (block_name b @ js ''.svg''))" for r
    using assms(3) by (induction later arbitrary: r) (auto simp: render_block_file split: sum.splits)
  then show ?thesis using assms(1,2) by (simp add: render_block_file)
qed

end
