(* ===== verification/Spec2Isabelle.thy ===== *)
theory Spec2Isabelle
  imports Pages Auto_Commit Typing File_Tree Hexagon Particles Icon_Pictures Retro_Grid Grids Waiting Graph_Render
begin

text \<open>
  \<^bold>\<open>KubeCell: the program and this development.\<close>

  KubeCell is a Kubernetes operator written in Go together with its web site, a statically
  exported Next.js application in TypeScript under \<open>website/\<close>, and a commit hook in JavaScript
  under \<open>.opencode/plugins\<close>. The development verifies the TypeScript and JavaScript code: every
  page of the site with the components it is made of, the library code, navigation and code
  listings, the generator of the crawler files, the interactive components that keep state, the
  hook, and the two tools kept under \<open>.agents/skills\<close>.

  \<^bold>\<open>Parts of the program and how they interact.\<close>

  \<^item> \<open>lib/highlight.ts\<close> cuts a line of source text into coloured tokens; \<open>code-block.tsx\<close> calls
    it for every line of a listing and hands the same text to \<open>copy-button.tsx\<close>.
  \<^item> \<open>lib/site.ts\<close> and \<open>lib/docs-nav.ts\<close> hold the pages of the site. The header, the footer, the
    sidebar and the pager render links from these tables, \<open>lib/metadata.ts\<close> the metadata of a
    page, and \<open>scripts/generate-seo.ts\<close> writes sitemap, robots file and web manifest from them.
  \<^item> \<open>auto-commit.js\<close> commits the tracked changes when a session becomes idle. It runs \<open>git\<close>,
    asks a language model for a message in a helper session, races that against a timer, and
    keeps two variables between events: a flag that a run is under way, and the helper sessions
    whose own events it has to ignore.
  \<^item> The files \<open>page.tsx\<close> under \<open>website/app\<close> are the pages. Each is built from the components under
    \<open>components\<close> and stands in the layouts \<open>app/layout.tsx\<close> and \<open>app/docs/layout.tsx\<close>; each but the
    one of the home page exports metadata. The sections of the home page are in \<open>components/home\<close>, those of the
    architecture page in \<open>components/architecture\<close>, buttons, tabs and the like in \<open>components/ui\<close>.
  \<^item> \<open>magicui/typing-animation.tsx\<close> and \<open>magicui/terminal.tsx\<close> show text step by step, driven by
    timers; the children of a terminal talk to it through two React contexts.
  \<^item> \<open>magicui/file-tree.tsx\<close> sorts, renders, expands and selects a tree of files;
    \<open>architecture/repo-tree.tsx\<close> uses it for the tree of the repository.
  \<^item> The other components of \<open>magicui\<close> are backgrounds (honeycomb, particles, perspective grid,
    dots, moving, hovered and flickering squares), an icon cloud, animated texts (reveal,
    rotating words, growing list, ticking number, sparkles) and effects around other elements.
    They are driven by frame callbacks, timers, pointer events and observers.

  \<^bold>\<open>Theories.\<close>

  \<^item> \<open>Prelude\<close>: strings as sequences of UTF-16 code units, with the string operations of the
    language that the site uses; \<open>reach\<close>, the states an event-driven component can get into,
    and the interface \<open>component\<close> (initial states, steps, an invariant they keep), which every
    stateful component below interprets on its own definitions.
  \<^item> \<open>Js_Regex\<close>: ordered, backtracking matching of the regular expressions of the source
    (\<open>rem\<close>, \<open>search\<close>, \<open>groups\<close>), and \<open>exec_loop\<close>, the loop \<open>while ((m = pattern.exec(s)))\<close> of a
    global pattern. The loop is a partial function whose value is \<open>None\<close> when it does not end;
    the interface \<open>global_pattern\<close> (a pattern that never matches the empty string) gives that
    it ends and that what it visits, put together, is the input.
  \<^item> \<open>Json\<close>: \<open>JSON.stringify\<close> with indentation and \<open>JSON.parse\<close>, and that the second inverts
    the first. \<open>Vdom\<close>: React elements, the text a reader sees, the links a reader can follow.
  \<^item> \<open>Highlight\<close> (\<open>lib/highlight.ts\<close>): the five tokenizers, one definition per function of the
    source, the patterns as terms. Interfaces \<open>total_lexer\<close> and \<open>exact_lexer\<close>, interpreted by
    the tokenizers of the four languages.
  \<^item> \<open>Code_Block\<close> (\<open>code-block.tsx\<close>, \<open>copy-button.tsx\<close>): the rows of a listing, and the copy
    button as a state machine with its 1600 ms timers.
  \<^item> \<open>Site\<close> (\<open>lib/site.ts\<close>, \<open>lib/docs-nav.ts\<close>, \<open>lib/metadata.ts\<close>, \<open>site-header.tsx\<close>,
    \<open>site-footer.tsx\<close>, \<open>docs-sidebar.tsx\<close>, \<open>docs-pager.tsx\<close>, \<open>scripts/generate-seo.ts\<close>): the
    tables, the rendered navigation, the generated files. Interface \<open>page_sequence\<close>.
  \<^item> \<open>Page_Frame\<close> (\<open>app/layout.tsx\<close>, \<open>app/docs/layout.tsx\<close>, \<open>json-ld.tsx\<close>, \<open>section.tsx\<close>,
    \<open>callout.tsx\<close>, \<open>scroll-progress.tsx\<close>, \<open>lib/faq.ts\<close>, \<open>app/docs/faq/page.tsx\<close>,
    \<open>faq-preview.tsx\<close>): the layouts around every page, built from the navigation of \<open>Site\<close>, and
    the structured data for crawlers, built from the tables.
  \<^item> \<open>Page_Model\<close>: what a page has to satisfy. \<open>fits\<close> is a typing judgement for element trees, which
    element may stand where; further the outline of headings, anchors, keys of siblings, and the
    listings of a page. Interfaces \<open>page_core\<close> and \<open>site_page\<close>, interpreted by every page.
  \<^item> \<open>Docs_Guide\<close>, \<open>Docs_Reference\<close>, \<open>Main_Pages\<close>, \<open>Home_Page\<close>: the pages, section by section, with
    their tables and structured data; \<open>Home_Page\<close> takes the states of the animated components as an
    argument. \<open>Architecture_Beam\<close>: the diagrams and \<open>lib/content.ts\<close>. \<open>Wrappers\<close>: decorative components
    of \<open>magicui\<close>, \<open>logo.tsx\<close> and \<open>shimmer-link.tsx\<close>.
  \<^item> \<open>Ui_Kit\<close> (\<open>components/ui\<close>): every component as a function of its properties, and \<open>ui_expand\<close>, which
    renders the components of the kit in a tree. Interface \<open>ui_library\<close>.
  \<^item> \<open>Pages\<close>: all pages with their addresses, the documents they become in the layouts, and the
    metadata of pages and layout.
  \<^item> \<open>Commit_Message\<close>, \<open>Auto_Commit\<close> (\<open>auto-commit.js\<close>): reading a message from a reply, and the
    hook. An asynchronous function is a tree of type \<open>prog\<close> that branches on the answer to each
    \<open>await\<close>; \<open>bind\<close>, \<open>catch\<close> and \<open>finally_do\<close> are sequence, \<open>try/catch\<close> and \<open>finally\<close>.
    \<open>hook_step\<close> interleaves any number of handlers at their \<open>await\<close>s. \<open>spec_step\<close> is the
    specification, one commit at a time; a simulation relates the two.
  \<^item> \<open>Typing\<close> (\<open>typing-animation.tsx\<close>), \<open>Terminal_Seq\<close> (\<open>terminal.tsx\<close>): state records with the
    names of the hooks' states, one definition per effect or callback, a step relation that
    lets timers, observers and re-renderings happen in any order.
  \<^item> \<open>File_Tree\<close> (\<open>file-tree.tsx\<close>, \<open>repo-tree.tsx\<close>): sorting (a stable insertion sort, the
    result every stable sort has; interface \<open>comparator\<close>), rendering, expansion and selection.
  \<^item> \<open>Hexagon\<close>, \<open>Particles\<close>, \<open>Icon_Cloud\<close>, \<open>Retro_Grid\<close>, \<open>Grids\<close>: geometry and drawing over the
    real numbers, most of them state machines like the above. \<open>Retro_Grid\<close> keeps an account of
    the live WebGL objects and the pending frame callbacks, and translates the fragment shader.
    \<open>Icon_Pictures\<close> holds the canvases and image addresses of the icon cloud, with \<open>btoa\<close>.
    \<open>Grids\<close> holds four grids of \<open>magicui\<close> (\<open>dot-pattern.tsx\<close>, \<open>interactive-grid-pattern.tsx\<close>,
    \<open>animated-grid-pattern.tsx\<close>, \<open>flickering-grid.tsx\<close>) over the interface \<open>cell_numbering\<close>.
  \<^item> \<open>Text_Effects\<close>, \<open>Pointer_Effects\<close>, \<open>Layout_Effects\<close>: fifteen further components of
    \<open>magicui\<close>; each theory names its files. \<open>Beam_Life\<close>: a beam over time, with its observer.
  \<^item> \<open>Waiting\<close> (\<open>condition-based-waiting-example.ts\<close>): the chain of calls as a partial function, over the
    interface \<open>polling\<close> of a clock. \<open>Graph_Render\<close> (\<open>render-graphs.js\<close>): the diagrams of a document, the
    files the tool writes and its exits.

  \<^bold>\<open>What the theorems show.\<close>

  \<^item> Highlighting and listings, C1 to C6: every tokenizer ends on every line; except for the
    shell nothing of a line is lost, and in the shell only white space, which it does lose;
    JSON keys are never recognised; a listing has a row for each line of its source, which
    shows it to that extent, and copies the source; a confirmation is taken back in time.
  \<^item> Commit hook, C7 to C11: it refines the specification of a serial committer, however events
    interleave; it never stays busy; what one event does on every path; no helper session is
    left behind, and what comes of it depends on the prompt alone; when a subject is empty.
  \<^item> Navigation and crawler files, C12 to C14 and C20: the pager walks through all pages and back; at
    most one entry of the primary navigation is active; the sitemap lists the routes and nothing
    else; the three generated files agree with each other.
  \<^item> Pages, C15 to C19 and C21 to C25: no document of the site has a dead link, before or after the
    user interface kit is rendered; the page files are the routes of the sitemap; elements stand
    only where HTML allows them; keys and anchors are distinct; what the listings show; the structured
    data can be read back, stays in its element and agrees with the pages; the previews of pages
    lose their image; the beams of the diagram join the centres of its boxes, however it is resized
    and scrolled; rendering the kit keeps the words, links and anchors of every page.
  \<^item> Animated text, C26 to C29: what is shown is a prefix cut between code points; without
    \<open>loop\<close> the animation ends after a stated number of callbacks; the lines of a terminal come
    in order, and it comes to its end after at most a stated number of its own moves.
  \<^item> File tree, C30 to C32: order, stability and idempotence of sorting; every element rendered
    once; toggling a folder, and when the list of expanded folders has no repetitions.
  \<^item> Graphics and effects, C33 to C38: the tile covers the honeycomb; the icons stay in the canvas;
    frame callbacks are accounted for and WebGL programs and buffers do not leak; when a revealed
    text stays hidden, for good; a card is dark when the pointer has left.
  \<^item> Tools, C39 and C40: an event that comes in time is not missed; the diagrams of a document are
    found, all of them and nothing else, under their names or numbers.

  The theories hold further theorems on the same definitions, among them: no empty tokens and
  the first comment (\<open>Highlight\<close>), the runs of the hook as sequences of commands
  (\<open>Auto_Commit\<close>), the inverse of next and previous and the links of the navigation (\<open>Site\<close>), the
  outline of the headings and the delays of the terminal (\<open>Pages\<close>), that the kit hands on the properties it is given
  (\<open>Ui_Kit\<close>), the loop that never rests (\<open>Typing\<close>), opening all folders and the way to a selected
  element (\<open>File_Tree\<close>), the visible gap and unique edges (\<open>Hexagon\<close>), the number and opacity of
  particles and the colours they read (\<open>Particles\<close>), the frame loop of the icons and the icon that is
  clicked (\<open>Icon_Cloud\<close>), when preparing the icons fails (\<open>Icon_Pictures\<close>), the range of the shader's
  colours and when a shader is not deleted (\<open>Retro_Grid\<close>), grids that tile their area,
  squares that stay on their grid and flicker while they are seen (\<open>Grids\<close>), the sweep from left to
  right, lists that grow to their end, numbers that reach their target and sparkles
  (\<open>Text_Effects\<close>), annotations that are removed and a second parser of colours
  (\<open>Pointer_Effects\<close>), layers of a blur, percentages and revealed words (\<open>Layout_Effects\<close>), that
  every wait ends (\<open>Waiting\<close>), and that the pictures of diagrams stay in their directory (\<open>Graph_Render\<close>).

  C4, C11, C19, C23, C37 and C38 record behaviour that is probably not intended: JSON keys shown
  as strings, empty commit subjects, commands joined to their flags, previews without their image, a text that stays hidden, and a
  card that cannot change its mode; so do the theorems on lost blanks in shell listings, on a shader
  that is not deleted when the other one does not compile, on twice the requested number of
  particles, on the two titles of the home page, on delays without effect, on the value that a
  progress bar does not hand on, on icons that hide images, and on diagrams with the same name.

  \<^bold>\<open>Parameters and idealisations.\<close> Code that is not part of the repository is an argument of the
  definitions that use it: \<open>cn\<close> (two packages behind \<open>lib/utils.ts\<close>), the serialisation of an
  address by \<open>URL\<close>, the environment variable and the date of the build, the collation key behind
  \<open>Intl.Collator\<close>, the text of a number, the random numbers, measured sizes, what the browser
  answers when WebGL objects are created, the shader's derivative \<open>fwidth\<close>, the class names of a
  variant, the merging of metadata objects, the events of a thread and the times of its polling. The
  primitives of the component library and the icons are elements of their own. The answers of \<open>git\<close>
  and of the client of the hook are arbitrary, rejections included. Which timer, observer,
  answer or pointer event comes next is left open by the step relations; a change of the browser's
  state and the event that reports it, and a rendering and its effects, are one step each. The
  configured address is valid, so \<open>new URL\<close> does not raise, and the objects a model answers with have no
  member \<open>toString\<close>, so \<open>String\<close> does not. Coordinates, angles
  and opacities are real numbers and delays rational numbers instead of floating point numbers,
  so no statement is about rounding, apart from \<open>toFixed\<close>, which is modelled where the source
  calls it. No definition uses fuel; the two loops that might run for ever are partial functions:
  \<open>exec_loop\<close> is proved to end for every pattern of the source, and \<open>poll\<close> for every clock that keeps
  the promise of \<open>setTimeout\<close>.

  \<^bold>\<open>Not modelled.\<close> \<open>lib/utils.ts\<close>, whose only function calls two packages and is the parameter
  \<open>cn\<close>; style sheets and the animations they run; type declarations that say nothing a definition
  does not have; and the Go operator with its charts, tests and tools.
\<close>

end
